(* ===== verification/Prelude.thy ===== *)
theory Prelude
  imports Main "HOL-Library.Word" "HOL-Library.Signed_Division"
begin

text \<open>
  Shared vocabulary of the development: the machine types of the C code, the outcome of code that
  may run into undefined behaviour, the two scanning idioms every component of the system is written
  with (the first array slot that satisfies a test, and the number of slots that satisfy a test),
  and the generic facts about them that the component theories use.
\<close>

section \<open>Machine types\<close>

type_synonym byte = "8 word"
type_synonym u32 = "32 word"
type_synonym u64 = "64 word"

text \<open>
  File descriptors, job identifiers and the like are C \<open>int\<close>s. They are modelled by \<^typ>\<open>int\<close>;
  \<open>in_c_int\<close> is the range of the 32-bit type, and arithmetic that may leave it is written with
  \<open>c_mul\<close>, whose result \<^const>\<open>None\<close> stands for the undefined behaviour of signed overflow.
\<close>

definition in_c_int :: "int \<Rightarrow> bool" where
  "in_c_int x \<longleftrightarrow> - (2 ^ 31) \<le> x \<and> x < 2 ^ 31"

definition c_mul :: "int \<Rightarrow> int \<Rightarrow> int option" where
  "c_mul a b = (if in_c_int (a * b) then Some (a * b) else None)"

text \<open>
  \<open>memcpy\<close> of \<open>n\<close> bytes out of an object of \<open>length bs\<close> bytes: reading past the end is undefined.
\<close>

definition mem_read :: "'a list \<Rightarrow> nat \<Rightarrow> 'a list option" where
  "mem_read bs n = (if n \<le> length bs then Some (take n bs) else None)"

named_theorems scan_simps
named_theorems count_simps
named_theorems word_conv

section \<open>First slot of an array that satisfies a test\<close>

text \<open>
  \<open>find_slot P xs\<close> is the loop \<open>for (i = 0; i < n; i++) if (P(a[i])) return i;\<close> with the early
  return as \<^const>\<open>Some\<close>.
\<close>

fun find_slot :: "('a \<Rightarrow> bool) \<Rightarrow> 'a list \<Rightarrow> nat option" where
  "find_slot P [] = None"
| "find_slot P (x # xs) = (if P x then Some 0 else map_option Suc (find_slot P xs))"

lemma find_slot_None_iff [scan_simps]: "find_slot P xs = None \<longleftrightarrow> (\<forall>x \<in> set xs. \<not> P x)"
  by (induction xs) auto

lemma find_slot_SomeD:
  assumes "find_slot P xs = Some i"
  shows "i < length xs" and "P (xs ! i)" and "\<forall>j < i. \<not> P (xs ! j)"
proof -
  have "i < length xs \<and> P (xs ! i) \<and> (\<forall>j < i. \<not> P (xs ! j))"
    using assms
  proof (induction xs arbitrary: i)
    case (Cons x xs)
    show ?case
    proof (cases "P x")
      case False
      with Cons.prems obtain k where k: "find_slot P xs = Some k" "i = Suc k" by auto
      with Cons.IH[OF k(1)] False show ?thesis by (auto simp: less_Suc_eq_0_disj)
    qed (use Cons.prems in auto)
  qed simp
  then show "i < length xs" and "P (xs ! i)" and "\<forall>j < i. \<not> P (xs ! j)" by auto
qed

lemma find_slot_SomeI:
  assumes "i < length xs" and "P (xs ! i)" and "\<And>j. j < i \<Longrightarrow> \<not> P (xs ! j)"
  shows "find_slot P xs = Some i"
  using assms
proof (induction xs arbitrary: i)
  case (Cons x xs)
  show ?case
  proof (cases i)
    case 0
    with Cons.prems show ?thesis by simp
  next
    case (Suc k)
    have "\<not> P x" using Cons.prems(3)[of 0] Suc by simp
    moreover have "find_slot P xs = Some k"
      using Cons.prems Suc by (intro Cons.IH) force+
    ultimately show ?thesis using Suc by simp
  qed
qed simp

lemma find_slot_Some_iff [scan_simps]:
  "find_slot P xs = Some i \<longleftrightarrow> i < length xs \<and> P (xs ! i) \<and> (\<forall>j < i. \<not> P (xs ! j))"
  using find_slot_SomeD find_slot_SomeI by metis

lemma find_slot_ex: "\<exists>x \<in> set xs. P x \<Longrightarrow> \<exists>i. find_slot P xs = Some i"
  using find_slot_None_iff[of P xs] by (cases "find_slot P xs") auto

lemma find_slot_unique:
  assumes "i < length xs" and "P (xs ! i)"
    and "\<And>j. j < length xs \<Longrightarrow> P (xs ! j) \<Longrightarrow> j = i"
  shows "find_slot P xs = Some i"
proof (rule find_slot_SomeI)
  show "i < length xs" and "P (xs ! i)" by (fact assms)+
  fix j assume "j < i"
  then show "\<not> P (xs ! j)" using assms(1) assms(3)[of j] by linarith
qed

section \<open>Number of slots that satisfy a test\<close>

definition icount :: "('a \<Rightarrow> bool) \<Rightarrow> 'a list \<Rightarrow> int" where
  "icount P xs = int (length (filter P xs))"

lemma icount_Nil [count_simps]: "icount P [] = 0"
  by (simp add: icount_def)

lemma icount_Cons [count_simps]: "icount P (x # xs) = of_bool (P x) + icount P xs"
  by (simp add: icount_def)

lemma icount_append [count_simps]: "icount P (xs @ ys) = icount P xs + icount P ys"
  by (simp add: icount_def)

lemma icount_nonneg [simp]: "0 \<le> icount P xs"
  by (simp add: icount_def)

lemma icount_le_length: "icount P xs \<le> int (length xs)"
  by (simp add: icount_def)

lemma icount_update [count_simps]:
  "i < length xs \<Longrightarrow> icount P (xs[i := y]) = icount P xs - of_bool (P (xs ! i)) + of_bool (P y)"
proof (induction xs arbitrary: i)
  case (Cons x xs)
  then show ?case by (cases i) (auto simp: count_simps)
qed simp

lemma icount_replicate [count_simps]: "icount P (replicate n x) = int n * of_bool (P x)"
  by (simp add: icount_def)

lemma icount_full_iff: "icount P xs = int (length xs) \<longleftrightarrow> (\<forall>x \<in> set xs. P x)"
proof (induction xs)
  case (Cons x xs)
  then show ?case using icount_le_length[of P xs] by (auto simp: count_simps)
qed (simp add: count_simps)

lemma icount_pos_iff: "0 < icount P xs \<longleftrightarrow> (\<exists>x \<in> set xs. P x)"
  by (auto simp: icount_def filter_empty_conv)

lemma icount_map_cong:
  "(\<And>x. x \<in> set xs \<Longrightarrow> P (f x) = Q x) \<Longrightarrow> icount P (map f xs) = icount Q xs"
  by (induction xs) (auto simp: count_simps)

lemma icount_or_disjoint:
  "(\<And>x. x \<in> set xs \<Longrightarrow> \<not> (P x \<and> Q x)) \<Longrightarrow> icount (\<lambda>x. P x \<or> Q x) xs = icount P xs + icount Q xs"
  by (induction xs) (auto simp: count_simps)

lemma icount_False [simp]: "icount (\<lambda>x. False) xs = 0"
  by (simp add: icount_def)

section \<open>Arrays of which a prefix is in use\<close>

lemma take_Suc_update: "n < length xs \<Longrightarrow> take (Suc n) (xs[n := x]) = take n xs @ [x]"
  by (simp add: take_Suc_conv_app_nth take_update_swap list_update_append)

lemma take_update_prefix: "take n (xs[i := y]) = (take n xs)[i := y]"
  by (simp add: take_update_swap)

section \<open>Indices modulo a capacity\<close>

lemma mod_index_inj:
  fixes h i j c :: nat
  assumes "i < c" and "j < c" and "(h + i) mod c = (h + j) mod c"
  shows "i = j"
proof -
  have "(int h + int i) mod int c = (int h + int j) mod int c"
    using assms(3) by (metis of_nat_add zmod_int)
  then have "(int h + int i - int h) mod int c = (int h + int j - int h) mod int c"
    by (metis mod_diff_cong)
  then show ?thesis using assms(1,2) by simp
qed

lemma mod_index_Suc: "(Suc h mod c + i) mod c = Suc (h + i) mod (c :: nat)"
  by (simp add: mod_simps)

section \<open>Word arithmetic without wrap-around\<close>

lemma unat_eq_word_iff [word_conv]: "unat a = unat b \<longleftrightarrow> a = (b :: u32)"
  by (auto intro: unsigned_word_eqI)

lemma unat_Suc_below [word_conv]:
  fixes t c :: u32
  assumes "unat t < unat c"
  shows "unat (t + 1) = unat t + 1"
proof -
  have "unat c < 2 ^ 32" using unsigned_less[of c] by simp
  with assms show ?thesis by (simp add: unat_word_ariths)
qed

lemma unat_inc_mod [word_conv]:
  fixes t c :: u32
  assumes "unat t < unat c"
  shows "unat ((t + 1) mod c) = (unat t + 1) mod unat c"
  using assms by (simp add: unat_mod unat_Suc_below)

lemma unat_dec [word_conv]:
  fixes t :: u32
  assumes "t \<noteq> 0"
  shows "unat (t - 1) = unat t - 1"
  using assms by (simp add: unat_minus_one)

end
