(* ===== verification/Keyed_Table.thy ===== *)
theory Keyed_Table
  imports Prelude
begin

text \<open>
  The contract shared by the operations of the central server that look an entry up by its
  identifier in an array and change it in place: \<open>worker_registry_update_status\<close>,
  \<open>worker_registry_update_heartbeat\<close>, \<open>task_manager_assign_task\<close>, \<open>task_manager_process_result\<close>.
  Each scans for the first entry with the identifier, rewrites it and returns 0, or returns -1
  and changes nothing.
\<close>

definition lookup_key :: "('r \<Rightarrow> u32) \<Rightarrow> u32 \<Rightarrow> 'r list \<Rightarrow> 'r option" where
  "lookup_key key k rs = map_option (nth rs) (find_slot (\<lambda>r. key r = k) rs)"

lemma lookup_key_None_iff: "lookup_key key k rs = None \<longleftrightarrow> k \<notin> key ` set rs"
  by (auto simp: lookup_key_def find_slot_None_iff)

lemma lookup_key_Some:
  assumes "lookup_key key k rs = Some r"
  shows "r \<in> set rs" and "key r = k"
  using assms by (auto simp: lookup_key_def dest: find_slot_SomeD)

lemma find_slot_update_same_key:
  assumes "key y = key (rs ! i)" and "i < length rs"
  shows "find_slot (\<lambda>r. key r = k) (rs[i := y]) = find_slot (\<lambda>r. key r = k) rs"
  using assms
proof (induction rs arbitrary: i)
  case (Cons r rs)
  then show ?case by (cases i) auto
qed simp

lemma map_update_same_key: "key y = key (rs ! i) \<Longrightarrow> map key (rs[i := y]) = map key rs"
  by (metis list_update_id map_update)

locale keyed_update =
  fixes entries :: "'t \<Rightarrow> 'r list"
    and key :: "'r \<Rightarrow> u32"
    and upd :: "u32 \<Rightarrow> 't \<Rightarrow> int \<times> 't"
    and f :: "'r \<Rightarrow> 'r"
    and ok :: "u32 \<Rightarrow> bool"
  assumes key_f: "key (f r) = key r"
    and upd_found: "ok k \<Longrightarrow> find_slot (\<lambda>r. key r = k) (entries t) = Some i \<Longrightarrow>
          fst (upd k t) = 0 \<and> entries (snd (upd k t)) = (entries t)[i := f (entries t ! i)]"
    and upd_missing: "\<not> ok k \<or> find_slot (\<lambda>r. key r = k) (entries t) = None \<Longrightarrow> upd k t = (-1, t)"
begin

lemma upd_code: "fst (upd k t) = (if ok k \<and> k \<in> key ` set (entries t) then 0 else -1)"
proof (cases "find_slot (\<lambda>r. key r = k) (entries t)")
  case None
  then show ?thesis using upd_missing[of k t] by (auto simp: find_slot_None_iff)
next
  case (Some i)
  then have "k \<in> key ` set (entries t)" using find_slot_SomeD[OF Some] by force
  then show ?thesis using upd_found[OF _ Some] upd_missing[of k t] by auto
qed

lemma upd_keys: "map key (entries (snd (upd k t))) = map key (entries t)"
proof (cases "ok k \<and> find_slot (\<lambda>r. key r = k) (entries t) \<noteq> None")
  case True
  then obtain i where "find_slot (\<lambda>r. key r = k) (entries t) = Some i" by auto
  then show ?thesis using True upd_found by (simp add: map_update_same_key key_f)
qed (use upd_missing in auto)

lemma upd_length: "length (entries (snd (upd k t))) = length (entries t)"
  using upd_keys by (metis length_map)

lemma lookup_upd_same:
  assumes "ok k"
  shows "lookup_key key k (entries (snd (upd k t))) = map_option f (lookup_key key k (entries t))"
proof (cases "find_slot (\<lambda>r. key r = k) (entries t)")
  case None
  then show ?thesis using upd_missing[of k t] by (simp add: lookup_key_def)
next
  case (Some i)
  have "i < length (entries t)" using find_slot_SomeD(1)[OF Some] .
  then show ?thesis
    using upd_found[OF assms Some] Some
    by (simp add: lookup_key_def find_slot_update_same_key key_f)
qed

lemma lookup_upd_other:
  assumes "k' \<noteq> k"
  shows "lookup_key key k' (entries (snd (upd k t))) = lookup_key key k' (entries t)"
proof (cases "ok k \<and> find_slot (\<lambda>r. key r = k) (entries t) \<noteq> None")
  case True
  then obtain i where i: "find_slot (\<lambda>r. key r = k) (entries t) = Some i" by auto
  have il: "i < length (entries t)" and ik: "key (entries t ! i) = k"
    using find_slot_SomeD(1,2)[OF i] .
  have same: "find_slot (\<lambda>r. key r = k') ((entries t)[i := f (entries t ! i)]) =
      find_slot (\<lambda>r. key r = k') (entries t)"
    using il by (simp add: find_slot_update_same_key key_f)
  have "find_slot (\<lambda>r. key r = k') (entries t) = Some j \<Longrightarrow> j \<noteq> i" for j
    using find_slot_SomeD(2)[of "\<lambda>r. key r = k'" "entries t" j] ik assms by auto
  then show ?thesis
    using upd_found[OF _ i] True same
    by (cases "find_slot (\<lambda>r. key r = k') (entries t)") (auto simp: lookup_key_def)
qed (use upd_missing in auto)

lemma upd_set:
  "set (entries (snd (upd k t))) \<subseteq> set (entries t) \<union> f ` {r \<in> set (entries t). key r = k}"
proof (cases "ok k \<and> find_slot (\<lambda>r. key r = k) (entries t) \<noteq> None")
  case True
  then obtain i where i: "find_slot (\<lambda>r. key r = k) (entries t) = Some i" by auto
  then show ?thesis
    using upd_found[OF _ i] True find_slot_SomeD(1,2)[OF i] set_update_subset_insert[of "entries t" i]
    by fastforce
qed (use upd_missing in auto)

end

end
