(* ===== verification/Worker_Registry.thy ===== *)
theory Worker_Registry
  imports Keyed_Table
begin

text \<open>
  The worker registry of the central server (\<open>central_server/worker_registry.c\<close>): an array of
  worker descriptions of which the first \<open>count\<close> are in use. A registry pointer may be \<open>NULL\<close>
  (\<^const>\<open>None\<close>). \<open>now\<close> is the value of \<open>time(NULL)\<close>; sockets the code closes are part of the
  result. The theory shows that the array refines a list of workers (adding appends, removing
  deletes one element and closes its socket), the behaviour of every query and update, the exact
  effect of a timeout sweep, and when identifiers are unique and when they are not.
\<close>

section \<open>Data\<close>

datatype worker_status_t = WORKER_STATUS_IDLE | WORKER_STATUS_BUSY | WORKER_STATUS_DISCONNECTED

record worker_info_t =
  wi_worker_id :: u32
  wi_sockfd :: int
  wi_status :: worker_status_t
  wi_last_heartbeat :: int
  wi_tasks_completed :: u32
  wi_tasks_failed :: u32
  wi_thread_id :: nat

record worker_registry_t =
  wr_workers :: "worker_info_t list"
  wr_capacity :: u32
  wr_count :: u32

text \<open>The part of the array in use.\<close>

definition registered :: "worker_registry_t \<Rightarrow> worker_info_t list" where
  "registered reg = take (unat (wr_count reg)) (wr_workers reg)"

section \<open>Operations\<close>

text \<open>
  Construction depends on two allocations and the mutex; \<open>mem\<close> is what the fresh array holds.
\<close>

definition worker_registry_create ::
  "bool \<Rightarrow> bool \<Rightarrow> bool \<Rightarrow> (nat \<Rightarrow> worker_info_t) \<Rightarrow> u32 \<Rightarrow> worker_registry_t option" where
  "worker_registry_create struct_alloc array_alloc mutex_init mem capacity =
     (if capacity = 0 then None
      else if \<not> struct_alloc then None
      else if \<not> array_alloc then None
      else if \<not> mutex_init then None
      else Some \<lparr>wr_workers = map mem [0..<unat capacity], wr_capacity = capacity, wr_count = 0\<rparr>)"

definition worker_registry_destroy :: "worker_registry_t option \<Rightarrow> int list" where
  "worker_registry_destroy rp =
     (case rp of None \<Rightarrow> []
      | Some reg \<Rightarrow> filter (\<lambda>fd. fd \<ge> 0) (map wi_sockfd (registered reg)))"

definition worker_registry_add ::
  "int \<Rightarrow> worker_registry_t option \<Rightarrow> int \<Rightarrow> nat \<Rightarrow> u32 \<times> worker_registry_t option" where
  "worker_registry_add now rp sockfd thread_id =
     (case rp of None \<Rightarrow> (0, rp)
      | Some reg \<Rightarrow>
          if sockfd < 0 then (0, rp)
          else if wr_count reg \<ge> wr_capacity reg then (0, rp)
          else
            let worker_id = wr_count reg + 1;
                w = \<lparr>wi_worker_id = worker_id, wi_sockfd = sockfd, wi_status = WORKER_STATUS_IDLE,
                     wi_last_heartbeat = now, wi_tasks_completed = 0, wi_tasks_failed = 0,
                     wi_thread_id = thread_id\<rparr>
            in (worker_id, Some (reg\<lparr>wr_workers := (wr_workers reg)[unat (wr_count reg) := w],
                                     wr_count := wr_count reg + 1\<rparr>)))"

definition find_worker :: "worker_registry_t \<Rightarrow> u32 \<Rightarrow> nat option" where
  "find_worker reg worker_id = find_slot (\<lambda>w. wi_worker_id w = worker_id) (registered reg)"

text \<open>
  \<open>memmove\<close> of the entries after position \<open>i\<close> one place down within the first \<open>count\<close>.
\<close>

definition shift_down :: "nat \<Rightarrow> nat \<Rightarrow> 'a list \<Rightarrow> 'a list" where
  "shift_down i n xs = take i xs @ take (n - i - 1) (drop (i + 1) xs) @ drop (n - 1) xs"

definition worker_registry_remove ::
  "worker_registry_t option \<Rightarrow> u32 \<Rightarrow> (int \<times> worker_registry_t option) \<times> int list" where
  "worker_registry_remove rp worker_id =
     (case rp of None \<Rightarrow> ((-1, rp), [])
      | Some reg \<Rightarrow>
          if worker_id = 0 then ((-1, rp), [])
          else (case find_worker reg worker_id of
                  None \<Rightarrow> ((-1, rp), [])
                | Some i \<Rightarrow>
                    let fd = wi_sockfd (wr_workers reg ! i);
                        closed = (if fd \<ge> 0 then [fd] else []);
                        ws = (if i < unat (wr_count reg - 1)
                              then shift_down i (unat (wr_count reg)) (wr_workers reg)
                              else wr_workers reg)
                    in ((0, Some (reg\<lparr>wr_workers := ws, wr_count := wr_count reg - 1\<rparr>)), closed)))"

text \<open>\<open>worker_registry_get\<close> returns a pointer into the array: the index of the entry.\<close>

definition worker_registry_get :: "worker_registry_t option \<Rightarrow> u32 \<Rightarrow> nat option" where
  "worker_registry_get rp worker_id =
     (case rp of None \<Rightarrow> None
      | Some reg \<Rightarrow> if worker_id = 0 then None else find_worker reg worker_id)"

definition worker_registry_update_status ::
  "worker_registry_t option \<Rightarrow> u32 \<Rightarrow> worker_status_t \<Rightarrow> int \<times> worker_registry_t option" where
  "worker_registry_update_status rp worker_id status =
     (case rp of None \<Rightarrow> (-1, rp)
      | Some reg \<Rightarrow>
          if worker_id = 0 then (-1, rp)
          else (case find_worker reg worker_id of
                  None \<Rightarrow> (-1, rp)
                | Some i \<Rightarrow>
                    (0, Some (reg\<lparr>wr_workers :=
                           (wr_workers reg)[i := (wr_workers reg ! i)\<lparr>wi_status := status\<rparr>]\<rparr>))))"

definition worker_registry_update_heartbeat ::
  "int \<Rightarrow> worker_registry_t option \<Rightarrow> u32 \<Rightarrow> int \<times> worker_registry_t option" where
  "worker_registry_update_heartbeat now rp worker_id =
     (case rp of None \<Rightarrow> (-1, rp)
      | Some reg \<Rightarrow>
          if worker_id = 0 then (-1, rp)
          else (case find_worker reg worker_id of
                  None \<Rightarrow> (-1, rp)
                | Some i \<Rightarrow>
                    (0, Some (reg\<lparr>wr_workers :=
                           (wr_workers reg)[i := (wr_workers reg ! i)\<lparr>wi_last_heartbeat := now\<rparr>]\<rparr>))))"

definition worker_registry_find_idle :: "worker_registry_t option \<Rightarrow> u32" where
  "worker_registry_find_idle rp =
     (case rp of None \<Rightarrow> 0
      | Some reg \<Rightarrow>
          (case find_slot (\<lambda>w. wi_status w = WORKER_STATUS_IDLE) (registered reg) of
             None \<Rightarrow> 0
           | Some i \<Rightarrow> wi_worker_id (wr_workers reg ! i)))"

definition worker_registry_count :: "worker_registry_t option \<Rightarrow> u32" where
  "worker_registry_count rp = (case rp of None \<Rightarrow> 0 | Some reg \<Rightarrow> wr_count reg)"

text \<open>One pass over the entries in use; the counter is 32 bits wide.\<close>

definition worker_expired :: "int \<Rightarrow> u32 \<Rightarrow> worker_info_t \<Rightarrow> bool" where
  "worker_expired now timeout_sec w \<longleftrightarrow>
     wi_status w \<noteq> WORKER_STATUS_DISCONNECTED \<and> now - wi_last_heartbeat w > uint timeout_sec"

fun worker_timeout_loop :: "int \<Rightarrow> u32 \<Rightarrow> u32 \<Rightarrow> worker_info_t list \<Rightarrow> u32 \<times> worker_info_t list" where
  "worker_timeout_loop now timeout_sec count [] = (count, [])"
| "worker_timeout_loop now timeout_sec count (w # ws) =
     (let (w', count') = (if worker_expired now timeout_sec w
                          then (w\<lparr>wi_status := WORKER_STATUS_DISCONNECTED\<rparr>, count + 1)
                          else (w, count));
          (n, ws') = worker_timeout_loop now timeout_sec count' ws
      in (n, w' # ws'))"

definition worker_registry_check_timeouts ::
  "int \<Rightarrow> worker_registry_t option \<Rightarrow> u32 \<Rightarrow> u32 \<times> worker_registry_t option" where
  "worker_registry_check_timeouts now rp timeout_sec =
     (case rp of None \<Rightarrow> (0, rp)
      | Some reg \<Rightarrow>
          let (n, ws) = worker_timeout_loop now timeout_sec 0 (registered reg)
          in (n, Some (reg\<lparr>wr_workers := ws @ drop (unat (wr_count reg)) (wr_workers reg)\<rparr>)))"

section \<open>Invariant and abstraction\<close>

definition reg_inv :: "worker_registry_t \<Rightarrow> bool" where
  "reg_inv reg \<longleftrightarrow> length (wr_workers reg) = unat (wr_capacity reg) \<and> wr_count reg \<le> wr_capacity reg"

abbreviation worker_ids :: "worker_registry_t \<Rightarrow> u32 list" where
  "worker_ids reg \<equiv> map wi_worker_id (registered reg)"

lemma reg_count_le: "reg_inv reg \<Longrightarrow> unat (wr_count reg) \<le> length (wr_workers reg)"
  by (simp add: reg_inv_def word_le_nat_alt)

lemma length_registered: "reg_inv reg \<Longrightarrow> length (registered reg) = unat (wr_count reg)"
  by (simp add: registered_def reg_count_le min_absorb2)

lemma registered_update:
  "registered (reg\<lparr>wr_workers := (wr_workers reg)[i := w]\<rparr>) = (registered reg)[i := w]"
  by (simp add: registered_def take_update_swap)

lemma find_worker_bound: "find_worker reg k = Some i \<Longrightarrow> i < length (registered reg)"
  by (simp add: find_worker_def find_slot_Some_iff)

lemma registered_nth: "i < length (registered reg) \<Longrightarrow> wr_workers reg ! i = registered reg ! i"
  by (simp add: registered_def)

lemma create_registered:
  assumes "worker_registry_create a b c mem capacity = Some reg"
  shows "reg_inv reg" and "registered reg = []" and "wr_capacity reg = capacity"
  using assms by (auto simp: worker_registry_create_def reg_inv_def registered_def split: if_splits)

subsection \<open>Adding\<close>

definition fresh_worker :: "int \<Rightarrow> u32 \<Rightarrow> int \<Rightarrow> nat \<Rightarrow> worker_info_t" where
  "fresh_worker now wid sockfd tid =
     \<lparr>wi_worker_id = wid, wi_sockfd = sockfd, wi_status = WORKER_STATUS_IDLE,
      wi_last_heartbeat = now, wi_tasks_completed = 0, wi_tasks_failed = 0, wi_thread_id = tid\<rparr>"

lemma add_success:
  assumes inv: "reg_inv reg" and room: "wr_count reg < wr_capacity reg" and fd: "0 \<le> sockfd"
  shows "\<exists>reg'. worker_registry_add now (Some reg) sockfd tid = (wr_count reg + 1, Some reg') \<and>
           reg_inv reg' \<and> wr_capacity reg' = wr_capacity reg \<and>
           registered reg' = registered reg @ [fresh_worker now (wr_count reg + 1) sockfd tid]"
proof -
  let ?n = "unat (wr_count reg)"
  have n: "?n < unat (wr_capacity reg)" using room by (simp add: word_less_nat_alt)
  have n': "unat (wr_count reg + 1) = Suc ?n" by (simp add: unat_Suc_below[OF n])
  have len: "?n < length (wr_workers reg)" using inv n by (simp add: reg_inv_def)
  have "take (Suc ?n) ((wr_workers reg)[?n := w]) = take ?n (wr_workers reg) @ [w]" for w
    using len by (rule take_Suc_update)
  moreover have "wr_count reg + 1 \<le> wr_capacity reg"
    using n by (simp add: word_le_nat_alt n')
  ultimately show ?thesis
    using inv room fd
    by (simp add: worker_registry_add_def Let_def reg_inv_def registered_def n' fresh_worker_def not_le[symmetric])
qed

lemma add_failure:
  "sockfd < 0 \<or> wr_count reg \<ge> wr_capacity reg \<Longrightarrow>
   worker_registry_add now (Some reg) sockfd tid = (0, Some reg)"
  by (auto simp: worker_registry_add_def)

subsection \<open>Removing\<close>

definition delete_at :: "nat \<Rightarrow> 'a list \<Rightarrow> 'a list" where
  "delete_at i xs = take i xs @ drop (Suc i) xs"

lemma shift_down_prefix:
  assumes "i < n" and "n \<le> length xs"
  shows "take (n - 1) (shift_down i n xs) = delete_at i (take n xs)" and "length (shift_down i n xs) = length xs"
proof -
  have "take (n - Suc i) (drop (Suc i) xs) = drop (Suc i) (take n xs)" using assms by (simp add: drop_take)
  then show "take (n - 1) (shift_down i n xs) = delete_at i (take n xs)"
    using assms by (simp add: shift_down_def delete_at_def min_absorb1)
  show "length (shift_down i n xs) = length xs" using assms by (simp add: shift_down_def)
qed

lemma remove_success:
  assumes inv: "reg_inv reg" and k: "k \<noteq> 0" and i: "find_worker reg k = Some i"
  shows "\<exists>reg'. worker_registry_remove (Some reg) k =
             ((0, Some reg'), if 0 \<le> wi_sockfd (registered reg ! i) then [wi_sockfd (registered reg ! i)] else []) \<and>
           reg_inv reg' \<and> wr_capacity reg' = wr_capacity reg \<and> wr_count reg' = wr_count reg - 1 \<and>
           registered reg' = delete_at i (registered reg)"
proof -
  let ?n = "unat (wr_count reg)"
  have il: "i < ?n" using find_worker_bound[OF i] by (simp add: length_registered[OF inv])
  then have "wr_count reg \<noteq> 0" by auto
  then have n': "unat (wr_count reg - 1) = ?n - 1" by (rule unat_dec)
  have cap: "wr_count reg - 1 \<le> wr_capacity reg"
    using inv unfolding reg_inv_def word_le_nat_alt n' by linarith
  let ?ws = "if i < unat (wr_count reg - 1) then shift_down i ?n (wr_workers reg) else wr_workers reg"
  have "take (?n - 1) ?ws = delete_at i (registered reg)"
  proof (cases "i < ?n - 1")
    case True
    then show ?thesis
      using shift_down_prefix(1)[OF il reg_count_le[OF inv]] by (simp add: n' registered_def)
  next
    case False
    then have "i = ?n - 1" using il by simp
    then show ?thesis
      using length_registered[OF inv] il by (simp add: n' delete_at_def registered_def)
  qed
  moreover have "length ?ws = length (wr_workers reg)"
    using shift_down_prefix(2)[OF il reg_count_le[OF inv]] by simp
  ultimately show ?thesis
    using inv k i cap registered_nth[OF find_worker_bound[OF i]]
    by (simp add: worker_registry_remove_def Let_def reg_inv_def registered_def n')
qed

lemma remove_failure:
  "k = 0 \<or> find_worker reg k = None \<Longrightarrow> worker_registry_remove (Some reg) k = ((-1, Some reg), [])"
  by (auto simp: worker_registry_remove_def)

subsection \<open>In-place updates\<close>

text \<open>Both updates are instances of the keyed-table contract, on the entries in use.\<close>

definition opt_registered :: "worker_registry_t option \<Rightarrow> worker_info_t list" where
  "opt_registered rp = (case rp of None \<Rightarrow> [] | Some reg \<Rightarrow> registered reg)"

interpretation reg_status: keyed_update opt_registered wi_worker_id
  "\<lambda>k rp. worker_registry_update_status rp k st" "\<lambda>w. w\<lparr>wi_status := st\<rparr>" "\<lambda>k. k \<noteq> 0" for st
proof
  fix k i and t :: "worker_registry_t option"
  assume "k \<noteq> 0" and f: "find_slot (\<lambda>r. wi_worker_id r = k) (opt_registered t) = Some i"
  then obtain reg where t: "t = Some reg" by (cases t) (auto simp: opt_registered_def)
  with f have fw: "find_worker reg k = Some i" by (simp add: opt_registered_def find_worker_def)
  then show "fst (worker_registry_update_status t k st) = 0 \<and>
      opt_registered (snd (worker_registry_update_status t k st)) =
      (opt_registered t)[i := (opt_registered t ! i)\<lparr>wi_status := st\<rparr>]"
    using \<open>k \<noteq> 0\<close> registered_nth[OF find_worker_bound[OF fw]]
    by (simp add: t opt_registered_def worker_registry_update_status_def registered_update)
qed (auto simp: worker_registry_update_status_def opt_registered_def find_worker_def split: option.splits)

interpretation reg_beat: keyed_update opt_registered wi_worker_id
  "\<lambda>k rp. worker_registry_update_heartbeat now rp k" "\<lambda>w. w\<lparr>wi_last_heartbeat := now\<rparr>" "\<lambda>k. k \<noteq> 0" for now
proof
  fix k i and t :: "worker_registry_t option"
  assume "k \<noteq> 0" and f: "find_slot (\<lambda>r. wi_worker_id r = k) (opt_registered t) = Some i"
  then obtain reg where t: "t = Some reg" by (cases t) (auto simp: opt_registered_def)
  with f have fw: "find_worker reg k = Some i" by (simp add: opt_registered_def find_worker_def)
  then show "fst (worker_registry_update_heartbeat now t k) = 0 \<and>
      opt_registered (snd (worker_registry_update_heartbeat now t k)) =
      (opt_registered t)[i := (opt_registered t ! i)\<lparr>wi_last_heartbeat := now\<rparr>]"
    using \<open>k \<noteq> 0\<close> registered_nth[OF find_worker_bound[OF fw]]
    by (simp add: t opt_registered_def worker_registry_update_heartbeat_def registered_update)
qed (auto simp: worker_registry_update_heartbeat_def opt_registered_def find_worker_def split: option.splits)

lemma update_status_inv:
  "reg_inv reg \<Longrightarrow> snd (worker_registry_update_status (Some reg) k st) = Some reg' \<Longrightarrow> reg_inv reg'"
  by (auto simp: worker_registry_update_status_def reg_inv_def split: if_splits option.splits)

lemma update_heartbeat_inv:
  "reg_inv reg \<Longrightarrow> snd (worker_registry_update_heartbeat now (Some reg) k) = Some reg' \<Longrightarrow> reg_inv reg'"
  by (auto simp: worker_registry_update_heartbeat_def reg_inv_def split: if_splits option.splits)

subsection \<open>The timeout sweep\<close>

definition expire :: "int \<Rightarrow> u32 \<Rightarrow> worker_info_t \<Rightarrow> worker_info_t" where
  "expire now timeout_sec w =
     (if worker_expired now timeout_sec w then w\<lparr>wi_status := WORKER_STATUS_DISCONNECTED\<rparr> else w)"

lemma worker_timeout_loop_eq:
  "worker_timeout_loop now ts c ws =
     (c + of_nat (length (filter (worker_expired now ts) ws)), map (expire now ts) ws)"
  by (induction now ts c ws rule: worker_timeout_loop.induct) (auto simp: Let_def expire_def)

lemma check_timeouts_eq:
  assumes "reg_inv reg"
  shows "worker_registry_check_timeouts now (Some reg) ts =
     (of_nat (length (filter (worker_expired now ts) (registered reg))),
      Some (reg\<lparr>wr_workers := map (expire now ts) (registered reg) @ drop (unat (wr_count reg)) (wr_workers reg)\<rparr>))"
  by (simp add: worker_registry_check_timeouts_def worker_timeout_loop_eq)

lemma check_timeouts_registered:
  assumes "reg_inv reg"
  shows "\<exists>reg'. snd (worker_registry_check_timeouts now (Some reg) ts) = Some reg' \<and> reg_inv reg' \<and>
           registered reg' = map (expire now ts) (registered reg)"
  using check_timeouts_eq[OF assms, of now ts] assms reg_count_le[OF assms] length_registered[OF assms]
  by (simp add: reg_inv_def registered_def)

lemma expire_not_expired: "\<not> worker_expired now ts (expire now ts w)"
  by (simp add: expire_def worker_expired_def)

subsection \<open>Identifiers\<close>

text \<open>
  Identifiers are computed from the count, so they stay distinct only as long as they number the
  entries.
\<close>

definition numbered :: "worker_registry_t \<Rightarrow> bool" where
  "numbered reg \<longleftrightarrow> worker_ids reg = map of_nat [1..<unat (wr_count reg) + 1]"

lemma of_nat_u32_inj: "a < 2 ^ 32 \<Longrightarrow> b < 2 ^ 32 \<Longrightarrow> of_nat a = (of_nat b :: u32) \<longleftrightarrow> a = b"
  by (simp add: word_of_nat_eq_iff take_bit_nat_eq_self)

lemma distinct_numbered:
  assumes "numbered reg"
  shows "distinct (worker_ids reg)"
proof -
  have "unat (wr_count reg) < 2 ^ 32" using unsigned_less[of "wr_count reg"] by simp
  then have "inj_on (of_nat :: nat \<Rightarrow> u32) (set [1..<unat (wr_count reg) + 1])"
  proof (intro inj_onI)
    fix x y :: nat
    assume "unat (wr_count reg) < 2 ^ 32" and "x \<in> set [1..<unat (wr_count reg) + 1]"
      and "y \<in> set [1..<unat (wr_count reg) + 1]" and eq: "of_nat x = (of_nat y :: u32)"
    then have "x < 2 ^ 32" and "y < 2 ^ 32" by auto
    then show "x = y" using eq of_nat_u32_inj by blast
  qed
  then show ?thesis using assms by (simp add: numbered_def distinct_map del: upt_Suc)
qed

lemma numbered_nth:
  assumes "reg_inv reg" and "numbered reg" and "i < unat (wr_count reg)"
  shows "wi_worker_id (registered reg ! i) = of_nat (Suc i)"
proof -
  have "worker_ids reg ! i = map of_nat [1..<unat (wr_count reg) + 1] ! i"
    using assms(2) by (simp only: numbered_def)
  then show ?thesis using assms(1,3) by (simp add: length_registered del: upt_Suc)
qed

lemma set_delete_at:
  assumes "j < length xs" and "j \<noteq> i"
  shows "xs ! j \<in> set (delete_at i xs)"
proof (cases "j < i")
  case True
  then have "xs ! j \<in> set (take i xs)" using assms by (auto simp: in_set_conv_nth)
  then show ?thesis by (simp add: delete_at_def)
next
  case False
  then have "xs ! j = drop (Suc i) xs ! (j - Suc i)" and "j - Suc i < length (drop (Suc i) xs)"
    using assms by simp_all
  then have "xs ! j \<in> set (drop (Suc i) xs)" by (metis nth_mem)
  then show ?thesis by (simp add: delete_at_def)
qed

section \<open>Properties\<close>

text \<open>C26: The registry array refines a list of workers: with a valid socket and room, adding appends one
  idle worker whose identifier is the new count, and otherwise returns 0 and changes nothing;
  removing a known identifier deletes its first entry, keeps the order of the others and closes
  that worker's socket, and otherwise returns -1 and changes nothing.\<close>

theorem registry_refines_list:
  assumes "reg_inv reg"
  shows "(if 0 \<le> sockfd \<and> wr_count reg < wr_capacity reg
          then \<exists>reg'. worker_registry_add now (Some reg) sockfd tid = (wr_count reg + 1, Some reg') \<and>
                 reg_inv reg' \<and>
                 registered reg' = registered reg @ [fresh_worker now (wr_count reg + 1) sockfd tid]
          else worker_registry_add now (Some reg) sockfd tid = (0, Some reg)) \<and>
         (case worker_registry_get (Some reg) k of
            None \<Rightarrow> worker_registry_remove (Some reg) k = ((-1, Some reg), [])
          | Some i \<Rightarrow> \<exists>reg'. worker_registry_remove (Some reg) k =
                 ((0, Some reg'), if 0 \<le> wi_sockfd (registered reg ! i)
                                  then [wi_sockfd (registered reg ! i)] else []) \<and>
                 reg_inv reg' \<and> registered reg' = delete_at i (registered reg))"
proof (intro conjI)
  show "if 0 \<le> sockfd \<and> wr_count reg < wr_capacity reg
        then \<exists>reg'. worker_registry_add now (Some reg) sockfd tid = (wr_count reg + 1, Some reg') \<and>
               reg_inv reg' \<and>
               registered reg' = registered reg @ [fresh_worker now (wr_count reg + 1) sockfd tid]
        else worker_registry_add now (Some reg) sockfd tid = (0, Some reg)"
    using add_success[OF assms] add_failure[of sockfd reg] by fastforce
  show "case worker_registry_get (Some reg) k of
          None \<Rightarrow> worker_registry_remove (Some reg) k = ((-1, Some reg), [])
        | Some i \<Rightarrow> \<exists>reg'. worker_registry_remove (Some reg) k =
               ((0, Some reg'), if 0 \<le> wi_sockfd (registered reg ! i)
                                then [wi_sockfd (registered reg ! i)] else []) \<and>
               reg_inv reg' \<and> registered reg' = delete_at i (registered reg)"
  proof (cases "worker_registry_get (Some reg) k")
    case None
    then show ?thesis using remove_failure[of k reg] by (auto simp: worker_registry_get_def split: if_splits)
  next
    case (Some i)
    then have "k \<noteq> 0" and "find_worker reg k = Some i"
      by (auto simp: worker_registry_get_def split: if_splits)
    from remove_success[OF assms this] Some show ?thesis by auto
  qed
qed

definition sample_worker :: "u32 \<Rightarrow> int \<Rightarrow> worker_info_t" where
  "sample_worker k fd = fresh_worker 100 k fd 0"

definition sample_registry :: worker_registry_t where
  "sample_registry = \<lparr>wr_workers = [sample_worker 1 5, sample_worker 2 6, sample_worker 0 0],
                      wr_capacity = 3, wr_count = 2\<rparr>"

lemma sample_registered: "registered sample_registry = [sample_worker 1 5, sample_worker 2 6]"
  by (simp add: registered_def sample_registry_def)

lemma sample_reg_inv: "reg_inv sample_registry"
  by (simp add: reg_inv_def sample_registry_def)

theorem registry_refines_list_witness:
  "reg_inv sample_registry \<and>
   (\<exists>reg'. worker_registry_remove (Some sample_registry) 1 = ((0, Some reg'), [5]) \<and>
           registered reg' = [sample_worker 2 6])"
proof -
  have "worker_registry_get (Some sample_registry) 1 = Some 0"
    by (simp add: worker_registry_get_def find_worker_def sample_registered sample_worker_def fresh_worker_def)
  then show ?thesis
    using registry_refines_list[OF sample_reg_inv, of 0 0 0 1] sample_reg_inv
    by (auto simp: sample_registered delete_at_def sample_worker_def fresh_worker_def)
qed

text \<open>As long as the identifiers number the entries (workers only ever added), adding hands out an
  identifier no registered worker has, and the identifiers keep numbering the entries.\<close>

theorem registry_add_fresh_id:
  assumes "reg_inv reg" and "numbered reg" and "0 \<le> sockfd" and "wr_count reg < wr_capacity reg"
  shows "\<exists>wid reg'. worker_registry_add now (Some reg) sockfd tid = (wid, Some reg') \<and>
           wid \<noteq> 0 \<and> wid \<notin> set (worker_ids reg) \<and> numbered reg' \<and> distinct (worker_ids reg')"
proof -
  obtain reg' where add: "worker_registry_add now (Some reg) sockfd tid = (wr_count reg + 1, Some reg')"
    and inv': "reg_inv reg'"
    and reg': "registered reg' = registered reg @ [fresh_worker now (wr_count reg + 1) sockfd tid]"
    using add_success[OF assms(1,4,3)] by blast
  have n: "unat (wr_count reg + 1) = Suc (unat (wr_count reg))"
    using assms(4) by (simp add: unat_Suc_below word_less_nat_alt)
  have "unat (wr_count reg') = Suc (unat (wr_count reg))"
    using length_registered[OF inv'] length_registered[OF assms(1)] by (simp add: reg')
  then have num': "numbered reg'"
    using assms(2) by (simp add: numbered_def reg' fresh_worker_def add.commute)
  then have "distinct (worker_ids reg')" by (rule distinct_numbered)
  moreover from this have "wr_count reg + 1 \<notin> set (worker_ids reg)"
    by (auto simp: reg' fresh_worker_def)
  moreover have "wr_count reg + 1 \<noteq> 0" using n by auto
  ultimately show ?thesis using add num' by blast
qed

lemma sample_numbered: "numbered sample_registry"
  by (simp add: numbered_def sample_registered) (simp add: sample_registry_def sample_worker_def fresh_worker_def upt_rec)

theorem registry_add_fresh_id_witness:
  "\<exists>wid reg'. worker_registry_add 7 (Some sample_registry) 9 1 = (wid, Some reg') \<and> wid \<notin> {1, 2}"
proof -
  have "wr_count sample_registry < wr_capacity sample_registry" by (simp add: sample_registry_def)
  moreover have "worker_ids sample_registry = [1, 2]"
    by (simp add: sample_registered sample_worker_def fresh_worker_def)
  ultimately show ?thesis
    using registry_add_fresh_id[OF sample_reg_inv sample_numbered, of 9 7 1] by (metis list.set zero_le_numeral)
qed

text \<open>Removing any worker but the last breaks this: if the identifiers number \<open>n\<close> entries and worker
  \<open>k < n\<close> leaves, the next worker to join is given the identifier \<open>n\<close>, which another registered
  worker already has, and from then on looking that identifier up always finds the older worker.\<close>

theorem registry_id_reuse_after_remove:
  assumes "reg_inv reg" and "numbered reg" and "0 < k" and "k < wr_count reg" and "0 \<le> sockfd"
  shows "\<exists>reg1 closed reg2. worker_registry_remove (Some reg) k = ((0, Some reg1), closed) \<and>
           worker_registry_add now (Some reg1) sockfd tid = (wr_count reg, Some reg2) \<and>
           wr_count reg \<in> set (worker_ids reg1) \<and> \<not> distinct (worker_ids reg2) \<and>
           find_worker reg2 (wr_count reg) \<noteq> Some (length (registered reg2) - 1)"
proof -
  let ?n = "unat (wr_count reg)"
  have kn: "unat k < ?n" and k0: "0 < unat k" using assms(3,4) by (simp_all add: word_less_nat_alt)
  have "registered reg ! (unat k - 1) \<in> set (registered reg)"
    using kn length_registered[OF assms(1)] by (intro nth_mem) simp
  moreover have "wi_worker_id (registered reg ! (unat k - 1)) = k"
    using numbered_nth[OF assms(1,2), of "unat k - 1"] kn k0 by simp
  ultimately obtain i where i: "find_worker reg k = Some i"
    using find_slot_ex[of "registered reg" "\<lambda>w. wi_worker_id w = k"] by (auto simp: find_worker_def)
  have il: "i < ?n" using find_worker_bound[OF i] by (simp add: length_registered[OF assms(1)])
  have ik: "wi_worker_id (registered reg ! i) = k"
    using i by (simp add: find_worker_def find_slot_Some_iff)
  have last_id: "wi_worker_id (registered reg ! (?n - 1)) = wr_count reg"
    using numbered_nth[OF assms(1,2), of "?n - 1"] il by simp
  then have last: "?n - 1 \<noteq> i" using ik assms(4) by auto
  obtain reg1 closed where rem: "worker_registry_remove (Some reg) k = ((0, Some reg1), closed)"
    and inv1: "reg_inv reg1" and cap1: "wr_capacity reg1 = wr_capacity reg"
    and cnt1: "wr_count reg1 = wr_count reg - 1" and reg1: "registered reg1 = delete_at i (registered reg)"
    using remove_success[OF assms(1) _ i] assms(3) by force
  have "wr_count reg \<noteq> 0" using assms(4) by auto
  then have "wr_count reg1 < wr_capacity reg1"
    using assms(1) il by (auto simp: cap1 cnt1 reg_inv_def word_less_nat_alt word_le_nat_alt unat_dec)
  from add_success[OF inv1 this assms(5), of now tid] obtain reg2 where
    add: "worker_registry_add now (Some reg1) sockfd tid = (wr_count reg, Some reg2)"
    and reg2: "registered reg2 = registered reg1 @ [fresh_worker now (wr_count reg) sockfd tid]"
    by (auto simp: cnt1)
  have mem: "wr_count reg \<in> set (worker_ids reg1)"
    using set_delete_at[OF _ last, of "registered reg"] il last_id
    by (force simp: reg1 length_registered[OF assms(1)])
  moreover have "find_worker reg2 (wr_count reg) \<noteq> Some (length (registered reg2) - 1)"
  proof
    assume "find_worker reg2 (wr_count reg) = Some (length (registered reg2) - 1)"
    then have "\<forall>j < length (registered reg1). wi_worker_id (registered reg1 ! j) \<noteq> wr_count reg"
      by (auto simp: find_worker_def find_slot_Some_iff reg2 nth_append)
    then show False using mem by (auto simp: in_set_conv_nth)
  qed
  ultimately show ?thesis using rem add by (auto simp: reg2 fresh_worker_def)
qed

theorem registry_id_reuse_after_remove_witness:
  "\<exists>reg1 closed reg2. worker_registry_remove (Some sample_registry) 1 = ((0, Some reg1), closed) \<and>
     worker_registry_add 7 (Some reg1) 9 1 = (2, Some reg2) \<and> \<not> distinct (worker_ids reg2)"
proof -
  have "(1 :: u32) < wr_count sample_registry" by (simp add: sample_registry_def)
  from registry_id_reuse_after_remove[OF sample_reg_inv sample_numbered _ this, of 9 7 1]
  show ?thesis by (auto simp: sample_registry_def)
qed

text \<open>A timeout sweep disconnects exactly the connected workers whose last heartbeat is older than
  the limit, returns their number, leaves everything else alone, and finds nothing more when it is
  repeated at the same time.\<close>

theorem registry_timeout_sweep:
  assumes "reg_inv reg"
  shows "\<exists>reg'. worker_registry_check_timeouts now (Some reg) ts =
           (of_nat (length (filter (worker_expired now ts) (registered reg))), Some reg') \<and>
           reg_inv reg' \<and> registered reg' = map (expire now ts) (registered reg) \<and>
           worker_registry_check_timeouts now (Some reg') ts = (0, Some reg')"
proof -
  let ?reg' = "reg\<lparr>wr_workers := map (expire now ts) (registered reg) @ drop (unat (wr_count reg)) (wr_workers reg)\<rparr>"
  have len: "length (registered reg) = unat (wr_count reg)" by (rule length_registered[OF assms])
  have reg': "registered ?reg' = map (expire now ts) (registered reg)"
    using reg_count_le[OF assms] by (simp add: registered_def)
  have "length (wr_workers ?reg') = length (wr_workers reg)"
    using len reg_count_le[OF assms] by simp
  then have inv': "reg_inv ?reg'" using assms by (simp add: reg_inv_def)
  have no: "filter (worker_expired now ts) (map (expire now ts) (registered reg)) = []"
    by (auto simp: filter_empty_conv expire_not_expired)
  moreover have "map (expire now ts) (map (expire now ts) (registered reg)) = map (expire now ts) (registered reg)"
    by (simp add: expire_def worker_expired_def)
  ultimately have "worker_registry_check_timeouts now (Some ?reg') ts = (0, Some ?reg')"
    using len by (simp add: check_timeouts_eq[OF inv'] reg' del: map_map)
  then show ?thesis using check_timeouts_eq[OF assms] inv' reg' by blast
qed

theorem registry_timeout_sweep_witness:
  "\<exists>reg'. worker_registry_check_timeouts 131 (Some sample_registry) 30 = (2, Some reg') \<and>
          map wi_status (registered reg') = [WORKER_STATUS_DISCONNECTED, WORKER_STATUS_DISCONNECTED]"
  using registry_timeout_sweep[OF sample_reg_inv, of 131 30]
  by (auto simp: sample_registered sample_worker_def fresh_worker_def worker_expired_def expire_def)

end
