(* ===== verification/Ring_Buffer.thy ===== *)
theory Ring_Buffer
  imports Prelude "HOL-Library.Sublist"
begin

text \<open>
  The thread-safe ring buffer of \<open>lib/src/ring_buffer.c\<close>. The structure is a record with the C
  fields; the array holds pointers, \<^const>\<open>None\<close> being \<open>NULL\<close>. Every operation is one or more
  critical sections of the buffer's mutex: a call either finishes in its first section or waits on a
  condition variable, in which case the rest of the call is a section that runs when the wait
  returns. Sections are functions on the record; a whole call is the composition of its sections
  over the list of the states the waits return in; and the interleavings of any number of callers
  are a step relation over the sections. The theory shows that the record refines a bounded FIFO
  queue, that this queue loses, duplicates and reorders nothing under any interleaving, that
  construction failures release what was acquired, and that the deadline of a timed wait is exact.
\<close>

section \<open>The structure and its construction\<close>

record 'a ring_buffer_t =
  rb_buffer :: "'a option list"
  rb_capacity :: u32
  rb_size :: u32
  rb_head :: u32
  rb_tail :: u32

text \<open>
  What the allocator and the thread library answer during construction, and the events of acquiring
  and releasing each resource, in the order the code performs them.
\<close>

datatype rb_resource = RStruct | RArray | RMutex | RNotEmpty | RNotFull

datatype rb_event = Acquire rb_resource | Release rb_resource

record rb_env =
  struct_ok :: bool
  array_ok :: bool
  mutex_ok :: bool
  not_empty_ok :: bool
  not_full_ok :: bool

definition ring_buffer_create ::
  "rb_env \<Rightarrow> (nat \<Rightarrow> 'a option) \<Rightarrow> u32 \<Rightarrow> 'a ring_buffer_t option \<times> rb_event list" where
  "ring_buffer_create e mem capacity =
     (if capacity = 0 then (None, [])
      else if \<not> struct_ok e then (None, [])
      else if \<not> array_ok e then (None, [Acquire RStruct, Release RStruct])
      else
        let rb = \<lparr>rb_buffer = map mem [0..<unat capacity], rb_capacity = capacity,
                  rb_size = 0, rb_head = 0, rb_tail = 0\<rparr>
        in if \<not> mutex_ok e
           then (None, [Acquire RStruct, Acquire RArray, Release RArray, Release RStruct])
           else if \<not> not_empty_ok e
           then (None, [Acquire RStruct, Acquire RArray, Acquire RMutex,
                        Release RMutex, Release RArray, Release RStruct])
           else if \<not> not_full_ok e
           then (None, [Acquire RStruct, Acquire RArray, Acquire RMutex, Acquire RNotEmpty,
                        Release RNotEmpty, Release RMutex, Release RArray, Release RStruct])
           else (Some rb, [Acquire RStruct, Acquire RArray, Acquire RMutex, Acquire RNotEmpty,
                           Acquire RNotFull]))"

text \<open>
  Destruction: the elements freed (in order) when the flag asks for it, and the resources released.
  The loop index arithmetic \<open>(head + i) % capacity\<close> is on 32-bit words, as in the code.
\<close>

definition destroy_index :: "'a ring_buffer_t \<Rightarrow> nat \<Rightarrow> nat" where
  "destroy_index rb i = unat ((rb_head rb + of_nat i) mod rb_capacity rb)"

definition ring_buffer_destroy ::
  "'a ring_buffer_t option \<Rightarrow> bool \<Rightarrow> 'a option list \<times> rb_event list" where
  "ring_buffer_destroy rbp free_elements =
     (case rbp of
        None \<Rightarrow> ([], [])
      | Some rb \<Rightarrow>
          ((if free_elements \<and> rb_size rb > 0
            then map (\<lambda>i. rb_buffer rb ! destroy_index rb i) [0..<unat (rb_size rb)]
            else []),
           [Release RArray, Release RNotEmpty, Release RNotFull, Release RMutex, Release RStruct]))"

section \<open>The deadline of a timed wait\<close>

record timespec =
  tv_sec :: int
  tv_nsec :: int

text \<open>The argument \<open>clock\<close> is what \<open>gettimeofday\<close> stores (seconds, microseconds), if it succeeds.\<close>

definition get_timeout_time :: "(int \<times> int) option \<Rightarrow> int \<Rightarrow> timespec option" where
  "get_timeout_time clock timeout_ms =
     (case clock of
        None \<Rightarrow> None
      | Some (sec, usec) \<Rightarrow>
          let s = sec + timeout_ms sdiv 1000;
              ns = (usec + (timeout_ms smod 1000) * 1000) * 1000
          in Some (if ns \<ge> 1000000000 then \<lparr>tv_sec = s + 1, tv_nsec = ns - 1000000000\<rparr>
                   else \<lparr>tv_sec = s, tv_nsec = ns\<rparr>))"

section \<open>Push and pop\<close>

text \<open>The tail of \<open>ring_buffer_push\<close>: store the element, advance the tail, count it.\<close>

definition rb_put :: "'a ring_buffer_t \<Rightarrow> 'a \<Rightarrow> 'a ring_buffer_t" where
  "rb_put rb x = rb\<lparr>rb_buffer := (rb_buffer rb)[unat (rb_tail rb) := Some x],
                    rb_tail := (rb_tail rb + 1) mod rb_capacity rb,
                    rb_size := rb_size rb + 1\<rparr>"

definition rb_take :: "'a ring_buffer_t \<Rightarrow> 'a option \<times> 'a ring_buffer_t" where
  "rb_take rb = (rb_buffer rb ! unat (rb_head rb),
                 rb\<lparr>rb_head := (rb_head rb + 1) mod rb_capacity rb, rb_size := rb_size rb - 1\<rparr>)"

text \<open>
  What a critical section ends in: the call returned a value, or the thread sleeps on the condition
  variable, with a deadline (\<^const>\<open>True\<close>) or without.
\<close>

datatype 'r section_end = Return 'r | Sleep bool

definition push_enter ::
  "(int \<times> int) option \<Rightarrow> 'a ring_buffer_t \<Rightarrow> 'a \<Rightarrow> int \<Rightarrow> int section_end \<times> 'a ring_buffer_t" where
  "push_enter clock rb x timeout_ms =
     (if rb_size rb = rb_capacity rb
      then (if timeout_ms = 0 then (Return (-1), rb)
            else if timeout_ms > 0
            then (if get_timeout_time clock timeout_ms = None then (Return (-1), rb)
                  else (Sleep True, rb))
            else (Sleep False, rb))
      else (Return 0, rb_put rb x))"

text \<open>
  The section after a wait returns with code \<open>result\<close> (of \<open>pthread_cond_timedwait\<close>; the untimed
  loop ignores the code): the loop test again, the timeout exit, or the tail of the call.
\<close>

definition push_wake ::
  "bool \<Rightarrow> int \<Rightarrow> 'a ring_buffer_t \<Rightarrow> 'a \<Rightarrow> int section_end \<times> 'a ring_buffer_t" where
  "push_wake timed result rb x =
     (if timed
      then (if rb_size rb = rb_capacity rb \<and> result = 0 then (Sleep True, rb)
            else if result \<noteq> 0 then (Return (-1), rb)
            else (Return 0, rb_put rb x))
      else (if rb_size rb = rb_capacity rb then (Sleep False, rb)
            else (Return 0, rb_put rb x)))"

definition pop_enter ::
  "(int \<times> int) option \<Rightarrow> 'a ring_buffer_t \<Rightarrow> int \<Rightarrow> 'a option section_end \<times> 'a ring_buffer_t" where
  "pop_enter clock rb timeout_ms =
     (if rb_size rb = 0
      then (if timeout_ms = 0 then (Return None, rb)
            else if timeout_ms > 0
            then (if get_timeout_time clock timeout_ms = None then (Return None, rb)
                  else (Sleep True, rb))
            else (Sleep False, rb))
      else (case rb_take rb of (x, rb') \<Rightarrow> (Return x, rb')))"

definition pop_wake ::
  "bool \<Rightarrow> int \<Rightarrow> 'a ring_buffer_t \<Rightarrow> 'a option section_end \<times> 'a ring_buffer_t" where
  "pop_wake timed result rb =
     (if timed
      then (if rb_size rb = 0 \<and> result = 0 then (Sleep True, rb)
            else if result \<noteq> 0 then (Return None, rb)
            else (case rb_take rb of (x, rb') \<Rightarrow> (Return x, rb')))
      else (if rb_size rb = 0 then (Sleep False, rb)
            else (case rb_take rb of (x, rb') \<Rightarrow> (Return x, rb'))))"

text \<open>
  A whole call. \<open>wakes\<close> lists, for each return of the condition wait, its code and the state of the
  buffer when the mutex is held again; \<^const>\<open>None\<close> is a call that is still asleep at the end of
  the list.
\<close>

fun push_wait :: "bool \<Rightarrow> 'a \<Rightarrow> (int \<times> 'a ring_buffer_t) list \<Rightarrow> (int \<times> 'a ring_buffer_t) option" where
  "push_wait timed x [] = None"
| "push_wait timed x ((r, rb) # wakes) =
     (case push_wake timed r rb x of
        (Return v, rb') \<Rightarrow> Some (v, rb')
      | (Sleep t, _) \<Rightarrow> push_wait t x wakes)"

fun pop_wait :: "bool \<Rightarrow> (int \<times> 'a ring_buffer_t) list \<Rightarrow> ('a option \<times> 'a ring_buffer_t) option" where
  "pop_wait timed [] = None"
| "pop_wait timed ((r, rb) # wakes) =
     (case pop_wake timed r rb of
        (Return v, rb') \<Rightarrow> Some (v, rb')
      | (Sleep t, _) \<Rightarrow> pop_wait t wakes)"

definition ring_buffer_push ::
  "(int \<times> int) option \<Rightarrow> (int \<times> 'a ring_buffer_t) list \<Rightarrow> 'a ring_buffer_t option \<Rightarrow> 'a option \<Rightarrow> int
   \<Rightarrow> (int \<times> 'a ring_buffer_t option) option" where
  "ring_buffer_push clock wakes rbp element timeout_ms =
     (case (rbp, element) of
        (Some rb, Some x) \<Rightarrow>
          (case push_enter clock rb x timeout_ms of
             (Return v, rb') \<Rightarrow> Some (v, Some rb')
           | (Sleep t, _) \<Rightarrow> map_option (\<lambda>(v, rb'). (v, Some rb')) (push_wait t x wakes))
      | _ \<Rightarrow> Some (-1, rbp))"

definition ring_buffer_pop ::
  "(int \<times> int) option \<Rightarrow> (int \<times> 'a ring_buffer_t) list \<Rightarrow> 'a ring_buffer_t option \<Rightarrow> int
   \<Rightarrow> ('a option \<times> 'a ring_buffer_t option) option" where
  "ring_buffer_pop clock wakes rbp timeout_ms =
     (case rbp of
        None \<Rightarrow> Some (None, None)
      | Some rb \<Rightarrow>
          (case pop_enter clock rb timeout_ms of
             (Return v, rb') \<Rightarrow> Some (v, Some rb')
           | (Sleep t, _) \<Rightarrow> map_option (\<lambda>(v, rb'). (v, Some rb')) (pop_wait t wakes)))"

section \<open>Queries\<close>

definition ring_buffer_size :: "'a ring_buffer_t option \<Rightarrow> u32" where
  "ring_buffer_size rbp = (case rbp of None \<Rightarrow> 0 | Some rb \<Rightarrow> rb_size rb)"

definition ring_buffer_capacity :: "'a ring_buffer_t option \<Rightarrow> u32" where
  "ring_buffer_capacity rbp = (case rbp of None \<Rightarrow> 0 | Some rb \<Rightarrow> rb_capacity rb)"

definition ring_buffer_is_empty :: "'a ring_buffer_t option \<Rightarrow> bool" where
  "ring_buffer_is_empty rbp = (case rbp of None \<Rightarrow> True | Some rb \<Rightarrow> rb_size rb = 0)"

definition ring_buffer_is_full :: "'a ring_buffer_t option \<Rightarrow> bool" where
  "ring_buffer_is_full rbp = (case rbp of None \<Rightarrow> False | Some rb \<Rightarrow> rb_size rb = rb_capacity rb)"

section \<open>Invariant and abstraction to a list\<close>

definition rb_inv :: "'a ring_buffer_t \<Rightarrow> bool" where
  "rb_inv rb \<longleftrightarrow>
     0 < unat (rb_capacity rb) \<and>
     length (rb_buffer rb) = unat (rb_capacity rb) \<and>
     unat (rb_size rb) \<le> unat (rb_capacity rb) \<and>
     unat (rb_head rb) < unat (rb_capacity rb) \<and>
     unat (rb_tail rb) = (unat (rb_head rb) + unat (rb_size rb)) mod unat (rb_capacity rb) \<and>
     (\<forall>i < unat (rb_size rb). rb_buffer rb ! ((unat (rb_head rb) + i) mod unat (rb_capacity rb)) \<noteq> None)"

definition rb_slots :: "'a ring_buffer_t \<Rightarrow> 'a option list" where
  "rb_slots rb = map (\<lambda>i. rb_buffer rb ! ((unat (rb_head rb) + i) mod unat (rb_capacity rb)))
                     [0..<unat (rb_size rb)]"

definition rb_list :: "'a ring_buffer_t \<Rightarrow> 'a list" where
  "rb_list rb = map the (rb_slots rb)"

section \<open>The bounded queue interface\<close>

text \<open>
  What a client of the queue relies on: a queue abstracts to a list no longer than its capacity,
  putting appends, taking removes the first element.
\<close>

locale bounded_fifo =
  fixes put :: "'q \<Rightarrow> 'a \<Rightarrow> 'q"
    and take_first :: "'q \<Rightarrow> 'a option \<times> 'q"
    and full :: "'q \<Rightarrow> bool"
    and empty :: "'q \<Rightarrow> bool"
    and contents :: "'q \<Rightarrow> 'a list"
    and cap :: "'q \<Rightarrow> nat"
    and invar :: "'q \<Rightarrow> bool"
  assumes contents_bound: "invar q \<Longrightarrow> length (contents q) \<le> cap q"
    and full_iff: "invar q \<Longrightarrow> full q \<longleftrightarrow> length (contents q) = cap q"
    and empty_iff: "invar q \<Longrightarrow> empty q \<longleftrightarrow> contents q = []"
    and invar_put: "invar q \<Longrightarrow> \<not> full q \<Longrightarrow> invar (put q x)"
    and contents_put: "invar q \<Longrightarrow> \<not> full q \<Longrightarrow> contents (put q x) = contents q @ [x]"
    and cap_put: "cap (put q x) = cap q"
    and invar_take: "invar q \<Longrightarrow> \<not> empty q \<Longrightarrow> invar (snd (take_first q))"
    and take_hd: "invar q \<Longrightarrow> \<not> empty q \<Longrightarrow> fst (take_first q) = Some (hd (contents q))"
    and contents_take: "invar q \<Longrightarrow> \<not> empty q \<Longrightarrow> contents (snd (take_first q)) = tl (contents q)"
    and cap_take: "cap (snd (take_first q)) = cap q"
begin

text \<open>
  The conservation law every use of the queue preserves: what went in is what came out followed by
  what is still inside.
\<close>

lemma conserve_put:
  assumes "invar q" and "\<not> full q" and "ins = outs @ contents q"
  shows "ins @ [x] = outs @ contents (put q x)"
  using assms by (simp add: contents_put)

lemma conserve_take:
  assumes "invar q" and "\<not> empty q" and "ins = outs @ contents q" and "fst (take_first q) = Some x"
  shows "ins = (outs @ [x]) @ contents (snd (take_first q))"
proof -
  from assms have "x = hd (contents q)" and "contents q \<noteq> []" by (simp_all add: take_hd empty_iff)
  with assms show ?thesis by (simp add: contents_take)
qed

lemma conserve_size:
  assumes "invar q" and "ins = outs @ contents q"
  shows "length outs \<le> length ins" and "length ins \<le> length outs + cap q"
  using assms contents_bound by auto

lemma take_after_put_singleton:
  assumes "invar q" and "contents q = []" and "\<not> full q"
  shows "fst (take_first (put q x)) = Some x"
  using assms by (simp add: take_hd invar_put contents_put empty_iff)

end

section \<open>The ring buffer implements the bounded queue\<close>

abbreviation rb_full :: "'a ring_buffer_t \<Rightarrow> bool" where
  "rb_full rb \<equiv> rb_size rb = rb_capacity rb"

abbreviation rb_empty :: "'a ring_buffer_t \<Rightarrow> bool" where
  "rb_empty rb \<equiv> rb_size rb = 0"

lemma length_rb_list [simp]: "length (rb_list rb) = unat (rb_size rb)"
  by (simp add: rb_list_def rb_slots_def)

lemma rb_list_nth:
  "i < unat (rb_size rb) \<Longrightarrow>
   rb_list rb ! i = the (rb_buffer rb ! ((unat (rb_head rb) + i) mod unat (rb_capacity rb)))"
  by (simp add: rb_list_def rb_slots_def)

lemma rb_not_full_less: "rb_inv rb \<Longrightarrow> \<not> rb_full rb \<Longrightarrow> unat (rb_size rb) < unat (rb_capacity rb)"
  unfolding rb_inv_def by (metis le_neq_implies_less unat_eq_word_iff)

lemma rb_put_inv:
  assumes inv: "rb_inv rb" and nf: "\<not> rb_full rb"
  shows "rb_inv (rb_put rb x)"
proof -
  let ?c = "unat (rb_capacity rb)" and ?h = "unat (rb_head rb)" and ?n = "unat (rb_size rb)"
  have n: "?n < ?c" by (rule rb_not_full_less[OF inv nf])
  have tail: "unat (rb_tail rb) = (?h + ?n) mod ?c" using inv by (simp add: rb_inv_def)
  then have "unat (rb_tail rb) < ?c" using n by simp
  then have tail': "unat ((rb_tail rb + 1) mod rb_capacity rb) = (?h + Suc ?n) mod ?c"
    by (simp add: unat_inc_mod tail mod_simps)
  have slot: "(rb_buffer rb)[unat (rb_tail rb) := Some x] ! ((?h + i) mod ?c) \<noteq> None"
    if "i < Suc ?n" for i
    using inv that n mod_index_inj[of i ?c ?n ?h] by (auto simp: rb_inv_def tail nth_list_update less_Suc_eq)
  show ?thesis
    using inv n slot tail' by (simp add: rb_inv_def rb_put_def unat_Suc_below[OF n])
qed

lemma rb_put_list:
  assumes inv: "rb_inv rb" and nf: "\<not> rb_full rb"
  shows "rb_list (rb_put rb x) = rb_list rb @ [x]"
proof (rule nth_equalityI)
  let ?c = "unat (rb_capacity rb)" and ?h = "unat (rb_head rb)" and ?n = "unat (rb_size rb)"
  have n: "?n < ?c" by (rule rb_not_full_less[OF inv nf])
  have size': "unat (rb_size (rb_put rb x)) = Suc ?n"
    by (simp add: rb_put_def unat_Suc_below[OF n])
  then show "length (rb_list (rb_put rb x)) = length (rb_list rb @ [x])" by simp
  fix i assume "i < length (rb_list (rb_put rb x))"
  then have i: "i < Suc ?n" by (simp add: size')
  have tail: "unat (rb_tail rb) = (?h + ?n) mod ?c" and len: "length (rb_buffer rb) = ?c"
    using inv by (simp_all add: rb_inv_def)
  have lhs: "rb_list (rb_put rb x) ! i = the ((rb_buffer rb)[(?h + ?n) mod ?c := Some x] ! ((?h + i) mod ?c))"
    using i by (simp add: rb_list_nth size') (simp add: rb_put_def tail)
  show "rb_list (rb_put rb x) ! i = (rb_list rb @ [x]) ! i"
  proof (cases "i = ?n")
    case True
    then have "(rb_list rb @ [x]) ! i = x" by (simp add: nth_append)
    moreover have "rb_list (rb_put rb x) ! i = x" 
      using n by (subst lhs) (simp add: True len)
    ultimately show ?thesis by simp
  next
    case False
    then have "i < ?n" using i by simp
    moreover have "(?h + i) mod ?c \<noteq> (?h + ?n) mod ?c"
      using \<open>i < ?n\<close> n mod_index_inj[of i ?c ?n ?h] by auto
    ultimately show ?thesis by (simp add: lhs nth_append rb_list_nth)
  qed
qed

lemma rb_take_inv:
  assumes inv: "rb_inv rb" and ne: "\<not> rb_empty rb"
  shows "rb_inv (snd (rb_take rb))"
proof -
  let ?c = "unat (rb_capacity rb)" and ?h = "unat (rb_head rb)" and ?n = "unat (rb_size rb)"
  have h: "?h < ?c" using inv by (simp add: rb_inv_def)
  have size': "unat (rb_size rb - 1) = ?n - 1" using ne by (simp add: unat_dec)
  have n: "?n = Suc (?n - 1)" using ne by (simp add: unat_gt_0)
  have shift: "((?h + 1) mod ?c + i) mod ?c = (?h + Suc i) mod ?c" for i
    by (simp add: mod_index_Suc)
  have "(?h + ?n) mod ?c = ((?h + 1) mod ?c + (?n - 1)) mod ?c"
    using n by (metis shift)
  moreover have "rb_buffer rb ! (((?h + 1) mod ?c + i) mod ?c) \<noteq> None" if "i < ?n - 1" for i
    using inv that unfolding shift rb_inv_def by (metis Suc_less_eq n)
  ultimately show ?thesis
    using inv by (auto simp: rb_inv_def rb_take_def size' unat_inc_mod[OF h])
qed

lemma rb_take_hd:
  assumes "rb_inv rb" and "\<not> rb_empty rb"
  shows "fst (rb_take rb) = Some (hd (rb_list rb))"
proof -
  have n: "0 < unat (rb_size rb)" using assms by (simp add: unat_gt_0)
  then have "rb_buffer rb ! unat (rb_head rb) \<noteq> None" using assms(1) by (force simp: rb_inv_def)
  moreover have "hd (rb_list rb) = rb_list rb ! 0"
    using n by (simp add: hd_conv_nth flip: length_greater_0_conv)
  ultimately show ?thesis using n assms(1) by (simp add: rb_list_nth rb_take_def rb_inv_def)
qed

lemma rb_take_list:
  assumes inv: "rb_inv rb" and ne: "\<not> rb_empty rb"
  shows "rb_list (snd (rb_take rb)) = tl (rb_list rb)"
proof (rule nth_equalityI)
  have size': "unat (rb_size (snd (rb_take rb))) = unat (rb_size rb) - 1"
    using ne by (simp add: rb_take_def unat_dec)
  then show "length (rb_list (snd (rb_take rb))) = length (tl (rb_list rb))" by simp
  fix i assume "i < length (rb_list (snd (rb_take rb)))"
  then have i: "i < unat (rb_size rb) - 1" by (simp add: size')
  have h: "unat (rb_head rb) < unat (rb_capacity rb)" using inv by (simp add: rb_inv_def)
  have "rb_list (snd (rb_take rb)) ! i = rb_list rb ! Suc i"
    using i by (simp add: rb_list_nth size') (simp add: rb_take_def unat_inc_mod[OF h] mod_index_Suc)
  then show "rb_list (snd (rb_take rb)) ! i = tl (rb_list rb) ! i" using i by (simp add: nth_tl)
qed

interpretation rbq: bounded_fifo rb_put rb_take rb_full rb_empty rb_list "\<lambda>rb. unat (rb_capacity rb)" rb_inv
proof unfold_locales
  fix q :: "'a ring_buffer_t"
  assume "rb_inv q"
  then show "length (rb_list q) \<le> unat (rb_capacity q)" by (simp add: rb_inv_def)
  show "rb_full q \<longleftrightarrow> length (rb_list q) = unat (rb_capacity q)" by (simp add: unat_eq_word_iff)
  show "rb_empty q \<longleftrightarrow> rb_list q = []"
    by (simp add: unat_eq_zero flip: length_0_conv)
qed (simp_all add: rb_put_inv rb_put_list rb_take_inv rb_take_hd rb_take_list, simp_all add: rb_put_def rb_take_def)

section \<open>Sections of a call\<close>

text \<open>Every section either leaves the buffer alone or performs exactly one put or take.\<close>

lemmas section_defs = push_enter_def push_wake_def pop_enter_def pop_wake_def

lemma push_enter_effect:
  assumes "push_enter clock rb x tmo = (r, rb')"
  shows "(r = Return 0 \<and> \<not> rb_full rb \<and> rb' = rb_put rb x) \<or> (r \<noteq> Return 0 \<and> rb' = rb)"
  using assms by (auto simp: push_enter_def split: if_splits)

lemma push_wake_effect:
  assumes "push_wake timed c rb x = (r, rb')"
  shows "(r = Return 0 \<and> \<not> rb_full rb \<and> rb' = rb_put rb x) \<or> (r \<noteq> Return 0 \<and> rb' = rb)"
  using assms by (auto simp: push_wake_def split: if_splits)

lemma pop_enter_effect:
  assumes "pop_enter clock rb tmo = (r, rb')"
  shows "(\<exists>v. r = Return v \<and> \<not> rb_empty rb \<and> (v, rb') = rb_take rb) \<or>
         ((r = Return None \<or> (\<exists>t. r = Sleep t)) \<and> rb' = rb)"
  using assms by (auto simp: pop_enter_def split: if_splits prod.splits)

lemma pop_wake_effect:
  assumes "pop_wake timed c rb = (r, rb')"
  shows "(\<exists>v. r = Return v \<and> \<not> rb_empty rb \<and> (v, rb') = rb_take rb) \<or>
         ((r = Return None \<or> (\<exists>t. r = Sleep t)) \<and> rb' = rb)"
  using assms by (auto simp: pop_wake_def split: if_splits prod.splits)

section \<open>Interleavings of any number of callers\<close>

text \<open>
  Each thread is outside the buffer's functions or asleep inside one of them. A step is one critical
  section of one thread: entering a call, or the section after a wait returns, which may happen at
  any time (a signal, a broadcast, a spurious wake-up, a timeout). The two ghost lists record the
  elements whose push returned 0 and the elements a pop returned, in the order of those sections.
\<close>

datatype 'a rb_pc = Outside | InPush 'a bool | InPop bool

record 'a rb_sys =
  rs_buf :: "'a ring_buffer_t"
  rs_pc :: "nat \<Rightarrow> 'a rb_pc"
  rs_in :: "'a list"
  rs_out :: "'a list"

definition push_pc :: "'a \<Rightarrow> int section_end \<Rightarrow> 'a rb_pc" where
  "push_pc x r = (case r of Return _ \<Rightarrow> Outside | Sleep t \<Rightarrow> InPush x t)"

definition pop_pc :: "'a option section_end \<Rightarrow> 'a rb_pc" where
  "pop_pc r = (case r of Return _ \<Rightarrow> Outside | Sleep t \<Rightarrow> InPop t)"

definition after_push :: "'a rb_sys \<Rightarrow> nat \<Rightarrow> 'a \<Rightarrow> int section_end \<Rightarrow> 'a ring_buffer_t \<Rightarrow> 'a rb_sys" where
  "after_push s t x r rb = s\<lparr>rs_buf := rb, rs_pc := (rs_pc s)(t := push_pc x r),
     rs_in := (if r = Return 0 then rs_in s @ [x] else rs_in s)\<rparr>"

definition after_pop :: "'a rb_sys \<Rightarrow> nat \<Rightarrow> 'a option section_end \<Rightarrow> 'a ring_buffer_t \<Rightarrow> 'a rb_sys" where
  "after_pop s t r rb = s\<lparr>rs_buf := rb, rs_pc := (rs_pc s)(t := pop_pc r),
     rs_out := (case r of Return (Some x) \<Rightarrow> rs_out s @ [x] | _ \<Rightarrow> rs_out s)\<rparr>"

inductive rb_step :: "'a rb_sys \<Rightarrow> 'a rb_sys \<Rightarrow> bool" where
  call_push: "rs_pc s t = Outside \<Longrightarrow> push_enter clock (rs_buf s) x tmo = (r, rb) \<Longrightarrow>
     rb_step s (after_push s t x r rb)"
| wake_push: "rs_pc s t = InPush x timed \<Longrightarrow> push_wake timed c (rs_buf s) x = (r, rb) \<Longrightarrow>
     rb_step s (after_push s t x r rb)"
| call_pop: "rs_pc s t = Outside \<Longrightarrow> pop_enter clock (rs_buf s) tmo = (r, rb) \<Longrightarrow>
     rb_step s (after_pop s t r rb)"
| wake_pop: "rs_pc s t = InPop timed \<Longrightarrow> pop_wake timed c (rs_buf s) = (r, rb) \<Longrightarrow>
     rb_step s (after_pop s t r rb)"

definition rb_start :: "'a ring_buffer_t \<Rightarrow> 'a rb_sys" where
  "rb_start rb = \<lparr>rs_buf = rb, rs_pc = (\<lambda>_. Outside), rs_in = [], rs_out = []\<rparr>"

inductive rb_reach :: "'a ring_buffer_t \<Rightarrow> 'a rb_sys \<Rightarrow> bool" for rb where
  start: "rb_reach rb (rb_start rb)"
| step: "rb_reach rb s \<Longrightarrow> rb_step s s' \<Longrightarrow> rb_reach rb s'"

definition rb_sys_inv :: "nat \<Rightarrow> 'a rb_sys \<Rightarrow> bool" where
  "rb_sys_inv c s \<longleftrightarrow> rb_inv (rs_buf s) \<and> unat (rb_capacity (rs_buf s)) = c \<and>
     rs_in s = rs_out s @ rb_list (rs_buf s)"

lemma after_push_inv:
  assumes inv: "rb_sys_inv c s"
    and eff: "(r = Return 0 \<and> \<not> rb_full (rs_buf s) \<and> rb = rb_put (rs_buf s) x) \<or>
              (r \<noteq> Return 0 \<and> rb = rs_buf s)"
  shows "rb_sys_inv c (after_push s t x r rb)"
  using eff
proof (elim disjE conjE)
  assume "r = Return 0" and nf: "\<not> rb_full (rs_buf s)" and "rb = rb_put (rs_buf s) x"
  then show ?thesis
    using inv rbq.conserve_put[of "rs_buf s" "rs_in s" "rs_out s" x]
    by (simp add: rb_sys_inv_def after_push_def rbq.invar_put rbq.cap_put)
qed (use inv in \<open>simp add: rb_sys_inv_def after_push_def\<close>)

lemma after_pop_inv:
  assumes inv: "rb_sys_inv c s"
    and eff: "(\<exists>v. r = Return v \<and> \<not> rb_empty (rs_buf s) \<and> (v, rb) = rb_take (rs_buf s)) \<or>
              ((r = Return None \<or> (\<exists>w. r = Sleep w)) \<and> rb = rs_buf s)"
  shows "rb_sys_inv c (after_pop s t r rb)"
  using eff
proof (elim disjE exE conjE)
  fix v assume r: "r = Return v" and ne: "\<not> rb_empty (rs_buf s)" and tk: "(v, rb) = rb_take (rs_buf s)"
  have bi: "rb_inv (rs_buf s)" and cons: "rs_in s = rs_out s @ rb_list (rs_buf s)"
    using inv by (auto simp: rb_sys_inv_def)
  obtain x where v: "v = Some x" using rbq.take_hd[OF bi ne] tk by (metis fst_conv)
  have "fst (rb_take (rs_buf s)) = Some x" and rb: "rb = snd (rb_take (rs_buf s))"
    using tk v by (metis fst_conv, metis snd_conv)
  from rbq.conserve_take[OF bi ne cons this(1)] show ?thesis
    using inv rbq.invar_take[OF bi ne] rbq.cap_take[of "rs_buf s"]
    by (simp add: rb_sys_inv_def after_pop_def r v rb)
qed (use inv in \<open>simp_all add: rb_sys_inv_def after_pop_def\<close>)

lemma rb_step_inv: "rb_step s s' \<Longrightarrow> rb_sys_inv c s \<Longrightarrow> rb_sys_inv c s'"
proof (induction rule: rb_step.induct)
  case (call_push s t clock x tmo r rb)
  show ?case by (rule after_push_inv[OF call_push.prems push_enter_effect[OF call_push.hyps(2)]])
next
  case (wake_push s t x timed w r rb)
  show ?case by (rule after_push_inv[OF wake_push.prems push_wake_effect[OF wake_push.hyps(2)]])
next
  case (call_pop s t clock tmo r rb)
  show ?case by (rule after_pop_inv[OF call_pop.prems pop_enter_effect[OF call_pop.hyps(2)]])
next
  case (wake_pop s t timed w r rb)
  show ?case by (rule after_pop_inv[OF wake_pop.prems pop_wake_effect[OF wake_pop.hyps(2)]])
qed

lemma rb_reach_inv:
  assumes "rb_reach rb s" and "rb_inv rb" and "rb_list rb = []"
  shows "rb_sys_inv (unat (rb_capacity rb)) s"
  using assms(1)
proof (induction rule: rb_reach.induct)
  case start
  show ?case using assms(2,3) by (simp add: rb_sys_inv_def rb_start_def)
next
  case (step s s')
  then show ?case by (blast intro: rb_step_inv)
qed

section \<open>Construction, destruction, deadline\<close>

lemma ring_buffer_create_Some:
  assumes "ring_buffer_create e mem capacity = (Some rb, tr)"
  shows "rb_inv rb" and "rb_list rb = []" and "rb_capacity rb = capacity"
proof -
  have rb: "rb = \<lparr>rb_buffer = map mem [0..<unat capacity], rb_capacity = capacity,
      rb_size = 0, rb_head = 0, rb_tail = 0\<rparr>" and cap: "capacity \<noteq> 0"
    using assms by (auto simp: ring_buffer_create_def Let_def split: if_splits)
  show "rb_inv rb" using cap by (simp add: rb rb_inv_def unat_gt_0)
  show "rb_list rb = []" by (simp add: rb rb_list_def rb_slots_def)
  show "rb_capacity rb = capacity" by (simp add: rb)
qed

text \<open>The resources a trace leaves acquired, starting from \<open>rs\<close>.\<close>

definition held :: "rb_resource list \<Rightarrow> rb_event list \<Rightarrow> rb_resource list" where
  "held rs es = fold (\<lambda>e h. case e of Acquire r \<Rightarrow> r # h | Release r \<Rightarrow> remove1 r h) es rs"

lemma destroy_index_eq:
  assumes inv: "rb_inv rb" and small: "unat (rb_capacity rb) \<le> 2 ^ 31" and i: "i < unat (rb_size rb)"
  shows "destroy_index rb i = (unat (rb_head rb) + i) mod unat (rb_capacity rb)"
proof -
  have "unat (rb_head rb) + i < 2 ^ 32" and "i < 2 ^ 32"
    using inv small i by (auto simp: rb_inv_def)
  then have "unat (rb_head rb + of_nat i) = unat (rb_head rb) + i"
    by (simp add: unat_word_ariths unat_of_nat)
  then show ?thesis by (simp add: destroy_index_def unat_mod)
qed

section \<open>Properties\<close>

text \<open>C3: Under every interleaving of any number of threads that push and pop with any timeouts, the
  ring buffer is a FIFO queue: the elements popped so far are a prefix of the elements pushed
  successfully, in order, what is missing is exactly the current contents, and at most
  \<open>capacity\<close> elements are ever held.\<close>

theorem ring_buffer_fifo_interleaved:
  assumes "ring_buffer_create e mem capacity = (Some rb, tr)" and "rb_reach rb s"
  shows "rs_in s = rs_out s @ rb_list (rs_buf s) \<and> prefix (rs_out s) (rs_in s) \<and>
         length (rs_in s) \<le> length (rs_out s) + unat capacity \<and>
         unat (rb_size (rs_buf s)) = length (rs_in s) - length (rs_out s)"
proof -
  note c = ring_buffer_create_Some[OF assms(1)]
  have inv: "rb_sys_inv (unat capacity) s" using rb_reach_inv[OF assms(2) c(1,2)] c(3) by simp
  then have eq: "rs_in s = rs_out s @ rb_list (rs_buf s)" by (simp add: rb_sys_inv_def)
  moreover have "length (rs_in s) \<le> length (rs_out s) + unat capacity"
    using inv rbq.conserve_size(2)[OF _ eq] by (simp add: rb_sys_inv_def)
  ultimately show ?thesis by simp
qed

definition all_ok :: rb_env where
  "all_ok = \<lparr>struct_ok = True, array_ok = True, mutex_ok = True, not_empty_ok = True, not_full_ok = True\<rparr>"

definition rb_two :: "nat ring_buffer_t" where
  "rb_two = \<lparr>rb_buffer = [None, None], rb_capacity = 2, rb_size = 0, rb_head = 0, rb_tail = 0\<rparr>"

lemma rb_two_create:
  "ring_buffer_create all_ok (\<lambda>_. None) 2 =
     (Some rb_two, [Acquire RStruct, Acquire RArray, Acquire RMutex, Acquire RNotEmpty, Acquire RNotFull])"
  by (simp add: ring_buffer_create_def all_ok_def rb_two_def upt_rec)

theorem ring_buffer_fifo_interleaved_witness:
  "\<exists>s. rb_reach rb_two s \<and> rs_in s = [7] \<and> rs_in s = rs_out s @ rb_list (rs_buf s)"
proof -
  let ?s = "after_push (rb_start rb_two) 0 7 (Return 0) (rb_put rb_two 7)"
  have "push_enter None (rs_buf (rb_start rb_two)) 7 0 = (Return 0, rb_put rb_two 7)"
    by (simp add: push_enter_def rb_start_def rb_two_def)
  then have r: "rb_reach rb_two ?s"
    by (intro rb_reach.step[OF rb_reach.start] rb_step.call_push) (simp_all add: rb_start_def)
  moreover have "rs_in ?s = [7]" by (simp add: after_push_def rb_start_def)
  ultimately show ?thesis using ring_buffer_fifo_interleaved[OF rb_two_create r] by blast
qed

text \<open>Construction never leaks: when any of the five acquisitions fails, exactly the resources
  acquired before it are released; when all succeed, the buffer is empty and well formed, and
  destroying it releases all five.\<close>

theorem ring_buffer_create_no_leak:
  "case ring_buffer_create e mem capacity of
     (None, tr) \<Rightarrow> held [] tr = []
   | (Some rb, tr) \<Rightarrow> rb_inv rb \<and> rb_list rb = [] \<and> rb_capacity rb = capacity \<and>
       set (held [] tr) = {RStruct, RArray, RMutex, RNotEmpty, RNotFull} \<and>
       held [] (tr @ snd (ring_buffer_destroy (Some rb') fl)) = []"
proof (cases "ring_buffer_create e mem capacity")
  case (Pair r tr)
  show ?thesis
  proof (cases r)
    case None
    with Pair have "held [] tr = []"
      by (auto simp: ring_buffer_create_def held_def Let_def split: if_splits)
    with Pair None show ?thesis by simp
  next
    case (Some rb)
    with Pair have cr: "ring_buffer_create e mem capacity = (Some rb, tr)" by simp
    have "tr = [Acquire RStruct, Acquire RArray, Acquire RMutex, Acquire RNotEmpty, Acquire RNotFull]"
      using cr by (auto simp: ring_buffer_create_def Let_def split: if_splits)
    then show ?thesis
      using ring_buffer_create_Some[OF cr] by (auto simp: cr held_def ring_buffer_destroy_def)
  qed
qed

text \<open>Destroying a buffer with the flag set frees each live element exactly once, oldest first, and
  with the flag clear frees none. The index computation \<open>(head + i) % capacity\<close> is on 32-bit words;
  the statement is for capacities up to \<open>2 ^ 31\<close>, where \<open>head + i\<close> cannot wrap.\<close>

theorem ring_buffer_destroy_frees_contents:
  assumes "rb_inv rb" and "unat (rb_capacity rb) \<le> 2 ^ 31"
  shows "fst (ring_buffer_destroy (Some rb) fl) = (if fl then map Some (rb_list rb) else [])"
proof (cases "fl \<and> rb_size rb > 0")
  case True
  have "map (\<lambda>i. rb_buffer rb ! destroy_index rb i) [0..<unat (rb_size rb)] = rb_slots rb"
    using assms by (simp add: rb_slots_def destroy_index_eq)
  moreover have "map Some (rb_list rb) = rb_slots rb"
    using assms(1) by (auto simp: rb_list_def rb_slots_def rb_inv_def)
  ultimately show ?thesis using True by (simp add: ring_buffer_destroy_def)
next
  case False
  then have "fl \<Longrightarrow> rb_list rb = []"
    by (simp add: word_gt_0 flip: length_0_conv)
  with False show ?thesis by (auto simp: ring_buffer_destroy_def)
qed

definition rb_wrapped :: "nat ring_buffer_t" where
  "rb_wrapped = \<lparr>rb_buffer = [Some 8, None, Some 7], rb_capacity = 3, rb_size = 2, rb_head = 2, rb_tail = 1\<rparr>"

lemma rb_wrapped_inv: "rb_inv rb_wrapped"
proof -
  have "i < 2 \<Longrightarrow> i = 0 \<or> i = 1" for i :: nat by arith
  then show ?thesis by (fastforce simp: rb_inv_def rb_wrapped_def)
qed

theorem ring_buffer_destroy_frees_contents_witness:
  "rb_inv rb_wrapped \<and> fst (ring_buffer_destroy (Some rb_wrapped) True) = [Some 7, Some 8]"
  using rb_wrapped_inv ring_buffer_destroy_frees_contents[OF rb_wrapped_inv, of True]
  by (simp add: rb_list_def rb_slots_def rb_wrapped_def upt_rec)

text \<open>The deadline of a timed wait is exact and normalised: for a clock reading with a proper
  microsecond part and a positive timeout, the nanosecond part lies in \<open>[0, 10^9)\<close> and the deadline
  is the reading plus the timeout, with no nanosecond lost.\<close>

theorem get_timeout_time_exact:
  assumes "0 \<le> usec" and "usec < 1000000" and "0 \<le> timeout_ms"
  shows "\<exists>ts. get_timeout_time (Some (sec, usec)) timeout_ms = Some ts \<and>
           0 \<le> tv_nsec ts \<and> tv_nsec ts < 1000000000 \<and>
           tv_sec ts * 1000000000 + tv_nsec ts =
             sec * 1000000000 + usec * 1000 + timeout_ms * 1000000"
proof -
  define q r where "q = timeout_ms div 1000" and "r = timeout_ms mod 1000"
  have "timeout_ms = 1000 * q + r" and "0 \<le> r" and "r < 1000" by (simp_all add: q_def r_def)
  moreover have "timeout_ms sdiv 1000 = q" and "timeout_ms smod 1000 = r"
    using assms(3) by (simp_all add: q_def r_def signed_divide_int_def signed_modulo_int_def sgn_if
        minus_div_mult_eq_mod)
  ultimately show ?thesis using assms(1,2) by (simp add: get_timeout_time_def Let_def)
qed

theorem get_timeout_time_exact_witness:
  "\<exists>ts. get_timeout_time (Some (10, 999999)) 1500 = Some ts \<and> tv_sec ts = 12 \<and> tv_nsec ts = 499999000"
proof -
  obtain ts where "get_timeout_time (Some (10, 999999)) 1500 = Some ts" and "0 \<le> tv_nsec ts"
    and "tv_nsec ts < 1000000000" and "tv_sec ts * 1000000000 + tv_nsec ts = 12499999000"
    using get_timeout_time_exact[of 999999 1500 10] by auto
  moreover from this have "tv_sec ts = 12" by linarith
  ultimately show ?thesis by (intro exI[of _ ts]) simp
qed

lemma push_wait_result:
  assumes "push_wait timed x wakes = Some (v, rb')"
  shows "\<exists>c rb. (c, rb) \<in> set wakes \<and>
           ((v = 0 \<and> \<not> rb_full rb \<and> rb' = rb_put rb x) \<or> (v = -1 \<and> rb' = rb))"
  using assms
proof (induction timed x wakes rule: push_wait.induct)
  case (2 timed x r rb wakes)
  show ?case
  proof (cases "push_wake timed r rb x")
    case (Pair e rb1)
    then have "(e = Return v \<and> rb1 = rb') \<or> (\<exists>t. e = Sleep t \<and> push_wait t x wakes = Some (v, rb'))"
      using "2.prems" by (cases e) auto
    moreover have "e = Return v \<Longrightarrow> v = 0 \<or> v = -1"
      using Pair by (auto simp: push_wake_def split: if_splits)
    ultimately show ?thesis
      using Pair push_wake_effect[OF Pair] "2.IH"[OF Pair[symmetric]] by (cases e) fastforce+
  qed
qed simp

text \<open>Every completed call of \<open>ring_buffer_push\<close> on a real buffer and element, whatever it waited
  for, returns 0 after appending the element to a buffer that had room, or returns -1 and changes
  nothing; the state it acted on is the one it entered with or one of the states it woke up in.\<close>

theorem ring_buffer_push_result:
  assumes "ring_buffer_push clock wakes (Some rb0) (Some x) tmo = Some (v, Some rb')"
    and "\<forall>rb \<in> insert rb0 (snd ` set wakes). rb_inv rb"
  shows "\<exists>rb \<in> insert rb0 (snd ` set wakes).
           (v = 0 \<and> rb_inv rb' \<and> rb_list rb' = rb_list rb @ [x]) \<or> (v = -1 \<and> rb' = rb)"
proof -
  have "\<exists>rb \<in> insert rb0 (snd ` set wakes).
          (v = 0 \<and> \<not> rb_full rb \<and> rb' = rb_put rb x) \<or> (v = -1 \<and> rb' = rb)"
  proof (cases "push_enter clock rb0 x tmo")
    case (Pair e rb1)
    show ?thesis
    proof (cases e)
      case (Return u)
      with Pair assms(1) have "u = v" "rb1 = rb'" by (auto simp: ring_buffer_push_def)
      moreover have "v = 0 \<or> v = -1"
        using Pair Return \<open>u = v\<close> by (auto simp: push_enter_def split: if_splits)
      ultimately show ?thesis using push_enter_effect[OF Pair] Return by auto
    next
      case (Sleep t)
      with Pair assms(1) have "push_wait t x wakes = Some (v, rb')" by (auto simp: ring_buffer_push_def)
      from push_wait_result[OF this] show ?thesis by force
    qed
  qed
  then obtain rb where rb: "rb \<in> insert rb0 (snd ` set wakes)"
    and "(v = 0 \<and> \<not> rb_full rb \<and> rb' = rb_put rb x) \<or> (v = -1 \<and> rb' = rb)" ..
  moreover have "rb_inv rb" using assms(2) rb by blast
  ultimately show ?thesis by (intro bexI[OF _ rb]) (auto simp: rbq.invar_put rbq.contents_put)
qed

theorem ring_buffer_push_result_witness:
  "ring_buffer_push None [] (Some rb_two) (Some 7) 0 = Some (0, Some (rb_put rb_two 7)) \<and>
   rb_list (rb_put rb_two 7) = [7]"
proof -
  have push: "ring_buffer_push None [] (Some rb_two) (Some 7) 0 = Some (0, Some (rb_put rb_two 7))"
    by (simp add: ring_buffer_push_def push_enter_def rb_two_def)
  have inv: "\<forall>rb \<in> insert rb_two (snd ` set []). rb_inv rb"
    using ring_buffer_create_Some(1)[OF rb_two_create] by simp
  from ring_buffer_push_result[OF push inv] show ?thesis
    using push ring_buffer_create_Some(2)[OF rb_two_create] by auto
qed

end
