(* ===== verification/Net_Protocol.thy ===== *)
theory Net_Protocol
  imports Prelude "HOL-Library.Sublist"
begin

unbundle bit_operations_syntax

text \<open>
  The wire protocol (\<open>lib/include/protocol.h\<close>, \<open>lib/src/protocol.c\<close>) and the message transport
  (\<open>lib/src/net_utils.c\<close>). A message is a header of two 32-bit fields and a union body, kept as
  the \<open>sizeof(MessageBody)\<close> bytes it occupies; the members of the union are read and written at
  their offsets. The host's byte order is a parameter (\<^const>\<open>True\<close>: big endian), because the
  code converts some header fields and not others. A socket's input is the list of what successive
  \<open>read\<close> calls can return, so that fragmentation is explicit; its output is the list of bytes the
  successive \<open>write\<close> calls accepted. The theory shows the round trip of a message under any
  fragmentation, its failure across hosts of different byte order, and what the header-only
  receive function delivers.
\<close>

section \<open>Message types and layout\<close>

datatype MessageType =
    MSG_TYPE_HEARTBEAT | MSG_TYPE_CLIENT_CONNECT | MSG_TYPE_CLIENT_CONNECT_ACK
  | MSG_TYPE_CLIENT_DISCONNECT | MSG_TYPE_SUBMIT_JOB | MSG_TYPE_JOB_SUBMITTED
  | MSG_TYPE_GET_JOB_STATUS | MSG_TYPE_JOB_STATUS | MSG_TYPE_GET_JOB_RESULT
  | MSG_TYPE_JOB_RESULT | MSG_TYPE_GET_SERVER_STATS | MSG_TYPE_SERVER_STATS
  | MSG_TYPE_ERROR | MSG_TYPE_REGISTER | MSG_TYPE_REGISTER_RESPONSE
  | MSG_TYPE_HEARTBEAT_RESPONSE | MSG_TYPE_TASK | MSG_TYPE_TASK_RESULT
  | MSG_TYPE_RESULT_ACK | MSG_TYPE_SHUTDOWN

fun msg_code :: "MessageType \<Rightarrow> u32" where
  "msg_code MSG_TYPE_HEARTBEAT = 0"
| "msg_code MSG_TYPE_CLIENT_CONNECT = 1"
| "msg_code MSG_TYPE_CLIENT_CONNECT_ACK = 2"
| "msg_code MSG_TYPE_CLIENT_DISCONNECT = 3"
| "msg_code MSG_TYPE_SUBMIT_JOB = 10"
| "msg_code MSG_TYPE_JOB_SUBMITTED = 11"
| "msg_code MSG_TYPE_GET_JOB_STATUS = 12"
| "msg_code MSG_TYPE_JOB_STATUS = 13"
| "msg_code MSG_TYPE_GET_JOB_RESULT = 14"
| "msg_code MSG_TYPE_JOB_RESULT = 15"
| "msg_code MSG_TYPE_GET_SERVER_STATS = 20"
| "msg_code MSG_TYPE_SERVER_STATS = 21"
| "msg_code MSG_TYPE_ERROR = 30"
| "msg_code MSG_TYPE_REGISTER = 70"
| "msg_code MSG_TYPE_REGISTER_RESPONSE = 71"
| "msg_code MSG_TYPE_HEARTBEAT_RESPONSE = 72"
| "msg_code MSG_TYPE_TASK = 80"
| "msg_code MSG_TYPE_TASK_RESULT = 81"
| "msg_code MSG_TYPE_RESULT_ACK = 82"
| "msg_code MSG_TYPE_SHUTDOWN = 90"

record MessageHeader =
  message_type :: u32
  client_id :: u32

record Message =
  header :: MessageHeader
  body :: "byte list"

text \<open>
  \<open>sizeof(MessageHeader)\<close> is 8. The largest members of the union are \<open>submit_job\<close> and
  \<open>job_result\<close>: two 32-bit fields around 1024 data bytes.
\<close>

definition header_size :: nat where "header_size = 8"

definition body_size :: nat where "body_size = 1032"

definition message_size :: nat where "message_size = header_size + body_size"

definition MAX_DATA_SIZE :: nat where "MAX_DATA_SIZE = 1024"

section \<open>Byte order\<close>

definition u32_bytes :: "bool \<Rightarrow> u32 \<Rightarrow> byte list" where
  "u32_bytes be w =
     (let le = [ucast w, ucast (drop_bit 8 w), ucast (drop_bit 16 w), ucast (drop_bit 24 w)]
      in if be then rev le else le)"

definition bytes_u32 :: "bool \<Rightarrow> byte list \<Rightarrow> u32" where
  "bytes_u32 be bs =
     (let le = (if be then rev bs else bs)
      in ucast (le ! 0) OR push_bit 8 (ucast (le ! 1)) OR push_bit 16 (ucast (le ! 2))
         OR push_bit 24 (ucast (le ! 3)))"

definition bswap32 :: "u32 \<Rightarrow> u32" where
  "bswap32 w = bytes_u32 True (u32_bytes False w)"

text \<open>\<open>htonl\<close> and \<open>ntohl\<close> are the same function: the identity on a big-endian host.\<close>

definition htonl :: "bool \<Rightarrow> u32 \<Rightarrow> u32" where
  "htonl be w = (if be then w else bswap32 w)"

section \<open>A message as the bytes of its object\<close>

definition encode_message :: "bool \<Rightarrow> Message \<Rightarrow> byte list" where
  "encode_message be m =
     u32_bytes be (message_type (header m)) @ u32_bytes be (client_id (header m)) @ body m"

definition decode_header :: "bool \<Rightarrow> byte list \<Rightarrow> MessageHeader" where
  "decode_header be bs = \<lparr>message_type = bytes_u32 be (take 4 bs),
                          client_id = bytes_u32 be (take 4 (drop 4 bs))\<rparr>"

definition decode_message :: "bool \<Rightarrow> byte list \<Rightarrow> Message" where
  "decode_message be bs = \<lparr>header = decode_header be bs, body = drop header_size bs\<rparr>"

text \<open>Members of the body: a 32-bit field at an offset, and a run of bytes.\<close>

definition get_u32 :: "bool \<Rightarrow> nat \<Rightarrow> byte list \<Rightarrow> u32" where
  "get_u32 be off b = bytes_u32 be (take 4 (drop off b))"

definition set_bytes :: "nat \<Rightarrow> byte list \<Rightarrow> byte list \<Rightarrow> byte list" where
  "set_bytes off bs b = take off b @ bs @ drop (off + length bs) b"

definition set_u32 :: "bool \<Rightarrow> nat \<Rightarrow> u32 \<Rightarrow> byte list \<Rightarrow> byte list" where
  "set_u32 be off v b = set_bytes off (u32_bytes be v) b"

definition zero_body :: "byte list" where
  "zero_body = replicate body_size 0"

section \<open>Parsing and validation\<close>

text \<open>
  \<open>parse_message\<close> copies \<open>sizeof(Message)\<close> bytes out of the buffer; a shorter buffer is undefined
  (\<^const>\<open>None\<close>). The result is the return code and what the message object holds afterwards.
\<close>

definition parse_message :: "bool \<Rightarrow> byte list option \<Rightarrow> Message option \<Rightarrow> (int \<times> Message option) option" where
  "parse_message be buffer msg =
     (case (buffer, msg) of
        (Some bs, Some m) \<Rightarrow>
          (case mem_read bs message_size of
             None \<Rightarrow> None
           | Some raw \<Rightarrow> Some (0, Some (decode_message be raw)))
      | _ \<Rightarrow> Some (-1, msg))"

definition validate_message :: "Message option \<Rightarrow> int" where
  "validate_message msg = (if msg = None then -1 else 0)"

section \<open>Sending\<close>

text \<open>
  The write loop. \<open>ws\<close> are the values the successive \<open>write\<close> calls return; a positive one accepts
  that many of the remaining bytes. An exhausted list is a connection on which writing fails.
\<close>

fun write_loop :: "int list \<Rightarrow> byte list \<Rightarrow> int \<times> byte list" where
  "write_loop ws [] = (0, [])"
| "write_loop [] (b # bs) = (-1, [])"
| "write_loop (n # ws) (b # bs) =
     (if n \<le> 0 then (-1, [])
      else let k = nat n; (r, out) = write_loop ws (drop k (b # bs))
           in (r, take k (b # bs) @ out))"

definition net_header :: "bool \<Rightarrow> MessageHeader \<Rightarrow> MessageHeader" where
  "net_header be h = \<lparr>message_type = htonl be (message_type h),
                      client_id = htonl be (htonl be (client_id h))\<rparr>"

definition send_message :: "bool \<Rightarrow> int list \<Rightarrow> Message \<Rightarrow> int \<times> byte list" where
  "send_message be ws msg = write_loop ws (encode_message be (msg\<lparr>header := net_header be (header msg)\<rparr>))"

section \<open>Receiving\<close>

text \<open>
  What successive reads on a socket find: bytes that are available together, or a failing call
  (an error or the receive timeout). The end of the list, like an empty run, is the end of the
  stream.
\<close>

datatype read_event = Bytes "byte list" | ReadError

fun recv_bytes :: "nat \<Rightarrow> read_event list \<Rightarrow> byte list option \<times> read_event list" where
  "recv_bytes n [] = (if n = 0 then (Some [], []) else (None, []))"
| "recv_bytes n (ReadError # es) = (if n = 0 then (Some [], ReadError # es) else (None, es))"
| "recv_bytes n (Bytes bs # es) =
     (if n = 0 then (Some [], Bytes bs # es)
      else if bs = [] then (None, Bytes bs # es)
      else if length bs \<le> n
      then (case recv_bytes (n - length bs) es of (r, es') \<Rightarrow> (map_option (append bs) r, es'))
      else (Some (take n bs), Bytes (drop n bs) # es))"

definition host_header :: "bool \<Rightarrow> MessageHeader \<Rightarrow> MessageHeader" where
  "host_header be h = \<lparr>message_type = htonl be (message_type h),
                       client_id = htonl be (htonl be (client_id h))\<rparr>"

definition receive_message :: "bool \<Rightarrow> read_event list \<Rightarrow> (int \<times> Message option) \<times> read_event list" where
  "receive_message be es =
     (case recv_bytes message_size es of
        (None, es') \<Rightarrow> ((-1, None), es')
      | (Some bs, es') \<Rightarrow>
          let m = decode_message be bs
          in ((0, Some (m\<lparr>header := host_header be (header m)\<rparr>)), es'))"

text \<open>\<open>recv_header\<close> reads the header bytes and, unlike \<open>receive_message\<close>, converts nothing.\<close>

definition recv_header :: "bool \<Rightarrow> read_event list \<Rightarrow> (int \<times> MessageHeader option) \<times> read_event list" where
  "recv_header be es =
     (case recv_bytes header_size es of
        (None, es') \<Rightarrow> ((-1, None), es')
      | (Some bs, es') \<Rightarrow> ((0, Some (decode_header be bs)), es'))"

definition recv_payload :: "nat \<Rightarrow> read_event list \<Rightarrow> (int \<times> byte list option) \<times> read_event list" where
  "recv_payload len es =
     (case recv_bytes len es of
        (None, es') \<Rightarrow> ((-1, None), es')
      | (Some bs, es') \<Rightarrow> ((0, Some bs), es'))"

section \<open>Sockets\<close>

text \<open>
  What the socket calls answer, and the descriptors the function closed. The result is the
  function's return value and that list.
\<close>

record socket_env =
  se_fd :: int
  se_connect :: int
  se_bind :: int
  se_listen :: int
  se_setsockopt :: int

definition set_socket_timeout :: "socket_env \<Rightarrow> int \<Rightarrow> int \<Rightarrow> int" where
  "set_socket_timeout e sockfd timeout_sec = se_setsockopt e"

definition create_client_socket :: "socket_env \<Rightarrow> int \<times> int list" where
  "create_client_socket e =
     (if se_fd e < 0 then (-1, [])
      else if se_connect e < 0 then (-1, [se_fd e])
      else (se_fd e, []))"

definition create_server_socket :: "socket_env \<Rightarrow> int \<times> int list" where
  "create_server_socket e =
     (if se_fd e < 0 then (-1, [])
      else if se_bind e < 0 then (-1, [se_fd e])
      else if se_listen e < 0 then (-1, [se_fd e])
      else (se_fd e, []))"

section \<open>Byte order lemmas\<close>

lemma length_u32_bytes [simp]: "length (u32_bytes be w) = 4"
  by (simp add: u32_bytes_def Let_def)

lemma byte_range_cases:
  fixes n :: nat
  assumes "n < 32"
  obtains "n < 8" | "8 \<le> n" "n < 16" | "16 \<le> n" "n < 24" | "24 \<le> n" "n < 32"
  using assms by linarith

lemma word_from_bytes:
  "ucast (ucast w :: byte) OR push_bit 8 (ucast (ucast (drop_bit 8 w) :: byte)) OR
   push_bit 16 (ucast (ucast (drop_bit 16 w) :: byte)) OR
   push_bit 24 (ucast (ucast (drop_bit 24 w) :: byte)) = (w :: u32)"
proof (rule bit_eqI)
  fix n assume "possible_bit TYPE(u32) n"
  then have "n < 32" by simp
  then show "bit (ucast (ucast w :: byte) OR push_bit 8 (ucast (ucast (drop_bit 8 w) :: byte)) OR
     push_bit 16 (ucast (ucast (drop_bit 16 w) :: byte)) OR
     push_bit 24 (ucast (ucast (drop_bit 24 w) :: byte)) :: u32) n = bit w n"
    by (cases n rule: byte_range_cases) (auto simp: bit_simps)
qed

lemma byte_from_word:
  fixes a b c d :: byte
  defines "w \<equiv> ucast a OR push_bit 8 (ucast b) OR push_bit 16 (ucast c) OR push_bit 24 (ucast d) :: u32"
  shows "ucast w = a" and "ucast (drop_bit 8 w) = b" and "ucast (drop_bit 16 w) = c"
    and "ucast (drop_bit 24 w) = d"
  unfolding w_def by (rule bit_eqI; auto simp: bit_simps dest: bit_imp_le_length)+

lemma bytes_u32_u32_bytes [simp]: "bytes_u32 be (u32_bytes be w) = w"
  by (simp add: bytes_u32_def u32_bytes_def Let_def word_from_bytes)

lemma u32_bytes_bytes_u32:
  assumes "length bs = 4"
  shows "u32_bytes be (bytes_u32 be bs) = bs"
proof -
  obtain a b c d where "bs = [a, b, c, d]"
    using assms by (auto simp: numeral_eq_Suc length_Suc_conv)
  then show ?thesis by (simp add: bytes_u32_def u32_bytes_def Let_def byte_from_word del: drop_bit_or)
qed

lemma u32_bytes_rev: "u32_bytes False w = rev (u32_bytes True w)"
  by (simp add: u32_bytes_def Let_def)

lemma bytes_u32_rev: "bytes_u32 True (rev bs) = bytes_u32 False bs"
  by (simp add: bytes_u32_def Let_def)

lemma bswap32_bswap32 [simp]: "bswap32 (bswap32 w) = w"
proof -
  have "bswap32 (bswap32 w) = bytes_u32 True (rev (u32_bytes False w))"
    by (simp add: bswap32_def u32_bytes_rev[of "bytes_u32 True _"] u32_bytes_bytes_u32)
  then show ?thesis by (simp add: bytes_u32_rev)
qed

lemma htonl_htonl [simp]: "htonl be (htonl be w) = w"
  by (simp add: htonl_def)

text \<open>A value swapped on one host and swapped back on a host of the other order is changed.\<close>

lemma bytes_cross_endian: "bytes_u32 (\<not> be) (u32_bytes be w) = bswap32 w"
proof (cases be)
  case True
  have "bytes_u32 False (u32_bytes True w) = bytes_u32 True (rev (u32_bytes True w))"
    by (simp add: bytes_u32_rev)
  then show ?thesis using True by (simp add: bswap32_def u32_bytes_rev)
qed (simp add: bswap32_def)

section \<open>Transport lemmas\<close>

lemma length_encode_message [simp]: "length (encode_message be m) = header_size + length (body m)"
  by (simp add: encode_message_def header_size_def)

lemma decode_encode_message: "decode_message be (encode_message be m) = m"
  by (simp add: decode_message_def encode_message_def decode_header_def header_size_def)

lemma write_loop_success: "write_loop ws bs = (0, out) \<Longrightarrow> out = bs"
proof (induction ws bs arbitrary: out rule: write_loop.induct)
  case (3 n ws b bs)
  then show ?case by (auto simp: Let_def split: if_splits prod.splits)
qed auto

lemma write_loop_prefix: "prefix (snd (write_loop ws bs)) bs"
proof (induction ws bs rule: write_loop.induct)
  case (3 n ws b bs)
  show ?case
  proof (cases "n \<le> 0")
    case False
    then obtain rest where "drop (nat n) (b # bs) = snd (write_loop ws (drop (nat n) (b # bs))) @ rest"
      using 3 by (auto simp: prefix_def)
    then have "b # bs = (take (nat n) (b # bs) @ snd (write_loop ws (drop (nat n) (b # bs)))) @ rest"
      by (metis append.assoc append_take_drop_id)
    then show ?thesis
      unfolding prefix_def using False by (intro exI[of _ rest]) (simp add: Let_def case_prod_beta)
  qed simp
qed auto

lemma write_loop_failure: "fst (write_loop ws bs) \<noteq> 0 \<Longrightarrow> snd (write_loop ws bs) \<noteq> bs"
proof (induction ws bs rule: write_loop.induct)
  case (3 n ws b bs)
  show ?case
  proof (cases "n \<le> 0")
    case False
    then have "snd (write_loop ws (drop (nat n) (b # bs))) \<noteq> drop (nat n) (b # bs)"
      using 3 by (simp add: Let_def case_prod_beta)
    then have "take (nat n) (b # bs) @ snd (write_loop ws (drop (nat n) (b # bs))) \<noteq> b # bs"
      by (metis append_take_drop_id same_append_eq)
    then show ?thesis using False by (simp add: Let_def case_prod_beta)
  qed simp
qed auto

lemma write_loop_code: "fst (write_loop ws bs) = 0 \<or> fst (write_loop ws bs) = -1"
  by (induction ws bs rule: write_loop.induct) (auto simp: Let_def split: prod.splits)

abbreviation stream :: "byte list list \<Rightarrow> read_event list" where
  "stream cs \<equiv> map Bytes cs"

lemma recv_bytes_0 [simp]: "recv_bytes 0 es = (Some [], es)"
  by (cases "(0 :: nat, es)" rule: recv_bytes.cases) auto

lemma recv_bytes_stream:
  assumes "\<forall>c \<in> set cs. c \<noteq> []" and "n \<le> length (concat cs)"
  shows "\<exists>cs'. recv_bytes n (stream cs @ es) = (Some (take n (concat cs)), stream cs' @ es) \<and>
           concat cs' = drop n (concat cs) \<and> (\<forall>c \<in> set cs'. c \<noteq> [])"
  using assms
proof (induction cs arbitrary: n)
  case (Cons c cs)
  show ?case
  proof (cases "n = 0 \<or> n < length c")
    case True
    then show ?thesis
      using Cons.prems by (intro exI[of _ "if n = 0 then c # cs else drop n c # cs"]) auto
  next
    case False
    then have "n - length c \<le> length (concat cs)" using Cons.prems by simp
    with Cons obtain cs' where cs': "recv_bytes (n - length c) (stream cs @ es) =
        (Some (take (n - length c) (concat cs)), stream cs' @ es)"
      "concat cs' = drop (n - length c) (concat cs)" "\<forall>c \<in> set cs'. c \<noteq> []" by force
    then show ?thesis using False Cons.prems by (intro exI[of _ cs']) auto
  qed
next
  case Nil
  then show ?case by (intro exI[of _ "[]"]) simp
qed

lemma recv_message_stream:
  assumes "concat cs = bs @ rest" and "length bs = message_size" and "\<forall>c \<in> set cs. c \<noteq> []"
  shows "\<exists>cs'. receive_message be (stream cs) =
           ((0, Some ((decode_message be bs)\<lparr>header := host_header be (decode_header be bs)\<rparr>)), stream cs') \<and>
           concat cs' = rest \<and> (\<forall>c \<in> set cs'. c \<noteq> [])"
proof -
  have n: "message_size \<le> length (concat cs)" by (simp only: assms(1) length_append assms(2))
  have tk: "take message_size (concat cs) = bs" and dr: "drop message_size (concat cs) = rest"
    unfolding assms(1) assms(2)[symmetric] by simp_all
  obtain cs' where cs': "recv_bytes message_size (stream cs @ []) = (Some bs, stream cs' @ [])"
    "concat cs' = rest" "\<forall>c \<in> set cs'. c \<noteq> []"
    using recv_bytes_stream[OF assms(3) n, of "[]"] unfolding tk dr by blast
  show ?thesis
    by (rule exI[of _ cs']) (use cs' in \<open>simp add: receive_message_def decode_message_def\<close>)
qed

lemma send_message_bytes:
  assumes "send_message be ws m = (0, out)"
  shows "out = u32_bytes be (htonl be (message_type (header m))) @ u32_bytes be (client_id (header m)) @ body m"
  using write_loop_success[OF assms[unfolded send_message_def]]
  by (simp add: encode_message_def net_header_def)

lemma set_get_u32:
  "off + 4 \<le> length b \<Longrightarrow> get_u32 be off (set_u32 be off v b) = v"
  by (simp add: get_u32_def set_u32_def set_bytes_def)

lemma length_set_bytes [simp]: "off + length bs \<le> length b \<Longrightarrow> length (set_bytes off bs b) = length b"
  by (simp add: set_bytes_def)

lemma length_zero_body [simp]: "length zero_body = body_size"
  by (simp add: zero_body_def)

text \<open>What a receiver of the same byte order gets out of the bytes of a sent message.\<close>

lemma receive_sent:
  assumes "send_message be ws m = (0, out)" and "length (body m) = body_size"
    and "concat cs = out @ rest" and "\<forall>c \<in> set cs. c \<noteq> []"
  shows "\<exists>cs'. receive_message be (stream cs) = ((0, Some m), stream cs') \<and> concat cs' = rest \<and> (\<forall>c \<in> set cs'. c \<noteq> [])"
proof -
  note out = send_message_bytes[OF assms(1)]
  have "length out = message_size" by (simp add: out message_size_def header_size_def assms(2))
  moreover have "decode_header be out =
      \<lparr>message_type = htonl be (message_type (header m)), client_id = client_id (header m)\<rparr>"
    by (simp add: decode_header_def out)
  moreover have "drop header_size out = body m" by (simp add: out header_size_def)
  ultimately show ?thesis
    using recv_message_stream[OF assms(3) _ assms(4), of be]
    by (auto simp: decode_message_def host_header_def)
qed

lemma nth_set_bytes:
  "k + length bs \<le> length b \<Longrightarrow> i < length b \<Longrightarrow>
   set_bytes k bs b ! i = (if k \<le> i \<and> i < k + length bs then bs ! (i - k) else b ! i)"
  by (cases "i < k") (auto simp: set_bytes_def nth_append)

lemma take_drop_set_bytes_other:
  assumes "off + n \<le> k \<or> k + length bs \<le> off" and "k + length bs \<le> length b" and "off + n \<le> length b"
  shows "take n (drop off (set_bytes k bs b)) = take n (drop off b)"
proof (rule nth_equalityI)
  fix i assume "i < length (take n (drop off (set_bytes k bs b)))"
  then have "i < n" by simp
  then show "take n (drop off (set_bytes k bs b)) ! i = take n (drop off b) ! i"
    using assms by (auto simp: nth_set_bytes)
qed (use assms in simp)

lemma take_drop_set_bytes_same:
  "k + length bs \<le> length b \<Longrightarrow> take (length bs) (drop k (set_bytes k bs b)) = bs"
  by (simp add: set_bytes_def)

lemma length_set_u32 [simp]: "off + 4 \<le> length b \<Longrightarrow> length (set_u32 be off v b) = length b"
  by (simp add: set_u32_def)

lemma send_message_code: "fst (send_message be ws m) < 0 \<longleftrightarrow> fst (send_message be ws m) \<noteq> 0"
  using write_loop_code by (metis send_message_def less_irrefl neg_less_0_iff_less zero_less_one)

lemma sent_in_one_write:
  assumes "length (body m) = body_size"
  shows "fst (send_message be [1040] m) = 0"
proof -
  let ?e = "encode_message be (m\<lparr>header := net_header be (header m)\<rparr>)"
  have l: "length ?e = 1040" using assms by (simp add: header_size_def body_size_def)
  then obtain b bs where e: "?e = b # bs" by (cases ?e) auto
  with l show ?thesis by (simp add: send_message_def Let_def)
qed

lemma recv_header_stream:
  assumes "send_message be ws m = (0, out)" and "concat cs = out @ rest" and "\<forall>c \<in> set cs. c \<noteq> []"
  shows "\<exists>cs'. recv_header be (stream cs) =
      ((0, Some \<lparr>message_type = htonl be (message_type (header m)), client_id = client_id (header m)\<rparr>),
       stream cs') \<and> concat cs' = body m @ rest \<and> (\<forall>c \<in> set cs'. c \<noteq> [])"
proof -
  note out = send_message_bytes[OF assms(1)]
  obtain cs' where cs': "recv_bytes header_size (stream cs) = (Some (take header_size (concat cs)), stream cs')"
    "concat cs' = drop header_size (concat cs)" "\<forall>c \<in> set cs'. c \<noteq> []"
    using recv_bytes_stream[OF assms(3), of header_size "[]"] by (auto simp: assms(2) out header_size_def)
  then show ?thesis
    by (intro exI[of _ cs']) (simp add: recv_header_def assms(2) out header_size_def decode_header_def)
qed

section \<open>Properties\<close>

text \<open>C7: A message that \<open>send_message\<close> reports as sent is received unchanged by \<open>receive_message\<close> on a
  host of the same byte order, however the writes and reads were split, and the bytes that follow
  it stay in the stream.\<close>

theorem message_round_trip:
  assumes "send_message be ws m = (0, out)" and "length (body m) = body_size"
    and "concat cs = out @ rest" and "\<forall>c \<in> set cs. c \<noteq> []"
  shows "\<exists>cs'. receive_message be (stream cs) = ((0, Some m), stream cs') \<and> concat cs' = rest"
  using receive_sent[OF assms] by blast

definition sample_message :: Message where
  "sample_message = \<lparr>header = \<lparr>message_type = msg_code MSG_TYPE_REGISTER, client_id = 1\<rparr>, body = zero_body\<rparr>"

definition sample_bytes :: "byte list" where
  "sample_bytes = snd (send_message False [1040] sample_message)"

lemma sample_sent: "send_message False [1040] sample_message = (0, sample_bytes)"
proof -
  let ?e = "encode_message False (sample_message\<lparr>header := net_header False (header sample_message)\<rparr>)"
  have l: "length ?e = 1040" by (simp add: sample_message_def header_size_def body_size_def)
  then obtain b bs where e: "?e = b # bs" by (cases ?e) auto
  with l have "write_loop [1040] ?e = (0, ?e)" by (simp add: Let_def)
  then show ?thesis by (simp add: sample_bytes_def send_message_def)
qed

lemma length_sample_bytes: "length sample_bytes = 1040"
  by (simp add: send_message_bytes[OF sample_sent] sample_message_def body_size_def)

theorem message_round_trip_witness:
  "\<exists>cs'. receive_message False (stream [take 3 sample_bytes, drop 3 sample_bytes]) =
      ((0, Some sample_message), stream cs') \<and> concat cs' = []"
proof -
  have "concat [take 3 sample_bytes, drop 3 sample_bytes] = sample_bytes @ []" by simp
  moreover have "\<forall>c \<in> set [take 3 sample_bytes, drop 3 sample_bytes]. c \<noteq> []"
    using length_sample_bytes by auto
  moreover have "length (body sample_message) = body_size" by (simp add: sample_message_def)
  ultimately show ?thesis using message_round_trip[OF sample_sent] by blast
qed

text \<open>Between hosts of different byte order the message type and the body arrive unchanged but the
  client identifier arrives with its bytes reversed: \<open>send_message\<close> and \<open>receive_message\<close> convert
  that field twice, which undoes the conversion.\<close>

theorem message_cross_endian:
  assumes "send_message be ws m = (0, out)" and "length (body m) = body_size"
  shows "receive_message (\<not> be) [Bytes out] =
    ((0, Some (m\<lparr>header := \<lparr>message_type = message_type (header m),
                           client_id = bswap32 (client_id (header m))\<rparr>\<rparr>)), [])"
proof -
  note out = send_message_bytes[OF assms(1)]
  have len: "length out = message_size" by (simp add: out message_size_def header_size_def assms(2))
  moreover have "0 < message_size" by (simp add: message_size_def header_size_def)
  ultimately have recv: "recv_bytes message_size [Bytes out] = (Some out, [])"
    by auto
  have "decode_header (\<not> be) out = \<lparr>message_type = bswap32 (htonl be (message_type (header m))),
      client_id = bswap32 (client_id (header m))\<rparr>"
    by (simp add: decode_header_def out bytes_cross_endian)
  moreover have "drop header_size out = body m" by (simp add: out header_size_def)
  moreover have "htonl (\<not> be) (bswap32 (htonl be w)) = w" for w by (simp add: htonl_def)
  ultimately show ?thesis
    unfolding receive_message_def recv by (simp add: decode_message_def host_header_def)
qed

theorem message_cross_endian_witness:
  "\<exists>m. receive_message True [Bytes sample_bytes] = ((0, Some m), []) \<and>
       message_type (header m) = 70 \<and> client_id (header m) = 16777216"
  using message_cross_endian[OF sample_sent]
  by (simp add: sample_message_def bswap32_def bytes_u32_def u32_bytes_def Let_def)

text \<open>\<open>recv_header\<close> on the bytes of one sent message yields the type still in network order (on a
  little-endian host, the byte-reversed code) and leaves the whole body in the stream, where the
  next header is read from.\<close>

theorem recv_header_of_sent_message:
  assumes "send_message be ws m = (0, out)" and "concat cs = out @ rest" and "\<forall>c \<in> set cs. c \<noteq> []"
  shows "\<exists>cs'. recv_header be (stream cs) =
      ((0, Some \<lparr>message_type = htonl be (message_type (header m)), client_id = client_id (header m)\<rparr>),
       stream cs') \<and> concat cs' = body m @ rest"
  using recv_header_stream[OF assms] by blast

theorem recv_header_of_sent_message_witness:
  "\<exists>cs'. recv_header False (stream [sample_bytes]) =
      ((0, Some \<lparr>message_type = 0x46000000, client_id = 1\<rparr>), stream cs') \<and> length (concat cs') = 1032"
proof -
  have "\<forall>c \<in> set [sample_bytes]. c \<noteq> []" using length_sample_bytes by auto
  with recv_header_of_sent_message[OF sample_sent, of "[sample_bytes]" "[]"] show ?thesis
    by (auto simp: sample_message_def htonl_def bswap32_def bytes_u32_def u32_bytes_def Let_def body_size_def)
qed

text \<open>On a little-endian host a header received without conversion carries the code of a defined
  message type only if the sender sent a heartbeat: of the twenty codes only 0 survives reversal.\<close>

theorem reversed_codes_are_unknown:
  "htonl False (msg_code t) = msg_code t' \<longleftrightarrow> t = MSG_TYPE_HEARTBEAT \<and> t' = MSG_TYPE_HEARTBEAT"
  by (cases t; cases t')
     (simp_all add: htonl_def bswap32_def bytes_u32_def u32_bytes_def Let_def)

text \<open>\<open>send_message\<close> returns 0 exactly when every byte of the converted message was accepted, and -1
  after a proper prefix of them otherwise; no byte is sent twice or out of order.\<close>

theorem send_message_all_or_prefix:
  "(fst (send_message be ws m) = 0 \<and>
      snd (send_message be ws m) = encode_message be (m\<lparr>header := net_header be (header m)\<rparr>)) \<or>
   (fst (send_message be ws m) = -1 \<and>
      strict_prefix (snd (send_message be ws m))
        (encode_message be (m\<lparr>header := net_header be (header m)\<rparr>)))"
proof -
  let ?e = "encode_message be (m\<lparr>header := net_header be (header m)\<rparr>)"
  have "prefix (snd (write_loop ws ?e)) ?e" by (rule write_loop_prefix)
  moreover have "fst (write_loop ws ?e) = 0 \<Longrightarrow> snd (write_loop ws ?e) = ?e"
    using write_loop_success[of ws ?e "snd (write_loop ws ?e)"] by (simp add: prod_eq_iff)
  ultimately show ?thesis
    using write_loop_code[of ws ?e] write_loop_failure[of ws ?e]
    by (auto simp: send_message_def strict_prefix_def)
qed

end
