(* ===== verification/Task_Manager.thy ===== *)
theory Task_Manager
  imports Ring_Buffer Net_Protocol Keyed_Table
begin

text \<open>
  The task manager of the central server (\<open>central_server/task_manager.c\<close>): an array of task
  records of which the first \<open>count\<close> are in use, and a ring buffer of the tasks that wait for a
  worker. Results are kept as the code keeps them: an identifier, 0 for failure. \<open>now\<close> is
  \<open>time(NULL)\<close>; what \<open>malloc\<close> hands out is an argument, because the code does not initialise every
  byte of a task. The theory shows that a successful creation appends one record and one queue
  entry, that the queue is always the tail of the records, so that tasks are handed out once each in
  the order of creation, that identifiers are fresh until the counter wraps, how updates and the
  timeout sweep act, and that records are never reclaimed.
\<close>

section \<open>Data\<close>

record task_t =
  t_task_id :: u32
  t_input_data :: "byte list"
  t_output_data :: "byte list"
  t_input_size :: u32
  t_output_size :: u32

datatype task_status_t =
    TASK_STATUS_PENDING | TASK_STATUS_ASSIGNED | TASK_STATUS_COMPLETED
  | TASK_STATUS_FAILED | TASK_STATUS_TIMEOUT

record task_info_t =
  ti_task :: task_t
  ti_worker_id :: u32
  ti_status :: task_status_t
  ti_created_time :: int
  ti_assigned_time :: int
  ti_completed_time :: int
  ti_exec_time_ms :: u32

record task_manager_t =
  tm_tasks :: "task_info_t list"
  tm_capacity :: u32
  tm_count :: u32
  tm_next_task_id :: u32
  tm_task_queue :: "task_t ring_buffer_t option"

definition STATUS_SUCCESS :: byte where "STATUS_SUCCESS = 0"

definition recorded :: "task_manager_t \<Rightarrow> task_info_t list" where
  "recorded m = take (unat (tm_count m)) (tm_tasks m)"

section \<open>Construction and destruction\<close>

datatype tm_event =
    AcqManager | RelManager | AcqTasks | RelTasks | OnQueue rb_event | AcqLock | RelLock

record tm_env =
  te_struct_ok :: bool
  te_array_ok :: bool
  te_queue :: rb_env
  te_mutex_ok :: bool

definition task_manager_create ::
  "tm_env \<Rightarrow> (nat \<Rightarrow> task_info_t) \<Rightarrow> (nat \<Rightarrow> task_t option) \<Rightarrow> u32 \<Rightarrow> u32
   \<Rightarrow> task_manager_t option \<times> tm_event list" where
  "task_manager_create e mem qmem capacity queue_size =
     (if capacity = 0 \<or> queue_size = 0 then (None, [])
      else if \<not> te_struct_ok e then (None, [])
      else if \<not> te_array_ok e then (None, [AcqManager, RelManager])
      else (case ring_buffer_create (te_queue e) qmem queue_size of
              (None, evs) \<Rightarrow>
                (None, [AcqManager, AcqTasks] @ map OnQueue evs @ [RelTasks, RelManager])
            | (Some q, evs) \<Rightarrow>
                if \<not> te_mutex_ok e
                then (None, [AcqManager, AcqTasks] @ map OnQueue evs @
                            map OnQueue (snd (ring_buffer_destroy (Some q) False)) @
                            [RelTasks, RelManager])
                else (Some \<lparr>tm_tasks = map mem [0..<unat capacity], tm_capacity = capacity,
                            tm_count = 0, tm_next_task_id = 1, tm_task_queue = Some q\<rparr>,
                      [AcqManager, AcqTasks] @ map OnQueue evs @ [AcqLock])))"

definition task_manager_destroy :: "task_manager_t option \<Rightarrow> task_t option list \<times> tm_event list" where
  "task_manager_destroy mp =
     (case mp of None \<Rightarrow> ([], [])
      | Some m \<Rightarrow>
          (case tm_task_queue m of
             None \<Rightarrow> ([], [RelLock, RelTasks, RelManager])
           | Some q \<Rightarrow>
               (fst (ring_buffer_destroy (Some q) True),
                map OnQueue (snd (ring_buffer_destroy (Some q) True)) @ [RelLock, RelTasks, RelManager])))"

section \<open>Creating tasks\<close>

text \<open>
  \<open>fresh\<close> is the block \<open>malloc\<close> returns. The outer \<^const>\<open>None\<close> is the undefined behaviour of a
  copy that reads past the end of the caller's data.
\<close>

definition init_task :: "task_t \<Rightarrow> u32 \<Rightarrow> byte list \<Rightarrow> task_t" where
  "init_task block task_id data =
     block\<lparr>t_task_id := task_id, t_input_data := set_bytes 0 data (t_input_data block),
           t_output_data := replicate MAX_DATA_SIZE 0\<rparr>"

definition new_task_info :: "int \<Rightarrow> task_t \<Rightarrow> task_info_t" where
  "new_task_info now task =
     \<lparr>ti_task = task, ti_worker_id = 0, ti_status = TASK_STATUS_PENDING, ti_created_time = now,
      ti_assigned_time = 0, ti_completed_time = 0, ti_exec_time_ms = 0\<rparr>"

definition task_manager_create_task ::
  "task_t option \<Rightarrow> int \<Rightarrow> task_manager_t option \<Rightarrow> byte list option \<Rightarrow> u32
   \<Rightarrow> (u32 \<times> task_manager_t option) option" where
  "task_manager_create_task fresh now mp input_data input_size =
     (case (mp, input_data) of
        (Some m, Some bytes) \<Rightarrow>
          if input_size = 0 \<or> unat input_size > MAX_DATA_SIZE then Some (0, mp)
          else if tm_count m \<ge> tm_capacity m then Some (0, mp)
          else (case fresh of
                  None \<Rightarrow> Some (0, mp)
                | Some block \<Rightarrow>
                    (case mem_read bytes (unat input_size) of
                       None \<Rightarrow> None
                     | Some data \<Rightarrow>
                         let task_id = tm_next_task_id m;
                             m1 = m\<lparr>tm_next_task_id := tm_next_task_id m + 1\<rparr>;
                             task = init_task block task_id data
                         in (case ring_buffer_push None [] (tm_task_queue m1) (Some task) 0 of
                               None \<Rightarrow> None
                             | Some (r, q) \<Rightarrow>
                                 if r \<noteq> 0 then Some (0, Some (m1\<lparr>tm_task_queue := q\<rparr>))
                                 else Some (task_id,
                                        Some (m1\<lparr>tm_task_queue := q,
                                                 tm_tasks := (tm_tasks m)[unat (tm_count m) := new_task_info now task],
                                                 tm_count := tm_count m + 1\<rparr>)))))
      | _ \<Rightarrow> Some (0, mp))"

section \<open>Handing out and updating tasks\<close>

definition task_manager_get_next_task ::
  "(int \<times> int) option \<Rightarrow> (int \<times> task_t ring_buffer_t) list \<Rightarrow> task_manager_t option \<Rightarrow> int
   \<Rightarrow> (task_t option \<times> task_manager_t option) option" where
  "task_manager_get_next_task clock wakes mp timeout_ms =
     (case mp of None \<Rightarrow> Some (None, None)
      | Some m \<Rightarrow> map_option (\<lambda>(t, q). (t, Some (m\<lparr>tm_task_queue := q\<rparr>)))
                     (ring_buffer_pop clock wakes (tm_task_queue m) timeout_ms))"

definition find_task :: "task_manager_t \<Rightarrow> u32 \<Rightarrow> nat option" where
  "find_task m task_id = find_slot (\<lambda>ti. t_task_id (ti_task ti) = task_id) (recorded m)"

definition mark_assigned :: "int \<Rightarrow> u32 \<Rightarrow> task_info_t \<Rightarrow> task_info_t" where
  "mark_assigned now worker_id ti =
     ti\<lparr>ti_worker_id := worker_id, ti_status := TASK_STATUS_ASSIGNED, ti_assigned_time := now\<rparr>"

definition task_manager_assign_task ::
  "int \<Rightarrow> task_manager_t option \<Rightarrow> u32 \<Rightarrow> u32 \<Rightarrow> int \<times> task_manager_t option" where
  "task_manager_assign_task now mp task_id worker_id =
     (case mp of None \<Rightarrow> (-1, mp)
      | Some m \<Rightarrow>
          if task_id = 0 \<or> worker_id = 0 then (-1, mp)
          else (case find_task m task_id of
                  None \<Rightarrow> (-1, mp)
                | Some i \<Rightarrow>
                    (0, Some (m\<lparr>tm_tasks := (tm_tasks m)[i := mark_assigned now worker_id (tm_tasks m ! i)]\<rparr>))))"

definition mark_result :: "int \<Rightarrow> byte \<Rightarrow> u32 \<Rightarrow> task_info_t \<Rightarrow> task_info_t" where
  "mark_result now status exec_time_ms ti =
     ti\<lparr>ti_status := (if status = STATUS_SUCCESS then TASK_STATUS_COMPLETED else TASK_STATUS_FAILED),
        ti_completed_time := now, ti_exec_time_ms := exec_time_ms\<rparr>"

definition task_manager_process_result ::
  "int \<Rightarrow> task_manager_t option \<Rightarrow> u32 \<Rightarrow> byte \<Rightarrow> u32 \<Rightarrow> int \<times> task_manager_t option" where
  "task_manager_process_result now mp task_id status exec_time_ms =
     (case mp of None \<Rightarrow> (-1, mp)
      | Some m \<Rightarrow>
          if task_id = 0 then (-1, mp)
          else (case find_task m task_id of
                  None \<Rightarrow> (-1, mp)
                | Some i \<Rightarrow>
                    (0, Some (m\<lparr>tm_tasks := (tm_tasks m)[i := mark_result now status exec_time_ms (tm_tasks m ! i)]\<rparr>))))"

text \<open>\<open>task_manager_get_task\<close> returns a pointer into the array: the index of the record.\<close>

definition task_manager_get_task :: "task_manager_t option \<Rightarrow> u32 \<Rightarrow> nat option" where
  "task_manager_get_task mp task_id =
     (case mp of None \<Rightarrow> None | Some m \<Rightarrow> if task_id = 0 then None else find_task m task_id)"

definition task_manager_count :: "task_manager_t option \<Rightarrow> u32" where
  "task_manager_count mp = (case mp of None \<Rightarrow> 0 | Some m \<Rightarrow> tm_count m)"

definition task_manager_pending_count :: "task_manager_t option \<Rightarrow> u32" where
  "task_manager_pending_count mp =
     (case mp of None \<Rightarrow> 0
      | Some m \<Rightarrow> (case tm_task_queue m of None \<Rightarrow> 0 | Some q \<Rightarrow> ring_buffer_size (Some q)))"

section \<open>The timeout sweep\<close>

definition task_overdue :: "int \<Rightarrow> u32 \<Rightarrow> task_info_t \<Rightarrow> bool" where
  "task_overdue now timeout_sec ti \<longleftrightarrow>
     ti_status ti = TASK_STATUS_ASSIGNED \<and> ti_assigned_time ti > 0 \<and>
     now - ti_assigned_time ti > uint timeout_sec"

fun task_timeout_loop :: "int \<Rightarrow> u32 \<Rightarrow> u32 \<Rightarrow> task_info_t list \<Rightarrow> u32 \<times> task_info_t list" where
  "task_timeout_loop now timeout_sec count [] = (count, [])"
| "task_timeout_loop now timeout_sec count (ti # tis) =
     (let (ti', count') = (if task_overdue now timeout_sec ti
                           then (ti\<lparr>ti_status := TASK_STATUS_TIMEOUT\<rparr>, count + 1)
                           else (ti, count));
          (n, tis') = task_timeout_loop now timeout_sec count' tis
      in (n, ti' # tis'))"

definition task_manager_check_timeouts ::
  "int \<Rightarrow> task_manager_t option \<Rightarrow> u32 \<Rightarrow> u32 \<times> task_manager_t option" where
  "task_manager_check_timeouts now mp timeout_sec =
     (case mp of None \<Rightarrow> (0, mp)
      | Some m \<Rightarrow>
          let (n, tis) = task_timeout_loop now timeout_sec 0 (recorded m)
          in (n, Some (m\<lparr>tm_tasks := tis @ drop (unat (tm_count m)) (tm_tasks m)\<rparr>)))"

section \<open>Invariant and abstraction\<close>

definition pending :: "task_manager_t \<Rightarrow> task_t list" where
  "pending m = (case tm_task_queue m of None \<Rightarrow> [] | Some q \<Rightarrow> rb_list q)"

definition queue_capacity :: "task_manager_t \<Rightarrow> nat" where
  "queue_capacity m = unat (ring_buffer_capacity (tm_task_queue m))"

definition tm_inv :: "task_manager_t \<Rightarrow> bool" where
  "tm_inv m \<longleftrightarrow> length (tm_tasks m) = unat (tm_capacity m) \<and> tm_count m \<le> tm_capacity m \<and>
     (case tm_task_queue m of None \<Rightarrow> False | Some q \<Rightarrow> rb_inv q)"

lemma tm_invE:
  assumes "tm_inv m"
  obtains q where "tm_task_queue m = Some q" and "rb_inv q" and "length (tm_tasks m) = unat (tm_capacity m)"
    and "tm_count m \<le> tm_capacity m"
  using assms by (cases "tm_task_queue m") (auto simp: tm_inv_def)

lemma length_recorded: "tm_inv m \<Longrightarrow> length (recorded m) = unat (tm_count m)"
  by (auto simp: recorded_def tm_inv_def word_le_nat_alt)

lemma recorded_update: "recorded (m\<lparr>tm_tasks := (tm_tasks m)[i := ti]\<rparr>) = (recorded m)[i := ti]"
  by (simp add: recorded_def take_update_prefix)

lemma find_task_bound: "find_task m k = Some i \<Longrightarrow> i < length (recorded m)"
  by (simp add: find_task_def find_slot_Some_iff)

lemma recorded_nth: "i < length (recorded m) \<Longrightarrow> tm_tasks m ! i = recorded m ! i"
  by (simp add: recorded_def)

lemma push_nonblocking:
  "ring_buffer_push c w (Some q) (Some x) 0 =
     Some (if rb_full q then (-1, Some q) else (0, Some (rb_put q x)))"
  by (simp add: ring_buffer_push_def push_enter_def)

lemma pop_nonblocking:
  "ring_buffer_pop c w (Some q) 0 =
     Some (if rb_empty q then (None, Some q) else (fst (rb_take q), Some (snd (rb_take q))))"
  by (simp add: ring_buffer_pop_def pop_enter_def split: prod.split)

lemma pending_less_capacity:
  "tm_task_queue m = Some q \<Longrightarrow> rb_inv q \<Longrightarrow> length (pending m) < queue_capacity m \<longleftrightarrow> \<not> rb_full q"
  using rbq.contents_bound[of q] rbq.full_iff[of q]
  by (auto simp: pending_def queue_capacity_def ring_buffer_capacity_def)

subsection \<open>Creation\<close>

definition creatable :: "task_t option \<Rightarrow> u32 \<Rightarrow> task_manager_t \<Rightarrow> bool" where
  "creatable fresh input_size m \<longleftrightarrow>
     fresh \<noteq> None \<and> input_size \<noteq> 0 \<and> unat input_size \<le> MAX_DATA_SIZE \<and>
     tm_count m < tm_capacity m \<and> length (pending m) < queue_capacity m"

lemma create_task_success:
  assumes inv: "tm_inv m" and ok: "creatable (Some block) input_size m"
    and len: "unat input_size \<le> length bytes"
  defines "task \<equiv> init_task block (tm_next_task_id m) (take (unat input_size) bytes)"
  shows "\<exists>m'. task_manager_create_task (Some block) now (Some m) (Some bytes) input_size =
             Some (tm_next_task_id m, Some m') \<and> tm_inv m' \<and>
           recorded m' = recorded m @ [new_task_info now task] \<and> pending m' = pending m @ [task] \<and>
           tm_next_task_id m' = tm_next_task_id m + 1 \<and> tm_capacity m' = tm_capacity m \<and>
           queue_capacity m' = queue_capacity m"
proof -
  from inv obtain q where q: "tm_task_queue m = Some q" "rb_inv q"
    and tl: "length (tm_tasks m) = unat (tm_capacity m)" by (rule tm_invE)
  have nf: "\<not> rb_full q" using ok pending_less_capacity[OF q] by (simp add: creatable_def)
  let ?n = "unat (tm_count m)"
  have n: "?n < unat (tm_capacity m)" using ok by (simp add: creatable_def word_less_nat_alt)
  have n': "unat (tm_count m + 1) = Suc ?n" by (simp add: unat_Suc_below[OF n])
  let ?m' = "m\<lparr>tm_next_task_id := tm_next_task_id m + 1, tm_task_queue := Some (rb_put q task),
               tm_tasks := (tm_tasks m)[?n := new_task_info now task], tm_count := tm_count m + 1\<rparr>"
  have "task_manager_create_task (Some block) now (Some m) (Some bytes) input_size =
      Some (tm_next_task_id m, Some ?m')"
    using ok len nf q(1)
    by (simp add: task_manager_create_task_def creatable_def mem_read_def push_nonblocking Let_def
        not_le[symmetric] task_def)
  moreover have "tm_inv ?m'"
    using tl rbq.invar_put[OF q(2) nf] n by (simp add: tm_inv_def word_le_nat_alt n')
  moreover have "recorded ?m' = recorded m @ [new_task_info now task]"
    using take_Suc_update[of ?n "tm_tasks m"] n tl by (simp add: recorded_def n')
  moreover have "pending ?m' = pending m @ [task]"
    using rbq.contents_put[OF q(2) nf] by (simp add: pending_def q(1))
  moreover have "queue_capacity ?m' = queue_capacity m"
    by (simp add: queue_capacity_def q(1) ring_buffer_capacity_def rb_put_def)
  ultimately show ?thesis by (intro exI[of _ ?m']) simp
qed

lemma create_task_refused:
  assumes inv: "tm_inv m" and no: "\<not> creatable fresh input_size m"
    and def: "task_manager_create_task fresh now (Some m) (Some bytes) input_size = Some (k, mp')"
  shows "k = 0 \<and> (\<exists>nid. mp' = Some (m\<lparr>tm_next_task_id := nid\<rparr>) \<and>
           (nid = tm_next_task_id m \<or> length (pending m) = queue_capacity m))"
proof -
  from inv obtain q where q: "tm_task_queue m = Some q" "rb_inv q" by (rule tm_invE)
  have full: "rb_full q \<Longrightarrow> length (pending m) = queue_capacity m"
    using rbq.full_iff[OF q(2)] q(1) by (simp add: pending_def queue_capacity_def ring_buffer_capacity_def)
  have [simp]: "m\<lparr>tm_next_task_id := n, tm_task_queue := Some q\<rparr> = m\<lparr>tm_next_task_id := n\<rparr>" for n
    using q(1) by simp
  have same: "m = m\<lparr>tm_next_task_id := tm_next_task_id m\<rparr>" by simp
  show ?thesis
    using no def full q pending_less_capacity[OF q]
    by (auto simp: task_manager_create_task_def creatable_def push_nonblocking Let_def not_le
        split: if_splits option.splits intro: same)
qed

subsection \<open>Handing out\<close>

lemma get_next_nonblocking:
  assumes "tm_inv m"
  shows "\<exists>m'. task_manager_get_next_task c w (Some m) 0 =
             Some (if pending m = [] then None else Some (hd (pending m)), Some m') \<and> tm_inv m' \<and>
           recorded m' = recorded m \<and> pending m' = tl (pending m) \<and>
           tm_next_task_id m' = tm_next_task_id m \<and> tm_count m' = tm_count m \<and>
           tm_capacity m' = tm_capacity m"
proof -
  from assms obtain q where q: "tm_task_queue m = Some q" "rb_inv q"
    and r: "length (tm_tasks m) = unat (tm_capacity m)" "tm_count m \<le> tm_capacity m" by (rule tm_invE)
  show ?thesis
  proof (cases "rb_empty q")
    case True
    then have "pending m = []" using rbq.empty_iff[OF q(2)] q(1) by (simp add: pending_def)
    then show ?thesis
      using assms True q(1)
      by (simp add: task_manager_get_next_task_def pop_nonblocking tm_inv_def recorded_def pending_def)
  next
    case False
    then have "pending m \<noteq> []" using rbq.empty_iff[OF q(2)] q(1) by (simp add: pending_def)
    moreover have "pending m = rb_list q" using q(1) by (simp add: pending_def)
    ultimately show ?thesis
      using r rbq.take_hd[OF q(2) False] rbq.contents_take[OF q(2) False] rbq.invar_take[OF q(2) False]
        q(1) False
      by (simp add: task_manager_get_next_task_def pop_nonblocking tm_inv_def recorded_def pending_def)
  qed
qed

subsection \<open>In-place updates\<close>

definition opt_recorded :: "task_manager_t option \<Rightarrow> task_info_t list" where
  "opt_recorded mp = (case mp of None \<Rightarrow> [] | Some m \<Rightarrow> recorded m)"

abbreviation info_id :: "task_info_t \<Rightarrow> u32" where
  "info_id ti \<equiv> t_task_id (ti_task ti)"

interpretation tm_assign: keyed_update opt_recorded info_id
  "\<lambda>k mp. task_manager_assign_task now mp k wid" "mark_assigned now wid" "\<lambda>k. k \<noteq> 0 \<and> wid \<noteq> 0" for now wid
proof
  fix k i and t :: "task_manager_t option"
  assume "k \<noteq> 0 \<and> wid \<noteq> 0" and f: "find_slot (\<lambda>r. info_id r = k) (opt_recorded t) = Some i"
  then obtain m where t: "t = Some m" by (cases t) (auto simp: opt_recorded_def)
  with f have ft: "find_task m k = Some i" by (simp add: opt_recorded_def find_task_def)
  then show "fst (task_manager_assign_task now t k wid) = 0 \<and>
      opt_recorded (snd (task_manager_assign_task now t k wid)) =
      (opt_recorded t)[i := mark_assigned now wid (opt_recorded t ! i)]"
    using \<open>k \<noteq> 0 \<and> wid \<noteq> 0\<close> recorded_nth[OF find_task_bound[OF ft]]
    by (simp add: t opt_recorded_def task_manager_assign_task_def recorded_update)
qed (auto simp: task_manager_assign_task_def mark_assigned_def opt_recorded_def find_task_def split: option.splits)

interpretation tm_result: keyed_update opt_recorded info_id
  "\<lambda>k mp. task_manager_process_result now mp k st ms" "mark_result now st ms" "\<lambda>k. k \<noteq> 0" for now st ms
proof
  fix k i and t :: "task_manager_t option"
  assume "k \<noteq> 0" and f: "find_slot (\<lambda>r. info_id r = k) (opt_recorded t) = Some i"
  then obtain m where t: "t = Some m" by (cases t) (auto simp: opt_recorded_def)
  with f have ft: "find_task m k = Some i" by (simp add: opt_recorded_def find_task_def)
  then show "fst (task_manager_process_result now t k st ms) = 0 \<and>
      opt_recorded (snd (task_manager_process_result now t k st ms)) =
      (opt_recorded t)[i := mark_result now st ms (opt_recorded t ! i)]"
    using \<open>k \<noteq> 0\<close> recorded_nth[OF find_task_bound[OF ft]]
    by (simp add: t opt_recorded_def task_manager_process_result_def recorded_update)
qed (auto simp: task_manager_process_result_def mark_result_def opt_recorded_def find_task_def split: option.splits)

text \<open>
  What the operations that rewrite records in place leave alone: the tasks themselves, the queue,
  the capacities and the identifier counter.
\<close>

definition same_frame :: "task_manager_t \<Rightarrow> task_manager_t \<Rightarrow> bool" where
  "same_frame m m' \<longleftrightarrow> map ti_task (recorded m') = map ti_task (recorded m) \<and>
     tm_task_queue m' = tm_task_queue m \<and> tm_capacity m' = tm_capacity m \<and> tm_count m' = tm_count m \<and>
     tm_next_task_id m' = tm_next_task_id m \<and> length (tm_tasks m') = length (tm_tasks m)"

lemma same_frame_inv: "same_frame m m' \<Longrightarrow> tm_inv m \<Longrightarrow> tm_inv m'"
  by (auto simp: same_frame_def tm_inv_def)

lemma update_frame:
  assumes "find_task m k = Some i" and "ti_task ti = ti_task (tm_tasks m ! i)"
  shows "same_frame m (m\<lparr>tm_tasks := (tm_tasks m)[i := ti]\<rparr>)"
  using assms recorded_nth[OF find_task_bound[OF assms(1)]]
  unfolding same_frame_def recorded_update by (simp add: map_update_same_key)

lemma assign_frame: "task_manager_assign_task now (Some m) k w = (r, Some m') \<Longrightarrow> same_frame m m'"
  by (auto simp: task_manager_assign_task_def mark_assigned_def split: if_splits option.splits
      intro!: update_frame) (auto simp: same_frame_def)

lemma result_frame: "task_manager_process_result now (Some m) k st ms = (r, Some m') \<Longrightarrow> same_frame m m'"
  by (auto simp: task_manager_process_result_def mark_result_def split: if_splits option.splits
      intro!: update_frame) (auto simp: same_frame_def)

lemma assign_total: "\<exists>r m'. task_manager_assign_task now (Some m) k w = (r, Some m')"
  by (simp add: task_manager_assign_task_def split: option.split)

lemma result_total: "\<exists>r m'. task_manager_process_result now (Some m) k st ms = (r, Some m')"
  by (simp add: task_manager_process_result_def split: option.split)

subsection \<open>The timeout sweep\<close>

definition time_out :: "int \<Rightarrow> u32 \<Rightarrow> task_info_t \<Rightarrow> task_info_t" where
  "time_out now ts ti = (if task_overdue now ts ti then ti\<lparr>ti_status := TASK_STATUS_TIMEOUT\<rparr> else ti)"

lemma task_timeout_loop_eq:
  "task_timeout_loop now ts c tis =
     (c + of_nat (length (filter (task_overdue now ts) tis)), map (time_out now ts) tis)"
  by (induction now ts c tis rule: task_timeout_loop.induct) (auto simp: Let_def time_out_def)

lemma ti_task_time_out [simp]: "ti_task (time_out now ts ti) = ti_task ti"
  by (simp add: time_out_def)

lemma not_overdue_time_out: "\<not> task_overdue now ts (time_out now ts ti)"
  by (simp add: time_out_def task_overdue_def)

lemma task_check_timeouts_eq:
  assumes "tm_inv m"
  shows "\<exists>m'. task_manager_check_timeouts now (Some m) ts =
           (of_nat (length (filter (task_overdue now ts) (recorded m))), Some m') \<and>
           recorded m' = map (time_out now ts) (recorded m) \<and> same_frame m m'"
proof -
  have n: "unat (tm_count m) \<le> length (tm_tasks m)" using assms by (auto simp: tm_inv_def word_le_nat_alt)
  let ?m' = "m\<lparr>tm_tasks := map (time_out now ts) (recorded m) @ drop (unat (tm_count m)) (tm_tasks m)\<rparr>"
  have rec: "recorded ?m' = map (time_out now ts) (recorded m)" using n by (simp add: recorded_def)
  have "length (tm_tasks ?m') = length (tm_tasks m)"
    using n length_recorded[OF assms] by simp
  then have "same_frame m ?m'" using rec by (simp add: same_frame_def comp_def)
  then show ?thesis using rec by (simp add: task_manager_check_timeouts_def task_timeout_loop_eq)
qed

section \<open>Sequences of operations\<close>

text \<open>
  One step is one call under the manager's lock (or, for handing out, under the queue's own lock),
  on any arguments. The ghost list records the tasks handed out, in order.
\<close>

record tm_sys =
  ts_mgr :: task_manager_t
  ts_out :: "task_t list"

inductive tm_step :: "tm_sys \<Rightarrow> tm_sys \<Rightarrow> bool" where
  create: "task_manager_create_task fresh now (Some (ts_mgr s)) input sz = Some (k, Some m) \<Longrightarrow>
     tm_step s (s\<lparr>ts_mgr := m\<rparr>)"
| hand_out: "task_manager_get_next_task c w (Some (ts_mgr s)) 0 = Some (t, Some m) \<Longrightarrow>
     tm_step s (s\<lparr>ts_mgr := m, ts_out := ts_out s @ (case t of None \<Rightarrow> [] | Some x \<Rightarrow> [x])\<rparr>)"
| assign: "task_manager_assign_task now (Some (ts_mgr s)) k wid = (r, Some m) \<Longrightarrow>
     tm_step s (s\<lparr>ts_mgr := m\<rparr>)"
| result: "task_manager_process_result now (Some (ts_mgr s)) k st ms = (r, Some m) \<Longrightarrow>
     tm_step s (s\<lparr>ts_mgr := m\<rparr>)"
| sweep: "task_manager_check_timeouts now (Some (ts_mgr s)) ts = (n, Some m) \<Longrightarrow>
     tm_step s (s\<lparr>ts_mgr := m\<rparr>)"

inductive tm_reach :: "task_manager_t \<Rightarrow> tm_sys \<Rightarrow> bool" for m where
  start: "tm_reach m \<lparr>ts_mgr = m, ts_out = []\<rparr>"
| step: "tm_reach m s \<Longrightarrow> tm_step s s' \<Longrightarrow> tm_reach m s'"

lemma create_task_cases:
  assumes inv: "tm_inv m" and c: "task_manager_create_task fresh now (Some m) input sz = Some (k, Some m')"
  obtains (refused) nid where "k = 0" and "m' = m\<lparr>tm_next_task_id := nid\<rparr>"
  | (created) block bytes where "fresh = Some block" and "input = Some bytes" and "unat sz \<le> length bytes"
      and "creatable fresh sz m" and "k = tm_next_task_id m"
      and "recorded m' = recorded m @ [new_task_info now (init_task block k (take (unat sz) bytes))]"
      and "pending m' = pending m @ [init_task block k (take (unat sz) bytes)]"
      and "tm_inv m'" and "tm_next_task_id m' = k + 1" and "tm_capacity m' = tm_capacity m"
proof (cases input)
  case None
  then have "k = 0" and "m' = m\<lparr>tm_next_task_id := tm_next_task_id m\<rparr>"
    using c by (auto simp: task_manager_create_task_def)
  then show ?thesis by (rule refused)
next
  case (Some bytes)
  show ?thesis
  proof (cases "creatable fresh sz m")
    case False
    then obtain nid where "k = 0" and "m' = m\<lparr>tm_next_task_id := nid\<rparr>"
      using create_task_refused[OF inv False] c Some by blast
    then show ?thesis by (rule refused)
  next
    case True
    then obtain block where b: "fresh = Some block" by (auto simp: creatable_def)
    have "unat sz \<le> length bytes"
      using c True Some b
      by (auto simp: task_manager_create_task_def creatable_def mem_read_def Let_def not_le[symmetric]
          split: if_splits)
    then show ?thesis
      using created[OF b Some] create_task_success[OF inv True[unfolded b], of bytes now] c Some b True by auto
  qed
qed

lemma next_id_frame [simp]:
  "tm_inv (m\<lparr>tm_next_task_id := n\<rparr>) = tm_inv m" "recorded (m\<lparr>tm_next_task_id := n\<rparr>) = recorded m"
  "pending (m\<lparr>tm_next_task_id := n\<rparr>) = pending m"
  by (simp_all add: tm_inv_def recorded_def pending_def)

lemma same_frame_tasks:
  "same_frame m m' \<Longrightarrow> map ti_task (recorded m') = map ti_task (recorded m)"
  "same_frame m m' \<Longrightarrow> pending m' = pending m"
  "same_frame m m' \<Longrightarrow> tm_capacity m' = tm_capacity m"
  "same_frame m m' \<Longrightarrow> tm_count m' = tm_count m"
  by (simp_all add: same_frame_def pending_def)

definition tm_sys_inv :: "tm_sys \<Rightarrow> bool" where
  "tm_sys_inv s \<longleftrightarrow> tm_inv (ts_mgr s) \<and> ts_out s @ pending (ts_mgr s) = map ti_task (recorded (ts_mgr s))"

lemma tm_step_inv: "tm_step s s' \<Longrightarrow> tm_sys_inv s \<Longrightarrow> tm_sys_inv s'"
proof (induction rule: tm_step.induct)
  case (create fresh now s input sz k m)
  then have "tm_inv (ts_mgr s)" by (simp add: tm_sys_inv_def)
  from create_task_cases[OF this create.hyps] show ?case
    using create.prems by cases (auto simp: tm_sys_inv_def new_task_info_def)
next
  case (hand_out c w s t m)
  then have "tm_inv (ts_mgr s)" by (simp add: tm_sys_inv_def)
  from get_next_nonblocking[OF this, of c w] hand_out
  show ?case by (cases "pending (ts_mgr s)") (auto simp: tm_sys_inv_def)
next
  case (assign now s k wid r m)
  with same_frame_inv[OF assign_frame] same_frame_tasks[OF assign_frame] show ?case
    by (simp add: tm_sys_inv_def)
next
  case (result now s k st ms r m)
  with same_frame_inv[OF result_frame] same_frame_tasks[OF result_frame] show ?case
    by (simp add: tm_sys_inv_def)
next
  case (sweep now s ts n m)
  then have "same_frame (ts_mgr s) m"
    using task_check_timeouts_eq[of "ts_mgr s" now ts] by (auto simp: tm_sys_inv_def)
  with sweep.prems same_frame_inv same_frame_tasks show ?case by (simp add: tm_sys_inv_def)
qed

lemma tm_reach_inv:
  assumes "tm_reach m s" and "tm_inv m" and "pending m = map ti_task (recorded m)"
  shows "tm_sys_inv s"
  using assms(1)
proof (induction rule: tm_reach.induct)
  case start
  then show ?case using assms(2,3) by (simp add: tm_sys_inv_def)
qed (rule tm_step_inv)

lemma tm_step_full:
  assumes "tm_step s s'" and "tm_inv (ts_mgr s)" and "tm_count (ts_mgr s) = tm_capacity (ts_mgr s)"
  shows "tm_inv (ts_mgr s') \<and> tm_count (ts_mgr s') = tm_capacity (ts_mgr s') \<and>
         map ti_task (recorded (ts_mgr s')) = map ti_task (recorded (ts_mgr s))"
  using assms
proof (induction rule: tm_step.induct)
  case (create fresh now s input sz k m)
  have "\<not> creatable fresh sz (ts_mgr s)" using create.prems by (simp add: creatable_def)
  with create_task_cases[OF create.prems(1) create.hyps]
  obtain nid where "m = (ts_mgr s)\<lparr>tm_next_task_id := nid\<rparr>" by metis
  then show ?case using create.prems by simp
next
  case (hand_out c w s t m)
  then have "tm_inv m \<and> recorded m = recorded (ts_mgr s) \<and> tm_count m = tm_count (ts_mgr s) \<and>
      tm_capacity m = tm_capacity (ts_mgr s)"
    using get_next_nonblocking[OF hand_out.prems(1), of c w] by auto
  then show ?case using hand_out.prems by simp
next
  case (assign now s k wid r m)
  with same_frame_inv[OF assign_frame] same_frame_tasks[OF assign_frame] show ?case by simp
next
  case (result now s k st ms r m)
  with same_frame_inv[OF result_frame] same_frame_tasks[OF result_frame] show ?case by simp
next
  case (sweep now s ts n m)
  then have "same_frame (ts_mgr s) m"
    using task_check_timeouts_eq[of "ts_mgr s" now ts] by auto
  with sweep.prems same_frame_inv same_frame_tasks show ?case by simp
qed

lemma tm_create_inv:
  assumes "task_manager_create e mem qmem capacity queue_size = (Some m, evs)"
  shows "tm_inv m" and "recorded m = []" and "pending m = []" and "tm_capacity m = capacity"
    and "tm_next_task_id m = 1"
proof -
  from assms obtain q ev where q: "ring_buffer_create (te_queue e) qmem queue_size = (Some q, ev)"
    and m: "m = \<lparr>tm_tasks = map mem [0..<unat capacity], tm_capacity = capacity,
                  tm_count = 0, tm_next_task_id = 1, tm_task_queue = Some q\<rparr>"
    by (auto simp: task_manager_create_def split: if_splits prod.splits option.splits)
  from ring_buffer_create_Some[OF q]
  show "tm_inv m" and "recorded m = []" and "pending m = []" and "tm_capacity m = capacity"
    and "tm_next_task_id m = 1"
    by (simp_all add: m tm_inv_def recorded_def pending_def)
qed

section \<open>Properties\<close>

definition sample_block :: task_t where
  "sample_block = \<lparr>t_task_id = 7, t_input_data = replicate 1024 9, t_output_data = replicate 1024 9,
                   t_input_size = 99, t_output_size = 98\<rparr>"

definition tm_all_ok :: tm_env where
  "tm_all_ok = \<lparr>te_struct_ok = True, te_array_ok = True,
             te_queue = \<lparr>struct_ok = True, array_ok = True, mutex_ok = True,
                         not_empty_ok = True, not_full_ok = True\<rparr>, te_mutex_ok = True\<rparr>"

definition sample_manager :: task_manager_t where
  "sample_manager = \<lparr>tm_tasks = replicate 3 (new_task_info 0 sample_block), tm_capacity = 3, tm_count = 0,
     tm_next_task_id = 1,
     tm_task_queue = Some \<lparr>rb_buffer = replicate 2 None, rb_capacity = 2, rb_size = 0, rb_head = 0, rb_tail = 0\<rparr>\<rparr>"

lemma sample_manager_created:
  "task_manager_create tm_all_ok (\<lambda>_. new_task_info 0 sample_block) (\<lambda>_. None) 3 2 =
     (Some sample_manager, [AcqManager, AcqTasks, OnQueue (Acquire RStruct), OnQueue (Acquire RArray),
        OnQueue (Acquire RMutex), OnQueue (Acquire RNotEmpty), OnQueue (Acquire RNotFull), AcqLock])"
  by (simp add: task_manager_create_def tm_all_ok_def ring_buffer_create_def sample_manager_def
      map_replicate_const)

lemma sample_manager_facts:
  "tm_inv sample_manager" "recorded sample_manager = []" "pending sample_manager = []"
  "tm_count sample_manager = 0" "tm_capacity sample_manager = 3" "tm_next_task_id sample_manager = 1"
  "queue_capacity sample_manager = 2"
  using tm_create_inv[OF sample_manager_created] 
  by (simp_all add: sample_manager_def queue_capacity_def ring_buffer_capacity_def)

lemma create_task_defined:
  assumes "tm_inv m" and "unat sz \<le> length bytes"
  shows "\<exists>k mp'. task_manager_create_task fresh now (Some m) (Some bytes) sz = Some (k, mp')"
proof -
  from assms(1) obtain q where "tm_task_queue m = Some q" by (rule tm_invE)
  then show ?thesis using assms(2)
    by (auto simp: task_manager_create_task_def mem_read_def push_nonblocking Let_def split: option.split)
qed

text \<open>Creating a task, given a buffer of at least the announced size: if the size is between 1 and
  1024, memory is available and neither the records nor the queue are full, the call returns the
  next identifier, appends one PENDING record and appends the same task to the queue, and the task
  starts with the caller's bytes; in every other case it returns 0 and neither the records nor
  the queue change.\<close>

theorem task_create_exact:
  assumes "tm_inv m" and "unat sz \<le> length bytes"
  shows "\<exists>k m'. task_manager_create_task fresh now (Some m) (Some bytes) sz = Some (k, Some m') \<and> tm_inv m' \<and>
     (if creatable fresh sz m
      then k = tm_next_task_id m \<and> tm_next_task_id m' = k + 1 \<and>
           (\<exists>task. t_task_id task = k \<and> take (unat sz) (t_input_data task) = take (unat sz) bytes \<and>
              t_output_data task = replicate 1024 0 \<and>
              recorded m' = recorded m @ [new_task_info now task] \<and> pending m' = pending m @ [task])
      else k = 0 \<and> recorded m' = recorded m \<and> pending m' = pending m)"
proof (cases "creatable fresh sz m")
  case True
  then obtain block where b: "fresh = Some block" by (auto simp: creatable_def)
  show ?thesis
    using create_task_success[OF assms(1) True[unfolded b] assms(2), of now] True b assms(2)
    by (auto simp: init_task_def set_bytes_def MAX_DATA_SIZE_def)
next
  case False
  obtain k mp' where c: "task_manager_create_task fresh now (Some m) (Some bytes) sz = Some (k, mp')"
    using create_task_defined[OF assms] by blast
  from create_task_refused[OF assms(1) False c] c False assms(1) show ?thesis by auto
qed

theorem task_create_exact_witness:
  "\<exists>m'. task_manager_create_task (Some sample_block) 50 (Some sample_manager) (Some [1, 2, 3]) 3 = Some (1, Some m') \<and>
        length (recorded m') = 1 \<and> map t_task_id (pending m') = [1]"
proof -
  have "creatable (Some sample_block) 3 sample_manager"
    by (simp add: creatable_def sample_manager_facts MAX_DATA_SIZE_def)
  then show ?thesis
    using task_create_exact[OF sample_manager_facts(1), of 3 "[1, 2, 3]" "Some sample_block" 50]
    by (auto simp: sample_manager_facts)
qed

text \<open>C4: Whatever calls are made in whatever order on a manager that was just created, the tasks handed
  out so far followed by the tasks still queued are exactly the tasks recorded, in the order of their
  creation: no task is lost, handed out twice or overtaken.\<close>

theorem tasks_handed_out_once_in_order:
  assumes "task_manager_create e mem qmem capacity queue_size = (Some m, evs)" and "tm_reach m s"
  shows "ts_out s @ pending (ts_mgr s) = map ti_task (recorded (ts_mgr s)) \<and> tm_inv (ts_mgr s)"
  using tm_reach_inv[OF assms(2)] tm_create_inv[OF assms(1)] by (simp add: tm_sys_inv_def)

theorem tasks_handed_out_once_in_order_witness:
  "\<exists>s. tm_reach sample_manager s \<and> map t_task_id (ts_out s) = [1] \<and>
       ts_out s @ pending (ts_mgr s) = map ti_task (recorded (ts_mgr s))"
proof -
  let ?s0 = "\<lparr>ts_mgr = sample_manager, ts_out = []\<rparr>"
  have "creatable (Some sample_block) 3 sample_manager"
    by (simp add: creatable_def sample_manager_facts MAX_DATA_SIZE_def)
  from create_task_success[OF sample_manager_facts(1) this, of "[1, 2, 3]" 50] obtain m1 where
    c: "task_manager_create_task (Some sample_block) 50 (Some sample_manager) (Some [1, 2, 3]) 3 = Some (1, Some m1)"
    and i: "tm_inv m1" and p: "pending m1 = [init_task sample_block 1 [1, 2, 3]]"
    by (auto simp: sample_manager_facts)
  from get_next_nonblocking[OF i, of None "[]"] p obtain m2 where
    g: "task_manager_get_next_task None [] (Some m1) 0 = Some (Some (init_task sample_block 1 [1, 2, 3]), Some m2)"
    by auto
  have "tm_step ?s0 (?s0\<lparr>ts_mgr := m1\<rparr>)" using tm_step.create[of _ _ ?s0] c by simp
  then have r1: "tm_reach sample_manager \<lparr>ts_mgr = m1, ts_out = []\<rparr>"
    using tm_reach.step[OF tm_reach.start] by simp
  have "tm_step \<lparr>ts_mgr = m1, ts_out = []\<rparr> \<lparr>ts_mgr = m2, ts_out = [init_task sample_block 1 [1, 2, 3]]\<rparr>"
    using tm_step.hand_out[of None "[]" "\<lparr>ts_mgr = m1, ts_out = []\<rparr>"] g by simp
  from tm_reach.step[OF r1 this]
  have r2: "tm_reach sample_manager \<lparr>ts_mgr = m2, ts_out = [init_task sample_block 1 [1, 2, 3]]\<rparr>" .
  from tasks_handed_out_once_in_order[OF sample_manager_created r2] r2
  show ?thesis
    by (intro exI[of _ "\<lparr>ts_mgr = m2, ts_out = [init_task sample_block 1 [1, 2, 3]]\<rparr>"])
       (simp add: init_task_def)
qed

definition ids_below :: "task_manager_t \<Rightarrow> bool" where
  "ids_below m \<longleftrightarrow> sorted_wrt (<) (map info_id (recorded m)) \<and>
     (\<forall>k \<in> set (map info_id (recorded m)). 0 < k \<and> k < tm_next_task_id m)"

text \<open>Identifiers are fresh until the 32-bit counter wraps: if all recorded identifiers are positive,
  increasing and below the counter, a created task gets an identifier that is positive and larger
  than all of them, and the same holds afterwards. When the counter has wrapped to 0 the task is
  recorded and queued all the same, but the caller is told that creation failed.\<close>

theorem task_ids_fresh:
  assumes "tm_inv m" and "unat sz \<le> length bytes" and "creatable (Some block) sz m"
  shows "\<exists>k m'. task_manager_create_task (Some block) now (Some m) (Some bytes) sz = Some (k, Some m') \<and>
     (if tm_next_task_id m = 0
      then k = 0 \<and> length (recorded m') = Suc (length (recorded m)) \<and> length (pending m') = Suc (length (pending m))
      else ids_below m \<and> tm_next_task_id m + 1 \<noteq> 0 \<longrightarrow>
             0 < k \<and> (\<forall>j \<in> set (map info_id (recorded m)). j < k) \<and>
             map info_id (recorded m') = map info_id (recorded m) @ [k] \<and> ids_below m')"
proof -
  obtain m' where c: "task_manager_create_task (Some block) now (Some m) (Some bytes) sz =
        Some (tm_next_task_id m, Some m')"
    and r: "recorded m' = recorded m @ [new_task_info now (init_task block (tm_next_task_id m) (take (unat sz) bytes))]"
    and p: "pending m' = pending m @ [init_task block (tm_next_task_id m) (take (unat sz) bytes)]"
    and n: "tm_next_task_id m' = tm_next_task_id m + 1"
    using create_task_success[OF assms(1,3,2), of now] by blast
  have "k < tm_next_task_id m + 1" if "k \<le> tm_next_task_id m" "tm_next_task_id m + 1 \<noteq> 0" for k
    using that unatSuc[of "tm_next_task_id m"] by (simp add: word_less_nat_alt word_le_nat_alt add.commute)
  then have "ids_below m'" if "ids_below m" "tm_next_task_id m + 1 \<noteq> 0" "tm_next_task_id m \<noteq> 0"
    using that by (auto simp: ids_below_def r n new_task_info_def init_task_def sorted_wrt_append
        word_neq_0_conv[symmetric])
  moreover have "length (recorded m') = Suc (length (recorded m))" and "length (pending m') = Suc (length (pending m))"
    by (simp_all add: r p)
  ultimately show ?thesis using c
    by (auto simp: ids_below_def r new_task_info_def init_task_def word_neq_0_conv[symmetric])
qed

theorem task_ids_fresh_witness:
  "creatable (Some sample_block) 3 sample_manager \<and>
   (\<exists>k m'. task_manager_create_task (Some sample_block) 50 (Some sample_manager) (Some [1, 2, 3]) 3 =
             Some (k, Some m') \<and> 0 < k \<and> map info_id (recorded m') = [k] \<and> ids_below m')"
proof -
  have c: "creatable (Some sample_block) 3 sample_manager"
    by (simp add: creatable_def sample_manager_facts MAX_DATA_SIZE_def)
  moreover have "ids_below sample_manager" by (simp add: ids_below_def sample_manager_facts)
  ultimately show ?thesis
    using task_ids_fresh[OF sample_manager_facts(1) _ c, of "[1, 2, 3]" 50] by (auto simp: sample_manager_facts)
qed

text \<open>Assigning a recorded task to a worker and then processing its result returns 0 both times and
  leaves a record with that worker, the two times, the execution time and the status COMPLETED
  exactly when the reported status is STATUS_SUCCESS, FAILED otherwise; every other task's record is
  untouched. For an unknown identifier both calls return -1 and change nothing.\<close>

theorem task_assign_then_result:
  assumes "k \<noteq> 0" and "wid \<noteq> 0"
  shows "\<exists>r1 m1 r2 m2. task_manager_assign_task now1 (Some m) k wid = (r1, Some m1) \<and>
     task_manager_process_result now2 (Some m1) k st ms = (r2, Some m2) \<and>
     (case lookup_key info_id k (recorded m) of
        None \<Rightarrow> r1 = -1 \<and> r2 = -1 \<and> m2 = m
      | Some ti \<Rightarrow> r1 = 0 \<and> r2 = 0 \<and>
          lookup_key info_id k (recorded m2) =
            Some (ti\<lparr>ti_worker_id := wid, ti_assigned_time := now1, ti_completed_time := now2, ti_exec_time_ms := ms,
                     ti_status := (if st = STATUS_SUCCESS then TASK_STATUS_COMPLETED else TASK_STATUS_FAILED)\<rparr>)) \<and>
     (\<forall>k'. k' \<noteq> k \<longrightarrow> lookup_key info_id k' (recorded m2) = lookup_key info_id k' (recorded m))"
proof -
  obtain r1 m1 where a: "task_manager_assign_task now1 (Some m) k wid = (r1, Some m1)"
    using assign_total by blast
  obtain r2 m2 where b: "task_manager_process_result now2 (Some m1) k st ms = (r2, Some m2)"
    using result_total by blast
  have l1: "lookup_key info_id k (recorded m1) = map_option (mark_assigned now1 wid) (lookup_key info_id k (recorded m))"
    using tm_assign.lookup_upd_same[where k = k and now = now1 and t = "Some m" and wid = wid] assms a by (simp add: opt_recorded_def)
  have l2: "lookup_key info_id k (recorded m2) = map_option (mark_result now2 st ms) (lookup_key info_id k (recorded m1))"
    using tm_result.lookup_upd_same[where k = k and now = now2 and t = "Some m1" and st = st and ms = ms] assms b by (simp add: opt_recorded_def)
  have o: "lookup_key info_id k' (recorded m2) = lookup_key info_id k' (recorded m)" if "k' \<noteq> k" for k'
    using that tm_assign.lookup_upd_other[where k = k and now = now1 and t = "Some m" and wid = wid]
      tm_result.lookup_upd_other[where k = k and now = now2 and t = "Some m1" and st = st and ms = ms] a b
    by (simp add: opt_recorded_def)
  have c1: "r1 = (if k \<in> info_id ` set (recorded m) then 0 else -1)"
    using tm_assign.upd_code[where k = k and now = now1 and t = "Some m" and wid = wid] assms a by (simp add: opt_recorded_def)
  have c2: "r2 = (if k \<in> info_id ` set (recorded m1) then 0 else -1)"
    using tm_result.upd_code[where k = k and now = now2 and t = "Some m1" and st = st and ms = ms] assms b by (simp add: opt_recorded_def)
  have "case lookup_key info_id k (recorded m) of
        None \<Rightarrow> r1 = -1 \<and> r2 = -1 \<and> m2 = m
      | Some ti \<Rightarrow> r1 = 0 \<and> r2 = 0 \<and> lookup_key info_id k (recorded m2) = Some (mark_result now2 st ms (mark_assigned now1 wid ti))"
  proof (cases "lookup_key info_id k (recorded m)")
    case None
    then have "find_task m k = None" by (simp add: lookup_key_def find_task_def)
    then have "r1 = -1" "m1 = m" "r2 = -1" "m2 = m"
      using a b by (auto simp: task_manager_assign_task_def task_manager_process_result_def split: if_splits)
    then show ?thesis using None by simp
  next
    case (Some ti)
    then have "lookup_key info_id k (recorded m) \<noteq> None" and "lookup_key info_id k (recorded m1) \<noteq> None"
      using l1 by simp_all
    then have "k \<in> info_id ` set (recorded m)" and "k \<in> info_id ` set (recorded m1)"
      by (simp_all only: lookup_key_None_iff not_not)
    then show ?thesis using Some l1 l2 c1 c2 by simp
  qed
  then show ?thesis using a b o by (auto simp: mark_result_def mark_assigned_def split: option.splits)
qed

definition sample_full :: task_manager_t where
  "sample_full = sample_manager\<lparr>tm_tasks := [new_task_info 10 (sample_block\<lparr>t_task_id := 1\<rparr>),
       mark_assigned 40 5 (new_task_info 11 (sample_block\<lparr>t_task_id := 2\<rparr>)),
       new_task_info 12 (sample_block\<lparr>t_task_id := 3\<rparr>)], tm_count := 3, tm_next_task_id := 4\<rparr>"

lemma sample_full_facts:
  "tm_inv sample_full" "tm_count sample_full = tm_capacity sample_full"
  "recorded sample_full = [new_task_info 10 (sample_block\<lparr>t_task_id := 1\<rparr>),
       mark_assigned 40 5 (new_task_info 11 (sample_block\<lparr>t_task_id := 2\<rparr>)),
       new_task_info 12 (sample_block\<lparr>t_task_id := 3\<rparr>)]"
  using sample_manager_facts by (auto simp: sample_full_def tm_inv_def recorded_def)

theorem task_assign_then_result_witness:
  "\<exists>m1 m2. task_manager_assign_task 60 (Some sample_full) 3 8 = (0, Some m1) \<and>
     task_manager_process_result 70 (Some m1) 3 STATUS_SUCCESS 12 = (0, Some m2) \<and>
     map_option ti_status (lookup_key info_id 3 (recorded m2)) = Some TASK_STATUS_COMPLETED"
proof -
  have "lookup_key info_id 3 (recorded sample_full) = Some (new_task_info 12 (sample_block\<lparr>t_task_id := 3\<rparr>))"
    by (simp add: lookup_key_def sample_full_facts new_task_info_def mark_assigned_def)
  then show ?thesis
    using task_assign_then_result[of 3 8 60 sample_full 70 STATUS_SUCCESS 12] by auto
qed

text \<open>Records are never reclaimed: once as many tasks were created as the manager has records, no
  sequence of further calls (handing out, assigning, completing, timing out) makes room again, and
  every later attempt to create a task returns 0.\<close>

theorem task_manager_full_forever:
  assumes "tm_inv m" and "tm_count m = tm_capacity m" and "tm_reach m s"
    and "task_manager_create_task fresh now (Some (ts_mgr s)) input sz = Some (k, mp')"
  shows "k = 0 \<and> map ti_task (recorded (ts_mgr s)) = map ti_task (recorded m)"
proof -
  have full: "tm_inv (ts_mgr s) \<and> tm_count (ts_mgr s) = tm_capacity (ts_mgr s) \<and>
      map ti_task (recorded (ts_mgr s)) = map ti_task (recorded m)"
    using assms(3)
  proof (induction rule: tm_reach.induct)
    case (step s s')
    then show ?case using tm_step_full[OF step.hyps(2)] by simp
  qed (use assms(1,2) in simp)
  then have "\<not> creatable fresh sz (ts_mgr s)" by (simp add: creatable_def)
  with assms(4) full have "k = 0"
  proof (cases input)
    case None
    then show ?thesis using assms(4) by (simp add: task_manager_create_task_def)
  qed (use create_task_refused in blast)
  with full show ?thesis by simp
qed

theorem task_manager_full_forever_witness:
  "\<exists>s mp'. tm_reach sample_full s \<and> ts_mgr s \<noteq> sample_full \<and>
     task_manager_create_task (Some sample_block) 99 (Some (ts_mgr s)) (Some [1]) 1 = Some (0, mp')"
proof -
  let ?s0 = "\<lparr>ts_mgr = sample_full, ts_out = []\<rparr>"
  obtain r m1 where a: "task_manager_assign_task 60 (Some sample_full) 3 8 = (r, Some m1)"
    using assign_total by blast
  have l: "lookup_key info_id 3 (recorded sample_full) = Some (new_task_info 12 (sample_block\<lparr>t_task_id := 3\<rparr>))"
    by (simp add: lookup_key_def sample_full_facts new_task_info_def mark_assigned_def)
  have "lookup_key info_id 3 (recorded m1) = map_option (mark_assigned 60 8) (lookup_key info_id 3 (recorded sample_full))"
    using tm_assign.lookup_upd_same[of 3 8 60 "Some sample_full"] a by (simp add: opt_recorded_def)
  then have "m1 \<noteq> sample_full" unfolding l using l by (auto simp: mark_assigned_def new_task_info_def)
  have "tm_step ?s0 (?s0\<lparr>ts_mgr := m1\<rparr>)" using tm_step.assign[of _ ?s0] a by simp
  then have r1: "tm_reach sample_full \<lparr>ts_mgr = m1, ts_out = []\<rparr>"
    using tm_reach.step[OF tm_reach.start] by simp
  have "tm_inv m1" using same_frame_inv[OF assign_frame[OF a]] sample_full_facts(1) .
  then obtain k mp' where c: "task_manager_create_task (Some sample_block) 99 (Some m1) (Some [1]) 1 = Some (k, mp')"
    using create_task_defined[of m1 1 "[1]"] by fastforce
  have "k = 0"
    using task_manager_full_forever[OF sample_full_facts(1,2) r1, of "Some sample_block" 99 "Some [1]" 1] c by auto
  then show ?thesis using r1 c \<open>m1 \<noteq> sample_full\<close>
    by (intro exI[of _ "\<lparr>ts_mgr = m1, ts_out = []\<rparr>"]) auto
qed

text \<open>The task timeout sweep marks exactly the assigned tasks whose assignment is older than the limit,
  returns their number, keeps every task's data and the queue, and finds nothing when repeated at
  the same time.\<close>

theorem task_timeout_sweep:
  assumes "tm_inv m"
  shows "\<exists>m'. task_manager_check_timeouts now (Some m) ts =
           (of_nat (length (filter (task_overdue now ts) (recorded m))), Some m') \<and> tm_inv m' \<and>
           recorded m' = map (time_out now ts) (recorded m) \<and> pending m' = pending m \<and>
           fst (task_manager_check_timeouts now (Some m') ts) = 0"
proof -
  obtain m' where c: "task_manager_check_timeouts now (Some m) ts =
      (of_nat (length (filter (task_overdue now ts) (recorded m))), Some m')"
    and r: "recorded m' = map (time_out now ts) (recorded m)" and f: "same_frame m m'"
    using task_check_timeouts_eq[OF assms] by blast
  have i: "tm_inv m'" by (rule same_frame_inv[OF f assms])
  have "filter (task_overdue now ts) (recorded m') = []"
    by (auto simp: r filter_empty_conv not_overdue_time_out)
  then have "fst (task_manager_check_timeouts now (Some m') ts) = 0"
    using task_check_timeouts_eq[OF i, of now ts] by auto
  then show ?thesis using c r i same_frame_tasks(2)[OF f] by auto
qed

theorem task_timeout_sweep_witness:
  "\<exists>m'. task_manager_check_timeouts 101 (Some sample_full) 60 = (1, Some m') \<and>
        map ti_status (recorded m') = [TASK_STATUS_PENDING, TASK_STATUS_TIMEOUT, TASK_STATUS_PENDING]"
  using task_timeout_sweep[OF sample_full_facts(1), of 101 60]
  by (auto simp: sample_full_facts task_overdue_def time_out_def new_task_info_def mark_assigned_def)

end
