(* ===== verification/Central_Server.thy ===== *)
theory Central_Server
  imports Worker_Registry Task_Manager
begin

text \<open>
  The central server (\<open>central_server/central_server.c\<close>) on top of the registry, the task manager
  and the transport. Its globals are a record. A handler gets the byte order of the host, the
  clock, what the successive \<open>write\<close> calls answer and, if it reads, what the socket still holds; it
  returns the new globals, the rest of the input and its input/output events in order. The body of
  each thread loop is a function; the threads together are a step relation whose steps are the
  initial part of a thread, one iteration of its loop, a timeout sweep, an accepted connection or
  the shutdown signal. Logging has no effect on the state and is left out.

  The theory shows what dispatching one task does on every branch, that a result message is never
  processed, so that no reachable state has a completed or failed task and a worker that was given a task
  is never given another, that the registration message of a worker is refused on hosts of
  either byte order, and that a failed registration response closes the socket twice.
\<close>

section \<open>State\<close>

record central_server =
  cs_running :: bool
  cs_server_socket :: int
  cs_registry :: "worker_registry_t option"
  cs_tasks :: "task_manager_t option"

datatype cs_io = Sent int "byte list" | Closed int

definition MAX_WORKERS :: u32 where "MAX_WORKERS = 100"
definition MAX_TASKS :: u32 where "MAX_TASKS = 1000"
definition TASK_QUEUE_SIZE :: u32 where "TASK_QUEUE_SIZE = 500"
definition WORKER_TIMEOUT_SEC :: u32 where "WORKER_TIMEOUT_SEC = 30"
definition TASK_TIMEOUT_SEC :: u32 where "TASK_TIMEOUT_SEC = 60"

section \<open>Start and end\<close>

text \<open>
  The initialisation succeeds with the new globals or fails; on failure what was created is
  destroyed again, which closes no worker socket because no worker is registered yet.
\<close>

record cs_env =
  ce_logger_ok :: bool
  ce_reg_struct_ok :: bool
  ce_reg_array_ok :: bool
  ce_reg_mutex_ok :: bool
  ce_tm :: tm_env
  ce_socket :: socket_env

definition initialize_server ::
  "cs_env \<Rightarrow> (nat \<Rightarrow> worker_info_t) \<Rightarrow> (nat \<Rightarrow> task_info_t) \<Rightarrow> (nat \<Rightarrow> task_t option)
   \<Rightarrow> central_server option \<times> int list" where
  "initialize_server e wmem tmem qmem =
     (if \<not> ce_logger_ok e then (None, [])
      else (case worker_registry_create (ce_reg_struct_ok e) (ce_reg_array_ok e) (ce_reg_mutex_ok e) wmem MAX_WORKERS of
              None \<Rightarrow> (None, [])
            | Some reg \<Rightarrow>
                (case task_manager_create (ce_tm e) tmem qmem MAX_TASKS TASK_QUEUE_SIZE of
                   (None, _) \<Rightarrow> (None, worker_registry_destroy (Some reg))
                 | (Some tm, _) \<Rightarrow>
                     (case create_server_socket (ce_socket e) of
                        (fd, closed) \<Rightarrow>
                          if fd < 0 then (None, closed @ worker_registry_destroy (Some reg))
                          else (Some \<lparr>cs_running = True, cs_server_socket = fd,
                                      cs_registry = Some reg, cs_tasks = Some tm\<rparr>, closed)))))"

definition cleanup_server :: "central_server \<Rightarrow> central_server \<times> cs_io list \<times> task_t option list" where
  "cleanup_server s =
     (s\<lparr>cs_server_socket := (if cs_server_socket s \<ge> 0 then -1 else cs_server_socket s),
        cs_tasks := None, cs_registry := None\<rparr>,
      (if cs_server_socket s \<ge> 0 then [Closed (cs_server_socket s)] else []) @
        map Closed (worker_registry_destroy (cs_registry s)),
      fst (task_manager_destroy (cs_tasks s)))"

definition signal_handler :: "central_server \<Rightarrow> central_server" where
  "signal_handler s = s\<lparr>cs_running := False\<rparr>"

section \<open>Handlers of worker messages\<close>

definition plain_message :: "MessageType \<Rightarrow> u32 \<Rightarrow> Message" where
  "plain_message t cid = \<lparr>header = \<lparr>message_type = msg_code t, client_id = cid\<rparr>, body = zero_body\<rparr>"

definition reg_response_message :: "bool \<Rightarrow> u32 \<Rightarrow> Message" where
  "reg_response_message be cid =
     \<lparr>header = \<lparr>message_type = msg_code MSG_TYPE_REGISTER_RESPONSE, client_id = cid\<rparr>,
      body = set_u32 be 0 1 zero_body\<rparr>"

definition handle_worker_registration ::
  "bool \<Rightarrow> int list \<Rightarrow> int \<Rightarrow> int \<Rightarrow> nat \<Rightarrow> central_server \<Rightarrow> (u32 \<times> central_server) \<times> cs_io list" where
  "handle_worker_registration be ws now sockfd thread_id s =
     (case worker_registry_add now (cs_registry s) sockfd thread_id of
        (worker_id, reg1) \<Rightarrow>
          if worker_id = 0 then ((0, s\<lparr>cs_registry := reg1\<rparr>), [])
          else (case send_message be ws (reg_response_message be worker_id) of
                  (r, out) \<Rightarrow>
                    if r < 0
                    then (case worker_registry_remove reg1 worker_id of
                            ((_, reg2), closed) \<Rightarrow>
                              ((0, s\<lparr>cs_registry := reg2\<rparr>), Sent sockfd out # map Closed closed))
                    else ((worker_id, s\<lparr>cs_registry := reg1\<rparr>), [Sent sockfd out])))"

definition handle_worker_heartbeat ::
  "bool \<Rightarrow> int list \<Rightarrow> int \<Rightarrow> u32 \<Rightarrow> int \<Rightarrow> central_server \<Rightarrow> central_server \<times> cs_io list" where
  "handle_worker_heartbeat be ws now worker_id sockfd s =
     (case worker_registry_update_heartbeat now (cs_registry s) worker_id of
        (r, reg1) \<Rightarrow>
          if r \<noteq> 0 then (s\<lparr>cs_registry := reg1\<rparr>, [])
          else (s\<lparr>cs_registry := reg1\<rparr>,
                [Sent sockfd (snd (send_message be ws (plain_message MSG_TYPE_HEARTBEAT_RESPONSE worker_id)))]))"

text \<open>
  What follows the receipt of a result of \<open>sizeof(task_result_t) = 12\<close> bytes. The worker pointer is
  an index into the array; the status goes to the task manager truncated to 8 bits and is compared
  at full width for the statistics.
\<close>

definition task_result_size :: nat where "task_result_size = 12"

definition bump_stats :: "u32 \<Rightarrow> worker_info_t \<Rightarrow> worker_info_t" where
  "bump_stats status w =
     (if status = 0 then w\<lparr>wi_tasks_completed := wi_tasks_completed w + 1\<rparr>
      else w\<lparr>wi_tasks_failed := wi_tasks_failed w + 1\<rparr>)"

definition process_task_result ::
  "bool \<Rightarrow> int list \<Rightarrow> int \<Rightarrow> u32 \<Rightarrow> int \<Rightarrow> byte list \<Rightarrow> central_server \<Rightarrow> central_server \<times> cs_io list" where
  "process_task_result be ws now worker_id sockfd result s =
     (let task_id = get_u32 be 0 result; status = get_u32 be 4 result; exec_time_ms = get_u32 be 8 result;
          tm1 = snd (task_manager_process_result now (cs_tasks s) task_id (ucast status) exec_time_ms);
          reg1 = (case worker_registry_get (cs_registry s) worker_id of
                    None \<Rightarrow> cs_registry s
                  | Some i \<Rightarrow>
                      map_option (\<lambda>reg. reg\<lparr>wr_workers := (wr_workers reg)[i := bump_stats status (wr_workers reg ! i)]\<rparr>)
                        (snd (worker_registry_update_status (cs_registry s) worker_id WORKER_STATUS_IDLE)))
      in (s\<lparr>cs_tasks := tm1, cs_registry := reg1\<rparr>,
          [Sent sockfd (snd (send_message be ws (plain_message MSG_TYPE_RESULT_ACK task_id)))]))"

text \<open>
  The code compares the return value of \<open>recv_payload\<close>, which is 0 or -1, with the size it asked for.
\<close>

definition handle_task_result ::
  "bool \<Rightarrow> int list \<Rightarrow> int \<Rightarrow> u32 \<Rightarrow> int \<Rightarrow> read_event list \<Rightarrow> central_server
   \<Rightarrow> (central_server \<times> read_event list) \<times> cs_io list" where
  "handle_task_result be ws now worker_id sockfd es s =
     (case recv_payload task_result_size es of
        ((r, buf), es') \<Rightarrow>
          if r \<noteq> int task_result_size then ((s, es'), [])
          else (case buf of
                  None \<Rightarrow> ((s, es'), [])
                | Some result \<Rightarrow>
                    (case process_task_result be ws now worker_id sockfd result s of
                       (s', io) \<Rightarrow> ((s', es'), io))))"

section \<open>Dispatching a task\<close>

text \<open>\<open>data\<close> is at offset 4 of \<open>submit_job\<close>, \<open>data_size\<close> at offset 1028.\<close>

definition task_message :: "bool \<Rightarrow> task_t \<Rightarrow> Message" where
  "task_message be task =
     \<lparr>header = \<lparr>message_type = msg_code MSG_TYPE_TASK, client_id = t_task_id task\<rparr>,
      body = set_bytes 4 (take MAX_DATA_SIZE (t_input_data task))
               (set_u32 be (4 + MAX_DATA_SIZE) (of_nat MAX_DATA_SIZE) zero_body)\<rparr>"

definition assign_task_to_worker ::
  "bool \<Rightarrow> int list \<Rightarrow> int \<Rightarrow> u32 \<Rightarrow> central_server \<Rightarrow> (int \<times> central_server) \<times> cs_io list" where
  "assign_task_to_worker be ws now worker_id s =
     (case (worker_registry_get (cs_registry s) worker_id, cs_registry s) of
        (Some i, Some reg) \<Rightarrow>
          if wi_status (wr_workers reg ! i) \<noteq> WORKER_STATUS_IDLE then ((-1, s), [])
          else (case task_manager_get_next_task None [] (cs_tasks s) 0 of
                  Some (Some task, tm1) \<Rightarrow>
                    (case task_manager_assign_task now tm1 (t_task_id task) worker_id of
                       (r, tm2) \<Rightarrow>
                         if r \<noteq> 0 then ((-1, s\<lparr>cs_tasks := tm2\<rparr>), [])
                         else
                           let reg1 = snd (worker_registry_update_status (Some reg) worker_id WORKER_STATUS_BUSY);
                               fd = wi_sockfd (wr_workers reg ! i)
                           in (case send_message be ws (task_message be task) of
                                 (q, out) \<Rightarrow>
                                   if q < 0
                                   then ((-1, s\<lparr>cs_tasks := tm2,
                                                cs_registry := snd (worker_registry_update_status reg1 worker_id WORKER_STATUS_IDLE)\<rparr>),
                                         [Sent fd out])
                                   else ((0, s\<lparr>cs_tasks := tm2, cs_registry := reg1\<rparr>), [Sent fd out])))
                | Some (None, tm1) \<Rightarrow> ((-1, s\<lparr>cs_tasks := tm1\<rparr>), [])
                | None \<Rightarrow> ((-1, s), []))
      | _ \<Rightarrow> ((-1, s), []))"

section \<open>Threads\<close>

text \<open>
  What one iteration of a thread loop needs: the clock and the answers of \<open>write\<close> for the first and
  the second message it may send.
\<close>

record iter_env =
  ie_now :: int
  ie_ws1 :: "int list"
  ie_ws2 :: "int list"

definition assign_if_pending ::
  "bool \<Rightarrow> int list \<Rightarrow> int \<Rightarrow> u32 \<Rightarrow> central_server \<Rightarrow> central_server \<times> cs_io list" where
  "assign_if_pending be ws now worker_id s =
     (if task_manager_pending_count (cs_tasks s) > 0
      then (case assign_task_to_worker be ws now worker_id s of ((_, s'), io) \<Rightarrow> (s', io))
      else (s, []))"

text \<open>The part of \<open>worker_handler_thread\<close> before the loop: the identifier, 0 if the thread ended.\<close>

definition worker_thread_start ::
  "bool \<Rightarrow> iter_env \<Rightarrow> nat \<Rightarrow> int \<Rightarrow> read_event list \<Rightarrow> central_server
   \<Rightarrow> (u32 \<times> read_event list \<times> central_server) \<times> cs_io list" where
  "worker_thread_start be e thread_id sockfd es s =
     (case recv_header be es of
        ((_, None), es') \<Rightarrow> ((0, es', s), [Closed sockfd])
      | ((_, Some h), es') \<Rightarrow>
          if message_type h \<noteq> msg_code MSG_TYPE_REGISTER then ((0, es', s), [Closed sockfd])
          else (case handle_worker_registration be (ie_ws1 e) (ie_now e) sockfd thread_id s of
                  ((worker_id, s'), io) \<Rightarrow>
                    if worker_id = 0 then ((0, es', s'), io @ [Closed sockfd])
                    else ((worker_id, es', s'), io)))"

text \<open>One iteration of its loop; \<^const>\<open>False\<close> is the exit by \<open>break\<close>.\<close>

definition worker_iteration ::
  "bool \<Rightarrow> iter_env \<Rightarrow> u32 \<Rightarrow> int \<Rightarrow> read_event list \<Rightarrow> central_server
   \<Rightarrow> (bool \<times> read_event list \<times> central_server) \<times> cs_io list" where
  "worker_iteration be e worker_id sockfd es s =
     (case recv_header be es of
        ((_, None), es') \<Rightarrow> ((False, es', s), [])
      | ((_, Some h), es') \<Rightarrow>
          if message_type h = msg_code MSG_TYPE_HEARTBEAT
          then (case handle_worker_heartbeat be (ie_ws1 e) (ie_now e) worker_id sockfd s of
                  (s1, io1) \<Rightarrow>
                    (case assign_if_pending be (ie_ws2 e) (ie_now e) worker_id s1 of
                       (s2, io2) \<Rightarrow> ((True, es', s2), io1 @ io2)))
          else if message_type h = msg_code MSG_TYPE_TASK_RESULT
          then (case handle_task_result be (ie_ws1 e) (ie_now e) worker_id sockfd es' s of
                  ((s1, es1), io1) \<Rightarrow>
                    (case assign_if_pending be (ie_ws2 e) (ie_now e) worker_id s1 of
                       (s2, io2) \<Rightarrow> ((True, es1, s2), io1 @ io2)))
          else ((True, es', s), []))"

definition worker_thread_end :: "u32 \<Rightarrow> central_server \<Rightarrow> central_server \<times> cs_io list" where
  "worker_thread_end worker_id s =
     (case worker_registry_remove (cs_registry s) worker_id of
        ((_, reg1), closed) \<Rightarrow> (s\<lparr>cs_registry := reg1\<rparr>, map Closed closed))"

definition timeout_iteration :: "int \<Rightarrow> int \<Rightarrow> central_server \<Rightarrow> central_server" where
  "timeout_iteration now1 now2 s =
     s\<lparr>cs_registry := snd (worker_registry_check_timeouts now1 (cs_registry s) WORKER_TIMEOUT_SEC),
       cs_tasks := snd (task_manager_check_timeouts now2 (cs_tasks s) TASK_TIMEOUT_SEC)\<rparr>"

definition sample_text :: "byte list" where
  "sample_text = map of_char ''Sample task data'' @ [0]"

definition create_sample_task :: "task_t option \<Rightarrow> int \<Rightarrow> central_server \<Rightarrow> central_server" where
  "create_sample_task fresh now s =
     (case task_manager_create_task fresh now (cs_tasks s)
             (Some (set_bytes 0 sample_text (replicate MAX_DATA_SIZE 0))) (of_nat (length sample_text)) of
        None \<Rightarrow> s
      | Some (_, tm1) \<Rightarrow> s\<lparr>cs_tasks := tm1\<rparr>)"

text \<open>\<open>client_handler_thread\<close>: the part before the loop (whether it goes on) and one iteration.\<close>

definition client_thread_start ::
  "bool \<Rightarrow> int list \<Rightarrow> int \<Rightarrow> read_event list \<Rightarrow> (bool \<times> read_event list) \<times> cs_io list" where
  "client_thread_start be ws sockfd es =
     (case recv_header be es of
        ((_, None), es') \<Rightarrow> ((False, es'), [Closed sockfd])
      | ((_, Some h), es') \<Rightarrow>
          if message_type h \<noteq> msg_code MSG_TYPE_REGISTER then ((False, es'), [Closed sockfd])
          else (case send_message be ws (reg_response_message be 1) of
                  (r, out) \<Rightarrow>
                    if r < 0 then ((False, es'), [Sent sockfd out, Closed sockfd])
                    else ((True, es'), [Sent sockfd out])))"

definition client_iteration ::
  "bool \<Rightarrow> int \<Rightarrow> read_event list \<Rightarrow> (bool \<times> read_event list) \<times> cs_io list" where
  "client_iteration be sockfd es =
     (case recv_header be es of
        ((_, None), es') \<Rightarrow> ((False, es'), [Closed sockfd])
      | ((_, Some h), es') \<Rightarrow>
          if message_type h = msg_code MSG_TYPE_SUBMIT_JOB then ((True, es'), [])
          else if message_type h = msg_code MSG_TYPE_CLIENT_DISCONNECT then ((False, es'), [Closed sockfd])
          else ((True, es'), []))"

text \<open>
  One iteration of the accept loop of \<open>main\<close>: which handler thread is started, if any, and what is
  left of the connection's input.
\<close>

datatype handler = WorkerHandler | ClientHandler

definition accept_iteration ::
  "bool \<Rightarrow> bool \<Rightarrow> bool \<Rightarrow> int \<Rightarrow> read_event list \<Rightarrow> (handler option \<times> read_event list) \<times> cs_io list" where
  "accept_iteration be malloc_ok thread_ok client_socket es =
     (if client_socket < 0 then ((None, es), [])
      else if \<not> malloc_ok then ((None, es), [Closed client_socket])
      else (case recv_header be es of
              ((_, None), es') \<Rightarrow> ((None, es'), [Closed client_socket])
            | ((_, Some h), es') \<Rightarrow>
                if message_type h = msg_code MSG_TYPE_REGISTER
                then (if \<not> thread_ok then ((None, es'), [Closed client_socket])
                      else ((Some (if client_id h = 0 then WorkerHandler else ClientHandler), es'), []))
                else ((None, es'), [Closed client_socket])))"

section \<open>The threads together\<close>

text \<open>
  A thread tests \<open>server_running\<close> before it blocks in a read, an accept or a sleep, so an iteration may
  complete after the signal; the loops end when a later test fails.
\<close>

datatype cs_pc = WorkerNew | WorkerServing u32 | ClientNew | ClientServing | Ended

record cs_thread =
  th_fd :: int
  th_in :: "read_event list"
  th_pc :: cs_pc

record cs_sys =
  sys_srv :: central_server
  sys_threads :: "cs_thread list"
  sys_io :: "cs_io list"

definition handler_pc :: "handler \<Rightarrow> cs_pc" where
  "handler_pc k = (case k of WorkerHandler \<Rightarrow> WorkerNew | ClientHandler \<Rightarrow> ClientNew)"

definition set_thread :: "cs_sys \<Rightarrow> nat \<Rightarrow> read_event list \<Rightarrow> cs_pc \<Rightarrow> central_server \<Rightarrow> cs_io list \<Rightarrow> cs_sys" where
  "set_thread s i es pc srv io =
     s\<lparr>sys_srv := srv, sys_io := sys_io s @ io,
       sys_threads := (sys_threads s)[i := (sys_threads s ! i)\<lparr>th_in := es, th_pc := pc\<rparr>]\<rparr>"

inductive cs_step :: "bool \<Rightarrow> cs_sys \<Rightarrow> cs_sys \<Rightarrow> bool" for be where
  accept: "accept_iteration be mo to fd es = ((Some k, es'), io) \<Longrightarrow>
     cs_step be s (s\<lparr>sys_threads := sys_threads s @ [\<lparr>th_fd = fd, th_in = es', th_pc = handler_pc k\<rparr>],
                     sys_io := sys_io s @ io\<rparr>)"
| refuse: "accept_iteration be mo to fd es = ((None, es'), io) \<Longrightarrow>
     cs_step be s (s\<lparr>sys_io := sys_io s @ io\<rparr>)"
| worker_start: "i < length (sys_threads s) \<Longrightarrow> th_pc (sys_threads s ! i) = WorkerNew \<Longrightarrow>
     worker_thread_start be e i (th_fd (sys_threads s ! i)) (th_in (sys_threads s ! i)) (sys_srv s) =
       ((wid, es, srv), io) \<Longrightarrow>
     cs_step be s (set_thread s i es (if wid = 0 then Ended else WorkerServing wid) srv io)"
| worker_iter: "i < length (sys_threads s) \<Longrightarrow> th_pc (sys_threads s ! i) = WorkerServing wid \<Longrightarrow>
     worker_iteration be e wid (th_fd (sys_threads s ! i)) (th_in (sys_threads s ! i)) (sys_srv s) =
       ((True, es, srv), io) \<Longrightarrow>
     cs_step be s (set_thread s i es (WorkerServing wid) srv io)"
| worker_break: "i < length (sys_threads s) \<Longrightarrow> th_pc (sys_threads s ! i) = WorkerServing wid \<Longrightarrow>
     worker_iteration be e wid (th_fd (sys_threads s ! i)) (th_in (sys_threads s ! i)) (sys_srv s) =
       ((False, es, srv), io) \<Longrightarrow>
     worker_thread_end wid srv = (srv', io') \<Longrightarrow>
     cs_step be s (set_thread s i es Ended srv' (io @ io'))"
| worker_stop: "i < length (sys_threads s) \<Longrightarrow> th_pc (sys_threads s ! i) = WorkerServing wid \<Longrightarrow>
     \<not> cs_running (sys_srv s) \<Longrightarrow> worker_thread_end wid (sys_srv s) = (srv, io) \<Longrightarrow>
     cs_step be s (set_thread s i (th_in (sys_threads s ! i)) Ended srv io)"
| client_start: "i < length (sys_threads s) \<Longrightarrow> th_pc (sys_threads s ! i) = ClientNew \<Longrightarrow>
     client_thread_start be ws (th_fd (sys_threads s ! i)) (th_in (sys_threads s ! i)) = ((go, es), io) \<Longrightarrow>
     cs_step be s (set_thread s i es (if go then ClientServing else Ended) (sys_srv s) io)"
| client_iter: "i < length (sys_threads s) \<Longrightarrow> th_pc (sys_threads s ! i) = ClientServing \<Longrightarrow>
     client_iteration be (th_fd (sys_threads s ! i)) (th_in (sys_threads s ! i)) = ((go, es), io) \<Longrightarrow>
     cs_step be s (set_thread s i es (if go then ClientServing else Ended) (sys_srv s) io)"
| client_stop: "i < length (sys_threads s) \<Longrightarrow> th_pc (sys_threads s ! i) = ClientServing \<Longrightarrow>
     \<not> cs_running (sys_srv s) \<Longrightarrow>
     cs_step be s (set_thread s i (th_in (sys_threads s ! i)) Ended (sys_srv s) [Closed (th_fd (sys_threads s ! i))])"
| sweep: "cs_step be s (s\<lparr>sys_srv := timeout_iteration now1 now2 (sys_srv s)\<rparr>)"
| signal: "cs_step be s (s\<lparr>sys_srv := signal_handler (sys_srv s)\<rparr>)"

text \<open>\<open>main\<close> up to the accept loop: initialisation and the sample task.\<close>

inductive cs_reach :: "bool \<Rightarrow> cs_sys \<Rightarrow> bool" for be where
  boot: "initialize_server e wmem tmem qmem = (Some srv, closed) \<Longrightarrow>
     cs_reach be \<lparr>sys_srv = create_sample_task fresh now srv, sys_threads = [], sys_io = []\<rparr>"
| step: "cs_reach be s \<Longrightarrow> cs_step be s s' \<Longrightarrow> cs_reach be s'"

section \<open>Invariants of the parts\<close>

definition reg_ok :: "worker_registry_t option \<Rightarrow> bool" where
  "reg_ok rp \<longleftrightarrow> (case rp of None \<Rightarrow> False
     | Some reg \<Rightarrow> reg_inv reg \<and> (\<forall>w \<in> set (registered reg). wi_tasks_completed w = 0 \<and> wi_tasks_failed w = 0))"

definition unfinished :: "task_info_t \<Rightarrow> bool" where
  "unfinished ti \<longleftrightarrow> ti_status ti \<in> {TASK_STATUS_PENDING, TASK_STATUS_ASSIGNED, TASK_STATUS_TIMEOUT}"

definition tm_ok :: "task_manager_t option \<Rightarrow> bool" where
  "tm_ok mp \<longleftrightarrow> (case mp of None \<Rightarrow> False
     | Some m \<Rightarrow> tm_inv m \<and> (\<forall>ti \<in> set (recorded m). unfinished ti) \<and>
                set (pending m) \<subseteq> ti_task ` set (recorded m))"

definition srv_inv :: "central_server \<Rightarrow> bool" where
  "srv_inv s \<longleftrightarrow> reg_ok (cs_registry s) \<and> tm_ok (cs_tasks s)"

lemma body_sizes [simp]:
  "length (body (plain_message t i)) = body_size" "length (body (reg_response_message be i)) = body_size"
  by (simp_all add: plain_message_def reg_response_message_def set_u32_def body_size_def)

lemma reg_okE:
  assumes "reg_ok rp"
  obtains reg where "rp = Some reg" and "reg_inv reg"
    and "\<forall>w \<in> set (registered reg). wi_tasks_completed w = 0 \<and> wi_tasks_failed w = 0"
  using assms by (cases rp) (auto simp: reg_ok_def)

lemma tm_okE:
  assumes "tm_ok mp"
  obtains m where "mp = Some m" and "tm_inv m" and "\<forall>ti \<in> set (recorded m). unfinished ti"
    and "set (pending m) \<subseteq> ti_task ` set (recorded m)"
  using assms by (cases mp) (auto simp: tm_ok_def)

lemma reg_ok_add:
  assumes "reg_ok rp"
  shows "reg_ok (snd (worker_registry_add now rp fd tid))"
proof -
  from assms obtain reg where r: "rp = Some reg" "reg_inv reg"
    and z: "\<forall>w \<in> set (registered reg). wi_tasks_completed w = 0 \<and> wi_tasks_failed w = 0" by (rule reg_okE)
  show ?thesis
  proof (cases "fd < 0 \<or> wr_count reg \<ge> wr_capacity reg")
    case True
    then show ?thesis using assms by (simp add: r(1) add_failure)
  next
    case False
    then have "wr_count reg < wr_capacity reg" and "0 \<le> fd" by auto
    from add_success[OF r(2) this, of now tid] z show ?thesis by (auto simp: r(1) reg_ok_def fresh_worker_def)
  qed
qed

lemma reg_ok_remove:
  assumes "reg_ok rp"
  shows "reg_ok (snd (fst (worker_registry_remove rp k)))"
proof -
  from assms obtain reg where r: "rp = Some reg" "reg_inv reg"
    and z: "\<forall>w \<in> set (registered reg). wi_tasks_completed w = 0 \<and> wi_tasks_failed w = 0" by (rule reg_okE)
  show ?thesis
  proof (cases "k \<noteq> 0 \<and> find_worker reg k \<noteq> None")
    case True
    then obtain i where "k \<noteq> 0" "find_worker reg k = Some i" by auto
    from remove_success[OF r(2) this] obtain reg' where
      "snd (fst (worker_registry_remove (Some reg) k)) = Some reg'" and "reg_inv reg'"
      and "registered reg' = delete_at i (registered reg)" by auto
    then show ?thesis using z
      by (auto simp: r(1) reg_ok_def delete_at_def dest: in_set_takeD in_set_dropD)
  next
    case False
    then show ?thesis using assms remove_failure[of k reg] by (auto simp: r(1))
  qed
qed

lemma reg_ok_status:
  assumes "reg_ok rp"
  shows "reg_ok (snd (worker_registry_update_status rp k st))"
proof -
  from assms obtain reg where r: "rp = Some reg" "reg_inv reg"
    and z: "\<forall>w \<in> set (registered reg). wi_tasks_completed w = 0 \<and> wi_tasks_failed w = 0" by (rule reg_okE)
  obtain reg' where s: "snd (worker_registry_update_status rp k st) = Some reg'"
    by (cases "find_worker reg k"; cases "k = 0") (simp_all add: r(1) worker_registry_update_status_def)
  have "set (registered reg') \<subseteq> set (registered reg) \<union> (\<lambda>w. w\<lparr>wi_status := st\<rparr>) ` set (registered reg)"
    using reg_status.upd_set[where st = st and k = k and t = rp] s by (auto simp: r(1) opt_registered_def)
  then have "\<forall>w \<in> set (registered reg'). wi_tasks_completed w = 0 \<and> wi_tasks_failed w = 0" using z by fastforce
  with update_status_inv[OF r(2)] s show ?thesis by (simp add: r(1) reg_ok_def)
qed

lemma reg_ok_beat:
  assumes "reg_ok rp"
  shows "reg_ok (snd (worker_registry_update_heartbeat now rp k))"
proof -
  from assms obtain reg where r: "rp = Some reg" "reg_inv reg"
    and z: "\<forall>w \<in> set (registered reg). wi_tasks_completed w = 0 \<and> wi_tasks_failed w = 0" by (rule reg_okE)
  obtain reg' where s: "snd (worker_registry_update_heartbeat now rp k) = Some reg'"
    by (cases "find_worker reg k"; cases "k = 0") (simp_all add: r(1) worker_registry_update_heartbeat_def)
  have "set (registered reg') \<subseteq> set (registered reg) \<union> (\<lambda>w. w\<lparr>wi_last_heartbeat := now\<rparr>) ` set (registered reg)"
    using reg_beat.upd_set[where now = now and k = k and t = rp] s by (auto simp: r(1) opt_registered_def)
  then have "\<forall>w \<in> set (registered reg'). wi_tasks_completed w = 0 \<and> wi_tasks_failed w = 0" using z by fastforce
  with update_heartbeat_inv[OF r(2)] s show ?thesis by (simp add: r(1) reg_ok_def)
qed

lemma reg_ok_sweep:
  assumes "reg_ok rp"
  shows "reg_ok (snd (worker_registry_check_timeouts now rp ts))"
proof -
  from assms obtain reg where r: "rp = Some reg" "reg_inv reg"
    and z: "\<forall>w \<in> set (registered reg). wi_tasks_completed w = 0 \<and> wi_tasks_failed w = 0" by (rule reg_okE)
  from check_timeouts_registered[OF r(2), of now ts] z show ?thesis
    by (auto simp: r(1) reg_ok_def expire_def)
qed

lemma same_frame_ok:
  assumes "tm_ok (Some m)" and "same_frame m m'" and "\<forall>ti \<in> set (recorded m'). unfinished ti"
  shows "tm_ok (Some m')"
proof -
  have "ti_task ` set (recorded m') = ti_task ` set (recorded m)"
    using same_frame_tasks(1)[OF assms(2)] by (metis list.set_map)
  then show ?thesis
    using assms same_frame_inv[OF assms(2)] same_frame_tasks(2)[OF assms(2)] by (simp add: tm_ok_def)
qed

lemma tm_ok_assign:
  assumes "tm_ok mp"
  shows "tm_ok (snd (task_manager_assign_task now mp k wid))"
proof -
  from assms obtain m where m: "mp = Some m" and u: "\<forall>ti \<in> set (recorded m). unfinished ti" by (rule tm_okE)
  obtain r m' where a: "task_manager_assign_task now (Some m) k wid = (r, Some m')" using assign_total by blast
  have "set (recorded m') \<subseteq> set (recorded m) \<union> mark_assigned now wid ` set (recorded m)"
    using tm_assign.upd_set[where now = now and wid = wid and k = k and t = mp] a
    by (auto simp: m opt_recorded_def)
  moreover have "unfinished (mark_assigned now wid ti)" for ti by (simp add: unfinished_def mark_assigned_def)
  ultimately have "\<forall>ti \<in> set (recorded m'). unfinished ti" using u by blast
  from same_frame_ok[OF assms[unfolded m] assign_frame[OF a] this] show ?thesis by (simp add: m a)
qed

lemma tm_ok_next:
  assumes "tm_ok mp" and "task_manager_get_next_task c w mp 0 = Some (t, mp')"
  shows "tm_ok mp'"
proof -
  from assms(1) obtain m where m: "mp = Some m" "tm_inv m" and u: "\<forall>ti \<in> set (recorded m). unfinished ti"
    and p: "set (pending m) \<subseteq> ti_task ` set (recorded m)" by (rule tm_okE)
  obtain m' where "mp' = Some m'" and "tm_inv m'" and "recorded m' = recorded m" and "pending m' = tl (pending m)"
    using get_next_nonblocking[OF m(2), of c w] assms(2) by (auto simp: m(1))
  moreover have "set (tl (pending m)) \<subseteq> set (pending m)" by (cases "pending m") auto
  ultimately show ?thesis using u p by (auto simp: tm_ok_def)
qed

lemma tm_ok_sweep:
  assumes "tm_ok mp"
  shows "tm_ok (snd (task_manager_check_timeouts now mp ts))"
proof -
  from assms obtain m where m: "mp = Some m" "tm_inv m" and u: "\<forall>ti \<in> set (recorded m). unfinished ti"
    by (rule tm_okE)
  obtain m' where c: "snd (task_manager_check_timeouts now (Some m) ts) = Some m'"
    and r: "recorded m' = map (time_out now ts) (recorded m)" and f: "same_frame m m'"
    using task_check_timeouts_eq[OF m(2), of now ts] by auto
  have "\<forall>ti \<in> set (recorded m'). unfinished ti" using u by (auto simp: r time_out_def unfinished_def)
  from same_frame_ok[OF assms[unfolded m(1)] f this] show ?thesis by (simp add: m(1) c)
qed

lemma tm_ok_create:
  assumes "tm_ok mp" and "task_manager_create_task fresh now mp input sz = Some (k, mp')"
  shows "tm_ok mp'"
proof -
  from assms(1) obtain m where m: "mp = Some m" "tm_inv m" and u: "\<forall>ti \<in> set (recorded m). unfinished ti"
    and p: "set (pending m) \<subseteq> ti_task ` set (recorded m)" by (rule tm_okE)
  obtain m' where m': "mp' = Some m'"
    using assms(2) by (auto simp: m(1) task_manager_create_task_def Let_def split: option.splits if_splits)
  from create_task_cases[OF m(2) assms(2)[unfolded m(1) m']] show ?thesis
    using m(2) u p by cases (auto simp: m' tm_ok_def unfinished_def new_task_info_def)
qed

section \<open>Invariant of the server\<close>

lemma recv_payload_code: "fst (fst (recv_payload n es)) = 0 \<or> fst (fst (recv_payload n es)) = -1"
  by (auto simp: recv_payload_def split: prod.split option.split)

lemma handle_task_result_noop:
  "handle_task_result be ws now wid fd es s = ((s, snd (recv_payload task_result_size es)), [])"
  using recv_payload_code[of task_result_size es]
  by (auto simp: handle_task_result_def task_result_size_def split: prod.split)

lemma registration_inv:
  "srv_inv s \<Longrightarrow> srv_inv (snd (fst (handle_worker_registration be ws now fd tid s)))"
  using reg_ok_add[of "cs_registry s" now fd tid] reg_ok_remove[of "snd (worker_registry_add now (cs_registry s) fd tid)"
      "fst (worker_registry_add now (cs_registry s) fd tid)"]
  by (auto simp: srv_inv_def handle_worker_registration_def split: prod.splits)

lemma heartbeat_inv: "srv_inv s \<Longrightarrow> srv_inv (fst (handle_worker_heartbeat be ws now wid fd s))"
  using reg_ok_beat[of "cs_registry s" now wid]
  by (auto simp: srv_inv_def handle_worker_heartbeat_def split: prod.splits)

lemma dispatch_inv:
  assumes "srv_inv s"
  shows "srv_inv (snd (fst (assign_task_to_worker be ws now wid s)))"
proof -
  have r: "reg_ok (cs_registry s)" and t: "tm_ok (cs_tasks s)" using assms by (simp_all add: srv_inv_def)
  have a: "tm_ok tm2" if "task_manager_get_next_task None [] (cs_tasks s) 0 = Some (x, tm1)"
    "task_manager_assign_task now tm1 k wid = (q, tm2)" for x tm1 k q tm2
    using tm_ok_assign[OF tm_ok_next[OF t that(1)], of now k wid] that(2) by simp
  have n: "tm_ok tm1" if "task_manager_get_next_task None [] (cs_tasks s) 0 = Some (x, tm1)" for x tm1
    by (rule tm_ok_next[OF t that])
  show ?thesis
    using assms r a n reg_ok_status[OF r]
    by (auto simp: assign_task_to_worker_def srv_inv_def Let_def reg_ok_status split: option.splits prod.splits)
qed

lemma assign_if_pending_inv: "srv_inv s \<Longrightarrow> srv_inv (fst (assign_if_pending be ws now wid s))"
  using dispatch_inv[of s be ws now wid] by (auto simp: assign_if_pending_def split: prod.splits)

lemma worker_start_inv:
  "srv_inv s \<Longrightarrow> worker_thread_start be e tid fd es s = ((wid, es', s'), io) \<Longrightarrow> srv_inv s'"
  using registration_inv[of s be "ie_ws1 e" "ie_now e" fd tid]
  by (auto simp: worker_thread_start_def split: prod.splits option.splits if_splits)

lemma worker_iteration_inv:
  assumes "srv_inv s" and "worker_iteration be e wid fd es s = ((go, es', s'), io)"
  shows "srv_inv s'"
  using assms(2) assms(1) assign_if_pending_inv[OF assms(1), of be "ie_ws2 e" "ie_now e" wid]
    assign_if_pending_inv[OF heartbeat_inv[OF assms(1), of be "ie_ws1 e" "ie_now e" wid fd], of be "ie_ws2 e" "ie_now e" wid]
  by (auto simp: worker_iteration_def handle_task_result_noop split: prod.splits option.splits if_splits)

lemma worker_end_inv: "srv_inv s \<Longrightarrow> worker_thread_end wid s = (s', io) \<Longrightarrow> srv_inv s'"
  using reg_ok_remove[of "cs_registry s" wid] by (auto simp: worker_thread_end_def srv_inv_def split: prod.splits)

lemma timeout_inv: "srv_inv s \<Longrightarrow> srv_inv (timeout_iteration now1 now2 s)"
  by (simp add: timeout_iteration_def srv_inv_def reg_ok_sweep tm_ok_sweep)

lemma sample_task_inv: "srv_inv s \<Longrightarrow> srv_inv (create_sample_task fresh now s)"
  by (auto simp: create_sample_task_def srv_inv_def split: option.splits dest: tm_ok_create)

lemma initialize_inv:
  assumes "initialize_server e wmem tmem qmem = (Some s, closed)"
  shows "srv_inv s"
proof -
  from assms obtain reg tm evs where
    r: "worker_registry_create (ce_reg_struct_ok e) (ce_reg_array_ok e) (ce_reg_mutex_ok e) wmem MAX_WORKERS = Some reg"
    and t: "task_manager_create (ce_tm e) tmem qmem MAX_TASKS TASK_QUEUE_SIZE = (Some tm, evs)"
    and s: "cs_registry s = Some reg" "cs_tasks s = Some tm"
    by (auto simp: initialize_server_def split: if_splits option.splits prod.splits)
  show ?thesis
    using create_registered[OF r] tm_create_inv[OF t] by (simp add: srv_inv_def s reg_ok_def tm_ok_def)
qed

lemma set_thread_srv [simp]: "sys_srv (set_thread s i es pc srv io) = srv"
  by (simp add: set_thread_def)

lemma signal_inv: "srv_inv (signal_handler s) = srv_inv s"
  by (simp add: signal_handler_def srv_inv_def)

lemma cs_step_inv: "cs_step be s s' \<Longrightarrow> srv_inv (sys_srv s) \<Longrightarrow> srv_inv (sys_srv s')"
  by (induction rule: cs_step.induct)
     (simp_all add: signal_inv timeout_inv, (blast intro: worker_start_inv worker_iteration_inv worker_end_inv)+)

lemma cs_reach_inv: "cs_reach be s \<Longrightarrow> srv_inv (sys_srv s)"
proof (induction rule: cs_reach.induct)
  case (boot e wmem tmem qmem srv closed fresh now)
  then show ?case by (simp add: sample_task_inv initialize_inv)
qed (rule cs_step_inv)

section \<open>Properties\<close>

text \<open>C5: In no reachable state of the server, for any number of connections, any input and any
  interleaving of the threads, is any task completed or failed or any worker credited with a task: the
  result handler compares the 0 that \<open>recv_payload\<close> returns on success with the payload size and
  gives up. The data structures themselves stay consistent.\<close>

theorem no_task_ever_finishes:
  assumes "cs_reach be s"
  shows "\<exists>reg m. cs_registry (sys_srv s) = Some reg \<and> cs_tasks (sys_srv s) = Some m \<and> reg_inv reg \<and> tm_inv m \<and>
     (\<forall>ti \<in> set (recorded m). ti_status ti \<noteq> TASK_STATUS_COMPLETED \<and> ti_status ti \<noteq> TASK_STATUS_FAILED) \<and>
     (\<forall>w \<in> set (registered reg). wi_tasks_completed w = 0 \<and> wi_tasks_failed w = 0)"
proof -
  have "reg_ok (cs_registry (sys_srv s))" and "tm_ok (cs_tasks (sys_srv s))"
    using cs_reach_inv[OF assms] by (simp_all add: srv_inv_def)
  from reg_okE[OF this(1)] tm_okE[OF this(2)] show ?thesis by (metis (no_types, lifting) unfinished_def
      insertE singletonD task_status_t.distinct)
qed

definition booted :: central_server where
  "booted = \<lparr>cs_running = True, cs_server_socket = 3,
     cs_registry = worker_registry_create True True True (\<lambda>_. sample_worker 0 0) MAX_WORKERS,
     cs_tasks = fst (task_manager_create tm_all_ok (\<lambda>_. new_task_info 0 sample_block) (\<lambda>_. None) MAX_TASKS TASK_QUEUE_SIZE)\<rparr>"

definition boot_env :: cs_env where
  "boot_env = \<lparr>ce_logger_ok = True, ce_reg_struct_ok = True, ce_reg_array_ok = True, ce_reg_mutex_ok = True,
     ce_tm = tm_all_ok, ce_socket = \<lparr>se_fd = 3, se_connect = 0, se_bind = 0, se_listen = 0, se_setsockopt = 0\<rparr>\<rparr>"

lemma booted_ok:
  "initialize_server boot_env (\<lambda>_. sample_worker 0 0) (\<lambda>_. new_task_info 0 sample_block) (\<lambda>_. None) = (Some booted, [])"
  by (simp add: initialize_server_def booted_def boot_env_def worker_registry_create_def task_manager_create_def
      ring_buffer_create_def tm_all_ok_def create_server_socket_def MAX_WORKERS_def MAX_TASKS_def TASK_QUEUE_SIZE_def)

theorem no_task_ever_finishes_witness:
  "\<exists>m. cs_tasks (signal_handler (create_sample_task (Some sample_block) 5 booted)) = Some m \<and>
       (\<forall>ti \<in> set (recorded m). ti_status ti \<noteq> TASK_STATUS_COMPLETED \<and> ti_status ti \<noteq> TASK_STATUS_FAILED)"
  using no_task_ever_finishes[OF cs_reach.step[OF cs_reach.boot[OF booted_ok, of False "Some sample_block" 5] cs_step.signal]]
  by auto

text \<open>Dispatching, when the worker is known and idle and a task is waiting: the first task of the queue
  leaves it, is recorded as assigned to the worker, and its message goes to the worker's socket. If
  the whole message is accepted the call returns 0 and the worker is BUSY; otherwise it returns -1 and the
  worker is IDLE again, but the task stays assigned and is not queued again.\<close>

theorem dispatch_one_task:
  assumes "srv_inv s" and "cs_registry s = Some reg" and "cs_tasks s = Some m"
    and "worker_registry_get (Some reg) wid = Some i" and "wi_status (registered reg ! i) = WORKER_STATUS_IDLE"
    and "pending m = task # rest" and "t_task_id task \<noteq> 0"
  shows "\<exists>r out reg' m'. assign_task_to_worker be ws now wid s =
       ((r, s\<lparr>cs_registry := Some reg', cs_tasks := Some m'\<rparr>), [Sent (wi_sockfd (registered reg ! i)) out]) \<and>
     send_message be ws (task_message be task) = (r, out) \<and> pending m' = rest \<and>
     lookup_key info_id (t_task_id task) (recorded m') =
       map_option (mark_assigned now wid) (lookup_key info_id (t_task_id task) (recorded m)) \<and>
     lookup_key info_id (t_task_id task) (recorded m) \<noteq> None \<and>
     map_option wi_status (lookup_key wi_worker_id wid (registered reg')) =
       Some (if r = 0 then WORKER_STATUS_BUSY else WORKER_STATUS_IDLE)"
proof -
  let ?k = "t_task_id task"
  have w0: "wid \<noteq> 0" and fw: "find_worker reg wid = Some i"
    using assms(4) by (auto simp: worker_registry_get_def split: if_splits)
  have ti: "tm_inv m" and sub: "set (pending m) \<subseteq> ti_task ` set (recorded m)"
    using assms(1,3) by (auto simp: srv_inv_def tm_ok_def)
  obtain m1 where g: "task_manager_get_next_task None [] (Some m) 0 = Some (Some task, Some m1)"
    and r1: "recorded m1 = recorded m" and p1: "pending m1 = rest"
    using get_next_nonblocking[OF ti, of None "[]"] assms(6) by auto
  obtain q m2 where a: "task_manager_assign_task now (Some m1) ?k wid = (q, Some m2)" using assign_total by blast
  have known: "?k \<in> info_id ` set (recorded m1)" using sub assms(6) r1 by auto
  have q0: "q = 0"
    using tm_assign.upd_code[where now = now and wid = wid and k = ?k and t = "Some m1"] a known assms(7) w0
    by (simp add: opt_recorded_def)
  have l: "lookup_key info_id ?k (recorded m2) = map_option (mark_assigned now wid) (lookup_key info_id ?k (recorded m))"
    using tm_assign.lookup_upd_same[where now = now and wid = wid and k = ?k and t = "Some m1"] a assms(7) w0
    by (simp add: opt_recorded_def r1)
  have p2: "pending m2 = rest" using same_frame_tasks(2)[OF assign_frame[OF a]] p1 by simp
  obtain c out where snd: "send_message be ws (task_message be task) = (c, out)" by fastforce
  have c: "c = 0 \<or> c = -1"
    using write_loop_code[of ws "encode_message be ((task_message be task)\<lparr>header := net_header be (header (task_message be task))\<rparr>)"]
      snd by (simp add: send_message_def)
  obtain reg1 where b1: "snd (worker_registry_update_status (Some reg) wid WORKER_STATUS_BUSY) = Some reg1"
    using w0 fw by (simp add: worker_registry_update_status_def)
  obtain reg2 where b2: "snd (worker_registry_update_status (Some reg1) wid WORKER_STATUS_IDLE) = Some reg2"
    by (cases "find_worker reg1 wid"; cases "wid = 0") (simp_all add: worker_registry_update_status_def)
  have lw: "lookup_key wi_worker_id wid (registered reg) \<noteq> None"
    using fw by (simp add: lookup_key_def find_worker_def)
  have s1: "lookup_key wi_worker_id wid (registered reg1) =
      map_option (\<lambda>w. w\<lparr>wi_status := WORKER_STATUS_BUSY\<rparr>) (lookup_key wi_worker_id wid (registered reg))"
    using reg_status.lookup_upd_same[where k = wid and st = WORKER_STATUS_BUSY and t = "Some reg"] b1 w0
    by (simp add: opt_registered_def)
  have s2: "lookup_key wi_worker_id wid (registered reg2) =
      map_option (\<lambda>w. w\<lparr>wi_status := WORKER_STATUS_IDLE\<rparr>) (lookup_key wi_worker_id wid (registered reg1))"
    using reg_status.lookup_upd_same[where k = wid and st = WORKER_STATUS_IDLE and t = "Some reg1"] b2 w0
    by (simp add: opt_registered_def)
  have nth: "wr_workers reg ! i = registered reg ! i" by (rule registered_nth[OF find_worker_bound[OF fw]])
  have res: "assign_task_to_worker be ws now wid s =
      ((c, s\<lparr>cs_registry := Some (if c = 0 then reg1 else reg2), cs_tasks := Some m2\<rparr>),
       [Sent (wi_sockfd (registered reg ! i)) out])"
    using assms(2,3,4,5) g a q0 snd c b1 b2 nth by (auto simp: assign_task_to_worker_def Let_def)
  have known': "lookup_key info_id ?k (recorded m) \<noteq> None" using known by (simp add: lookup_key_None_iff r1)
  show ?thesis
    using res snd p2 l known' s1 s2 lw
    by (intro exI[of _ c] exI[of _ out] exI[of _ "if c = 0 then reg1 else reg2"] exI[of _ m2]) auto
qed

definition sample_server :: central_server where
  "sample_server = \<lparr>cs_running = True, cs_server_socket = 3, cs_registry = Some sample_registry,
     cs_tasks = snd (the (task_manager_create_task (Some sample_block) 5 (Some sample_manager) (Some [1, 2, 3]) 3))\<rparr>"

lemma sample_server_tasks:
  "\<exists>m. cs_tasks sample_server = Some m \<and> tm_ok (Some m) \<and> pending m = [init_task sample_block 1 [1, 2, 3]]"
proof -
  have "creatable (Some sample_block) 3 sample_manager"
    by (simp add: creatable_def sample_manager_facts MAX_DATA_SIZE_def)
  from create_task_success[OF sample_manager_facts(1) this, of "[1, 2, 3]" 5] obtain m where
    m: "task_manager_create_task (Some sample_block) 5 (Some sample_manager) (Some [1, 2, 3]) 3 = Some (1, Some m)"
    and p: "pending m = [init_task sample_block 1 [1, 2, 3]]" by (auto simp: sample_manager_facts)
  have "tm_ok (Some sample_manager)" using sample_manager_facts by (simp add: tm_ok_def)
  from tm_ok_create[OF this m] m p show ?thesis by (simp add: sample_server_def)
qed

lemma sample_server_inv: "srv_inv sample_server"
proof -
  have "reg_ok (cs_registry sample_server)"
    using sample_reg_inv by (simp add: reg_ok_def sample_server_def sample_registered sample_worker_def fresh_worker_def)
  then show ?thesis using sample_server_tasks by (auto simp: srv_inv_def)
qed

lemma sample_get_2: "worker_registry_get (Some sample_registry) 2 = Some 1"
  by (simp add: worker_registry_get_def find_worker_def sample_registered sample_worker_def fresh_worker_def)

theorem dispatch_one_task_witness:
  "\<exists>r out reg' m'. assign_task_to_worker False [] 9 2 sample_server =
       ((r, sample_server\<lparr>cs_registry := Some reg', cs_tasks := Some m'\<rparr>), [Sent 6 out]) \<and> pending m' = []"
proof -
  obtain m where m: "cs_tasks sample_server = Some m" and p: "pending m = [init_task sample_block 1 [1, 2, 3]]"
    using sample_server_tasks by blast
  have "cs_registry sample_server = Some sample_registry" by (simp add: sample_server_def)
  from dispatch_one_task[OF sample_server_inv this m sample_get_2 _ p, of False "[]" 9] show ?thesis
    by (auto simp: sample_registered sample_worker_def fresh_worker_def init_task_def)
qed

text \<open>A worker that is not idle is never given a task and never becomes idle again: whatever its next
  message is, one iteration of its thread leaves the tasks and the status of every worker as they
  were. In particular a result it reports does not free it.\<close>

theorem busy_worker_starves:
  assumes "cs_registry s = Some reg" and "lookup_key wi_worker_id wid (registered reg) = Some w"
    and "wi_status w \<noteq> WORKER_STATUS_IDLE"
    and "worker_iteration be e wid fd es s = ((go, es', s'), io)"
  shows "cs_tasks s' = cs_tasks s \<and>
         map wi_status (opt_registered (cs_registry s')) = map wi_status (registered reg)"
proof -
  have no: "assign_if_pending be ws now wid s1 = (s1, [])"
    if r1: "cs_registry s1 = Some reg1" and st: "map_option wi_status (lookup_key wi_worker_id wid (registered reg1)) = Some (wi_status w)"
    for ws now s1 reg1
  proof (cases "worker_registry_get (cs_registry s1) wid")
    case None
    then show ?thesis by (simp add: assign_if_pending_def assign_task_to_worker_def)
  next
    case (Some i)
    then have fw: "find_worker reg1 wid = Some i" by (auto simp: worker_registry_get_def r1 split: if_splits)
    then have "wi_status (wr_workers reg1 ! i) = wi_status w"
      using st registered_nth[OF find_worker_bound[OF fw]] by (simp add: lookup_key_def find_worker_def)
    then show ?thesis using Some assms(3) by (simp add: assign_if_pending_def assign_task_to_worker_def r1)
  qed
  let ?b = "worker_registry_update_heartbeat (ie_now e) (Some reg) wid"
  obtain reg1 where b: "snd ?b = Some reg1"
    by (cases "find_worker reg wid"; cases "wid = 0") (simp_all add: worker_registry_update_heartbeat_def)
  have beat: "map wi_status (registered reg1) = map wi_status (registered reg)"
    using b registered_nth[of _ reg]
    by (auto simp: worker_registry_update_heartbeat_def registered_update map_update_same_key
        split: if_splits option.splits dest!: find_worker_bound)
  have "wid \<noteq> 0 \<Longrightarrow> lookup_key wi_worker_id wid (registered reg1) =
      map_option (\<lambda>w. w\<lparr>wi_last_heartbeat := ie_now e\<rparr>) (lookup_key wi_worker_id wid (registered reg))"
    using reg_beat.lookup_upd_same[where k = wid and now = "ie_now e" and t = "Some reg"] b
    by (simp add: opt_registered_def)
  moreover have "wid = 0 \<Longrightarrow> reg1 = reg" using b by (simp add: worker_registry_update_heartbeat_def)
  ultimately have st1: "map_option wi_status (lookup_key wi_worker_id wid (registered reg1)) = Some (wi_status w)"
    using assms(2) by (cases "wid = 0") auto
  have h: "cs_registry (fst (handle_worker_heartbeat be ws (ie_now e) wid fd s)) = Some reg1 \<and>
      cs_tasks (fst (handle_worker_heartbeat be ws (ie_now e) wid fd s)) = cs_tasks s" for ws
    using b assms(1) by (auto simp: handle_worker_heartbeat_def split: prod.splits)
  note no1 = no[OF conjunct1[OF h] st1]
  have no0: "assign_if_pending be ws now wid s = (s, [])" for ws now
    using no[OF assms(1)] assms(2) by simp
  have "s' = s \<or> s' = fst (handle_worker_heartbeat be (ie_ws1 e) (ie_now e) wid fd s)"
    using assms(4) no0 no1
    by (auto simp: worker_iteration_def handle_task_result_noop case_prod_beta split: if_splits option.splits)
  then show ?thesis
    using assms(1) h[of "ie_ws1 e"] beat by (elim disjE) (simp_all add: opt_registered_def)
qed

definition busy_server :: central_server where
  "busy_server = sample_server\<lparr>cs_registry := snd (worker_registry_update_status (Some sample_registry) 2 WORKER_STATUS_BUSY)\<rparr>"

theorem busy_worker_starves_witness:
  "\<exists>s' io. worker_iteration False \<lparr>ie_now = 50, ie_ws1 = [], ie_ws2 = []\<rparr> 2 6 [Bytes [81, 0, 0, 0, 2, 0, 0, 0]] busy_server =
     ((True, [], s'), io) \<and> cs_tasks s' = cs_tasks busy_server \<and>
     map wi_status (opt_registered (cs_registry s')) = [WORKER_STATUS_IDLE, WORKER_STATUS_BUSY]"
proof -
  obtain reg where r: "cs_registry busy_server = Some reg"
    and reg: "registered reg = [sample_worker 1 5, (sample_worker 2 6)\<lparr>wi_status := WORKER_STATUS_BUSY\<rparr>]"
    by (simp add: busy_server_def worker_registry_update_status_def find_worker_def sample_registered
        sample_worker_def fresh_worker_def registered_update)
       (simp add: sample_registry_def sample_worker_def fresh_worker_def)
  have l: "lookup_key wi_worker_id 2 (registered reg) = Some ((sample_worker 2 6)\<lparr>wi_status := WORKER_STATUS_BUSY\<rparr>)"
    by (simp add: reg lookup_key_def sample_worker_def fresh_worker_def)
  obtain go es' s' io where it: "worker_iteration False \<lparr>ie_now = 50, ie_ws1 = [], ie_ws2 = []\<rparr> 2 6 [Bytes [81, 0, 0, 0, 2, 0, 0, 0]] busy_server =
     ((go, es', s'), io)" by (metis prod.collapse)
  have "go \<and> es' = []"
    using it by (auto simp: worker_iteration_def recv_header_def header_size_def decode_header_def bytes_u32_def Let_def
        handle_task_result_noop recv_payload_def task_result_size_def split: prod.splits if_splits)
  then show ?thesis
    using busy_worker_starves[OF r l _ it] it by (auto simp: reg sample_worker_def fresh_worker_def)
qed

text \<open>C6: The registration message of a worker (type REGISTER, identifier 0, empty body) never registers
  it, however the stream is fragmented and whatever follows. On a little-endian host the accept loop
  closes the connection, because the type is not converted; on a big-endian host it starts a
  worker thread, which reads its own registration header out of the body of the same message, finds type 0 and
  closes the connection.\<close>

theorem worker_registration_refused:
  assumes "send_message be ws (plain_message MSG_TYPE_REGISTER 0) = (0, out)" and "concat cs = out @ rest"
    and "\<forall>c \<in> set cs. c \<noteq> []" and "0 \<le> fd"
  shows "if be
    then \<exists>es' es''. accept_iteration be True True fd (stream cs) = ((Some WorkerHandler, es'), []) \<and>
           (\<forall>e tid s. worker_thread_start be e tid fd es' s = ((0, es'', s), [Closed fd]))
    else \<exists>es'. accept_iteration be True True fd (stream cs) = ((None, es'), [Closed fd])"
proof -
  have h: "header (plain_message MSG_TYPE_REGISTER 0) = \<lparr>message_type = 70, client_id = 0\<rparr>"
    and b: "body (plain_message MSG_TYPE_REGISTER 0) = zero_body" by (simp_all add: plain_message_def)
  obtain cs' where r: "recv_header be (stream cs) = ((0, Some \<lparr>message_type = htonl be 70, client_id = 0\<rparr>), stream cs')"
    and rest: "concat cs' = zero_body @ rest" and ne: "\<forall>c \<in> set cs'. c \<noteq> []"
    using recv_header_stream[OF assms(1-3)] by (auto simp: h b)
  show ?thesis
  proof (cases be)
    case False
    have "htonl False 70 \<noteq> 70" by (simp add: htonl_def bswap32_def bytes_u32_def u32_bytes_def Let_def)
    then show ?thesis using False r assms(4) by (simp add: accept_iteration_def)
  next
    case True
    have "8 \<le> length (concat cs')" by (simp add: rest body_size_def)
    from recv_bytes_stream[OF ne this, of "[]"] obtain cs'' where
      "recv_bytes 8 (stream cs') = (Some (take 8 (concat cs')), stream cs'')" by auto
    moreover have "take 8 (concat cs') = replicate 8 0"
      by (simp add: rest zero_body_def body_size_def)
    ultimately have "recv_header be (stream cs') = ((0, Some (decode_header be (replicate 8 0))), stream cs'')"
      by (simp add: recv_header_def header_size_def)
    moreover have "message_type (decode_header be (replicate 8 0)) = 0"
      by (simp add: decode_header_def bytes_u32_def Let_def numeral_eq_Suc)
    ultimately have "\<forall>e tid s. worker_thread_start be e tid fd (stream cs') s = ((0, stream cs'', s), [Closed fd])"
      by (simp add: worker_thread_start_def)
    moreover have "accept_iteration be True True fd (stream cs) = ((Some WorkerHandler, stream cs'), [])"
      using True r assms(4) by (simp add: accept_iteration_def htonl_def)
    ultimately show ?thesis using True by auto
  qed
qed

lemma register_sent:
  "send_message be [2000] (plain_message MSG_TYPE_REGISTER 0) =
     (0, encode_message be \<lparr>header = net_header be \<lparr>message_type = 70, client_id = 0\<rparr>, body = zero_body\<rparr>)"
proof -
  let ?e = "encode_message be \<lparr>header = net_header be \<lparr>message_type = 70, client_id = 0\<rparr>, body = zero_body\<rparr>"
  have l: "length ?e = 1040" by (simp add: header_size_def body_size_def)
  then obtain b bs where e: "?e = b # bs" by (cases ?e) auto
  with l have "write_loop [2000] ?e = (0, ?e)" by (simp add: Let_def)
  then show ?thesis by (simp add: send_message_def plain_message_def)
qed

theorem worker_registration_refused_witness:
  "\<exists>es'. accept_iteration False True True 7
     [Bytes (encode_message False \<lparr>header = net_header False \<lparr>message_type = 70, client_id = 0\<rparr>, body = zero_body\<rparr>)] =
     ((None, es'), [Closed 7])"
proof -
  let ?e = "encode_message False \<lparr>header = net_header False \<lparr>message_type = 70, client_id = 0\<rparr>, body = zero_body\<rparr>"
  have "length ?e = 1040" by (simp add: header_size_def body_size_def)
  then have "?e \<noteq> []" by (metis list.size(3) zero_neq_numeral)
  then have "\<forall>c \<in> set [?e]. c \<noteq> []" by simp
  with worker_registration_refused[OF register_sent, of "[?e]" False "[]" 7] show ?thesis by simp
qed

text \<open>If the registration response cannot be sent, the worker is taken out of the registry again, which
  closes its socket, and then the handler thread closes the same descriptor a second time.\<close>

theorem failed_registration_closes_twice:
  assumes "srv_inv s" and "cs_registry s = Some reg" and "wr_count reg < wr_capacity reg"
    and "wr_count reg + 1 \<notin> set (worker_ids reg)" and "0 \<le> fd"
    and "recv_header be es = ((0, Some h), es')" and "message_type h = msg_code MSG_TYPE_REGISTER"
    and "fst (send_message be (ie_ws1 e) (reg_response_message be (wr_count reg + 1))) < 0"
  shows "\<exists>out reg'. worker_thread_start be e tid fd es s =
           ((0, es', s\<lparr>cs_registry := Some reg'\<rparr>), [Sent fd out, Closed fd, Closed fd]) \<and>
           registered reg' = registered reg"
proof -
  have inv: "reg_inv reg" using assms(1,2) by (simp add: srv_inv_def reg_ok_def)
  let ?k = "wr_count reg + 1"
  let ?w = "fresh_worker (ie_now e) ?k fd tid"
  have k0: "?k \<noteq> 0"
    using assms(3) unat_Suc_below[of "wr_count reg" "wr_capacity reg"]
    by (metis One_nat_def add_is_0 unsigned_0 word_less_nat_alt zero_neq_one)
  obtain reg1 where add: "worker_registry_add (ie_now e) (Some reg) fd tid = (?k, Some reg1)"
    and i1: "reg_inv reg1" and r1: "registered reg1 = registered reg @ [?w]"
    using add_success[OF inv assms(3,5)] by blast
  have fw: "find_worker reg1 ?k = Some (length (registered reg))"
    unfolding find_worker_def r1 using assms(4)
    by (intro find_slot_SomeI) (auto simp: nth_append fresh_worker_def, metis imageI nth_mem)
  from remove_success[OF i1 k0 fw] obtain reg2 where
    rem: "worker_registry_remove (Some reg1) ?k = ((0, Some reg2), [fd])"
    and r2: "registered reg2 = delete_at (length (registered reg)) (registered reg1)"
    using assms(5) by (auto simp: r1 fresh_worker_def)
  obtain c out where snd: "send_message be (ie_ws1 e) (reg_response_message be ?k) = (c, out)" by fastforce
  have "worker_thread_start be e tid fd es s =
      ((0, es', s\<lparr>cs_registry := Some reg2\<rparr>), [Sent fd out, Closed fd, Closed fd])"
    using assms(2,6,7,8) add rem k0 snd by (simp add: worker_thread_start_def handle_worker_registration_def)
  moreover have "registered reg2 = registered reg" by (simp add: r2 r1 delete_at_def)
  ultimately show ?thesis by blast
qed

theorem failed_registration_closes_twice_witness:
  "\<exists>out reg'. worker_thread_start True \<lparr>ie_now = 1, ie_ws1 = [], ie_ws2 = []\<rparr> 0 9 [Bytes [0, 0, 0, 70, 0, 0, 0, 0]] sample_server =
     ((0, [], sample_server\<lparr>cs_registry := Some reg'\<rparr>), [Sent 9 out, Closed 9, Closed 9])"
proof -
  let ?e = "\<lparr>ie_now = 1, ie_ws1 = [], ie_ws2 = []\<rparr>"
  have r: "cs_registry sample_server = Some sample_registry" by (simp add: sample_server_def)
  have c: "wr_count sample_registry < wr_capacity sample_registry" and n: "wr_count sample_registry + 1 = 3"
    by (simp_all add: sample_registry_def)
  have ids: "wr_count sample_registry + 1 \<notin> set (worker_ids sample_registry)"
    unfolding n by (simp add: sample_registered sample_worker_def fresh_worker_def)
  have h: "recv_header True [Bytes [0, 0, 0, 70, 0, 0, 0, 0]] = ((0, Some \<lparr>message_type = 70, client_id = 0\<rparr>), [])"
    by (simp add: recv_header_def header_size_def decode_header_def bytes_u32_def Let_def)
  have "length (encode_message True ((reg_response_message True 3)\<lparr>header := net_header True (header (reg_response_message True 3))\<rparr>)) > 0"
    by (simp add: header_size_def)
  then have "fst (send_message True (ie_ws1 ?e) (reg_response_message True (wr_count sample_registry + 1))) < 0"
    unfolding n by (cases "encode_message True ((reg_response_message True 3)\<lparr>header := net_header True (header (reg_response_message True 3))\<rparr>)")
      (simp_all add: send_message_def)
  from failed_registration_closes_twice[OF sample_server_inv r c ids _ h _ this, of 9 0] show ?thesis by auto
qed

text \<open>A task message carries 1024 data bytes whatever the size of the input: the announced input, then
  the bytes the allocated block happened to hold, and the announced data size is always 1024.\<close>

theorem task_message_carries_heap_bytes:
  assumes "length (t_input_data block) = 1024" and "length data \<le> 1024"
  shows "take 1024 (drop 4 (body (task_message be (init_task block k data)))) =
           data @ drop (length data) (t_input_data block) \<and>
         get_u32 be 1028 (body (task_message be (init_task block k data))) = 1024 \<and>
         length (body (task_message be (init_task block k data))) = body_size"
  using assms
  by (simp add: task_message_def init_task_def set_bytes_def MAX_DATA_SIZE_def set_u32_def get_u32_def
      zero_body_def body_size_def)

theorem task_message_carries_heap_bytes_witness:
  "take 1024 (drop 4 (body (task_message False (init_task sample_block 1 [1, 2, 3])))) = [1, 2, 3] @ replicate 1021 9"
  using task_message_carries_heap_bytes[of sample_block "[1, 2, 3]" False 1] by (simp add: sample_block_def)

end
