(* ===== verification/Worker_Server.thy ===== *)
theory Worker_Server
  imports Central_Server
begin

text \<open>
  The worker of the central server (\<open>worker_server/worker_server.c\<close>). Its globals are a record. Every
  function returns its value, the rest of the socket's input and a trace of what it did to the
  mutex and to the socket, in order. The two threads (the loop of \<open>main\<close> and the heartbeat
  thread) share the socket and its mutex: \<open>ws_step\<close> interleaves their critical sections, and lets
  input arrive, so that a read that has to wait blocks its thread while it holds the mutex.

  The theory shows when registration succeeds, which of the retries counts, what the reply of
  the central server does to it, that no received task is ever processed, where the mutex is released
  twice, and that a worker that waits for its server sends no heartbeat.
\<close>

section \<open>State\<close>

record worker_server =
  ws_running :: bool
  ws_server_socket :: int
  ws_worker_id :: u32

datatype ws_io = Locked | Unlocked | WSent "byte list" | WClosed int

record task_result_t =
  tr_task_id :: u32
  tr_status :: u32
  tr_exec_time_ms :: u32

definition worker_globals :: worker_server where
  "worker_globals = \<lparr>ws_running = True, ws_server_socket = -1, ws_worker_id = 0\<rparr>"

definition MAX_RECONNECT_ATTEMPTS :: nat where "MAX_RECONNECT_ATTEMPTS = 5"

section \<open>Connecting and registering\<close>

text \<open>
  \<open>run a\<close> is the value of \<open>worker_running\<close> before attempt \<open>a\<close>, \<open>env a\<close> what the socket calls of that attempt
  answer. The result is the descriptor and the descriptors that were closed.
\<close>

function connect_loop :: "(nat \<Rightarrow> bool) \<Rightarrow> (nat \<Rightarrow> socket_env) \<Rightarrow> nat \<Rightarrow> int \<times> int list" where
  "connect_loop run env attempts =
     (if attempts < MAX_RECONNECT_ATTEMPTS \<and> run attempts
      then (case create_client_socket (env attempts) of
              (sockfd, closed) \<Rightarrow>
                if sockfd \<ge> 0 then (sockfd, closed)
                else (case connect_loop run env (Suc attempts) of (r, closed') \<Rightarrow> (r, closed @ closed')))
      else (-1, []))"
  by pat_completeness auto
termination
  by (relation "measure (\<lambda>(_, _, a). MAX_RECONNECT_ATTEMPTS - a)") auto

declare connect_loop.simps [simp del]

definition connect_to_server :: "(nat \<Rightarrow> bool) \<Rightarrow> (nat \<Rightarrow> socket_env) \<Rightarrow> int \<times> int list" where
  "connect_to_server run env = connect_loop run env 0"

text \<open>
  The receive loop \<open>while (retries-- > 0)\<close>: the value of \<open>retries\<close> when the loop is left, and the header if
  it was left by \<open>break\<close>.
\<close>

function register_loop :: "bool \<Rightarrow> int \<Rightarrow> read_event list \<Rightarrow> (int \<times> MessageHeader option) \<times> read_event list" where
  "register_loop be retries es =
     (if retries > 0
      then (case recv_header be es of
              ((_, None), es') \<Rightarrow> register_loop be (retries - 1) es'
            | ((_, Some h), es') \<Rightarrow>
                if message_type h = msg_code MSG_TYPE_REGISTER_RESPONSE then ((retries - 1, Some h), es')
                else register_loop be (retries - 1) es')
      else ((retries - 1, None), es))"
  by pat_completeness auto
termination
  by (relation "measure (\<lambda>(_, r, _). nat r)") auto

declare register_loop.simps [simp del]

definition register_with_server ::
  "bool \<Rightarrow> int list \<Rightarrow> read_event list \<Rightarrow> worker_server \<Rightarrow> (int \<times> read_event list \<times> worker_server) \<times> ws_io list" where
  "register_with_server be ws es w =
     (case send_message be ws (plain_message MSG_TYPE_REGISTER 0) of
        (r, out) \<Rightarrow>
          if r < 0 then ((-1, es, w), [WSent out])
          else (case register_loop be 3 es of
                  ((retries, h), es') \<Rightarrow>
                    if retries \<le> 0 then ((-1, es', w), [WSent out])
                    else (case h of
                            None \<Rightarrow> ((-1, es', w), [WSent out])
                          | Some h \<Rightarrow> ((0, es', w\<lparr>ws_worker_id := client_id h\<rparr>), [WSent out]))))"

section \<open>Heartbeats and results\<close>

definition send_heartbeat ::
  "bool \<Rightarrow> int list \<Rightarrow> read_event list \<Rightarrow> worker_server \<Rightarrow> (int \<times> read_event list) \<times> ws_io list" where
  "send_heartbeat be ws es w =
     (case send_message be ws (plain_message MSG_TYPE_HEARTBEAT (ws_worker_id w)) of
        (r, out) \<Rightarrow>
          if r < 0 then ((-1, es), [Locked, WSent out, Unlocked])
          else (case recv_header be es of
                  ((_, None), es') \<Rightarrow> ((-1, es'), [Locked, WSent out, Unlocked])
                | ((_, Some h), es') \<Rightarrow>
                    if message_type h = msg_code MSG_TYPE_HEARTBEAT_RESPONSE
                    then ((0, es'), [Locked, WSent out, Unlocked])
                    else if message_type h = msg_code MSG_TYPE_TASK
                    then ((1, es'), [Locked, WSent out, Unlocked, Unlocked])
                    else ((-1, es'), [Locked, WSent out, Unlocked])))"

text \<open>The result is copied to the start of the body.\<close>

definition result_bytes :: "bool \<Rightarrow> task_result_t \<Rightarrow> byte list" where
  "result_bytes be r = u32_bytes be (tr_task_id r) @ u32_bytes be (tr_status r) @ u32_bytes be (tr_exec_time_ms r)"

definition result_message :: "bool \<Rightarrow> u32 \<Rightarrow> task_result_t \<Rightarrow> Message" where
  "result_message be wid r =
     \<lparr>header = \<lparr>message_type = msg_code MSG_TYPE_TASK_RESULT, client_id = wid\<rparr>,
      body = set_bytes 0 (result_bytes be r) zero_body\<rparr>"

definition send_task_result ::
  "bool \<Rightarrow> int list \<Rightarrow> read_event list \<Rightarrow> task_result_t \<Rightarrow> worker_server \<Rightarrow> (int \<times> read_event list) \<times> ws_io list" where
  "send_task_result be ws es result w =
     (case send_message be ws (result_message be (ws_worker_id w) result) of
        (r, out) \<Rightarrow>
          if r < 0 then ((-1, es), [Locked, WSent out, Unlocked])
          else (case recv_header be es of
                  ((_, None), es') \<Rightarrow> ((-1, es'), [Locked, WSent out, Unlocked])
                | ((_, Some h), es') \<Rightarrow>
                    if message_type h \<noteq> msg_code MSG_TYPE_RESULT_ACK
                    then ((-1, es'), [Locked, WSent out, Unlocked])
                    else ((0, es'), [Locked, WSent out, Unlocked])))"

section \<open>Processing a task\<close>

text \<open>A clock reading is a pair of seconds and nanoseconds; the division of C truncates.\<close>

type_synonym timespec = "int \<times> int"

definition elapsed_ms :: "timespec \<Rightarrow> timespec \<Rightarrow> int" where
  "elapsed_ms start_time end_time =
     (fst end_time - fst start_time) * 1000 + (snd end_time - snd start_time) sdiv 1000000"

definition process_task ::
  "timespec \<Rightarrow> timespec \<Rightarrow> u32 option \<Rightarrow> task_result_t option \<Rightarrow> int \<times> task_result_t option" where
  "process_task start_time end_time task_id result =
     (case (task_id, result) of
        (Some i, Some r) \<Rightarrow>
          (0, Some (r\<lparr>tr_task_id := i, tr_status := 0,
                      tr_exec_time_ms := word_of_int (elapsed_ms start_time end_time)\<rparr>))
      | _ \<Rightarrow> (-1, result))"

section \<open>The loop of the main function\<close>

text \<open>\<open>sizeof(task_t)\<close>: three 32-bit fields and two arrays of 1024 bytes.\<close>

definition task_size :: nat where "task_size = 2060"

text \<open>
  What one iteration needs: whether a failed read was interrupted by a signal, the clock before and after
  processing, the previous contents of the result object and the answers of \<open>write\<close>.
\<close>

record ws_env =
  we_eintr :: bool
  we_start :: timespec
  we_end :: timespec
  we_result :: task_result_t
  we_ws :: "int list"

text \<open>
  The part of an iteration that holds the mutex: how the iteration goes on, the rest of the input and
  the globals.
\<close>

datatype main_outcome = Break | Continue | Task u32

definition main_section ::
  "bool \<Rightarrow> bool \<Rightarrow> read_event list \<Rightarrow> worker_server \<Rightarrow> main_outcome \<times> read_event list \<times> worker_server" where
  "main_section be eintr es w =
     (case recv_header be es of
        ((_, None), es') \<Rightarrow> (if eintr then Continue else Break, es', w)
      | ((_, Some h), es') \<Rightarrow>
          if message_type h = msg_code MSG_TYPE_TASK
          then (case recv_payload task_size es' of
                  ((r, _), es2) \<Rightarrow> (if r \<noteq> int task_size then Continue else Task (client_id h), es2, w))
          else if message_type h = msg_code MSG_TYPE_SHUTDOWN
          then (Continue, es', w\<lparr>ws_running := False\<rparr>)
          else (Continue, es', w))"

definition task_outcome :: "ws_env \<Rightarrow> u32 \<Rightarrow> task_result_t" where
  "task_outcome e task_id =
     (case process_task (we_start e) (we_end e) (Some task_id) (Some (we_result e)) of
        (r, Some result) \<Rightarrow> if r \<noteq> 0 then result\<lparr>tr_status := 1\<rparr> else result
      | (r, None) \<Rightarrow> (we_result e)\<lparr>tr_status := 1\<rparr>)"

text \<open>One iteration: whether the loop goes on to its test, the rest of the input, the globals, the trace.\<close>

definition worker_main_iteration ::
  "bool \<Rightarrow> ws_env \<Rightarrow> read_event list \<Rightarrow> worker_server \<Rightarrow> (bool \<times> read_event list \<times> worker_server) \<times> ws_io list" where
  "worker_main_iteration be e es w =
     (case main_section be (we_eintr e) es w of
        (Break, es', w') \<Rightarrow> ((False, es', w'), [Locked, Unlocked])
      | (Continue, es', w') \<Rightarrow> ((True, es', w'), [Locked, Unlocked])
      | (Task task_id, es', w') \<Rightarrow>
          (case send_task_result be (we_ws e) es' (task_outcome e task_id) w' of
             ((_, es2), io) \<Rightarrow> ((True, es2, w'), [Locked, Unlocked] @ io)))"

definition worker_signal_handler :: "worker_server \<Rightarrow> worker_server" where
  "worker_signal_handler w = w\<lparr>ws_running := False\<rparr>"

text \<open>
  \<open>main\<close> before its loop: whether it is reached, and after it. \<open>ws\<close> are the answers of \<open>write\<close> for the
  registration message.
\<close>

definition worker_start_up ::
  "bool \<Rightarrow> bool \<Rightarrow> (nat \<Rightarrow> bool) \<Rightarrow> (nat \<Rightarrow> socket_env) \<Rightarrow> bool \<Rightarrow> int list \<Rightarrow> read_event list \<Rightarrow> worker_server
   \<Rightarrow> (bool \<times> read_event list \<times> worker_server) \<times> ws_io list" where
  "worker_start_up be logger_ok run env thread_ok ws es w =
     (if \<not> logger_ok then ((False, es, w), [])
      else (case connect_to_server run env of
              (sockfd, closed) \<Rightarrow>
                let w1 = w\<lparr>ws_server_socket := sockfd\<rparr>; io = map WClosed closed in
                if sockfd < 0 then ((False, es, w1), io)
                else (case register_with_server be ws es w1 of
                        ((r, es', w2), io2) \<Rightarrow>
                          if r \<noteq> 0 then ((False, es', w2), io @ io2 @ [WClosed sockfd])
                          else if \<not> thread_ok then ((False, es', w2), io @ io2 @ [WClosed sockfd])
                          else ((True, es', w2), io @ io2))))"

definition worker_shut_down :: "worker_server \<Rightarrow> worker_server \<times> ws_io list" where
  "worker_shut_down w =
     (if ws_server_socket w \<ge> 0 then (w\<lparr>ws_server_socket := -1\<rparr>, [WClosed (ws_server_socket w)]) else (w, []))"

section \<open>The two threads\<close>

text \<open>
  A read of \<open>n\<close> bytes has to wait if the bytes that have arrived do not suffice and none of them is an error
  or the end of the stream (an empty run).
\<close>

fun would_block :: "nat \<Rightarrow> read_event list \<Rightarrow> bool" where
  "would_block n [] = (n \<noteq> 0)"
| "would_block n (ReadError # es) = False"
| "would_block n (Bytes bs # es) = (n \<noteq> 0 \<and> bs \<noteq> [] \<and> length bs \<le> n \<and> would_block (n - length bs) es)"

text \<open>An iteration waits for a header and, after the header of a task, for its payload.\<close>

definition main_waits :: "bool \<Rightarrow> read_event list \<Rightarrow> bool" where
  "main_waits be es =
     (would_block header_size es \<or>
      (case recv_header be es of
         ((_, Some h), es') \<Rightarrow> message_type h = msg_code MSG_TYPE_TASK \<and> would_block task_size es'
       | _ \<Rightarrow> False))"

datatype ws_thread = MainThread | HeartbeatThread

datatype main_pc = MainTest | MainLock | MainReading | MainReport u32 | MainAwaitAck | MainEnded

datatype beat_pc = BeatTest | BeatLock | BeatAwait | BeatSecondUnlock | BeatEnded

record ws_sys =
  wy_globals :: worker_server
  wy_mutex :: "ws_thread option"
  wy_main :: main_pc
  wy_beat :: beat_pc
  wy_in :: "read_event list"
  wy_out :: "byte list list"
  wy_bad_unlock :: bool

text \<open>
  The steps of the two threads and of the signal. A step that would block, on the mutex or in a read, is
  not enabled. \<open>wy_bad_unlock\<close> records that a thread released the mutex without holding it, which is
  undefined; what follows it in a run has no meaning for the program.
\<close>

inductive ws_step :: "bool \<Rightarrow> ws_sys \<Rightarrow> ws_sys \<Rightarrow> bool" for be where
  main_test: "wy_main s = MainTest \<Longrightarrow> ws_running (wy_globals s) \<Longrightarrow>
    ws_step be s (s\<lparr>wy_main := MainLock\<rparr>)"
| main_lock: "wy_main s = MainLock \<Longrightarrow> wy_mutex s = None \<Longrightarrow>
    ws_step be s (s\<lparr>wy_main := MainReading, wy_mutex := Some MainThread\<rparr>)"
| main_leave: "wy_main s = MainTest \<Longrightarrow> \<not> ws_running (wy_globals s) \<Longrightarrow>
    ws_step be s (s\<lparr>wy_main := MainEnded\<rparr>)"
| main_read: "wy_main s = MainReading \<Longrightarrow> \<not> main_waits be (wy_in s) \<Longrightarrow>
    main_section be eintr (wy_in s) (wy_globals s) = (oc, es, w) \<Longrightarrow>
    ws_step be s (s\<lparr>wy_main := (case oc of Break \<Rightarrow> MainEnded | Continue \<Rightarrow> MainTest | Task i \<Rightarrow> MainReport i),
                    wy_mutex := None, wy_in := es, wy_globals := w\<rparr>)"
| main_report: "wy_main s = MainReport i \<Longrightarrow> wy_mutex s = None \<Longrightarrow>
    send_message be ws (result_message be (ws_worker_id (wy_globals s)) (task_outcome e i)) = (r, out) \<Longrightarrow>
    ws_step be s (s\<lparr>wy_main := (if r < 0 then MainTest else MainAwaitAck),
                    wy_mutex := (if r < 0 then None else Some MainThread), wy_out := wy_out s @ [out]\<rparr>)"
| main_ack: "wy_main s = MainAwaitAck \<Longrightarrow> \<not> would_block header_size (wy_in s) \<Longrightarrow>
    ws_step be s (s\<lparr>wy_main := MainTest, wy_mutex := None, wy_in := snd (recv_header be (wy_in s))\<rparr>)"
| beat_test: "wy_beat s = BeatTest \<Longrightarrow> ws_running (wy_globals s) \<Longrightarrow>
    ws_step be s (s\<lparr>wy_beat := BeatLock\<rparr>)"
| beat_send: "wy_beat s = BeatLock \<Longrightarrow> wy_mutex s = None \<Longrightarrow>
    send_message be ws (plain_message MSG_TYPE_HEARTBEAT (ws_worker_id (wy_globals s))) = (r, out) \<Longrightarrow>
    ws_step be s (s\<lparr>wy_beat := (if r < 0 then BeatTest else BeatAwait),
                    wy_mutex := (if r < 0 then None else Some HeartbeatThread), wy_out := wy_out s @ [out]\<rparr>)"
| beat_answer: "wy_beat s = BeatAwait \<Longrightarrow> \<not> would_block header_size (wy_in s) \<Longrightarrow>
    recv_header be (wy_in s) = ((r, h), es) \<Longrightarrow>
    ws_step be s (s\<lparr>wy_beat := (if \<exists>x. h = Some x \<and> message_type x = msg_code MSG_TYPE_TASK
                                 then BeatSecondUnlock else BeatTest),
                    wy_mutex := None, wy_in := es\<rparr>)"
| beat_second_unlock: "wy_beat s = BeatSecondUnlock \<Longrightarrow>
    ws_step be s (s\<lparr>wy_beat := BeatTest, wy_bad_unlock := True\<rparr>)"
| beat_leave: "wy_beat s = BeatTest \<Longrightarrow> \<not> ws_running (wy_globals s) \<Longrightarrow>
    ws_step be s (s\<lparr>wy_beat := BeatEnded\<rparr>)"
| beat_cancel: "wy_main s = MainEnded \<Longrightarrow> ws_step be s (s\<lparr>wy_beat := BeatEnded\<rparr>)"
| signal: "ws_step be s (s\<lparr>wy_globals := worker_signal_handler (wy_globals s)\<rparr>)"

text \<open>The network appends to the input.\<close>

inductive ws_run :: "bool \<Rightarrow> ws_sys \<Rightarrow> ws_sys \<Rightarrow> bool" for be where
  run_refl: "ws_run be s s"
| run_step: "ws_run be s t \<Longrightarrow> ws_step be t u \<Longrightarrow> ws_run be s u"
| run_arrive: "ws_run be s t \<Longrightarrow> ws_run be s (t\<lparr>wy_in := wy_in t @ [ev]\<rparr>)"

definition ws_initial :: "worker_server \<Rightarrow> read_event list \<Rightarrow> ws_sys" where
  "ws_initial w es = \<lparr>wy_globals = w, wy_mutex = None, wy_main = MainTest, wy_beat = BeatTest,
                      wy_in = es, wy_out = [], wy_bad_unlock = False\<rparr>"

section \<open>Lemmas\<close>

lemma main_section_no_task: "fst (main_section be eintr es w) \<noteq> Task i"
proof -
  have "fst (fst (recv_payload task_size es')) \<noteq> int task_size" for es'
    using recv_payload_code[of task_size es'] by (auto simp: task_size_def)
  then show ?thesis
    by (simp add: main_section_def case_prod_beta split: option.split)
qed

lemma recv_header_code:
  "recv_header be es = ((r, h), es') \<Longrightarrow> r = (if h = None then -1 else 0)"
  by (auto simp: recv_header_def split: option.splits prod.splits)

inductive_cases ws_stepE: "ws_step be s t"

text \<open>
  Who holds the mutex, as long as no thread released it without holding it: main while it reads or awaits an
  acknowledgment, the heartbeat thread while it awaits an answer, unless it was cancelled there.
\<close>

definition mutex_inv :: "ws_sys \<Rightarrow> bool" where
  "mutex_inv s \<longleftrightarrow>
     ((wy_main s = MainReading \<or> wy_main s = MainAwaitAck) \<longleftrightarrow> wy_mutex s = Some MainThread) \<and>
     (wy_beat s = BeatAwait \<longrightarrow> wy_mutex s = Some HeartbeatThread) \<and>
     (\<forall>i. wy_main s \<noteq> MainReport i)"

lemma ws_step_mutex_inv: "ws_step be s t \<Longrightarrow> mutex_inv s \<Longrightarrow> mutex_inv t"
proof (induction rule: ws_step.induct)
  case (main_read s eintr oc es w)
  then have "oc \<noteq> Task i" for i using main_section_no_task[of be eintr "wy_in s" "wy_globals s" i] by simp
  then show ?case using main_read by (cases oc) (auto simp: mutex_inv_def)
qed (auto simp: mutex_inv_def)

lemma mutex_inv_arrive [simp]: "mutex_inv (s\<lparr>wy_in := es\<rparr>) = mutex_inv s"
  by (simp add: mutex_inv_def)

lemma ws_run_mutex_inv: "ws_run be s t \<Longrightarrow> mutex_inv s \<Longrightarrow> mutex_inv t"
  by (induction rule: ws_run.induct) (simp_all add: ws_step_mutex_inv)

text \<open>While main waits for a message, the heartbeat thread cannot send.\<close>

lemma ws_step_waiting:
  assumes "ws_step be s t" and "mutex_inv s" and "wy_main s = MainReading" and "main_waits be (wy_in s)"
  shows "wy_main t = MainReading \<and> wy_in t = wy_in s \<and> wy_out t = wy_out s"
  using assms by (cases rule: ws_stepE) (auto simp: mutex_inv_def)

lemma ws_steps_waiting:
  assumes "(ws_step be)\<^sup>*\<^sup>* s t" and "mutex_inv s" and "wy_main s = MainReading" and "main_waits be (wy_in s)"
  shows "mutex_inv t \<and> wy_main t = MainReading \<and> wy_in t = wy_in s \<and> wy_out t = wy_out s"
  using assms
proof (induction rule: rtranclp_induct)
  case (step t u)
  then show ?case using ws_step_waiting[of be t u] ws_step_mutex_inv[of be t u] by auto
qed simp

text \<open>Everything that is ever sent after the registration is a heartbeat, or the beginning of one.\<close>

definition only_heartbeats :: "bool \<Rightarrow> u32 \<Rightarrow> ws_sys \<Rightarrow> bool" where
  "only_heartbeats be wid s \<longleftrightarrow>
     ws_worker_id (wy_globals s) = wid \<and>
     (\<forall>out \<in> set (wy_out s). \<exists>ws. out = snd (send_message be ws (plain_message MSG_TYPE_HEARTBEAT wid)))"

lemma main_section_worker_id: "main_section be eintr es w = (oc, es', w') \<Longrightarrow> ws_worker_id w' = ws_worker_id w"
  by (auto simp: main_section_def split: prod.splits option.splits if_splits)

lemma ws_step_only_heartbeats:
  "ws_step be s t \<Longrightarrow> mutex_inv s \<Longrightarrow> only_heartbeats be wid s \<Longrightarrow> only_heartbeats be wid t"
proof (induction rule: ws_step.induct)
  case (beat_send s ws r out)
  then have "out = snd (send_message be ws (plain_message MSG_TYPE_HEARTBEAT wid))"
    by (simp add: only_heartbeats_def)
  then show ?case using beat_send by (auto simp: only_heartbeats_def)
next
  case (main_read s eintr oc es w)
  then show ?case using main_section_worker_id[OF main_read(3)] by (simp add: only_heartbeats_def)
qed (auto simp: mutex_inv_def only_heartbeats_def worker_signal_handler_def)

lemma ws_run_only_heartbeats:
  "ws_run be s t \<Longrightarrow> mutex_inv s \<Longrightarrow> only_heartbeats be wid s \<Longrightarrow> only_heartbeats be wid t"
proof (induction rule: ws_run.induct)
  case (run_step s t u)
  then show ?case using ws_step_only_heartbeats ws_run_mutex_inv by blast
qed (auto simp: only_heartbeats_def)

lemma mutex_inv_initial: "mutex_inv (ws_initial w es)"
  by (simp add: mutex_inv_def ws_initial_def)

section \<open>Properties\<close>


abbreviation idle_worker :: ws_sys where
  "idle_worker \<equiv> (ws_initial worker_globals [])\<lparr>wy_main := MainReading, wy_mutex := Some MainThread\<rparr>"

lemma idle_worker_run: "ws_run False (ws_initial worker_globals []) idle_worker"
proof -
  let ?i = "ws_initial worker_globals []"
  have "ws_step False ?i (?i\<lparr>wy_main := MainLock\<rparr>)"
    by (rule main_test) (simp_all add: ws_initial_def worker_globals_def)
  moreover have "ws_step False (?i\<lparr>wy_main := MainLock\<rparr>)
      (?i\<lparr>wy_main := MainLock, wy_main := MainReading, wy_mutex := Some MainThread\<rparr>)"
    by (rule main_lock) (simp_all add: ws_initial_def)
  ultimately have "ws_run False ?i (?i\<lparr>wy_main := MainLock, wy_main := MainReading, wy_mutex := Some MainThread\<rparr>)"
    by (meson run_refl run_step)
  then show ?thesis by simp
qed


text \<open>Whatever the server sends, the only messages a registered worker ever sends are heartbeats with its
  identifier (or, when writing fails, the beginning of one): a received task is never processed and no
  result is ever reported.\<close>

theorem worker_sends_only_heartbeats:
  assumes "ws_run be (ws_initial w es) s" and "out \<in> set (wy_out s)"
  shows "\<exists>ws. out = snd (send_message be ws (plain_message MSG_TYPE_HEARTBEAT (ws_worker_id w)))"
  using ws_run_only_heartbeats[OF assms(1) mutex_inv_initial, of "ws_worker_id w"] assms(2)
  by (simp add: only_heartbeats_def ws_initial_def)

abbreviation beating_worker :: ws_sys where
  "beating_worker \<equiv> (ws_initial worker_globals [])\<lparr>wy_beat := BeatAwait, wy_mutex := Some HeartbeatThread,
     wy_out := [snd (send_message False [1040] (plain_message MSG_TYPE_HEARTBEAT 0))]\<rparr>"

lemma beating_worker_run: "ws_run False (ws_initial worker_globals []) beating_worker"
proof -
  let ?i = "ws_initial worker_globals []"
  have "ws_step False ?i (?i\<lparr>wy_beat := BeatLock\<rparr>)"
    by (rule beat_test) (simp_all add: ws_initial_def worker_globals_def)
  moreover have "ws_step False (?i\<lparr>wy_beat := BeatLock\<rparr>) beating_worker"
    using beat_send[of "?i\<lparr>wy_beat := BeatLock\<rparr>" False "[1040]" 0] sent_in_one_write[of "plain_message MSG_TYPE_HEARTBEAT 0" False]
    by (simp add: ws_initial_def worker_globals_def prod_eq_iff)
  ultimately show ?thesis by (meson run_refl run_step)
qed

theorem worker_sends_only_heartbeats_witness:
  "\<exists>ws. hd (wy_out beating_worker) = snd (send_message False ws (plain_message MSG_TYPE_HEARTBEAT 0))"
  using worker_sends_only_heartbeats[OF beating_worker_run, of "hd (wy_out beating_worker)"]
  by (simp add: worker_globals_def)

definition is_register_response :: "(int \<times> MessageHeader option) \<times> read_event list \<Rightarrow> bool" where
  "is_register_response x =
     (case snd (fst x) of None \<Rightarrow> False | Some h \<Rightarrow> message_type h = msg_code MSG_TYPE_REGISTER_RESPONSE)"

lemma register_loop_unfold:
  "register_loop be retries es =
     (if retries > 0
      then let x = recv_header be es in
           if is_register_response x then ((retries - 1, snd (fst x)), snd x) else register_loop be (retries - 1) (snd x)
      else ((retries - 1, None), es))"
  by (subst register_loop.simps)
     (auto simp: is_register_response_def Let_def split: prod.splits option.splits)

lemma register_loop_3:
  "register_loop be 3 es =
     (let x1 = recv_header be es; x2 = recv_header be (snd x1); x3 = recv_header be (snd x2) in
      if is_register_response x1 then ((2, snd (fst x1)), snd x1)
      else if is_register_response x2 then ((1, snd (fst x2)), snd x2)
      else if is_register_response x3 then ((0, snd (fst x3)), snd x3)
      else ((-1, None), snd x3))"
  by (simp add: register_loop_unfold Let_def)

text \<open>Of the three attempts to receive the registration response only the first two count: registration
  succeeds exactly if the request was sent and the first or the second header received is a
  registration response. One that arrives third is reported as a failure.\<close>

theorem register_first_two_tries:
  "fst (fst (register_with_server be ws es w)) = 0 \<longleftrightarrow>
     fst (send_message be ws (plain_message MSG_TYPE_REGISTER 0)) = 0 \<and>
     (is_register_response (recv_header be es) \<or>
      is_register_response (recv_header be (snd (recv_header be es))))"
  using send_message_code[of be ws "plain_message MSG_TYPE_REGISTER 0"]
  by (auto simp: register_with_server_def register_loop_3 Let_def is_register_response_def
      split: prod.splits option.splits)

section \<open>Registration with the central server\<close>

lemma recv_header_stream_at:
  assumes "\<forall>c \<in> set cs. c \<noteq> []" and "header_size \<le> length (concat cs)"
  shows "\<exists>cs'. recv_header be (stream cs) = ((0, Some (decode_header be (concat cs))), stream cs') \<and>
           concat cs' = drop header_size (concat cs) \<and> (\<forall>c \<in> set cs'. c \<noteq> [])"
proof -
  obtain cs' where "recv_bytes header_size (stream cs) = (Some (take header_size (concat cs)), stream cs')"
    "concat cs' = drop header_size (concat cs)" "\<forall>c \<in> set cs'. c \<noteq> []"
    using recv_bytes_stream[OF assms, of "[]"] by auto
  then show ?thesis
    by (intro exI[of _ cs']) (simp add: recv_header_def decode_header_def header_size_def min_def take_drop)
qed

text \<open>The three headers a worker reads out of the response of the central server.\<close>

definition reply_bytes :: "bool \<Rightarrow> u32 \<Rightarrow> byte list" where
  "reply_bytes be wid = u32_bytes be (htonl be 71) @ u32_bytes be wid @ u32_bytes be 1 @ replicate 1028 0"

lemma registration_reply_bytes:
  assumes "send_message be ws (reg_response_message be wid) = (0, out)"
  shows "out = reply_bytes be wid"
  using send_message_bytes[OF assms]
  by (simp add: reply_bytes_def reg_response_message_def set_u32_def set_bytes_def zero_body_def body_size_def)

lemma decode_zero_header: "message_type (decode_header be (replicate 1024 0)) \<noteq> 71"
proof -
  have "take 4 (replicate 1024 (0 :: byte)) = [0, 0, 0, 0]" by (simp add: numeral_eq_Suc)
  then show ?thesis by (simp add: decode_header_def bytes_u32_def Let_def)
qed

lemma reply_first_header:
  assumes "concat cs = reply_bytes be wid" and "\<forall>c \<in> set cs. c \<noteq> []"
  shows "\<exists>cs'. recv_header be (stream cs) = ((0, Some \<lparr>message_type = htonl be 71, client_id = wid\<rparr>), stream cs') \<and>
           concat cs' = u32_bytes be 1 @ replicate 1028 0 \<and> (\<forall>c \<in> set cs'. c \<noteq> [])"
  using recv_header_stream_at[OF assms(2), of be] assms(1)
  by (auto simp: reply_bytes_def decode_header_def header_size_def)

lemma reply_second_header:
  assumes "concat cs = u32_bytes be 1 @ replicate 1028 0" and "\<forall>c \<in> set cs. c \<noteq> []"
  shows "\<exists>h cs'. recv_header be (stream cs) = ((0, Some h), stream cs') \<and> message_type h = 1 \<and>
           concat cs' = replicate 1024 0 \<and> (\<forall>c \<in> set cs'. c \<noteq> [])"
  using recv_header_stream_at[OF assms(2), of be] assms(1)
  by (auto simp: decode_header_def header_size_def)

lemma reply_third_header:
  assumes "concat cs = replicate 1024 0" and "\<forall>c \<in> set cs. c \<noteq> []"
  shows "\<not> is_register_response (recv_header be (stream cs))"
  using recv_header_stream_at[OF assms(2), of be] assms(1) decode_zero_header[of be]
  by (auto simp: is_register_response_def header_size_def)

lemma register_loop_on_reply:
  assumes "concat cs = reply_bytes be wid" and "\<forall>c \<in> set cs. c \<noteq> []"
  shows "\<exists>es. register_loop be 3 (stream cs) =
           (if be then ((2, Some \<lparr>message_type = 71, client_id = wid\<rparr>), es) else ((-1, None), es))"
proof (cases be)
  case True
  then show ?thesis
    using reply_first_header[OF assms] by (auto simp: register_loop_3 is_register_response_def Let_def htonl_def)
next
  case False
  obtain cs1 where 1: "recv_header be (stream cs) = ((0, Some \<lparr>message_type = htonl be 71, client_id = wid\<rparr>), stream cs1)"
    and c1: "concat cs1 = u32_bytes be 1 @ replicate 1028 0" "\<forall>c \<in> set cs1. c \<noteq> []"
    using reply_first_header[OF assms] by auto
  obtain h cs2 where 2: "recv_header be (stream cs1) = ((0, Some h), stream cs2)" "message_type h = 1"
    and c2: "concat cs2 = replicate 1024 0" "\<forall>c \<in> set cs2. c \<noteq> []"
    using reply_second_header[OF c1] by auto
  have "htonl be 71 \<noteq> (71 :: u32)" using False by (simp add: htonl_def bswap32_def bytes_u32_def u32_bytes_def Let_def)
  then show ?thesis
    using False 1 2 reply_third_header[OF c2, of be]
    by (simp add: register_loop_3 Let_def is_register_response_def[of "((_, Some _), _)"])
qed

text \<open>A worker that reads the central server's answer to its registration accepts it, with the
  identifier the registry gave it, on a big-endian host, and reports a failed registration on a
  little-endian host, where the received type is never converted; the worker is registered at the server in
  both cases.\<close>

theorem registration_reply_by_byte_order:
  assumes "handle_worker_registration be ws1 now fd tid s = ((wid, s'), [Sent fd out])" and "wid \<noteq> 0"
    and "concat cs = out" and "\<forall>c \<in> set cs. c \<noteq> []"
    and "fst (send_message be ws (plain_message MSG_TYPE_REGISTER 0)) = 0"
  shows "cs_registry s' = snd (worker_registry_add now (cs_registry s) fd tid) \<and>
    (\<exists>es io. register_with_server be ws (stream cs) w =
       (if be then (0, es, w\<lparr>ws_worker_id := wid\<rparr>) else (-1, es, w), io))"
proof -
  have "cs_registry s' = snd (worker_registry_add now (cs_registry s) fd tid)"
    using assms(1,2) by (auto simp: handle_worker_registration_def split: prod.splits if_splits)
  moreover have "send_message be ws1 (reg_response_message be wid) = (0, out)"
    using assms(1,2) send_message_code[of be ws1 "reg_response_message be wid"]
    by (auto simp: handle_worker_registration_def split: prod.splits if_splits)
  then have "concat cs = reply_bytes be wid" using registration_reply_bytes assms(3) by simp
  from register_loop_on_reply[OF this assms(4)]
  have "\<exists>es io. register_with_server be ws (stream cs) w =
      (if be then (0, es, w\<lparr>ws_worker_id := wid\<rparr>) else (-1, es, w), io)"
    using assms(5) by (cases be) (auto simp: register_with_server_def split: prod.splits)
  ultimately show ?thesis by blast
qed

abbreviation sample_reply :: "byte list" where
  "sample_reply \<equiv> snd (send_message False [1040] (reg_response_message False 3))"

lemma sample_registration:
  "\<exists>s'. handle_worker_registration False [1040] 9 7 0 sample_server = ((3, s'), [Sent 7 sample_reply])"
  using sent_in_one_write[of "reg_response_message False 3" False]
  by (auto simp: handle_worker_registration_def worker_registry_add_def sample_server_def sample_registry_def
      Let_def split: prod.splits)

theorem registration_reply_by_byte_order_witness:
  "\<exists>es io. register_with_server False [1040] (stream [sample_reply]) worker_globals = ((-1, es, worker_globals), io)"
proof -
  obtain s' where r: "handle_worker_registration False [1040] 9 7 0 sample_server = ((3, s'), [Sent 7 sample_reply])"
    using sample_registration by blast
  have "send_message False [1040] (reg_response_message False 3) = (0, sample_reply)"
    using sent_in_one_write[of "reg_response_message False 3" False] by (simp add: prod_eq_iff)
  then have "sample_reply = reply_bytes False 3" by (rule registration_reply_bytes)
  moreover have "reply_bytes False 3 \<noteq> []" by (simp add: reply_bytes_def)
  ultimately have "sample_reply \<noteq> []" by simp
  then show ?thesis
    using registration_reply_by_byte_order[OF r, of "[sample_reply]" "[1040]" worker_globals]
      sent_in_one_write[of "plain_message MSG_TYPE_REGISTER 0" False] by simp
qed

section \<open>Mutex discipline, connecting, processing time\<close>

text \<open>
  A trace respects the mutex if it is taken only when free, released only when held, free at the end,
  and every message is sent while it is held.
\<close>

fun lock_discipline :: "bool \<Rightarrow> ws_io list \<Rightarrow> bool" where
  "lock_discipline owned [] = (\<not> owned)"
| "lock_discipline owned (Locked # io) = (\<not> owned \<and> lock_discipline True io)"
| "lock_discipline owned (Unlocked # io) = (owned \<and> lock_discipline False io)"
| "lock_discipline owned (WSent _ # io) = (owned \<and> lock_discipline owned io)"
| "lock_discipline owned (WClosed _ # io) = lock_discipline owned io"

text \<open>Sending a result and every iteration of the main loop respect the mutex; a heartbeat does except when
  it is answered by a task (return value 1), where the mutex is released a second time.\<close>

theorem worker_lock_discipline:
  "lock_discipline False (snd (send_task_result be ws es result w)) \<and>
   lock_discipline False (snd (worker_main_iteration be e es w)) \<and>
   (lock_discipline False (snd (send_heartbeat be ws es w)) \<longleftrightarrow> fst (fst (send_heartbeat be ws es w)) \<noteq> 1)"
proof -
  have "lock_discipline False (snd (send_task_result be ws' es' result' w'))" for ws' es' result' w'
    by (simp add: send_task_result_def split: prod.split option.split)
  moreover have "lock_discipline False (snd (worker_main_iteration be e es w))"
    using calculation
    by (auto simp: worker_main_iteration_def split: prod.splits main_outcome.splits) (metis snd_conv)
  ultimately show ?thesis
    by (simp add: send_heartbeat_def split: prod.split option.split)
qed

text \<open>The attempts that are made: as long as the worker runs, up to and including the first that succeeds.\<close>

definition attempt_ok :: "socket_env \<Rightarrow> bool" where
  "attempt_ok e \<longleftrightarrow> 0 \<le> se_fd e \<and> 0 \<le> se_connect e"

lemma create_client_socket_ok: "0 \<le> fst (create_client_socket e) \<longleftrightarrow> attempt_ok e"
  by (auto simp: create_client_socket_def attempt_ok_def)

lemma connect_loop_result:
  assumes "a \<le> MAX_RECONNECT_ATTEMPTS"
  shows "fst (connect_loop run env a) =
    (case find_slot (\<lambda>k. \<not> run k \<or> attempt_ok (env k)) [a ..< MAX_RECONNECT_ATTEMPTS] of
       None \<Rightarrow> -1
     | Some i \<Rightarrow> if run (a + i) then se_fd (env (a + i)) else -1)"
  using assms
proof (induction run env a rule: connect_loop.induct)
  case (1 run env a)
  let ?P = "\<lambda>k. \<not> run k \<or> attempt_ok (env k)"
  consider "MAX_RECONNECT_ATTEMPTS \<le> a" | "a < MAX_RECONNECT_ATTEMPTS" "\<not> run a"
    | "a < MAX_RECONNECT_ATTEMPTS" "run a" "attempt_ok (env a)"
    | "a < MAX_RECONNECT_ATTEMPTS" "run a" "\<not> attempt_ok (env a)" by linarith
  then show ?case
  proof cases
    case 4
    obtain fd closed where c: "create_client_socket (env a) = (fd, closed)" by fastforce
    then have fd: "\<not> 0 \<le> fd" using 4 create_client_socket_ok[of "env a"] by simp
    have "fst (connect_loop run env a) = fst (connect_loop run env (Suc a))"
      using 4 c fd by (simp add: connect_loop.simps[of run env a] case_prod_beta)
    moreover have "find_slot ?P [a ..< MAX_RECONNECT_ATTEMPTS] = map_option Suc (find_slot ?P [Suc a ..< MAX_RECONNECT_ATTEMPTS])"
      using 4 by (simp add: upt_conv_Cons)
    moreover have "Suc a \<le> MAX_RECONNECT_ATTEMPTS" using 4 by simp
    ultimately show ?thesis using 1(1)[OF conjI[OF 4(1,2)] c[symmetric] fd]
      by (cases "find_slot ?P [Suc a ..< MAX_RECONNECT_ATTEMPTS]") (simp_all add: add_Suc_shift)
  qed (simp_all add: connect_loop.simps[of run env a] upt_conv_Cons create_client_socket_def attempt_ok_def)
qed

text \<open>\<open>connect_to_server\<close> returns the descriptor of the first attempt that succeeds among at most five, or -1 if
  none does or the worker is stopped before it.\<close>

theorem connect_to_server_result:
  "fst (connect_to_server run env) =
     (case find_slot (\<lambda>k. \<not> run k \<or> attempt_ok (env k)) [0 ..< MAX_RECONNECT_ATTEMPTS] of
        None \<Rightarrow> -1
      | Some i \<Rightarrow> if run i then se_fd (env i) else -1)"
  using connect_loop_result[of 0 run env] unfolding connect_to_server_def add_0 by simp

lemma sdiv_near_div:
  fixes d :: int
  shows "d div 1000000 \<le> d sdiv 1000000 \<and> d sdiv 1000000 \<le> d div 1000000 + 1"
proof (cases "0 \<le> d")
  case True
  then show ?thesis by (simp add: signed_divide_int_def sgn_if)
next
  case False
  then have "d sdiv 1000000 = - ((- d) div 1000000)" by (simp add: signed_divide_int_def sgn_if)
  then show ?thesis by linarith
qed

text \<open>The execution time a processed task reports is the elapsed time in whole milliseconds or one more
  (the nanosecond parts are subtracted before they are divided), as long as it fits 32 bits.\<close>

theorem process_task_time:
  fixes s e :: timespec
  defines "ns \<equiv> (fst e - fst s) * 1000000000 + (snd e - snd s)"
  assumes "0 \<le> ns" and "ns div 1000000 + 1 < 2 ^ 32"
  shows "\<exists>ms. process_task s e (Some i) (Some r) = (0, Some \<lparr>tr_task_id = i, tr_status = 0, tr_exec_time_ms = ms\<rparr>) \<and>
    (uint ms = ns div 1000000 \<or> uint ms = ns div 1000000 + 1)"
proof -
  have "ns div 1000000 = (fst e - fst s) * 1000 + (snd e - snd s) div 1000000"
    unfolding ns_def by linarith
  then have el: "elapsed_ms s e = ns div 1000000 \<or> elapsed_ms s e = ns div 1000000 + 1"
    using sdiv_near_div[of "snd e - snd s"] unfolding elapsed_ms_def by linarith
  moreover have "0 \<le> ns div 1000000" using assms(2) by simp
  ultimately have "uint (word_of_int (elapsed_ms s e) :: u32) = elapsed_ms s e"
    using assms(3) by (auto simp: unsigned_of_int take_bit_int_eq_self)
  moreover have "process_task s e (Some i) (Some r) =
      (0, Some \<lparr>tr_task_id = i, tr_status = 0, tr_exec_time_ms = word_of_int (elapsed_ms s e)\<rparr>)"
    by (cases r) (simp add: process_task_def)
  ultimately show ?thesis using el by metis
qed

theorem process_task_time_witness:
  "\<exists>ms. process_task (0, 999999999) (1, 0) (Some 4) (Some \<lparr>tr_task_id = 0, tr_status = 1, tr_exec_time_ms = 0\<rparr>) =
      (0, Some \<lparr>tr_task_id = 4, tr_status = 0, tr_exec_time_ms = ms\<rparr>) \<and> (uint ms = 0 \<or> uint ms = 1)"
  using process_task_time[where s = "(0, 999999999)" and e = "(1, 0)"] by simp

end
