(* ===== verification/Dispatch_Sections.thy ===== *)
theory Dispatch_Sections
  imports Central_Server
begin

text \<open>
  Dispatching a task in the central server (\<open>assign_task_to_worker\<close> in \<open>central_server/central_server.c\<close>), section by section. The function
  takes no lock of its own: every call it makes locks the registry or the task manager for itself, and in between, the pointer into the
  array of workers that \<open>worker_registry_get\<close> returned is used without a lock. Here other threads may act before every section.

  The theory shows that the sections, run without interruption, are the function of \<open>Central_Server\<close>, that the task goes to the worker's socket as
  long as nobody moves its entry, and that the removal of a worker in an earlier entry sends the task to somebody else.
\<close>

section \<open>Sections\<close>

text \<open>Where a dispatching thread is; \<open>i\<close> is the pointer to the entry.\<close>

datatype dispatch =
    Found nat
  | Idle nat
  | Popped nat task_t
  | Recorded nat task_t
  | Announced nat task_t
  | Unsent
  | Returned int
  | UsesFreed

definition dispatch_begin :: "u32 \<Rightarrow> central_server \<Rightarrow> dispatch" where
  "dispatch_begin worker_id s = (case worker_registry_get (cs_registry s) worker_id of None \<Rightarrow> Returned (-1) | Some i \<Rightarrow> Found i)"

fun dispatch_step ::
  "bool \<Rightarrow> int list \<Rightarrow> int \<Rightarrow> u32 \<Rightarrow> dispatch \<Rightarrow> central_server \<Rightarrow> dispatch \<times> central_server \<times> cs_io list" where
  "dispatch_step be ws now worker_id (Found i) s =
     (case cs_registry s of
        None \<Rightarrow> (UsesFreed, s, [])
      | Some reg \<Rightarrow> (if wi_status (wr_workers reg ! i) \<noteq> WORKER_STATUS_IDLE then Returned (-1) else Idle i, s, []))"
| "dispatch_step be ws now worker_id (Idle i) s =
     (case task_manager_get_next_task None [] (cs_tasks s) 0 of
        None \<Rightarrow> (Returned (-1), s, [])
      | Some (None, tm) \<Rightarrow> (Returned (-1), s\<lparr>cs_tasks := tm\<rparr>, [])
      | Some (Some task, tm) \<Rightarrow> (Popped i task, s\<lparr>cs_tasks := tm\<rparr>, []))"
| "dispatch_step be ws now worker_id (Popped i task) s =
     (case task_manager_assign_task now (cs_tasks s) (t_task_id task) worker_id of
        (r, tm) \<Rightarrow> (if r \<noteq> 0 then Returned (-1) else Recorded i task, s\<lparr>cs_tasks := tm\<rparr>, []))"
| "dispatch_step be ws now worker_id (Recorded i task) s =
     (Announced i task, s\<lparr>cs_registry := snd (worker_registry_update_status (cs_registry s) worker_id WORKER_STATUS_BUSY)\<rparr>, [])"
| "dispatch_step be ws now worker_id (Announced i task) s =
     (case cs_registry s of
        None \<Rightarrow> (UsesFreed, s, [])
      | Some reg \<Rightarrow>
          (case send_message be ws (task_message be task) of
             (q, out) \<Rightarrow> (if q < 0 then Unsent else Returned 0, s, [Sent (wi_sockfd (wr_workers reg ! i)) out])))"
| "dispatch_step be ws now worker_id Unsent s =
     (Returned (-1), s\<lparr>cs_registry := snd (worker_registry_update_status (cs_registry s) worker_id WORKER_STATUS_IDLE)\<rparr>, [])"
| "dispatch_step be ws now worker_id (Returned r) s = (Returned r, s, [])"
| "dispatch_step be ws now worker_id UsesFreed s = (UsesFreed, s, [])"

text \<open>A run: what the other threads do before each section.\<close>

fun dispatch_run ::
  "bool \<Rightarrow> int list \<Rightarrow> int \<Rightarrow> u32 \<Rightarrow> (central_server \<Rightarrow> central_server) list \<Rightarrow> dispatch \<Rightarrow> central_server
   \<Rightarrow> dispatch \<times> central_server \<times> cs_io list" where
  "dispatch_run be ws now worker_id [] pc s = (pc, s, [])"
| "dispatch_run be ws now worker_id (others # rest) pc s =
     (case dispatch_step be ws now worker_id pc (others s) of
        (pc1, s1, io1) \<Rightarrow> (case dispatch_run be ws now worker_id rest pc1 s1 of (pc2, s2, io2) \<Rightarrow> (pc2, s2, io1 @ io2)))"

text \<open>What another handler thread does to the registry when its worker leaves.\<close>

definition remove_worker :: "u32 \<Rightarrow> central_server \<Rightarrow> central_server" where
  "remove_worker worker_id s = s\<lparr>cs_registry := snd (fst (worker_registry_remove (cs_registry s) worker_id))\<rparr>"

section \<open>Lemmas\<close>

lemma nth_shift_down:
  assumes "p \<le> k" and "k + 1 < n" and "n \<le> length xs"
  shows "shift_down p n xs ! k = xs ! (k + 1)"
proof -
  have "k - p < n - p - 1" "k - p < length xs - p - 1" "p \<le> length xs" using assms by linarith+
  then show ?thesis using assms(1) by (simp add: shift_down_def nth_append min_absorb2)
qed

lemma run_Returned: "dispatch_run be ws now worker_id fs (Returned r) s = (Returned r, fold (\<lambda>f s. f s) fs s, [])"
  by (induction fs arbitrary: s) auto

lemma find_worker_status:
  "i < length (registered reg) \<Longrightarrow>
   find_worker (reg\<lparr>wr_workers := (wr_workers reg)[i := (wr_workers reg ! i)\<lparr>wi_status := st\<rparr>]\<rparr>) k = find_worker reg k"
  unfolding find_worker_def registered_update by (rule find_slot_update_same_key) (simp_all add: registered_nth)

text \<open>The entry a dispatching thread points to.\<close>

fun pointer :: "dispatch \<Rightarrow> nat option" where
  "pointer (Found i) = Some i"
| "pointer (Idle i) = Some i"
| "pointer (Popped i task) = Some i"
| "pointer (Recorded i task) = Some i"
| "pointer (Announced i task) = Some i"
| "pointer _ = None"

definition entry_socket :: "nat \<Rightarrow> central_server \<Rightarrow> int option" where
  "entry_socket i s = map_option (\<lambda>reg. wi_sockfd (wr_workers reg ! i)) (cs_registry s)"

lemma status_socket [simp]: "wi_sockfd (ws[i := (ws ! i)\<lparr>wi_status := st\<rparr>] ! j) = wi_sockfd (ws ! j)"
  by (cases "i < length ws"; cases "i = j") (auto simp: list_update_beyond not_less)

lemma status_keeps_socket:
  "entry_socket i (s\<lparr>cs_registry := snd (worker_registry_update_status (cs_registry s) k st)\<rparr>) = entry_socket i s"
  by (auto simp: entry_socket_def worker_registry_update_status_def split: option.splits)

lemma step_entry:
  assumes "dispatch_step be ws now worker_id pc s = (pc', s', io)"
  shows "entry_socket i s' = entry_socket i s \<and> (pointer pc' = None \<or> pointer pc' = pointer pc) \<and>
    (io = [] \<or> (\<exists>j fd out. pointer pc = Some j \<and> entry_socket j s = Some fd \<and> io = [Sent fd out] \<and> pointer pc' = None))"
  using assms status_keeps_socket
  by (cases pc) (auto simp: entry_socket_def split: option.splits prod.splits if_splits)


lemma run_entry:
  assumes "\<And>f s. f \<in> set fs \<Longrightarrow> entry_socket i (f s) = entry_socket i s" and "pointer pc = None \<or> pointer pc = Some i"
    and "dispatch_run be ws now worker_id fs pc s = (pc', s', io)"
  shows "(io = [] \<or> (\<exists>fd out. entry_socket i s = Some fd \<and> io = [Sent fd out])) \<and> (pointer pc = None \<longrightarrow> io = [])"
  using assms
proof (induction fs arbitrary: pc s io)
  case (Cons f fs)
  obtain pc1 s1 io1 where st: "dispatch_step be ws now worker_id pc (f s) = (pc1, s1, io1)" by (metis surj_pair)
  obtain io2 where r: "dispatch_run be ws now worker_id fs pc1 s1 = (pc', s', io2)" and io: "io = io1 @ io2"
    using Cons.prems(3) st by (auto split: prod.splits)
  have "pointer pc1 = None \<or> pointer pc1 = Some i" using step_entry[OF st] Cons.prems(2) by auto
  note IH = Cons.IH[OF _ this r]
  have "entry_socket i (f s) = entry_socket i s" using Cons.prems(1) by simp
  then show ?case using IH step_entry[OF st, of i] Cons.prems(1,2) io by auto
qed simp

section \<open>Properties\<close>



text \<open>
  Whatever the other threads do in between, as long as they leave the socket in the entry of the worker alone, the task is sent to that
  socket or to none.
\<close>

theorem dispatch_reaches_entry:
  assumes "worker_registry_get (cs_registry s) worker_id = Some i" and "entry_socket i s = Some fd"
    and "\<And>f s. f \<in> set fs \<Longrightarrow> entry_socket i (f s) = entry_socket i s"
    and "dispatch_run be ws now worker_id fs (dispatch_begin worker_id s) s = (pc, s', io)"
  shows "io = [] \<or> (\<exists>out. io = [Sent fd out])"
  using run_entry[of fs i "dispatch_begin worker_id s" be ws now worker_id s pc s' io] assms by (auto simp: dispatch_begin_def)

text \<open>C36: 
  A race: if a worker in an earlier entry leaves after the task was recorded and before it is sent, the entries behind move up, and the task
  that is recorded for the one worker is sent to the next, successfully.
\<close>

theorem leaving_worker_misdirects_task:
  assumes "cs_registry s = Some reg" and "reg_inv reg" and "leaving \<noteq> 0" and "find_worker reg leaving = Some p"
    and "worker_registry_get (Some reg) worker_id = Some i" and "p < i" and "i + 1 < unat (wr_count reg)"
    and "assign_task_to_worker be ws now worker_id s = ((0, s'), [Sent fd out])"
  shows "fd = wi_sockfd (registered reg ! i) \<and>
    (\<exists>s''. dispatch_run be ws now worker_id [\<lambda>s. s, \<lambda>s. s, \<lambda>s. s, \<lambda>s. s, remove_worker leaving] (dispatch_begin worker_id s) s =
        (Returned 0, s'', [Sent (wi_sockfd (registered reg ! (i + 1))) out]) \<and> cs_tasks s'' = cs_tasks s')"
proof -
  let ?n = "unat (wr_count reg)"
  have len: "?n \<le> length (wr_workers reg)" by (rule reg_count_le[OF assms(2)])
  have nth: "wr_workers reg ! k = registered reg ! k" if "k < ?n" for k
    using that by (simp add: registered_def)
  have w: "worker_id \<noteq> 0" "find_worker reg worker_id = Some i" using assms(5) by (auto simp: worker_registry_get_def split: if_splits)
  have idle: "wi_status (wr_workers reg ! i) = WORKER_STATUS_IDLE"
    using assms(1,5,8) by (auto simp: assign_task_to_worker_def split: if_splits)
  obtain task tm1 tm2 q where g: "task_manager_get_next_task None [] (cs_tasks s) 0 = Some (Some task, tm1)"
    "task_manager_assign_task now tm1 (t_task_id task) worker_id = (0, tm2)" "send_message be ws (task_message be task) = (q, out)" "\<not> q < 0"
    and out: "fd = wi_sockfd (wr_workers reg ! i)" "cs_tasks s' = tm2"
    using assms(1,5,8) idle by (auto simp: assign_task_to_worker_def Let_def split: option.splits prod.splits if_splits)
  let ?w1 = "(wr_workers reg)[i := (wr_workers reg ! i)\<lparr>wi_status := WORKER_STATUS_BUSY\<rparr>]"
  let ?reg1 = "reg\<lparr>wr_workers := ?w1\<rparr>"
  have i: "i < length (registered reg)" using assms(7) length_registered[OF assms(2)] by simp
  have b: "worker_registry_update_status (Some reg) worker_id WORKER_STATUS_BUSY = (0, Some ?reg1)"
    using w by (simp add: worker_registry_update_status_def)
  have f: "find_worker ?reg1 leaving = Some p" using find_worker_status[OF i] assms(4) by simp
  have n1: "unat (wr_count reg - 1) = ?n - 1" using assms(7) by (intro unat_dec) auto
  have "p < unat (wr_count reg - 1)" using n1 assms(6,7) by linarith
  then have rm: "snd (fst (worker_registry_remove (Some ?reg1) leaving)) =
      Some (?reg1\<lparr>wr_workers := shift_down p ?n ?w1, wr_count := wr_count reg - 1\<rparr>)"
    using f assms(3) by (simp add: worker_registry_remove_def Let_def)
  have "shift_down p ?n ?w1 ! i = ?w1 ! (i + 1)" using nth_shift_down[of p i ?n ?w1] assms(6,7) len by simp
  then have m: "wi_sockfd (shift_down p ?n ?w1 ! i) = wi_sockfd (registered reg ! (i + 1))" using nth assms(7) by simp
  show ?thesis
    using assms(1,5) idle g out b rm m nth[of i] assms(7)
    by (simp add: dispatch_begin_def remove_worker_def)
qed


definition three_registry :: worker_registry_t where
  "three_registry = \<lparr>wr_workers = [sample_worker 1 5, sample_worker 2 6, sample_worker 3 7], wr_capacity = 3, wr_count = 3\<rparr>"

definition three_workers :: central_server where
  "three_workers = sample_server\<lparr>cs_registry := Some three_registry\<rparr>"

lemma three_registered: "registered three_registry = [sample_worker 1 5, sample_worker 2 6, sample_worker 3 7]"
  by (simp add: registered_def three_registry_def)

lemma three_count [simp]: "wr_count three_registry = 3"
  by (simp add: three_registry_def)

lemma three_reg_inv: "reg_inv three_registry"
  by (simp add: reg_inv_def three_registry_def)

lemma three_workers_dispatch:
  "\<exists>s' out. assign_task_to_worker False [1040] 9 2 three_workers = ((0, s'), [Sent 6 out])"
proof -
  obtain m where m: "cs_tasks sample_server = Some m" "tm_ok (Some m)" "pending m = [init_task sample_block 1 [1, 2, 3]]"
    using sample_server_tasks by blast
  have "srv_inv three_workers"
    using m by (simp add: srv_inv_def reg_ok_def three_workers_def three_reg_inv three_registered sample_worker_def fresh_worker_def)
  moreover have "cs_registry three_workers = Some three_registry" "cs_tasks three_workers = Some m" using m(1) by (simp_all add: three_workers_def)
  moreover have "worker_registry_get (Some three_registry) 2 = Some 1"
    by (simp add: worker_registry_get_def find_worker_def three_registered sample_worker_def fresh_worker_def)
  moreover have "wi_status (registered three_registry ! 1) = WORKER_STATUS_IDLE" by (simp add: three_registered sample_worker_def fresh_worker_def)
  moreover have "t_task_id (init_task sample_block 1 [1, 2, 3]) \<noteq> 0" by (simp add: init_task_def)
  ultimately obtain c out reg' m' where d: "assign_task_to_worker False [1040] 9 2 three_workers =
       ((c, three_workers\<lparr>cs_registry := Some reg', cs_tasks := Some m'\<rparr>), [Sent (wi_sockfd (registered three_registry ! 1)) out])"
    "send_message False [1040] (task_message False (init_task sample_block 1 [1, 2, 3])) = (c, out)"
    using dispatch_one_task[of three_workers three_registry m 2 1 "init_task sample_block 1 [1, 2, 3]" "[]" False "[1040]" 9] m(3) by blast
  have "fst (send_message False [1040] (task_message False (init_task sample_block 1 [1, 2, 3]))) = 0"
    by (rule sent_in_one_write) (simp add: task_message_def body_size_def MAX_DATA_SIZE_def)
  then show ?thesis using d by (simp add: three_registered sample_worker_def fresh_worker_def)
qed

theorem leaving_worker_misdirects_task_witness:
  "\<exists>s'' out. dispatch_run False [1040] 9 2 [\<lambda>s. s, \<lambda>s. s, \<lambda>s. s, \<lambda>s. s, remove_worker 1] (dispatch_begin 2 three_workers) three_workers =
     (Returned 0, s'', [Sent 7 out])"
proof -
  obtain s' out where d: "assign_task_to_worker False [1040] 9 2 three_workers = ((0, s'), [Sent 6 out])"
    using three_workers_dispatch by blast
  have "\<exists>s''. dispatch_run False [1040] 9 2 [\<lambda>s. s, \<lambda>s. s, \<lambda>s. s, \<lambda>s. s, remove_worker 1] (dispatch_begin 2 three_workers) three_workers =
        (Returned 0, s'', [Sent (wi_sockfd (registered three_registry ! (1 + 1))) out]) \<and> cs_tasks s'' = cs_tasks s'"
    by (rule leaving_worker_misdirects_task[THEN conjunct2, OF _ _ _ _ _ _ _ d, of three_registry 1 0])
       (simp_all add: three_workers_def three_reg_inv find_worker_def worker_registry_get_def three_registered sample_worker_def fresh_worker_def)
  then show ?thesis by (auto simp: three_registered sample_worker_def fresh_worker_def)
qed

theorem dispatch_reaches_entry_witness:
  "\<exists>pc s' io. dispatch_run False [1040] 9 2 (replicate 6 (\<lambda>s. s\<lparr>cs_running := False\<rparr>)) (dispatch_begin 2 three_workers) three_workers = (pc, s', io) \<and>
     (io = [] \<or> (\<exists>out. io = [Sent 6 out]))"
proof -
  obtain pc s' io where d: "dispatch_run False [1040] 9 2 (replicate 6 (\<lambda>s. s\<lparr>cs_running := False\<rparr>)) (dispatch_begin 2 three_workers) three_workers = (pc, s', io)"
    by (metis surj_pair)
  have "worker_registry_get (cs_registry three_workers) 2 = Some 1"
    by (simp add: three_workers_def worker_registry_get_def find_worker_def three_registered sample_worker_def fresh_worker_def)
  moreover have "entry_socket 1 three_workers = Some 6"
    by (simp add: three_workers_def entry_socket_def three_registry_def sample_worker_def fresh_worker_def)
  moreover have "entry_socket 1 (f s) = entry_socket 1 s" if "f \<in> set (replicate 6 (\<lambda>s. s\<lparr>cs_running := False\<rparr>))" for f s
    using that by (simp add: entry_socket_def)
  ultimately have "io = [] \<or> (\<exists>out. io = [Sent 6 out])" using dispatch_reaches_entry[OF _ _ _ d] by blast
  then show ?thesis using d by blast
qed

end
