(* ===== verification/C_Strings.thy ===== *)
theory C_Strings
  imports Prelude
begin

text \<open>
  What the programs use of the C library on strings and text files. A string is the list of its characters without
  the terminator, a file the list of its characters. Decimal output and input (\<open>printf\<close>, \<open>atoi\<close>), searching
  (\<open>strstr\<close>), bounded copies and reading by lines (\<open>fgets\<close>), with the lemmas that the programs' proofs share.
\<close>

section \<open>Characters and strings\<close>

definition newline :: char where "newline = CHR 0x0A"

definition nul :: char where "nul = CHR 0x00"

text \<open>What a buffer holds as a C string.\<close>

definition c_string :: "char list \<Rightarrow> string" where
  "c_string bs = takeWhile (\<lambda>c. c \<noteq> nul) bs"

fun strstr :: "string \<Rightarrow> string \<Rightarrow> string option" where
  "strstr [] needle = (if needle = [] then Some [] else None)"
| "strstr (c # cs) needle =
     (if take (length needle) (c # cs) = needle then Some (c # cs) else strstr cs needle)"

definition is_digit_char :: "char \<Rightarrow> bool" where
  "is_digit_char c \<longleftrightarrow> 48 \<le> (of_char c :: nat) \<and> (of_char c :: nat) \<le> 57"

definition decimal_value :: "string \<Rightarrow> nat" where
  "decimal_value s = foldl (\<lambda>n c. 10 * n + ((of_char c :: nat) - 48)) 0 s"

section \<open>Decimal output\<close>

text \<open>What \<open>%zu\<close> and \<open>%lu\<close>, and what \<open>%d\<close> print, and a field that is left-justified to a width.\<close>

fun show_nat :: "nat \<Rightarrow> string" where
  "show_nat n = (if n < 10 then [char_of (48 + n)] else show_nat (n div 10) @ [char_of (48 + n mod 10)])"

declare show_nat.simps [simp del]

definition show_int :: "int \<Rightarrow> string" where
  "show_int i = (if i < 0 then CHR ''-'' # show_nat (nat (- i)) else show_nat (nat i))"

definition pad_right :: "nat \<Rightarrow> string \<Rightarrow> string" where
  "pad_right n s = s @ replicate (n - length s) (CHR '' '')"

lemma decimal_value_snoc: "decimal_value (s @ [c]) = 10 * decimal_value s + ((of_char c :: nat) - 48)"
  by (simp add: decimal_value_def)

lemma digit_char: "d < 10 \<Longrightarrow> is_digit_char (char_of (48 + d :: nat)) \<and> (of_char (char_of (48 + d :: nat)) :: nat) = 48 + d"
  by (simp add: is_digit_char_def of_char_of take_bit_nat_eq_self)

lemma show_nat_digits: "show_nat n \<noteq> [] \<and> list_all is_digit_char (show_nat n)"
proof (induction n rule: show_nat.induct)
  case (1 n)
  show ?case
  proof (cases "n < 10")
    case False
    then show ?thesis using 1 digit_char[of "n mod 10"] by (simp add: show_nat.simps[of n])
  qed (use digit_char in \<open>simp add: show_nat.simps[of n]\<close>)
qed

lemma decimal_value_show: "decimal_value (show_nat n) = n"
proof (induction n rule: show_nat.induct)
  case (1 n)
  show ?case
  proof (cases "n < 10")
    case True
    then show ?thesis using digit_char[of n] by (simp add: show_nat.simps[of n] decimal_value_def)
  next
    case False
    then show ?thesis using 1 digit_char[of "n mod 10"] by (simp add: show_nat.simps[of n] decimal_value_snoc)
  qed
qed

lemma length_show_nat: "n < 10 ^ Suc k \<Longrightarrow> length (show_nat n) \<le> Suc k"
proof (induction k arbitrary: n)
  case 0
  then show ?case by (simp add: show_nat.simps)
next
  case (Suc k)
  then show ?case using Suc.IH[of "n div 10"] by (simp add: show_nat.simps[of n] less_mult_imp_div_less)
qed

text \<open>\<open>atoi\<close>: white space, a sign, digits; a value that does not fit into \<open>int\<close> is undefined.\<close>

definition is_space_char :: "char \<Rightarrow> bool" where
  "is_space_char c \<longleftrightarrow> c = CHR '' '' \<or> 9 \<le> (of_char c :: nat) \<and> (of_char c :: nat) \<le> 13"

definition atoi :: "string \<Rightarrow> int option" where
  "atoi s =
     (let s = dropWhile is_space_char s; negative = (take 1 s = ''-'');
          digits = takeWhile is_digit_char (if negative \<or> take 1 s = ''+'' then tl s else s);
          n = (if negative then - int (decimal_value digits) else int (decimal_value digits))
      in if in_c_int n then Some n else None)"

lemma digits_start: "list_all is_digit_char s \<Longrightarrow> s \<noteq> [] \<Longrightarrow> \<not> is_space_char (hd s) \<and> hd s \<noteq> CHR ''-'' \<and> hd s \<noteq> CHR ''+''"
  by (cases s) (auto simp: is_digit_char_def is_space_char_def)

lemma atoi_show_nat: "n < 2147483648 \<Longrightarrow> atoi (show_nat n) = Some (int n)"
proof -
  assume n: "n < 2147483648"
  note d = show_nat_digits[of n]
  then have w: "dropWhile is_space_char (show_nat n) = show_nat n" and p: "take 1 (show_nat n) \<noteq> ''-''" "take 1 (show_nat n) \<noteq> ''+''"
    using digits_start[of "show_nat n"] by (cases "show_nat n"; simp)+
  have t: "takeWhile is_digit_char (show_nat n) = show_nat n" using d by (simp add: takeWhile_eq_all_conv list_all_iff)
  show ?thesis using n p by (simp add: atoi_def w t decimal_value_show in_c_int_def Let_def)
qed

section \<open>Hexadecimal digits\<close>

definition is_xdigit :: "char \<Rightarrow> bool" where
  "is_xdigit c \<longleftrightarrow> is_digit_char c \<or> (65 \<le> (of_char c :: nat) \<and> (of_char c :: nat) \<le> 70) \<or>
     (97 \<le> (of_char c :: nat) \<and> (of_char c :: nat) \<le> 102)"

definition xdigit_value :: "char \<Rightarrow> nat" where
  "xdigit_value c =
     (let n = of_char c in if n \<le> 57 then n - 48 else if n \<le> 70 then n - 55 else n - 87)"

definition hex_char :: "nat \<Rightarrow> char" where
  "hex_char n = char_of (if n < 10 then 48 + n else 55 + n)"

lemma hex_char_digit:
  assumes "n < 16"
  shows "is_xdigit (hex_char n) \<and> xdigit_value (hex_char n) = n"
proof -
  have "(of_char (hex_char n) :: nat) = (if n < 10 then 48 + n else 55 + n)"
    using assms by (simp add: hex_char_def of_char_of take_bit_nat_eq_self)
  then show ?thesis using assms by (simp add: is_xdigit_def is_digit_char_def xdigit_value_def)
qed

section \<open>Tokens\<close>

text \<open>The tokens \<open>strtok_r\<close> returns for one delimiter: maximal nonempty runs without it.\<close>

function strtok :: "char \<Rightarrow> string \<Rightarrow> string list" where
  "strtok d s =
     (case dropWhile (\<lambda>c. c = d) s of
        [] \<Rightarrow> []
      | c # cs \<Rightarrow> takeWhile (\<lambda>c. c \<noteq> d) (c # cs) # strtok d (dropWhile (\<lambda>c. c \<noteq> d) (c # cs)))"
  by pat_completeness auto
termination
proof (relation "measure (\<lambda>(_, s). length s)")
  fix d s c cs
  assume e: "dropWhile (\<lambda>c. c = d) s = c # cs"
  then have "c \<noteq> d" using hd_dropWhile[of "\<lambda>c. c = d" s] by simp
  then have "length (dropWhile (\<lambda>c. c \<noteq> d) (c # cs)) \<le> length cs" by (simp add: length_dropWhile_le)
  also have "\<dots> < length s" using e length_dropWhile_le[of "\<lambda>c. c = d" s] by simp
  finally show "((d, dropWhile (\<lambda>c. c \<noteq> d) (c # cs)), d, s) \<in> measure (\<lambda>(_, s). length s)" by simp
qed simp

declare strtok.simps [simp del]

text \<open>Tokens that are joined with the delimiter come back.\<close>

fun join_with :: "char \<Rightarrow> string list \<Rightarrow> string" where
  "join_with d [] = []"
| "join_with d [t] = t"
| "join_with d (t # u # ts) = t @ d # join_with d (u # ts)"

lemma strtok_token: "t \<noteq> [] \<Longrightarrow> d \<notin> set t \<Longrightarrow> strtok d (t @ d # s) = t # strtok d s"
proof -
  assume t: "t \<noteq> []" "d \<notin> set t"
  then obtain c cs where c: "t = c # cs" "c \<noteq> d" by (cases t) auto
  have w: "takeWhile (\<lambda>c. c \<noteq> d) (t @ d # s) = t" "dropWhile (\<lambda>c. c \<noteq> d) (t @ d # s) = d # s"
    using t(2) by (induction t) auto
  have "strtok d (d # s) = strtok d s" by (simp add: strtok.simps[of d "d # s"] strtok.simps[of d s])
  then show ?thesis using w c by (simp add: strtok.simps[of d "c # cs @ d # s"])
qed

lemma strtok_last: "t \<noteq> [] \<Longrightarrow> d \<notin> set t \<Longrightarrow> strtok d t = [t]"
proof -
  assume t: "t \<noteq> []" "d \<notin> set t"
  then obtain c cs where c: "t = c # cs" "c \<noteq> d" by (cases t) auto
  have w: "takeWhile (\<lambda>c. c \<noteq> d) cs = cs" "dropWhile (\<lambda>c. c \<noteq> d) cs = []" using t(2) c by (auto simp: takeWhile_eq_all_conv)
  show ?thesis unfolding c(1) using c(2) by (simp add: strtok.simps[of d "c # cs"] strtok.simps[of d "[]"] w)
qed

lemma strtok_join: "\<forall>t \<in> set ts. t \<noteq> [] \<and> d \<notin> set t \<Longrightarrow> strtok d (join_with d ts) = ts"
proof (induction d ts rule: join_with.induct)
  case (1 d)
  then show ?case by (simp add: strtok.simps)
qed (simp_all add: strtok_last strtok_token)

section \<open>Reading by lines\<close>

text \<open>\<open>fgets\<close> with room for \<open>k\<close> characters: the characters up to and including the first newline, at most \<open>k\<close> of them, and the rest.\<close>

fun fgets_chars :: "nat \<Rightarrow> string \<Rightarrow> string \<times> string" where
  "fgets_chars 0 s = ([], s)"
| "fgets_chars (Suc k) [] = ([], [])"
| "fgets_chars (Suc k) (c # cs) =
     (if c = newline then ([c], cs) else (case fgets_chars k cs of (l, r) \<Rightarrow> (c # l, r)))"

lemma fgets_chars_length: "fgets_chars k s = (l, r) \<Longrightarrow> length s = length l + length r"
  by (induction k s arbitrary: l r rule: fgets_chars.induct) (auto split: if_splits prod.splits)

lemma fgets_chars_progress: "fgets_chars (Suc k) (c # cs) = (l, r) \<Longrightarrow> length r < length (c # cs)"
  using fgets_chars_length[of "Suc k" "c # cs" l r] by (auto split: if_splits prod.splits)

lemma fgets_short: "newline \<notin> set l \<Longrightarrow> length l < k \<Longrightarrow> fgets_chars k (l @ newline # s) = (l @ [newline], s)"
proof (induction l arbitrary: k)
  case Nil
  then show ?case by (cases k) auto
next
  case (Cons c l)
  then show ?case by (cases k) auto
qed

lemma fgets_full: "newline \<notin> set l \<Longrightarrow> fgets_chars (length l) (l @ s) = (l, s)"
  by (induction l) auto

text \<open>The lines a loop \<open>while (fgets(line, k + 2, file))\<close> gets.\<close>

function read_lines :: "nat \<Rightarrow> string \<Rightarrow> string list" where
  "read_lines k s = (if s = [] then [] else case fgets_chars (Suc k) s of (line, rest) \<Rightarrow> line # read_lines k rest)"
  by pat_completeness auto
termination
proof (relation "measure (\<lambda>(_, s). length s)")
  fix k s line rest
  assume "s \<noteq> []" and "(line, rest) = fgets_chars (Suc k) s"
  then obtain c cs where "s = c # cs" and "fgets_chars (Suc k) (c # cs) = (line, rest)" by (cases s) auto
  then show "((k, rest), (k, s)) \<in> measure (\<lambda>(_, s). length s)" using fgets_chars_progress by fastforce
qed simp

declare read_lines.simps [simp del]

definition as_lines :: "string list \<Rightarrow> string" where
  "as_lines ls = concat (map (\<lambda>l. l @ [newline]) ls)"

lemma read_lines_as_lines:
  "\<forall>l \<in> set ls. newline \<notin> set l \<and> length l \<le> k \<Longrightarrow> read_lines k (as_lines ls) = map (\<lambda>l. l @ [newline]) ls"
proof (induction ls)
  case Nil
  then show ?case by (simp add: as_lines_def read_lines.simps)
next
  case (Cons l ls)
  then have "fgets_chars (Suc k) (l @ newline # as_lines ls) = (l @ [newline], as_lines ls)"
    by (simp add: fgets_short)
  moreover have "as_lines (l # ls) = l @ newline # as_lines ls" by (simp add: as_lines_def)
  ultimately show ?case using Cons by (simp add: read_lines.simps[of k "l @ newline # as_lines ls"])
qed

end
