(* ===== verification/Heartbeat_Server.thy ===== *)
theory Heartbeat_Server
  imports Prelude C_Strings Complex_Main "HOL-Library.Multiset"
begin

text \<open>
  The heartbeat server (\<open>heartbeat_server.c\<close>): agents report their load as JSON or as a form, the server keeps the
  newest reports and answers requests for them. A C string is the list of its characters, without the
  terminator. A \<open>double\<close> is a rational number, an infinity or not a number. The JSON library and \<open>atof\<close> are
  parameters; \<open>inet_pton\<close>, \<open>strtok_r\<close>, \<open>strstr\<close>, \<open>strchr\<close> and \<open>strncpy\<close> are modelled. The mutex of the history is held for
  the whole body of every function that touches it, so each is one step.

  The theory shows that the history is the newest reports, bounded and counted right, that only
  reports with values in range are stored, that URL decoding stays within its buffer and inverts percent encoding,
  which forms are accepted, what every request is answered with, and what becomes of an accepted connection.
\<close>

section \<open>State\<close>

datatype double_t = NaN | Infinite bool | Num rat

record HeartbeatData =
  hb_local_ip :: string
  hb_public_ip :: string
  hb_cpu_usage :: double_t
  hb_memory_usage :: double_t
  hb_disk_usage :: double_t
  hb_availability :: double_t
  hb_latency :: double_t

text \<open>The list of nodes, newest first, and the counter.\<close>

record heartbeat_history =
  hh_nodes :: "(HeartbeatData \<times> int) list"
  hh_count :: int

definition MAX_HEARTBEATS :: int where "MAX_HEARTBEATS = 100"
definition MAX_IP_LEN :: nat where "MAX_IP_LEN = 16"
definition BUFFER_SIZE :: nat where "BUFFER_SIZE = 4096"
definition MAX_KEY_LEN :: nat where "MAX_KEY_LEN = 64"
definition MAX_VALUE_LEN :: nat where "MAX_VALUE_LEN = 128"

definition zero_heartbeat :: HeartbeatData where
  "zero_heartbeat = \<lparr>hb_local_ip = [], hb_public_ip = [], hb_cpu_usage = Num 0, hb_memory_usage = Num 0,
     hb_disk_usage = Num 0, hb_availability = Num 0, hb_latency = Num 0\<rparr>"

section \<open>Strings\<close>

definition strncpy_ip :: "string \<Rightarrow> string" where
  "strncpy_ip s = take (MAX_IP_LEN - 1) s"

section \<open>Validation\<close>

text \<open>One part of a dotted address: one to three digits, no leading zero, at most 255.\<close>

definition octet_ok :: "string \<Rightarrow> bool" where
  "octet_ok s \<longleftrightarrow> s \<noteq> [] \<and> length s \<le> 3 \<and> list_all is_digit_char s \<and>
     (length s > 1 \<longrightarrow> hd s \<noteq> CHR ''0'') \<and> decimal_value s \<le> 255"

fun split_dots :: "string \<Rightarrow> string list" where
  "split_dots [] = [[]]"
| "split_dots (c # cs) =
     (if c = CHR ''.'' then [] # split_dots cs
      else (case split_dots cs of [] \<Rightarrow> [[c]] | p # ps \<Rightarrow> (c # p) # ps))"

text \<open>\<open>inet_pton\<close> for \<open>AF_INET\<close>; a null pointer is refused before.\<close>

definition validate_ip :: "string option \<Rightarrow> bool" where
  "validate_ip ip =
     (case ip of None \<Rightarrow> False | Some s \<Rightarrow> length (split_dots s) = 4 \<and> list_all octet_ok (split_dots s))"

definition validate_percentage :: "double_t \<Rightarrow> bool" where
  "validate_percentage d = (case d of Num x \<Rightarrow> 0 \<le> x \<and> x \<le> 100 | _ \<Rightarrow> False)"

definition validate_latency :: "double_t \<Rightarrow> bool" where
  "validate_latency d = (case d of Num x \<Rightarrow> 0 \<le> x | Infinite positive \<Rightarrow> positive | NaN \<Rightarrow> False)"

section \<open>Decoding forms\<close>

text \<open>
  The loop of \<open>url_decode\<close> with room for \<open>k\<close> more characters: what it writes before the terminator. A \<open>%\<close> that is not
  followed by two hexadecimal digits is copied.
\<close>

fun url_decode_loop :: "nat \<Rightarrow> string \<Rightarrow> char list" where
  "url_decode_loop 0 src = []"
| "url_decode_loop (Suc k) [] = []"
| "url_decode_loop (Suc k) (c # cs) =
     (if c = CHR ''%'' \<and> length cs \<ge> 2 \<and> is_xdigit (cs ! 0) \<and> is_xdigit (cs ! 1)
      then char_of (16 * xdigit_value (cs ! 0) + xdigit_value (cs ! 1)) # url_decode_loop k (drop 2 cs)
      else if c = CHR ''+'' then CHR '' '' # url_decode_loop k cs
      else c # url_decode_loop k cs)"

text \<open>The room is \<open>dst_size - 1\<close> in the arithmetic of \<open>size_t\<close>, which wraps at 0.\<close>

definition url_decode :: "nat \<Rightarrow> string \<Rightarrow> char list" where
  "url_decode dst_size src = url_decode_loop (if dst_size = 0 then 2 ^ 64 - 1 else dst_size - 1) src @ [nul]"

definition parse_key_value :: "string \<Rightarrow> nat \<Rightarrow> nat \<Rightarrow> (string \<times> char list) option" where
  "parse_key_value pair key_len value_len =
     (let key = takeWhile (\<lambda>c. c \<noteq> CHR ''='') pair; rest = dropWhile (\<lambda>c. c \<noteq> CHR ''='') pair in
      if rest = [] then None
      else if length key \<ge> key_len then None
      else if length (tl rest) \<ge> value_len then None
      else Some (key, url_decode value_len (tl rest)))"

text \<open>One field of a form: the data with the field set, and whether it counts.\<close>

definition set_field :: "(string \<Rightarrow> double_t) \<Rightarrow> string \<Rightarrow> string \<Rightarrow> HeartbeatData \<Rightarrow> HeartbeatData \<times> bool" where
  "set_field atof key value hb =
     (if key = ''local_ip'' \<and> validate_ip (Some value) then (hb\<lparr>hb_local_ip := strncpy_ip value\<rparr>, True)
      else if key = ''public_ip'' \<and> validate_ip (Some value) then (hb\<lparr>hb_public_ip := strncpy_ip value\<rparr>, True)
      else if key = ''cpu_usage''
      then (if validate_percentage (atof value) then (hb\<lparr>hb_cpu_usage := atof value\<rparr>, True) else (hb, False))
      else if key = ''memory_usage''
      then (if validate_percentage (atof value) then (hb\<lparr>hb_memory_usage := atof value\<rparr>, True) else (hb, False))
      else if key = ''disk_usage''
      then (if validate_percentage (atof value) then (hb\<lparr>hb_disk_usage := atof value\<rparr>, True) else (hb, False))
      else if key = ''availability''
      then (if validate_percentage (atof value) then (hb\<lparr>hb_availability := atof value\<rparr>, True) else (hb, False))
      else if key = ''latency''
      then (if validate_latency (atof value) then (hb\<lparr>hb_latency := atof value\<rparr>, True) else (hb, False))
      else (hb, False))"

fun form_loop :: "(string \<Rightarrow> double_t) \<Rightarrow> string list \<Rightarrow> HeartbeatData \<Rightarrow> nat \<Rightarrow> HeartbeatData \<times> nat" where
  "form_loop atof [] hb fields_set = (hb, fields_set)"
| "form_loop atof (pair # pairs) hb fields_set =
     (case parse_key_value pair MAX_KEY_LEN MAX_VALUE_LEN of
        None \<Rightarrow> form_loop atof pairs hb fields_set
      | Some (key, value) \<Rightarrow>
          (case set_field atof (c_string key) (c_string value) hb of
             (hb', counts) \<Rightarrow> form_loop atof pairs hb' (if counts then Suc fields_set else fields_set)))"

definition process_form :: "(string \<Rightarrow> double_t) \<Rightarrow> string \<Rightarrow> HeartbeatData \<Rightarrow> bool \<times> HeartbeatData" where
  "process_form atof form hb =
     (case form_loop atof (strtok (CHR ''&'') form) hb 0 of (hb', fields_set) \<Rightarrow> (fields_set = 7, hb'))"

section \<open>JSON reports\<close>

text \<open>
  The JSON library: parsing gives an object, if it succeeds, as a lookup of its members; a member is read as a
  string (a null pointer for the null value) or as a number.
\<close>

record 'j json_lib =
  jl_parse :: "string \<Rightarrow> (string \<Rightarrow> 'j option) option"
  jl_string :: "'j \<Rightarrow> string option"
  jl_double :: "'j \<Rightarrow> double_t"
  jl_print :: "(HeartbeatData \<times> int) list \<Rightarrow> string"

definition json_members :: "string list" where
  "json_members = [''local_ip'', ''public_ip'', ''cpu_usage'', ''memory_usage'', ''disk_usage'', ''availability'', ''latency'']"

definition values_ok :: "HeartbeatData \<Rightarrow> bool" where
  "values_ok hb \<longleftrightarrow> validate_percentage (hb_cpu_usage hb) \<and> validate_percentage (hb_memory_usage hb) \<and>
     validate_percentage (hb_disk_usage hb) \<and> validate_percentage (hb_availability hb) \<and> validate_latency (hb_latency hb)"

definition process_json_data ::
  "'j json_lib \<Rightarrow> string option \<Rightarrow> HeartbeatData option \<Rightarrow> bool \<times> HeartbeatData option" where
  "process_json_data lib json_str hb_data =
     (case (json_str, hb_data) of
        (Some s, Some hb) \<Rightarrow>
          (case jl_parse lib s of
             None \<Rightarrow> (False, hb_data)
           | Some get \<Rightarrow>
               if \<not> list_all (\<lambda>k. get k \<noteq> None) json_members then (False, hb_data)
               else
                 let str = (\<lambda>k. jl_string lib (the (get k))); num = (\<lambda>k. jl_double lib (the (get k))) in
                 (case (str ''local_ip'', str ''public_ip'') of
                    (Some local_ip, Some public_ip) \<Rightarrow>
                      if \<not> validate_ip (Some local_ip) \<or> \<not> validate_ip (Some public_ip) then (False, hb_data)
                      else
                        let hb' = hb\<lparr>hb_local_ip := strncpy_ip local_ip, hb_public_ip := strncpy_ip public_ip,
                                     hb_cpu_usage := num ''cpu_usage'', hb_memory_usage := num ''memory_usage'',
                                     hb_disk_usage := num ''disk_usage'', hb_availability := num ''availability'',
                                     hb_latency := num ''latency''\<rparr>
                        in (values_ok hb', Some hb')
                  | _ \<Rightarrow> (False, hb_data)))
      | _ \<Rightarrow> (False, hb_data))"

section \<open>History\<close>

definition clear_heartbeat_history :: "heartbeat_history \<Rightarrow> heartbeat_history" where
  "clear_heartbeat_history h = h\<lparr>hh_nodes := [], hh_count := 0\<rparr>"

text \<open>
  The walk to the last node removes it if it has a predecessor.
\<close>

fun remove_last :: "'a list \<Rightarrow> 'a list \<times> bool" where
  "remove_last [] = ([], False)"
| "remove_last [x] = ([x], False)"
| "remove_last (x # y # xs) = (case remove_last (y # xs) of (ys, _) \<Rightarrow> (if xs = [] then [x] else x # ys, True))"

definition add_to_history :: "bool \<Rightarrow> int \<Rightarrow> HeartbeatData \<Rightarrow> heartbeat_history \<Rightarrow> heartbeat_history" where
  "add_to_history malloc_ok now data h =
     (if \<not> malloc_ok then h
      else
        let nodes = (data, now) # hh_nodes h; count = hh_count h + 1 in
        if count > MAX_HEARTBEATS
        then (case remove_last nodes of
                (nodes', removed) \<Rightarrow> h\<lparr>hh_nodes := nodes', hh_count := (if removed then count - 1 else count)\<rparr>)
        else h\<lparr>hh_nodes := nodes, hh_count := count\<rparr>)"

text \<open>\<open>array_ok\<close>: whether the JSON array and the copy of its text could be allocated.\<close>

definition get_history_json :: "'j json_lib \<Rightarrow> bool \<Rightarrow> heartbeat_history \<Rightarrow> string option" where
  "get_history_json lib array_ok h = (if \<not> array_ok then None else Some (jl_print lib (hh_nodes h)))"

section \<open>Requests\<close>

definition crlf :: string where "crlf = [CHR 0x0D, CHR 0x0A]"

definition http_message :: "string \<Rightarrow> string \<Rightarrow> string \<Rightarrow> string \<Rightarrow> string" where
  "http_message status content_type content_length body =
     ''HTTP/1.1 '' @ status @ crlf @ ''Content-Type: '' @ content_type @ crlf @ ''Connection: close'' @ crlf @
     ''Content-Length: '' @ content_length @ crlf @ crlf @ body"

text \<open>\<open>snprintf\<close> into a buffer of \<open>BUFFER_SIZE\<close>: the rest is cut off.\<close>

definition history_response :: "string \<Rightarrow> string" where
  "history_response json =
     take (BUFFER_SIZE - 1) (http_message ''200 OK'' ''application/json'' (show_nat (length json)) json)"

definition history_failed :: string where
  "history_failed = http_message ''500 Internal Server Error'' ''text/plain'' ''21'' ''Failed to get history''"

definition no_body_response :: string where
  "no_body_response = ''HTTP/1.1 400 Bad Request'' @ crlf @ crlf"

definition ok_response :: string where
  "ok_response = http_message ''200 OK'' ''text/plain'' ''2'' ''OK''"

definition invalid_response :: string where
  "invalid_response = http_message ''400 Bad Request'' ''text/plain'' ''16'' ''Invalid data sent''"

definition not_found_response :: string where
  "not_found_response = http_message ''404 Not Found'' ''text/plain'' ''9'' ''Not Found''"

datatype hb_event = HSent string | HClosed

record 'j hb_env =
  he_json :: "'j json_lib"
  he_atof :: "string \<Rightarrow> double_t"
  he_malloc :: bool
  he_array_ok :: bool
  he_now :: int

text \<open>
  A report in the body of a request: valid or not, and the data. The body is read as JSON or as a form by its
  first character.
\<close>

definition read_report :: "'j hb_env \<Rightarrow> string \<Rightarrow> bool \<times> HeartbeatData" where
  "read_report e body =
     (if take 1 body = ''{''
      then (case process_json_data (he_json e) (Some body) (Some zero_heartbeat) of
              (valid, Some hb) \<Rightarrow> (valid, hb) | (valid, None) \<Rightarrow> (valid, zero_heartbeat))
      else process_form (he_atof e) body zero_heartbeat)"

text \<open>\<open>handle_client\<close>: \<open>input\<close> is what \<open>read\<close> returned, \<^const>\<open>None\<close> for an error.\<close>

definition handle_client ::
  "'j hb_env \<Rightarrow> char list option \<Rightarrow> heartbeat_history \<Rightarrow> heartbeat_history \<times> hb_event list" where
  "handle_client e input h =
     (case input of
        None \<Rightarrow> (h, [HClosed])
      | Some bytes \<Rightarrow>
          if bytes = [] then (h, [HClosed])
          else
            let buffer = c_string (take (BUFFER_SIZE - 1) bytes) in
            if take 1 buffer = ''{''
            then (case read_report e buffer of
                    (valid, hb) \<Rightarrow>
                      if valid then (add_to_history (he_malloc e) (he_now e) hb h, [HSent ''OK'', HClosed])
                      else (h, [HSent ''Invalid JSON data'', HClosed]))
            else if strstr buffer ''GET /api/heartbeat/history'' \<noteq> None
            then (case get_history_json (he_json e) (he_array_ok e) h of
                    Some json \<Rightarrow> (h, [HSent (history_response json), HClosed])
                  | None \<Rightarrow> (h, [HSent history_failed, HClosed]))
            else if strstr buffer ''POST /api/heartbeat'' \<noteq> None
            then (case strstr buffer (crlf @ crlf) of
                    None \<Rightarrow> (h, [HSent no_body_response, HClosed])
                  | Some rest \<Rightarrow>
                      (case read_report e (drop 4 rest) of
                         (valid, hb) \<Rightarrow>
                           if valid then (add_to_history (he_malloc e) (he_now e) hb h, [HSent ok_response, HClosed])
                           else (h, [HSent invalid_response, HClosed])))
            else (h, [HSent not_found_response, HClosed]))"

text \<open>
  The threads of the TCP and the HTTP server start \<open>handle_client\<close> for every connection they accept; its one access to the history is
  one step, so any interleaving is a sequence of calls.
\<close>

fun serve :: "('j hb_env \<times> char list option) list \<Rightarrow> heartbeat_history \<Rightarrow> heartbeat_history" where
  "serve [] h = h"
| "serve ((e, input) # rs) h = serve rs (fst (handle_client e input h))"

section \<open>Starting a server\<close>

text \<open>
  The two server threads before their loops: the listening socket, if the loop is reached, and the descriptors that were
  closed. A negative descriptor passes the test for a failed \<open>socket\<close>, which compares with 0.
\<close>

record listen_env =
  le_socket :: int
  le_setsockopt :: int
  le_bind :: "int \<Rightarrow> int"
  le_listen :: int

definition HTTP_PORT :: int where "HTTP_PORT = 8080"
definition TCP_PORT :: int where "TCP_PORT = 8081"

definition open_server :: "int \<Rightarrow> listen_env \<Rightarrow> int option \<times> int list" where
  "open_server port e =
     (if le_socket e = 0 then (None, [])
      else if le_setsockopt e \<noteq> 0 then (None, [le_socket e])
      else if le_bind e port < 0 then (None, [le_socket e])
      else if le_listen e < 0 then (None, [le_socket e])
      else (Some (le_socket e), []))"

text \<open>
  One iteration of the accept loop: the accepted socket, if a thread runs \<open>handle_client\<close> on it, and the descriptors closed. \<open>pthread_create\<close>
  reports failure by a positive number, which is not below 0.
\<close>

record accept_env =
  ae_malloc :: bool
  ae_socket :: int
  ae_thread :: int

definition accept_client :: "accept_env \<Rightarrow> int option \<times> int list" where
  "accept_client a =
     (if \<not> ae_malloc a then (None, [])
      else if ae_socket a < 0 then (None, [])
      else if ae_thread a < 0 then (None, [ae_socket a])
      else (if ae_thread a = 0 then Some (ae_socket a) else None, []))"

text \<open>The first iterations of the loop: the sockets given to a thread and the sockets closed.\<close>

fun accept_loop :: "accept_env list \<Rightarrow> int list \<times> int list" where
  "accept_loop [] = ([], [])"
| "accept_loop (a # as) =
     (case (accept_client a, accept_loop as) of
        ((handled, cl), (hs, cs)) \<Rightarrow> ((case handled of None \<Rightarrow> hs | Some fd \<Rightarrow> fd # hs), cl @ cs))"

definition run_tcp_server :: "listen_env \<Rightarrow> accept_env list \<Rightarrow> int list \<times> int list" where
  "run_tcp_server e as =
     (case open_server TCP_PORT e of
        (None, cl) \<Rightarrow> ([], cl)
      | (Some server_fd, cl) \<Rightarrow> (case accept_loop as of (hs, cs) \<Rightarrow> (hs, cl @ cs)))"

definition run_http_server :: "listen_env \<Rightarrow> accept_env list \<Rightarrow> int list \<times> int list" where
  "run_http_server e as =
     (case open_server HTTP_PORT e of
        (None, cl) \<Rightarrow> ([], cl)
      | (Some server_fd, cl) \<Rightarrow> (case accept_loop as of (hs, cs) \<Rightarrow> (hs, cl @ cs)))"

section \<open>Lemmas\<close>

lemma remove_last_eq: "remove_last xs = (if length xs \<ge> 2 then (butlast xs, True) else (xs, False))"
  by (induction xs rule: remove_last.induct) (auto simp: Suc_le_eq)

definition hist_inv :: "heartbeat_history \<Rightarrow> bool" where
  "hist_inv h \<longleftrightarrow> hh_count h = int (length (hh_nodes h)) \<and> length (hh_nodes h) \<le> 100"

lemma add_to_history_nodes:
  assumes "hist_inv h"
  shows "hh_nodes (add_to_history True now d h) = take 100 ((d, now) # hh_nodes h)"
    and "hist_inv (add_to_history True now d h)"
proof -
  have "hist_inv (add_to_history True now d h) \<and> hh_nodes (add_to_history True now d h) = take 100 ((d, now) # hh_nodes h)"
  proof (cases "length (hh_nodes h) = 100")
    case True
    then have "butlast ((d, now) # hh_nodes h) = take 100 ((d, now) # hh_nodes h)"
      by (subst butlast_conv_take) simp
    then show ?thesis
      using True assms by (auto simp: add_to_history_def remove_last_eq hist_inv_def MAX_HEARTBEATS_def Let_def)
  next
    case False
    then show ?thesis using assms by (auto simp: add_to_history_def hist_inv_def MAX_HEARTBEATS_def Let_def)
  qed
  then show "hh_nodes (add_to_history True now d h) = take 100 ((d, now) # hh_nodes h)"
    and "hist_inv (add_to_history True now d h)" by simp_all
qed

lemma take_append_take: "take n (xs @ take n ys) = take n (xs @ ys)"
  by (simp add: min_def)

lemma add_to_history_inv: "hist_inv h \<Longrightarrow> hist_inv (add_to_history ok now d h)"
  using add_to_history_nodes(2)[of h] by (cases ok) (auto simp: add_to_history_def)

text \<open>A report whose values are in range and whose addresses are valid or were never set.\<close>

definition report_ok :: "HeartbeatData \<Rightarrow> bool" where
  "report_ok hb \<longleftrightarrow> values_ok hb \<and>
     (hb_local_ip hb = [] \<or> validate_ip (Some (hb_local_ip hb))) \<and>
     (hb_public_ip hb = [] \<or> validate_ip (Some (hb_public_ip hb)))"

lemma split_dots_nonempty: "split_dots s \<noteq> []"
  by (induction s) (auto split: list.splits)

lemma length_split_dots: "length s + 1 = sum_list (map length (split_dots s)) + length (split_dots s)"
proof (induction s)
  case (Cons c s)
  then show ?case using split_dots_nonempty[of s] by (cases "split_dots s") auto
qed simp

text \<open>A valid address fits its field, so copying it loses nothing.\<close>

lemma sum_list_octets: "list_all octet_ok ps \<Longrightarrow> sum_list (map length ps) \<le> 3 * length ps"
  by (induction ps) (auto simp: octet_ok_def)

lemma valid_ip_length:
  assumes "validate_ip (Some s)"
  shows "length s \<le> 15"
proof -
  have "list_all octet_ok (split_dots s)" and "length (split_dots s) = 4" using assms by (auto simp: validate_ip_def)
  then show ?thesis using length_split_dots[of s] sum_list_octets[of "split_dots s"] by simp
qed

lemma strncpy_ip_valid: "validate_ip (Some s) \<Longrightarrow> strncpy_ip s = s"
  using valid_ip_length[of s] by (simp add: strncpy_ip_def MAX_IP_LEN_def)

lemma zero_report_ok: "report_ok zero_heartbeat"
  by (simp add: report_ok_def values_ok_def zero_heartbeat_def validate_percentage_def validate_latency_def)

lemma set_field_ok: "report_ok hb \<Longrightarrow> report_ok (fst (set_field atof key value hb))"
  by (simp add: set_field_def report_ok_def values_ok_def strncpy_ip_valid)

lemma form_loop_ok: "report_ok hb \<Longrightarrow> report_ok (fst (form_loop atof pairs hb n))"
proof (induction pairs arbitrary: hb n)
  case (Cons pair pairs)
  show ?case
  proof (cases "parse_key_value pair MAX_KEY_LEN MAX_VALUE_LEN")
    case (Some kv)
    obtain key val where kv: "kv = (key, val)" by fastforce
    obtain hb' b where f: "set_field atof (c_string key) (c_string val) hb = (hb', b)" by fastforce
    then have "report_ok hb'" using set_field_ok[OF Cons.prems] by (metis fst_conv)
    then show ?thesis using Cons.IH Some kv f by simp
  qed (use Cons in simp)
qed simp

lemma json_ok:
  assumes "process_json_data lib (Some s) (Some zero_heartbeat) = (True, Some hb)"
  shows "report_ok hb"
  using assms
  by (auto simp: process_json_data_def report_ok_def values_ok_def Let_def strncpy_ip_valid split: option.splits if_splits)

lemma read_report_ok: "read_report e body = (True, hb) \<Longrightarrow> report_ok hb"
  using form_loop_ok[OF zero_report_ok, of "he_atof e" "strtok (CHR ''&'') body" 0]
  by (auto simp: read_report_def process_form_def zero_report_ok intro: json_ok split: if_splits prod.splits option.splits)

lemma handle_client_history:
  "fst (handle_client e input h) = h \<or>
   (\<exists>hb. report_ok hb \<and> fst (handle_client e input h) = add_to_history (he_malloc e) (he_now e) hb h)"
  by (auto simp: handle_client_def Let_def split: option.splits prod.splits dest: read_report_ok)

lemma add_to_history_subset: "set (hh_nodes (add_to_history ok now d h)) \<subseteq> insert (d, now) (set (hh_nodes h))"
  by (auto simp: add_to_history_def remove_last_eq Let_def dest: in_set_butlastD)

section \<open>Properties\<close>

text \<open>The history is the newest hundred reports, newest first: after any sequence of reports it consists of them in
  reverse order followed by what was there before, cut off after one hundred, and the counter is its length.\<close>

theorem history_keeps_newest:
  assumes "hist_inv h"
  shows "hh_nodes (fold (\<lambda>(d, now). add_to_history True now d) rs h) = take 100 (rev rs @ hh_nodes h) \<and>
    hist_inv (fold (\<lambda>(d, now). add_to_history True now d) rs h)"
  using assms
proof (induction rs arbitrary: h)
  case Nil
  then show ?case by (simp add: hist_inv_def)
next
  case (Cons r rs)
  obtain d now where r: "r = (d, now)" by fastforce
  have "take 100 (rev rs @ take 100 ((d, now) # hh_nodes h)) = take 100 (rev rs @ (d, now) # hh_nodes h)"
    by (rule take_append_take)
  then show ?case using Cons.IH[of "add_to_history True now d h"] add_to_history_nodes[OF Cons.prems] r by simp
qed

theorem history_keeps_newest_witness:
  "hh_nodes (fold (\<lambda>(d, now). add_to_history True now d) [(zero_heartbeat, 1), (zero_heartbeat, 2)] \<lparr>hh_nodes = [], hh_count = 0\<rparr>) =
     [(zero_heartbeat, 2), (zero_heartbeat, 1)]"
  using history_keeps_newest[of "\<lparr>hh_nodes = [], hh_count = 0\<rparr>" "[(zero_heartbeat, 1), (zero_heartbeat, 2)]"]
  by (simp add: hist_inv_def)

text \<open>C18: Whatever requests arrive on either port, every stored report has percentages between 0 and 100, a latency of at
  least 0 and addresses that are valid or empty, the counter is right and at most one hundred reports are kept.\<close>

theorem stored_reports_valid:
  assumes "hist_inv h" and "\<forall>(d, t) \<in> set (hh_nodes h). report_ok d"
  shows "hist_inv (serve rs h) \<and> (\<forall>(d, t) \<in> set (hh_nodes (serve rs h)). report_ok d)"
  using assms
proof (induction rs arbitrary: h)
  case (Cons r rs)
  obtain e input where r: "r = (e, input)" by fastforce
  let ?h = "fst (handle_client e input h)"
  from handle_client_history[of e input h]
  have "hist_inv ?h \<and> (\<forall>(d, t) \<in> set (hh_nodes ?h). report_ok d)"
  proof (elim disjE exE conjE)
    fix hb assume hb: "report_ok hb" "?h = add_to_history (he_malloc e) (he_now e) hb h"
    then show ?thesis
      using add_to_history_inv[OF Cons.prems(1), of "he_malloc e" "he_now e" hb]
        add_to_history_subset[of "he_malloc e" "he_now e" hb h] Cons.prems(2) by fastforce
  qed (use Cons.prems in simp)
  then show ?case using Cons.IH[of ?h] r by simp
qed simp

text \<open>A form as an agent sends it, and the reading of numbers for it.\<close>

definition sample_form :: string where
  "sample_form = ''local_ip=10.0.0.1&public_ip=8.8.8.8&cpu_usage=5&memory_usage=5&disk_usage=5&availability=5&latency=5''"

definition sample_post :: "char list" where
  "sample_post = ''POST /api/heartbeat'' @ crlf @ crlf @ sample_form"

definition sample_hb_env :: "nat hb_env" where
  "sample_hb_env = \<lparr>he_json = \<lparr>jl_parse = (\<lambda>_. None), jl_string = (\<lambda>_. None), jl_double = (\<lambda>_. NaN), jl_print = (\<lambda>_. [])\<rparr>,
     he_atof = (\<lambda>_. Num 5), he_malloc = True, he_array_ok = True, he_now = 9\<rparr>"

lemma sample_form_accepted:
  "process_form (\<lambda>_. Num 5) sample_form zero_heartbeat =
     (True, \<lparr>hb_local_ip = ''10.0.0.1'', hb_public_ip = ''8.8.8.8'', hb_cpu_usage = Num 5, hb_memory_usage = Num 5,
        hb_disk_usage = Num 5, hb_availability = Num 5, hb_latency = Num 5\<rparr>)"
  by code_simp

lemma sample_served:
  "map snd (hh_nodes (serve [(sample_hb_env, Some sample_post)] \<lparr>hh_nodes = [], hh_count = 0\<rparr>)) = [9]"
  by code_simp

theorem stored_reports_valid_witness:
  "\<exists>d. hh_nodes (serve [(sample_hb_env, Some sample_post)] \<lparr>hh_nodes = [], hh_count = 0\<rparr>) = [(d, 9)] \<and> report_ok d"
  using stored_reports_valid[of "\<lparr>hh_nodes = [], hh_count = 0\<rparr>" "[(sample_hb_env, Some sample_post)]"] sample_served
  by (auto simp: hist_inv_def map_eq_Cons_conv)

section \<open>URL decoding\<close>

text \<open>Percent encoding as agents may apply it: letters and digits stand for themselves.\<close>

definition plain_char :: "char \<Rightarrow> bool" where
  "plain_char c \<longleftrightarrow> is_digit_char c \<or> (65 \<le> (of_char c :: nat) \<and> (of_char c :: nat) \<le> 90) \<or>
     (97 \<le> (of_char c :: nat) \<and> (of_char c :: nat) \<le> 122)"

definition url_encode_char :: "char \<Rightarrow> string" where
  "url_encode_char c =
     (if plain_char c then [c] else [CHR ''%'', hex_char (of_char c div 16), hex_char (of_char c mod 16)])"

definition url_encode :: "string \<Rightarrow> string" where
  "url_encode s = concat (map url_encode_char s)"

lemma plain_char_copied: "plain_char c \<Longrightarrow> c \<noteq> CHR ''%'' \<and> c \<noteq> CHR ''+''"
  by (auto simp: plain_char_def is_digit_char_def)

lemma url_decode_loop_encode: "length s \<le> k \<Longrightarrow> url_decode_loop k (url_encode s) = s"
proof (induction s arbitrary: k)
  case Nil
  then show ?case by (cases k) (simp_all add: url_encode_def)
next
  case (Cons c s)
  then obtain k' where k: "k = Suc k'" "length s \<le> k'" by (cases k) auto
  have e: "url_encode (c # s) = url_encode_char c @ url_encode s" by (simp add: url_encode_def)
  show ?case
  proof (cases "plain_char c")
    case True
    then show ?thesis using Cons.IH[OF k(2)] k plain_char_copied[of c] by (simp add: e url_encode_char_def)
  next
    case False
    let ?n = "of_char c :: nat"
    have "?n div 16 < 16" using nat_of_char_less_256[of c] by (simp add: less_mult_imp_div_less)
    then have h: "is_xdigit (hex_char (?n div 16))" "xdigit_value (hex_char (?n div 16)) = ?n div 16"
      "is_xdigit (hex_char (?n mod 16))" "xdigit_value (hex_char (?n mod 16)) = ?n mod 16"
      using hex_char_digit by simp_all
    have "16 * (?n div 16) + ?n mod 16 = ?n" by simp
    then have "char_of (16 * (?n div 16) + ?n mod 16) = c" by (metis char_of_char)
    then show ?thesis using False Cons.IH[OF k(2)] k h by (simp add: e url_encode_char_def)
  qed
qed

lemma length_url_decode_loop: "length (url_decode_loop k src) \<le> k"
  by (induction k src rule: url_decode_loop.induct) auto

text \<open>URL decoding never writes more than the buffer holds, terminator included, and inverts percent encoding for
  every string that fits.\<close>

theorem url_decode_inverts_encode:
  assumes "0 < n"
  shows "length (url_decode n src) \<le> n \<and> (length s < n \<longrightarrow> url_decode n (url_encode s) = s @ [nul])"
  using assms length_url_decode_loop[of "n - 1" src] url_decode_loop_encode[of s "n - 1"]
  by (auto simp: url_decode_def)

theorem url_decode_inverts_encode_witness:
  "url_decode 8 (url_encode ''a&b=c'') = ''a&b=c'' @ [nul] \<and> url_encode ''a&b=c'' = ''a%26b%3Dc''"
proof -
  have "url_encode ''a&b=c'' = ''a%26b%3Dc''" by code_simp
  then show ?thesis using url_decode_inverts_encode[of 8 "[]" "''a&b=c''"] by simp
qed

section \<open>Forms and answers\<close>

text \<open>Whether a pair of a form counts as a field.\<close>

definition pair_counts :: "(string \<Rightarrow> double_t) \<Rightarrow> string \<Rightarrow> bool" where
  "pair_counts atof pair =
     (case parse_key_value pair MAX_KEY_LEN MAX_VALUE_LEN of
        None \<Rightarrow> False
      | Some (key, value) \<Rightarrow>
          let k = c_string key; v = c_string value in
          (k = ''local_ip'' \<or> k = ''public_ip'') \<and> validate_ip (Some v) \<or>
          (k = ''cpu_usage'' \<or> k = ''memory_usage'' \<or> k = ''disk_usage'' \<or> k = ''availability'') \<and> validate_percentage (atof v) \<or>
          k = ''latency'' \<and> validate_latency (atof v))"

lemma set_field_counts:
  "snd (set_field atof k v hb) \<longleftrightarrow>
     (k = ''local_ip'' \<or> k = ''public_ip'') \<and> validate_ip (Some v) \<or>
     (k = ''cpu_usage'' \<or> k = ''memory_usage'' \<or> k = ''disk_usage'' \<or> k = ''availability'') \<and> validate_percentage (atof v) \<or>
     k = ''latency'' \<and> validate_latency (atof v)"
  by (auto simp: set_field_def)

lemma form_loop_count: "snd (form_loop atof pairs hb n) = n + length (filter (pair_counts atof) pairs)"
proof (induction pairs arbitrary: hb n)
  case (Cons pair pairs)
  show ?case
  proof (cases "parse_key_value pair MAX_KEY_LEN MAX_VALUE_LEN")
    case (Some kv)
    obtain key val where kv: "kv = (key, val)" by fastforce
    obtain hb' b where f: "set_field atof (c_string key) (c_string val) hb = (hb', b)" by fastforce
    have "pair_counts atof pair = b"
      using set_field_counts[of atof "c_string key" "c_string val" hb] f Some kv by (simp add: pair_counts_def Let_def)
    then show ?thesis using Cons.IH[of hb'] Some kv f by simp
  qed (use Cons.IH in \<open>simp add: pair_counts_def\<close>)
qed simp

definition repeated_form :: string where
  "repeated_form = ''latency=5&latency=5&latency=5&latency=5&latency=5&latency=5&latency=5''"

text \<open>A form is accepted exactly if seven of its pairs are valid fields. Repeated fields count each time: a form
  with the same field seven times is accepted, and its report has no addresses.\<close>

theorem form_accepted_iff:
  "(fst (process_form atof form hb) \<longleftrightarrow> length (filter (pair_counts atof) (strtok (CHR ''&'') form)) = 7) \<and>
   process_form (\<lambda>_. Num 5) repeated_form zero_heartbeat = (True, zero_heartbeat\<lparr>hb_latency := Num 5\<rparr>)"
proof -
  have "process_form (\<lambda>_. Num 5) repeated_form zero_heartbeat = (True, zero_heartbeat\<lparr>hb_latency := Num 5\<rparr>)" by code_simp
  then show ?thesis
    using form_loop_count[of atof "strtok (CHR ''&'') form" hb 0] by (simp add: process_form_def case_prod_beta)
qed

text \<open>The announced length is the length of the body.\<close>

definition well_framed :: "string \<Rightarrow> string \<Rightarrow> bool" where
  "well_framed r body \<longleftrightarrow> (\<exists>status ctype. r = http_message status ctype (show_nat (length body)) body)"

lemma show_small:
  "show_nat (length ''OK'') = ''2''" "show_nat (length ''Not Found'') = ''9''"
  "show_nat (length ''Failed to get history'') = ''21''" "show_nat (length ''Invalid data sent'') = ''17''"
  by code_simp+

lemma well_framedI: "show_nat (length b) = n \<Longrightarrow> well_framed (http_message status ctype n b) b"
  unfolding well_framed_def by blast

lemma handle_client_answers:
  "\<exists>r. snd (handle_client e input h) = (if input = None \<or> input = Some [] then [HClosed] else [HSent r, HClosed])"
proof (cases input)
  case (Some bytes)
  then show ?thesis
  proof (cases bytes)
    case (Cons b bs)
    then show ?thesis
      unfolding Some handle_client_def Let_def by (simp split: option.split prod.split)
  qed (simp add: handle_client_def)
qed (simp add: handle_client_def)

text \<open>Every connection is closed exactly once, after exactly one answer if anything was read. The answers announce the
  length of their body, except two: the answer to invalid data announces 16 bytes and has 17, and a history longer than the
  buffer is cut off behind the announced length.\<close>

theorem every_request_answered_once:
  "(\<exists>h' r. handle_client e input h = (h', if input = None \<or> input = Some [] then [HClosed] else [HSent r, HClosed])) \<and>
   well_framed ok_response ''OK'' \<and> well_framed not_found_response ''Not Found'' \<and>
   well_framed history_failed ''Failed to get history'' \<and>
   invalid_response = http_message ''400 Bad Request'' ''text/plain'' ''16'' ''Invalid data sent'' \<and>
   show_nat (length ''Invalid data sent'') = ''17'' \<and>
   (let whole = http_message ''200 OK'' ''application/json'' (show_nat (length json)) json in
    history_response json = whole \<longleftrightarrow> length whole < BUFFER_SIZE)"
proof -
  obtain r where "snd (handle_client e input h) = (if input = None \<or> input = Some [] then [HClosed] else [HSent r, HClosed])"
    using handle_client_answers by blast
  then have "handle_client e input h =
      (fst (handle_client e input h), if input = None \<or> input = Some [] then [HClosed] else [HSent r, HClosed])"
    by (simp only: prod_eq_iff fst_conv snd_conv)
  then have "\<exists>h' r. handle_client e input h = (h', if input = None \<or> input = Some [] then [HClosed] else [HSent r, HClosed])"
    by blast
  moreover have "well_framed ok_response ''OK''" unfolding ok_response_def by (rule well_framedI) (rule show_small)
  moreover have "well_framed not_found_response ''Not Found''"
    unfolding not_found_response_def by (rule well_framedI) (rule show_small)
  moreover have "well_framed history_failed ''Failed to get history''"
    unfolding history_failed_def by (rule well_framedI) (rule show_small)
  moreover have "history_response json = whole \<longleftrightarrow> length whole < BUFFER_SIZE"
    if "whole = http_message ''200 OK'' ''application/json'' (show_nat (length json)) json" for whole
    unfolding history_response_def that[symmetric] by (auto simp: BUFFER_SIZE_def)
  ultimately show ?thesis unfolding Let_def invalid_response_def using show_small(4) by blast
qed


section \<open>Accepted sockets\<close>

text \<open>The sockets an accept loop got from \<open>accept\<close>, and those of them whose thread could not be created.\<close>

definition accepted :: "accept_env list \<Rightarrow> int list" where
  "accepted as = map ae_socket (filter (\<lambda>a. ae_malloc a \<and> 0 \<le> ae_socket a) as)"

definition threadless :: "accept_env list \<Rightarrow> int list" where
  "threadless as = map ae_socket (filter (\<lambda>a. ae_malloc a \<and> 0 \<le> ae_socket a \<and> 0 < ae_thread a) as)"

text \<open>The result of \<open>pthread_create\<close> is 0 or a positive error number.\<close>

lemma accept_loop_sockets:
  "\<forall>a \<in> set as. 0 \<le> ae_thread a \<Longrightarrow>
   snd (accept_loop as) = [] \<and> mset (fst (accept_loop as)) + mset (threadless as) = mset (accepted as)"
proof (induction as)
  case (Cons a as)
  then show ?case by (auto simp: accept_client_def accepted_def threadless_def case_prod_beta)
qed (simp add: accepted_def threadless_def)

text \<open>A server whose socket could be opened gives each accepted connection to one thread, except
  the connections whose thread could not be created: since \<open>pthread_create\<close> returns 0 or a positive number, these are
  never closed. If the port cannot be bound the socket is closed and nothing is served.\<close>

theorem connections_handled_or_leaked:
  assumes "\<forall>a \<in> set as. 0 \<le> ae_thread a"
    and "le_socket e \<noteq> 0" and "le_setsockopt e = 0" and "0 \<le> le_listen e"
  shows "(0 \<le> le_bind e TCP_PORT \<longrightarrow> snd (run_tcp_server e as) = [] \<and>
           mset (fst (run_tcp_server e as)) + mset (threadless as) = mset (accepted as)) \<and>
         (le_bind e TCP_PORT < 0 \<longrightarrow> run_tcp_server e as = ([], [le_socket e])) \<and>
         (0 \<le> le_bind e HTTP_PORT \<longrightarrow> snd (run_http_server e as) = [] \<and>
           mset (fst (run_http_server e as)) + mset (threadless as) = mset (accepted as)) \<and>
         (le_bind e HTTP_PORT < 0 \<longrightarrow> run_http_server e as = ([], [le_socket e]))"
  using accept_loop_sockets[OF assms(1)] assms(2-)
  by (auto simp: run_tcp_server_def run_http_server_def open_server_def case_prod_beta)

theorem connections_handled_or_leaked_witness:
  "let e = \<lparr>le_socket = 3, le_setsockopt = 0, le_bind = (\<lambda>port. if port = TCP_PORT then 0 else -1), le_listen = 0\<rparr>;
       as = [\<lparr>ae_malloc = True, ae_socket = 4, ae_thread = 0\<rparr>, \<lparr>ae_malloc = True, ae_socket = 5, ae_thread = 11\<rparr>] in
   mset (fst (run_tcp_server e as)) + mset [5] = mset [4, 5] \<and> run_http_server e as = ([], [3])"
  using connections_handled_or_leaked[of
      "[\<lparr>ae_malloc = True, ae_socket = 4, ae_thread = 0\<rparr>, \<lparr>ae_malloc = True, ae_socket = 5, ae_thread = 11\<rparr>]"
      "\<lparr>le_socket = 3, le_setsockopt = 0, le_bind = (\<lambda>port. if port = TCP_PORT then 0 else -1), le_listen = 0\<rparr>"]
  by (simp add: Let_def accepted_def threadless_def TCP_PORT_def HTTP_PORT_def)

end
