(* ===== verification/Heartbeat_Client.thy ===== *)
theory Heartbeat_Client
  imports Heartbeat_Server
begin

text \<open>
  The heartbeat client (\<open>heartbeat_client.c\<close>): it measures the load of the machine and sends it to the heartbeat server. What it reads
  (\<open>/proc/stat\<close>, \<open>/proc/meminfo\<close>, \<open>statvfs\<close>, the network interfaces, the answer of the address service) is given by
  arguments. Computations with \<open>double\<close> are done with rational numbers, the infinities and NaN, without rounding; \<open>%.2f\<close> is a
  parameter. A buffer overflow is undefined (\<^const>\<open>None\<close>), \<open>exit\<close> is a result of its own.

  The theory shows that the percentages the client computes are in range, and that the heartbeat server refuses every report of this client,
  since the report lacks two of the members the server requires.
\<close>

section \<open>Measurements\<close>

definition divide_double :: "rat \<Rightarrow> rat \<Rightarrow> double_t" where
  "divide_double a b = (if b = 0 then (if a = 0 then NaN else Infinite (a > 0)) else Num (a / b))"

definition percent :: "double_t \<Rightarrow> double_t" where
  "percent d = (case d of Num x \<Rightarrow> Num (x * 100) | _ \<Rightarrow> d)"

text \<open>One reading of \<open>/proc/stat\<close>: it fails, or gives the four counters, which its first line always has.\<close>

type_synonym stat_line = "(rat \<times> rat \<times> rat \<times> rat) option"

text \<open>The static variables: total and idle time of the last reading, -1 at first.\<close>

record cpu_state =
  last_total_time :: rat
  last_idle_time :: rat

definition initial_cpu :: cpu_state where
  "initial_cpu = \<lparr>last_total_time = -1, last_idle_time = -1\<rparr>"

text \<open>The function calls itself after the first reading; each call takes one reading from the list, at most two.\<close>

fun get_cpu_usage :: "stat_line list \<Rightarrow> cpu_state \<Rightarrow> (double_t \<times> cpu_state) option" where
  "get_cpu_usage [] s = None"
| "get_cpu_usage (None # ls) s = Some (Num (-1), s)"
| "get_cpu_usage (Some (user, nice, system, idle) # ls) s =
     (let total_time = user + nice + system + idle in
      if last_total_time s = -1 then get_cpu_usage ls (s\<lparr>last_total_time := total_time, last_idle_time := idle\<rparr>)
      else Some (percent (divide_double (total_time - last_total_time s - (idle - last_idle_time s)) (total_time - last_total_time s)),
                 s\<lparr>last_total_time := total_time, last_idle_time := idle\<rparr>))"

text \<open>\<open>sscanf(line, "<name>: %llu kB", &x) == 1\<close>.\<close>

definition scan_meminfo :: "string \<Rightarrow> string \<Rightarrow> 64 word option" where
  "scan_meminfo name line =
     (if take (length name + 1) line \<noteq> name @ '':'' then None
      else
        let digits = takeWhile is_digit_char (dropWhile is_space_char (drop (length name + 1) line)) in
        if digits = [] then None else Some (of_nat (decimal_value digits)))"

record meminfo =
  mem_total :: "64 word"
  mem_free :: "64 word"
  mem_buffers :: "64 word"
  mem_cached :: "64 word"

text \<open>One line: the first of the four formats that matches sets its variable.\<close>

definition meminfo_line :: "string \<Rightarrow> meminfo \<Rightarrow> meminfo" where
  "meminfo_line line m =
     (case scan_meminfo ''MemTotal'' line of Some n \<Rightarrow> m\<lparr>mem_total := n\<rparr> | None \<Rightarrow>
      case scan_meminfo ''MemFree'' line of Some n \<Rightarrow> m\<lparr>mem_free := n\<rparr> | None \<Rightarrow>
      case scan_meminfo ''Buffers'' line of Some n \<Rightarrow> m\<lparr>mem_buffers := n\<rparr> | None \<Rightarrow>
      case scan_meminfo ''Cached'' line of Some n \<Rightarrow> m\<lparr>mem_cached := n\<rparr> | None \<Rightarrow> m)"

definition get_memory_usage :: "string option \<Rightarrow> double_t" where
  "get_memory_usage content =
     (case content of
        None \<Rightarrow> Num (-1)
      | Some text \<Rightarrow>
          let m = fold meminfo_line (read_lines 254 text) \<lparr>mem_total = 0, mem_free = 0, mem_buffers = 0, mem_cached = 0\<rparr>;
              used_mem = mem_total m - mem_free m - mem_buffers m - mem_cached m
          in percent (divide_double (of_nat (unat used_mem)) (of_nat (unat (mem_total m)))))"

definition get_disk_usage :: "(64 word \<times> 64 word) option \<Rightarrow> double_t" where
  "get_disk_usage fs_stats =
     (case fs_stats of
        None \<Rightarrow> Num (-1)
      | Some (f_blocks, f_bfree) \<Rightarrow> percent (divide_double (of_nat (unat (f_blocks - f_bfree))) (of_nat (unat f_blocks))))"

section \<open>Addresses\<close>

text \<open>A network interface: its name, whether it has an IPv4 address, and the text \<open>getnameinfo\<close> gives for it.\<close>

record interface =
  if_name :: string
  if_inet :: bool
  if_host :: "string option"

datatype 'a exits = Returned 'a | Exited int

text \<open>The buffer keeps its zeros if no interface qualifies; \<open>None\<close> for the list is a failure of \<open>getifaddrs\<close>.\<close>

fun search_interface :: "interface list \<Rightarrow> string exits" where
  "search_interface [] = Returned []"
| "search_interface (i # is) =
     (if if_inet i \<and> if_name i \<noteq> ''lo''
      then (case if_host i of None \<Rightarrow> Exited 1 | Some host \<Rightarrow> Returned host)
      else search_interface is)"

definition get_local_ip :: "interface list option \<Rightarrow> string exits" where
  "get_local_ip ifaddr = (case ifaddr of None \<Rightarrow> Exited 1 | Some is \<Rightarrow> search_interface is)"

text \<open>\<open>strncat\<close> to a buffer of 16 characters.\<close>

definition WriteMemoryCallback :: "char list \<Rightarrow> string \<Rightarrow> string option" where
  "WriteMemoryCallback contents buffer =
     (let result = buffer @ c_string contents in if length result < 16 then Some result else None)"

fun receive_chunks :: "char list list \<Rightarrow> string \<Rightarrow> string option" where
  "receive_chunks [] buffer = Some buffer"
| "receive_chunks (c # cs) buffer = Option.bind (WriteMemoryCallback c buffer) (receive_chunks cs)"

text \<open>\<open>chunks\<close>: what the service answers, \<^const>\<open>None\<close> if there is no connection handle.\<close>

definition get_public_ip :: "char list list option \<Rightarrow> string option" where
  "get_public_ip chunks = (case chunks of None \<Rightarrow> Some [] | Some cs \<Rightarrow> receive_chunks cs [])"

text \<open>\<open>calculate_latency\<close>, which nothing calls: the time of the name lookup, if the transfer succeeds; \<open>None\<close> is a missing handle, \<open>Some None\<close> a failed
  transfer.\<close>

definition calculate_latency :: "rat option option \<Rightarrow> rat" where
  "calculate_latency transfer = (case transfer of Some (Some namelookup_time) \<Rightarrow> namelookup_time | _ \<Rightarrow> 0)"

section \<open>The report\<close>

record utsname =
  un_nodename :: string
  un_sysname :: string
  un_release :: string
  un_version :: string
  un_machine :: string

definition quote :: string where "quote = [CHR 0x22]"

text \<open>The text of a JSON object with the given members, each value as it is written.\<close>

fun json_members_text :: "(string \<times> string) list \<Rightarrow> string" where
  "json_members_text [] = []"
| "json_members_text [(k, v)] = quote @ k @ quote @ '':'' @ v"
| "json_members_text ((k, v) # m # ms) = quote @ k @ quote @ '':'' @ v @ '','' @ json_members_text (m # ms)"

definition json_object_text :: "(string \<times> string) list \<Rightarrow> string" where
  "json_object_text ms = ''{'' @ json_members_text ms @ ''}''"

definition quoted :: "string \<Rightarrow> string" where
  "quoted s = quote @ s @ quote"

definition heartbeat_members ::
  "(double_t \<Rightarrow> string) \<Rightarrow> int \<Rightarrow> utsname \<Rightarrow> string \<Rightarrow> string \<Rightarrow> double_t \<Rightarrow> double_t \<Rightarrow> double_t \<Rightarrow> (string \<times> string) list" where
  "heartbeat_members fixed now u local_ip public_ip cpu_usage memory_usage disk_usage =
     [(''timestamp'', quoted (show_int now)),
      (''hostname'', quoted (un_nodename u)),
      (''os'', quoted (un_sysname u @ '' '' @ un_release u)),
      (''kernel'', quoted (un_version u)),
      (''arch'', quoted (un_machine u)),
      (''local_ip'', quoted local_ip),
      (''public_ip'', quoted public_ip),
      (''cpu_usage'', fixed cpu_usage),
      (''memory_usage'', fixed memory_usage),
      (''disk_usage'', fixed disk_usage)]"

text \<open>\<open>snprintf\<close> into \<open>heartbeat_data[1024]\<close>.\<close>

definition heartbeat_data :: "(string \<times> string) list \<Rightarrow> string" where
  "heartbeat_data ms = take 1023 (json_object_text ms)"

text \<open>What one round of the loop of \<open>main\<close> gets from its environment.\<close>

record client_env =
  ce_ifaddr :: "interface list option"
  ce_chunks :: "char list list option"
  ce_stat :: "stat_line list"
  ce_meminfo :: "string option"
  ce_statvfs :: "(64 word \<times> 64 word) option"
  ce_uname :: "utsname option"
  ce_now :: int
  ce_send :: int
  ce_fixed :: "double_t \<Rightarrow> string"

definition send_heartbeat :: "int \<Rightarrow> string \<Rightarrow> string exits" where
  "send_heartbeat sent data = (if sent < 0 then Exited 1 else Returned data)"

text \<open>One round: the text that was sent with the state for the next round, or the exit code; \<^const>\<open>None\<close> is undefined.\<close>

definition client_round :: "client_env \<Rightarrow> cpu_state \<Rightarrow> (string \<times> cpu_state) exits option" where
  "client_round e s =
     (case get_local_ip (ce_ifaddr e) of
        Exited c \<Rightarrow> Some (Exited c)
      | Returned local_ip \<Rightarrow>
          case get_public_ip (ce_chunks e) of
            None \<Rightarrow> None
          | Some public_ip \<Rightarrow>
              case get_cpu_usage (ce_stat e) s of
                None \<Rightarrow> None
              | Some (cpu_usage, s) \<Rightarrow>
                  case ce_uname e of
                    None \<Rightarrow> Some (Exited 1)
                  | Some u \<Rightarrow>
                      case send_heartbeat (ce_send e)
                             (heartbeat_data (heartbeat_members (ce_fixed e) (ce_now e) u local_ip public_ip cpu_usage
                               (get_memory_usage (ce_meminfo e)) (get_disk_usage (ce_statvfs e)))) of
                        Exited c \<Rightarrow> Some (Exited c)
                      | Returned data \<Rightarrow> Some (Returned (data, s)))"

fun client_loop :: "client_env list \<Rightarrow> cpu_state \<Rightarrow> (string list \<times> int option) option" where
  "client_loop [] s = Some ([], None)"
| "client_loop (e # es) s =
     (case client_round e s of
        None \<Rightarrow> None
      | Some (Exited c) \<Rightarrow> Some ([], Some c)
      | Some (Returned (data, s)) \<Rightarrow> map_option (\<lambda>(sent, code). (data # sent, code)) (client_loop es s))"

record connect_env =
  co_socket :: int
  co_inet_pton :: int
  co_connect :: int

definition client_main :: "connect_env \<Rightarrow> client_env list \<Rightarrow> (string list \<times> int option) option" where
  "client_main c es =
     (if co_socket c < 0 then Some ([], Some 1)
      else if co_inet_pton c \<le> 0 then Some ([], Some 1)
      else if co_connect c < 0 then Some ([], Some 1)
      else client_loop es initial_cpu)"

section \<open>Lemmas\<close>

text \<open>Text that stands for itself in a JSON string, and a value as the client writes it: such a text in quotes, or one without
  structural characters.\<close>

definition plain_text :: "string \<Rightarrow> bool" where
  "plain_text s = list_all (\<lambda>c. c \<noteq> CHR 0x22 \<and> c \<noteq> CHR 0x5C \<and> 32 \<le> (of_char c :: nat)) s"

definition plain_value :: "string \<Rightarrow> bool" where
  "plain_value v \<longleftrightarrow> (\<exists>s. plain_text s \<and> v = quoted s) \<or> plain_text v \<and> list_all (\<lambda>c. c \<notin> set '',:{}[]'') v"

text \<open>A member found in a parsed object is one of the members written in its text.\<close>

definition parser_sound :: "'j json_lib \<Rightarrow> bool" where
  "parser_sound lib \<longleftrightarrow>
     (\<forall>ms get k. (\<forall>(n, v) \<in> set ms. plain_text n \<and> plain_value v) \<and> jl_parse lib (json_object_text ms) = Some get \<and> get k \<noteq> None
        \<longrightarrow> k \<in> fst ` set ms)"

definition plain_env :: "client_env \<Rightarrow> bool" where
  "plain_env e \<longleftrightarrow>
     (\<forall>is i h. ce_ifaddr e = Some is \<and> i \<in> set is \<and> if_host i = Some h \<longrightarrow> plain_text h) \<and>
     (\<forall>cs c. ce_chunks e = Some cs \<and> c \<in> set cs \<longrightarrow> plain_text c) \<and>
     (\<forall>u. ce_uname e = Some u \<longrightarrow>
        plain_text (un_nodename u) \<and> plain_text (un_sysname u) \<and> plain_text (un_release u) \<and> plain_text (un_version u) \<and>
        plain_text (un_machine u)) \<and>
     (\<forall>d. plain_text (ce_fixed e d) \<and> list_all (\<lambda>c. c \<notin> set '',:{}[]'') (ce_fixed e d))"

lemma plain_text_append [simp]: "plain_text (s @ t) \<longleftrightarrow> plain_text s \<and> plain_text t"
  by (simp add: plain_text_def)

lemma plain_text_Nil [simp]: "plain_text []"
  by (simp add: plain_text_def)

lemma plain_text_no_nul: "plain_text s \<Longrightarrow> nul \<notin> set s"
  by (induction s) (auto simp: plain_text_def nul_def)

lemma plain_digits: "list_all is_digit_char s \<Longrightarrow> plain_text s"
  by (induction s) (auto simp: plain_text_def is_digit_char_def)

lemma plain_text_show: "plain_text (show_int n)"
proof -
  have "plain_text (show_nat k)" for k by (rule plain_digits) (simp add: show_nat_digits)
  then show ?thesis unfolding show_int_def plain_text_def by simp
qed

lemma plain_value_no_nul:
  assumes "plain_value v"
  shows "nul \<notin> set v"
proof (cases "plain_text v")
  case False
  then obtain s where "plain_text s" and "v = quoted s" using assms by (auto simp: plain_value_def)
  then show ?thesis using plain_text_no_nul[of s] by (simp add: quoted_def quote_def nul_def)
qed (simp add: plain_text_no_nul)

lemma plain_search: "search_interface is = Returned ip \<Longrightarrow> \<forall>i \<in> set is. \<forall>h. if_host i = Some h \<longrightarrow> plain_text h \<Longrightarrow> plain_text ip"
  by (induction "is") (auto split: if_splits option.splits)

lemma plain_c_string: "plain_text s \<Longrightarrow> plain_text (c_string s)"
  by (auto simp: plain_text_def c_string_def list_all_iff dest: set_takeWhileD)

lemma plain_chunks: "receive_chunks cs b = Some ip \<Longrightarrow> \<forall>c \<in> set cs. plain_text c \<Longrightarrow> plain_text b \<Longrightarrow> plain_text ip"
proof (induction cs arbitrary: b)
  case (Cons c cs)
  then show ?case by (auto simp: bind_eq_Some_conv WriteMemoryCallback_def Let_def plain_c_string split: if_splits)
qed simp

lemma plain_value_quoted: "plain_text s \<Longrightarrow> plain_value (quoted s)"
  by (auto simp: plain_value_def)

lemma plain_members:
  assumes "plain_env e" and "ce_uname e = Some u" and "plain_text local_ip" and "plain_text public_ip"
  shows "\<forall>(n, v) \<in> set (heartbeat_members (ce_fixed e) now u local_ip public_ip a b c). plain_text n \<and> plain_value v"
proof -
  have "plain_text (un_nodename u)" "plain_text (un_sysname u)" "plain_text (un_release u)" "plain_text (un_version u)"
    "plain_text (un_machine u)" "plain_value (ce_fixed e d)" for d
    using assms(1,2) by (simp_all add: plain_env_def plain_value_def)
  moreover have "plain_text n" if "n \<in> {''timestamp'', ''hostname'', ''os'', ''kernel'', ''arch'', ''local_ip'', ''public_ip'', ''cpu_usage'',
      ''memory_usage'', ''disk_usage'', '' ''}" for n
    using that by (auto simp: plain_text_def)
  moreover have "plain_value (quoted (un_sysname u @ CHR '' '' # un_release u))"
    using assms(1,2) by (intro plain_value_quoted) (simp add: plain_env_def plain_text_def)
  ultimately show ?thesis
    using assms(3,4) plain_text_show[of now] by (simp add: heartbeat_members_def plain_value_quoted)
qed

text \<open>A round that sends something sends the text of the ten members, cut off after 1023 characters.\<close>

lemma client_round_data:
  assumes "client_round e s = Some (Returned (data, s'))" and "plain_env e"
  shows "\<exists>ms. data = take 1023 (json_object_text ms) \<and> (\<forall>(n, v) \<in> set ms. plain_text n \<and> plain_value v) \<and>
    ''availability'' \<notin> fst ` set ms \<and> ''latency'' \<notin> fst ` set ms"
proof -
  obtain local_ip where r1: "get_local_ip (ce_ifaddr e) = Returned local_ip"
    using assms(1) by (cases "get_local_ip (ce_ifaddr e)") (simp_all add: client_round_def)
  obtain public_ip where r2: "get_public_ip (ce_chunks e) = Some public_ip"
    using assms(1) r1 by (cases "get_public_ip (ce_chunks e)") (simp_all add: client_round_def)
  obtain cpu s1 where r3: "get_cpu_usage (ce_stat e) s = Some (cpu, s1)"
    using assms(1) r1 r2 by (cases "get_cpu_usage (ce_stat e) s") (auto simp: client_round_def)
  obtain u where r4: "ce_uname e = Some u"
    using assms(1) r1 r2 r3 by (cases "ce_uname e") (simp_all add: client_round_def)
  let ?ms = "heartbeat_members (ce_fixed e) (ce_now e) u local_ip public_ip cpu (get_memory_usage (ce_meminfo e)) (get_disk_usage (ce_statvfs e))"
  have "data = take 1023 (json_object_text ?ms)"
    using assms(1) r1 r2 r3 r4
    by (cases "ce_send e < 0") (simp_all add: client_round_def heartbeat_data_def send_heartbeat_def)
  moreover have "plain_text local_ip"
    using r1 assms(2) plain_search[of _ local_ip] by (auto simp: get_local_ip_def plain_env_def split: option.splits)
  moreover have "plain_text public_ip"
    using r2 assms(2) plain_chunks[of _ "[]" public_ip] by (auto simp: get_public_ip_def plain_env_def split: option.splits)
  ultimately show ?thesis
    using plain_members[OF assms(2) r4] by (intro exI[of _ ?ms]) (simp add: heartbeat_members_def)
qed

lemma nul_separators [simp]:
  "nul \<notin> set quote" "nul \<noteq> CHR '':''" "nul \<noteq> CHR '',''" "nul \<noteq> CHR ''{''" "nul \<noteq> CHR ''}''"
  by (simp_all add: quote_def nul_def)

lemma json_text_no_nul:
  "\<forall>(n, v) \<in> set ms. nul \<notin> set n \<and> nul \<notin> set v \<Longrightarrow> nul \<notin> set (json_members_text ms)"
  by (induction ms rule: json_members_text.induct) simp_all

section \<open>Properties\<close>

text \<open>C22: The heartbeat server refuses every report of the heartbeat client: a report that fits into the client's buffer lacks the
  members \<open>availability\<close> and \<open>latency\<close> that the server requires, so that it answers \<open>Invalid JSON data\<close>, stores nothing and
  closes the connection.\<close>

theorem client_reports_refused:
  assumes "parser_sound (he_json e)" and "plain_env ce"
    and "client_round ce s = Some (Returned (data, s'))" and "length data < 1023"
  shows "handle_client e (Some data) h = (h, [HSent ''Invalid JSON data'', HClosed])"
proof -
  obtain ms where ms: "data = json_object_text ms" "\<forall>(n, v) \<in> set ms. plain_text n \<and> plain_value v" "''availability'' \<notin> fst ` set ms"
    using client_round_data[OF assms(3,2)] assms(4) by (auto simp: min_def split: if_splits)
  have "\<forall>(n, v) \<in> set ms. nul \<notin> set n \<and> nul \<notin> set v"
    using ms(2) plain_text_no_nul plain_value_no_nul by blast
  then have "nul \<notin> set data" using json_text_no_nul[of ms] ms(1) by (simp add: json_object_text_def)
  then have buf: "c_string (take (BUFFER_SIZE - 1) data) = data"
    using assms(4) by (auto simp: c_string_def BUFFER_SIZE_def takeWhile_eq_all_conv)
  have brace: "take 1 data = ''{''" "data \<noteq> []" using ms(1) by (simp_all add: json_object_text_def)
  have "get ''availability'' = None" if "jl_parse (he_json e) data = Some get" for get
    using assms(1) ms that unfolding parser_sound_def by blast
  then have "process_json_data (he_json e) (Some data) (Some zero_heartbeat) = (False, Some zero_heartbeat)"
    by (auto simp: process_json_data_def json_members_def split: option.split)
  then have "read_report e data = (False, zero_heartbeat)" using brace by (simp add: read_report_def)
  then show ?thesis using brace buf by (simp add: handle_client_def Let_def)
qed

text \<open>A parser for one text, and the environment of one round.\<close>

definition one_object :: "nat json_lib" where
  "one_object = \<lparr>jl_parse = (\<lambda>s. if s = json_object_text [(''a'', ''1'')] then Some [''a'' \<mapsto> 1] else None),
     jl_string = (\<lambda>_. None), jl_double = (\<lambda>_. NaN), jl_print = (\<lambda>_. [])\<rparr>"

lemma one_object_sound: "parser_sound one_object"
proof -
  have "''a'' \<in> fst ` set ms"
    if ms: "\<forall>(n, v) \<in> set ms. plain_text n \<and> plain_value v" and eq: "json_object_text ms = json_object_text [(''a'', ''1'')]" for ms
  proof (cases ms rule: json_members_text.cases)
    case 1
    then show ?thesis using eq by (simp add: json_object_text_def quote_def)
  next
    case (2 k v)
    have "CHR 0x22 \<notin> set k" using ms 2 by (auto simp: plain_text_def list_all_iff)
    then have "k = takeWhile (\<lambda>c. c \<noteq> CHR 0x22) (k @ CHR 0x22 # '':'' @ v @ ''}'')" by (auto simp: takeWhile_append)
    also have "k @ CHR 0x22 # '':'' @ v @ ''}'' = ''a'' @ CHR 0x22 # '':1}''"
      using eq 2 by (simp add: json_object_text_def quote_def)
    also have "takeWhile (\<lambda>c. c \<noteq> CHR 0x22) (''a'' @ CHR 0x22 # '':1}'') = ''a''" by simp
    finally have "k = ''a''" .
    then show ?thesis using 2 by simp
  next
    case (3 k v m ms')
    then have "CHR '','' \<in> set (json_object_text ms)" by (simp add: json_object_text_def)
    then show ?thesis unfolding eq by (simp add: json_object_text_def quote_def)
  qed
  then show ?thesis by (auto simp: parser_sound_def one_object_def split: if_splits)
qed

definition sample_client :: client_env where
  "sample_client = \<lparr>ce_ifaddr = Some [\<lparr>if_name = ''eth0'', if_inet = True, if_host = Some ''10.0.0.7''\<rparr>],
     ce_chunks = Some [''8.8.8.8''], ce_stat = [Some (1, 1, 1, 1), Some (2, 1, 1, 4)], ce_meminfo = None, ce_statvfs = Some (4, 2),
     ce_uname = Some \<lparr>un_nodename = ''host'', un_sysname = ''Linux'', un_release = ''6'', un_version = ''1'', un_machine = ''x86''\<rparr>,
     ce_now = 100, ce_send = 0, ce_fixed = (\<lambda>_. ''5.00'')\<rparr>"

lemma sample_client_plain: "plain_env sample_client"
  by (simp add: plain_env_def sample_client_def plain_text_def)

lemma sample_client_round:
  "\<exists>data s. client_round sample_client initial_cpu = Some (Returned (data, s)) \<and> length data < 1023"
proof -
  have "(case client_round sample_client initial_cpu of Some (Returned (data, s)) \<Rightarrow> length data < 1023 | _ \<Rightarrow> False)"
    by code_simp
  then show ?thesis by (auto split: option.splits exits.splits)
qed

theorem client_reports_refused_witness:
  "\<exists>data s. client_round sample_client initial_cpu = Some (Returned (data, s)) \<and>
     handle_client (sample_hb_env\<lparr>he_json := one_object\<rparr>) (Some data) \<lparr>hh_nodes = [], hh_count = 0\<rparr> =
       (\<lparr>hh_nodes = [], hh_count = 0\<rparr>, [HSent ''Invalid JSON data'', HClosed])"
proof -
  have "parser_sound (he_json (sample_hb_env\<lparr>he_json := one_object\<rparr>))" using one_object_sound by simp
  then show ?thesis using sample_client_round client_reports_refused[OF _ sample_client_plain] by metis
qed

text \<open>The percentages are in range, as the server would require, whenever the counters of the kernel are consistent: counters of the
  processor that do not run backwards, with at least one tick between two readings, and no more free blocks than blocks.\<close>

theorem measurements_in_range:
  assumes "last_total_time s \<noteq> -1" and "0 \<le> user - u0" and "0 \<le> nice - n0" and "0 \<le> sys - y0" and "0 \<le> idle - i0"
    and "0 < (user - u0) + (nice - n0) + (sys - y0) + (idle - i0)"
    and "last_total_time s = u0 + n0 + y0 + i0" and "last_idle_time s = i0"
    and "f_bfree \<le> f_blocks" and "f_blocks \<noteq> 0"
  shows "(\<exists>d s'. get_cpu_usage (Some (user, nice, sys, idle) # ls) s = Some (d, s') \<and> validate_percentage d) \<and>
    validate_percentage (get_disk_usage (Some (f_blocks, f_bfree)))"
proof -
  let ?busy = "(user - u0) + (nice - n0) + (sys - y0)" and ?all = "(user - u0) + (nice - n0) + (sys - y0) + (idle - i0)"
  have range: "validate_percentage (percent (divide_double a b))" if "0 < b" "0 \<le> a" "a \<le> b" for a b :: rat
  proof -
    have "0 \<le> a / b * 100" and "a / b * 100 \<le> 100" using that by (simp_all add: field_simps)
    then show ?thesis using that(1) by (simp add: divide_double_def percent_def validate_percentage_def)
  qed
  have "get_cpu_usage (Some (user, nice, sys, idle) # ls) s =
      Some (percent (divide_double ?busy ?all), s\<lparr>last_total_time := user + nice + sys + idle, last_idle_time := idle\<rparr>)"
    using assms(1,7,8) by (simp add: Let_def algebra_simps)
  moreover have "validate_percentage (percent (divide_double ?busy ?all))"
    by (rule range) (use assms(2-6) in simp_all)
  moreover have "validate_percentage (get_disk_usage (Some (f_blocks, f_bfree)))"
  proof -
    have u: "unat (f_blocks - f_bfree) \<le> unat f_blocks" using assms(9) by (simp add: unat_sub)
    have "0 < unat f_blocks" using assms(10) by (simp add: unat_gt_0)
    then show ?thesis using u unfolding get_disk_usage_def option.case prod.case by (intro range) (simp_all only: of_nat_0_less_iff of_nat_le_iff of_nat_0_le_iff)
  qed
  ultimately show ?thesis by blast
qed

theorem measurements_in_range_witness:
  "\<exists>d s'. get_cpu_usage [Some (2, 1, 1, 4)] \<lparr>last_total_time = 4, last_idle_time = 1\<rparr> = Some (d, s') \<and> validate_percentage d"
  using measurements_in_range[of "\<lparr>last_total_time = 4, last_idle_time = 1\<rparr>" 2 1 1 1 1 1 4 1 1 2 "[]"] by simp

end
