(* ===== verification/IP_Filter.thy ===== *)
theory IP_Filter
  imports C_Strings
begin

text \<open>
  The IP filter of the chat server (\<open>c-client-server-app/src/utils.c\<close>, \<open>ipfilter.h\<close>): two lists of addresses, read from
  files, and the membership tests. A context holds the used parts of its two arrays; a file is the list
  of its characters, \<^const>\<open>None\<close> if it cannot be opened. The mutex is held for the whole body
  of the loading and of each test, so that they are atomic; the two counters are read without it.

  The theory shows that a file with one address per line is loaded as that list, whatever the lengths of its
  lines up to 15 characters, that the arrays are never overrun, and that the tests decide membership in what was loaded.
\<close>

section \<open>State\<close>

record ipfilter_ctx =
  blacklist_ips :: "string list"
  whitelist_ips :: "string list"

definition MAX_IPS :: nat where "MAX_IPS = 100"
definition IP_LENGTH :: nat where "IP_LENGTH = 16"

section \<open>Reading a list\<close>

text \<open>The line as a C string, without its newline.\<close>

definition line_entry :: "string \<Rightarrow> string" where
  "line_entry line = takeWhile (\<lambda>c. c \<noteq> newline \<and> c \<noteq> CHR 0x00) line"

lemma fgets_line_progress:
  assumes "(line, rest) = fgets_chars (IP_LENGTH - Suc 0) s" and "s \<noteq> []"
  shows "length rest < length s"
proof -
  obtain c cs where "s = c # cs" using assms(2) by (cases s) auto
  moreover have "IP_LENGTH - Suc 0 = Suc 14" by (simp add: IP_LENGTH_def)
  ultimately show ?thesis using assms(1) fgets_chars_progress[of 14 c cs line rest] by simp
qed

function load_loop :: "string \<Rightarrow> string list \<Rightarrow> string list" where
  "load_loop s ips =
     (if length ips < MAX_IPS \<and> s \<noteq> []
      then (case fgets_chars (IP_LENGTH - 1) s of
              (line, rest) \<Rightarrow>
                load_loop rest (if line_entry line \<noteq> [] then ips @ [take (IP_LENGTH - 1) (line_entry line)] else ips))
      else ips)"
  by pat_completeness auto
termination
  by (relation "measure (\<lambda>(s, _). length s)") (auto dest: fgets_line_progress)

declare load_loop.simps [simp del]

definition load_ip_list :: "string option \<Rightarrow> string list \<Rightarrow> string list" where
  "load_ip_list file ips = (case file of None \<Rightarrow> ips | Some s \<Rightarrow> load_loop s ips)"

section \<open>Operations\<close>

definition ipfilter_create :: "bool \<Rightarrow> ipfilter_ctx option" where
  "ipfilter_create malloc_ok = (if \<not> malloc_ok then None else Some \<lparr>blacklist_ips = [], whitelist_ips = []\<rparr>)"

definition ipfilter_init ::
  "ipfilter_ctx option \<Rightarrow> string option \<Rightarrow> string option \<Rightarrow> int \<times> ipfilter_ctx option" where
  "ipfilter_init ctx blacklist_file whitelist_file =
     (case ctx of
        None \<Rightarrow> (-1, None)
      | Some c \<Rightarrow> (0, Some (c\<lparr>blacklist_ips := load_ip_list blacklist_file (blacklist_ips c),
                             whitelist_ips := load_ip_list whitelist_file (whitelist_ips c)\<rparr>)))"

fun search_ip :: "string \<Rightarrow> string list \<Rightarrow> bool" where
  "search_ip ip [] = False"
| "search_ip ip (x # xs) = (if ip = x then True else search_ip ip xs)"

definition ipfilter_is_blacklisted :: "ipfilter_ctx option \<Rightarrow> string \<Rightarrow> bool" where
  "ipfilter_is_blacklisted ctx ip = (case ctx of None \<Rightarrow> False | Some c \<Rightarrow> search_ip ip (blacklist_ips c))"

definition ipfilter_is_whitelisted :: "ipfilter_ctx option \<Rightarrow> string \<Rightarrow> bool" where
  "ipfilter_is_whitelisted ctx ip = (case ctx of None \<Rightarrow> False | Some c \<Rightarrow> search_ip ip (whitelist_ips c))"

definition ipfilter_blacklist_count :: "ipfilter_ctx option \<Rightarrow> nat" where
  "ipfilter_blacklist_count ctx = (case ctx of None \<Rightarrow> 0 | Some c \<Rightarrow> length (blacklist_ips c))"

definition ipfilter_whitelist_count :: "ipfilter_ctx option \<Rightarrow> nat" where
  "ipfilter_whitelist_count ctx = (case ctx of None \<Rightarrow> 0 | Some c \<Rightarrow> length (whitelist_ips c))"

section \<open>Lemmas\<close>

lemma search_ip_iff: "search_ip ip xs \<longleftrightarrow> ip \<in> set xs"
  by (induction xs) auto

text \<open>A line as it stands in a file: short, without the characters that end it.\<close>

definition plain_line :: "string \<Rightarrow> bool" where
  "plain_line l \<longleftrightarrow> length l \<le> 15 \<and> newline \<notin> set l \<and> CHR 0x00 \<notin> set l"

lemma line_entry_plain: "plain_line l \<Longrightarrow> line_entry (l @ r) = l @ line_entry r"
  by (auto simp: line_entry_def plain_line_def intro!: takeWhile_append2)

lemma load_newline: "length ips < MAX_IPS \<Longrightarrow> load_loop (newline # s) ips = load_loop s ips"
  by (subst load_loop.simps) (simp add: IP_LENGTH_def line_entry_def numeral_eq_Suc)

lemma load_line:
  assumes "plain_line l" and "l \<noteq> []" and "length ips < MAX_IPS"
  shows "load_loop (l @ newline # s) ips = load_loop s (ips @ [l]) \<or>
         length l = 15 \<and> load_loop (l @ newline # s) ips = load_loop (newline # s) (ips @ [l])"
proof (cases "length l < 15")
  case True
  then have "fgets_chars (IP_LENGTH - 1) (l @ newline # s) = (l @ [newline], s)"
    using assms(1) by (simp add: fgets_short IP_LENGTH_def plain_line_def)
  moreover have "line_entry (l @ [newline]) = l" using line_entry_plain[OF assms(1)] by (simp add: line_entry_def)
  ultimately show ?thesis
    using assms by (subst load_loop.simps) (simp add: IP_LENGTH_def plain_line_def)
next
  case False
  then have l: "length l = 15" using assms(1) by (simp add: plain_line_def)
  then have "fgets_chars (IP_LENGTH - 1) (l @ newline # s) = (l, newline # s)"
    using fgets_full[of l "newline # s"] assms(1) by (simp add: IP_LENGTH_def plain_line_def)
  moreover have "line_entry l = l" using line_entry_plain[OF assms(1), of "[]"] by (simp add: line_entry_def)
  ultimately show ?thesis
    using assms l by (subst (2) load_loop.simps) (simp add: IP_LENGTH_def)
qed

lemma load_full: "\<not> length ips < MAX_IPS \<Longrightarrow> load_loop s ips = ips"
  by (subst load_loop.simps) simp

lemma load_file:
  assumes "\<forall>l \<in> set ls. plain_line l" and "length ips \<le> MAX_IPS"
  shows "load_loop (as_lines ls) ips = ips @ take (MAX_IPS - length ips) (filter (\<lambda>l. l \<noteq> []) ls)"
  using assms
proof (induction ls arbitrary: ips)
  case Nil
  then show ?case by (subst load_loop.simps) (simp add: as_lines_def)
next
  case (Cons l ls)
  have f: "as_lines (l # ls) = l @ newline # as_lines ls" by (simp add: as_lines_def)
  show ?case
  proof (cases "length ips < MAX_IPS")
    case False
    then show ?thesis using Cons.prems(2) load_full by simp
  next
    case True
    show ?thesis
    proof (cases "l = []")
      case l: False
      have "load_loop (newline # as_lines ls) (ips @ [l]) = load_loop (as_lines ls) (ips @ [l])"
        by (cases "length (ips @ [l]) < MAX_IPS") (simp_all add: load_newline load_full)
      then have "load_loop (as_lines (l # ls)) ips = load_loop (as_lines ls) (ips @ [l])"
        using load_line[of l ips "as_lines ls"] Cons.prems(1) l True f by auto
      then show ?thesis
        using Cons.IH[of "ips @ [l]"] Cons.prems True l by (simp add: take_Cons' Suc_diff_Suc)
    qed (use Cons f True load_newline in simp)
  qed
qed

section \<open>Properties\<close>

text \<open>Loading files with one address of at most 15 characters per line, empty lines allowed, into a new filter makes
  exactly the first hundred addresses of each file listed, and no other.\<close>

theorem loaded_lists_decide:
  assumes "\<forall>l \<in> set bl. plain_line l" and "\<forall>l \<in> set wl. plain_line l"
  shows "\<exists>ctx. ipfilter_init (ipfilter_create True) (Some (as_lines bl)) (Some (as_lines wl)) = (0, ctx) \<and>
    (\<forall>ip. ipfilter_is_blacklisted ctx ip \<longleftrightarrow> ip \<in> set (take 100 (filter (\<lambda>l. l \<noteq> []) bl))) \<and>
    (\<forall>ip. ipfilter_is_whitelisted ctx ip \<longleftrightarrow> ip \<in> set (take 100 (filter (\<lambda>l. l \<noteq> []) wl))) \<and>
    ipfilter_blacklist_count ctx \<le> MAX_IPS \<and> ipfilter_whitelist_count ctx \<le> MAX_IPS"
proof -
  have "load_loop (as_lines bl) [] = take 100 (filter (\<lambda>l. l \<noteq> []) bl)"
    "load_loop (as_lines wl) [] = take 100 (filter (\<lambda>l. l \<noteq> []) wl)"
    using load_file[OF assms(1), of "[]"] load_file[OF assms(2), of "[]"] by (simp_all add: MAX_IPS_def)
  then show ?thesis
    by (simp add: ipfilter_init_def ipfilter_create_def load_ip_list_def ipfilter_is_blacklisted_def
        ipfilter_is_whitelisted_def ipfilter_blacklist_count_def ipfilter_whitelist_count_def search_ip_iff MAX_IPS_def)
qed

theorem loaded_lists_decide_witness:
  "\<exists>ctx. ipfilter_init (ipfilter_create True) (Some (as_lines [''255.255.255.255'', [], ''10.0.0.1''])) (Some (as_lines [''8.8.8.8''])) = (0, ctx) \<and>
    ipfilter_is_blacklisted ctx ''10.0.0.1'' \<and> ipfilter_is_blacklisted ctx ''255.255.255.255'' \<and> \<not> ipfilter_is_blacklisted ctx ''8.8.8.8''"
proof -
  let ?bl = "[''255.255.255.255'', [], ''10.0.0.1'']" and ?wl = "[''8.8.8.8'']"
  have "\<forall>l \<in> set ?bl. plain_line l" and "\<forall>l \<in> set ?wl. plain_line l"
    by (simp_all add: plain_line_def newline_def)
  from loaded_lists_decide[OF this] obtain ctx where
    c: "ipfilter_init (ipfilter_create True) (Some (as_lines ?bl)) (Some (as_lines ?wl)) = (0, ctx)" and
    b: "\<forall>ip. ipfilter_is_blacklisted ctx ip \<longleftrightarrow> ip \<in> set (take 100 (filter (\<lambda>l. l \<noteq> []) ?bl))"
    by blast
  have "set (take 100 (filter (\<lambda>l. l \<noteq> []) ?bl)) = {''255.255.255.255'', ''10.0.0.1''}" by simp
  then have "ipfilter_is_blacklisted ctx ''10.0.0.1''" "ipfilter_is_blacklisted ctx ''255.255.255.255''"
    "\<not> ipfilter_is_blacklisted ctx ''8.8.8.8''"
    unfolding b[rule_format] by simp_all
  with c show ?thesis by blast
qed

text \<open>A property of lists that adding an entry keeps below the limit is kept by loading.\<close>

lemma load_loop_keeps:
  assumes "P ips" and "\<And>xs line. P xs \<Longrightarrow> length xs < MAX_IPS \<Longrightarrow> P (xs @ [take (IP_LENGTH - 1) line])"
  shows "P (load_loop s ips)"
  using assms(1)
proof (induction s ips rule: load_loop.induct)
  case (1 s ips)
  obtain line rest where l: "fgets_chars (IP_LENGTH - 1) s = (line, rest)" by fastforce
  show ?case
  proof (cases "length ips < MAX_IPS \<and> s \<noteq> []")
    case True
    let ?ips = "if line_entry line \<noteq> [] then ips @ [take (IP_LENGTH - 1) (line_entry line)] else ips"
    have "load_loop s ips = load_loop rest ?ips" using True l by (simp add: load_loop.simps[of s])
    moreover have "P ?ips" using 1(2) assms(2) True by simp
    ultimately show ?thesis using 1(1)[OF True l[symmetric]] by simp
  next
    case False
    then have "load_loop s ips = ips" by (subst load_loop.simps) auto
    then show ?thesis using 1(2) by simp
  qed
qed

text \<open>Whatever a file holds, at most one hundred addresses of at most 15 characters are stored.\<close>

theorem load_ip_list_bounds:
  assumes "length ips \<le> MAX_IPS" and "\<forall>ip \<in> set ips. length ip < IP_LENGTH"
  shows "length (load_ip_list f ips) \<le> MAX_IPS \<and> (\<forall>ip \<in> set (load_ip_list f ips). length ip < IP_LENGTH)"
proof (cases f)
  case (Some s)
  have "length (load_loop s ips) \<le> MAX_IPS \<and> (\<forall>ip \<in> set (load_loop s ips). length ip < IP_LENGTH)"
    by (rule load_loop_keeps) (use assms in \<open>auto simp: IP_LENGTH_def\<close>)
  then show ?thesis using Some by (simp add: load_ip_list_def)
qed (use assms in \<open>simp add: load_ip_list_def\<close>)

end
