(* ===== verification/Plain_Mutex.thy ===== *)
theory Plain_Mutex
  imports Main
begin

text \<open>
  Critical sections under a mutex that its holder cannot take again, which is what \<open>PTHREAD_MUTEX_INITIALIZER\<close> gives, as
  one thread sees them: a section that is entered while the mutex is held waits for ever (\<open>Blocked\<close>). The locale
  states what is needed of the place where the mutex is kept, and what follows for nested sections.
\<close>

datatype 's outcome = Done 's | Blocked 's | Undefined

fun and_then :: "'s outcome \<Rightarrow> ('s \<Rightarrow> 's outcome) \<Rightarrow> 's outcome" where
  "and_then (Done s) f = f s"
| "and_then (Blocked s) f = Blocked s"
| "and_then Undefined f = Undefined"

lemma and_then_Done_iff: "and_then x f = Done t \<longleftrightarrow> (\<exists>s. x = Done s \<and> f s = Done t)"
  by (cases x) auto

lemma and_then_assoc: "and_then (and_then x f) g = and_then x (\<lambda>s. and_then (f s) g)"
  by (cases x) auto

text \<open>Lock, body, unlock.\<close>

definition critical :: "('s \<Rightarrow> bool) \<Rightarrow> (bool \<Rightarrow> 's \<Rightarrow> 's) \<Rightarrow> ('s \<Rightarrow> 's outcome) \<Rightarrow> 's \<Rightarrow> 's outcome" where
  "critical held set_held body s =
     (if held s then Blocked s else and_then (body (set_held True s)) (\<lambda>s. Done (set_held False s)))"

locale plain_mutex =
  fixes held :: "'s \<Rightarrow> bool" and set_held :: "bool \<Rightarrow> 's \<Rightarrow> 's"
  assumes held_set: "held (set_held b s) = b"
    and set_set: "set_held b (set_held c s) = set_held b s"
    and set_same: "set_held (held s) s = s"
begin

lemma set_free: "\<not> held s \<Longrightarrow> set_held False s = s"
  using set_same[of s] by simp

lemma critical_held: "held s \<Longrightarrow> critical held set_held body s = Blocked s"
  by (simp add: critical_def)

lemma critical_releases: "critical held set_held body s = Done t \<Longrightarrow> \<not> held t"
  by (auto simp: critical_def and_then_Done_iff held_set split: if_splits)

text \<open>A section whose body only computes.\<close>

lemma critical_pure:
  assumes "\<not> held s" and "\<And>b s. f (set_held b s) = set_held b (f s)"
  shows "critical held set_held (\<lambda>s. Done (f s)) s = Done (f s)"
  using assms(1) set_free[OF assms(1)] assms(2)[of False s] by (simp add: critical_def assms(2) set_set)

text \<open>A section inside a section waits for ever, if what runs before it leaves the mutex alone.\<close>

lemma critical_nested:
  assumes "\<not> held s" and "before (set_held True s) = Done u" and "held u"
  shows "critical held set_held (\<lambda>s. and_then (before s) (\<lambda>s. and_then (critical held set_held inner s) after)) s = Blocked u"
  using assms by (simp add: critical_def)

end

end
