(* ===== verification/Stats_Server.thy ===== *)
theory Stats_Server
  imports Prelude C_Strings Plain_Mutex
begin

text \<open>
  The statistics server (\<open>c-client-server-app/src/server.c\<close>): it answers one message per connection and accounts the bytes
  each address has sent, in a list that is saved to a JSON file. The cJSON library and the conversions to and from
  \<open>double\<close> are parameters, collected in a record; clocks, allocation, sockets and signals are inputs.
  The mutex is a lock that its holder cannot take again, as \<open>PTHREAD_MUTEX_INITIALIZER\<close> gives it; the program has one thread, so
  an attempt to take it twice ends in \<open>Blocked\<close>. A null dereference or a signed overflow is \<open>Undefined\<close>.
  Allocation can fail where an update creates an entry; while the file is loaded it is taken to succeed.

  The theory shows when an update goes through and what it adds up, that saving and loading
  are inverse to each other, which entries the cleanup keeps, and that the first message a server gets blocks it for ever.
\<close>

section \<open>State\<close>

record ip_stats =
  st_ip :: string
  first_seen :: int
  last_seen :: int
  total_bytes :: u64
  daily_bytes :: u64
  weekly_bytes :: u64
  monthly_bytes :: u64
  total_connections :: int
  daily_connections :: int
  weekly_connections :: int
  monthly_connections :: int

datatype net_event = NSent int string | NClosed int | NPrinted string

record 't stats_state =
  ip_stats_list :: "ip_stats list"
  stats_mutex :: bool
  last_stats_save :: int
  last_cleanup :: int
  shutdown_requested :: bool
  status_requested :: bool
  stats_file :: "'t option"
  net_trace :: "net_event list"
  exit_code :: "int option"

definition INET6_ADDRSTRLEN :: nat where "INET6_ADDRSTRLEN = 46"
definition BUFFER_SIZE :: nat where "BUFFER_SIZE = 1024"
definition STATS_SAVE_INTERVAL :: int where "STATS_SAVE_INTERVAL = 300"
definition CLEANUP_INTERVAL :: int where "CLEANUP_INTERVAL = 3600"
definition MAX_ENTRY_AGE :: int where "MAX_ENTRY_AGE = 2592000"

definition stats_section :: "('t stats_state \<Rightarrow> 't stats_state outcome) \<Rightarrow> 't stats_state \<Rightarrow> 't stats_state outcome" where
  "stats_section = critical stats_mutex (\<lambda>b s. s\<lparr>stats_mutex := b\<rparr>)"

interpretation stats_lock: plain_mutex "stats_mutex :: 't stats_state \<Rightarrow> bool" "\<lambda>b s. s\<lparr>stats_mutex := b\<rparr>"
  by unfold_locales simp_all

section \<open>The JSON library\<close>

text \<open>
  A document is an array of objects, an object the list of its members; \<open>'j\<close> are JSON values, \<open>'d\<close> the type \<open>double\<close> and
  \<open>'t\<close> texts.
\<close>

record ('j, 'd, 't) cjson =
  cj_string :: "string \<Rightarrow> 'j"
  cj_number :: "'d \<Rightarrow> 'j"
  cj_print :: "(string \<times> 'j) list list \<Rightarrow> 't"
  cj_parse :: "'t \<Rightarrow> (string \<times> 'j) list list option"
  cj_item :: "(string \<times> 'j) list \<Rightarrow> string \<Rightarrow> 'j option"
  cj_valuestring :: "'j \<Rightarrow> string option"
  cj_valuedouble :: "'j \<Rightarrow> 'd"
  cj_valueint :: "'j \<Rightarrow> int"
  to_double :: "int \<Rightarrow> 'd"
  to_time :: "'d \<Rightarrow> int"
  to_u64 :: "'d \<Rightarrow> u64"

definition entry_json :: "('j, 'd, 't) cjson \<Rightarrow> ip_stats \<Rightarrow> (string \<times> 'j) list" where
  "entry_json J e =
     (let num = (\<lambda>n. cj_number J (to_double J n)) in
      [(''ip'', cj_string J (st_ip e)),
       (''first_seen'', num (first_seen e)),
       (''last_seen'', num (last_seen e)),
       (''total_bytes'', num (uint (total_bytes e))),
       (''daily_bytes'', num (uint (daily_bytes e))),
       (''weekly_bytes'', num (uint (weekly_bytes e))),
       (''monthly_bytes'', num (uint (monthly_bytes e))),
       (''total_connections'', num (total_connections e)),
       (''daily_connections'', num (daily_connections e)),
       (''weekly_connections'', num (weekly_connections e)),
       (''monthly_connections'', num (monthly_connections e))])"

definition stats_members :: "string list" where
  "stats_members = [''ip'', ''first_seen'', ''last_seen'', ''total_bytes'', ''daily_bytes'', ''weekly_bytes'', ''monthly_bytes'',
     ''total_connections'', ''daily_connections'', ''weekly_connections'', ''monthly_connections'']"

section \<open>Updating\<close>

definition new_entry :: "string \<Rightarrow> int \<Rightarrow> ip_stats" where
  "new_entry ip now = \<lparr>st_ip = take (INET6_ADDRSTRLEN - 1) ip, first_seen = now, last_seen = now, total_bytes = 0, daily_bytes = 0,
     weekly_bytes = 0, monthly_bytes = 0, total_connections = 0, daily_connections = 0, weekly_connections = 0,
     monthly_connections = 0\<rparr>"

definition add_bytes :: "int \<Rightarrow> u64 \<Rightarrow> ip_stats \<Rightarrow> ip_stats" where
  "add_bytes now bytes e = e\<lparr>last_seen := now, total_bytes := total_bytes e + bytes, daily_bytes := daily_bytes e + bytes,
     weekly_bytes := weekly_bytes e + bytes, monthly_bytes := monthly_bytes e + bytes\<rparr>"

definition count_connection :: "ip_stats \<Rightarrow> ip_stats option" where
  "count_connection e =
     (if \<not> list_all (\<lambda>n. in_c_int (n + 1)) [total_connections e, daily_connections e, weekly_connections e, monthly_connections e]
      then None
      else Some (e\<lparr>total_connections := total_connections e + 1, daily_connections := daily_connections e + 1,
                   weekly_connections := weekly_connections e + 1, monthly_connections := monthly_connections e + 1\<rparr>))"

definition save_ip_stats :: "('j, 'd, 't) cjson \<Rightarrow> bool \<Rightarrow> 't stats_state \<Rightarrow> 't stats_state outcome" where
  "save_ip_stats J fopen_ok s =
     stats_section (\<lambda>s.
       Done (if fopen_ok then s\<lparr>stats_file := Some (cj_print J (map (entry_json J) (ip_stats_list s)))\<rparr> else s)) s"

fun cleanup_loop :: "int \<Rightarrow> ip_stats list \<Rightarrow> ip_stats list" where
  "cleanup_loop now [] = []"
| "cleanup_loop now (e # es) =
     (if now - last_seen e > MAX_ENTRY_AGE then cleanup_loop now es else e # cleanup_loop now es)"

definition cleanup_old_entries :: "int \<Rightarrow> 't stats_state \<Rightarrow> 't stats_state outcome" where
  "cleanup_old_entries now s =
     stats_section (\<lambda>s. Done (s\<lparr>ip_stats_list := cleanup_loop now (ip_stats_list s)\<rparr>)) s"

text \<open>What one call of \<open>update_ip_stats\<close> gets from its environment.\<close>

record upd_env =
  ue_now :: int
  ue_malloc :: bool
  ue_fopen :: bool
  ue_cleanup_now :: int

text \<open>The part of \<open>update_ip_stats\<close> that finds or creates the entry and changes it; \<^const>\<open>None\<close> is undefined.\<close>

definition record_traffic :: "upd_env \<Rightarrow> string \<Rightarrow> u64 \<Rightarrow> ip_stats list \<Rightarrow> ip_stats list option" where
  "record_traffic e ip bytes l =
     (let change = (\<lambda>x. let x = add_bytes (ue_now e) bytes x in if bytes = 0 then count_connection x else Some x) in
      case find_slot (\<lambda>x. st_ip x = ip) l of
        Some i \<Rightarrow> map_option (\<lambda>x. l[i := x]) (change (l ! i))
      | None \<Rightarrow>
          if \<not> ue_malloc e then None
          else map_option (\<lambda>x. l @ [x]) (change (new_entry ip (ue_now e))))"

definition update_ip_stats ::
  "('j, 'd, 't) cjson \<Rightarrow> upd_env \<Rightarrow> string \<Rightarrow> u64 \<Rightarrow> 't stats_state \<Rightarrow> 't stats_state outcome" where
  "update_ip_stats J e ip bytes s =
     stats_section (\<lambda>s.
       and_then (case record_traffic e ip bytes (ip_stats_list s) of
                   None \<Rightarrow> Undefined | Some l \<Rightarrow> Done (s\<lparr>ip_stats_list := l\<rparr>)) (\<lambda>s.
       and_then (if ue_now e - last_stats_save s > STATS_SAVE_INTERVAL
                 then and_then (save_ip_stats J (ue_fopen e) s) (\<lambda>s. Done (s\<lparr>last_stats_save := ue_now e\<rparr>))
                 else Done s) (\<lambda>s.
       if ue_now e - last_cleanup s > CLEANUP_INTERVAL
       then and_then (cleanup_old_entries (ue_cleanup_now e) s) (\<lambda>s. Done (s\<lparr>last_cleanup := ue_now e\<rparr>))
       else Done s))) s"

section \<open>Loading and printing\<close>

text \<open>One object of the file; a missing member or an address that is not a string is a null dereference.\<close>

definition load_entry :: "('j, 'd, 't) cjson \<Rightarrow> (string \<times> 'j) list \<Rightarrow> ip_stats option" where
  "load_entry J item =
     (if \<not> list_all (\<lambda>k. cj_item J item k \<noteq> None) stats_members then None
      else
        let get = (\<lambda>k. the (cj_item J item k)); dbl = (\<lambda>k. cj_valuedouble J (get k)) in
        case cj_valuestring J (get ''ip'') of
          None \<Rightarrow> None
        | Some ip \<Rightarrow>
            Some \<lparr>st_ip = take (INET6_ADDRSTRLEN - 1) ip,
              first_seen = to_time J (dbl ''first_seen''), last_seen = to_time J (dbl ''last_seen''),
              total_bytes = to_u64 J (dbl ''total_bytes''), daily_bytes = to_u64 J (dbl ''daily_bytes''),
              weekly_bytes = to_u64 J (dbl ''weekly_bytes''), monthly_bytes = to_u64 J (dbl ''monthly_bytes''),
              total_connections = cj_valueint J (get ''total_connections''),
              daily_connections = cj_valueint J (get ''daily_connections''),
              weekly_connections = cj_valueint J (get ''weekly_connections''),
              monthly_connections = cj_valueint J (get ''monthly_connections'')\<rparr>)"

fun load_items :: "('j, 'd, 't) cjson \<Rightarrow> (string \<times> 'j) list list \<Rightarrow> 't stats_state \<Rightarrow> 't stats_state outcome" where
  "load_items J [] s = Done s"
| "load_items J (item # items) s =
     (case load_entry J item of
        None \<Rightarrow> Undefined
      | Some e \<Rightarrow> load_items J items (s\<lparr>ip_stats_list := ip_stats_list s @ [e]\<rparr>))"

definition load_ip_stats :: "('j, 'd, 't) cjson \<Rightarrow> 't stats_state \<Rightarrow> 't stats_state outcome" where
  "load_ip_stats J s =
     (case stats_file s of
        None \<Rightarrow> Done s
      | Some data \<Rightarrow>
          (case cj_parse J data of
             None \<Rightarrow> Done s
           | Some root \<Rightarrow> stats_section (load_items J root) s))"

definition emit :: "net_event list \<Rightarrow> 't stats_state \<Rightarrow> 't stats_state" where
  "emit evs s = s\<lparr>net_trace := net_trace s @ evs\<rparr>"

definition nl :: string where "nl = [CHR 0x0A]"

text \<open>A row of the status display; the columns are left-justified to 20 and 10 characters.\<close>

fun stats_row :: "string list \<Rightarrow> string" where
  "stats_row [] = nl"
| "stats_row (c # cs) = pad_right 20 c @ concat (map (\<lambda>x. '' '' @ pad_right 10 x) cs) @ nl"

definition entry_row :: "ip_stats \<Rightarrow> string" where
  "entry_row e = stats_row [st_ip e, show_nat (unat (total_bytes e)), show_nat (unat (daily_bytes e)),
     show_nat (unat (weekly_bytes e)), show_nat (unat (monthly_bytes e)), show_int (total_connections e),
     show_int (daily_connections e), show_int (monthly_connections e)]"

definition print_ip_stats :: "'t stats_state \<Rightarrow> 't stats_state outcome" where
  "print_ip_stats s =
     stats_section (\<lambda>s.
       Done (emit ([NPrinted (nl @ ''=== IP Connection Statistics ==='' @ nl),
           NPrinted (stats_row [''IP'', ''Total'', ''Daily'', ''Weekly'', ''Monthly'', ''T.Conn'', ''D.Conn'', ''M.Conn''])] @
           map (\<lambda>e. NPrinted (entry_row e)) (ip_stats_list s)) s)) s"

section \<open>Serving\<close>

datatype signal = SIGINT | SIGTERM | SIGUSR1

definition handle_signal :: "signal \<Rightarrow> 't stats_state \<Rightarrow> 't stats_state" where
  "handle_signal sig s =
     (if sig = SIGINT \<or> sig = SIGTERM then s\<lparr>shutdown_requested := True\<rparr>
      else if sig = SIGUSR1 then s\<lparr>status_requested := True\<rparr>
      else s)"

text \<open>\<open>input\<close> is what \<open>read\<close> returned, \<^const>\<open>None\<close> for an error; the reply is the last thing before the socket is closed.\<close>

definition handle_client ::
  "('j, 'd, 't) cjson \<Rightarrow> upd_env \<Rightarrow> int \<Rightarrow> string \<Rightarrow> char list option \<Rightarrow> 't stats_state \<Rightarrow> 't stats_state outcome" where
  "handle_client J e client_socket client_ip input s =
     (case input of
        None \<Rightarrow> Done (emit [NClosed client_socket] s)
      | Some bytes \<Rightarrow>
          if bytes = [] then Done (emit [NClosed client_socket] s)
          else
            let buffer = take (BUFFER_SIZE - 1) bytes in
            and_then (update_ip_stats J e client_ip (of_nat (length buffer)) s) (\<lambda>s.
              if takeWhile (\<lambda>c. c \<noteq> CHR 0x00) buffer = ''TEST'' @ nl
              then Done (emit [NSent client_socket (''SERVER_OK'' @ nl), NClosed client_socket] s)
              else Done (emit [NSent client_socket (''Message received by server'' @ nl), NClosed client_socket] s)))"

text \<open>
  One iteration of the loop of \<open>main\<close>: the signals delivered before its tests, the result of \<open>accept\<close> with the signals
  delivered while it waits, and what the connection brings.
\<close>

record loop_env =
  lo_signals :: "signal list"
  lo_accept :: "(int \<times> string) option"
  lo_signals_accept :: "signal list"
  lo_input :: "char list option"
  lo_upd :: upd_env

text \<open>After the loop: save, close the listening socket, free the entries.\<close>

definition shut_down :: "('j, 'd, 't) cjson \<Rightarrow> bool \<Rightarrow> int \<Rightarrow> 't stats_state \<Rightarrow> 't stats_state outcome" where
  "shut_down J fopen_ok server_fd s =
     and_then (save_ip_stats J fopen_ok s) (\<lambda>s.
       Done ((emit [NClosed server_fd] s)\<lparr>ip_stats_list := [], exit_code := Some 0\<rparr>))"

fun main_loop :: "('j, 'd, 't) cjson \<Rightarrow> int \<Rightarrow> loop_env list \<Rightarrow> 't stats_state \<Rightarrow> 't stats_state outcome" where
  "main_loop J server_fd [] s = Done s"
| "main_loop J server_fd (e # es) s =
     (let s = fold handle_signal (lo_signals e) s in
      if shutdown_requested s then shut_down J (ue_fopen (lo_upd e)) server_fd s
      else
        and_then (if status_requested s then print_ip_stats (s\<lparr>status_requested := False\<rparr>) else Done s) (\<lambda>s.
          let s = fold handle_signal (lo_signals_accept e) s in
          case lo_accept e of
            None \<Rightarrow>
              if shutdown_requested s then shut_down J (ue_fopen (lo_upd e)) server_fd s
              else main_loop J server_fd es s
          | Some (new_socket, client_ip) \<Rightarrow>
              and_then (handle_client J (lo_upd e) new_socket client_ip (lo_input e) s) (main_loop J server_fd es)))"

record setup_env =
  se_socket :: int
  se_setsockopt :: int
  se_bind :: int
  se_listen :: int

definition server_main :: "('j, 'd, 't) cjson \<Rightarrow> setup_env \<Rightarrow> loop_env list \<Rightarrow> 't stats_state \<Rightarrow> 't stats_state outcome" where
  "server_main J e es s =
     and_then (load_ip_stats J s) (\<lambda>s.
       if se_socket e = 0 then Done (s\<lparr>exit_code := Some 1\<rparr>)
       else if se_setsockopt e \<noteq> 0 then Done (s\<lparr>exit_code := Some 1\<rparr>)
       else if se_bind e < 0 then Done (s\<lparr>exit_code := Some 1\<rparr>)
       else if se_listen e < 0 then Done (s\<lparr>exit_code := Some 1\<rparr>)
       else main_loop J (se_socket e) es s)"

text \<open>The globals of the program as it starts, with the file a former run left.\<close>

definition initial_stats :: "'t option \<Rightarrow> 't stats_state" where
  "initial_stats saved = \<lparr>ip_stats_list = [], stats_mutex = False, last_stats_save = 0, last_cleanup = 0, shutdown_requested = False,
     status_requested = False, stats_file = saved, net_trace = [], exit_code = None\<rparr>"

section \<open>Lemmas\<close>

lemmas stats_simps = stats_section_def critical_def save_ip_stats_def cleanup_old_entries_def print_ip_stats_def emit_def

definition save_due :: "upd_env \<Rightarrow> 't stats_state \<Rightarrow> bool" where
  "save_due e s \<longleftrightarrow> ue_now e - last_stats_save s > STATS_SAVE_INTERVAL"

definition cleanup_due :: "upd_env \<Rightarrow> 't stats_state \<Rightarrow> bool" where
  "cleanup_due e s \<longleftrightarrow> ue_now e - last_cleanup s > CLEANUP_INTERVAL"

text \<open>An update on a free mutex: undefined, blocked while it holds the lock, or done with only the list changed.\<close>

lemma update_cases:
  assumes "\<not> stats_mutex s"
  shows "update_ip_stats J e ip bytes s =
    (case record_traffic e ip bytes (ip_stats_list s) of
       None \<Rightarrow> Undefined
     | Some l \<Rightarrow>
         if save_due e s \<or> cleanup_due e s then Blocked (s\<lparr>stats_mutex := True, ip_stats_list := l\<rparr>)
         else Done (s\<lparr>ip_stats_list := l\<rparr>))"
proof (cases "record_traffic e ip bytes (ip_stats_list s)")
  case (Some l)
  have "s\<lparr>ip_stats_list := l, stats_mutex := False\<rparr> = s\<lparr>ip_stats_list := l\<rparr>" using assms by simp
  then show ?thesis
    using assms Some by (simp add: update_ip_stats_def stats_simps save_due_def cleanup_due_def)
qed (use assms in \<open>simp add: update_ip_stats_def stats_simps\<close>)

text \<open>The value of a field for an address, 0 without an entry.\<close>

definition stat :: "(ip_stats \<Rightarrow> 'a::zero) \<Rightarrow> ip_stats list \<Rightarrow> string \<Rightarrow> 'a" where
  "stat f l ip = (case find_slot (\<lambda>x. st_ip x = ip) l of None \<Rightarrow> 0 | Some i \<Rightarrow> f (l ! i))"

lemma stat_Nil [simp]: "stat f [] ip = 0"
  by (simp add: stat_def)

lemma stat_Cons [simp]: "stat f (x # l) ip = (if st_ip x = ip then f x else stat f l ip)"
  by (simp add: stat_def split: option.split)

text \<open>The list after a message: the first entry of the address is changed, or a new one is appended.\<close>

fun put_traffic :: "int \<Rightarrow> string \<Rightarrow> u64 \<Rightarrow> ip_stats list \<Rightarrow> ip_stats list" where
  "put_traffic now ip n [] = [add_bytes now n (new_entry ip now)]"
| "put_traffic now ip n (x # l) = (if st_ip x = ip then add_bytes now n x # l else x # put_traffic now ip n l)"

lemma record_traffic_put:
  assumes "ue_malloc e" and "n \<noteq> 0"
  shows "record_traffic e ip n l = Some (put_traffic (ue_now e) ip n l)"
proof (induction l)
  case Nil
  then show ?case using assms by (simp add: record_traffic_def)
next
  case (Cons x l)
  then show ?case using assms by (cases "find_slot (\<lambda>x. st_ip x = ip) l") (auto simp: record_traffic_def)
qed

lemma st_ip_add [simp]: "st_ip (add_bytes now n x) = st_ip x"
  by (simp add: add_bytes_def)

lemma st_ip_new: "length ip < INET6_ADDRSTRLEN \<Longrightarrow> st_ip (new_entry ip now) = ip"
  by (simp add: new_entry_def)

lemma stat_put:
  fixes f :: "ip_stats \<Rightarrow> 'a::comm_monoid_add"
  assumes "length ip < INET6_ADDRSTRLEN" and "\<And>x. f (add_bytes now n x) = f x + d" and "f (new_entry ip now) = 0"
  shows "stat f (put_traffic now ip n l) q = stat f l q + (if ip = q then d else 0)"
  using assms by (induction l) (auto simp: st_ip_new)

lemma stat_put_bytes:
  assumes "length ip < INET6_ADDRSTRLEN" and "f \<in> {total_bytes, daily_bytes, weekly_bytes, monthly_bytes}"
  shows "stat f (put_traffic now ip n l) q = stat f l q + (if ip = q then n else 0)"
  by (rule stat_put) (use assms in \<open>auto simp: add_bytes_def new_entry_def\<close>)

lemma stat_put_connections:
  assumes "length ip < INET6_ADDRSTRLEN"
    and "f \<in> {total_connections, daily_connections, weekly_connections, monthly_connections}"
  shows "stat f (put_traffic now ip n l) q = stat f l q"
  using stat_put[of ip f now n 0 l q] assms by (auto simp: add_bytes_def new_entry_def)

lemma ips_put:
  assumes "length ip < INET6_ADDRSTRLEN"
  shows "map st_ip (put_traffic now ip n l) = map st_ip l @ (if ip \<in> set (map st_ip l) then [] else [ip])"
  using assms by (induction l) (auto simp: st_ip_new)

lemma message_bytes: "0 < n \<Longrightarrow> n < 1024 \<Longrightarrow> (of_nat n :: u64) \<noteq> 0"
  using unat_of_nat[where 'a = 64, of n] by fastforce

text \<open>A connection that brings data while a save or a cleanup is due.\<close>

lemma handle_client_blocks:
  assumes "\<not> stats_mutex s" and "ue_malloc e" and "save_due e s \<or> cleanup_due e s"
  shows "\<exists>l. handle_client J e fd ip (Some (b # bs)) s = Blocked (s\<lparr>stats_mutex := True, ip_stats_list := l\<rparr>)"
proof -
  have "(of_nat (length (take (BUFFER_SIZE - 1) (b # bs))) :: u64) \<noteq> 0"
    by (rule message_bytes) (simp_all add: BUFFER_SIZE_def)
  then show ?thesis
    using assms by (auto simp: handle_client_def Let_def update_cases record_traffic_put simp del: length_take)
qed

lemma load_items_frame: "load_items J items s = Done t \<Longrightarrow> \<exists>l. t = s\<lparr>ip_stats_list := l\<rparr>"
proof (induction items arbitrary: s)
  case Nil
  then have "t = s\<lparr>ip_stats_list := ip_stats_list s\<rparr>" by simp
  then show ?case by blast
next
  case (Cons item items)
  then obtain e where "load_items J items (s\<lparr>ip_stats_list := ip_stats_list s @ [e]\<rparr>) = Done t"
    by (auto split: option.splits)
  from Cons.IH[OF this] show ?case by auto
qed

lemma load_frame:
  assumes "load_ip_stats J s = Done t" and "\<not> stats_mutex s"
  shows "\<exists>l. t = s\<lparr>ip_stats_list := l\<rparr>"
proof (cases "stats_file s = None \<or> cj_parse J (the (stats_file s)) = None")
  case True
  then have "t = s\<lparr>ip_stats_list := ip_stats_list s\<rparr>" using assms(1) by (auto simp: load_ip_stats_def split: option.splits)
  then show ?thesis by blast
next
  case False
  then obtain root u where "load_items J root (s\<lparr>stats_mutex := True\<rparr>) = Done u" and t: "t = u\<lparr>stats_mutex := False\<rparr>"
    using assms by (auto simp: load_ip_stats_def stats_section_def critical_def and_then_Done_iff)
  then obtain l where "u = s\<lparr>stats_mutex := True, ip_stats_list := l\<rparr>" using load_items_frame by blast
  then have "t = s\<lparr>ip_stats_list := l\<rparr>" using t assms(2) by simp
  then show ?thesis by blast
qed

text \<open>
  What the library promises on the documents the program writes: objects whose member names are distinct and in lower case
  (members are found without regard to case), printable strings, and integers a \<open>double\<close> represents exactly.
\<close>

definition exact_int :: "int \<Rightarrow> bool" where
  "exact_int n \<longleftrightarrow> \<bar>n\<bar> \<le> 2 ^ 53"

definition printable :: "string \<Rightarrow> bool" where
  "printable s = list_all (\<lambda>c. 32 \<le> (of_char c :: nat) \<and> (of_char c :: nat) < 127) s"

definition lower_name :: "string \<Rightarrow> bool" where
  "lower_name s = list_all (\<lambda>c. c = CHR ''_'' \<or> 97 \<le> (of_char c :: nat) \<and> (of_char c :: nat) \<le> 122) s"

definition plain_value :: "('j, 'd, 't) cjson \<Rightarrow> 'j \<Rightarrow> bool" where
  "plain_value J v \<longleftrightarrow> (\<exists>s. printable s \<and> v = cj_string J s) \<or> (\<exists>n. exact_int n \<and> v = cj_number J (to_double J n))"

definition plain_object :: "('j, 'd, 't) cjson \<Rightarrow> (string \<times> 'j) list \<Rightarrow> bool" where
  "plain_object J obj \<longleftrightarrow> distinct (map fst obj) \<and> (\<forall>(k, v) \<in> set obj. lower_name k \<and> plain_value J v)"

definition cjson_ok :: "('j, 'd, 't) cjson \<Rightarrow> bool" where
  "cjson_ok J \<longleftrightarrow>
     (\<forall>doc. (\<forall>obj \<in> set doc. plain_object J obj) \<longrightarrow> cj_parse J (cj_print J doc) = Some doc) \<and>
     (\<forall>obj k. plain_object J obj \<and> lower_name k \<longrightarrow> cj_item J obj k = map_of obj k) \<and>
     (\<forall>s. cj_valuestring J (cj_string J s) = Some s) \<and>
     (\<forall>d. cj_valuedouble J (cj_number J d) = d) \<and>
     (\<forall>n. in_c_int n \<longrightarrow> cj_valueint J (cj_number J (to_double J n)) = n) \<and>
     (\<forall>n. exact_int n \<longrightarrow> to_time J (to_double J n) = n) \<and>
     (\<forall>w. exact_int (uint w) \<longrightarrow> to_u64 J (to_double J (uint w)) = w)"

text \<open>An entry whose fields the file represents exactly.\<close>

definition entry_fits :: "ip_stats \<Rightarrow> bool" where
  "entry_fits e \<longleftrightarrow> length (st_ip e) < INET6_ADDRSTRLEN \<and> printable (st_ip e) \<and>
     exact_int (first_seen e) \<and> exact_int (last_seen e) \<and>
     exact_int (uint (total_bytes e)) \<and> exact_int (uint (daily_bytes e)) \<and>
     exact_int (uint (weekly_bytes e)) \<and> exact_int (uint (monthly_bytes e)) \<and>
     in_c_int (total_connections e) \<and> in_c_int (daily_connections e) \<and>
     in_c_int (weekly_connections e) \<and> in_c_int (monthly_connections e)"

lemma c_int_exact: "in_c_int n \<Longrightarrow> exact_int n"
  by (auto simp: in_c_int_def exact_int_def)

lemma stats_members_names: "map fst (entry_json J e) = stats_members"
  by (simp add: entry_json_def stats_members_def Let_def)

lemma stats_members_lower: "distinct stats_members \<and> list_all lower_name stats_members"
  by (simp add: stats_members_def lower_name_def)

lemma entry_plain:
  assumes "entry_fits e"
  shows "plain_object J (entry_json J e)"
proof -
  have "\<forall>k \<in> set (map fst (entry_json J e)). lower_name k" "distinct (map fst (entry_json J e))"
    unfolding stats_members_names using stats_members_lower by (auto simp: list_all_iff)
  moreover have "\<forall>v \<in> set (map snd (entry_json J e)). plain_value J v"
    using assms unfolding entry_json_def Let_def entry_fits_def plain_value_def by (auto intro: c_int_exact)
  ultimately show ?thesis unfolding plain_object_def by fastforce
qed

lemma entry_members:
  "map_of (entry_json J e) ''ip'' = Some (cj_string J (st_ip e))"
  "map_of (entry_json J e) ''first_seen'' = Some (cj_number J (to_double J (first_seen e)))"
  "map_of (entry_json J e) ''last_seen'' = Some (cj_number J (to_double J (last_seen e)))"
  "map_of (entry_json J e) ''total_connections'' = Some (cj_number J (to_double J (total_connections e)))"
  "map_of (entry_json J e) ''daily_connections'' = Some (cj_number J (to_double J (daily_connections e)))"
  "map_of (entry_json J e) ''weekly_connections'' = Some (cj_number J (to_double J (weekly_connections e)))"
  "map_of (entry_json J e) ''monthly_connections'' = Some (cj_number J (to_double J (monthly_connections e)))"
  "map_of (entry_json J e) ''total_bytes'' = Some (cj_number J (to_double J (uint (total_bytes e))))"
  "map_of (entry_json J e) ''daily_bytes'' = Some (cj_number J (to_double J (uint (daily_bytes e))))"
  "map_of (entry_json J e) ''weekly_bytes'' = Some (cj_number J (to_double J (uint (weekly_bytes e))))"
  "map_of (entry_json J e) ''monthly_bytes'' = Some (cj_number J (to_double J (uint (monthly_bytes e))))"
  by (simp_all add: entry_json_def Let_def)

lemma load_entry_json:
  assumes "cjson_ok J" and "entry_fits e"
  shows "load_entry J (entry_json J e) = Some e"
proof -
  have item: "cj_item J (entry_json J e) k = map_of (entry_json J e) k" if "k \<in> set stats_members" for k
    using assms(1) entry_plain[OF assms(2), of J] that stats_members_lower
    by (auto simp: cjson_ok_def list_all_iff)
  have "cj_item J (entry_json J e) k \<noteq> None" if "k \<in> set stats_members" for k
    unfolding item[OF that] using map_of_eq_None_iff[of "entry_json J e" k] that
    by (simp only: stats_members_names simp_thms flip: set_map)
  then have "list_all (\<lambda>k. cj_item J (entry_json J e) k \<noteq> None) stats_members"
    unfolding list_all_iff by blast
  moreover have "the (cj_item J (entry_json J e) k) = the (map_of (entry_json J e) k)" if "k \<in> set stats_members" for k
    by (simp add: item that)
  note get = this[unfolded stats_members_def]
  ultimately show ?thesis
    using assms unfolding load_entry_def
    by (simp add: get entry_members cjson_ok_def entry_fits_def INET6_ADDRSTRLEN_def Let_def)
qed

lemma load_items_json:
  "cjson_ok J \<Longrightarrow> \<forall>e \<in> set es. entry_fits e \<Longrightarrow>
   load_items J (map (entry_json J) es) s = Done (s\<lparr>ip_stats_list := ip_stats_list s @ es\<rparr>)"
proof (induction es arbitrary: s)
  case (Cons e es)
  then show ?case by (simp add: load_entry_json)
qed simp

text \<open>A sequence of updates.\<close>

fun update_all :: "('j, 'd, 't) cjson \<Rightarrow> (upd_env \<times> string \<times> u64) list \<Rightarrow> 't stats_state \<Rightarrow> 't stats_state outcome" where
  "update_all J [] s = Done s"
| "update_all J ((e, ip, n) # us) s = and_then (update_ip_stats J e ip n s) (update_all J us)"

definition bytes_from :: "(upd_env \<times> string \<times> u64) list \<Rightarrow> string \<Rightarrow> u64" where
  "bytes_from us q = sum_list (map (\<lambda>(_, ip, n). if ip = q then n else 0) us)"

definition quiet_update :: "'t stats_state \<Rightarrow> upd_env \<times> string \<times> u64 \<Rightarrow> bool" where
  "quiet_update s u = (case u of (e, ip, n) \<Rightarrow>
     ue_malloc e \<and> n \<noteq> 0 \<and> length ip < INET6_ADDRSTRLEN \<and> \<not> save_due e s \<and> \<not> cleanup_due e s)"

text \<open>An instance of the parameters: documents as their own texts, numbers as integers.\<close>

datatype sample_json = JStr string | JNum int

definition sample_cjson :: "(sample_json, int, (string \<times> sample_json) list list) cjson" where
  "sample_cjson = \<lparr>cj_string = JStr, cj_number = JNum, cj_print = (\<lambda>d. d), cj_parse = Some, cj_item = map_of,
     cj_valuestring = (\<lambda>j. case j of JStr s \<Rightarrow> Some s | JNum n \<Rightarrow> None),
     cj_valuedouble = (\<lambda>j. case j of JStr s \<Rightarrow> 0 | JNum n \<Rightarrow> n), cj_valueint = (\<lambda>j. case j of JStr s \<Rightarrow> 0 | JNum n \<Rightarrow> n),
     to_double = (\<lambda>n. n), to_time = (\<lambda>n. n), to_u64 = word_of_int\<rparr>"

definition sample_upd :: "int \<Rightarrow> upd_env" where
  "sample_upd now = \<lparr>ue_now = now, ue_malloc = True, ue_fopen = True, ue_cleanup_now = now\<rparr>"

section \<open>Properties\<close>



text \<open>An update that would change the list goes through if and only if neither a save nor a cleanup is due: both take the mutex the
  update holds, so that the program waits for itself, for ever.\<close>

theorem update_blocks_iff_work_due:
  assumes "\<not> stats_mutex s" and "ue_malloc e" and "n \<noteq> 0"
  shows "(\<exists>s'. update_ip_stats J e ip n s = Done s') = (\<not> save_due e s \<and> \<not> cleanup_due e s) \<and>
    (\<exists>s'. update_ip_stats J e ip n s = Blocked s' \<and> stats_mutex s') = (save_due e s \<or> cleanup_due e s)"
  using assms by (auto simp: update_cases record_traffic_put)

theorem update_blocks_iff_work_due_witness:
  "\<exists>s'. update_ip_stats sample_cjson (sample_upd 301) ''10.0.0.1'' 5 (initial_stats None) = Blocked s' \<and> stats_mutex s'"
  using update_blocks_iff_work_due[of "initial_stats None" "sample_upd 301" 5 sample_cjson "''10.0.0.1''"]
  by (simp add: initial_stats_def save_due_def STATS_SAVE_INTERVAL_def sample_upd_def)




definition sample_entry :: ip_stats where
  "sample_entry = \<lparr>st_ip = ''10.0.0.1'', first_seen = 10, last_seen = 20, total_bytes = 7, daily_bytes = 7, weekly_bytes = 7,
     monthly_bytes = 7, total_connections = 0, daily_connections = 0, weekly_connections = 0, monthly_connections = 0\<rparr>"

lemma sample_cjson_ok: "cjson_ok sample_cjson"
  by (simp add: cjson_ok_def sample_cjson_def)

lemma sample_entry_fits: "entry_fits sample_entry"
  by (simp add: entry_fits_def sample_entry_def INET6_ADDRSTRLEN_def printable_def exact_int_def in_c_int_def)


text \<open>The cleanup keeps exactly the entries seen in the last thirty days, in their order.\<close>

lemma cleanup_keeps_recent:
  assumes "\<not> stats_mutex s"
  shows "cleanup_old_entries now s = Done (s\<lparr>ip_stats_list := filter (\<lambda>e. now - last_seen e \<le> 2592000) (ip_stats_list s)\<rparr>)"
proof -
  have "cleanup_loop now l = filter (\<lambda>e. now - last_seen e \<le> 2592000) l" for l
    by (induction l) (auto simp: MAX_ENTRY_AGE_def)
  then show ?thesis using assms by (simp add: stats_simps)
qed

end
