(* ===== verification/App_Client.thy ===== *)
theory App_Client
  imports Stats_Server
begin

text \<open>
  The small peer programs of the statistics server: its test client (\<open>c-client-server-app/src/client.c\<close>) and the two log
  modules beside it (\<open>log.c\<close>, which the Makefile links, and \<open>logger.c\<close>, which the library installs the header of). The local time as
  \<open>strftime\<close> formats it and the formatted message are arguments.

  The theory shows when the client gets an answer from the modelled server, and which messages the log modules write.
\<close>

section \<open>The client\<close>

datatype chat_event = ChatSent string | ChatPrinted string | ChatClosed

text \<open>
  What \<open>read\<close> does: it may wait for ever, fail, or return bytes (none at the end of the stream).
\<close>

datatype chat_answer = NeverAnswers | ReadFails | Answers "char list"

record chat_env =
  ch_socket :: int
  ch_inet_pton :: int
  ch_connect :: int
  ch_answer :: chat_answer

datatype chat_run = ChatEnds int "chat_event list" | ChatWaits "chat_event list" | ChatReadsPastEnd "chat_event list"

definition chat_message :: string where
  "chat_message = ''Hello from client''"

text \<open>The buffer starts as zeros, and printing it needs a zero byte.\<close>

definition chat_buffer :: "char list \<Rightarrow> char list" where
  "chat_buffer bytes = take BUFFER_SIZE bytes @ replicate (BUFFER_SIZE - length bytes) nul"

definition chat_client :: "chat_env \<Rightarrow> chat_run" where
  "chat_client e =
     (if ch_socket e < 0 then ChatEnds (-1) []
      else if ch_inet_pton e \<le> 0 then ChatEnds (-1) []
      else if ch_connect e < 0 then ChatEnds (-1) []
      else
        let start = [ChatPrinted (''Connected to server at 127.0.0.1:8080'' @ [newline]), ChatSent chat_message,
                     ChatPrinted (''Message sent to server: '' @ chat_message @ [newline])];
            finish = (\<lambda>buffer.
              if nul \<in> set buffer
              then ChatEnds 0 (start @ [ChatPrinted (''Server response: '' @ c_string buffer @ [newline]), ChatClosed])
              else ChatReadsPastEnd start) in
        (case ch_answer e of
           NeverAnswers \<Rightarrow> ChatWaits start
         | ReadFails \<Rightarrow> finish (chat_buffer [])
         | Answers bytes \<Rightarrow> finish (chat_buffer bytes)))"

section \<open>The log modules\<close>

datatype LogLevel = APP_DEBUG | APP_INFO | APP_WARN | APP_ERROR

definition app_level :: "LogLevel \<Rightarrow> int" where
  "app_level l = (case l of APP_DEBUG \<Rightarrow> 0 | APP_INFO \<Rightarrow> 1 | APP_WARN \<Rightarrow> 2 | APP_ERROR \<Rightarrow> 3)"

definition app_level_name :: "LogLevel \<Rightarrow> string" where
  "app_level_name l = (case l of APP_DEBUG \<Rightarrow> ''DEBUG'' | APP_INFO \<Rightarrow> ''INFO'' | APP_WARN \<Rightarrow> ''WARN'' | APP_ERROR \<Rightarrow> ''ERROR'')"

text \<open>The state of \<open>log.c\<close>: the level and what was written to the standard error output.\<close>

record app_log =
  al_level :: LogLevel
  al_stderr :: string

definition log_set_level :: "LogLevel \<Rightarrow> app_log \<Rightarrow> app_log" where
  "log_set_level level s = s\<lparr>al_level := level\<rparr>"

definition app_log_line :: "LogLevel \<Rightarrow> string \<Rightarrow> string \<Rightarrow> string" where
  "app_log_line level timestamp message = timestamp @ '' '' @ pad_right 5 (app_level_name level) @ '' '' @ message @ [newline]"

definition log_message :: "LogLevel \<Rightarrow> string \<Rightarrow> string \<Rightarrow> app_log \<Rightarrow> app_log" where
  "log_message level timestamp message s =
     (if app_level level < app_level (al_level s) then s
      else s\<lparr>al_stderr := al_stderr s @ app_log_line level timestamp message\<rparr>)"

text \<open>The state of \<open>logger.c\<close>: \<open>current_log_level\<close> and the standard output.\<close>

definition LOG_LEVEL_DEBUG :: int where "LOG_LEVEL_DEBUG = 1"
definition LOG_LEVEL_INFO :: int where "LOG_LEVEL_INFO = 2"
definition LOG_LEVEL_ERROR :: int where "LOG_LEVEL_ERROR = 3"

record lib_log =
  current_log_level :: int
  ll_stdout :: string

definition log_print :: "string \<Rightarrow> string \<Rightarrow> string \<Rightarrow> lib_log \<Rightarrow> lib_log" where
  "log_print level timestamp message s =
     s\<lparr>ll_stdout := ll_stdout s @ ''['' @ timestamp @ '']['' @ level @ ''] '' @ message @ [newline]\<rparr>"

definition log_debug :: "string \<Rightarrow> string \<Rightarrow> lib_log \<Rightarrow> lib_log" where
  "log_debug timestamp message s =
     (if current_log_level s \<le> LOG_LEVEL_DEBUG then log_print ''DEBUG'' timestamp message s else s)"

definition log_info :: "string \<Rightarrow> string \<Rightarrow> lib_log \<Rightarrow> lib_log" where
  "log_info timestamp message s =
     (if current_log_level s \<le> LOG_LEVEL_INFO then log_print ''INFO'' timestamp message s else s)"

text \<open>An error is printed twice.\<close>

definition log_error :: "string \<Rightarrow> string \<Rightarrow> lib_log \<Rightarrow> lib_log" where
  "log_error timestamp message s =
     (if current_log_level s \<le> LOG_LEVEL_ERROR then log_print ''ERROR'' timestamp message (log_print ''ERROR'' timestamp message s)
      else s)"

section \<open>Lemmas\<close>

text \<open>What the peer of a connection reads, given what the server did with it.\<close>

definition answer_of :: "int \<Rightarrow> 't stats_state \<Rightarrow> 't stats_state outcome \<Rightarrow> chat_answer" where
  "answer_of fd s r =
     (case r of
        Done s' \<Rightarrow> Answers (concat (map (\<lambda>ev. case ev of NSent k text \<Rightarrow> if k = fd then text else [] | _ \<Rightarrow> [])
                              (drop (length (net_trace s)) (net_trace s'))))
      | _ \<Rightarrow> NeverAnswers)"

lemma c_string_chat_buffer:
  assumes "nul \<notin> set bytes" and "length bytes < BUFFER_SIZE"
  shows "c_string (chat_buffer bytes) = bytes"
proof -
  obtain k where "BUFFER_SIZE - length bytes = Suc k" using assms(2) by (cases "BUFFER_SIZE - length bytes") auto
  then have "chat_buffer bytes = bytes @ nul # replicate k nul" using assms(2) by (simp add: chat_buffer_def)
  then show ?thesis using assms(1) by (simp add: c_string_def takeWhile_append)
qed

text \<open>Every answer of fewer than 1024 bytes is printed safely.\<close>

lemma chat_buffer_terminated: "length bytes < BUFFER_SIZE \<Longrightarrow> nul \<in> set (chat_buffer bytes)"
  by (cases "BUFFER_SIZE - length bytes") (auto simp: chat_buffer_def)

text \<open>
  The client connected to the modelled server prints the server's answer and ends, unless a save or a cleanup of the statistics is due: then it
  waits for ever.
\<close>

lemma chat_answered_iff:
  assumes "\<not> stats_mutex s" and "ue_malloc u" and "length ip < INET6_ADDRSTRLEN"
    and "0 \<le> ch_socket e" and "0 < ch_inet_pton e" and "0 \<le> ch_connect e"
    and "ch_answer e = answer_of fd s (handle_client J u fd ip (Some chat_message) s)"
  shows "(\<exists>log. chat_client e = ChatEnds 0 (log @ [ChatPrinted (''Server response: Message received by server'' @ [newline, newline]), ChatClosed])) =
      (\<not> save_due u s \<and> \<not> cleanup_due u s) \<and>
    (\<exists>log. chat_client e = ChatWaits log) = (save_due u s \<or> cleanup_due u s)"
proof (cases "save_due u s \<or> cleanup_due u s")
  case True
  then obtain l where "handle_client J u fd ip (Some (CHR ''H'' # ''ello from client'')) s = Blocked (s\<lparr>stats_mutex := True, ip_stats_list := l\<rparr>)"
    using handle_client_blocks[OF assms(1,2)] by blast
  then have "ch_answer e = NeverAnswers" using assms(7) by (simp add: answer_of_def chat_message_def)
  then show ?thesis using True assms(4-6) by (simp add: chat_client_def Let_def)
next
  case False
  let ?n = "of_nat (length (take (BUFFER_SIZE - 1) chat_message)) :: u64"
  have n: "?n \<noteq> 0" by (rule message_bytes) (simp_all add: BUFFER_SIZE_def chat_message_def)
  obtain l where "update_ip_stats J u ip ?n s = Done (s\<lparr>ip_stats_list := l\<rparr>)"
    using False assms(1-3) n by (auto simp: update_cases record_traffic_put)
  moreover have "take (BUFFER_SIZE - 1) chat_message = chat_message" "chat_message \<noteq> []"
    "takeWhile (\<lambda>c. c \<noteq> CHR 0x00) chat_message = chat_message" "chat_message \<noteq> ''TEST'' @ nl"
    by (simp_all add: BUFFER_SIZE_def chat_message_def)
  ultimately have "handle_client J u fd ip (Some chat_message) s =
      Done (emit [NSent fd (''Message received by server'' @ nl), NClosed fd] (s\<lparr>ip_stats_list := l\<rparr>))"
    by (simp add: handle_client_def Let_def del: takeWhile_eq_all_conv)
  then have a: "ch_answer e = Answers (''Message received by server'' @ nl)"
    using assms(7) by (simp add: answer_of_def emit_def)
  have b: "nul \<notin> set (''Message received by server'' @ nl)" "length (''Message received by server'' @ nl) < BUFFER_SIZE"
    by (simp_all add: nul_def nl_def BUFFER_SIZE_def)
  show ?thesis
    using False assms(4-6) a c_string_chat_buffer[OF b] chat_buffer_terminated[OF b(2)]
    by (simp add: chat_client_def Let_def nl_def newline_def)
qed

text \<open>A server that sent 1024 bytes without a zero byte would make the client read past its buffer.\<close>

lemma chat_reads_past_end:
  "nul \<notin> set bytes \<Longrightarrow> BUFFER_SIZE \<le> length bytes \<Longrightarrow> nul \<notin> set (chat_buffer bytes)"
  by (auto simp: chat_buffer_def dest: in_set_takeD)

text \<open>The standard error output gets the lines of exactly the messages of at least the level, in order.\<close>

lemma log_messages_exact:
  "fold (\<lambda>(level, timestamp, message). log_message level timestamp message) ms s =
     s\<lparr>al_stderr := al_stderr s @ concat (map (\<lambda>(level, timestamp, message). app_log_line level timestamp message)
        (filter (\<lambda>(level, _). app_level (al_level s) \<le> app_level level) ms))\<rparr>"
  by (induction ms arbitrary: s) (auto simp: log_message_def)

end
