(* ===== verification/Common_Utils.thy ===== *)
theory Common_Utils
  imports Prelude
begin

unbundle bit_operations_syntax

text \<open>
  The utilities of the distributed worker system (\<open>common/common.c\<close>): time stamps, names of job types and identifiers. The
  process identifier, the counter and the clock are arguments. Shifting a signed number out of its range and
  counting beyond it are undefined (\<^const>\<open>None\<close>).

  The theory shows that the identifiers of a process are positive, differ from those of other processes and repeat exactly
  after 65536 calls.
\<close>

definition get_timestamp_ms :: "int \<Rightarrow> int \<Rightarrow> int" where
  "get_timestamp_ms tv_sec tv_usec = tv_sec * 1000 + tv_usec sdiv 1000"

definition get_job_type_name :: "int \<Rightarrow> string" where
  "get_job_type_name job_type =
     (if job_type = 1 then ''Echo''
      else if job_type = 2 then ''Reverse''
      else if job_type = 3 then ''Uppercase''
      else if job_type = 4 then ''Lowercase''
      else if job_type = 5 then ''Count Characters''
      else if job_type = 99 then ''Custom''
      else ''Unknown'')"

text \<open>\<open>next_id++\<close>.\<close>

definition take_id :: "int \<Rightarrow> (int \<times> int) option" where
  "take_id next_id = (if in_c_int (next_id + 1) then Some (next_id, next_id + 1) else None)"

definition generate_unique_id :: "int \<Rightarrow> int \<Rightarrow> (int \<times> int) option" where
  "generate_unique_id pid next_id =
     (if pid < 0 \<or> \<not> in_c_int (push_bit 16 pid) then None
      else
        case take_id next_id of
          None \<Rightarrow> None
        | Some (n, next_id) \<Rightarrow>
            let uid = push_bit 16 pid OR (n AND 0xFFFF) in
            if uid \<le> 0 then take_id next_id else Some (uid, next_id))"

fun generate_ids :: "int \<Rightarrow> nat \<Rightarrow> int \<Rightarrow> (int list \<times> int) option" where
  "generate_ids pid 0 next_id = Some ([], next_id)"
| "generate_ids pid (Suc k) next_id =
     (case generate_unique_id pid next_id of
        None \<Rightarrow> None
      | Some (uid, next_id) \<Rightarrow> map_option (\<lambda>(ids, next_id). (uid # ids, next_id)) (generate_ids pid k next_id))"

section \<open>Lemmas\<close>

lemma id_value: "push_bit 16 pid OR (n AND 0xFFFF) = pid * 65536 + n mod (65536 :: int)"
proof -
  have m: "n AND 0xFFFF = take_bit 16 n" by (simp add: take_bit_eq_mask mask_eq_exp_minus_1)
  have "push_bit 16 pid + take_bit 16 n = push_bit 16 pid OR take_bit 16 n"
    by (rule disjunctive_add) (auto simp: bit_simps)
  then show ?thesis by (simp add: m push_bit_eq_mult take_bit_eq_mod)
qed

lemma generate_unique_id_defined:
  assumes "0 < pid" and "pid < 32768" and "0 < n" and "n < 2147483647"
  shows "generate_unique_id pid n = Some (pid * 65536 + n mod 65536, n + 1)"
proof -
  have "0 < pid * 65536 + n mod 65536" using assms(1) by (simp add: add_pos_nonneg)
  moreover have "in_c_int (push_bit 16 pid)" using assms by (simp add: in_c_int_def push_bit_eq_mult)
  ultimately show ?thesis
    using assms by (simp add: generate_unique_id_def take_id_def in_c_int_def Let_def id_value[simplified])
qed

lemma generate_ids_map:
  "0 < pid \<Longrightarrow> pid < 32768 \<Longrightarrow> 0 < n \<Longrightarrow> n + int k \<le> 2147483647 \<Longrightarrow>
   generate_ids pid k n = Some (map (\<lambda>i. pid * 65536 + (n + int i) mod 65536) [0..<k], n + int k)"
proof (induction k arbitrary: n)
  case (Suc k)
  have "map (\<lambda>i. pid * 65536 + (n + int i) mod 65536) [0..<Suc k] =
      (pid * 65536 + n mod 65536) # map (\<lambda>i. pid * 65536 + (n + 1 + int i) mod 65536) [0..<k]"
    by (simp add: upt_conv_Cons map_Suc_upt[symmetric] add.assoc comp_def del: upt_Suc)
  then show ?case using Suc by (simp add: generate_unique_id_defined del: upt_Suc)
qed simp

lemma mod_eq_small: "i < 65536 \<Longrightarrow> j < 65536 \<Longrightarrow> (n + int i) mod 65536 = (n + int j) mod 65536 \<longleftrightarrow> i = j"
  using dvd_imp_le_int[of "int i - int j" 65536] by (cases "i = j") (auto simp: mod_eq_dvd_iff)

section \<open>Properties\<close>

text \<open>For a process identifier below 32768 and a counter that does not overflow, every call returns a positive identifier;
  they are distinct exactly if there are at most 65536 of them, and no two processes get the same one.\<close>

theorem unique_ids_wrap:
  assumes "0 < pid" and "pid < 32768" and "0 < n" and "n + int k \<le> 2147483647"
  shows "\<exists>ids. generate_ids pid k n = Some (ids, n + int k) \<and> length ids = k \<and> (\<forall>x \<in> set ids. x div 65536 = pid \<and> 0 < x) \<and>
    (distinct ids \<longleftrightarrow> k \<le> 65536)"
proof -
  let ?f = "\<lambda>i. pid * 65536 + (n + int i) mod 65536"
  have "distinct (map ?f [0..<k]) \<longleftrightarrow> k \<le> 65536"
  proof
    assume d: "distinct (map ?f [0..<k])"
    show "k \<le> 65536"
    proof (rule ccontr)
      assume "\<not> k \<le> 65536"
      then have "0 \<in> set [0..<k]" and "65536 \<in> set [0..<k]" by simp_all
      moreover have "?f 0 = ?f 65536" by simp
      ultimately have "(0 :: nat) = 65536" using d unfolding distinct_map inj_on_def by blast
      then show False by simp
    qed
  qed (auto simp: distinct_map inj_on_def mod_eq_small)
  moreover have "\<forall>x \<in> set (map ?f [0..<k]). x div 65536 = pid \<and> 0 < x"
    using assms(1) by (auto intro!: add_pos_nonneg)
  ultimately show ?thesis using generate_ids_map[OF assms] by simp
qed

theorem unique_ids_wrap_witness:
  "\<exists>ids. generate_ids 4711 3 1 = Some (ids, 4) \<and> distinct ids"
  using unique_ids_wrap[of 4711 1 3] by auto

end
