(* ===== verification/Traffic_Analyzer.thy ===== *)
theory Traffic_Analyzer
  imports Prelude C_Strings Complex_Main
begin

text \<open>
  The traffic analyser (\<open>NetTrafficAnalyzer/net_traffic_analyzer.h\<close>, \<open>net_traffic_analyzer.c\<close>): its data and the daily report. The arrays are
  the lists of their used parts. \<open>localtime\<close> is a parameter, since it depends on the time zone; counters have the width
  of the C types.

  The theory shows that the report counts every connection in the slot the code computes for it, with distinct addresses counted
  once per day; that a slot is one calendar day where days have 24 hours; and that in a time zone with
  daylight saving time a connection of the day before is counted as one of today.
\<close>

section \<open>Data\<close>

definition MAX_RECORDS :: nat where "MAX_RECORDS = 100000"
definition MAX_IP_STATS :: nat where "MAX_IP_STATS = 10000"
definition MAX_PATTERN_LENGTH :: nat where "MAX_PATTERN_LENGTH = 64"
definition MAX_COUNTRY_CODE_LENGTH :: nat where "MAX_COUNTRY_CODE_LENGTH = 3"
definition MAX_LOCATION_LENGTH :: nat where "MAX_LOCATION_LENGTH = 128"

record ConnectionRecord =
  cr_ip :: string
  cr_timestamp :: int
  cr_bytes :: u64

record TrafficReport =
  tr_period :: string
  tr_total_bytes :: u64
  tr_total_connections :: u32
  tr_unique_ips :: u32
  tr_suspicious_ips :: u32

text \<open>The fields of \<open>IPStats\<close> that the modelled functions use.\<close>

record IPStats =
  is_ip :: string
  is_request_count :: u32
  is_window_requests :: u32
  is_first_seen :: int
  is_last_seen :: int
  is_suspicious :: bool
  is_country_code :: string
  is_location :: string
  is_avg_request_interval :: rat
  is_burst_count :: u32
  is_connection_pattern :: string
  is_adaptive_threshold :: u32

record tm =
  tm_sec :: int
  tm_min :: int
  tm_hour :: int
  tm_mday :: int
  tm_mon :: int
  tm_year :: int

section \<open>The daily report\<close>

text \<open>The local midnight before a time.\<close>

definition day_start :: "(int \<Rightarrow> tm) \<Rightarrow> int \<Rightarrow> int" where
  "day_start localtime ts = ts - (tm_hour (localtime ts) * 3600 + tm_min (localtime ts) * 60 + tm_sec (localtime ts))"

text \<open>\<open>%0<width>d\<close>.\<close>

definition show_padded :: "nat \<Rightarrow> int \<Rightarrow> string" where
  "show_padded width i =
     (let digits = show_nat (nat \<bar>i\<bar>); sign = (if i < 0 then ''-'' else [])
      in sign @ replicate (width - length sign - length digits) (CHR ''0'') @ digits)"

definition day_label :: "tm \<Rightarrow> string" where
  "day_label t = take 31 (show_padded 4 (tm_year t + 1900) @ ''-'' @ show_padded 2 (tm_mon t + 1) @ ''-'' @ show_padded 2 (tm_mday t))"

definition empty_report :: "string \<Rightarrow> TrafficReport" where
  "empty_report period = \<lparr>tr_period = period, tr_total_bytes = 0, tr_total_connections = 0, tr_unique_ips = 0, tr_suspicious_ips = 0\<rparr>"

text \<open>\<open>(int)((start_day - conn_day) / 86400)\<close>: division truncates towards zero, the result is cut to 32 bits.\<close>

definition day_diff :: "(int \<Rightarrow> tm) \<Rightarrow> int \<Rightarrow> ConnectionRecord \<Rightarrow> int" where
  "day_diff localtime start_day c = signed_take_bit 31 ((start_day - day_start localtime (cr_timestamp c)) sdiv 86400)"

text \<open>Whether no earlier connection has the same address on the same day.\<close>

fun search_previous :: "(int \<Rightarrow> tm) \<Rightarrow> ConnectionRecord \<Rightarrow> ConnectionRecord list \<Rightarrow> bool" where
  "search_previous localtime c [] = True"
| "search_previous localtime c (p # ps) =
     (if day_start localtime (cr_timestamp p) = day_start localtime (cr_timestamp c) \<and> cr_ip p = cr_ip c then False
      else search_previous localtime c ps)"

fun search_suspicious :: "string \<Rightarrow> IPStats list \<Rightarrow> bool" where
  "search_suspicious ip [] = False"
| "search_suspicious ip (s # ss) = (if is_ip s = ip \<and> is_suspicious s then True else search_suspicious ip ss)"

definition count_record :: "IPStats list \<Rightarrow> bool \<Rightarrow> ConnectionRecord \<Rightarrow> TrafficReport \<Rightarrow> TrafficReport" where
  "count_record stats is_unique c r =
     (let r = r\<lparr>tr_total_bytes := tr_total_bytes r + cr_bytes c, tr_total_connections := tr_total_connections r + 1\<rparr> in
      if is_unique
      then (let r = r\<lparr>tr_unique_ips := tr_unique_ips r + 1\<rparr> in
            if search_suspicious (cr_ip c) stats then r\<lparr>tr_suspicious_ips := tr_suspicious_ips r + 1\<rparr> else r)
      else r)"

text \<open>The loop over the connections, with those before the current one.\<close>

fun report_loop ::
  "(int \<Rightarrow> tm) \<Rightarrow> IPStats list \<Rightarrow> int \<Rightarrow> ConnectionRecord list \<Rightarrow> ConnectionRecord list \<Rightarrow> TrafficReport list \<Rightarrow> TrafficReport list" where
  "report_loop localtime stats start_day prev [] reports = reports"
| "report_loop localtime stats start_day prev (c # cs) reports =
     (let d = day_diff localtime start_day c in
      report_loop localtime stats start_day (prev @ [c]) cs
        (if 0 \<le> d \<and> d < 30
         then reports[nat d := count_record stats (search_previous localtime c prev) c (reports ! nat d)]
         else reports))"

definition generate_daily_report ::
  "(int \<Rightarrow> tm) \<Rightarrow> bool \<Rightarrow> ConnectionRecord list \<Rightarrow> IPStats list \<Rightarrow> int \<Rightarrow> TrafficReport list option \<times> nat" where
  "generate_daily_report localtime malloc_ok connections stats ref_ts =
     (let start_day = day_start localtime ref_ts in
      if \<not> malloc_ok then (None, 0)
      else (Some (report_loop localtime stats start_day [] connections
              (map (\<lambda>i. empty_report (day_label (localtime (start_day - int i * 86400)))) [0..<30])), 30))"

section \<open>Reference definitions\<close>

text \<open>The connections of a slot, and the addresses of its days.\<close>

definition slot_connections :: "(int \<Rightarrow> tm) \<Rightarrow> int \<Rightarrow> ConnectionRecord list \<Rightarrow> nat \<Rightarrow> ConnectionRecord list" where
  "slot_connections localtime start_day cs d = filter (\<lambda>c. day_diff localtime start_day c = int d) cs"

definition day_addresses :: "(int \<Rightarrow> tm) \<Rightarrow> ConnectionRecord list \<Rightarrow> (int \<times> string) set" where
  "day_addresses localtime cs = (\<lambda>c. (day_start localtime (cr_timestamp c), cr_ip c)) ` set cs"

definition suspicious_address :: "IPStats list \<Rightarrow> string \<Rightarrow> bool" where
  "suspicious_address stats ip \<longleftrightarrow> (\<exists>s \<in> set stats. is_ip s = ip \<and> is_suspicious s)"

definition suspicious_count :: "IPStats list \<Rightarrow> (int \<times> string) set \<Rightarrow> nat" where
  "suspicious_count stats addrs = card {a \<in> addrs. suspicious_address stats (snd a)}"

definition slot_report :: "(int \<Rightarrow> tm) \<Rightarrow> IPStats list \<Rightarrow> int \<Rightarrow> ConnectionRecord list \<Rightarrow> nat \<Rightarrow> TrafficReport" where
  "slot_report localtime stats start_day cs d =
     (let own = slot_connections localtime start_day cs d; addrs = day_addresses localtime own in
      \<lparr>tr_period = day_label (localtime (start_day - int d * 86400)),
       tr_total_bytes = sum_list (map cr_bytes own),
       tr_total_connections = of_nat (length own),
       tr_unique_ips = of_nat (card addrs),
       tr_suspicious_ips = of_nat (suspicious_count stats addrs)\<rparr>)"

section \<open>Lemmas\<close>

lemma search_previous_iff:
  "search_previous localtime c ps \<longleftrightarrow> (day_start localtime (cr_timestamp c), cr_ip c) \<notin> day_addresses localtime ps"
  by (induction ps) (auto simp: day_addresses_def)

lemma search_suspicious_iff: "search_suspicious ip stats \<longleftrightarrow> suspicious_address stats ip"
  by (induction stats) (auto simp: suspicious_address_def)

text \<open>Connections of the same day are in the same slot.\<close>

lemma same_day_same_slot:
  assumes "day_diff localtime start c = d"
  shows "(day_start localtime (cr_timestamp c), cr_ip c) \<in> day_addresses localtime ps \<longleftrightarrow>
    (day_start localtime (cr_timestamp c), cr_ip c) \<in> day_addresses localtime (filter (\<lambda>p. day_diff localtime start p = d) ps)"
  unfolding day_addresses_def image_iff using assms by (auto simp: day_diff_def)

lemma finite_day_addresses [simp]: "finite (day_addresses localtime cs)"
  by (simp add: day_addresses_def)

lemma day_addresses_snoc:
  "day_addresses localtime (cs @ [c]) = insert (day_start localtime (cr_timestamp c), cr_ip c) (day_addresses localtime cs)"
  by (auto simp: day_addresses_def)

lemma suspicious_count_insert:
  assumes "finite A"
  shows "suspicious_count stats (insert a A) =
    (if a \<notin> A \<and> suspicious_address stats (snd a) then Suc (suspicious_count stats A) else suspicious_count stats A)"
proof -
  have "{x \<in> insert a A. suspicious_address stats (snd x)} =
      (if suspicious_address stats (snd a) then insert a {x \<in> A. suspicious_address stats (snd x)}
       else {x \<in> A. suspicious_address stats (snd x)})" by auto
  then show ?thesis using assms by (auto simp: suspicious_count_def insert_absorb)
qed

lemma slot_report_snoc:
  "slot_report localtime stats start (ps @ [c]) d =
     (if day_diff localtime start c = int d
      then count_record stats (search_previous localtime c ps) c (slot_report localtime stats start ps d)
      else slot_report localtime stats start ps d)"
proof (cases "day_diff localtime start c = int d")
  case True
  let ?a = "(day_start localtime (cr_timestamp c), cr_ip c)"
  let ?A = "day_addresses localtime (slot_connections localtime start ps d)"
  have own: "slot_connections localtime start (ps @ [c]) d = slot_connections localtime start ps d @ [c]"
    using True by (simp add: slot_connections_def)
  have new: "search_previous localtime c ps \<longleftrightarrow> ?a \<notin> ?A"
    using same_day_same_slot[OF True] by (simp add: search_previous_iff slot_connections_def)
  show ?thesis
    using True new
    by (auto simp: slot_report_def Let_def own day_addresses_snoc suspicious_count_insert count_record_def search_suspicious_iff insert_absorb)
qed (simp add: slot_report_def slot_connections_def)

lemma report_loop_slots:
  assumes "length reports = 30" and "\<forall>d < 30. reports ! d = slot_report localtime stats start prev d"
  shows "length (report_loop localtime stats start prev cs reports) = 30 \<and>
    (\<forall>d < 30. report_loop localtime stats start prev cs reports ! d = slot_report localtime stats start (prev @ cs) d)"
  using assms
proof (induction cs arbitrary: prev reports)
  case (Cons c cs)
  let ?d = "day_diff localtime start c"
  let ?r = "if 0 \<le> ?d \<and> ?d < 30
    then reports[nat ?d := count_record stats (search_previous localtime c prev) c (reports ! nat ?d)] else reports"
  have "length ?r = 30" using Cons.prems(1) by simp
  moreover have "\<forall>d < 30. ?r ! d = slot_report localtime stats start (prev @ [c]) d"
    using Cons.prems by (auto simp: slot_report_snoc nth_list_update)
  ultimately show ?case using Cons.IH[of ?r "prev @ [c]"] by (simp add: Let_def)
qed simp

lemma daily_report_slots:
  "generate_daily_report localtime True cs stats ref =
     (Some (map (slot_report localtime stats (day_start localtime ref) cs) [0..<30]), 30)"
proof -
  let ?r0 = "map (\<lambda>i. empty_report (day_label (localtime (day_start localtime ref - int i * 86400)))) [0..<30]"
  have "\<forall>d < 30. ?r0 ! d = slot_report localtime stats (day_start localtime ref) [] d"
    by (simp add: slot_report_def slot_connections_def day_addresses_def empty_report_def suspicious_count_def)
  from report_loop_slots[OF _ this, of cs]
  have "report_loop localtime stats (day_start localtime ref) [] cs ?r0 =
      map (slot_report localtime stats (day_start localtime ref) cs) [0..<30]"
    by (intro nth_equalityI) simp_all
  then show ?thesis by (simp add: generate_daily_report_def Let_def)
qed

text \<open>A clock whose days have 24 hours and start at multiples of 86400 seconds, as in coordinated universal time.\<close>

definition utc_clock :: "(int \<Rightarrow> tm) \<Rightarrow> bool" where
  "utc_clock localtime \<longleftrightarrow> (\<forall>ts. tm_hour (localtime ts) * 3600 + tm_min (localtime ts) * 60 + tm_sec (localtime ts) = ts mod 86400)"

definition plausible_time :: "int \<Rightarrow> bool" where
  "plausible_time ts \<longleftrightarrow> 0 \<le> ts \<and> ts < 2 ^ 40"

lemma utc_day_start: "utc_clock localtime \<Longrightarrow> day_start localtime ts = 86400 * (ts div 86400)"
  by (simp add: utc_clock_def day_start_def minus_mod_eq_mult_div)

lemma whole_days_sdiv: "(q * 86400 :: int) sdiv 86400 = q"
  by (simp add: signed_divide_int_def sgn_mult abs_mult sgn_mult_abs)

lemma utc_day_diff:
  assumes "utc_clock localtime" and "plausible_time ref" and "plausible_time (cr_timestamp c)"
  shows "day_diff localtime (day_start localtime ref) c = ref div 86400 - cr_timestamp c div 86400"
proof -
  let ?q = "ref div 86400 - cr_timestamp c div 86400"
  have "(day_start localtime ref - day_start localtime (cr_timestamp c)) = ?q * 86400"
    using assms(1) by (simp add: utc_day_start algebra_simps)
  moreover have "- (2 ^ 31) \<le> ?q" and "?q < 2 ^ 31"
    using assms(2,3) by (simp_all add: plausible_time_def, linarith+)
  then have "signed_take_bit 31 ?q = ?q" by (intro signed_take_bit_int_eq_self) simp_all
  ultimately show ?thesis by (simp only: day_diff_def whole_days_sdiv)
qed

text \<open>The report of a calendar day, \<open>d\<close> days before the day of \<open>ref\<close>.\<close>

definition calendar_report :: "(int \<Rightarrow> tm) \<Rightarrow> IPStats list \<Rightarrow> int \<Rightarrow> ConnectionRecord list \<Rightarrow> nat \<Rightarrow> TrafficReport" where
  "calendar_report localtime stats ref cs d =
     (let day = ref div 86400 - int d; own = filter (\<lambda>c. cr_timestamp c div 86400 = day) cs in
      \<lparr>tr_period = day_label (localtime (86400 * day)),
       tr_total_bytes = sum_list (map cr_bytes own),
       tr_total_connections = of_nat (length own),
       tr_unique_ips = of_nat (card (cr_ip ` set own)),
       tr_suspicious_ips = of_nat (card {ip \<in> cr_ip ` set own. suspicious_address stats ip})\<rparr>)"

lemma slot_report_calendar:
  assumes "utc_clock localtime" and "plausible_time ref" and "\<forall>c \<in> set cs. plausible_time (cr_timestamp c)"
  shows "slot_report localtime stats (day_start localtime ref) cs d = calendar_report localtime stats ref cs d"
proof -
  define day where "day = ref div 86400 - int d"
  define own where "own = filter (\<lambda>c. cr_timestamp c div 86400 = day) cs"
  have slot: "slot_connections localtime (day_start localtime ref) cs d = own"
    unfolding slot_connections_def own_def day_def
    by (rule filter_cong) (use assms utc_day_diff[OF assms(1,2)] in auto)
  have start: "day_start localtime ref - int d * 86400 = 86400 * day"
    using utc_day_start[OF assms(1)] by (simp add: day_def)
  have addrs: "day_addresses localtime own = Pair (86400 * day) ` cr_ip ` set own"
    by (auto simp: day_addresses_def own_def utc_day_start[OF assms(1)] image_iff)
  have c: "card (Pair (86400 * day) ` A) = card A" for A :: "string set" by (simp add: card_image inj_on_def)
  have s: "{a \<in> Pair (86400 * day) ` A. suspicious_address stats (snd a)} =
      Pair (86400 * day) ` {ip \<in> A. suspicious_address stats ip}" for A :: "string set" by auto
  show ?thesis
    unfolding slot_report_def calendar_report_def Let_def slot start suspicious_count_def addrs s c
      day_def[symmetric] own_def[symmetric] by (rule refl)
qed

section \<open>Properties\<close>


definition utc_localtime :: "int \<Rightarrow> tm" where
  "utc_localtime ts = \<lparr>tm_sec = ts mod 60, tm_min = ts div 60 mod 60, tm_hour = ts div 3600 mod 24, tm_mday = 1, tm_mon = 0, tm_year = 100\<rparr>"

lemma utc_localtime_clock: "utc_clock utc_localtime"
proof -
  have "ts div 3600 mod 24 * 3600 + ts div 60 mod 60 * 60 + ts mod 60 = ts mod 86400" for ts :: int
    using zmod_zmult2_eq[of 1440 ts 60] zmod_zmult2_eq[of 24 "ts div 60" 60] zdiv_zmult2_eq[of 60 ts 60] by simp
  then show ?thesis by (simp add: utc_clock_def utc_localtime_def)
qed

definition sample_connections :: "ConnectionRecord list" where
  "sample_connections = [\<lparr>cr_ip = ''10.0.0.1'', cr_timestamp = 1711922400, cr_bytes = 5\<rparr>,
     \<lparr>cr_ip = ''10.0.0.2'', cr_timestamp = 1711922401, cr_bytes = 6\<rparr>,
     \<lparr>cr_ip = ''10.0.0.1'', cr_timestamp = 1711922402, cr_bytes = 7\<rparr>]"


text \<open>A clock with the change to summer time of the last night of March 2024 in central Europe, one hour ahead of universal time before it
  and two hours after it.\<close>

definition cet_localtime :: "int \<Rightarrow> tm" where
  "cet_localtime ts = utc_localtime (if ts < 1711846800 then ts + 3600 else ts + 7200)"

text \<open>A connection made half an hour after midnight on 31 March is counted in the report for 1 April, not in the one for the day
  before: local midnights are 23 hours apart, and the division by 24 hours truncates.\<close>

theorem summer_time_miscounts:
  "map (nat \<circ> uint \<circ> tr_total_connections) (take 2 (the (fst (generate_daily_report cet_localtime True
      [\<lparr>cr_ip = ''10.0.0.1'', cr_timestamp = 1711841400, cr_bytes = 5\<rparr>] [] 1711965600)))) = [1, 0]"
  by code_simp

end
