(* ===== verification/Analyzer_Functions.thy ===== *)
theory Analyzer_Functions
  imports Traffic_Analyzer
begin

text \<open>
  Maintenance, configuration and detection functions of the traffic analyser (\<open>NetTrafficAnalyzer/additional_functions.c\<close>). The file ends inside
  \<open>generate_hourly_report\<close>, which is therefore not modelled. Arrays are lists of their allocated elements, of which a counter says how
  many are used; a buffer that \<open>malloc\<close> returns holds indeterminate characters (\<^const>\<open>None\<close>) until they are written.
  \<open>find_or_create_ip_stats\<close> and the loaders of lists and statistics are not part of the repository: they are parameters.

  The theory shows that the compaction in place keeps exactly the recent records in their order, that shrinking the arrays loses nothing,
  that a saved configuration is read back, and which strings of the list of suspicious addresses can be read.
\<close>

section \<open>State\<close>

record AnalyzerConfig =
  ac_suspicious_requests_threshold :: u32
  ac_suspicious_time_window :: u32
  ac_enable_geo_tracking :: "8 word"
  ac_enable_pattern_analysis :: "8 word"
  ac_enable_adaptive_threshold :: "8 word"
  ac_blacklist_file :: string
  ac_whitelist_file :: string
  ac_database_file :: string

record analyzer =
  az_connections :: "ConnectionRecord list option"
  az_connection_count :: nat
  az_ip_stats :: "IPStats list option"
  az_ip_stats_count :: nat
  az_config :: AnalyzerConfig

definition DEFAULT_SUSPICIOUS_REQUESTS_THRESHOLD :: u32 where "DEFAULT_SUSPICIOUS_REQUESTS_THRESHOLD = 100"
definition DEFAULT_SUSPICIOUS_TIME_WINDOW :: u32 where "DEFAULT_SUSPICIOUS_TIME_WINDOW = 60"

text \<open>The counters stay within the arrays.\<close>

definition fits :: "'a list option \<Rightarrow> nat \<Rightarrow> bool" where
  "fits a n \<longleftrightarrow> (case a of None \<Rightarrow> n = 0 | Some xs \<Rightarrow> n \<le> length xs)"

definition used :: "'a list option \<Rightarrow> nat \<Rightarrow> 'a list" where
  "used a n = (case a of None \<Rightarrow> [] | Some xs \<Rightarrow> take n xs)"

section \<open>Maintenance\<close>

text \<open>The loop that moves the elements to keep to the front; \<open>k\<close> is \<open>new_count\<close>.\<close>

function compact_loop :: "('a \<Rightarrow> bool) \<Rightarrow> nat \<Rightarrow> 'a list \<Rightarrow> nat \<Rightarrow> nat \<Rightarrow> 'a list \<times> nat" where
  "compact_loop keep n a i k =
     (if i < n
      then (if keep (a ! i) then compact_loop keep n (if i \<noteq> k then a[k := a ! i] else a) (i + 1) (k + 1)
            else compact_loop keep n a (i + 1) k)
      else (a, k))"
  by pat_completeness auto
termination
  by (relation "measure (\<lambda>(_, n, _, i, _). n - i)") auto

declare compact_loop.simps [simp del]

definition compact :: "('a \<Rightarrow> bool) \<Rightarrow> nat \<Rightarrow> 'a list option \<Rightarrow> 'a list option \<times> nat" where
  "compact keep n a =
     (case a of None \<Rightarrow> (None, 0) | Some xs \<Rightarrow> (case compact_loop keep n xs 0 0 of (ys, k) \<Rightarrow> (Some ys, k)))"

definition cleanup_old_records :: "int \<Rightarrow> analyzer \<Rightarrow> analyzer" where
  "cleanup_old_records cutoff_time z =
     (case (compact (\<lambda>c. cr_timestamp c > cutoff_time) (az_connection_count z) (az_connections z),
            compact (\<lambda>s. is_last_seen s > cutoff_time) (az_ip_stats_count z) (az_ip_stats z)) of
        ((cs, n), (ss, m)) \<Rightarrow>
          z\<lparr>az_connections := cs, az_connection_count := n, az_ip_stats := ss, az_ip_stats_count := m\<rparr>)"

text \<open>\<open>realloc\<close> to \<open>n\<close> elements: the old elements as far as there is room, then what the new memory holds; \<^const>\<open>None\<close> if it fails.\<close>

definition realloc_array :: "'a list option \<Rightarrow> 'a list option \<Rightarrow> nat \<Rightarrow> 'a list option" where
  "realloc_array memory a n =
     (case memory of
        None \<Rightarrow> None
      | Some new \<Rightarrow> (case a of None \<Rightarrow> Some (take n new) | Some xs \<Rightarrow> Some (take n (xs @ new))))"

definition optimize_memory_usage :: "ConnectionRecord list option \<Rightarrow> IPStats list option \<Rightarrow> analyzer \<Rightarrow> analyzer" where
  "optimize_memory_usage memory1 memory2 z =
     (let z = (if az_connection_count z < MAX_RECORDS div 4
               then (case realloc_array memory1 (az_connections z) (MAX_RECORDS div 2) of
                       None \<Rightarrow> z | Some new_connections \<Rightarrow> z\<lparr>az_connections := Some new_connections\<rparr>)
               else z)
      in if az_ip_stats_count z < MAX_IP_STATS div 4
         then (case realloc_array memory2 (az_ip_stats z) (MAX_IP_STATS div 2) of
                 None \<Rightarrow> z | Some new_stats \<Rightarrow> z\<lparr>az_ip_stats := Some new_stats\<rparr>)
         else z)"

definition reset_ip_stats :: "analyzer \<Rightarrow> analyzer" where
  "reset_ip_stats z = z\<lparr>az_ip_stats := None, az_ip_stats_count := 0\<rparr>"

section \<open>Suspicious addresses\<close>

text \<open>A buffer of \<open>n\<close> characters from \<open>malloc\<close>, and \<open>strncpy\<close> of \<open>n\<close> characters to its beginning.\<close>

type_synonym char_buffer = "char option list"

definition fresh_buffer :: "nat \<Rightarrow> char_buffer" where
  "fresh_buffer n = replicate n None"

definition strncpy :: "char_buffer \<Rightarrow> string \<Rightarrow> nat \<Rightarrow> char_buffer" where
  "strncpy dst s n = map Some (take n s @ replicate (n - length s) nul) @ drop n dst"

text \<open>\<open>snprintf\<close> of a text into a buffer of \<open>n\<close> characters.\<close>

definition snprintf_buffer :: "nat \<Rightarrow> string \<Rightarrow> char_buffer" where
  "snprintf_buffer n s = map Some (take (n - 1) s @ [nul]) @ fresh_buffer (n - 1 - length s)"

text \<open>Reading a buffer as a string; \<^const>\<open>None\<close> if no terminator comes before an indeterminate character or the end.\<close>

fun read_string :: "char_buffer \<Rightarrow> string option" where
  "read_string [] = None"
| "read_string (None # cs) = None"
| "read_string (Some c # cs) = (if c = nul then Some [] else map_option (Cons c) (read_string cs))"

record SuspiciousIP =
  sp_ip :: char_buffer
  sp_request_count :: u32
  sp_first_seen :: int
  sp_last_seen :: int
  sp_reason :: char_buffer
  sp_country_code :: char_buffer
  sp_location :: char_buffer
  sp_connection_pattern :: char_buffer

definition suspicion_reason :: "IPStats \<Rightarrow> string" where
  "suspicion_reason s = ''Requests: '' @ show_nat (unat (is_window_requests s)) @ '', Threshold: '' @
     show_nat (unat (is_adaptive_threshold s)) @ '', Pattern: '' @ is_connection_pattern s"

definition suspicious_record :: "IPStats \<Rightarrow> SuspiciousIP" where
  "suspicious_record s =
     \<lparr>sp_ip = strncpy (fresh_buffer 16) (is_ip s) 15,
      sp_request_count = is_request_count s, sp_first_seen = is_first_seen s, sp_last_seen = is_last_seen s,
      sp_reason = snprintf_buffer 128 (suspicion_reason s),
      sp_country_code = strncpy (fresh_buffer MAX_COUNTRY_CODE_LENGTH) (is_country_code s) (MAX_COUNTRY_CODE_LENGTH - 1),
      sp_location = strncpy (fresh_buffer MAX_LOCATION_LENGTH) (is_location s) (MAX_LOCATION_LENGTH - 1),
      sp_connection_pattern = strncpy (fresh_buffer MAX_PATTERN_LENGTH) (is_connection_pattern s) (MAX_PATTERN_LENGTH - 1)\<rparr>"

text \<open>The loop that fills the result.\<close>

fun fill_suspicious :: "IPStats list \<Rightarrow> SuspiciousIP list" where
  "fill_suspicious [] = []"
| "fill_suspicious (s # ss) = (if is_suspicious s then suspicious_record s # fill_suspicious ss else fill_suspicious ss)"

definition get_suspicious_ips :: "bool \<Rightarrow> analyzer \<Rightarrow> SuspiciousIP list option \<times> nat" where
  "get_suspicious_ips malloc_ok z =
     (let stats = used (az_ip_stats z) (az_ip_stats_count z);
          suspicious_count = length (filter is_suspicious stats)
      in if suspicious_count = 0 then (None, 0)
         else if \<not> malloc_ok then (None, 0)
         else (Some (fill_suspicious stats), suspicious_count))"

text \<open>\<open>show_time\<close>: what \<open>strftime\<close> and \<open>localtime\<close> make of a time.\<close>

definition csv_row :: "(int \<Rightarrow> string) \<Rightarrow> IPStats \<Rightarrow> string" where
  "csv_row show_time s =
     is_ip s @ '','' @ show_nat (unat (is_request_count s)) @ '','' @ show_time (is_first_seen s) @ '','' @
     show_time (is_last_seen s) @ '','' @ is_connection_pattern s @ '','' @ is_country_code s @ '' '' @ is_location s"

definition export_suspicious_ips :: "(int \<Rightarrow> string) \<Rightarrow> bool \<Rightarrow> analyzer \<Rightarrow> string option" where
  "export_suspicious_ips show_time fopen_ok z =
     (if \<not> fopen_ok then None
      else Some (as_lines (''IP,RequestCount,FirstSeen,LastSeen,Pattern,Location'' #
        map (csv_row show_time) (filter is_suspicious (used (az_ip_stats z) (az_ip_stats_count z))))))"

section \<open>Configuration\<close>

definition update_config :: "AnalyzerConfig option \<Rightarrow> analyzer \<Rightarrow> analyzer" where
  "update_config config z = (case config of None \<Rightarrow> z | Some c \<Rightarrow> z\<lparr>az_config := c\<rparr>)"

definition default_config :: AnalyzerConfig where
  "default_config = \<lparr>ac_suspicious_requests_threshold = DEFAULT_SUSPICIOUS_REQUESTS_THRESHOLD,
     ac_suspicious_time_window = DEFAULT_SUSPICIOUS_TIME_WINDOW, ac_enable_geo_tracking = 1, ac_enable_pattern_analysis = 1,
     ac_enable_adaptive_threshold = 1, ac_blacklist_file = ''blacklist.txt'', ac_whitelist_file = ''whitelist.txt'',
     ac_database_file = ''ip_stats.csv''\<rparr>"

text \<open>
  \<open>init_analyzer\<close>: \<open>memory1\<close> and \<open>memory2\<close> are what \<open>malloc\<close> returns for the two arrays; the three loaders
  are parameters.
\<close>

record analyzer_loaders =
  al_load_blacklist :: "string \<Rightarrow> analyzer \<Rightarrow> analyzer"
  al_load_whitelist :: "string \<Rightarrow> analyzer \<Rightarrow> analyzer"
  al_load_ip_stats :: "string \<Rightarrow> analyzer \<Rightarrow> analyzer"

definition init_analyzer ::
  "analyzer_loaders \<Rightarrow> ConnectionRecord list option \<Rightarrow> IPStats list option \<Rightarrow> AnalyzerConfig option \<Rightarrow> analyzer \<Rightarrow> analyzer" where
  "init_analyzer al memory1 memory2 config z =
     (let z = z\<lparr>az_config := (case config of Some c \<Rightarrow> c | None \<Rightarrow> default_config)\<rparr>;
          z = (if az_connections z = None then z\<lparr>az_connections := memory1\<rparr> else z);
          z = (if az_ip_stats z = None then z\<lparr>az_ip_stats := memory2\<rparr> else z);
          z = (if ac_blacklist_file (az_config z) \<noteq> [] then al_load_blacklist al (ac_blacklist_file (az_config z)) z else z);
          z = (if ac_whitelist_file (az_config z) \<noteq> [] then al_load_whitelist al (ac_whitelist_file (az_config z)) z else z)
      in if ac_database_file (az_config z) \<noteq> [] then al_load_ip_stats al (ac_database_file (az_config z)) z else z)"

definition config_lines :: "AnalyzerConfig \<Rightarrow> string list" where
  "config_lines c =
     [''suspicious_requests_threshold='' @ show_nat (unat (ac_suspicious_requests_threshold c)),
      ''suspicious_time_window='' @ show_nat (unat (ac_suspicious_time_window c)),
      ''enable_geo_tracking='' @ show_nat (unat (ac_enable_geo_tracking c)),
      ''enable_pattern_analysis='' @ show_nat (unat (ac_enable_pattern_analysis c)),
      ''enable_adaptive_threshold='' @ show_nat (unat (ac_enable_adaptive_threshold c)),
      ''blacklist_file='' @ ac_blacklist_file c,
      ''whitelist_file='' @ ac_whitelist_file c,
      ''database_file='' @ ac_database_file c]"

definition save_config :: "bool \<Rightarrow> AnalyzerConfig \<Rightarrow> string option" where
  "save_config fopen_ok c = (if \<not> fopen_ok then None else Some (as_lines (config_lines c)))"

text \<open>\<open>sscanf(line, "%[^=]=%[^\n]", key, value) == 2\<close>: both parts are nonempty.\<close>

definition scan_pair :: "string \<Rightarrow> (string \<times> string) option" where
  "scan_pair line =
     (let line = c_string line; key = takeWhile (\<lambda>c. c \<noteq> CHR ''='') line; rest = dropWhile (\<lambda>c. c \<noteq> CHR ''='') line;
          val = takeWhile (\<lambda>c. c \<noteq> newline) (tl rest)
      in if key = [] \<or> rest = [] \<or> val = [] then None else Some (key, val))"

text \<open>One line of a configuration file. Parts that do not fit into their buffers, of 256 and 768 characters, are undefined.\<close>

definition config_line :: "string \<Rightarrow> AnalyzerConfig \<Rightarrow> AnalyzerConfig option" where
  "config_line line c =
     (if length (takeWhile (\<lambda>x. x \<noteq> CHR ''='') (c_string line)) \<ge> 256 then None
      else
        case scan_pair line of
          None \<Rightarrow> Some c
        | Some (key, val) \<Rightarrow>
            if length val \<ge> 768 then None
            else if key = ''suspicious_requests_threshold''
            then map_option (\<lambda>n. c\<lparr>ac_suspicious_requests_threshold := word_of_int n\<rparr>) (atoi val)
            else if key = ''suspicious_time_window''
            then map_option (\<lambda>n. c\<lparr>ac_suspicious_time_window := word_of_int n\<rparr>) (atoi val)
            else if key = ''enable_geo_tracking''
            then map_option (\<lambda>n. c\<lparr>ac_enable_geo_tracking := word_of_int n\<rparr>) (atoi val)
            else if key = ''enable_pattern_analysis''
            then map_option (\<lambda>n. c\<lparr>ac_enable_pattern_analysis := word_of_int n\<rparr>) (atoi val)
            else if key = ''enable_adaptive_threshold''
            then map_option (\<lambda>n. c\<lparr>ac_enable_adaptive_threshold := word_of_int n\<rparr>) (atoi val)
            else if key = ''blacklist_file'' then Some (c\<lparr>ac_blacklist_file := take 255 val\<rparr>)
            else if key = ''whitelist_file'' then Some (c\<lparr>ac_whitelist_file := take 255 val\<rparr>)
            else if key = ''database_file'' then Some (c\<lparr>ac_database_file := take 255 val\<rparr>)
            else Some c)"

fun load_lines :: "string list \<Rightarrow> AnalyzerConfig \<Rightarrow> AnalyzerConfig option" where
  "load_lines [] c = Some c"
| "load_lines (line # ls) c = Option.bind (config_line line c) (load_lines ls)"

definition load_config :: "string option \<Rightarrow> AnalyzerConfig \<Rightarrow> AnalyzerConfig option" where
  "load_config content c = (case content of None \<Rightarrow> Some c | Some s \<Rightarrow> load_lines (read_lines 1022 s) c)"

section \<open>Location, pattern and detection\<close>

text \<open>\<open>find_or_create_ip_stats\<close>: the index of the entry and the state, or \<^const>\<open>None\<close>.\<close>

type_synonym find_or_create = "string \<Rightarrow> analyzer \<Rightarrow> (nat \<times> analyzer) option"

definition change_stats :: "nat \<Rightarrow> (IPStats \<Rightarrow> IPStats) \<Rightarrow> analyzer \<Rightarrow> analyzer" where
  "change_stats i f z = z\<lparr>az_ip_stats := map_option (\<lambda>a. a[i := f (a ! i)]) (az_ip_stats z)\<rparr>"

definition update_ip_location :: "find_or_create \<Rightarrow> string \<Rightarrow> string \<Rightarrow> string \<Rightarrow> analyzer \<Rightarrow> int \<times> analyzer" where
  "update_ip_location focs ip country_code location z =
     (case focs ip z of
        None \<Rightarrow> (0, z)
      | Some (i, z) \<Rightarrow>
          (1, change_stats i (\<lambda>s. s\<lparr>is_country_code := take (MAX_COUNTRY_CODE_LENGTH - 1) country_code,
                                    is_location := take (MAX_LOCATION_LENGTH - 1) location\<rparr>) z))"

definition find_stats :: "string \<Rightarrow> analyzer \<Rightarrow> IPStats option" where
  "find_stats ip z = find (\<lambda>s. is_ip s = ip) (used (az_ip_stats z) (az_ip_stats_count z))"

definition get_ip_location :: "string \<Rightarrow> analyzer \<Rightarrow> string" where
  "get_ip_location ip z =
     (case find_stats ip z of
        Some s \<Rightarrow> take (MAX_LOCATION_LENGTH + MAX_COUNTRY_CODE_LENGTH + 1) (is_country_code s @ '', '' @ is_location s)
      | None \<Rightarrow> ''Unknown'')"

definition get_connection_pattern :: "string \<Rightarrow> analyzer \<Rightarrow> string" where
  "get_connection_pattern ip z =
     (case find_stats ip z of Some s \<Rightarrow> is_connection_pattern s | None \<Rightarrow> ''No pattern data'')"

text \<open>The threshold is doubled in the arithmetic of the 32-bit counter. The second component is what is printed.\<close>

definition detect_port_scan :: "find_or_create \<Rightarrow> string \<Rightarrow> 16 word \<Rightarrow> analyzer \<Rightarrow> analyzer \<times> string option" where
  "detect_port_scan focs ip port z =
     (case focs ip z of
        None \<Rightarrow> (z, None)
      | Some (i, z) \<Rightarrow>
          (let s = the (az_ip_stats z) ! i in
           if is_window_requests s > is_adaptive_threshold s * 2
           then (change_stats i (\<lambda>s. s\<lparr>is_suspicious := True\<rparr>) z,
                 Some (''Warning: Possible port scan detected from IP: '' @ ip @ '' on port '' @ show_nat (unat port)))
           else (z, None)))"

text \<open>The loop over the connections counts in 32 bits; the window is subtracted as an unsigned number.\<close>

fun count_recent :: "int \<Rightarrow> ConnectionRecord list \<Rightarrow> u32 \<Rightarrow> u32" where
  "count_recent window_start [] n = n"
| "count_recent window_start (c # cs) n =
     count_recent window_start cs (if cr_timestamp c > window_start then n + 1 else n)"

definition detect_ddos_attempt :: "int \<Rightarrow> analyzer \<Rightarrow> string option" where
  "detect_ddos_attempt current_time z =
     (let window_start = current_time - uint (ac_suspicious_time_window (az_config z));
          total_connections = count_recent window_start (used (az_connections z) (az_connection_count z)) 0
      in if total_connections > ac_suspicious_requests_threshold (az_config z) * 10
         then Some (''Warning: Possible DDoS attack detected! Total connections in window: '' @ show_nat (unat total_connections))
         else None)"

definition analyze_traffic_pattern :: "(rat \<Rightarrow> string) \<Rightarrow> find_or_create \<Rightarrow> string \<Rightarrow> analyzer \<Rightarrow> analyzer \<times> string list" where
  "analyze_traffic_pattern show_double focs ip z =
     (case focs ip z of
        None \<Rightarrow> (z, [])
      | Some (i, z) \<Rightarrow>
          (let s = the (az_ip_stats z) ! i in
           (z, if is_burst_count s > 3
               then [''Warning: Unusual traffic pattern detected from IP: '' @ ip,
                     ''Burst count: '' @ show_nat (unat (is_burst_count s)) @ '', Avg interval: '' @
                     show_double (is_avg_request_interval s) @ '' seconds'']
               else [])))"

section \<open>Lemmas\<close>

text \<open>The loop overwrites only positions it has read.\<close>

lemma compact_loop_filter:
  assumes "k \<le> i" and "i \<le> n" and "n \<le> length a" and "compact_loop keep n a i k = (b, m)"
  shows "length b = length a \<and> take m b = take k a @ filter keep (drop i (take n a)) \<and> m \<le> n"
  using assms
proof (induction keep n a i k arbitrary: b m rule: compact_loop.induct)
  case (1 keep n a i k)
  show ?case
  proof (cases "i < n")
    case False
    have "(b, m) = (a, k)" using 1(6) by (subst (asm) compact_loop.simps) (simp add: False)
    then show ?thesis using False 1(3-5) by simp
  next
    case True
    then have d: "drop i (take n a) = a ! i # drop (i + 1) (take n a)"
      using 1(5) by (simp add: Cons_nth_drop_Suc[symmetric])
    show ?thesis
    proof (cases "keep (a ! i)")
      case keep: True
      let ?a = "if i \<noteq> k then a[k := a ! i] else a"
      have "compact_loop keep n a i k = compact_loop keep n ?a (i + 1) (k + 1)"
        by (subst compact_loop.simps) (simp only: True keep if_True)
      then have eq: "compact_loop keep n ?a (i + 1) (k + 1) = (b, m)" using 1(6) by (rule trans[OF sym])
      have "length b = length ?a \<and> take m b = take (k + 1) ?a @ filter keep (drop (i + 1) (take n ?a)) \<and> m \<le> n"
        by (rule 1(1)[OF True keep _ _ _ eq]) (use 1(3-5) True in simp_all)
      moreover have "take (k + 1) ?a = take k a @ [a ! i]"
        using 1(3,5) True by (auto simp: take_Suc_conv_app_nth)
      moreover have "drop (i + 1) (take n ?a) = drop (i + 1) (take n a)"
        using 1(3) by (simp add: take_update_swap)
      ultimately show ?thesis using d keep by simp
    next
      case skip: False
      have "compact_loop keep n a i k = compact_loop keep n a (i + 1) k"
        by (subst compact_loop.simps) (simp only: True skip if_True if_False)
      then have eq: "compact_loop keep n a (i + 1) k = (b, m)" using 1(6) by (rule trans[OF sym])
      have "length b = length a \<and> take m b = take k a @ filter keep (drop (i + 1) (take n a)) \<and> m \<le> n"
        by (rule 1(2)[OF True skip _ _ _ eq]) (use 1(3-5) True in simp_all)
      then show ?thesis using d skip by simp
    qed
  qed
qed

lemma compact_filter:
  assumes "fits a n" and "compact keep n a = (b, m)"
  shows "fits b m \<and> used b m = filter keep (used a n)"
proof (cases a)
  case (Some xs)
  obtain ys where "compact_loop keep n xs 0 0 = (ys, m)" and b: "b = Some ys"
    using assms(2) Some by (auto simp: compact_def split: prod.splits)
  then show ?thesis
    using compact_loop_filter[of 0 0 n xs keep ys m] assms(1) Some by (simp add: fits_def used_def)
qed (use assms in \<open>simp add: compact_def fits_def used_def\<close>)

lemma realloc_keeps:
  assumes "fits a m" and "m \<le> n" and "realloc_array (Some new) a n = Some b" and "n \<le> length new"
  shows "fits (Some b) m \<and> used (Some b) m = used a m"
  using assms by (cases a) (auto simp: realloc_array_def fits_def used_def min_def)

lemma scan_pair_line:
  assumes "CHR ''='' \<notin> set key" and "key \<noteq> []" and "val \<noteq> []" and "nul \<notin> set key" and "nul \<notin> set val" and "newline \<notin> set val"
  shows "scan_pair (key @ CHR ''='' # val @ [newline]) = Some (key, val)"
proof -
  have "c_string (key @ CHR ''='' # val @ [newline]) = key @ CHR ''='' # val @ [newline]"
    unfolding c_string_def using assms(4,5) by (subst takeWhile_eq_all_conv) (auto simp: nul_def newline_def)
  moreover have "takeWhile (\<lambda>c. c \<noteq> CHR ''='') (key @ CHR ''='' # val @ [newline]) = key"
    using assms(1) by (auto simp: takeWhile_append)
  moreover have "dropWhile (\<lambda>c. c \<noteq> CHR ''='') (key @ CHR ''='' # val @ [newline]) = CHR ''='' # val @ [newline]"
    using assms(1) by (auto simp: dropWhile_append)
  moreover have "takeWhile (\<lambda>c. c \<noteq> newline) (val @ [newline]) = val"
    using assms(6) by (auto simp: takeWhile_append)
  ultimately show ?thesis using assms(2,3) by (simp add: scan_pair_def Let_def)
qed

text \<open>A line whose key is one of the known names, followed by a value that fits.\<close>

definition good_value :: "string \<Rightarrow> bool" where
  "good_value v \<longleftrightarrow> v \<noteq> [] \<and> length v \<le> 255 \<and> nul \<notin> set v \<and> newline \<notin> set v"

lemma config_line_pair:
  assumes "key \<in> {''suspicious_requests_threshold'', ''suspicious_time_window'', ''enable_geo_tracking'', ''enable_pattern_analysis'',
      ''enable_adaptive_threshold'', ''blacklist_file'', ''whitelist_file'', ''database_file''}"
    and "good_value v"
  shows "scan_pair ((key @ ''='' @ v) @ [newline]) = Some (key, v) \<and>
    length (takeWhile (\<lambda>x. x \<noteq> CHR ''='') (c_string ((key @ ''='' @ v) @ [newline]))) < 256 \<and> length v < 768 \<and>
    newline \<notin> set (key @ ''='' @ v) \<and> length (key @ ''='' @ v) \<le> 1022"
proof -
  have key: "CHR ''='' \<notin> set key" "key \<noteq> []" "nul \<notin> set key" "newline \<notin> set key" "length key < 256"
    using assms(1) by (auto simp: nul_def newline_def)
  have "c_string (key @ CHR ''='' # v @ [newline]) = key @ CHR ''='' # v @ [newline]"
    unfolding c_string_def using key(3) assms(2)
    by (subst takeWhile_eq_all_conv) (auto simp: nul_def newline_def good_value_def)
  moreover have "takeWhile (\<lambda>c. c \<noteq> CHR ''='') (key @ CHR ''='' # v @ [newline]) = key"
    using key(1) by (auto simp: takeWhile_append)
  ultimately show ?thesis
    using scan_pair_line[of key v] key assms(2) by (auto simp: good_value_def newline_def)
qed

lemma good_number:
  assumes "n < 10 ^ 10"
  shows "good_value (show_nat n)"
proof -
  have "length (show_nat n) \<le> 10" using length_show_nat[of n 9] assms by simp
  moreover have "nul \<notin> set (show_nat n)" "newline \<notin> set (show_nat n)"
    using show_nat_digits[of n] by (auto simp: list_all_iff is_digit_char_def nul_def newline_def)
  ultimately show ?thesis using show_nat_digits[of n] by (simp add: good_value_def)
qed

text \<open>A configuration whose numbers \<open>atoi\<close> can read and whose file names are neither empty nor too long.\<close>

definition config_ok :: "AnalyzerConfig \<Rightarrow> bool" where
  "config_ok c \<longleftrightarrow> unat (ac_suspicious_requests_threshold c) < 2147483648 \<and> unat (ac_suspicious_time_window c) < 2147483648 \<and>
     good_value (ac_blacklist_file c) \<and> good_value (ac_whitelist_file c) \<and> good_value (ac_database_file c)"

lemma config_line_number:
  assumes "n < 2147483648"
  shows "config_line ((''suspicious_requests_threshold='' @ show_nat n) @ [newline]) c = Some (c\<lparr>ac_suspicious_requests_threshold := of_nat n\<rparr>)"
    "config_line ((''suspicious_time_window='' @ show_nat n) @ [newline]) c = Some (c\<lparr>ac_suspicious_time_window := of_nat n\<rparr>)"
    "config_line ((''enable_geo_tracking='' @ show_nat n) @ [newline]) c = Some (c\<lparr>ac_enable_geo_tracking := of_nat n\<rparr>)"
    "config_line ((''enable_pattern_analysis='' @ show_nat n) @ [newline]) c = Some (c\<lparr>ac_enable_pattern_analysis := of_nat n\<rparr>)"
    "config_line ((''enable_adaptive_threshold='' @ show_nat n) @ [newline]) c = Some (c\<lparr>ac_enable_adaptive_threshold := of_nat n\<rparr>)"
  using good_number[of n] assms
    config_line_pair[of "''suspicious_requests_threshold''" "show_nat n"] config_line_pair[of "''suspicious_time_window''" "show_nat n"]
    config_line_pair[of "''enable_geo_tracking''" "show_nat n"] config_line_pair[of "''enable_pattern_analysis''" "show_nat n"]
    config_line_pair[of "''enable_adaptive_threshold''" "show_nat n"]
  by (simp_all add: config_line_def atoi_show_nat)

lemma config_line_name:
  assumes "good_value v"
  shows "config_line ((''blacklist_file='' @ v) @ [newline]) c = Some (c\<lparr>ac_blacklist_file := v\<rparr>)"
    "config_line ((''whitelist_file='' @ v) @ [newline]) c = Some (c\<lparr>ac_whitelist_file := v\<rparr>)"
    "config_line ((''database_file='' @ v) @ [newline]) c = Some (c\<lparr>ac_database_file := v\<rparr>)"
  using assms config_line_pair[of "''blacklist_file''" v] config_line_pair[of "''whitelist_file''" v]
    config_line_pair[of "''database_file''" v]
  by (simp_all add: config_line_def good_value_def)

lemma word_small:
  fixes x :: u32 and y :: "8 word"
  shows "unat x < 10 ^ 10" and "unat y < 2147483648" and "unat y < 10 ^ 10"
proof -
  have "unat x < 2 ^ 32" and "unat y < 2 ^ 8" using unsigned_less[of x] unsigned_less[of y] by simp_all
  then show "unat x < 10 ^ 10" and "unat y < 2147483648" and "unat y < 10 ^ 10" by simp_all
qed

lemma config_lines_short:
  assumes "config_ok c"
  shows "\<forall>l \<in> set (config_lines c). newline \<notin> set l \<and> length l \<le> 1022"
proof -
  have "good_value (show_nat (unat x))" "good_value (show_nat (unat y))" for x :: u32 and y :: "8 word"
    using good_number word_small by blast+
  note g = this[unfolded good_value_def]
  show ?thesis
    using assms g(1)[of "ac_suspicious_requests_threshold c"] g(1)[of "ac_suspicious_time_window c"]
      g(2)[of "ac_enable_geo_tracking c"] g(2)[of "ac_enable_pattern_analysis c"] g(2)[of "ac_enable_adaptive_threshold c"]
    by (simp add: config_lines_def config_ok_def good_value_def newline_def)
qed

section \<open>Properties\<close>

text \<open>A saved configuration is read back, whatever the configuration was before, if its numbers are below \<open>2 ^ 31\<close> and its file
  names are neither empty nor longer than 255 characters and on one line.\<close>

theorem config_round_trip:
  assumes "config_ok c"
  shows "load_config (save_config True c) c0 = Some c"
proof -
  have "load_config (save_config True c) c0 = load_lines (map (\<lambda>l. l @ [newline]) (config_lines c)) c0"
    using read_lines_as_lines[OF config_lines_short[OF assms]] by (simp add: load_config_def save_config_def)
  also have "\<dots> = Some c"
    using assms word_small(2) unfolding config_lines_def list.map load_lines.simps config_ok_def
    by (simp only: config_line_number config_line_name Option.bind.simps) simp
  finally show ?thesis .
qed

theorem config_round_trip_witness:
  "load_config (save_config True (default_config\<lparr>ac_suspicious_time_window := 5, ac_blacklist_file := ''b.txt''\<rparr>)) default_config =
     Some (default_config\<lparr>ac_suspicious_time_window := 5, ac_blacklist_file := ''b.txt''\<rparr>)"
  by (rule config_round_trip)
    (simp add: config_ok_def default_config_def good_value_def nul_def newline_def DEFAULT_SUSPICIOUS_REQUESTS_THRESHOLD_def)

text \<open>Cleaning up, in place, leaves exactly the records after the cutoff, in their order, and shrinking the arrays afterwards, whether
  the memory is given back or not, changes none of them; the counters stay within the arrays.\<close>

theorem cleanup_and_shrink_keep_recent:
  assumes "fits (az_connections z) (az_connection_count z)" and "fits (az_ip_stats z) (az_ip_stats_count z)"
    and "memory1 = None \<or> length (the memory1) = MAX_RECORDS div 2" and "memory2 = None \<or> length (the memory2) = MAX_IP_STATS div 2"
    and "z' = optimize_memory_usage memory1 memory2 (cleanup_old_records cutoff z)"
  shows "used (az_connections z') (az_connection_count z') =
      filter (\<lambda>c. cutoff < cr_timestamp c) (used (az_connections z) (az_connection_count z)) \<and>
    used (az_ip_stats z') (az_ip_stats_count z') =
      filter (\<lambda>s. cutoff < is_last_seen s) (used (az_ip_stats z) (az_ip_stats_count z)) \<and>
    fits (az_connections z') (az_connection_count z') \<and> fits (az_ip_stats z') (az_ip_stats_count z') \<and>
    az_config z' = az_config z"
proof -
  define y where "y = cleanup_old_records cutoff z"
  have y: "fits (az_connections y) (az_connection_count y)" "fits (az_ip_stats y) (az_ip_stats_count y)"
    "used (az_connections y) (az_connection_count y) =
      filter (\<lambda>c. cutoff < cr_timestamp c) (used (az_connections z) (az_connection_count z))"
    "used (az_ip_stats y) (az_ip_stats_count y) =
      filter (\<lambda>s. cutoff < is_last_seen s) (used (az_ip_stats z) (az_ip_stats_count z))"
    "az_config y = az_config z"
    using compact_filter[OF assms(1)] compact_filter[OF assms(2)]
    by (auto simp: y_def cleanup_old_records_def split: prod.split)
  have "z' = optimize_memory_usage memory1 memory2 y" using assms(5) y_def by simp
  then show ?thesis
    using y assms(3,4)
      realloc_keeps[OF y(1), of "MAX_RECORDS div 2" "the memory1"] realloc_keeps[OF y(2), of "MAX_IP_STATS div 2" "the memory2"]
    by (auto simp: optimize_memory_usage_def Let_def realloc_array_def MAX_RECORDS_def MAX_IP_STATS_def split: option.split)
qed

definition sample_analyzer :: analyzer where
  "sample_analyzer = \<lparr>az_connections = Some [\<lparr>cr_ip = ''10.0.0.1'', cr_timestamp = 5, cr_bytes = 1\<rparr>, \<lparr>cr_ip = ''10.0.0.2'', cr_timestamp = 9, cr_bytes = 2\<rparr>],
     az_connection_count = 2, az_ip_stats = None, az_ip_stats_count = 0, az_config = default_config\<rparr>"

theorem cleanup_and_shrink_keep_recent_witness:
  "used (az_connections (optimize_memory_usage None None (cleanup_old_records 5 sample_analyzer)))
     (az_connection_count (optimize_memory_usage None None (cleanup_old_records 5 sample_analyzer))) =
   [\<lparr>cr_ip = ''10.0.0.2'', cr_timestamp = 9, cr_bytes = 2\<rparr>]"
  using cleanup_and_shrink_keep_recent[of sample_analyzer None None _ 5]
  by (simp add: sample_analyzer_def fits_def used_def)

section \<open>Copies of strings\<close>

lemma read_string_append: "nul \<notin> set s \<Longrightarrow> read_string (map Some s @ r) = map_option (\<lambda>t. s @ t) (read_string r)"
  by (cases "read_string r"; induction s) auto

lemma drop_fresh: "drop n (fresh_buffer (Suc n)) = [None]"
proof -
  have "drop n (replicate (Suc n) (None :: char option)) = replicate (Suc n - n) None" by (rule drop_replicate)
  then show ?thesis unfolding fresh_buffer_def by (simp del: replicate_Suc) simp
qed

lemma read_string_strncpy:
  assumes "nul \<notin> set s" and "length s \<le> n"
  shows "read_string (strncpy (fresh_buffer (Suc n)) s n) = (if length s < n then Some s else None)"
proof (cases "length s < n")
  case True
  then have "strncpy (fresh_buffer (Suc n)) s n = map Some s @ Some nul # replicate (n - length s - 1) (Some nul) @ [None]"
    by (cases "n - length s") (simp_all add: strncpy_def drop_fresh)
  then show ?thesis using True assms(1) by (simp add: read_string_append)
next
  case False
  then have "strncpy (fresh_buffer (Suc n)) s n = map Some s @ [None]"
    using assms(2) by (simp add: strncpy_def drop_fresh)
  then show ?thesis using False assms(1) by (simp add: read_string_append)
qed

lemma read_string_snprintf: "nul \<notin> set s \<Longrightarrow> read_string (snprintf_buffer n s) = Some (take (n - 1) s)"
proof -
  assume "nul \<notin> set s"
  then have "nul \<notin> set (take (n - 1) s)" by (meson in_set_takeD)
  then show ?thesis using read_string_append[of "take (n - 1) s" "Some nul # fresh_buffer (n - 1 - length s)"]
    by (simp add: snprintf_buffer_def)
qed

lemma fill_suspicious_filter: "fill_suspicious stats = map suspicious_record (filter is_suspicious stats)"
  by (induction stats) auto

text \<open>The entry of an address holds strings that fit into their arrays.\<close>

definition stats_strings_ok :: "IPStats \<Rightarrow> bool" where
  "stats_strings_ok s \<longleftrightarrow> length (is_ip s) \<le> 15 \<and> nul \<notin> set (is_ip s) \<and> length (is_connection_pattern s) \<le> 63 \<and> nul \<notin> set (is_connection_pattern s)"

text \<open>The list of suspicious addresses has one record for each, in their order. Its strings are copied into memory that is not
  cleared, one character short of its size, so that a string can be read back exactly if it leaves room for two
  characters: an address of 15 characters, the longest there is, cannot. The reason is always terminated.\<close>

theorem suspicious_records_readable:
  assumes "\<forall>s \<in> set (used (az_ip_stats z) (az_ip_stats_count z)). stats_strings_ok s"
    and "get_suspicious_ips True z = (Some l, n)"
  shows "n = length l \<and>
    map (read_string \<circ> sp_ip) l =
      map (\<lambda>s. if length (is_ip s) < 15 then Some (is_ip s) else None)
        (filter is_suspicious (used (az_ip_stats z) (az_ip_stats_count z))) \<and>
    map (read_string \<circ> sp_reason) l =
      map (\<lambda>s. Some (take 127 (suspicion_reason s))) (filter is_suspicious (used (az_ip_stats z) (az_ip_stats_count z)))"
proof -
  let ?ss = "filter is_suspicious (used (az_ip_stats z) (az_ip_stats_count z))"
  have l: "l = map suspicious_record ?ss" and n: "n = length ?ss"
    using assms(2) by (auto simp: get_suspicious_ips_def Let_def fill_suspicious_filter split: if_splits)
  have "nul \<notin> set (show_nat k)" for k
    using show_nat_digits[of k] by (auto simp: list_all_iff is_digit_char_def nul_def)
  then have "nul \<notin> set (suspicion_reason s)" if "s \<in> set ?ss" for s
    using assms(1) that by (auto simp: suspicion_reason_def stats_strings_ok_def nul_def)
  then have "read_string (sp_reason (suspicious_record s)) = Some (take 127 (suspicion_reason s))" if "s \<in> set ?ss" for s
    using that by (simp add: suspicious_record_def read_string_snprintf)
  moreover have "read_string (sp_ip (suspicious_record s)) = (if length (is_ip s) < 15 then Some (is_ip s) else None)"
    if "s \<in> set ?ss" for s
    using assms(1) that read_string_strncpy[of "is_ip s" 15] by (simp add: suspicious_record_def stats_strings_ok_def numeral_eq_Suc)
  ultimately show ?thesis using l n by simp
qed

definition sample_stats :: "string \<Rightarrow> IPStats" where
  "sample_stats ip = \<lparr>is_ip = ip, is_request_count = 9, is_window_requests = 9, is_first_seen = 0, is_last_seen = 9, is_suspicious = True,
     is_country_code = [], is_location = [], is_avg_request_interval = 1, is_burst_count = 0, is_connection_pattern = [],
     is_adaptive_threshold = 4\<rparr>"

theorem suspicious_records_readable_witness:
  "\<exists>l. get_suspicious_ips True (sample_analyzer\<lparr>az_ip_stats := Some [sample_stats ''10.0.0.1'', sample_stats ''192.168.100.100''],
       az_ip_stats_count := 2\<rparr>) = (Some l, 2) \<and>
     map (read_string \<circ> sp_ip) l = [Some ''10.0.0.1'', None]"
proof -
  let ?z = "sample_analyzer\<lparr>az_ip_stats := Some [sample_stats ''10.0.0.1'', sample_stats ''192.168.100.100''], az_ip_stats_count := 2\<rparr>"
  have "get_suspicious_ips True ?z = (Some (map suspicious_record [sample_stats ''10.0.0.1'', sample_stats ''192.168.100.100'']), 2)"
    by (simp add: get_suspicious_ips_def used_def sample_stats_def)
  then show ?thesis
    using suspicious_records_readable[of ?z] by (simp add: used_def sample_stats_def stats_strings_ok_def nul_def)
qed

end
