(* ===== verification/Bin2arr.thy ===== *)
theory Bin2arr
  imports C_Strings
begin

text \<open>
  The tool that turns a file into a C array (\<open>bin2arr/bin2arr.c\<close>), and the one that writes an array back to a file (\<open>bin2arr/extract.c\<close>). The input is the list of the chunks \<open>fread\<close> returns, the output
  the text of the output file; whether the output can be repositioned (\<open>fseek\<close>) is an argument.

  The theory shows that the bytes between the braces are the bytes of the input, whatever the input and the chunks, that the
  generated names consist of characters that are allowed in names, and that the size is right.
\<close>

section \<open>Names\<close>

text \<open>The part of the path behind the last slash.\<close>

definition base_name :: "string \<Rightarrow> string" where
  "base_name path = (if CHR ''/'' \<in> set path then rev (takeWhile (\<lambda>c. c \<noteq> CHR ''/'') (rev path)) else path)"

definition name_char :: "char \<Rightarrow> bool" where
  "name_char c \<longleftrightarrow> 97 \<le> (of_char c :: nat) \<and> (of_char c :: nat) \<le> 122 \<or> 65 \<le> (of_char c :: nat) \<and> (of_char c :: nat) \<le> 90 \<or>
     48 \<le> (of_char c :: nat) \<and> (of_char c :: nat) \<le> 57"

text \<open>The loop over the file name, with room for \<open>k\<close> more characters.\<close>

fun prefix_loop :: "nat \<Rightarrow> string \<Rightarrow> string" where
  "prefix_loop 0 p = []"
| "prefix_loop (Suc k) [] = []"
| "prefix_loop (Suc k) (c # cs) = (if name_char c then c else CHR ''_'') # prefix_loop k cs"

definition var_prefix :: "string \<Rightarrow> string" where
  "var_prefix filename = prefix_loop 255 filename"

section \<open>The array\<close>

definition hex2 :: "nat \<Rightarrow> string" where
  "hex2 b = [hex_char (b div 16), hex_char (b mod 16)]"

definition indent :: string where "indent = [newline] @ ''    ''"

text \<open>The loop over the bytes of a chunk; \<open>tot\<close> is \<open>total_bytes\<close>, \<open>out\<close> what has been written.\<close>

fun chunk_loop :: "nat list \<Rightarrow> nat \<Rightarrow> string \<Rightarrow> nat \<times> string" where
  "chunk_loop [] tot out = (tot, out)"
| "chunk_loop (b # bs) tot out =
     chunk_loop bs (tot + 1) (out @ ''0x'' @ hex2 b @ '', '' @ (if (tot + 1) mod 16 = 0 then indent else []))"

text \<open>The loop over the chunks ends at the first empty one.\<close>

fun read_loop :: "nat list list \<Rightarrow> nat \<Rightarrow> string \<Rightarrow> nat \<times> string" where
  "read_loop [] tot out = (tot, out)"
| "read_loop (c # cs) tot out =
     (if c = [] then (tot, out) else (case chunk_loop c tot out of (tot, out) \<Rightarrow> read_loop cs tot out))"

definition file_start :: "string \<Rightarrow> string" where
  "file_start filename =
     ''// '' @ map char_of [0xE7, 0x94, 0xB1 :: nat] @ '' bin2arr '' @
     map char_of [0xE5, 0xB7, 0xA5, 0xE5, 0x85, 0xB7, 0xE7, 0x94, 0x9F, 0xE6, 0x88, 0x90 :: nat] @ [newline] @
     ''// '' @ map char_of [0xE6, 0xBA, 0x90, 0xE6, 0x96, 0x87, 0xE4, 0xBB, 0xB6 :: nat] @ '': '' @ filename @ [newline, newline] @
     ''const unsigned char _'' @ var_prefix filename @ ''_data[] = '' "

definition file_end :: "string \<Rightarrow> nat \<Rightarrow> string" where
  "file_end filename tot =
     [newline] @ [newline] @ ''const size_t _'' @ var_prefix filename @ ''_size = '' @ show_nat tot @ '';'' @ [newline]"

text \<open>The array from its opening brace to its semicolon: going back two characters overwrites the last separator.\<close>

definition array_text :: "bool \<Rightarrow> nat list list \<Rightarrow> nat \<times> string" where
  "array_text seekable chunks =
     (case read_loop chunks 0 (''{'' @ indent) of
        (tot, out) \<Rightarrow>
          (tot, (if tot > 0 \<and> seekable then take (length out - 2) out else out) @ [newline] @ ''};''))"

definition bin2arr :: "bool \<Rightarrow> string \<Rightarrow> nat list list \<Rightarrow> string" where
  "bin2arr seekable path chunks =
     (let filename = base_name path in
      case array_text seekable chunks of
        (tot, array) \<Rightarrow> file_start filename @ array @ file_end filename tot)"

datatype tool_result = Output string | Failed int

text \<open>\<open>main\<close>: the number of arguments, whether the files can be opened.\<close>

definition bin2arr_main :: "nat \<Rightarrow> bool \<Rightarrow> bool \<Rightarrow> bool \<Rightarrow> string \<Rightarrow> nat list list \<Rightarrow> tool_result" where
  "bin2arr_main argc input_ok output_ok seekable path chunks =
     (if argc < 2 \<or> argc > 3 then Failed 1
      else if \<not> input_ok then Failed 1
      else if argc = 3 \<and> \<not> output_ok then Failed 1
      else Output (bin2arr seekable path chunks))"

section \<open>Extracting an array\<close>

text \<open>
  The program that writes a generated array to a file (\<open>bin2arr/extract.c\<close>), for an array \<open>data\<close> and its announced size. Whether the
  directory exists or can be made and the file can be opened, and how many bytes \<open>fwrite\<close> writes, are arguments. The result is the exit code and what the
  file holds; \<^const>\<open>None\<close> is reading behind the array.
\<close>

definition extract_main :: "bool \<Rightarrow> bool \<Rightarrow> bool \<Rightarrow> nat \<Rightarrow> nat list \<Rightarrow> nat \<Rightarrow> (int \<times> nat list option) option" where
  "extract_main dir_exists mkdir_ok fopen_ok written data array_size =
     (if \<not> dir_exists \<and> \<not> mkdir_ok then Some (1, None)
      else if \<not> fopen_ok then Some (1, None)
      else if array_size > length data then None
      else Some (if written = array_size then 0 else 1, Some (take written (take array_size data))))"

section \<open>Reading an array back\<close>

text \<open>The values of the hexadecimal literals of two digits in a text.\<close>

fun read_hex :: "string \<Rightarrow> nat list" where
  "read_hex (a # b # c # d # s) =
     (if a = CHR ''0'' \<and> b = CHR ''x'' then (16 * xdigit_value c + xdigit_value d) # read_hex s else read_hex (b # c # d # s))"
| "read_hex _ = []"

lemma read_hex_skip: "a \<noteq> CHR ''0'' \<Longrightarrow> read_hex (a # s) = read_hex s"
  by (cases "(a # s)" rule: read_hex.cases; cases s rule: read_hex.cases) auto

lemma read_hex_byte: "b < 256 \<Longrightarrow> read_hex (''0x'' @ hex2 b @ s) = b # read_hex s"
  using hex_char_digit[of "b div 16"] hex_char_digit[of "b mod 16"] by (simp add: hex2_def)

definition separator :: "string \<Rightarrow> bool" where
  "separator s \<longleftrightarrow> CHR ''0'' \<notin> set s"

lemma read_hex_separator: "separator s \<Longrightarrow> read_hex (s @ t) = read_hex t"
  by (induction s) (auto simp: separator_def read_hex_skip)

text \<open>One byte with what follows it, and the text of a list of bytes.\<close>

definition entry :: "nat \<Rightarrow> nat \<Rightarrow> string" where
  "entry tot b = ''0x'' @ hex2 b @ '', '' @ (if (tot + 1) mod 16 = 0 then indent else [])"

fun entries :: "nat \<Rightarrow> nat list \<Rightarrow> string" where
  "entries tot [] = []"
| "entries tot (b # bs) = entry tot b @ entries (tot + 1) bs"

lemma entries_append: "entries t (xs @ ys) = entries t xs @ entries (t + length xs) ys"
  by (induction xs arbitrary: t) auto

lemma chunk_loop_entries: "chunk_loop bs t out = (t + length bs, out @ entries t bs)"
  by (induction bs arbitrary: t out) (auto simp: entry_def)

lemma read_loop_entries:
  "[] \<notin> set cs \<Longrightarrow> read_loop cs t out = (t + length (concat cs), out @ entries t (concat cs))"
  by (induction cs arbitrary: t out) (auto simp: chunk_loop_entries entries_append)

lemma separators: "separator ('', '' @ indent)" "separator '', ''" "separator (''{'' @ indent)" "separator ([newline] @ ''};'')" "separator []"
  by (simp_all add: separator_def indent_def newline_def)

lemma read_hex_entry: "b < 256 \<Longrightarrow> read_hex (entry t b @ s) = b # read_hex s"
  using read_hex_byte[of b "(if (t + 1) mod 16 = 0 then '', '' @ indent else '', '') @ s"] separators
  by (simp add: entry_def read_hex_separator del: append_Cons split: if_splits)

lemma read_hex_entries: "\<forall>b \<in> set bs. b < 256 \<Longrightarrow> read_hex (entries t bs @ s) = bs @ read_hex s"
  by (induction bs arbitrary: t) (auto simp: read_hex_entry)

text \<open>Going back two characters removes nothing but separators.\<close>

lemma take_entry: "\<exists>sep. separator sep \<and> take (length (entry t b) - 2) (entry t b) = ''0x'' @ hex2 b @ sep"
proof (cases "(t + 1) mod 16 = 0")
  case True
  then have "take (length (entry t b) - 2) (entry t b) = ''0x'' @ hex2 b @ '', '' @ [newline] @ ''  ''"
    by (simp add: entry_def hex2_def indent_def)
  moreover have "separator ('', '' @ [newline] @ ''  '')" by (simp add: separator_def newline_def)
  ultimately show ?thesis by blast
next
  case False
  then have "take (length (entry t b) - 2) (entry t b) = ''0x'' @ hex2 b @ []"
    by (simp add: entry_def hex2_def)
  then show ?thesis using separators(5) by blast
qed

lemma length_entry: "2 \<le> length (entry t b)"
  by (simp add: entry_def)

lemma read_hex_cut:
  assumes "\<forall>b \<in> set bs. b < 256" and "bs \<noteq> []" and "separator s" and "out = p @ entries t bs"
  shows "read_hex (drop (length p) (take (length out - 2) out) @ s) = bs"
proof -
  obtain bs' b where bs: "bs = bs' @ [b]" using assms(2) by (cases bs rule: rev_cases) auto
  let ?e = "entry (t + length bs') b"
  obtain sep where sep: "separator sep" "take (length ?e - 2) ?e = ''0x'' @ hex2 b @ sep" using take_entry by blast
  have "drop (length p) (take (length out - 2) out) = entries t bs' @ take (length ?e - 2) ?e"
    using assms(4) bs length_entry[of "t + length bs'" b] by (simp add: entries_append)
  then have "read_hex (drop (length p) (take (length out - 2) out) @ s) =
      read_hex (entries t bs' @ ''0x'' @ hex2 b @ sep @ s)"
    using sep(2) by simp
  also have "\<dots> = bs' @ read_hex (''0x'' @ hex2 b @ sep @ s)" using assms(1) bs by (subst read_hex_entries) auto
  also have "read_hex (''0x'' @ hex2 b @ sep @ s) = b # read_hex (sep @ s)" using assms(1) bs by (intro read_hex_byte) simp
  also have "read_hex (sep @ s) = []"
    using read_hex_separator[of "sep @ s" "[]"] sep(1) assms(3) by (simp add: separator_def)
  finally show ?thesis using bs by simp
qed

lemma take_prefix: "length p \<le> n \<Longrightarrow> take n (p @ q) = p @ drop (length p) (take n (p @ q))"
  by simp

lemma array_text_reads:
  assumes "[] \<notin> set chunks" and "\<forall>b \<in> set (concat chunks). b < 256"
  shows "fst (array_text seekable chunks) = length (concat chunks) \<and> read_hex (snd (array_text seekable chunks)) = concat chunks"
proof -
  let ?p = "''{'' @ indent" and ?bs = "concat chunks"
  let ?out = "?p @ entries 0 ?bs" and ?tail = "[newline] @ ''};''"
  have l: "read_loop chunks 0 ?p = (length ?bs, ?out)" using read_loop_entries[OF assms(1), of 0 ?p] by simp
  have plain: "read_hex (?out @ ?tail) = ?bs"
  proof -
    have "read_hex (?out @ ?tail) = read_hex (entries 0 ?bs @ ?tail)"
      using read_hex_separator[OF separators(3), of "entries 0 ?bs @ ?tail"] by simp
    also have "\<dots> = ?bs @ read_hex ?tail" using assms(2) by (rule read_hex_entries)
    also have "read_hex ?tail = []" using read_hex_separator[OF separators(4), of "[]"] by simp
    finally show ?thesis by simp
  qed
  have cut: "read_hex (take (length ?out - 2) ?out @ ?tail) = ?bs" if ne: "?bs \<noteq> []"
  proof -
    obtain b bs where "?bs = b # bs" by (rule list.exhaust[of ?bs]) (use ne in blast)+
    then have "length ?p \<le> length ?out - 2" using length_entry[of 0 b] by simp
    then have "take (length ?out - 2) ?out = ?p @ drop (length ?p) (take (length ?out - 2) ?out)"
      by (rule take_prefix)
    then have "read_hex (take (length ?out - 2) ?out @ ?tail) = read_hex (drop (length ?p) (take (length ?out - 2) ?out) @ ?tail)"
      using read_hex_separator[OF separators(3)] by (metis append.assoc)
    also have "\<dots> = ?bs" by (rule read_hex_cut[OF assms(2) ne separators(4)]) simp
    finally show ?thesis .
  qed
  show ?thesis
  proof (cases "?bs = [] \<or> \<not> seekable")
    case True
    then show ?thesis using l plain by (auto simp: array_text_def)
  next
    case False
    then show ?thesis using l cut by (auto simp: array_text_def)
  qed
qed

section \<open>Properties\<close>

text \<open>C25: For every input, however it is split into chunks, and whether or not the output can be repositioned, the hexadecimal literals
  of the generated array are the bytes of the input in order, and the generated size is their number.\<close>

theorem array_reads_back:
  assumes "[] \<notin> set chunks" and "\<forall>b \<in> set (concat chunks). b < 256"
  shows "fst (array_text seekable chunks) = length (concat chunks) \<and> read_hex (snd (array_text seekable chunks)) = concat chunks"
  using array_text_reads[OF assms] .

theorem array_reads_back_witness:
  "read_hex (snd (array_text True [[0, 255, 16], [7]])) = [0, 255, 16, 7]"
  using array_reads_back[of "[[0, 255, 16], [7]]" True] by simp

text \<open>The generated names are made of letters, digits and underscores.\<close>

lemma prefix_loop_chars: "c \<in> set (prefix_loop k p) \<Longrightarrow> name_char c \<or> c = CHR ''_''"
  by (induction k p rule: prefix_loop.induct) (auto split: if_splits)

lemma length_prefix_loop: "length (prefix_loop k p) = min k (length p)"
  by (induction k p rule: prefix_loop.induct) auto

text \<open>What is extracted from a generated array is the input, and a short write is reported.\<close>

lemma extract_restores:
  assumes "[] \<notin> set chunks" and "\<forall>b \<in> set (concat chunks). b < 256" and "dir_exists \<or> mkdir_ok"
    and "array_text seekable chunks = (n, t)"
  shows "extract_main dir_exists mkdir_ok True n (read_hex t) n = Some (0, Some (concat chunks))" and
    "written < n \<Longrightarrow> extract_main dir_exists mkdir_ok True written (read_hex t) n = Some (1, Some (take written (concat chunks)))"
  using array_text_reads[OF assms(1,2), of seekable] assms(3,4) by (auto simp: extract_main_def min_def)

end
