(* ===== verification/Command_Line.thy ===== *)
theory Command_Line
  imports C_Strings
begin

text \<open>
  What the main programs of the distributed worker system share: the GNU \<open>getopt_long\<close> they parse their command lines with,
  and the loop that hands one option after the other to the \<open>switch\<close> of the program. Arguments that are no options
  are passed over, as \<open>getopt_long\<close> does by permuting them to the end.

  The theory shows that a command line that is written out from options is read back as these options, and, in a locale, what
  holds for the options of any program whose \<open>switch\<close> keeps the configuration valid.
\<close>

section \<open>Options of the C library\<close>

text \<open>
  An option is known by its character and takes an argument or not; \<open>long_name\<close> is a row of the table of long options. The
  option string of the C code gives the same characters, a colon behind those with an argument.
\<close>

record long_option =
  lo_name :: string
  lo_has_arg :: bool
  lo_val :: char

fun option_string :: "string \<Rightarrow> (char \<times> bool) list" where
  "option_string [] = []"
| "option_string [c] = [(c, False)]"
| "option_string (c # d # cs) = (if d = CHR '':'' then (c, True) # option_string cs else (c, False) # option_string (d # cs))"

text \<open>What one call returns: an option with its argument, or \<open>'?'\<close>.\<close>

datatype opt_event = Opt char "string option" | BadOption

text \<open>The options of one element like \<open>-abc\<close>, with the elements behind it.\<close>

fun short_cluster :: "(char \<times> bool) list \<Rightarrow> string \<Rightarrow> string list \<Rightarrow> opt_event list \<times> string list" where
  "short_cluster so [] rest = ([], rest)"
| "short_cluster so (c # cs) rest =
     (case map_of so c of
        None \<Rightarrow> (case short_cluster so cs rest of (es, r) \<Rightarrow> (BadOption # es, r))
      | Some False \<Rightarrow> (case short_cluster so cs rest of (es, r) \<Rightarrow> (Opt c None # es, r))
      | Some True \<Rightarrow>
          if cs \<noteq> [] then ([Opt c (Some cs)], rest)
          else (case rest of [] \<Rightarrow> ([BadOption], []) | a # as \<Rightarrow> ([Opt c (Some a)], as)))"

text \<open>The row a long name stands for: the one it equals, or the only one it begins.\<close>

definition find_long :: "long_option list \<Rightarrow> string \<Rightarrow> long_option option" where
  "find_long los name =
     (case filter (\<lambda>l. lo_name l = name) los of
        l # _ \<Rightarrow> Some l
      | [] \<Rightarrow> (case filter (\<lambda>l. take (length name) (lo_name l) = name) los of
                [] \<Rightarrow> None
              | l # ls \<Rightarrow> if \<forall>k \<in> set ls. lo_has_arg k = lo_has_arg l \<and> lo_val k = lo_val l then Some l else None))"

definition long_opt :: "long_option list \<Rightarrow> string \<Rightarrow> string list \<Rightarrow> opt_event list \<times> string list" where
  "long_opt los s rest =
     (let name = takeWhile (\<lambda>c. c \<noteq> CHR ''='') s;
          val = dropWhile (\<lambda>c. c \<noteq> CHR ''='') s
      in case find_long los name of
           None \<Rightarrow> ([BadOption], rest)
         | Some l \<Rightarrow>
             if val \<noteq> [] then ([if lo_has_arg l then Opt (lo_val l) (Some (tl val)) else BadOption], rest)
             else if lo_has_arg l
             then (case rest of [] \<Rightarrow> ([BadOption], []) | a # as \<Rightarrow> ([Opt (lo_val l) (Some a)], as))
             else ([Opt (lo_val l) None], rest))"

text \<open>One element of the command line.\<close>

definition next_options ::
  "(char \<times> bool) list \<Rightarrow> long_option list \<Rightarrow> string \<Rightarrow> string list \<Rightarrow> opt_event list \<times> string list" where
  "next_options so los a rest =
     (if a = ''--'' then ([], [])
      else if take 2 a = ''--'' then long_opt los (drop 2 a) rest
      else if take 1 a = ''-'' then short_cluster so (drop 1 a) rest
      else ([], rest))"

lemma short_cluster_rest: "length (snd (short_cluster so cs rest)) \<le> length rest"
  by (induction so cs rest rule: short_cluster.induct)
     (auto split: option.splits bool.splits list.splits prod.splits)

lemma long_opt_rest: "length (snd (long_opt los s rest)) \<le> length rest"
  by (auto simp: long_opt_def Let_def split: option.splits list.splits)

lemma next_options_rest: "length (snd (next_options so los a rest)) \<le> length rest"
  using short_cluster_rest long_opt_rest by (auto simp: next_options_def)

text \<open>What the calls of \<open>getopt_long\<close> return until it returns -1. The arguments do not include the program's name.\<close>

function getopt_long :: "(char \<times> bool) list \<Rightarrow> long_option list \<Rightarrow> string list \<Rightarrow> opt_event list" where
  "getopt_long so los [] = []"
| "getopt_long so los (a # as) =
     (case next_options so los a as of (es, rest) \<Rightarrow> es @ getopt_long so los rest)"
  by pat_completeness auto
termination
proof (relation "measure (\<lambda>(_, _, as). length as)")
  fix so los a as es rest
  assume "(es, rest) = next_options so los a as"
  then show "((so, los, rest), so, los, a # as) \<in> measure (\<lambda>(_, _, as). length as)"
    using next_options_rest[of so los a as] by (cases "next_options so los a as") simp
qed simp

declare getopt_long.simps(2) [simp del]

section \<open>Command lines written out from options\<close>

text \<open>The long form \<open>--name=argument\<close> of an option.\<close>

definition spell_option :: "long_option list \<Rightarrow> opt_event \<Rightarrow> string list" where
  "spell_option los e =
     (case e of
        BadOption \<Rightarrow> []
      | Opt c arg \<Rightarrow>
          (case find (\<lambda>l. lo_val l = c) los of
             None \<Rightarrow> []
           | Some l \<Rightarrow> [''--'' @ lo_name l @ (case arg of None \<Rightarrow> [] | Some a \<Rightarrow> CHR ''='' # a)]))"

definition well_formed_option :: "long_option list \<Rightarrow> opt_event \<Rightarrow> bool" where
  "well_formed_option los e \<longleftrightarrow>
     (case e of
        BadOption \<Rightarrow> False
      | Opt c arg \<Rightarrow> (case find (\<lambda>l. lo_val l = c) los of None \<Rightarrow> False | Some l \<Rightarrow> lo_has_arg l = (arg \<noteq> None)))"

text \<open>A table of long options: the names are not empty, without \<open>=\<close>, and all different.\<close>

definition proper_table :: "long_option list \<Rightarrow> bool" where
  "proper_table los \<longleftrightarrow> distinct (map lo_name los) \<and> list_all (\<lambda>l. lo_name l \<noteq> [] \<and> CHR ''='' \<notin> set (lo_name l)) los"

lemma find_long_exact:
  assumes "proper_table los" and "l \<in> set los"
  shows "find_long los (lo_name l) = Some l"
proof -
  have "filter (\<lambda>k. lo_name k = lo_name l) los = [l]"
    using assms unfolding proper_table_def
  proof (induction los)
    case (Cons k los)
    show ?case
    proof (cases "k = l")
      case True
      then have "\<forall>j \<in> set los. lo_name j \<noteq> lo_name l" using Cons.prems by (force simp: image_iff)
      then show ?thesis using True by (simp add: filter_empty_conv)
    next
      case False
      then have "l \<in> set los" and "lo_name k \<noteq> lo_name l" using Cons.prems by (auto simp: image_iff)
      then show ?thesis using Cons by simp
    qed
  qed simp
  then show ?thesis by (simp add: find_long_def)
qed

lemma takeWhile_equals: "CHR ''='' \<notin> set n \<Longrightarrow> takeWhile (\<lambda>c. c \<noteq> CHR ''='') n = n"
  "CHR ''='' \<notin> set n \<Longrightarrow> takeWhile (\<lambda>c. c \<noteq> CHR ''='') (n @ CHR ''='' # a) = n"
  "CHR ''='' \<notin> set n \<Longrightarrow> dropWhile (\<lambda>c. c \<noteq> CHR ''='') n = []"
  "CHR ''='' \<notin> set n \<Longrightarrow> dropWhile (\<lambda>c. c \<noteq> CHR ''='') (n @ CHR ''='' # a) = CHR ''='' # a"
  by (induction n) auto

lemma getopt_spelled:
  assumes "proper_table los" and "well_formed_option los e"
  shows "getopt_long so los (spell_option los e @ as) = e # getopt_long so los as"
proof -
  obtain c arg l where e: "e = Opt c arg" and l: "find (\<lambda>l. lo_val l = c) los = Some l" and h: "lo_has_arg l = (arg \<noteq> None)"
    using assms(2) by (auto simp: well_formed_option_def split: opt_event.splits option.splits)
  have lin: "l \<in> set los" and lv: "lo_val l = c" using l by (auto simp: find_Some_iff)
  have n: "lo_name l \<noteq> []" "CHR ''='' \<notin> set (lo_name l)" using assms(1) lin by (auto simp: proper_table_def list_all_iff)
  note f = find_long_exact[OF assms(1) lin]
  define v where "v = (case arg of None \<Rightarrow> [] | Some x \<Rightarrow> CHR ''='' # x)"
  have s: "spell_option los e = [''--'' @ lo_name l @ v]" using l by (simp add: spell_option_def e v_def)
  have tw: "takeWhile (\<lambda>c. c \<noteq> CHR ''='') (lo_name l @ v) = lo_name l" "dropWhile (\<lambda>c. c \<noteq> CHR ''='') (lo_name l @ v) = v"
    by (cases arg; simp only: v_def option.case append_Nil2 takeWhile_equals[OF n(2)])+
  have "long_opt los (lo_name l @ v) as = ([e], as)"
    unfolding long_opt_def tw f Let_def option.case using h lv by (cases arg) (simp_all add: v_def e)
  moreover have "next_options so los (''--'' @ lo_name l @ v) as = long_opt los (lo_name l @ v) as"
    using n(1) by (simp add: next_options_def)
  ultimately show ?thesis by (simp add: s getopt_long.simps(2))
qed

theorem getopt_spelled_all:
  assumes "proper_table los" and "list_all (well_formed_option los) es"
  shows "getopt_long so los (concat (map (spell_option los) es)) = es"
  using assms(2) by (induction es) (simp_all add: getopt_spelled[OF assms(1)])

section \<open>The option loop\<close>

text \<open>
  The loop over the options. \<open>step\<close> is the \<open>switch\<close>: \<^const>\<open>Inl\<close> is the exit code of a \<open>return\<close>, \<^const>\<open>None\<close> a number that does
  not fit into \<open>int\<close>, for which \<open>atoi\<close> is undefined.
\<close>

fun option_loop :: "(opt_event \<Rightarrow> 'c \<Rightarrow> (int + 'c) option) \<Rightarrow> opt_event list \<Rightarrow> 'c \<Rightarrow> (int + 'c) option" where
  "option_loop step [] c = Some (Inr c)"
| "option_loop step (e # es) c =
     (case step e c of
        None \<Rightarrow> None
      | Some (Inl code) \<Rightarrow> Some (Inl code)
      | Some (Inr c') \<Rightarrow> option_loop step es c')"

text \<open>An option with a number: \<open>atoi\<close> and a range check.\<close>

definition number_option :: "(int \<Rightarrow> bool) \<Rightarrow> (int \<Rightarrow> 'c) \<Rightarrow> string \<Rightarrow> (int + 'c) option" where
  "number_option in_range store arg =
     (case atoi arg of None \<Rightarrow> None | Some n \<Rightarrow> Some (if in_range n then Inr (store n) else Inl 1))"

lemma number_option_Inr:
  "number_option in_range store arg = Some (Inr c) \<longleftrightarrow> (\<exists>n. atoi arg = Some n \<and> in_range n \<and> c = store n)"
  by (auto simp: number_option_def split: option.splits if_splits)

lemma number_option_Inl: "number_option in_range store arg = Some (Inl code) \<Longrightarrow> code = 1"
  by (auto simp: number_option_def split: option.splits if_splits)

definition port_range :: "int \<Rightarrow> bool" where "port_range n \<longleftrightarrow> 0 < n \<and> n \<le> 65535"
definition positive :: "int \<Rightarrow> bool" where "positive n \<longleftrightarrow> 0 < n"
definition level_range :: "int \<Rightarrow> bool" where "level_range n \<longleftrightarrow> 0 \<le> n \<and> n \<le> 5"

lemmas range_defs = port_range_def positive_def level_range_def

text \<open>A number written out for an option.\<close>

definition show_setting :: "int \<Rightarrow> string" where
  "show_setting n = show_nat (nat n)"

lemma atoi_show_setting: "0 \<le> n \<Longrightarrow> n < 2147483648 \<Longrightarrow> atoi (show_setting n) = Some n"
  using atoi_show_nat[of "nat n"] by (simp add: show_setting_def)

lemma number_option_setting:
  "in_range n \<Longrightarrow> 0 \<le> n \<Longrightarrow> n < 2147483648 \<Longrightarrow> number_option in_range store (show_setting n) = Some (Inr (store n))"
  by (simp add: number_option_def atoi_show_setting)

text \<open>An option that can be given again: its last value counts.\<close>

definition last_value :: "char \<Rightarrow> (string \<Rightarrow> 'a) \<Rightarrow> 'a \<Rightarrow> opt_event list \<Rightarrow> 'a" where
  "last_value ch f d es =
     foldl (\<lambda>d e. case e of Opt c (Some a) \<Rightarrow> if c = ch then f a else d | Opt c None \<Rightarrow> if c = ch then f [] else d | BadOption \<Rightarrow> d) d es"

definition number_of :: "string \<Rightarrow> int" where
  "number_of a = the (atoi a)"

lemma last_value_Nil [simp]: "last_value ch f d [] = d"
  by (simp add: last_value_def)

lemma last_value_Cons [simp]:
  "last_value ch f d (Opt c arg # es) =
     last_value ch f (if c = ch then f (case arg of None \<Rightarrow> [] | Some a \<Rightarrow> a) else d) es"
  by (cases arg) (simp_all add: last_value_def)

text \<open>\<open>strncpy\<close> into a field of \<open>n\<close> bytes that ends with a zero byte: what the field holds as a string.\<close>

definition fit_field :: "nat \<Rightarrow> string \<Rightarrow> string" where
  "fit_field n s = take (n - 1) s"

lemma fit_field_fits: "length s < n \<Longrightarrow> fit_field n s = s"
  by (simp add: fit_field_def)

lemma length_fit_field: "0 < n \<Longrightarrow> length (fit_field n s) < n"
  by (simp add: fit_field_def)

text \<open>
  The contract of a \<open>switch\<close>: an accepted option keeps the configuration valid, the program only ever ends with 0 or 1, with 0
  only for its help text, and an unknown option ends it with 1.
\<close>

locale option_program =
  fixes step :: "opt_event \<Rightarrow> 'c \<Rightarrow> (int + 'c) option"
    and valid :: "'c \<Rightarrow> bool"
  assumes keeps_valid: "valid c \<Longrightarrow> step e c = Some (Inr c') \<Longrightarrow> valid c'"
    and exit_code: "step e c = Some (Inl code) \<Longrightarrow> code = (if \<exists>arg. e = Opt (CHR ''h'') arg then 0 else 1)"
    and bad_option: "step BadOption c = Some (Inl 1)"
begin

lemma accepted_valid: "option_loop step es c = Some (Inr c') \<Longrightarrow> valid c \<Longrightarrow> valid c'"
  by (induction es arbitrary: c) (auto split: option.splits sum.splits intro: keeps_valid)

text \<open>A program that stops while it reads its options stops at one of them, after having accepted those before it.\<close>

lemma stopped_at:
  assumes "option_loop step es c = Some (Inl code)"
  shows "\<exists>pre e post c'. es = pre @ e # post \<and> option_loop step pre c = Some (Inr c') \<and> step e c' = Some (Inl code) \<and>
    code = (if \<exists>arg. e = Opt (CHR ''h'') arg then 0 else 1)"
  using assms
proof (induction es arbitrary: c)
  case (Cons e es)
  show ?case
  proof (cases "step e c")
    case (Some r)
    then show ?thesis
    proof (cases r)
      case (Inl k)
      then show ?thesis using Cons.prems Some exit_code[of e c k] by (intro exI[of _ "[]"] exI[of _ e] exI[of _ es] exI[of _ c]) auto
    next
      case (Inr c1)
      then obtain pre e' post c' where "es = pre @ e' # post" "option_loop step pre c1 = Some (Inr c')"
        "step e' c' = Some (Inl code)" "code = (if \<exists>arg. e' = Opt (CHR ''h'') arg then 0 else 1)"
        using Cons.IH[of c1] Cons.prems Some by auto
      then show ?thesis using Some Inr by (intro exI[of _ "e # pre"]) auto
    qed
  qed (use Cons.prems in simp)
qed simp

lemma loop_append:
  "option_loop step pre c = Some (Inr c') \<Longrightarrow> option_loop step (pre @ es) c = option_loop step es c'"
  by (induction pre arbitrary: c) (auto split: option.splits sum.splits)

text \<open>What is behind an option that stops the program has no effect.\<close>

lemma stops_early:
  "option_loop step pre c = Some (Inr c') \<Longrightarrow> option_loop step (pre @ BadOption # post) c = Some (Inl 1)"
  by (simp add: loop_append bad_option)

lemma accepted_no_bad: "option_loop step es c = Some (Inr c') \<Longrightarrow> BadOption \<notin> set es"
  by (induction es arbitrary: c) (auto simp: bad_option split: option.splits sum.splits)

end

end
