(* ===== verification/Slot_Table.thy ===== *)
theory Slot_Table
  imports Prelude
begin

text \<open>
  The scheme the job handler and the worker manager of \<open>server/\<close> share: an array of slots, each with
  an integer identifier, 0 marking a free slot; identifiers are handed out by a counter, and a lookup
  rejects identifiers outside the range handed out before it scans. The locale states that scheme
  for any two functions of this form and derives what their clients rely on. The second part is the
  scan for the first candidate with the least key, which both use to choose (the oldest job, the
  least loaded worker).
\<close>

section \<open>Well-formed tables\<close>

definition slots_wf :: "('r \<Rightarrow> int) \<Rightarrow> int \<Rightarrow> 'r list \<Rightarrow> bool" where
  "slots_wf ident nxt xs \<longleftrightarrow> 0 < nxt \<and> (\<forall>x \<in> set xs. 0 \<le> ident x \<and> ident x < nxt) \<and>
     (\<forall>i < length xs. \<forall>j < length xs. ident (xs ! i) = ident (xs ! j) \<and> ident (xs ! i) \<noteq> 0 \<longrightarrow> i = j)"

lemma slots_wf_nth: "slots_wf ident nxt xs \<Longrightarrow> i < length xs \<Longrightarrow> 0 \<le> ident (xs ! i) \<and> ident (xs ! i) < nxt"
  by (simp add: slots_wf_def)

lemma slots_wf_unique:
  "slots_wf ident nxt xs \<Longrightarrow> i < length xs \<Longrightarrow> j < length xs \<Longrightarrow> ident (xs ! i) = ident (xs ! j) \<Longrightarrow>
   ident (xs ! i) \<noteq> 0 \<Longrightarrow> i = j"
  by (auto simp: slots_wf_def)

lemma slots_wf_update:
  assumes wf: "slots_wf ident nxt xs" and "i < length xs" and "ident y = ident (xs ! i) \<or> ident y = 0"
  shows "slots_wf ident nxt (xs[i := y])"
proof -
  have "0 \<le> ident x \<and> ident x < nxt" if "x \<in> set (xs[i := y])" for x
  proof -
    have "0 < nxt" and "\<forall>x \<in> set xs. 0 \<le> ident x \<and> ident x < nxt" using wf by (auto simp: slots_wf_def)
    then show ?thesis
      using that assms(2,3) set_update_subset_insert[of xs i y] nth_mem[OF assms(2)] by fastforce
  qed
  moreover have "j = k" if "j < length xs" "k < length xs" "ident (xs[i := y] ! j) = ident (xs[i := y] ! k)"
    "ident (xs[i := y] ! j) \<noteq> 0" for j k
    using that assms(2,3) slots_wf_unique[OF wf] by (auto simp: nth_list_update split: if_splits)
  ultimately show ?thesis using wf by (simp add: slots_wf_def)
qed

lemma slots_wf_insert:
  assumes wf: "slots_wf ident nxt xs" and "i < length xs" and "ident y = nxt"
  shows "slots_wf ident (nxt + 1) (xs[i := y])"
proof -
  have "0 \<le> ident x \<and> ident x < nxt + 1" if "x \<in> set (xs[i := y])" for x
    using that assms set_update_subset_insert[of xs i y] by (fastforce simp: slots_wf_def)
  moreover have "j = k" if "j < length xs" "k < length xs" "ident (xs[i := y] ! j) = ident (xs[i := y] ! k)"
    "ident (xs[i := y] ! j) \<noteq> 0" for j k
    using that assms(2,3) slots_wf_unique[OF wf] slots_wf_nth[OF wf, of j] slots_wf_nth[OF wf, of k]
    by (auto simp: nth_list_update split: if_splits)
  ultimately show ?thesis using wf by (simp add: slots_wf_def)
qed

lemma slots_wf_map:
  assumes "slots_wf ident nxt xs" and "\<And>x. ident (f x) = ident x"
  shows "slots_wf ident nxt (map f xs)"
  using assms by (simp add: slots_wf_def)

lemma slots_wf_of_ids: "slots_wf ident n xs \<longleftrightarrow> slots_wf (\<lambda>k. k) n (map ident xs)"
  by (simp add: slots_wf_def)

lemma slots_wf_ids: "map ident xs = map ident ys \<Longrightarrow> slots_wf ident n xs = slots_wf ident n ys"
  by (subst (1 2) slots_wf_of_ids) simp

lemma slots_wf_replicate: "0 < nxt \<Longrightarrow> ident y = 0 \<Longrightarrow> slots_wf ident nxt (replicate n y)"
  by (simp add: slots_wf_def)

locale slot_table =
  fixes slots :: "'s \<Rightarrow> 'r list" and next_id :: "'s \<Rightarrow> int" and ident :: "'r \<Rightarrow> int"
    and lookup :: "'s \<Rightarrow> int \<Rightarrow> nat option" and free_slot :: "'s \<Rightarrow> int"
  assumes lookup_eq: "lookup s k =
      (if k \<le> 0 \<or> k \<ge> next_id s then None else find_slot (\<lambda>r. ident r = k) (slots s))"
    and free_eq: "free_slot s =
      (case find_slot (\<lambda>r. ident r = 0) (slots s) of None \<Rightarrow> -1 | Some i \<Rightarrow> int i)"
begin

abbreviation wf :: "'s \<Rightarrow> bool" where
  "wf s \<equiv> slots_wf ident (next_id s) (slots s)"

lemma lookup_SomeD:
  assumes "lookup s k = Some i"
  shows "i < length (slots s)" and "ident (slots s ! i) = k" and "0 < k" and "k < next_id s"
  using assms by (auto simp: lookup_eq find_slot_Some_iff split: if_splits)

lemma lookup_iff:
  assumes "wf s"
  shows "lookup s k = Some i \<longleftrightarrow> 0 < k \<and> i < length (slots s) \<and> ident (slots s ! i) = k"
proof
  assume "0 < k \<and> i < length (slots s) \<and> ident (slots s ! i) = k"
  then have k: "0 < k" and i: "i < length (slots s)" and e: "ident (slots s ! i) = k" by auto
  have "find_slot (\<lambda>r. ident r = k) (slots s) = Some i"
  proof (rule find_slot_unique)
    show "i < length (slots s)" and "ident (slots s ! i) = k" by (fact i, fact e)
    fix j assume "j < length (slots s)" and "ident (slots s ! j) = k"
    then show "j = i" using slots_wf_unique[OF assms _ i, of j] e k by simp
  qed
  then show "lookup s k = Some i" using slots_wf_nth[OF assms i] k e by (simp add: lookup_eq)
qed (auto dest: lookup_SomeD)

lemma free_slot_SomeD:
  assumes "free_slot s \<ge> 0"
  shows "nat (free_slot s) < length (slots s)" and "ident (slots s ! nat (free_slot s)) = 0"
proof -
  obtain i where "find_slot (\<lambda>r. ident r = 0) (slots s) = Some i"
    using assms by (cases "find_slot (\<lambda>r. ident r = 0) (slots s)") (auto simp: free_eq)
  then show "nat (free_slot s) < length (slots s)" and "ident (slots s ! nat (free_slot s)) = 0"
    using find_slot_SomeD by (simp_all add: free_eq) blast+
qed

lemma free_slot_None: "free_slot s < 0 \<longleftrightarrow> (\<forall>r \<in> set (slots s). ident r \<noteq> 0)"
  using find_slot_None_iff[of "\<lambda>r. ident r = 0" "slots s"] by (auto simp: free_eq split: option.splits)

text \<open>After an insertion at the free slot the new identifier finds it and the others find what they found.\<close>

lemma lookup_insert:
  assumes "wf s" and "free_slot s \<ge> 0" and "ident y = next_id s"
    and "slots s' = (slots s)[nat (free_slot s) := y]" and "next_id s' = next_id s + 1"
  shows "wf s'" and "lookup s' (next_id s) = Some (nat (free_slot s))"
    and "k \<noteq> next_id s \<Longrightarrow> lookup s' k = lookup s k"
proof -
  note f = free_slot_SomeD[OF assms(2)]
  show wf': "wf s'" using slots_wf_insert[OF assms(1) f(1) assms(3)] by (simp add: assms(4,5))
  have "0 < next_id s" using assms(1) by (simp add: slots_wf_def)
  then show "lookup s' (next_id s) = Some (nat (free_slot s))"
    using f assms(3,4) by (simp add: lookup_iff[OF wf'])
  assume "k \<noteq> next_id s"
  then have "lookup s' k = Some i \<longleftrightarrow> lookup s k = Some i" for i
    using f assms(3,4) by (auto simp: lookup_iff[OF wf'] lookup_iff[OF assms(1)] nth_list_update)
  then show "lookup s' k = lookup s k" by (metis not_Some_eq)
qed

lemma lookup_update:
  assumes "wf s" and "i < length (slots s)" and "ident y = ident (slots s ! i)"
    and "slots s' = (slots s)[i := y]" and "next_id s' = next_id s"
  shows "wf s'" and "lookup s' k = lookup s k"
proof -
  show wf': "wf s'" using slots_wf_update[OF assms(1,2)] assms(3) by (simp add: assms(4,5))
  have "lookup s' k = Some j \<longleftrightarrow> lookup s k = Some j" for j
    using assms(2,3,4) by (auto simp: lookup_iff[OF wf'] lookup_iff[OF assms(1)] nth_list_update)
  then show "lookup s' k = lookup s k" by (metis not_Some_eq)
qed

end

section \<open>First candidate with the least key\<close>

fun scan_min :: "('a \<Rightarrow> bool) \<Rightarrow> ('a \<Rightarrow> int) \<Rightarrow> nat \<Rightarrow> (nat \<times> int) option \<Rightarrow> 'a list \<Rightarrow> (nat \<times> int) option" where
  "scan_min P key i best [] = best"
| "scan_min P key i best (x # xs) =
     scan_min P key (Suc i)
       (if P x \<and> (case best of None \<Rightarrow> True | Some (_, v) \<Rightarrow> key x < v) then Some (i, key x) else best) xs"

definition is_first_min :: "('a \<Rightarrow> bool) \<Rightarrow> ('a \<Rightarrow> int) \<Rightarrow> 'a list \<Rightarrow> nat \<Rightarrow> bool" where
  "is_first_min P key xs i \<longleftrightarrow> i < length xs \<and> P (xs ! i) \<and>
     (\<forall>j < length xs. P (xs ! j) \<longrightarrow> key (xs ! i) \<le> key (xs ! j) \<and> (j < i \<longrightarrow> key (xs ! i) < key (xs ! j)))"

lemma scan_min_gen:
  assumes "case best of None \<Rightarrow> \<forall>x \<in> set ys. \<not> P x | Some (i, v) \<Rightarrow> is_first_min P key ys i \<and> v = key (ys ! i)"
  shows "case scan_min P key (length ys) best xs of
           None \<Rightarrow> \<forall>x \<in> set (ys @ xs). \<not> P x
         | Some (i, v) \<Rightarrow> is_first_min P key (ys @ xs) i \<and> v = key ((ys @ xs) ! i)"
  using assms
proof (induction xs arbitrary: ys best)
  case (Cons x xs)
  let ?best = "if P x \<and> (case best of None \<Rightarrow> True | Some (_, v) \<Rightarrow> key x < v) then Some (length ys, key x) else best"
  have "case ?best of None \<Rightarrow> \<forall>z \<in> set (ys @ [x]). \<not> P z
      | Some (i, v) \<Rightarrow> is_first_min P key (ys @ [x]) i \<and> v = key ((ys @ [x]) ! i)"
    using Cons.prems
    by (cases best) (force simp: is_first_min_def nth_append less_Suc_eq in_set_conv_nth split: if_splits)+
  from Cons.IH[OF this] show ?case by (simp only: scan_min.simps length_append_singleton append.assoc append.simps)
next
  case Nil
  then show ?case unfolding append_Nil2 scan_min.simps .
qed

lemma scan_min_spec:
  "case scan_min P key 0 None xs of
     None \<Rightarrow> \<forall>x \<in> set xs. \<not> P x
   | Some (i, v) \<Rightarrow> is_first_min P key xs i \<and> v = key (xs ! i)"
  using scan_min_gen[where best = None and ys = "[]" and P = P and key = key and xs = xs]
  unfolding append_Nil by simp

lemma scan_min_Some: "scan_min P key 0 None xs = Some (i, v) \<Longrightarrow> is_first_min P key xs i \<and> v = key (xs ! i)"
  using scan_min_spec[where P = P and key = key and xs = xs] by simp

lemma scan_min_None: "scan_min P key 0 None xs = None \<longleftrightarrow> (\<forall>x \<in> set xs. \<not> P x)"
  using scan_min_spec[where P = P and key = key and xs = xs]
  by (auto simp: is_first_min_def split: option.splits)

end
