(* ===== verification/Job_Handler.thy ===== *)
theory Job_Handler
  imports Slot_Table
begin

text \<open>
  The job handler (\<open>server/job_handler.c\<close>): the static variables as a record, every public function as
  a function on it. A pointer to data is \<^const>\<open>None\<close> or the bytes of the object it points to; a
  copy that reads past the end of that object is undefined behaviour, as is overflow of \<open>int\<close>
  arithmetic that the code does not exclude, and makes the result \<^const>\<open>None\<close>. \<open>now\<close> is the value of
  \<open>get_current_time_ms\<close>. The header \<open>common/protocol.h\<close> the file includes is empty, so the macros
  \<open>MAX_JOB_RETRIES\<close> and \<open>ERR_JOB_TIMEOUT\<close> are parameters, the messages are the fields the code
  assigns, and \<open>send\<close> stands for \<open>send_message\<close>.

  The theory shows that the statistics always equal the number of jobs in each state, that every
  operation preserves this, which job is assigned, how often a job is retried, that results come
  back as they were delivered, and where the two critical sections of an assignment do not compose
  with a timeout in between.
\<close>

section \<open>Data\<close>

datatype job_status =
    JOB_STATUS_PENDING | JOB_STATUS_ASSIGNED | JOB_STATUS_COMPLETED | JOB_STATUS_FAILED | JOB_STATUS_TIMEOUT

fun job_status_code :: "job_status \<Rightarrow> int" where
  "job_status_code JOB_STATUS_PENDING = 0"
| "job_status_code JOB_STATUS_ASSIGNED = 1"
| "job_status_code JOB_STATUS_COMPLETED = 2"
| "job_status_code JOB_STATUS_FAILED = 3"
| "job_status_code JOB_STATUS_TIMEOUT = 4"

record Job =
  j_job_id :: int
  j_client_socket :: int
  j_worker_socket :: int
  j_job_type :: int
  j_input_data :: "byte list option"
  j_input_size :: nat
  j_result_data :: "byte list option"
  j_result_size :: nat
  j_status :: job_status
  j_submit_time :: int
  j_start_time :: int
  j_end_time :: int
  j_retry_count :: int

text \<open>A slot as \<open>calloc\<close> leaves it.\<close>

definition empty_job :: Job where
  "empty_job = \<lparr>j_job_id = 0, j_client_socket = 0, j_worker_socket = 0, j_job_type = 0, j_input_data = None,
     j_input_size = 0, j_result_data = None, j_result_size = 0, j_status = JOB_STATUS_PENDING,
     j_submit_time = 0, j_start_time = 0, j_end_time = 0, j_retry_count = 0\<rparr>"

record job_handler =
  g_jobs :: "Job list"
  g_max_jobs :: int
  g_job_timeout_seconds :: int
  g_next_job_id :: int
  g_pending_jobs :: int
  g_running_jobs :: int
  g_completed_jobs :: int
  g_failed_jobs :: int

record job_params =
  MAX_JOB_RETRIES :: int
  ERR_JOB_TIMEOUT :: int

datatype job_msg =
    JobAssigned int int "byte list option" nat
  | JobCompleted int
  | JobFailed int int

definition get_current_time_ms :: "int \<Rightarrow> int \<Rightarrow> int" where
  "get_current_time_ms tv_sec tv_usec = tv_sec * 1000 + tv_usec sdiv 1000"

section \<open>Lookup, start and end\<close>

definition find_job_by_id :: "job_handler \<Rightarrow> int \<Rightarrow> nat option" where
  "find_job_by_id st job_id =
     (if job_id \<le> 0 \<or> job_id \<ge> g_next_job_id st then None
      else find_slot (\<lambda>j. j_job_id j = job_id) (g_jobs st))"

definition find_free_job_slot :: "job_handler \<Rightarrow> int" where
  "find_free_job_slot st =
     (case find_slot (\<lambda>j. j_job_id j = 0) (g_jobs st) of None \<Rightarrow> -1 | Some i \<Rightarrow> int i)"

definition initial_job_handler :: job_handler where
  "initial_job_handler = \<lparr>g_jobs = [], g_max_jobs = 0, g_job_timeout_seconds = 0, g_next_job_id = 1,
     g_pending_jobs = 0, g_running_jobs = 0, g_completed_jobs = 0, g_failed_jobs = 0\<rparr>"

definition job_handler_init :: "bool \<Rightarrow> int \<Rightarrow> int \<Rightarrow> job_handler \<Rightarrow> int \<times> job_handler" where
  "job_handler_init calloc_ok max_jobs job_timeout_seconds st =
     (if max_jobs \<le> 0 then (-1, st)
      else if \<not> calloc_ok then (-1, st\<lparr>g_jobs := []\<rparr>)
      else (0, st\<lparr>g_jobs := replicate (nat max_jobs) empty_job, g_max_jobs := max_jobs,
                 g_job_timeout_seconds := job_timeout_seconds, g_next_job_id := 1\<rparr>))"

text \<open>The blocks freed, in order, and the state afterwards.\<close>

definition job_handler_cleanup :: "job_handler \<Rightarrow> int \<times> job_handler \<times> byte list list" where
  "job_handler_cleanup st =
     (0, st\<lparr>g_jobs := [], g_max_jobs := 0\<rparr>,
      concat (map (\<lambda>j. (case j_input_data j of None \<Rightarrow> [] | Some d \<Rightarrow> [d]) @
                       (case j_result_data j of None \<Rightarrow> [] | Some d \<Rightarrow> [d])) (g_jobs st)))"

section \<open>Submission\<close>

text \<open>\<open>malloc\<close> of \<open>n\<close> bytes and a copy into it: a failed allocation is \<open>Some None\<close>.\<close>

definition copy_data :: "bool \<Rightarrow> byte list option \<Rightarrow> nat \<Rightarrow> byte list option option" where
  "copy_data malloc_ok src n =
     (if \<not> malloc_ok then Some None
      else case src of None \<Rightarrow> None | Some bs \<Rightarrow> map_option Some (mem_read bs n))"

definition new_job :: "int \<Rightarrow> int \<Rightarrow> int \<Rightarrow> int \<Rightarrow> byte list option \<Rightarrow> nat \<Rightarrow> Job" where
  "new_job now job_id client_socket job_type data n =
     \<lparr>j_job_id = job_id, j_client_socket = client_socket, j_worker_socket = -1, j_job_type = job_type,
      j_input_data = data, j_input_size = n, j_result_data = None, j_result_size = 0,
      j_status = JOB_STATUS_PENDING, j_submit_time = now, j_start_time = 0, j_end_time = 0,
      j_retry_count = 0\<rparr>"

definition store_job ::
  "int \<Rightarrow> int \<Rightarrow> int \<Rightarrow> byte list option \<Rightarrow> nat \<Rightarrow> int \<Rightarrow> job_handler \<Rightarrow> (int \<times> job_handler) option" where
  "store_job now client_socket job_type data n slot st =
     (let job_id = g_next_job_id st in
      if \<not> in_c_int (job_id + 1) then None
      else Some (job_id, st\<lparr>g_jobs := (g_jobs st)[nat slot := new_job now job_id client_socket job_type data n],
                            g_next_job_id := job_id + 1, g_pending_jobs := g_pending_jobs st + 1\<rparr>))"

definition job_handler_submit ::
  "int \<Rightarrow> bool \<Rightarrow> int \<Rightarrow> int \<Rightarrow> byte list option \<Rightarrow> nat \<Rightarrow> job_handler \<Rightarrow> (int \<times> job_handler) option" where
  "job_handler_submit now malloc_ok client_socket job_type input_data input_size st =
     (if input_data = None \<and> input_size > 0 then Some (-1, st)
      else let slot = find_free_job_slot st in
        if slot < 0 then Some (-1, st)
        else if input_size > 0
        then (case copy_data malloc_ok input_data input_size of
                None \<Rightarrow> None
              | Some None \<Rightarrow> Some (-1, st)
              | Some (Some d) \<Rightarrow> store_job now client_socket job_type (Some d) input_size slot st)
        else store_job now client_socket job_type None input_size slot st)"

section \<open>Assignment\<close>

text \<open>
  The first critical section: choose and mark the oldest pending job. The message is built inside it
  and sent after it.
\<close>

definition is_pending :: "Job \<Rightarrow> bool" where
  "is_pending j \<longleftrightarrow> j_job_id j > 0 \<and> j_status j = JOB_STATUS_PENDING"

definition oldest_pending :: "job_handler \<Rightarrow> nat option" where
  "oldest_pending st = map_option fst (scan_min is_pending j_submit_time 0 None (g_jobs st))"

definition assign_pick :: "int \<Rightarrow> int \<Rightarrow> job_handler \<Rightarrow> (int \<times> job_msg) option \<times> job_handler" where
  "assign_pick now worker_socket st =
     (case oldest_pending st of
        None \<Rightarrow> (None, st)
      | Some i \<Rightarrow>
          let j = (g_jobs st ! i)\<lparr>j_worker_socket := worker_socket, j_status := JOB_STATUS_ASSIGNED, j_start_time := now\<rparr>
          in (Some (j_job_id j, JobAssigned (j_job_id j) (j_job_type j) (j_input_data j) (j_input_size j)),
              st\<lparr>g_jobs := (g_jobs st)[i := j], g_pending_jobs := g_pending_jobs st - 1,
                 g_running_jobs := g_running_jobs st + 1\<rparr>))"

text \<open>The second critical section, entered when the message could not be sent.\<close>

definition assign_rollback :: "int \<Rightarrow> job_handler \<Rightarrow> job_handler" where
  "assign_rollback job_id st =
     (case find_job_by_id st job_id of
        None \<Rightarrow> st
      | Some i \<Rightarrow>
          st\<lparr>g_jobs := (g_jobs st)[i := (g_jobs st ! i)\<lparr>j_worker_socket := -1, j_status := JOB_STATUS_PENDING, j_start_time := 0\<rparr>],
             g_pending_jobs := g_pending_jobs st + 1, g_running_jobs := g_running_jobs st - 1\<rparr>)"

definition job_handler_assign ::
  "(int \<Rightarrow> job_msg \<Rightarrow> int) \<Rightarrow> int \<Rightarrow> int \<Rightarrow> job_handler \<Rightarrow> int \<times> job_handler" where
  "job_handler_assign send now worker_socket st =
     (case assign_pick now worker_socket st of
        (None, st1) \<Rightarrow> (-1, st1)
      | (Some (job_id, msg), st1) \<Rightarrow>
          if send worker_socket msg < 0 then (-1, assign_rollback job_id st1)
          else (job_id, st1))"

section \<open>Completion and failure\<close>

text \<open>Result code, state, and the messages sent with their sockets.\<close>

definition job_handler_complete ::
  "int \<Rightarrow> bool \<Rightarrow> int \<Rightarrow> byte list option \<Rightarrow> nat \<Rightarrow> job_handler
   \<Rightarrow> (int \<times> job_handler \<times> (int \<times> job_msg) list) option" where
  "job_handler_complete now malloc_ok job_id result_data result_size st =
     (if result_data = None \<and> result_size > 0 then Some (-1, st, [])
      else (case find_job_by_id st job_id of
              None \<Rightarrow> Some (-1, st, [])
            | Some i \<Rightarrow>
                if j_status (g_jobs st ! i) \<noteq> JOB_STATUS_ASSIGNED then Some (-1, st, [])
                else (case (if result_size > 0
                            then map_option (map_option Some) (copy_data malloc_ok result_data result_size)
                            else Some (Some None)) of
                        None \<Rightarrow> None
                      | Some None \<Rightarrow> Some (-1, st, [])
                      | Some (Some d) \<Rightarrow>
                          Some (0, st\<lparr>g_jobs := (g_jobs st)[i := (g_jobs st ! i)\<lparr>j_result_data := d, j_result_size := result_size,
                                        j_status := JOB_STATUS_COMPLETED, j_end_time := now\<rparr>],
                                      g_running_jobs := g_running_jobs st - 1,
                                      g_completed_jobs := g_completed_jobs st + 1\<rparr>,
                                [(j_client_socket (g_jobs st ! i), JobCompleted job_id)]))))"

text \<open>
  What failing or timing out does to one job: a terminal status, or a reset for another attempt. The
  flag tells which.
\<close>

definition retry_job :: "job_params \<Rightarrow> int \<Rightarrow> job_status \<Rightarrow> Job \<Rightarrow> bool \<times> Job" where
  "retry_job p now failed_status j =
     (let j1 = j\<lparr>j_status := failed_status, j_end_time := now, j_retry_count := j_retry_count j + 1\<rparr> in
      if j_retry_count j1 < MAX_JOB_RETRIES p
      then (True, j1\<lparr>j_status := JOB_STATUS_PENDING, j_worker_socket := -1, j_start_time := 0, j_end_time := 0\<rparr>)
      else (False, j1))"

definition job_handler_fail ::
  "job_params \<Rightarrow> int \<Rightarrow> int \<Rightarrow> int \<Rightarrow> job_handler \<Rightarrow> int \<times> job_handler \<times> (int \<times> job_msg) list" where
  "job_handler_fail p now job_id error_code st =
     (case find_job_by_id st job_id of
        None \<Rightarrow> (-1, st, [])
      | Some i \<Rightarrow>
          if j_status (g_jobs st ! i) \<noteq> JOB_STATUS_ASSIGNED then (-1, st, [])
          else (case retry_job p now JOB_STATUS_FAILED (g_jobs st ! i) of
                  (True, j) \<Rightarrow>
                    (0, st\<lparr>g_jobs := (g_jobs st)[i := j], g_running_jobs := g_running_jobs st - 1,
                           g_pending_jobs := g_pending_jobs st + 1\<rparr>, [])
                | (False, j) \<Rightarrow>
                    (0, st\<lparr>g_jobs := (g_jobs st)[i := j], g_running_jobs := g_running_jobs st - 1,
                           g_failed_jobs := g_failed_jobs st + 1\<rparr>,
                     [(j_client_socket j, JobFailed job_id error_code)])))"

section \<open>Queries\<close>

definition job_handler_get_status :: "int \<Rightarrow> job_handler \<Rightarrow> int" where
  "job_handler_get_status job_id st =
     (case find_job_by_id st job_id of None \<Rightarrow> -1 | Some i \<Rightarrow> job_status_code (j_status (g_jobs st ! i)))"

text \<open>The two output pointers may be \<open>NULL\<close>; on success the result is what they receive.\<close>

definition job_handler_get_result ::
  "bool \<Rightarrow> bool \<Rightarrow> bool \<Rightarrow> int \<Rightarrow> job_handler \<Rightarrow> (int \<times> (byte list option \<times> nat) option) option" where
  "job_handler_get_result have_data have_size malloc_ok job_id st =
     (if \<not> have_data \<or> \<not> have_size then Some (-1, None)
      else (case find_job_by_id st job_id of
              None \<Rightarrow> Some (-1, None)
            | Some i \<Rightarrow>
                let j = g_jobs st ! i in
                if j_status j \<noteq> JOB_STATUS_COMPLETED then Some (-1, None)
                else if j_result_size j > 0
                then (case copy_data malloc_ok (j_result_data j) (j_result_size j) of
                        None \<Rightarrow> None
                      | Some None \<Rightarrow> Some (-1, None)
                      | Some (Some d) \<Rightarrow> Some (0, Some (Some d, j_result_size j)))
                else Some (0, Some (None, j_result_size j))))"

definition job_handler_get_stats :: "job_handler \<Rightarrow> int \<times> int \<times> int \<times> int" where
  "job_handler_get_stats st = (g_pending_jobs st, g_running_jobs st, g_completed_jobs st, g_failed_jobs st)"

section \<open>The timeout sweep\<close>

text \<open>
  The loop over the slots; \<open>timeout\<close> is the product the comparison computes, \<^const>\<open>None\<close> when it
  overflows \<open>int\<close>. The accumulator holds the static counters the loop changes, the number of timeouts
  and the messages sent.
\<close>

record sweep_acc =
  sw_running :: int
  sw_pending :: int
  sw_failed :: int
  sw_count :: int
  sw_msgs :: "(int \<times> job_msg) list"

fun job_timeout_loop ::
  "job_params \<Rightarrow> int \<Rightarrow> int option \<Rightarrow> sweep_acc \<Rightarrow> Job list \<Rightarrow> (sweep_acc \<times> Job list) option" where
  "job_timeout_loop p now timeout acc [] = Some (acc, [])"
| "job_timeout_loop p now timeout acc (j # js) =
     (if j_job_id j = 0 \<or> j_status j \<noteq> JOB_STATUS_ASSIGNED
      then map_option (\<lambda>(a, js'). (a, j # js')) (job_timeout_loop p now timeout acc js)
      else (case timeout of
              None \<Rightarrow> None
            | Some ms \<Rightarrow>
                if now - j_start_time j > ms
                then (case retry_job p now JOB_STATUS_TIMEOUT j of
                        (retry, j') \<Rightarrow>
                          let acc' = (if retry
                                      then acc\<lparr>sw_running := sw_running acc - 1, sw_pending := sw_pending acc + 1,
                                               sw_count := sw_count acc + 1\<rparr>
                                      else acc\<lparr>sw_running := sw_running acc - 1, sw_failed := sw_failed acc + 1,
                                               sw_count := sw_count acc + 1,
                                               sw_msgs := sw_msgs acc @ [(j_client_socket j', JobFailed (j_job_id j') (ERR_JOB_TIMEOUT p))]\<rparr>)
                          in map_option (\<lambda>(a, js'). (a, j' # js')) (job_timeout_loop p now timeout acc' js))
                else map_option (\<lambda>(a, js'). (a, j # js')) (job_timeout_loop p now timeout acc js)))"

definition job_handler_check_timeouts ::
  "job_params \<Rightarrow> int \<Rightarrow> job_handler \<Rightarrow> (int \<times> job_handler \<times> (int \<times> job_msg) list) option" where
  "job_handler_check_timeouts p now st =
     map_option (\<lambda>(a, js). (sw_count a,
        st\<lparr>g_jobs := js, g_running_jobs := sw_running a, g_pending_jobs := sw_pending a, g_failed_jobs := sw_failed a\<rparr>,
        sw_msgs a))
      (job_timeout_loop p now (c_mul (g_job_timeout_seconds st) 1000)
         \<lparr>sw_running = g_running_jobs st, sw_pending = g_pending_jobs st, sw_failed = g_failed_jobs st,
          sw_count = 0, sw_msgs = []\<rparr> (g_jobs st))"

section \<open>Invariant\<close>

interpretation jobs: slot_table g_jobs g_next_job_id j_job_id find_job_by_id find_free_job_slot
  by unfold_locales (simp_all add: find_job_by_id_def find_free_job_slot_def)

definition jcount :: "job_status set \<Rightarrow> Job list \<Rightarrow> int" where
  "jcount S js = icount (\<lambda>j. j_job_id j \<noteq> 0 \<and> j_status j \<in> S) js"

definition data_ok :: "byte list option \<Rightarrow> nat \<Rightarrow> bool" where
  "data_ok d n \<longleftrightarrow> (case d of None \<Rightarrow> n = 0 | Some bs \<Rightarrow> n > 0 \<and> length bs = n)"

definition terminal_failure :: "job_status set" where
  "terminal_failure = {JOB_STATUS_FAILED, JOB_STATUS_TIMEOUT}"

definition attempts :: "job_params \<Rightarrow> int" where
  "attempts p = max 1 (MAX_JOB_RETRIES p)"

definition job_ok :: "job_params \<Rightarrow> Job \<Rightarrow> bool" where
  "job_ok p j \<longleftrightarrow> data_ok (j_input_data j) (j_input_size j) \<and> data_ok (j_result_data j) (j_result_size j) \<and>
     0 \<le> j_retry_count j \<and>
     (j_job_id j \<noteq> 0 \<and> j_status j = JOB_STATUS_PENDING \<longrightarrow> j_worker_socket j = -1 \<and> j_start_time j = 0) \<and>
     (if j_status j \<in> terminal_failure then j_retry_count j = attempts p else j_retry_count j < attempts p)"

definition jh_inv :: "job_params \<Rightarrow> job_handler \<Rightarrow> bool" where
  "jh_inv p st \<longleftrightarrow>
     g_max_jobs st = int (length (g_jobs st)) \<and> slots_wf j_job_id (g_next_job_id st) (g_jobs st) \<and>
     g_next_job_id st = 1 + jcount UNIV (g_jobs st) \<and> (\<forall>j \<in> set (g_jobs st). job_ok p j) \<and>
     g_pending_jobs st = jcount {JOB_STATUS_PENDING} (g_jobs st) \<and>
     g_running_jobs st = jcount {JOB_STATUS_ASSIGNED} (g_jobs st) \<and>
     g_completed_jobs st = jcount {JOB_STATUS_COMPLETED} (g_jobs st) \<and>
     g_failed_jobs st = jcount terminal_failure (g_jobs st)"

lemma jcount_update:
  "i < length js \<Longrightarrow> jcount S (js[i := j]) = jcount S js -
     of_bool (j_job_id (js ! i) \<noteq> 0 \<and> j_status (js ! i) \<in> S) + of_bool (j_job_id j \<noteq> 0 \<and> j_status j \<in> S)"
  by (simp add: jcount_def count_simps)

lemma jcount_Cons: "jcount S (j # js) = of_bool (j_job_id j \<noteq> 0 \<and> j_status j \<in> S) + jcount S js"
  by (simp add: jcount_def count_simps)

lemma jcount_Nil [simp]: "jcount S [] = 0"
  by (simp add: jcount_def count_simps)

lemma jcount_le: "jcount S js \<le> int (length js)"
  by (simp add: jcount_def icount_le_length)

lemma jcount_nonneg [simp]: "0 \<le> jcount S js"
  by (simp add: jcount_def)

lemma jcount_replicate_empty [simp]: "jcount S (replicate n empty_job) = 0"
  by (simp add: jcount_def count_simps empty_job_def)

lemma job_ok_empty: "job_ok p empty_job"
  by (simp add: job_ok_def empty_job_def data_ok_def terminal_failure_def attempts_def)

lemma jh_inv_wf: "jh_inv p st \<Longrightarrow> slots_wf j_job_id (g_next_job_id st) (g_jobs st)"
  unfolding jh_inv_def by blast

text \<open>The change of one job in place, with the counters following its status.\<close>

lemma jh_inv_update:
  assumes inv: "jh_inv p st" and i: "i < length (g_jobs st)" and used: "j_job_id (g_jobs st ! i) \<noteq> 0"
    and id: "j_job_id j = j_job_id (g_jobs st ! i)" and ok: "job_ok p j"
    and st': "g_jobs st' = (g_jobs st)[i := j]" "g_max_jobs st' = g_max_jobs st" "g_next_job_id st' = g_next_job_id st"
    and p: "g_pending_jobs st' = g_pending_jobs st - of_bool (j_status (g_jobs st ! i) = JOB_STATUS_PENDING) + of_bool (j_status j = JOB_STATUS_PENDING)"
    and r: "g_running_jobs st' = g_running_jobs st - of_bool (j_status (g_jobs st ! i) = JOB_STATUS_ASSIGNED) + of_bool (j_status j = JOB_STATUS_ASSIGNED)"
    and c: "g_completed_jobs st' = g_completed_jobs st - of_bool (j_status (g_jobs st ! i) = JOB_STATUS_COMPLETED) + of_bool (j_status j = JOB_STATUS_COMPLETED)"
    and f: "g_failed_jobs st' = g_failed_jobs st - of_bool (j_status (g_jobs st ! i) \<in> terminal_failure) + of_bool (j_status j \<in> terminal_failure)"
  shows "jh_inv p st'"
proof -
  have "slots_wf j_job_id (g_next_job_id st) (g_jobs st')"
    using slots_wf_update[OF jh_inv_wf[OF inv] i, of j] id by (simp add: st')
  moreover have "\<forall>x \<in> set (g_jobs st'). job_ok p x"
    using inv ok set_update_subset_insert[of "g_jobs st" i j] by (auto simp: jh_inv_def st')
  ultimately show ?thesis
    using inv used id by (simp add: jh_inv_def st' p r c f jcount_update[OF i])
qed

lemma find_job_used:
  assumes "jh_inv p st" and "find_job_by_id st k = Some i"
  shows "i < length (g_jobs st)" and "j_job_id (g_jobs st ! i) = k" and "k \<noteq> 0" and "job_ok p (g_jobs st ! i)"
  using assms jobs.lookup_SomeD[OF assms(2)] by (auto simp: jh_inv_def)

subsection \<open>Every operation preserves the invariant\<close>

lemma init_inv:
  assumes "g_pending_jobs st = 0" "g_running_jobs st = 0" "g_completed_jobs st = 0" "g_failed_jobs st = 0"
    and "job_handler_init True max_jobs timeout st = (0, st')"
  shows "jh_inv p st'"
  using assms by (auto simp: job_handler_init_def jh_inv_def job_ok_empty empty_job_def[THEN arg_cong, of j_job_id]
      intro!: slots_wf_replicate split: if_splits)

lemma copy_data_ok: "copy_data ok src n = Some (Some d) \<Longrightarrow> n > 0 \<Longrightarrow> data_ok (Some d) n"
  by (auto simp: copy_data_def data_ok_def mem_read_def split: if_splits option.splits)

lemma store_job_inv:
  assumes inv: "jh_inv p st" and slot: "find_free_job_slot st = slot" "slot \<ge> 0" and d: "data_ok data n"
    and s: "store_job now c t data n slot st = Some (k, st')"
  shows "jh_inv p st'"
proof -
  note f = jobs.free_slot_SomeD[of st, unfolded slot(1), OF slot(2)]
  let ?j = "new_job now (g_next_job_id st) c t data n"
  have next_pos: "0 < g_next_job_id st" using inv by (simp add: jh_inv_def slots_wf_def)
  have st': "st' = st\<lparr>g_jobs := (g_jobs st)[nat slot := ?j], g_next_job_id := g_next_job_id st + 1,
      g_pending_jobs := g_pending_jobs st + 1\<rparr>"
    using s by (auto simp: store_job_def Let_def split: if_splits)
  have "slots_wf j_job_id (g_next_job_id st + 1) ((g_jobs st)[nat slot := ?j])"
    using slots_wf_insert[OF jh_inv_wf[OF inv] f(1), of ?j] by (simp add: new_job_def)
  moreover have "job_ok p ?j"
    using d by (simp add: job_ok_def new_job_def data_ok_def terminal_failure_def attempts_def)
  then have "\<forall>x \<in> set ((g_jobs st)[nat slot := ?j]). job_ok p x"
    using inv set_update_subset_insert[of "g_jobs st" "nat slot" ?j] by (auto simp: jh_inv_def)
  ultimately show ?thesis
    using inv f next_pos
    by (simp add: jh_inv_def st' jcount_update) (simp add: new_job_def terminal_failure_def)
qed

lemma submit_inv:
  assumes "jh_inv p st" and "job_handler_submit now ok c t data n st = Some (k, st')"
  shows "jh_inv p st'"
proof -
  have "data_ok None 0" by (simp add: data_ok_def)
  note store = store_job_inv[OF assms(1) refl _ this] store_job_inv[OF assms(1) refl _ copy_data_ok]
  show ?thesis
    using assms(2,1) store(1)[of now c t k st'] store(2)[of ok data n _ now c t k st']
    by (auto simp: job_handler_submit_def Let_def split: if_splits option.splits)
qed

lemma oldest_pending_Some:
  "oldest_pending st = Some i \<Longrightarrow> is_first_min is_pending j_submit_time (g_jobs st) i"
  by (auto simp: oldest_pending_def dest: scan_min_Some)

lemma pick_inv:
  assumes "jh_inv p st" and "assign_pick now w st = (r, st')"
  shows "jh_inv p st'"
proof (cases "oldest_pending st")
  case (Some i)
  have i: "i < length (g_jobs st)" and pen: "j_job_id (g_jobs st ! i) > 0" "j_status (g_jobs st ! i) = JOB_STATUS_PENDING"
    using oldest_pending_Some[OF Some] by (auto simp: is_first_min_def is_pending_def)
  have "job_ok p (g_jobs st ! i)" using assms(1) i by (simp add: jh_inv_def)
  then show ?thesis
    using assms(2) pen
    by (intro jh_inv_update[OF assms(1) i, of "(g_jobs st ! i)\<lparr>j_worker_socket := w, j_status := JOB_STATUS_ASSIGNED, j_start_time := now\<rparr>"])
       (auto simp: assign_pick_def Some Let_def job_ok_def terminal_failure_def)
qed (use assms in \<open>auto simp: assign_pick_def\<close>)

lemma rollback_inv:
  assumes "jh_inv p st" and "find_job_by_id st k = Some i" and "j_status (g_jobs st ! i) = JOB_STATUS_ASSIGNED"
  shows "jh_inv p (assign_rollback k st)"
  using find_job_used[OF assms(1,2)] assms(2,3)
  by (intro jh_inv_update[OF assms(1), of i "(g_jobs st ! i)\<lparr>j_worker_socket := -1, j_status := JOB_STATUS_PENDING, j_start_time := 0\<rparr>"])
     (auto simp: assign_rollback_def job_ok_def terminal_failure_def)

lemma pick_Some:
  assumes "jh_inv p st" and "assign_pick now w st = (Some (k, m), st')"
  obtains i where "oldest_pending st = Some i" and "i < length (g_jobs st)" and "k = j_job_id (g_jobs st ! i)"
    and "is_pending (g_jobs st ! i)" and "find_job_by_id st' k = Some i" and "find_job_by_id st k = Some i"
    and "g_jobs st' = (g_jobs st)[i := (g_jobs st ! i)\<lparr>j_worker_socket := w, j_status := JOB_STATUS_ASSIGNED, j_start_time := now\<rparr>]"
    and "m = JobAssigned k (j_job_type (g_jobs st ! i)) (j_input_data (g_jobs st ! i)) (j_input_size (g_jobs st ! i))"
proof -
  obtain i where o: "oldest_pending st = Some i"
    using assms(2) by (cases "oldest_pending st") (auto simp: assign_pick_def)
  have i: "i < length (g_jobs st)" and pen: "is_pending (g_jobs st ! i)"
    using oldest_pending_Some[OF o] by (auto simp: is_first_min_def)
  have st': "g_jobs st' = (g_jobs st)[i := (g_jobs st ! i)\<lparr>j_worker_socket := w, j_status := JOB_STATUS_ASSIGNED, j_start_time := now\<rparr>]"
    and k: "k = j_job_id (g_jobs st ! i)" and n: "g_next_job_id st' = g_next_job_id st"
    and m: "m = JobAssigned k (j_job_type (g_jobs st ! i)) (j_input_data (g_jobs st ! i)) (j_input_size (g_jobs st ! i))"
    using assms(2) by (auto simp: assign_pick_def o Let_def)
  have l: "find_job_by_id st k = Some i"
    using pen i k jobs.lookup_iff[OF jh_inv_wf[OF assms(1)]] by (simp add: is_pending_def)
  moreover have "find_job_by_id st' k = find_job_by_id st k"
    using jobs.lookup_update(2)[OF jh_inv_wf[OF assms(1)] i _ st' n] by simp
  ultimately show ?thesis using that[OF o i k pen _ l st' m] by simp
qed

lemma assign_inv:
  assumes "jh_inv p st"
  shows "jh_inv p (snd (job_handler_assign send now w st))"
proof (cases "assign_pick now w st")
  case (Pair r st1)
  show ?thesis
  proof (cases r)
    case None
    then show ?thesis using pick_inv[OF assms Pair] Pair by (simp add: job_handler_assign_def)
  next
    case (Some km)
    then obtain k m where r: "r = Some (k, m)" by (cases km) auto
    from pick_Some[OF assms Pair[unfolded r]] obtain i where f: "find_job_by_id st1 k = Some i"
      and i: "i < length (g_jobs st)" and js: "g_jobs st1 = (g_jobs st)[i := (g_jobs st ! i)
        \<lparr>j_worker_socket := w, j_status := JOB_STATUS_ASSIGNED, j_start_time := now\<rparr>]" by metis
    have "j_status (g_jobs st1 ! i) = JOB_STATUS_ASSIGNED" using i by (simp add: js)
    note rollback_inv[OF pick_inv[OF assms Pair] f this]
    then show ?thesis using pick_inv[OF assms Pair] Pair r by (simp add: job_handler_assign_def)
  qed
qed

lemma complete_cases:
  assumes "jh_inv p st" and "job_handler_complete now ok k data n st = Some (r, st', ms)"
  obtains (refused) "r = -1" and "st' = st" and "ms = []"
  | (completed) i d where "find_job_by_id st k = Some i" and "j_status (g_jobs st ! i) = JOB_STATUS_ASSIGNED"
      and "data_ok d n" and "d = (if n = 0 then None else map_option (take n) data)" and "r = 0"
      and "ms = [(j_client_socket (g_jobs st ! i), JobCompleted k)]"
      and "st' = st\<lparr>g_jobs := (g_jobs st)[i := (g_jobs st ! i)\<lparr>j_result_data := d, j_result_size := n,
             j_status := JOB_STATUS_COMPLETED, j_end_time := now\<rparr>],
             g_running_jobs := g_running_jobs st - 1, g_completed_jobs := g_completed_jobs st + 1\<rparr>"
proof (cases "find_job_by_id st k")
  case None
  then show ?thesis using assms(2) refused by (simp add: job_handler_complete_def split: if_splits)
next
  case (Some i)
  let ?copy = "if n > 0 then map_option (map_option Some) (copy_data ok data n) else Some (Some None)"
  show ?thesis
  proof (cases "(data = None \<and> n > 0) \<or> j_status (g_jobs st ! i) \<noteq> JOB_STATUS_ASSIGNED \<or> ?copy = Some None")
    case True
    then show ?thesis using assms(2) refused Some by (auto simp: job_handler_complete_def split: if_splits)
  next
    case False
    then obtain d where c: "?copy = Some (Some d)"
      using assms(2) Some by (auto simp: job_handler_complete_def split: if_splits option.splits)
    have "data_ok d n" and "d = (if n = 0 then None else map_option (take n) data)"
      using c by (auto simp: copy_data_def mem_read_def data_ok_def split: if_splits option.splits)
    moreover have "r = 0 \<and> ms = [(j_client_socket (g_jobs st ! i), JobCompleted k)] \<and>
        st' = st\<lparr>g_jobs := (g_jobs st)[i := (g_jobs st ! i)\<lparr>j_result_data := d, j_result_size := n,
             j_status := JOB_STATUS_COMPLETED, j_end_time := now\<rparr>],
             g_running_jobs := g_running_jobs st - 1, g_completed_jobs := g_completed_jobs st + 1\<rparr>"
      using assms(2) False unfolding job_handler_complete_def Some option.case c by (auto split: if_splits)
    ultimately show ?thesis using completed[OF Some _ _ _ _ _ _, of d] False by blast
  qed
qed

lemma complete_inv:
  assumes "jh_inv p st" and "job_handler_complete now ok k data n st = Some (r, st', ms)"
  shows "jh_inv p st'"
  using assms
proof (cases rule: complete_cases)
  case (completed i d)
  note u = find_job_used[OF assms(1) completed(1)]
  show ?thesis
    using u completed(2,3)
    by (intro jh_inv_update[OF assms(1) u(1), of "(g_jobs st ! i)\<lparr>j_result_data := d, j_result_size := n,
             j_status := JOB_STATUS_COMPLETED, j_end_time := now\<rparr>"])
       (auto simp: completed(7) job_ok_def terminal_failure_def)
qed (use assms in simp)

lemma retry_job_ok:
  assumes "retry_job p now s j = (again, j')" and "job_ok p j" and "j_status j = JOB_STATUS_ASSIGNED"
    and "s \<in> terminal_failure"
  shows "job_ok p j'" and "j_job_id j' = j_job_id j" and "j_status j' = (if again then JOB_STATUS_PENDING else s)"
    and "j_retry_count j' = j_retry_count j + 1" and "again \<longleftrightarrow> j_retry_count j + 1 < MAX_JOB_RETRIES p"
    and "j_client_socket j' = j_client_socket j"
  using assms by (auto simp: retry_job_def Let_def job_ok_def attempts_def terminal_failure_def split: if_splits)

lemma fail_inv:
  assumes "jh_inv p st" and "job_handler_fail p now k e st = (r, st', ms)"
  shows "jh_inv p st'"
proof (cases "find_job_by_id st k")
  case (Some i)
  note u = find_job_used[OF assms(1) Some]
  show ?thesis
  proof (cases "j_status (g_jobs st ! i) = JOB_STATUS_ASSIGNED")
    case True
    obtain again j where rj: "retry_job p now JOB_STATUS_FAILED (g_jobs st ! i) = (again, j)" by fastforce
    have "JOB_STATUS_FAILED \<in> terminal_failure" by (simp add: terminal_failure_def)
    note ro = retry_job_ok[OF rj u(4) True this]
    show ?thesis
      using assms(2) u ro True
      by (intro jh_inv_update[OF assms(1) u(1), of j])
         (auto simp: job_handler_fail_def Some rj terminal_failure_def split: bool.splits)
  qed (use assms Some in \<open>auto simp: job_handler_fail_def\<close>)
qed (use assms in \<open>auto simp: job_handler_fail_def\<close>)

subsection \<open>The timeout sweep\<close>

definition overdue :: "int \<Rightarrow> int \<Rightarrow> Job \<Rightarrow> bool" where
  "overdue now ms j \<longleftrightarrow> j_job_id j \<noteq> 0 \<and> j_status j = JOB_STATUS_ASSIGNED \<and> now - j_start_time j > ms"

definition sweep_job :: "job_params \<Rightarrow> int \<Rightarrow> int \<Rightarrow> Job \<Rightarrow> Job" where
  "sweep_job p now ms j = (if overdue now ms j then snd (retry_job p now JOB_STATUS_TIMEOUT j) else j)"

lemma job_timeout_loop_jobs:
  "\<exists>a. job_timeout_loop p now (Some ms) acc js = Some (a, map (sweep_job p now ms) js) \<and>
       sw_count a = sw_count acc + icount (overdue now ms) js"
proof (induction js arbitrary: acc)
  case (Cons j js)
  show ?case
  proof (cases "overdue now ms j")
    case True
    obtain again j' where r: "retry_job p now JOB_STATUS_TIMEOUT j = (again, j')" by fastforce
    let ?acc = "if again
       then acc\<lparr>sw_running := sw_running acc - 1, sw_pending := sw_pending acc + 1, sw_count := sw_count acc + 1\<rparr>
       else acc\<lparr>sw_running := sw_running acc - 1, sw_failed := sw_failed acc + 1, sw_count := sw_count acc + 1,
               sw_msgs := sw_msgs acc @ [(j_client_socket j', JobFailed (j_job_id j') (ERR_JOB_TIMEOUT p))]\<rparr>"
    have "sw_count ?acc = sw_count acc + 1" by simp
    with Cons.IH[of ?acc] True r show ?thesis
      by (auto simp: overdue_def sweep_job_def count_simps Let_def)
  next
    case False
    with Cons.IH[of acc] show ?thesis by (auto simp: overdue_def sweep_job_def count_simps)
  qed
qed (simp add: count_simps)

text \<open>Each counter moves with the number of jobs in its state.\<close>

lemma job_timeout_loop_conserve:
  assumes "job_timeout_loop p now t acc js = Some (a, js')" and "\<forall>j \<in> set js. job_ok p j"
  shows "sw_running a - jcount {JOB_STATUS_ASSIGNED} js' = sw_running acc - jcount {JOB_STATUS_ASSIGNED} js \<and>
     sw_pending a - jcount {JOB_STATUS_PENDING} js' = sw_pending acc - jcount {JOB_STATUS_PENDING} js \<and>
     sw_failed a - jcount terminal_failure js' = sw_failed acc - jcount terminal_failure js \<and>
     jcount {JOB_STATUS_COMPLETED} js' = jcount {JOB_STATUS_COMPLETED} js \<and>
     map j_job_id js' = map j_job_id js \<and> (\<forall>j \<in> set js'. job_ok p j)"
  using assms
proof (induction js arbitrary: acc a js')
  case (Cons j js)
  show ?case
  proof (cases "j_job_id j = 0 \<or> j_status j \<noteq> JOB_STATUS_ASSIGNED \<or> (\<exists>ms. t = Some ms \<and> \<not> now - j_start_time j > ms)")
    case True
    then obtain js1 where l: "job_timeout_loop p now t acc js = Some (a, js1)" and "js' = j # js1"
      using Cons.prems(1) by (auto split: if_splits option.splits)
    with Cons.IH[OF l] Cons.prems(2) show ?thesis by (auto simp: jcount_Cons)
  next
    case False
    then obtain ms where t: "t = Some ms" and j: "j_job_id j \<noteq> 0" "j_status j = JOB_STATUS_ASSIGNED"
      and late: "now - j_start_time j > ms" using Cons.prems(1) by (cases t) auto
    obtain again j' where r: "retry_job p now JOB_STATUS_TIMEOUT j = (again, j')" by fastforce
    have "job_ok p j" using Cons.prems(2) by simp
    note ro = retry_job_ok[OF r this j(2)]
    let ?acc = "if again
       then acc\<lparr>sw_running := sw_running acc - 1, sw_pending := sw_pending acc + 1, sw_count := sw_count acc + 1\<rparr>
       else acc\<lparr>sw_running := sw_running acc - 1, sw_failed := sw_failed acc + 1, sw_count := sw_count acc + 1,
               sw_msgs := sw_msgs acc @ [(j_client_socket j', JobFailed (j_job_id j') (ERR_JOB_TIMEOUT p))]\<rparr>"
    obtain js1 where l: "job_timeout_loop p now t ?acc js = Some (a, js1)" and js': "js' = j' # js1"
      using Cons.prems(1) j late r by (auto simp: t Let_def)
    from Cons.IH[OF l] Cons.prems(2) ro j js' show ?thesis
      by (cases again) (auto simp: jcount_Cons terminal_failure_def)
  qed
qed simp

lemma jcount_UNIV_ids: "jcount UNIV js = icount (\<lambda>k. k \<noteq> 0) (map j_job_id js)"
  by (induction js) (simp_all add: jcount_Cons count_simps)

lemma check_timeouts_inv:
  assumes inv: "jh_inv p st" and "job_handler_check_timeouts p now st = Some (n, st', ms)"
  shows "jh_inv p st'"
proof -
  let ?acc = "\<lparr>sw_running = g_running_jobs st, sw_pending = g_pending_jobs st, sw_failed = g_failed_jobs st,
               sw_count = 0, sw_msgs = []\<rparr>"
  obtain a js where l: "job_timeout_loop p now (c_mul (g_job_timeout_seconds st) 1000) ?acc (g_jobs st) = Some (a, js)"
    and st': "st' = st\<lparr>g_jobs := js, g_running_jobs := sw_running a, g_pending_jobs := sw_pending a, g_failed_jobs := sw_failed a\<rparr>"
    using assms(2) by (auto simp: job_handler_check_timeouts_def)
  have ok: "\<forall>j \<in> set (g_jobs st). job_ok p j" using inv by (simp add: jh_inv_def)
  note c = job_timeout_loop_conserve[OF l ok]
  then have ids: "map j_job_id js = map j_job_id (g_jobs st)" by simp
  have "length js = length (g_jobs st)" using ids by (metis length_map)
  moreover have "slots_wf j_job_id (g_next_job_id st) js"
    using jh_inv_wf[OF inv] slots_wf_ids[OF ids] by simp
  moreover have "jcount UNIV js = jcount UNIV (g_jobs st)" by (simp add: jcount_UNIV_ids ids)
  ultimately show ?thesis using inv c by (simp add: jh_inv_def st')
qed

section \<open>Sequences of calls\<close>

inductive jh_step :: "job_params \<Rightarrow> job_handler \<Rightarrow> job_handler \<Rightarrow> bool" for p where
  submit: "job_handler_submit now ok c t data n st = Some (k, st') \<Longrightarrow> jh_step p st st'"
| assign: "job_handler_assign send now w st = (k, st') \<Longrightarrow> jh_step p st st'"
| complete: "job_handler_complete now ok k data n st = Some (r, st', ms) \<Longrightarrow> jh_step p st st'"
| fail: "job_handler_fail p now k e st = (r, st', ms) \<Longrightarrow> jh_step p st st'"
| sweep: "job_handler_check_timeouts p now st = Some (n, st', ms) \<Longrightarrow> jh_step p st st'"

inductive jh_reach :: "job_params \<Rightarrow> job_handler \<Rightarrow> bool" for p where
  start: "job_handler_init True max_jobs timeout initial_job_handler = (0, st) \<Longrightarrow> jh_reach p st"
| step: "jh_reach p st \<Longrightarrow> jh_step p st st' \<Longrightarrow> jh_reach p st'"

lemma jh_step_inv: "jh_step p st st' \<Longrightarrow> jh_inv p st \<Longrightarrow> jh_inv p st'"
proof (induction rule: jh_step.induct)
  case (assign send now w st k st')
  then show ?case using assign_inv[of p st send now w] by simp
qed (blast intro: submit_inv complete_inv fail_inv check_timeouts_inv)+

lemma jh_reach_inv: "jh_reach p st \<Longrightarrow> jh_inv p st"
proof (induction rule: jh_reach.induct)
  case (start max_jobs timeout st)
  then show ?case by (intro init_inv[OF _ _ _ _ start]) (simp_all add: initial_job_handler_def)
qed (rule jh_step_inv)

subsection \<open>Finished jobs\<close>

definition finished :: "job_status set" where
  "finished = {JOB_STATUS_COMPLETED, JOB_STATUS_FAILED, JOB_STATUS_TIMEOUT}"

definition keeps_finished :: "job_handler \<Rightarrow> job_handler \<Rightarrow> bool" where
  "keeps_finished st st' \<longleftrightarrow> length (g_jobs st') = length (g_jobs st) \<and>
     (\<forall>i < length (g_jobs st). j_job_id (g_jobs st ! i) \<noteq> 0 \<and> j_status (g_jobs st ! i) \<in> finished \<longrightarrow>
        g_jobs st' ! i = g_jobs st ! i)"

lemma keeps_finished_update:
  assumes "g_jobs st' = (g_jobs st)[i := j]"
    and "i < length (g_jobs st) \<Longrightarrow> j_job_id (g_jobs st ! i) = 0 \<or> j_status (g_jobs st ! i) \<notin> finished"
  shows "keeps_finished st st'"
  unfolding keeps_finished_def
proof (intro conjI allI impI)
  fix n assume "n < length (g_jobs st)" and "j_job_id (g_jobs st ! n) \<noteq> 0 \<and> j_status (g_jobs st ! n) \<in> finished"
  then have "n \<noteq> i" using assms(2) by blast
  then show "g_jobs st' ! n = g_jobs st ! n" by (simp add: assms(1))
qed (simp add: assms(1))

lemma keeps_finished_refl: "g_jobs st' = g_jobs st \<Longrightarrow> keeps_finished st st'"
  by (simp add: keeps_finished_def)

lemma store_job_keeps:
  assumes "find_free_job_slot st \<ge> 0" and "store_job now c t d n (find_free_job_slot st) st = Some (k, st')"
  shows "keeps_finished st st'"
  using assms jobs.free_slot_SomeD(2)[OF assms(1)]
  by (intro keeps_finished_update[where i = "nat (find_free_job_slot st)"])
     (auto simp: store_job_def Let_def split: if_splits)

lemma submit_keeps: "job_handler_submit now ok c t d n st = Some (k, st') \<Longrightarrow> keeps_finished st st'"
  using store_job_keeps[of st]
  by (fastforce simp: job_handler_submit_def Let_def keeps_finished_refl split: if_splits option.splits)

text \<open>An assignment whose message cannot be sent restores the state it started from.\<close>

lemma rollback_undoes_pick:
  assumes inv: "jh_inv p st" and pick: "assign_pick now w st = (Some (k, m), st1)"
  shows "assign_rollback k st1 = st"
proof -
  obtain i where o: "oldest_pending st = Some i" and i: "i < length (g_jobs st)"
    and pen: "is_pending (g_jobs st ! i)" and f: "find_job_by_id st1 k = Some i"
    using pick_Some[OF inv pick] by metis
  have "job_ok p (g_jobs st ! i)" using inv i by (simp add: jh_inv_def)
  then have "(g_jobs st ! i)\<lparr>j_worker_socket := -1, j_status := JOB_STATUS_PENDING, j_start_time := 0\<rparr> = g_jobs st ! i"
    using pen by (simp add: job_ok_def is_pending_def)
  then show ?thesis
    using pick f i by (auto simp: assign_rollback_def assign_pick_def o Let_def)
qed

lemma assign_keeps:
  assumes inv: "jh_inv p st" and "job_handler_assign send now w st = (k, st')"
  shows "keeps_finished st st'"
proof (cases "assign_pick now w st")
  case (Pair r st1)
  show ?thesis
  proof (cases r)
    case None
    then show ?thesis using assms(2) Pair
      by (auto simp: job_handler_assign_def assign_pick_def Let_def intro: keeps_finished_refl split: option.splits)
  next
    case (Some km)
    then obtain k1 m where r: "r = Some (k1, m)" by (cases km) auto
    note pick = Pair[unfolded r]
    obtain i where i: "i < length (g_jobs st)" and pen: "is_pending (g_jobs st ! i)"
      and js: "g_jobs st1 = (g_jobs st)[i := (g_jobs st ! i)\<lparr>j_worker_socket := w, j_status := JOB_STATUS_ASSIGNED, j_start_time := now\<rparr>]"
      using pick_Some[OF inv pick] by metis
    have "keeps_finished st st1" by (rule keeps_finished_update[OF js]) (use pen in \<open>simp add: is_pending_def finished_def\<close>)
    moreover have "st' = st1 \<or> st' = st"
      using assms(2) rollback_undoes_pick[OF inv pick] by (auto simp: job_handler_assign_def pick split: if_splits)
    ultimately show ?thesis using keeps_finished_refl by auto
  qed
qed

lemma complete_keeps:
  assumes "jh_inv p st" and "job_handler_complete now ok k d n st = Some (r, st', ms)"
  shows "keeps_finished st st'"
  using assms
proof (cases rule: complete_cases)
  case (completed i d)
  then show ?thesis by (intro keeps_finished_update[where i = i]) (auto simp: finished_def)
qed (simp add: keeps_finished_refl)

lemma fail_keeps: "job_handler_fail p now k e st = (r, st', ms) \<Longrightarrow> keeps_finished st st'"
  by (auto simp: job_handler_fail_def finished_def intro: keeps_finished_refl keeps_finished_update
      split: if_splits option.splits prod.splits bool.splits)

lemma job_timeout_loop_None: "job_timeout_loop p now None acc js = Some (a, js') \<Longrightarrow> js' = js"
  by (induction js arbitrary: acc js') (auto split: if_splits)

lemma sweep_keeps:
  assumes "job_handler_check_timeouts p now st = Some (n, st', ms)"
  shows "keeps_finished st st'"
proof (cases "c_mul (g_job_timeout_seconds st) 1000")
  case None
  then show ?thesis using assms job_timeout_loop_None
    by (fastforce simp: job_handler_check_timeouts_def intro: keeps_finished_refl)
next
  case (Some t)
  then have "g_jobs st' = map (sweep_job p now t) (g_jobs st)"
    using assms job_timeout_loop_jobs[of p now t "\<lparr>sw_running = g_running_jobs st, sw_pending = g_pending_jobs st,
        sw_failed = g_failed_jobs st, sw_count = 0, sw_msgs = []\<rparr>" "g_jobs st"]
    by (auto simp: job_handler_check_timeouts_def)
  then show ?thesis by (auto simp: keeps_finished_def sweep_job_def overdue_def finished_def)
qed

lemma jh_step_keeps: "jh_step p st st' \<Longrightarrow> jh_inv p st \<Longrightarrow> keeps_finished st st'"
  by (induction rule: jh_step.induct) (blast intro: submit_keeps assign_keeps complete_keeps fail_keeps sweep_keeps)+

section \<open>Properties\<close>


definition two_tries :: job_params where
  "two_tries = \<lparr>MAX_JOB_RETRIES = 2, ERR_JOB_TIMEOUT = 7\<rparr>"

definition handler_of :: "Job list \<Rightarrow> int \<Rightarrow> int \<times> int \<times> int \<times> int \<Rightarrow> job_handler" where
  "handler_of js nxt counters = (case counters of (a, b, c, d) \<Rightarrow>
     \<lparr>g_jobs = js, g_max_jobs = int (length js), g_job_timeout_seconds = 10, g_next_job_id = nxt,
      g_pending_jobs = a, g_running_jobs = b, g_completed_jobs = c, g_failed_jobs = d\<rparr>)"

definition waiting_job :: Job where
  "waiting_job = new_job 100 1 4 1 (Some [5, 6]) 2"

definition running_job :: Job where
  "running_job = waiting_job\<lparr>j_worker_socket := 9, j_status := JOB_STATUS_ASSIGNED, j_start_time := 200\<rparr>"

definition done_job :: Job where
  "done_job = running_job\<lparr>j_result_data := Some [8], j_result_size := 1, j_status := JOB_STATUS_COMPLETED, j_end_time := 300\<rparr>"

abbreviation two_slots :: job_handler where
  "two_slots \<equiv> handler_of [empty_job, empty_job] 1 (0, 0, 0, 0)"
abbreviation one_job :: job_handler where
  "one_job \<equiv> handler_of [waiting_job, empty_job] 2 (1, 0, 0, 0)"
abbreviation one_running :: job_handler where
  "one_running \<equiv> handler_of [running_job, empty_job] 2 (0, 1, 0, 0)"
abbreviation one_done :: job_handler where
  "one_done \<equiv> handler_of [done_job, empty_job] 2 (0, 0, 1, 0)"

lemmas job_sample_defs = handler_of_def done_job_def running_job_def waiting_job_def new_job_def empty_job_def

lemma two_slots_reach: "jh_reach two_tries two_slots"
  by (rule jh_reach.start[of 2 10])
     (simp add: handler_of_def job_handler_init_def initial_job_handler_def numeral_eq_Suc)

lemma one_job_submit: "job_handler_submit 100 True 4 1 (Some [5, 6]) 2 two_slots = Some (1, one_job)"
  by (simp add: job_handler_submit_def find_free_job_slot_def copy_data_def mem_read_def store_job_def
      job_sample_defs in_c_int_def)

lemma one_job_reach: "jh_reach two_tries one_job"
  by (rule jh_reach.step[OF two_slots_reach jh_step.submit[OF one_job_submit]])

lemma one_running_assign: "job_handler_assign (\<lambda>_ _. 0) 200 9 one_job = (1, one_running)"
  by (simp add: job_handler_assign_def assign_pick_def oldest_pending_def is_pending_def job_sample_defs)

lemma one_running_reach: "jh_reach two_tries one_running"
  by (rule jh_reach.step[OF one_job_reach jh_step.assign[OF one_running_assign]])


lemma finished_frame:
  assumes "jh_inv p st" and "jh_step p st st'" and "find_job_by_id st k = Some i"
    and "j_status (g_jobs st ! i) \<in> finished"
  shows "find_job_by_id st' k = Some i \<and> g_jobs st' ! i = g_jobs st ! i"
proof -
  note l = jobs.lookup_SomeD[OF assms(3)]
  have k: "keeps_finished st st'" by (rule jh_step_keeps[OF assms(2,1)])
  then have same: "g_jobs st' ! i = g_jobs st ! i" and len: "length (g_jobs st') = length (g_jobs st)"
    using l assms(4) by (auto simp: keeps_finished_def)
  have "find_job_by_id st' k = Some i"
    using l same len by (simp add: jobs.lookup_iff[OF jh_inv_wf[OF jh_step_inv[OF assms(2,1)]]])
  with same show ?thesis by simp
qed

text \<open>A job that is completed, failed or timed out for good is final: no later call changes any field
  of its record, and its identifier keeps finding it.\<close>

theorem finished_jobs_final:
  assumes "jh_inv p st" and "(jh_step p)\<^sup>*\<^sup>* st st'" and "find_job_by_id st k = Some i"
    and "j_status (g_jobs st ! i) \<in> finished"
  shows "find_job_by_id st' k = Some i \<and> g_jobs st' ! i = g_jobs st ! i"
proof -
  have "jh_inv p st' \<and> find_job_by_id st' k = Some i \<and> g_jobs st' ! i = g_jobs st ! i"
    using assms(2)
  proof (induction rule: rtranclp_induct)
    case (step s s')
    with finished_frame[of p s s' k i] jh_step_inv[OF step.hyps(2)] assms(4) show ?case by metis
  qed (use assms in simp)
  then show ?thesis by simp
qed

lemma one_running_complete:
  "job_handler_complete 300 True 1 (Some [8]) 1 one_running = Some (0, one_done, [(4, JobCompleted 1)])"
  by (simp add: job_handler_complete_def find_job_by_id_def copy_data_def mem_read_def job_sample_defs)

lemma one_done_reach: "jh_reach two_tries one_done"
  by (rule jh_reach.step[OF one_running_reach jh_step.complete[OF one_running_complete]])

theorem finished_jobs_final_witness:
  "\<exists>st'. job_handler_submit 400 True 4 1 None 0 one_done = Some (2, st') \<and> g_jobs st' ! 0 = done_job"
proof -
  obtain st' where s: "job_handler_submit 400 True 4 1 None 0 one_done = Some (2, st')"
    by (simp add: job_handler_submit_def find_free_job_slot_def store_job_def in_c_int_def job_sample_defs)
  have "find_job_by_id one_done 1 = Some 0" and "j_status (g_jobs one_done ! 0) \<in> finished"
    by (simp_all add: find_job_by_id_def job_sample_defs finished_def)
  from finished_jobs_final[OF jh_reach_inv[OF one_done_reach] r_into_rtranclp[of "jh_step two_tries", OF jh_step.submit[OF s]] this] s show ?thesis
    by (auto simp: handler_of_def)
qed

text \<open>C9: Assignment picks, among the pending jobs, one submitted earliest, the first such slot on a tie.
  If the worker can be sent the job, the call returns its identifier, having sent the worker the
  job's identifier, type and input, and the job is assigned to that worker; if the send fails, the call returns -1 and
  the state is exactly as before; with no pending job it returns -1 and changes nothing.\<close>

theorem assign_serves_oldest:
  assumes "jh_inv p st"
  shows "case oldest_pending st of
     None \<Rightarrow> (\<forall>j \<in> set (g_jobs st). \<not> is_pending j) \<and> job_handler_assign send now w st = (-1, st)
   | Some i \<Rightarrow> is_first_min is_pending j_submit_time (g_jobs st) i \<and>
       (let j = g_jobs st ! i;
            msg = JobAssigned (j_job_id j) (j_job_type j) (j_input_data j) (j_input_size j)
        in if send w msg < 0 then job_handler_assign send now w st = (-1, st)
           else \<exists>st'. job_handler_assign send now w st = (j_job_id j, st') \<and>
                  g_jobs st' = (g_jobs st)[i := j\<lparr>j_worker_socket := w, j_status := JOB_STATUS_ASSIGNED, j_start_time := now\<rparr>])"
proof (cases "oldest_pending st")
  case None
  then have "\<forall>j \<in> set (g_jobs st). \<not> is_pending j" by (simp add: oldest_pending_def scan_min_None)
  then show ?thesis using None by (simp add: job_handler_assign_def assign_pick_def)
next
  case (Some i)
  let ?j = "g_jobs st ! i"
  obtain st1 where pick: "assign_pick now w st =
      (Some (j_job_id ?j, JobAssigned (j_job_id ?j) (j_job_type ?j) (j_input_data ?j) (j_input_size ?j)), st1)"
    and js: "g_jobs st1 = (g_jobs st)[i := ?j\<lparr>j_worker_socket := w, j_status := JOB_STATUS_ASSIGNED, j_start_time := now\<rparr>]"
    by (simp add: assign_pick_def Some Let_def)
  show ?thesis
    using oldest_pending_Some[OF Some] rollback_undoes_pick[OF assms pick] js
    by (simp add: Some job_handler_assign_def pick Let_def)
qed

theorem assign_serves_oldest_witness:
  "job_handler_assign (\<lambda>_ _. -1) 200 9 one_job = (-1, one_job)"
proof -
  have "oldest_pending one_job = Some 0"
    by (simp add: oldest_pending_def is_pending_def job_sample_defs)
  then show ?thesis
    using assign_serves_oldest[OF jh_reach_inv[OF one_job_reach], of "\<lambda>_ _. -1" 200 9] by (simp add: Let_def)
qed

text \<open>C8: The second half of a failed assignment is only right if the job is still assigned when it runs: it
  preserves the consistency of the statistics exactly then. If a timeout or a failure report has reset or
  ended the job in between, the job is made pending again and the statistics are wrong from then on.\<close>

theorem rollback_consistent_iff_still_assigned:
  assumes "jh_inv p st" and "find_job_by_id st k = Some i"
  shows "jh_inv p (assign_rollback k st) \<longleftrightarrow> j_status (g_jobs st ! i) = JOB_STATUS_ASSIGNED"
proof
  assume inv': "jh_inv p (assign_rollback k st)"
  note u = find_job_used[OF assms]
  let ?j = "(g_jobs st ! i)\<lparr>j_worker_socket := -1, j_status := JOB_STATUS_PENDING, j_start_time := 0\<rparr>"
  have "g_running_jobs st - 1 = jcount {JOB_STATUS_ASSIGNED} ((g_jobs st)[i := ?j])"
    using inv' assms(2) by (simp add: assign_rollback_def jh_inv_def)
  moreover have "g_running_jobs st = jcount {JOB_STATUS_ASSIGNED} (g_jobs st)" using assms(1) by (simp add: jh_inv_def)
  ultimately show "j_status (g_jobs st ! i) = JOB_STATUS_ASSIGNED"
    using u by (simp add: jcount_update split: if_splits)
qed (rule rollback_inv[OF assms])

theorem rollback_consistent_iff_still_assigned_witness:
  "\<exists>st1 st2 ms. assign_pick 200 9 one_job = (Some (1, JobAssigned 1 1 (Some [5, 6]) 2), st1) \<and>
     job_handler_check_timeouts two_tries 10201 st1 = Some (1, st2, ms) \<and>
     \<not> jh_inv two_tries (assign_rollback 1 st2) \<and> job_handler_get_stats (assign_rollback 1 st2) = (2, -1, 0, 0)"
proof -
  have pick: "assign_pick 200 9 one_job = (Some (1, JobAssigned 1 1 (Some [5, 6]) 2), one_running)"
    by (simp add: assign_pick_def oldest_pending_def is_pending_def job_sample_defs)
  let ?st2 = "handler_of [waiting_job\<lparr>j_retry_count := 1\<rparr>, empty_job] 2 (1, 0, 0, 0)"
  have sw: "job_handler_check_timeouts two_tries 10201 one_running = Some (1, ?st2, [])"
    by (simp add: job_handler_check_timeouts_def c_mul_def in_c_int_def retry_job_def two_tries_def job_sample_defs)
  have f: "find_job_by_id ?st2 1 = Some 0" by (simp add: find_job_by_id_def job_sample_defs)
  have inv: "jh_inv two_tries ?st2" by (rule check_timeouts_inv[OF jh_reach_inv[OF one_running_reach] sw])
  have "j_status (g_jobs ?st2 ! 0) \<noteq> JOB_STATUS_ASSIGNED" by (simp add: job_sample_defs)
  then have "\<not> jh_inv two_tries (assign_rollback 1 ?st2)"
    using rollback_consistent_iff_still_assigned[OF inv f] by simp
  moreover have "job_handler_get_stats (assign_rollback 1 ?st2) = (2, -1, 0, 0)"
    using f by (simp add: assign_rollback_def job_handler_get_stats_def handler_of_def)
  ultimately show ?thesis using pick sw by blast
qed

lemma free_slot_iff:
  assumes "jh_inv p st"
  shows "find_free_job_slot st \<ge> 0 \<longleftrightarrow> g_next_job_id st \<le> g_max_jobs st"
proof -
  have "find_free_job_slot st < 0 \<longleftrightarrow> jcount UNIV (g_jobs st) = int (length (g_jobs st))"
    unfolding jobs.free_slot_None by (simp add: jcount_def icount_full_iff)
  then show ?thesis
    using assms jcount_le[of UNIV "g_jobs st"] unfolding jh_inv_def by linarith
qed

lemma submit_full:
  assumes "jh_inv p st" and "\<not> g_next_job_id st \<le> g_max_jobs st" and "data = None \<longrightarrow> n = 0"
  shows "job_handler_submit now ok c t data n st = Some (-1, st)"
  using free_slot_iff[OF assms(1)] assms(2,3) by (auto simp: job_handler_submit_def)

lemma submit_success:
  assumes "jh_inv p st" and "g_max_jobs st < 2 ^ 31 - 1" and "g_next_job_id st \<le> g_max_jobs st"
    and "data = None \<longrightarrow> n = 0" and "\<forall>bs. data = Some bs \<longrightarrow> n \<le> length bs"
  shows "\<exists>st' i. job_handler_submit now True c t data n st = Some (g_next_job_id st, st') \<and> jh_inv p st' \<and>
           find_job_by_id st' (g_next_job_id st) = Some i \<and> i < length (g_jobs st) \<and>
           g_jobs st' = (g_jobs st)[i := new_job now (g_next_job_id st) c t (if n = 0 then None else map_option (take n) data) n] \<and>
           g_jobs st' ! i = new_job now (g_next_job_id st) c t (if n = 0 then None else map_option (take n) data) n \<and>
           (\<forall>k. k \<noteq> g_next_job_id st \<longrightarrow> find_job_by_id st' k = find_job_by_id st k)"
proof -
  let ?d = "if n = 0 then None else map_option (take n) data" and ?k = "g_next_job_id st"
  let ?slot = "find_free_job_slot st"
  let ?j = "new_job now ?k c t ?d n"
  let ?st' = "st\<lparr>g_jobs := (g_jobs st)[nat ?slot := ?j], g_next_job_id := ?k + 1, g_pending_jobs := g_pending_jobs st + 1\<rparr>"
  have slot: "?slot \<ge> 0" using free_slot_iff[OF assms(1)] assms(3) by simp
  have "0 < ?k" using jh_inv_wf[OF assms(1)] by (simp add: slots_wf_def)
  then have "in_c_int (?k + 1)" using assms(2,3) by (simp add: in_c_int_def)
  then have sub: "job_handler_submit now True c t data n st = Some (?k, ?st')"
    using slot assms(4,5)
    by (cases data) (auto simp: job_handler_submit_def copy_data_def mem_read_def store_job_def Let_def)
  note ins = jobs.lookup_insert[OF jh_inv_wf[OF assms(1)] slot, of ?j ?st']
  have new: "find_job_by_id ?st' ?k = Some (nat ?slot)" and old: "k \<noteq> ?k \<Longrightarrow> find_job_by_id ?st' k = find_job_by_id st k" for k
    using ins(2,3) by (simp_all add: new_job_def)
  have i: "nat ?slot < length (g_jobs st)" by (rule jobs.free_slot_SomeD(1)[OF slot])
  show ?thesis
    using sub submit_inv[OF assms(1) sub] new old i by (intro exI[of _ ?st'] exI[of _ "nat ?slot"]) simp
qed

lemma oldest_unique:
  assumes "i < length (g_jobs st)" and "is_pending (g_jobs st ! i)"
    and "\<And>j. j < length (g_jobs st) \<Longrightarrow> is_pending (g_jobs st ! j) \<Longrightarrow> j = i"
  shows "oldest_pending st = Some i"
proof (cases "oldest_pending st")
  case None
  then show ?thesis using assms(1,2) by (auto simp: oldest_pending_def scan_min_None)
next
  case (Some j)
  then show ?thesis using oldest_pending_Some[OF Some] assms(3)[of j] by (simp add: is_first_min_def)
qed

text \<open>Submission, when the caller's buffer is as long as announced and memory is available: as long as
  fewer jobs were submitted than there are slots, the call returns the next identifier, under which
  the new pending job with a copy of the input is found, and every other identifier finds what it
  found before; afterwards every submission is refused, because no operation frees a slot.\<close>

theorem job_submit_exact:
  assumes "jh_inv p st" and "g_max_jobs st < 2 ^ 31 - 1" and "data = None \<longrightarrow> n = 0"
    and "\<forall>bs. data = Some bs \<longrightarrow> n \<le> length bs"
  shows "if g_next_job_id st \<le> g_max_jobs st
    then \<exists>st' i. job_handler_submit now True c t data n st = Some (g_next_job_id st, st') \<and> jh_inv p st' \<and>
           find_job_by_id st' (g_next_job_id st) = Some i \<and>
           g_jobs st' ! i = new_job now (g_next_job_id st) c t (if n = 0 then None else map_option (take n) data) n \<and>
           (\<forall>k. k \<noteq> g_next_job_id st \<longrightarrow> find_job_by_id st' k = find_job_by_id st k)
    else job_handler_submit now True c t data n st = Some (-1, st)"
proof (cases "g_next_job_id st \<le> g_max_jobs st")
  case True
  from submit_success[OF assms(1,2) True assms(3,4), of now c t] True show ?thesis by auto
next
  case False
  then show ?thesis using submit_full[OF assms(1) False assms(3)] by simp
qed

theorem job_submit_exact_witness:
  "\<exists>st' i. job_handler_submit 400 True 4 1 (Some [1, 2, 3]) 2 one_done = Some (2, st') \<and>
     find_job_by_id st' 2 = Some i \<and> j_input_data (g_jobs st' ! i) = Some [1, 2]"
  using job_submit_exact[OF jh_reach_inv[OF one_done_reach], of "Some [1, 2, 3]" 2 400 4 1]
  by (auto simp: handler_of_def new_job_def)



text \<open>The retry policy: a failure report on an assigned job counts one more attempt. Below the limit the job
  is pending again with no worker and nobody is told; otherwise it is failed for good and its client is sent
  exactly one failure message. In either case no job is ever tried more often than the limit (once if the limit
  is less than one).\<close>

theorem job_retry_policy:
  assumes "jh_inv p st" and "find_job_by_id st k = Some i" and "j_status (g_jobs st ! i) = JOB_STATUS_ASSIGNED"
  shows "\<exists>st' ms. job_handler_fail p now k e st = (0, st', ms) \<and>
     j_retry_count (g_jobs st' ! i) = j_retry_count (g_jobs st ! i) + 1 \<and>
     j_retry_count (g_jobs st' ! i) \<le> max 1 (MAX_JOB_RETRIES p) \<and>
     (if j_retry_count (g_jobs st ! i) + 1 < MAX_JOB_RETRIES p
      then is_pending (g_jobs st' ! i) \<and> j_worker_socket (g_jobs st' ! i) = -1 \<and> ms = []
      else j_status (g_jobs st' ! i) = JOB_STATUS_FAILED \<and>
           ms = [(j_client_socket (g_jobs st ! i), JobFailed k e)])"
proof -
  note u = find_job_used[OF assms(1,2)]
  obtain again j where rj: "retry_job p now JOB_STATUS_FAILED (g_jobs st ! i) = (again, j)" by fastforce
  have "JOB_STATUS_FAILED \<in> terminal_failure" by (simp add: terminal_failure_def)
  note ro = retry_job_ok[OF rj u(4) assms(3) this]
  have k: "0 < k" using jobs.lookup_SomeD(3)[OF assms(2)] .
  have le: "j_retry_count j \<le> max 1 (MAX_JOB_RETRIES p)"
    using ro(1) by (auto simp: job_ok_def attempts_def split: if_splits)
  have sock: "again \<Longrightarrow> j_worker_socket j = -1" using rj by (auto simp: retry_job_def Let_def split: if_splits)
  show ?thesis
  proof (cases again)
    case True
    then show ?thesis using u ro le sock k assms(2,3) by (auto simp: job_handler_fail_def rj is_pending_def)
  next
    case False
    then show ?thesis using u ro le assms(2,3) by (auto simp: job_handler_fail_def rj)
  qed
qed

theorem job_retry_policy_witness:
  "\<exists>st' ms. job_handler_fail two_tries 300 1 77 one_running = (0, st', ms) \<and> is_pending (g_jobs st' ! 0) \<and> ms = []"
proof -
  have f: "find_job_by_id one_running 1 = Some 0" and a: "j_status (g_jobs one_running ! 0) = JOB_STATUS_ASSIGNED"
    and r: "j_retry_count (g_jobs one_running ! 0) = 0"
    by (simp_all add: find_job_by_id_def job_sample_defs)
  from job_retry_policy[OF jh_reach_inv[OF one_running_reach] f a, of 300 77] show ?thesis
    unfolding r by (auto simp: two_tries_def)
qed

text \<open>Shutting the handler down and initialising it again does not reset the statistics: they keep the
  counts of the jobs that were thrown away, so they are consistent afterwards exactly if every one of them was 0.\<close>

theorem reinit_keeps_old_statistics:
  assumes "0 < max_jobs"
  shows "\<exists>st'. job_handler_init True max_jobs timeout (fst (snd (job_handler_cleanup st))) = (0, st') \<and>
     job_handler_get_stats st' = job_handler_get_stats st \<and> (\<forall>j \<in> set (g_jobs st'). j_job_id j = 0) \<and>
     (jh_inv p st' \<longleftrightarrow> job_handler_get_stats st = (0, 0, 0, 0))"
proof -
  let ?st' = "st\<lparr>g_jobs := replicate (nat max_jobs) empty_job, g_max_jobs := max_jobs,
      g_job_timeout_seconds := timeout, g_next_job_id := 1\<rparr>"
  have "slots_wf j_job_id 1 (replicate (nat max_jobs) empty_job)"
    by (intro slots_wf_replicate) (simp_all add: empty_job_def)
  then have "jh_inv p ?st' \<longleftrightarrow> job_handler_get_stats st = (0, 0, 0, 0)"
    using assms by (auto simp: jh_inv_def job_handler_get_stats_def job_ok_empty)
  then show ?thesis using assms
    by (simp add: job_handler_init_def job_handler_cleanup_def job_handler_get_stats_def empty_job_def[THEN arg_cong, of j_job_id])
qed

theorem reinit_keeps_old_statistics_witness:
  "\<exists>st'. job_handler_init True 5 10 (fst (snd (job_handler_cleanup one_done))) = (0, st') \<and>
     job_handler_get_stats st' = (0, 0, 1, 0)"
  using reinit_keeps_old_statistics[of 5 10 one_done two_tries]
  by (auto simp: job_handler_get_stats_def handler_of_def)

end
