(* ===== verification/Worker_Manager.thy ===== *)
theory Worker_Manager
  imports Slot_Table
begin

text \<open>
  The worker manager (\<open>server/worker_manager.c\<close>): the static variables as a record, the public
  functions as functions on it. The status of a worker is a plain \<open>int\<close> in the code and here, since
  \<open>worker_manager_update_status\<close> stores whatever it is given. \<open>MAX_JOB_TYPES\<close>, which no header
  defines, is a parameter. Reading past the end of the caller's array of job types and overflow of the
  identifier counter are undefined behaviour (\<^const>\<open>None\<close>).

  The theory shows which worker is chosen for a job, which operations keep the statistics equal to the
  number of workers in each state and under which condition the others do, what a sweep for inactive
  workers does, and that job type 0 is treated as supported by almost every worker.
\<close>

section \<open>Data\<close>

definition WORKER_IDLE :: int where "WORKER_IDLE = 0"
definition WORKER_BUSY :: int where "WORKER_BUSY = 1"
definition WORKER_OFFLINE :: int where "WORKER_OFFLINE = 2"

record Worker =
  w_worker_id :: int
  w_socket :: int
  w_status :: int
  w_current_job_id :: int
  w_ip_address :: "byte list"
  w_port :: int
  w_last_heartbeat :: int
  w_job_types_supported :: "int list"
  w_job_count :: int
  w_failed_job_count :: int
  w_total_processing_time :: int

text \<open>A slot of zero bytes.\<close>

definition empty_worker :: "nat \<Rightarrow> Worker" where
  "empty_worker max_job_types =
     \<lparr>w_worker_id = 0, w_socket = 0, w_status = 0, w_current_job_id = 0, w_ip_address = replicate 16 0,
      w_port = 0, w_last_heartbeat = 0, w_job_types_supported = replicate max_job_types 0,
      w_job_count = 0, w_failed_job_count = 0, w_total_processing_time = 0\<rparr>"

record worker_manager =
  g_workers :: "Worker list"
  g_max_workers :: int
  g_next_worker_id :: int
  g_total_workers :: int
  g_idle_workers :: int
  g_busy_workers :: int

section \<open>Lookup, start and end\<close>

definition find_worker_by_id :: "worker_manager \<Rightarrow> int \<Rightarrow> nat option" where
  "find_worker_by_id st worker_id =
     (if worker_id \<le> 0 \<or> worker_id \<ge> g_next_worker_id st then None
      else find_slot (\<lambda>w. w_worker_id w = worker_id) (g_workers st))"

definition find_free_worker_slot :: "worker_manager \<Rightarrow> int" where
  "find_free_worker_slot st =
     (case find_slot (\<lambda>w. w_worker_id w = 0) (g_workers st) of None \<Rightarrow> -1 | Some i \<Rightarrow> int i)"

definition initial_worker_manager :: worker_manager where
  "initial_worker_manager = \<lparr>g_workers = [], g_max_workers = 0, g_next_worker_id = 1,
     g_total_workers = 0, g_idle_workers = 0, g_busy_workers = 0\<rparr>"

definition worker_manager_init :: "nat \<Rightarrow> bool \<Rightarrow> int \<Rightarrow> worker_manager \<Rightarrow> int \<times> worker_manager" where
  "worker_manager_init max_job_types calloc_ok max_workers st =
     (if max_workers \<le> 0 then (-1, st)
      else if \<not> calloc_ok then (-1, st\<lparr>g_workers := []\<rparr>)
      else (0, st\<lparr>g_workers := replicate (nat max_workers) (empty_worker max_job_types),
                 g_max_workers := max_workers, g_next_worker_id := 1\<rparr>))"

definition worker_manager_cleanup :: "worker_manager \<Rightarrow> int \<times> worker_manager" where
  "worker_manager_cleanup st = (0, st\<lparr>g_workers := [], g_max_workers := 0\<rparr>)"

section \<open>Registration\<close>

text \<open>\<open>strncpy\<close> of at most \<open>n\<close> bytes of a string (given without its terminator) over \<open>dst\<close>.\<close>

definition c_strncpy :: "byte list \<Rightarrow> byte list \<Rightarrow> nat \<Rightarrow> byte list" where
  "c_strncpy dst src n = take n (src @ replicate n 0) @ drop n dst"

definition registered_worker ::
  "nat \<Rightarrow> int \<Rightarrow> int \<Rightarrow> int \<Rightarrow> byte list \<Rightarrow> int \<Rightarrow> int list \<Rightarrow> Worker \<Rightarrow> Worker" where
  "registered_worker max_job_types now worker_id sock ip port types w =
     w\<lparr>w_worker_id := worker_id, w_socket := sock, w_status := WORKER_IDLE, w_current_job_id := -1,
       w_ip_address := c_strncpy (w_ip_address w) ip 15, w_port := port, w_last_heartbeat := now,
       w_job_types_supported := types @ replicate (max_job_types - length types) 0,
       w_job_count := 0, w_failed_job_count := 0, w_total_processing_time := 0\<rparr>"

definition worker_manager_register ::
  "nat \<Rightarrow> int \<Rightarrow> int \<Rightarrow> byte list option \<Rightarrow> int \<Rightarrow> int list option \<Rightarrow> int \<Rightarrow> worker_manager
   \<Rightarrow> (int \<times> worker_manager) option" where
  "worker_manager_register max_job_types now sock ip_address port job_types_supported num_job_types st =
     (case (ip_address, job_types_supported) of
        (Some ip, Some types) \<Rightarrow>
          if num_job_types \<le> 0 \<or> num_job_types > int max_job_types then Some (-1, st)
          else let slot = find_free_worker_slot st in
            if slot < 0 then Some (-1, st)
            else (case mem_read types (nat num_job_types) of
                    None \<Rightarrow> None
                  | Some ts \<Rightarrow>
                      let worker_id = g_next_worker_id st in
                      if \<not> in_c_int (worker_id + 1) then None
                      else Some (worker_id,
                             st\<lparr>g_workers := (g_workers st)[nat slot :=
                                   registered_worker max_job_types now worker_id sock ip port ts (g_workers st ! nat slot)],
                                g_next_worker_id := worker_id + 1,
                                g_total_workers := g_total_workers st + 1,
                                g_idle_workers := g_idle_workers st + 1\<rparr>))
      | _ \<Rightarrow> Some (-1, st))"

definition worker_manager_unregister :: "nat \<Rightarrow> int \<Rightarrow> worker_manager \<Rightarrow> int \<times> worker_manager" where
  "worker_manager_unregister max_job_types worker_id st =
     (case find_worker_by_id st worker_id of
        None \<Rightarrow> (-1, st)
      | Some i \<Rightarrow>
          let w = g_workers st ! i in
          (0, st\<lparr>g_total_workers := g_total_workers st - 1,
                 g_idle_workers := (if w_status w = WORKER_IDLE then g_idle_workers st - 1 else g_idle_workers st),
                 g_busy_workers := (if w_status w \<noteq> WORKER_IDLE \<and> w_status w = WORKER_BUSY
                                    then g_busy_workers st - 1 else g_busy_workers st),
                 g_workers := (g_workers st)[i := empty_worker max_job_types]\<rparr>))"

definition worker_manager_find_by_socket :: "int \<Rightarrow> worker_manager \<Rightarrow> int" where
  "worker_manager_find_by_socket sock st =
     (case find_slot (\<lambda>w. w_worker_id w > 0 \<and> w_socket w = sock) (g_workers st) of
        None \<Rightarrow> -1 | Some i \<Rightarrow> w_worker_id (g_workers st ! i))"

section \<open>Updates\<close>

definition worker_manager_update_status :: "int \<Rightarrow> int \<Rightarrow> worker_manager \<Rightarrow> int \<times> worker_manager" where
  "worker_manager_update_status worker_id status st =
     (case find_worker_by_id st worker_id of
        None \<Rightarrow> (-1, st)
      | Some i \<Rightarrow>
          let w = g_workers st ! i;
              st1 = (if w_status w \<noteq> status
                     then let st2 = (if w_status w = WORKER_IDLE then st\<lparr>g_idle_workers := g_idle_workers st - 1\<rparr>
                                     else if w_status w = WORKER_BUSY then st\<lparr>g_busy_workers := g_busy_workers st - 1\<rparr>
                                     else st)
                          in (if status = WORKER_IDLE then st2\<lparr>g_idle_workers := g_idle_workers st2 + 1\<rparr>
                              else if status = WORKER_BUSY then st2\<lparr>g_busy_workers := g_busy_workers st2 + 1\<rparr>
                              else st2)
                     else st)
          in (0, st1\<lparr>g_workers := (g_workers st1)[i := w\<lparr>w_status := status\<rparr>]\<rparr>))"

definition worker_manager_update_heartbeat :: "int \<Rightarrow> int \<Rightarrow> worker_manager \<Rightarrow> int \<times> worker_manager" where
  "worker_manager_update_heartbeat now worker_id st =
     (case find_worker_by_id st worker_id of
        None \<Rightarrow> (-1, st)
      | Some i \<Rightarrow> (0, st\<lparr>g_workers := (g_workers st)[i := (g_workers st ! i)\<lparr>w_last_heartbeat := now\<rparr>]\<rparr>))"

definition worker_manager_assign_job :: "int \<Rightarrow> int \<Rightarrow> worker_manager \<Rightarrow> int \<times> worker_manager" where
  "worker_manager_assign_job worker_id job_id st =
     (case find_worker_by_id st worker_id of
        None \<Rightarrow> (-1, st)
      | Some i \<Rightarrow>
          (0, st\<lparr>g_workers := (g_workers st)[i := (g_workers st ! i)\<lparr>w_status := WORKER_BUSY, w_current_job_id := job_id\<rparr>],
                 g_idle_workers := g_idle_workers st - 1, g_busy_workers := g_busy_workers st + 1\<rparr>))"

definition worker_manager_complete_job :: "int \<Rightarrow> int \<Rightarrow> worker_manager \<Rightarrow> int \<times> worker_manager" where
  "worker_manager_complete_job worker_id processing_time_ms st =
     (case find_worker_by_id st worker_id of
        None \<Rightarrow> (-1, st)
      | Some i \<Rightarrow>
          let w = g_workers st ! i in
          (0, st\<lparr>g_workers := (g_workers st)[i := w\<lparr>w_status := WORKER_IDLE, w_current_job_id := -1,
                     w_job_count := w_job_count w + 1,
                     w_total_processing_time := w_total_processing_time w + processing_time_ms\<rparr>],
                 g_busy_workers := g_busy_workers st - 1, g_idle_workers := g_idle_workers st + 1\<rparr>))"

definition worker_manager_fail_job :: "int \<Rightarrow> worker_manager \<Rightarrow> int \<times> worker_manager" where
  "worker_manager_fail_job worker_id st =
     (case find_worker_by_id st worker_id of
        None \<Rightarrow> (-1, st)
      | Some i \<Rightarrow>
          let w = g_workers st ! i in
          (0, st\<lparr>g_workers := (g_workers st)[i := w\<lparr>w_status := WORKER_IDLE, w_current_job_id := -1,
                     w_failed_job_count := w_failed_job_count w + 1\<rparr>],
                 g_busy_workers := g_busy_workers st - 1, g_idle_workers := g_idle_workers st + 1\<rparr>))"

section \<open>Choosing a worker\<close>

text \<open>The loop, with \<open>best_worker_id\<close> and \<open>min_job_count\<close> as in the code.\<close>

fun available_loop :: "int \<Rightarrow> int \<Rightarrow> int \<Rightarrow> Worker list \<Rightarrow> int" where
  "available_loop job_type best_worker_id min_job_count [] = best_worker_id"
| "available_loop job_type best_worker_id min_job_count (w # ws) =
     (if w_worker_id w = 0 \<or> w_status w \<noteq> WORKER_IDLE
      then available_loop job_type best_worker_id min_job_count ws
      else if find_slot (\<lambda>t. t = job_type) (w_job_types_supported w) = None
      then available_loop job_type best_worker_id min_job_count ws
      else if best_worker_id < 0 \<or> w_job_count w < min_job_count
      then available_loop job_type (w_worker_id w) (w_job_count w) ws
      else available_loop job_type best_worker_id min_job_count ws)"

definition worker_manager_find_available :: "int \<Rightarrow> worker_manager \<Rightarrow> int" where
  "worker_manager_find_available job_type st = available_loop job_type (-1) (-1) (g_workers st)"

section \<open>Inactive workers\<close>

record inactive_acc =
  ia_idle :: int
  ia_busy :: int
  ia_count :: int

fun inactive_loop :: "int \<Rightarrow> int \<Rightarrow> inactive_acc \<Rightarrow> Worker list \<Rightarrow> inactive_acc \<times> Worker list" where
  "inactive_loop now timeout_ms acc [] = (acc, [])"
| "inactive_loop now timeout_ms acc (w # ws) =
     (if w_worker_id w \<noteq> 0 \<and> now - w_last_heartbeat w > timeout_ms
      then let acc' = (if w_status w = WORKER_IDLE then acc\<lparr>ia_idle := ia_idle acc - 1, ia_count := ia_count acc + 1\<rparr>
                       else if w_status w = WORKER_BUSY then acc\<lparr>ia_busy := ia_busy acc - 1, ia_count := ia_count acc + 1\<rparr>
                       else acc\<lparr>ia_count := ia_count acc + 1\<rparr>);
               (a, ws') = inactive_loop now timeout_ms acc' ws
           in (a, w\<lparr>w_status := WORKER_OFFLINE\<rparr> # ws')
      else let (a, ws') = inactive_loop now timeout_ms acc ws in (a, w # ws'))"

definition worker_manager_check_inactive :: "int \<Rightarrow> int \<Rightarrow> worker_manager \<Rightarrow> (int \<times> worker_manager) option" where
  "worker_manager_check_inactive now timeout_seconds st =
     (case c_mul timeout_seconds 1000 of
        None \<Rightarrow> None
      | Some timeout_ms \<Rightarrow>
          (case inactive_loop now timeout_ms \<lparr>ia_idle = g_idle_workers st, ia_busy = g_busy_workers st, ia_count = 0\<rparr> (g_workers st) of
             (a, ws) \<Rightarrow> Some (ia_count a, st\<lparr>g_workers := ws, g_idle_workers := ia_idle a, g_busy_workers := ia_busy a\<rparr>)))"

definition worker_manager_get_stats :: "worker_manager \<Rightarrow> int \<times> int \<times> int" where
  "worker_manager_get_stats st = (g_total_workers st, g_idle_workers st, g_busy_workers st)"

section \<open>Invariant\<close>

interpretation workers: slot_table g_workers g_next_worker_id w_worker_id find_worker_by_id find_free_worker_slot
  by unfold_locales (simp_all add: find_worker_by_id_def find_free_worker_slot_def)

definition wcount :: "(int \<Rightarrow> bool) \<Rightarrow> Worker list \<Rightarrow> int" where
  "wcount P ws = icount (\<lambda>w. w_worker_id w \<noteq> 0 \<and> P (w_status w)) ws"

definition wm_inv :: "worker_manager \<Rightarrow> bool" where
  "wm_inv st \<longleftrightarrow> g_max_workers st = int (length (g_workers st)) \<and>
     slots_wf w_worker_id (g_next_worker_id st) (g_workers st) \<and>
     g_total_workers st = wcount (\<lambda>_. True) (g_workers st) \<and>
     g_idle_workers st = wcount (\<lambda>s. s = WORKER_IDLE) (g_workers st) \<and>
     g_busy_workers st = wcount (\<lambda>s. s = WORKER_BUSY) (g_workers st)"

lemmas status_defs = WORKER_IDLE_def WORKER_BUSY_def WORKER_OFFLINE_def

lemma wcount_update:
  "i < length ws \<Longrightarrow> wcount P (ws[i := w]) = wcount P ws -
     of_bool (w_worker_id (ws ! i) \<noteq> 0 \<and> P (w_status (ws ! i))) + of_bool (w_worker_id w \<noteq> 0 \<and> P (w_status w))"
  by (simp add: wcount_def count_simps)

lemma wcount_Cons: "wcount P (w # ws) = of_bool (w_worker_id w \<noteq> 0 \<and> P (w_status w)) + wcount P ws"
  by (simp add: wcount_def count_simps)

lemma wcount_Nil [simp]: "wcount P [] = 0"
  by (simp add: wcount_def count_simps)

lemma wcount_nonneg [simp]: "0 \<le> wcount P ws"
  by (simp add: wcount_def)

lemma wm_inv_wf: "wm_inv st \<Longrightarrow> slots_wf w_worker_id (g_next_worker_id st) (g_workers st)"
  unfolding wm_inv_def by blast

text \<open>
  The effect of rewriting one registered worker in place: the statistics are consistent afterwards
  exactly if they moved with its status.
\<close>

lemma wm_inv_update:
  assumes inv: "wm_inv st" and i: "i < length (g_workers st)" and used: "w_worker_id (g_workers st ! i) \<noteq> 0"
    and id: "w_worker_id w = w_worker_id (g_workers st ! i)"
    and st': "g_workers st' = (g_workers st)[i := w]" "g_max_workers st' = g_max_workers st"
      "g_next_worker_id st' = g_next_worker_id st" "g_total_workers st' = g_total_workers st"
  shows "wm_inv st' \<longleftrightarrow>
     g_idle_workers st' - g_idle_workers st = of_bool (w_status w = WORKER_IDLE) - of_bool (w_status (g_workers st ! i) = WORKER_IDLE) \<and>
     g_busy_workers st' - g_busy_workers st = of_bool (w_status w = WORKER_BUSY) - of_bool (w_status (g_workers st ! i) = WORKER_BUSY)"
proof -
  have "slots_wf w_worker_id (g_next_worker_id st) ((g_workers st)[i := w])"
    using slots_wf_update[OF wm_inv_wf[OF inv] i] id by simp
  then show ?thesis using inv used id by (auto simp: wm_inv_def st' wcount_update[OF i])
qed

lemma wm_init_inv:
  assumes "g_total_workers st = 0" "g_idle_workers st = 0" "g_busy_workers st = 0"
    and "worker_manager_init mt True n st = (0, st')"
  shows "wm_inv st'"
  using assms by (auto simp: worker_manager_init_def wm_inv_def wcount_def count_simps empty_worker_def
      intro!: slots_wf_replicate split: if_splits)

lemma register_inv:
  assumes "wm_inv st" and "worker_manager_register mt now sk ip pt ts n st = Some (k, st')"
  shows "wm_inv st'"
proof (cases "st' = st")
  case False
  let ?slot = "find_free_worker_slot st"
  obtain ip' ts' where slot: "?slot \<ge> 0" and st': "st' = st\<lparr>g_workers := (g_workers st)[nat ?slot :=
        registered_worker mt now (g_next_worker_id st) sk ip' pt ts' (g_workers st ! nat ?slot)],
        g_next_worker_id := g_next_worker_id st + 1, g_total_workers := g_total_workers st + 1,
        g_idle_workers := g_idle_workers st + 1\<rparr>"
    using assms(2) False by (auto simp: worker_manager_register_def Let_def split: option.splits if_splits)
  note f = workers.free_slot_SomeD[OF slot]
  let ?w = "registered_worker mt now (g_next_worker_id st) sk ip' pt ts' (g_workers st ! nat ?slot)"
  have w: "w_worker_id ?w = g_next_worker_id st" "w_status ?w = WORKER_IDLE" by (simp_all add: registered_worker_def)
  have "slots_wf w_worker_id (g_next_worker_id st + 1) ((g_workers st)[nat ?slot := ?w])"
    by (rule slots_wf_insert[OF wm_inv_wf[OF assms(1)] f(1) w(1)])
  moreover have "g_next_worker_id st \<noteq> 0" using wm_inv_wf[OF assms(1)] by (simp add: slots_wf_def)
  ultimately show ?thesis
    using assms(1) f w by (simp add: wm_inv_def st' wcount_update status_defs)
qed (use assms in simp)

lemma unregister_inv:
  assumes "wm_inv st"
  shows "wm_inv (snd (worker_manager_unregister mt k st))"
proof (cases "find_worker_by_id st k")
  case (Some i)
  note l = workers.lookup_SomeD[OF Some]
  have "slots_wf w_worker_id (g_next_worker_id st) ((g_workers st)[i := empty_worker mt])"
    using slots_wf_update[OF wm_inv_wf[OF assms] l(1)] by (simp add: empty_worker_def)
  then show ?thesis
    using assms l by (auto simp: worker_manager_unregister_def Some Let_def wm_inv_def wcount_update empty_worker_def status_defs)
qed (use assms in \<open>simp add: worker_manager_unregister_def\<close>)

lemma update_status_wm_inv:
  assumes "wm_inv st"
  shows "wm_inv (snd (worker_manager_update_status k s st))"
proof (cases "find_worker_by_id st k")
  case (Some i)
  note l = workers.lookup_SomeD[OF Some]
  show ?thesis
    using l wm_inv_update[OF assms l(1), of "(g_workers st ! i)\<lparr>w_status := s\<rparr>" "snd (worker_manager_update_status k s st)"]
    by (auto simp: worker_manager_update_status_def Some Let_def status_defs)
qed (use assms in \<open>simp add: worker_manager_update_status_def\<close>)

lemma heartbeat_wm_inv:
  assumes "wm_inv st"
  shows "wm_inv (snd (worker_manager_update_heartbeat now k st))"
proof (cases "find_worker_by_id st k")
  case (Some i)
  note l = workers.lookup_SomeD[OF Some]
  show ?thesis
    using l wm_inv_update[OF assms l(1), of "(g_workers st ! i)\<lparr>w_last_heartbeat := now\<rparr>" "snd (worker_manager_update_heartbeat now k st)"]
    by (simp add: worker_manager_update_heartbeat_def Some)
qed (use assms in \<open>simp add: worker_manager_update_heartbeat_def\<close>)

text \<open>The three job updates do not look at the status they replace.\<close>

lemma wm_assign_inv_iff:
  assumes "wm_inv st" and "find_worker_by_id st k = Some i"
  shows "wm_inv (snd (worker_manager_assign_job k job st)) \<longleftrightarrow> w_status (g_workers st ! i) = WORKER_IDLE"
proof -
  note l = workers.lookup_SomeD[OF assms(2)]
  show ?thesis
    using l wm_inv_update[OF assms(1) l(1), of "(g_workers st ! i)\<lparr>w_status := WORKER_BUSY, w_current_job_id := job\<rparr>"
        "snd (worker_manager_assign_job k job st)"]
    by (auto simp: worker_manager_assign_job_def assms(2) status_defs)
qed

lemma wm_complete_inv_iff:
  assumes "wm_inv st" and "find_worker_by_id st k = Some i"
  shows "wm_inv (snd (worker_manager_complete_job k ms st)) \<longleftrightarrow> w_status (g_workers st ! i) = WORKER_BUSY"
proof -
  note l = workers.lookup_SomeD[OF assms(2)]
  let ?w = "g_workers st ! i"
  show ?thesis
    using l wm_inv_update[OF assms(1) l(1), of "?w\<lparr>w_status := WORKER_IDLE, w_current_job_id := -1,
          w_job_count := w_job_count ?w + 1, w_total_processing_time := w_total_processing_time ?w + ms\<rparr>"
        "snd (worker_manager_complete_job k ms st)"]
    by (auto simp: worker_manager_complete_job_def assms(2) status_defs Let_def)
qed

lemma wm_fail_inv_iff:
  assumes "wm_inv st" and "find_worker_by_id st k = Some i"
  shows "wm_inv (snd (worker_manager_fail_job k st)) \<longleftrightarrow> w_status (g_workers st ! i) = WORKER_BUSY"
proof -
  note l = workers.lookup_SomeD[OF assms(2)]
  let ?w = "g_workers st ! i"
  show ?thesis
    using l wm_inv_update[OF assms(1) l(1), of "?w\<lparr>w_status := WORKER_IDLE, w_current_job_id := -1,
          w_failed_job_count := w_failed_job_count ?w + 1\<rparr>" "snd (worker_manager_fail_job k st)"]
    by (auto simp: worker_manager_fail_job_def assms(2) status_defs Let_def)
qed

subsection \<open>The inactivity sweep\<close>

definition inactive :: "int \<Rightarrow> int \<Rightarrow> Worker \<Rightarrow> bool" where
  "inactive now ms w \<longleftrightarrow> w_worker_id w \<noteq> 0 \<and> now - w_last_heartbeat w > ms"

definition take_offline :: "int \<Rightarrow> int \<Rightarrow> Worker \<Rightarrow> Worker" where
  "take_offline now ms w = (if inactive now ms w then w\<lparr>w_status := WORKER_OFFLINE\<rparr> else w)"

lemma inactive_loop_eq:
  "\<exists>a. inactive_loop now ms acc ws = (a, map (take_offline now ms) ws) \<and>
     ia_count a = ia_count acc + icount (inactive now ms) ws \<and>
     ia_idle a - wcount (\<lambda>s. s = WORKER_IDLE) (map (take_offline now ms) ws) = ia_idle acc - wcount (\<lambda>s. s = WORKER_IDLE) ws \<and>
     ia_busy a - wcount (\<lambda>s. s = WORKER_BUSY) (map (take_offline now ms) ws) = ia_busy acc - wcount (\<lambda>s. s = WORKER_BUSY) ws"
proof (induction ws arbitrary: acc)
  case (Cons w ws)
  show ?case
  proof (cases "inactive now ms w")
    case True
    let ?acc = "if w_status w = WORKER_IDLE then acc\<lparr>ia_idle := ia_idle acc - 1, ia_count := ia_count acc + 1\<rparr>
                else if w_status w = WORKER_BUSY then acc\<lparr>ia_busy := ia_busy acc - 1, ia_count := ia_count acc + 1\<rparr>
                else acc\<lparr>ia_count := ia_count acc + 1\<rparr>"
    obtain a where a: "inactive_loop now ms ?acc ws = (a, map (take_offline now ms) ws)"
      and eqs: "ia_count a = ia_count ?acc + icount (inactive now ms) ws"
       "ia_idle a - wcount (\<lambda>s. s = WORKER_IDLE) (map (take_offline now ms) ws) = ia_idle ?acc - wcount (\<lambda>s. s = WORKER_IDLE) ws"
       "ia_busy a - wcount (\<lambda>s. s = WORKER_BUSY) (map (take_offline now ms) ws) = ia_busy ?acc - wcount (\<lambda>s. s = WORKER_BUSY) ws"
      using Cons.IH[of ?acc] by blast
    have "inactive_loop now ms acc (w # ws) = (a, map (take_offline now ms) (w # ws))"
      using True a by (simp add: inactive_def take_offline_def Let_def)
    moreover have "w_worker_id w \<noteq> 0" using True by (simp add: inactive_def)
    then have "wcount P (map (take_offline now ms) (w # ws)) = of_bool (P 2) + wcount P (map (take_offline now ms) ws)"
      and "wcount P (w # ws) = of_bool (P (w_status w)) + wcount P ws" for P
      using True by (simp_all add: wcount_Cons take_offline_def status_defs)
    ultimately show ?thesis
      using True eqs by (auto simp: icount_Cons status_defs simp del: inactive_loop.simps split: if_splits)
  next
    case False
    then show ?thesis
      using Cons.IH[of acc] by (auto simp: inactive_def take_offline_def wcount_Cons count_simps)
  qed
qed (simp add: count_simps)

lemma wcount_True_offline: "wcount (\<lambda>_. True) (map (take_offline now ms) ws) = wcount (\<lambda>_. True) ws"
  by (induction ws) (simp_all add: wcount_Cons take_offline_def)

lemma check_inactive_eq:
  assumes inv: "wm_inv st" and "c_mul timeout_seconds 1000 = Some ms"
  shows "\<exists>st'. worker_manager_check_inactive now timeout_seconds st = Some (icount (inactive now ms) (g_workers st), st') \<and>
     g_workers st' = map (take_offline now ms) (g_workers st) \<and> wm_inv st'"
proof -
  let ?acc = "\<lparr>ia_idle = g_idle_workers st, ia_busy = g_busy_workers st, ia_count = 0\<rparr>"
  obtain a where a: "inactive_loop now ms ?acc (g_workers st) = (a, map (take_offline now ms) (g_workers st))"
    and eqs: "ia_count a = icount (inactive now ms) (g_workers st)"
       "ia_idle a = wcount (\<lambda>s. s = WORKER_IDLE) (map (take_offline now ms) (g_workers st))"
       "ia_busy a = wcount (\<lambda>s. s = WORKER_BUSY) (map (take_offline now ms) (g_workers st))"
    using inactive_loop_eq[of now ms ?acc "g_workers st"] inv by (auto simp: wm_inv_def)
  have "slots_wf w_worker_id (g_next_worker_id st) (map (take_offline now ms) (g_workers st))"
    by (rule slots_wf_map[OF wm_inv_wf[OF inv]]) (simp add: take_offline_def)
  then show ?thesis
    using inv a eqs by (simp add: worker_manager_check_inactive_def assms(2) wm_inv_def wcount_True_offline)
qed

subsection \<open>The choice loop\<close>

definition available :: "int \<Rightarrow> Worker \<Rightarrow> bool" where
  "available t w \<longleftrightarrow> w_worker_id w \<noteq> 0 \<and> w_status w = WORKER_IDLE \<and> t \<in> set (w_job_types_supported w)"

lemma available_loop_scan:
  assumes "\<forall>w \<in> set (ys @ xs). 0 \<le> w_worker_id w" and "\<forall>i v. best = Some (i, v) \<longrightarrow> i < length ys \<and> w_worker_id (ys ! i) \<noteq> 0"
  shows "available_loop t (case best of None \<Rightarrow> -1 | Some (i, v) \<Rightarrow> w_worker_id (ys ! i)) (case best of None \<Rightarrow> m | Some (i, v) \<Rightarrow> v) xs =
     (case scan_min (available t) w_job_count (length ys) best xs of None \<Rightarrow> -1 | Some (i, v) \<Rightarrow> w_worker_id ((ys @ xs) ! i))"
  using assms
proof (induction xs arbitrary: ys best m)
  case Nil
  then show ?case by (auto split: option.split)
next
  case (Cons x xs)
  let ?take = "available t x \<and> (case best of None \<Rightarrow> True | Some (_, v) \<Rightarrow> w_job_count x < v)"
  let ?best = "if ?take then Some (length ys, w_job_count x) else best"
  have b: "\<forall>i v. ?best = Some (i, v) \<longrightarrow> i < length (ys @ [x]) \<and> w_worker_id ((ys @ [x]) ! i) \<noteq> 0"
    using Cons.prems(2) by (auto simp: available_def nth_append less_SucI)
  have supp: "find_slot (\<lambda>s. s = t) ts = None \<longleftrightarrow> t \<notin> set ts" for ts by (auto simp: find_slot_None_iff)
  have neg: "best = Some (i, v) \<Longrightarrow> \<not> w_worker_id (ys ! i) < 0" for i v
    using Cons.prems by (force simp: in_set_conv_nth)
  have step: "available_loop t (case best of None \<Rightarrow> -1 | Some (i, v) \<Rightarrow> w_worker_id (ys ! i)) (case best of None \<Rightarrow> m | Some (i, v) \<Rightarrow> v) (x # xs) =
      available_loop t (case ?best of None \<Rightarrow> -1 | Some (i, v) \<Rightarrow> w_worker_id ((ys @ [x]) ! i)) (case ?best of None \<Rightarrow> m | Some (i, v) \<Rightarrow> v) xs"
    using Cons.prems(2) neg by (cases best) (auto simp: available_def supp nth_append split: prod.split)
  show ?case
    unfolding step scan_min.simps
    using Cons.IH[of "ys @ [x]" ?best m] Cons.prems(1) b
    unfolding append.assoc append.simps length_append_singleton by blast
qed

lemma find_available_scan:
  assumes "wm_inv st"
  shows "worker_manager_find_available t st =
     (case scan_min (available t) w_job_count 0 None (g_workers st) of None \<Rightarrow> -1 | Some (i, v) \<Rightarrow> w_worker_id (g_workers st ! i))"
proof -
  have "\<forall>w \<in> set (g_workers st). 0 \<le> w_worker_id w" using wm_inv_wf[OF assms] by (simp add: slots_wf_def)
  then show ?thesis
    using available_loop_scan[of "[]" "g_workers st" None t "-1"] unfolding append_Nil
    by (simp add: worker_manager_find_available_def)
qed

section \<open>Properties\<close>

definition sample_wm_worker :: "int \<Rightarrow> int \<Rightarrow> int \<Rightarrow> Worker" where
  "sample_wm_worker k status count = registered_worker 3 100 k (k + 10) [49] 80 [7] (empty_worker 3)
     \<lparr>w_status := status, w_job_count := count\<rparr>"

definition sample_wm :: worker_manager where
  "sample_wm = \<lparr>g_workers = [sample_wm_worker 1 0 5, sample_wm_worker 2 1 0, empty_worker 3, sample_wm_worker 3 0 2],
     g_max_workers = 4, g_next_worker_id = 4, g_total_workers = 3, g_idle_workers = 2, g_busy_workers = 1\<rparr>"

lemmas wm_sample_defs = sample_wm_def sample_wm_worker_def registered_worker_def empty_worker_def status_defs

lemma all_less_numeral_4: "(\<forall>i < (4 :: nat). P i) \<longleftrightarrow> P 0 \<and> P 1 \<and> P 2 \<and> P 3"
  by (auto simp: numeral_eq_Suc less_Suc_eq)

lemma sample_wm_inv: "wm_inv sample_wm"
  by (simp add: wm_inv_def slots_wf_def wcount_Cons wm_sample_defs all_less_numeral_4[unfolded numeral_eq_Suc] numeral_eq_Suc less_Suc_eq)

lemma scan_choice:
  assumes "wm_inv st" and "\<exists>w \<in> set (g_workers st). available t w"
  shows "\<exists>i. is_first_min (available t) w_job_count (g_workers st) i \<and>
           worker_manager_find_available t st = w_worker_id (g_workers st ! i) \<and>
           find_worker_by_id st (worker_manager_find_available t st) = Some i"
proof -
  obtain i v where s: "scan_min (available t) w_job_count 0 None (g_workers st) = Some (i, v)"
    using assms(2) scan_min_None[of "available t" w_job_count "g_workers st"] by fastforce
  then have m: "is_first_min (available t) w_job_count (g_workers st) i" using scan_min_Some by blast
  then have i: "i < length (g_workers st)" and a: "available t (g_workers st ! i)" by (simp_all add: is_first_min_def)
  have "0 < w_worker_id (g_workers st ! i)"
    using a slots_wf_nth[OF wm_inv_wf[OF assms(1)] i] by (simp add: available_def)
  then have "find_worker_by_id st (w_worker_id (g_workers st ! i)) = Some i"
    using i by (simp add: workers.lookup_iff[OF wm_inv_wf[OF assms(1)]])
  moreover have "worker_manager_find_available t st = w_worker_id (g_workers st ! i)"
    using find_available_scan[OF assms(1), of t] s by simp
  ultimately show ?thesis using m by auto
qed

text \<open>The worker chosen for a job type is an idle registered worker that lists the type, with the fewest
  completed jobs among all such workers, the first slot on a tie; -1 is returned exactly if there is none.\<close>

theorem find_available_least_loaded:
  assumes "wm_inv st"
  shows "if \<exists>w \<in> set (g_workers st). available t w
    then \<exists>i. is_first_min (available t) w_job_count (g_workers st) i \<and>
             worker_manager_find_available t st = w_worker_id (g_workers st ! i) \<and>
             find_worker_by_id st (worker_manager_find_available t st) = Some i
    else worker_manager_find_available t st = -1"
proof (cases "\<exists>w \<in> set (g_workers st). available t w")
  case True
  then show ?thesis using scan_choice[OF assms True] by (simp only: if_True)
next
  case False
  then have "scan_min (available t) w_job_count 0 None (g_workers st) = None" by (simp add: scan_min_None)
  then have "worker_manager_find_available t st = -1" using find_available_scan[OF assms, of t] by simp
  then show ?thesis using False by (simp only: if_False)
qed

theorem find_available_least_loaded_witness:
  "worker_manager_find_available 7 sample_wm = 3 \<and> (\<exists>i. find_worker_by_id sample_wm 3 = Some i)"
proof -
  have "worker_manager_find_available 7 sample_wm = 3"
    by (simp add: worker_manager_find_available_def wm_sample_defs)
  moreover have "\<exists>w \<in> set (g_workers sample_wm). available 7 w" by (simp add: available_def wm_sample_defs)
  ultimately show ?thesis using find_available_least_loaded[OF sample_wm_inv, of 7] by auto
qed

text \<open>Handing a job to a worker keeps the statistics consistent exactly if the worker was idle, and recording
  the completion or failure of its job exactly if it was busy. The functions check neither, so a worker that was marked
  offline while it worked corrupts the statistics when its result arrives.\<close>

theorem job_updates_consistent_iff:
  assumes "wm_inv st" and "find_worker_by_id st k = Some i"
  shows "(wm_inv (snd (worker_manager_assign_job k job st)) \<longleftrightarrow> w_status (g_workers st ! i) = WORKER_IDLE) \<and>
         (wm_inv (snd (worker_manager_complete_job k ms st)) \<longleftrightarrow> w_status (g_workers st ! i) = WORKER_BUSY) \<and>
         (wm_inv (snd (worker_manager_fail_job k st)) \<longleftrightarrow> w_status (g_workers st ! i) = WORKER_BUSY)"
  using wm_assign_inv_iff[OF assms] wm_complete_inv_iff[OF assms] wm_fail_inv_iff[OF assms] by blast

theorem job_updates_consistent_iff_witness:
  "\<exists>st'. worker_manager_check_inactive 50000 10 sample_wm = Some (3, st') \<and> worker_manager_get_stats st' = (3, 0, 0) \<and>
     \<not> wm_inv (snd (worker_manager_complete_job 2 5 st')) \<and>
     worker_manager_get_stats (snd (worker_manager_complete_job 2 5 st')) = (3, 1, -1)"
proof -
  have m: "c_mul 10 1000 = Some 10000" by (simp add: c_mul_def in_c_int_def)
  let ?st' = "sample_wm\<lparr>g_workers := map (\<lambda>w. if w_worker_id w = 0 then w else w\<lparr>w_status := WORKER_OFFLINE\<rparr>) (g_workers sample_wm),
      g_idle_workers := 0, g_busy_workers := 0\<rparr>"
  have c: "worker_manager_check_inactive 50000 10 sample_wm = Some (3, ?st')"
    by (simp add: worker_manager_check_inactive_def m wm_sample_defs)
  then have "wm_inv ?st'" using check_inactive_eq[OF sample_wm_inv m, of 50000] by auto
  moreover have f: "find_worker_by_id ?st' 2 = Some 1" by (simp add: find_worker_by_id_def wm_sample_defs)
  ultimately have "\<not> wm_inv (snd (worker_manager_complete_job 2 5 ?st'))"
    using job_updates_consistent_iff[of ?st' 2 1 0 5] by (simp add: wm_sample_defs)
  moreover have "worker_manager_get_stats (snd (worker_manager_complete_job 2 5 ?st')) = (3, 1, -1)"
    by (simp add: worker_manager_complete_job_def f worker_manager_get_stats_def Let_def) (simp add: sample_wm_def)
  moreover have "worker_manager_get_stats ?st' = (3, 0, 0)" by (simp add: worker_manager_get_stats_def sample_wm_def)
  ultimately show ?thesis using c by blast
qed

text \<open>The inactivity sweep (with a timeout that does not overflow) marks exactly the registered workers
  whose last heartbeat is older than the timeout as offline, keeps the statistics consistent and returns the number of
  workers it found; workers it has already marked are found and counted again by every later sweep.\<close>

theorem inactivity_sweep_exact:
  assumes "wm_inv st" and "in_c_int (timeout_seconds * 1000)"
  shows "\<exists>st' n. worker_manager_check_inactive now timeout_seconds st = Some (n, st') \<and> wm_inv st' \<and>
     n = icount (inactive now (timeout_seconds * 1000)) (g_workers st) \<and>
     g_workers st' = map (take_offline now (timeout_seconds * 1000)) (g_workers st) \<and>
     worker_manager_check_inactive now timeout_seconds st' = Some (n, st')"
proof -
  let ?ms = "timeout_seconds * 1000"
  have m: "c_mul timeout_seconds 1000 = Some ?ms" using assms(2) by (simp add: c_mul_def)
  obtain st' where c: "worker_manager_check_inactive now timeout_seconds st = Some (icount (inactive now ?ms) (g_workers st), st')"
    and ws: "g_workers st' = map (take_offline now ?ms) (g_workers st)" and inv': "wm_inv st'"
    using check_inactive_eq[OF assms(1) m, of now] by blast
  obtain st'' where c': "worker_manager_check_inactive now timeout_seconds st' = Some (icount (inactive now ?ms) (g_workers st'), st'')"
    and ws': "g_workers st'' = map (take_offline now ?ms) (g_workers st')" and inv'': "wm_inv st''"
    using check_inactive_eq[OF inv' m, of now] by blast
  have twice: "take_offline now ?ms (take_offline now ?ms w) = take_offline now ?ms w"
    and still: "inactive now ?ms (take_offline now ?ms w) = inactive now ?ms w" for w
    by (simp_all add: take_offline_def inactive_def)
  have "g_workers st'' = g_workers st'" by (simp add: ws' ws twice)
  moreover have "g_max_workers st'' = g_max_workers st' \<and> g_next_worker_id st'' = g_next_worker_id st'"
    using c' by (auto simp: worker_manager_check_inactive_def split: option.splits prod.splits)
  ultimately have "st'' = st'" using inv' inv'' by (simp add: wm_inv_def)
  moreover have "icount (inactive now ?ms) (g_workers st') = icount (inactive now ?ms) (g_workers st)"
    unfolding ws by (rule icount_map_cong) (simp add: still)
  ultimately show ?thesis using c c' ws inv' by auto
qed

theorem inactivity_sweep_exact_witness:
  "\<exists>st'. worker_manager_check_inactive 50000 10 sample_wm = Some (3, st') \<and>
         worker_manager_check_inactive 50000 10 st' = Some (3, st')"
proof -
  have "icount (inactive 50000 (10 * 1000)) (g_workers sample_wm) = 3"
    by (simp add: count_simps inactive_def wm_sample_defs)
  then show ?thesis
    using inactivity_sweep_exact[OF sample_wm_inv, of 10 50000] by (auto simp: in_c_int_def)
qed

text \<open>Every worker registered with fewer job types than the table has room for counts as supporting job
  type 0, whatever it announced: the unused entries are zero and the search looks at all of them.\<close>

theorem job_type_zero_always_supported:
  assumes "wm_inv st" and "worker_manager_register mt now sk (Some ip) pt (Some ts) n st = Some (k, st')"
    and "0 < k" and "n < int mt"
  shows "\<exists>w \<in> set (g_workers st'). w_worker_id w = k \<and> available 0 w \<and> worker_manager_find_available 0 st' > 0"
proof -
  let ?slot = "find_free_worker_slot st"
  have k: "k \<noteq> -1" using assms(3) by simp
  have n: "0 < n" and slot: "0 \<le> ?slot" and kn: "k = g_next_worker_id st" and ln: "nat n \<le> length ts"
    and ws: "g_workers st' = (g_workers st)[nat ?slot := registered_worker mt now k sk ip pt (take (nat n) ts) (g_workers st ! nat ?slot)]"
    using assms(2) k by (auto simp: worker_manager_register_def Let_def mem_read_def split: if_splits)
  let ?w = "registered_worker mt now k sk ip pt (take (nat n) ts) (g_workers st ! nat ?slot)"
  have i: "nat ?slot < length (g_workers st)" by (rule workers.free_slot_SomeD(1)[OF slot])
  have "?w \<in> set (g_workers st')" unfolding ws using i by (rule set_update_memI)
  moreover have a: "available 0 ?w"
    using assms(3,4) n ln by (auto simp: available_def registered_worker_def)
  moreover have "worker_manager_find_available 0 st' > 0"
  proof -
    have inv': "wm_inv st'" by (rule register_inv[OF assms(1,2)])
    obtain j where "find_worker_by_id st' (worker_manager_find_available 0 st') = Some j"
      using scan_choice[OF inv', of 0] calculation by blast
    then show ?thesis using workers.lookup_SomeD(3) by blast
  qed
  ultimately show ?thesis by (intro bexI[of _ ?w]) (simp_all add: registered_worker_def)
qed

theorem job_type_zero_always_supported_witness:
  "\<exists>st'. worker_manager_register 3 5 20 (Some [49]) 90 (Some [8]) 1 sample_wm = Some (4, st') \<and>
     worker_manager_find_available 0 st' > 0"
proof -
  obtain st' where r: "worker_manager_register 3 5 20 (Some [49]) 90 (Some [8]) 1 sample_wm = Some (4, st')"
    by (simp add: worker_manager_register_def find_free_worker_slot_def mem_read_def in_c_int_def wm_sample_defs)
  from job_type_zero_always_supported[OF sample_wm_inv r] r show ?thesis by auto
qed

end
