(* ===== verification/Job_Server.thy ===== *)
theory Job_Server
  imports Job_Handler Worker_Manager Net_Protocol
begin

text \<open>
  The job server (\<open>server/server.c\<close>) on top of the job handler and the worker manager: start and stop,
  the two message handlers, and the decision each connection loop takes after a receive. The header
  with the message layout of this server is empty in the repository, so a message is represented by
  the fields the handlers read or write, error codes are symbolic, \<open>send\<close> stands for what
  \<open>send_message\<close> returns, and the decoding of a received \<open>Message\<close> is a parameter of the connection
  loops. The result of a handler is its return value, the new state and the messages it tried to send in
  order; \<^const>\<open>None\<close> is undefined behaviour.

  The theory shows a job's way through the server from submission to the client's copy of the result,
  under which condition each message keeps both statistics consistent, that a start that
  fails leaves nothing behind, and that the connection loops treat every received message as a disconnect.
\<close>

section \<open>State and messages\<close>

record ServerConfig =
  cfg_ip_set :: bool
  cfg_max_workers :: int
  cfg_max_jobs :: int
  cfg_job_timeout_seconds :: int

record server =
  sv_is_running :: bool
  sv_server_socket :: int
  sv_jobs :: job_handler
  sv_workers :: worker_manager

datatype server_error =
    ERR_JOB_SUBMISSION_FAILED | ERR_JOB_NOT_FOUND | ERR_JOB_NOT_COMPLETED | ERR_INTERNAL_ERROR
  | ERR_INVALID_MESSAGE | ERR_WORKER_REGISTRATION_FAILED | ERR_WORKER_NOT_FOUND

record client_header =
  ch_message_id :: u32
  ch_client_id :: u32

record worker_header =
  wh_message_id :: u32
  wh_worker_id :: int

datatype client_body =
    SubmitJob int "byte list option" nat
  | GetJobStatus int
  | GetJobResult int
  | OtherClientMessage

datatype worker_body =
    WorkerRegister "byte list option" int "int list option" int
  | WorkerHeartbeat
  | RequestJob
  | WorkerJobCompleted int "byte list option" nat int
  | WorkerJobFailed int int
  | WorkerDisconnect
  | OtherWorkerMessage

datatype server_msg =
    ErrorResponse server_error string
  | JobSubmitted client_header int
  | JobStatusResponse client_header int int
  | JobResultResponse client_header int "byte list option" nat
  | ClientConnectAck
  | WorkerConnectAck
  | WorkerRegistered worker_header int
  | WorkerHeartbeatAck worker_header
  | NoJobAvailable worker_header
  | JobCompletionAck worker_header int
  | JobFailureAck worker_header int
  | WorkerDisconnectAck worker_header
  | FromJobHandler job_msg

type_synonym outbox = "(int \<times> server_msg) list"

record server_env =
  sn_now :: int
  sn_malloc :: bool
  sn_send :: "int \<Rightarrow> server_msg \<Rightarrow> int"
  sn_params :: job_params
  sn_max_job_types :: nat

section \<open>Start and stop\<close>

text \<open>What the calls of \<open>server_init\<close> answer, in the order the code makes them.\<close>

record init_env =
  in_mutex_ok :: bool
  in_jobs_calloc :: bool
  in_workers_calloc :: bool
  in_socket :: int
  in_setsockopt :: int
  in_inet_pton :: int
  in_bind :: int
  in_listen :: int

definition both_cleanup :: "server \<Rightarrow> server" where
  "both_cleanup sv = sv\<lparr>sv_workers := snd (worker_manager_cleanup (sv_workers sv)),
                        sv_jobs := fst (snd (job_handler_cleanup (sv_jobs sv)))\<rparr>"

definition server_init ::
  "init_env \<Rightarrow> nat \<Rightarrow> ServerConfig option \<Rightarrow> server \<Rightarrow> (int \<times> server) \<times> int list" where
  "server_init e max_job_types config sv =
     (case config of
        None \<Rightarrow> ((-1, sv), [])
      | Some cfg \<Rightarrow>
          let sv0 = sv\<lparr>sv_is_running := False, sv_server_socket := 0\<rparr> in
          if \<not> in_mutex_ok e then ((-1, sv0), [])
          else (case job_handler_init (in_jobs_calloc e) (cfg_max_jobs cfg) (cfg_job_timeout_seconds cfg) (sv_jobs sv0) of
            (rj, jobs) \<Rightarrow>
              let sv1 = sv0\<lparr>sv_jobs := jobs\<rparr> in
              if rj < 0 then ((-1, sv1), [])
              else (case worker_manager_init max_job_types (in_workers_calloc e) (cfg_max_workers cfg) (sv_workers sv1) of
                (rw, workers) \<Rightarrow>
                  let sv2 = sv1\<lparr>sv_workers := workers\<rparr> in
                  if rw < 0 then ((-1, sv2\<lparr>sv_jobs := fst (snd (job_handler_cleanup (sv_jobs sv2)))\<rparr>), [])
                  else let sv3 = sv2\<lparr>sv_server_socket := in_socket e\<rparr> in
                    if in_socket e < 0 then ((-1, both_cleanup sv3), [])
                    else if in_setsockopt e < 0 \<or> (cfg_ip_set cfg \<and> in_inet_pton e \<le> 0) \<or> in_bind e < 0 \<or> in_listen e < 0
                    then ((-1, both_cleanup sv3), [in_socket e])
                    else ((0, sv3), []))))"

definition server_start :: "bool \<Rightarrow> server \<Rightarrow> int \<times> server" where
  "server_start thread_ok sv =
     (if sv_is_running sv then (-1, sv)
      else if \<not> thread_ok then (-1, sv\<lparr>sv_is_running := False\<rparr>)
      else (0, sv\<lparr>sv_is_running := True\<rparr>))"

definition server_stop :: "server \<Rightarrow> (int \<times> server) \<times> int list" where
  "server_stop sv =
     (if \<not> sv_is_running sv then ((-1, sv), [])
      else ((0, both_cleanup (sv\<lparr>sv_is_running := False\<rparr>)), [sv_server_socket sv]))"

text \<open>Active clients, active workers, pending, running, completed and failed jobs.\<close>

definition server_get_stats :: "server \<Rightarrow> int \<times> int \<times> int \<times> int \<times> int \<times> int" where
  "server_get_stats sv =
     (case (worker_manager_get_stats (sv_workers sv), job_handler_get_stats (sv_jobs sv)) of
        ((total_workers, idle_workers, busy_workers), (pending, running, completed, failed)) \<Rightarrow>
          (0, total_workers, pending, running, completed, failed))"

section \<open>Message handlers\<close>

definition send_error_response :: "server_env \<Rightarrow> int \<Rightarrow> server_error \<Rightarrow> string \<Rightarrow> int \<times> outbox" where
  "send_error_response e sock code text =
     (if sn_send e sock (ErrorResponse code text) < 0 then -1 else 0, [(sock, ErrorResponse code text)])"

text \<open>The common end of a handler: send one response and report failure to send it.\<close>

definition reply :: "server_env \<Rightarrow> int \<Rightarrow> server_msg \<Rightarrow> server \<Rightarrow> outbox \<Rightarrow> (int \<times> server \<times> outbox) option" where
  "reply e sock m sv out = Some (if sn_send e sock m < 0 then -1 else 0, sv, out @ [(sock, m)])"

definition reply_error ::
  "server_env \<Rightarrow> int \<Rightarrow> server_error \<Rightarrow> string \<Rightarrow> server \<Rightarrow> outbox \<Rightarrow> (int \<times> server \<times> outbox) option" where
  "reply_error e sock code text sv out =
     (case send_error_response e sock code text of (r, o2) \<Rightarrow> Some (r, sv, out @ o2))"

definition server_handle_client_message ::
  "server_env \<Rightarrow> int \<Rightarrow> (client_header \<times> client_body) option \<Rightarrow> server \<Rightarrow> (int \<times> server \<times> outbox) option" where
  "server_handle_client_message e client_socket msg sv =
     (case msg of
        None \<Rightarrow> Some (-1, sv, [])
      | Some (h, SubmitJob job_type data data_size) \<Rightarrow>
          (case job_handler_submit (sn_now e) (sn_malloc e) client_socket job_type data data_size (sv_jobs sv) of
             None \<Rightarrow> None
           | Some (job_id, jobs) \<Rightarrow>
               let sv1 = sv\<lparr>sv_jobs := jobs\<rparr> in
               if job_id < 0 then reply_error e client_socket ERR_JOB_SUBMISSION_FAILED ''Failed to submit job'' sv1 []
               else reply e client_socket (JobSubmitted h job_id) sv1 [])
      | Some (h, GetJobStatus job_id) \<Rightarrow>
          let status = job_handler_get_status job_id (sv_jobs sv) in
          if status < 0 then reply_error e client_socket ERR_JOB_NOT_FOUND ''Job not found'' sv []
          else reply e client_socket (JobStatusResponse h job_id status) sv []
      | Some (h, GetJobResult job_id) \<Rightarrow>
          let status = job_handler_get_status job_id (sv_jobs sv) in
          if status < 0 then reply_error e client_socket ERR_JOB_NOT_FOUND ''Job not found'' sv []
          else if status \<noteq> job_status_code JOB_STATUS_COMPLETED
          then reply_error e client_socket ERR_JOB_NOT_COMPLETED ''Job is not completed'' sv []
          else (case job_handler_get_result True True (sn_malloc e) job_id (sv_jobs sv) of
                  None \<Rightarrow> None
                | Some (r, Some (data, n)) \<Rightarrow>
                    if r < 0 then reply_error e client_socket ERR_INTERNAL_ERROR ''Failed to get job result'' sv []
                    else reply e client_socket (JobResultResponse h job_id data n) sv []
                | Some (r, None) \<Rightarrow>
                    reply_error e client_socket ERR_INTERNAL_ERROR ''Failed to get job result'' sv [])
      | Some (h, OtherClientMessage) \<Rightarrow>
          reply_error e client_socket ERR_INVALID_MESSAGE ''Invalid message type'' sv [])"

definition handler_outbox :: "(int \<times> job_msg) list \<Rightarrow> outbox" where
  "handler_outbox ms = map (\<lambda>(s, m). (s, FromJobHandler m)) ms"

text \<open>\<open>job_handler_assign\<close> tries to send one message if it picked a job.\<close>

definition assign_outbox :: "int \<Rightarrow> int \<Rightarrow> job_handler \<Rightarrow> outbox" where
  "assign_outbox now sock jobs =
     (case fst (assign_pick now sock jobs) of None \<Rightarrow> [] | Some (_, m) \<Rightarrow> [(sock, FromJobHandler m)])"

text \<open>The cases of a failed job and of a worker that takes its leave.\<close>

definition handle_job_failed ::
  "server_env \<Rightarrow> int \<Rightarrow> worker_header \<Rightarrow> int \<Rightarrow> int \<Rightarrow> server \<Rightarrow> (int \<times> server \<times> outbox) option" where
  "handle_job_failed e worker_socket h job_id error_code sv =
     (case job_handler_fail (sn_params e) (sn_now e) job_id error_code (sv_jobs sv) of
        (r, jobs, ms) \<Rightarrow>
          let sv1 = sv\<lparr>sv_jobs := jobs\<rparr>; out = handler_outbox ms in
          if r < 0 then reply_error e worker_socket ERR_JOB_NOT_FOUND ''Job not found'' sv1 out
          else (case worker_manager_fail_job (wh_worker_id h) (sv_workers sv1) of
                  (r2, workers) \<Rightarrow>
                    if r2 < 0 then Some (-1, sv1\<lparr>sv_workers := workers\<rparr>, out)
                    else reply e worker_socket (JobFailureAck h job_id) (sv1\<lparr>sv_workers := workers\<rparr>) out))"

definition handle_disconnect :: "server_env \<Rightarrow> int \<Rightarrow> worker_header \<Rightarrow> server \<Rightarrow> (int \<times> server \<times> outbox) option" where
  "handle_disconnect e worker_socket h sv =
     (case worker_manager_unregister (sn_max_job_types e) (wh_worker_id h) (sv_workers sv) of
        (r, workers) \<Rightarrow>
          let sv1 = sv\<lparr>sv_workers := workers\<rparr> in
          if r < 0 then reply_error e worker_socket ERR_WORKER_NOT_FOUND ''Worker not found'' sv1 []
          else reply e worker_socket (WorkerDisconnectAck h) sv1 [])"

definition server_handle_worker_message ::
  "server_env \<Rightarrow> int \<Rightarrow> (worker_header \<times> worker_body) option \<Rightarrow> server \<Rightarrow> (int \<times> server \<times> outbox) option" where
  "server_handle_worker_message e worker_socket msg sv =
     (case msg of
        None \<Rightarrow> Some (-1, sv, [])
      | Some (h, WorkerRegister ip port types n) \<Rightarrow>
          (case worker_manager_register (sn_max_job_types e) (sn_now e) worker_socket ip port types n (sv_workers sv) of
             None \<Rightarrow> None
           | Some (worker_id, workers) \<Rightarrow>
               let sv1 = sv\<lparr>sv_workers := workers\<rparr> in
               if worker_id < 0
               then reply_error e worker_socket ERR_WORKER_REGISTRATION_FAILED ''Failed to register worker'' sv1 []
               else reply e worker_socket (WorkerRegistered h worker_id) sv1 [])
      | Some (h, WorkerHeartbeat) \<Rightarrow>
          (case worker_manager_update_heartbeat (sn_now e) (wh_worker_id h) (sv_workers sv) of
             (r, workers) \<Rightarrow>
               let sv1 = sv\<lparr>sv_workers := workers\<rparr> in
               if r < 0 then reply_error e worker_socket ERR_WORKER_NOT_FOUND ''Worker not found'' sv1 []
               else reply e worker_socket (WorkerHeartbeatAck h) sv1 [])
      | Some (h, RequestJob) \<Rightarrow>
          (case worker_manager_update_status (wh_worker_id h) WORKER_IDLE (sv_workers sv) of
             (r, workers) \<Rightarrow>
               let sv1 = sv\<lparr>sv_workers := workers\<rparr> in
               if r < 0 then reply_error e worker_socket ERR_WORKER_NOT_FOUND ''Worker not found'' sv1 []
               else (case job_handler_assign (\<lambda>s m. sn_send e s (FromJobHandler m)) (sn_now e) worker_socket (sv_jobs sv1) of
                       (job_id, jobs) \<Rightarrow>
                         let out = assign_outbox (sn_now e) worker_socket (sv_jobs sv1);
                             sv2 = sv1\<lparr>sv_jobs := jobs\<rparr>
                         in if job_id < 0 then reply e worker_socket (NoJobAvailable h) sv2 out
                            else (case worker_manager_assign_job (wh_worker_id h) job_id (sv_workers sv2) of
                                    (r2, workers2) \<Rightarrow>
                                      Some (if r2 < 0 then -1 else 0, sv2\<lparr>sv_workers := workers2\<rparr>, out))))
      | Some (h, WorkerJobCompleted job_id data n processing_time) \<Rightarrow>
          (case job_handler_complete (sn_now e) (sn_malloc e) job_id data n (sv_jobs sv) of
             None \<Rightarrow> None
           | Some (r, jobs, ms) \<Rightarrow>
               let sv1 = sv\<lparr>sv_jobs := jobs\<rparr>; out = handler_outbox ms in
               if r < 0 then reply_error e worker_socket ERR_JOB_NOT_FOUND ''Job not found'' sv1 out
               else (case worker_manager_complete_job (wh_worker_id h) processing_time (sv_workers sv1) of
                       (r2, workers) \<Rightarrow>
                         if r2 < 0 then Some (-1, sv1\<lparr>sv_workers := workers\<rparr>, out)
                         else reply e worker_socket (JobCompletionAck h job_id) (sv1\<lparr>sv_workers := workers\<rparr>) out))
      | Some (h, WorkerJobFailed job_id error_code) \<Rightarrow> handle_job_failed e worker_socket h job_id error_code sv
      | Some (h, WorkerDisconnect) \<Rightarrow> handle_disconnect e worker_socket h sv
      | Some (h, OtherWorkerMessage) \<Rightarrow>
          reply_error e worker_socket ERR_INVALID_MESSAGE ''Invalid message type'' sv [])"

lemmas handle_worker_message_defs = server_handle_worker_message_def handle_job_failed_def handle_disconnect_def

section \<open>Connections\<close>

text \<open>
  A connection handler first acknowledges the connection: whether it goes on to its loop, the message,
  and the socket if it is closed. (The handlers also call \<open>free\<close> on the address of their own
  parameter, which is undefined; what follows describes them without that call.)
\<close>

datatype connection = ClientConnection | WorkerConnection

definition connection_start :: "server_env \<Rightarrow> connection \<Rightarrow> int \<Rightarrow> bool \<times> outbox \<times> int list" where
  "connection_start e kind sock =
     (let ack = (case kind of ClientConnection \<Rightarrow> ClientConnectAck | WorkerConnection \<Rightarrow> WorkerConnectAck) in
      if sn_send e sock ack < 0 then (False, [(sock, ack)], [sock]) else (True, [(sock, ack)], []))"

text \<open>
  One iteration of each connection loop: whether it goes on, the rest of the input, the state and the
  messages. \<open>decode\<close> reads the fields a handler uses out of a received message.
\<close>

definition client_connection_iteration ::
  "bool \<Rightarrow> (Message \<Rightarrow> client_header \<times> client_body) \<Rightarrow> server_env \<Rightarrow> int \<Rightarrow> read_event list \<Rightarrow> server
   \<Rightarrow> (bool \<times> read_event list \<times> server \<times> outbox) option" where
  "client_connection_iteration be decode e sock es sv =
     (if \<not> sv_is_running sv then Some (False, es, sv, [])
      else (case receive_message be es of
              ((r, m), es') \<Rightarrow>
                if r = 0 then Some (False, es', sv, [])
                else if r < 0 then Some (False, es', sv, [])
                else map_option (\<lambda>(r2, sv1, out). (\<not> r2 < 0, es', sv1, out))
                       (server_handle_client_message e sock (map_option decode m) sv)))"

definition worker_connection_iteration ::
  "bool \<Rightarrow> (Message \<Rightarrow> worker_header \<times> worker_body) \<Rightarrow> server_env \<Rightarrow> int \<Rightarrow> read_event list \<Rightarrow> server
   \<Rightarrow> (bool \<times> read_event list \<times> server \<times> outbox) option" where
  "worker_connection_iteration be decode e sock es sv =
     (if \<not> sv_is_running sv then Some (False, es, sv, [])
      else (case receive_message be es of
              ((r, m), es') \<Rightarrow>
                if r = 0
                then let worker_id = worker_manager_find_by_socket sock (sv_workers sv) in
                     Some (False, es',
                           if worker_id \<ge> 0
                           then sv\<lparr>sv_workers := snd (worker_manager_unregister (sn_max_job_types e) worker_id (sv_workers sv))\<rparr>
                           else sv, [])
                else if r < 0 then Some (False, es', sv, [])
                else map_option (\<lambda>(r2, sv1, out). (\<not> r2 < 0, es', sv1, out))
                       (server_handle_worker_message e sock (map_option decode m) sv)))"

text \<open>
  The accept thread after a connection was accepted: which handler is started, if any. The codes of
  the two connect messages are arguments: only one of them is defined in the repository.
\<close>

definition accept_connection ::
  "bool \<Rightarrow> u32 \<Rightarrow> u32 \<Rightarrow> bool \<Rightarrow> bool \<Rightarrow> int \<Rightarrow> read_event list
   \<Rightarrow> connection option \<times> read_event list \<times> outbox \<times> int list" where
  "accept_connection be client_connect worker_connect malloc_ok thread_ok sock es =
     (case receive_message be es of
        ((r, Some m), es') \<Rightarrow>
          if r < 0 then (None, es', [], [sock])
          else if message_type (header m) = client_connect
          then (if \<not> malloc_ok \<or> \<not> thread_ok then (None, es', [], [sock]) else (Some ClientConnection, es', [], []))
          else if message_type (header m) = worker_connect
          then (if \<not> malloc_ok \<or> \<not> thread_ok then (None, es', [], [sock]) else (Some WorkerConnection, es', [], []))
          else (None, es', [(sock, ErrorResponse ERR_INVALID_MESSAGE ''Invalid initial message'')], [sock])
      | ((r, None), es') \<Rightarrow> (None, es', [], [sock]))"

section \<open>Consistency\<close>

definition sv_inv :: "job_params \<Rightarrow> server \<Rightarrow> bool" where
  "sv_inv p sv \<longleftrightarrow> jh_inv p (sv_jobs sv) \<and> wm_inv (sv_workers sv)"

lemma reply_Some: "reply e s m sv out = Some (r, sv', out') \<Longrightarrow> sv' = sv"
  by (simp add: reply_def)

lemma reply_error_Some: "reply_error e s c t sv out = Some (r, sv', out') \<Longrightarrow> sv' = sv"
  by (auto simp: reply_error_def split: prod.splits)

lemma client_message_inv:
  assumes "sv_inv p sv" and "server_handle_client_message e s msg sv = Some (r, sv', out)"
  shows "sv_inv p sv'"
  using assms
  by (auto simp: server_handle_client_message_def sv_inv_def Let_def
      split: option.splits prod.splits client_body.splits if_splits
      dest!: reply_Some reply_error_Some intro: submit_inv)

lemma wm_assign_after_idle:
  assumes "wm_inv wm" and "worker_manager_update_status k WORKER_IDLE wm = (r, wm1)" and "\<not> r < 0"
  shows "wm_inv (snd (worker_manager_assign_job k j wm1))" and "find_worker_by_id wm1 k \<noteq> None"
proof -
  obtain i where i: "find_worker_by_id wm k = Some i"
    using assms(2,3) by (cases "find_worker_by_id wm k") (auto simp: worker_manager_update_status_def)
  note l = workers.lookup_SomeD[OF i]
  have inv1: "wm_inv wm1" using update_status_wm_inv[OF assms(1), of k WORKER_IDLE] assms(2) by simp
  have ws: "g_workers wm1 = (g_workers wm)[i := (g_workers wm ! i)\<lparr>w_status := WORKER_IDLE\<rparr>]"
    and n: "g_next_worker_id wm1 = g_next_worker_id wm"
    using assms(2) i by (auto simp: worker_manager_update_status_def Let_def split: if_splits)
  have i1: "find_worker_by_id wm1 k = Some i"
    using workers.lookup_update(2)[OF wm_inv_wf[OF assms(1)] l(1) _ ws n, of k] i by simp
  then show "find_worker_by_id wm1 k \<noteq> None" by simp
  have "w_status (g_workers wm1 ! i) = WORKER_IDLE" using l(1) by (simp add: ws)
  then show "wm_inv (snd (worker_manager_assign_job k j wm1))"
    using wm_assign_inv_iff[OF inv1 i1] by simp
qed

text \<open>A completion or failure report names a worker that the manager has as busy, or does not know.\<close>

definition report_from_busy :: "server \<Rightarrow> (worker_header \<times> worker_body) option \<Rightarrow> bool" where
  "report_from_busy sv msg \<longleftrightarrow>
     (case msg of
        Some (h, WorkerJobCompleted _ _ _ _) \<Rightarrow>
          (case find_worker_by_id (sv_workers sv) (wh_worker_id h) of None \<Rightarrow> True
           | Some i \<Rightarrow> w_status (g_workers (sv_workers sv) ! i) = WORKER_BUSY)
      | Some (h, WorkerJobFailed _ _) \<Rightarrow>
          (case find_worker_by_id (sv_workers sv) (wh_worker_id h) of None \<Rightarrow> True
           | Some i \<Rightarrow> w_status (g_workers (sv_workers sv) ! i) = WORKER_BUSY)
      | _ \<Rightarrow> True)"

lemma wm_complete_report:
  assumes "wm_inv wm" and "case find_worker_by_id wm k of None \<Rightarrow> True | Some i \<Rightarrow> w_status (g_workers wm ! i) = WORKER_BUSY"
  shows "wm_inv (snd (worker_manager_complete_job k t wm))" and "wm_inv (snd (worker_manager_fail_job k wm))"
proof -
  show "wm_inv (snd (worker_manager_complete_job k t wm))"
  proof (cases "find_worker_by_id wm k")
    case (Some i)
    then show ?thesis using wm_complete_inv_iff[OF assms(1) Some] assms(2) by simp
  qed (use assms in \<open>simp add: worker_manager_complete_job_def\<close>)
  show "wm_inv (snd (worker_manager_fail_job k wm))"
  proof (cases "find_worker_by_id wm k")
    case (Some i)
    then show ?thesis using wm_fail_inv_iff[OF assms(1) Some] assms(2) by simp
  qed (use assms in \<open>simp add: worker_manager_fail_job_def\<close>)
qed

lemma request_job_inv:
  assumes "sv_inv p sv" and "server_handle_worker_message e s (Some (h, RequestJob)) sv = Some (r, sv', out)"
  shows "sv_inv p sv'"
proof -
  obtain r1 wm1 where u: "worker_manager_update_status (wh_worker_id h) WORKER_IDLE (sv_workers sv) = (r1, wm1)" by fastforce
  have wm1: "wm_inv wm1" using update_status_wm_inv[of "sv_workers sv" "wh_worker_id h" WORKER_IDLE] assms(1) u
    by (simp add: sv_inv_def)
  obtain k js where a: "job_handler_assign (\<lambda>s m. sn_send e s (FromJobHandler m)) (sn_now e) s (sv_jobs sv) = (k, js)" by fastforce
  have js: "jh_inv p js" using assign_inv[of p "sv_jobs sv"] assms(1) a by (metis snd_conv sv_inv_def)
  have as: "\<not> r1 < 0 \<Longrightarrow> wm_inv (snd (worker_manager_assign_job (wh_worker_id h) k wm1))"
    using wm_assign_after_idle(1)[OF _ u] assms(1) by (simp add: sv_inv_def)
  show ?thesis
    using assms wm1 js as
    by (auto simp: handle_worker_message_defs u a Let_def sv_inv_def split: if_splits prod.splits
        dest!: reply_Some reply_error_Some)
qed

lemma worker_message_inv:
  assumes "sv_inv (sn_params e) sv" and "report_from_busy sv msg"
    and "server_handle_worker_message e s msg sv = Some (r, sv', out)"
  shows "sv_inv (sn_params e) sv'"
proof (cases msg)
  case None
  then show ?thesis using assms by (simp add: handle_worker_message_defs)
next
  case (Some hb)
  obtain h b where m: "msg = Some (h, b)" using Some by (cases hb) auto
  have jh: "jh_inv (sn_params e) (sv_jobs sv)" and wm: "wm_inv (sv_workers sv)" using assms(1) by (simp_all add: sv_inv_def)
  show ?thesis
  proof (cases b)
    case (WorkerRegister ip port types n)
    then show ?thesis using assms(3) jh register_inv[OF wm]
      by (auto simp: handle_worker_message_defs m sv_inv_def Let_def split: option.splits prod.splits if_splits
          dest!: reply_Some reply_error_Some)
  next
    case WorkerHeartbeat
    then show ?thesis using assms(3) jh heartbeat_wm_inv[OF wm, of "sn_now e" "wh_worker_id h"]
      by (auto simp: handle_worker_message_defs m sv_inv_def Let_def split: prod.splits if_splits
          dest!: reply_Some reply_error_Some)
  next
    case RequestJob
    then show ?thesis using request_job_inv[OF assms(1)] assms(3) m by blast
  next
    case (WorkerJobCompleted job_id data n t)
    have w: "wm_inv (snd (worker_manager_complete_job (wh_worker_id h) t (sv_workers sv)))"
      using wm_complete_report(1)[OF wm, of "wh_worker_id h" t] assms(2)
      by (simp add: report_from_busy_def m WorkerJobCompleted)
    show ?thesis using assms(3) WorkerJobCompleted w wm complete_inv[OF jh]
      by (auto simp: handle_worker_message_defs m sv_inv_def Let_def split: option.splits prod.splits if_splits
          dest!: reply_Some reply_error_Some)
  next
    case (WorkerJobFailed job_id err)
    have w: "wm_inv (snd (worker_manager_fail_job (wh_worker_id h) (sv_workers sv)))"
      using wm_complete_report(2)[OF wm, of "wh_worker_id h"] assms(2)
      by (simp add: report_from_busy_def m WorkerJobFailed)
    show ?thesis using assms(3) WorkerJobFailed w wm fail_inv[OF jh]
      by (auto simp: handle_worker_message_defs m sv_inv_def Let_def split: prod.splits if_splits
          dest!: reply_Some reply_error_Some)
  next
    case WorkerDisconnect
    then show ?thesis using assms(3) jh unregister_inv[OF wm, of "sn_max_job_types e" "wh_worker_id h"]
      by (auto simp: handle_worker_message_defs m sv_inv_def Let_def split: prod.splits if_splits
          dest!: reply_Some reply_error_Some)
  next
    case OtherWorkerMessage
    then show ?thesis using assms by (auto simp: handle_worker_message_defs m dest!: reply_error_Some)
  qed
qed

section \<open>A job's way through the server\<close>

lemma request_single_job:
  assumes "sv_inv p sv" and "find_worker_by_id (sv_workers sv) (wh_worker_id h) \<noteq> None"
    and send: "\<And>s m. 0 \<le> sn_send e s m"
    and i: "i < length (g_jobs (sv_jobs sv))" "is_pending (g_jobs (sv_jobs sv) ! i)"
    and only: "\<And>j. j < length (g_jobs (sv_jobs sv)) \<Longrightarrow> is_pending (g_jobs (sv_jobs sv) ! j) \<Longrightarrow> j = i"
  defines "job \<equiv> g_jobs (sv_jobs sv) ! i"
  shows "\<exists>sv'. server_handle_worker_message e ws (Some (h, RequestJob)) sv =
      Some (0, sv', [(ws, FromJobHandler (JobAssigned (j_job_id job) (j_job_type job) (j_input_data job) (j_input_size job)))]) \<and>
    g_jobs (sv_jobs sv') = (g_jobs (sv_jobs sv))[i := job\<lparr>j_worker_socket := ws, j_status := JOB_STATUS_ASSIGNED, j_start_time := sn_now e\<rparr>] \<and>
    g_next_job_id (sv_jobs sv') = g_next_job_id (sv_jobs sv) \<and>
    find_worker_by_id (sv_workers sv') (wh_worker_id h) \<noteq> None"
proof -
  let ?k = "wh_worker_id h" and ?jobs = "sv_jobs sv"
  obtain w where w: "find_worker_by_id (sv_workers sv) ?k = Some w" using assms(2) by auto
  obtain wm1 where u: "worker_manager_update_status ?k WORKER_IDLE (sv_workers sv) = (0, wm1)"
    by (simp add: worker_manager_update_status_def w Let_def)
  have wm: "wm_inv (sv_workers sv)" using assms(1) by (simp add: sv_inv_def)
  obtain w1 where w1: "find_worker_by_id wm1 ?k = Some w1" using wm_assign_after_idle(2)[OF wm u] by auto
  have inv1: "wm_inv wm1" using update_status_wm_inv[OF wm, of ?k WORKER_IDLE] u by simp
  have o: "oldest_pending ?jobs = Some i" by (rule oldest_unique[OF i only])
  let ?m = "JobAssigned (j_job_id job) (j_job_type job) (j_input_data job) (j_input_size job)"
  let ?js = "?jobs\<lparr>g_jobs := (g_jobs ?jobs)[i := job\<lparr>j_worker_socket := ws, j_status := JOB_STATUS_ASSIGNED, j_start_time := sn_now e\<rparr>],
       g_pending_jobs := g_pending_jobs ?jobs - 1, g_running_jobs := g_running_jobs ?jobs + 1\<rparr>"
  have pick: "assign_pick (sn_now e) ws ?jobs = (Some (j_job_id job, ?m), ?js)"
    by (simp add: assign_pick_def o Let_def job_def)
  have pos: "0 < j_job_id job" using i(2) by (simp add: is_pending_def job_def)
  have a: "job_handler_assign (\<lambda>s m. sn_send e s (FromJobHandler m)) (sn_now e) ws ?jobs = (j_job_id job, ?js)"
    using send[of ws "FromJobHandler ?m"] by (simp add: job_handler_assign_def pick)
  obtain wm2 where wa: "worker_manager_assign_job ?k (j_job_id job) wm1 = (0, wm2)"
    and ws2: "g_workers wm2 = (g_workers wm1)[w1 := (g_workers wm1 ! w1)\<lparr>w_status := WORKER_BUSY, w_current_job_id := j_job_id job\<rparr>]"
    and n2: "g_next_worker_id wm2 = g_next_worker_id wm1"
    by (simp add: worker_manager_assign_job_def w1)
  note l1 = workers.lookup_SomeD[OF w1]
  have "find_worker_by_id wm2 ?k = Some w1"
    using workers.lookup_update(2)[OF wm_inv_wf[OF inv1] l1(1) _ ws2 n2, of ?k] w1 by simp
  then show ?thesis
    using u a wa pos by (simp add: handle_worker_message_defs Let_def assign_outbox_def pick)
qed

section \<open>Properties\<close>

text \<open>A job's way through the server, with sends and allocations succeeding: when no other job is waiting, a
  client's submission is answered with its identifier; a registered worker that then asks for a job
  is sent that identifier with the submitted type and bytes; when it reports the result, the client is notified and the worker
  acknowledged; and the client's request for the result is answered with exactly the bytes the worker delivered.\<close>

lemma job_end_to_end:
  assumes inv: "sv_inv p sv" and send: "\<forall>s m. 0 \<le> sn_send e s m" and malloc: "sn_malloc e"
    and idle: "\<forall>j \<in> set (g_jobs (sv_jobs sv)). \<not> is_pending j"
    and room: "g_next_job_id (sv_jobs sv) \<le> g_max_jobs (sv_jobs sv)" "g_max_jobs (sv_jobs sv) < 2 ^ 31 - 1"
    and worker: "find_worker_by_id (sv_workers sv) (wh_worker_id wh) \<noteq> None"
    and sizes: "0 < length input" "0 < length result"
  defines "k \<equiv> g_next_job_id (sv_jobs sv)"
  shows "\<exists>sv1 sv2 sv3.
     server_handle_client_message e c (Some (h, SubmitJob t (Some input) (length input))) sv = Some (0, sv1, [(c, JobSubmitted h k)]) \<and>
     server_handle_worker_message e ws (Some (wh, RequestJob)) sv1 =
       Some (0, sv2, [(ws, FromJobHandler (JobAssigned k t (Some input) (length input)))]) \<and>
     server_handle_worker_message e ws (Some (wh, WorkerJobCompleted k (Some result) (length result) ms)) sv2 =
       Some (0, sv3, [(c, FromJobHandler (JobCompleted k)), (ws, JobCompletionAck wh k)]) \<and>
     server_handle_client_message e c (Some (h2, GetJobResult k)) sv3 =
       Some (0, sv3, [(c, JobResultResponse h2 k (Some result) (length result))])"
proof -
  let ?jobs = "sv_jobs sv"
  have jh: "jh_inv p ?jobs" using inv by (simp add: sv_inv_def)
  have k: "0 < k" using jh_inv_wf[OF jh] by (simp add: slots_wf_def k_def)
  have "Some input = None \<longrightarrow> length input = 0" and "\<forall>bs. Some input = Some bs \<longrightarrow> length input \<le> length bs" by simp_all
  note sub = submit_success[OF jh room(2,1) this, of "sn_now e" c t, folded k_def]
  have d: "(if length input = 0 then None else map_option (take (length input)) (Some input)) = Some input"
    using sizes by simp
  obtain js1 i where s1: "job_handler_submit (sn_now e) True c t (Some input) (length input) ?jobs = Some (k, js1)"
    and inv1: "jh_inv p js1" and f1: "find_job_by_id js1 k = Some i" and i: "i < length (g_jobs ?jobs)"
    and j1: "g_jobs js1 = (g_jobs ?jobs)[i := new_job (sn_now e) k c t (Some input) (length input)]"
    using sub unfolding d by blast
  let ?sv1 = "sv\<lparr>sv_jobs := js1\<rparr>"
  have svi1: "sv_inv p ?sv1" using inv inv1 by (simp add: sv_inv_def)
  have step1: "server_handle_client_message e c (Some (h, SubmitJob t (Some input) (length input))) sv = Some (0, ?sv1, [(c, JobSubmitted h k)])"
    using s1 malloc send k by (simp add: server_handle_client_message_def reply_def not_less)
  have i1: "i < length (g_jobs js1)" using i by (simp add: j1)
  have new: "j_job_id (g_jobs js1 ! i) = k" "j_job_type (g_jobs js1 ! i) = t" "j_input_data (g_jobs js1 ! i) = Some input"
    "j_input_size (g_jobs js1 ! i) = length input" "j_client_socket (g_jobs js1 ! i) = c"
    using i by (simp_all add: j1 new_job_def)
  have pend: "is_pending (g_jobs js1 ! i)" using i k by (simp add: j1 new_job_def is_pending_def)
  have only: "j = i" if "j < length (g_jobs js1)" "is_pending (g_jobs js1 ! j)" for j
    using that idle by (cases "j = i") (auto simp: j1)
  have sv1: "sv_jobs ?sv1 = js1" "sv_workers ?sv1 = sv_workers sv" by simp_all
  note request_single_job[OF svi1, unfolded sv1, OF worker send[rule_format] i1 pend only, unfolded new]
  then obtain sv2 where step2: "server_handle_worker_message e ws (Some (wh, RequestJob)) ?sv1 =
        Some (0, sv2, [(ws, FromJobHandler (JobAssigned k t (Some input) (length input)))])"
    and j2: "g_jobs (sv_jobs sv2) = (g_jobs js1)[i := (g_jobs js1 ! i)\<lparr>j_worker_socket := ws, j_status := JOB_STATUS_ASSIGNED, j_start_time := sn_now e\<rparr>]"
    and n2: "g_next_job_id (sv_jobs sv2) = g_next_job_id js1" and w2: "find_worker_by_id (sv_workers sv2) (wh_worker_id wh) \<noteq> None"
    by blast
  have f2: "find_job_by_id (sv_jobs sv2) k = Some i"
    using jobs.lookup_update(2)[OF jh_inv_wf[OF inv1] i1 _ j2 n2, of k] f1 by simp
  let ?j3 = "(g_jobs (sv_jobs sv2) ! i)\<lparr>j_result_data := Some result, j_result_size := length result, j_status := JOB_STATUS_COMPLETED, j_end_time := sn_now e\<rparr>"
  let ?js3 = "(sv_jobs sv2)\<lparr>g_jobs := (g_jobs (sv_jobs sv2))[i := ?j3], g_running_jobs := g_running_jobs (sv_jobs sv2) - 1,
       g_completed_jobs := g_completed_jobs (sv_jobs sv2) + 1\<rparr>"
  have c3: "job_handler_complete (sn_now e) True k (Some result) (length result) (sv_jobs sv2) = Some (0, ?js3, [(c, JobCompleted k)])"
    using f2 i1 sizes new by (simp add: job_handler_complete_def j2 copy_data_def mem_read_def)
  obtain wm3 where wc: "worker_manager_complete_job (wh_worker_id wh) ms (sv_workers sv2) = (0, wm3)"
    using w2 by (auto simp: worker_manager_complete_job_def Let_def)
  let ?sv3 = "sv2\<lparr>sv_jobs := ?js3, sv_workers := wm3\<rparr>"
  have step3: "server_handle_worker_message e ws (Some (wh, WorkerJobCompleted k (Some result) (length result) ms)) sv2 =
       Some (0, ?sv3, [(c, FromJobHandler (JobCompleted k)), (ws, JobCompletionAck wh k)])"
    using c3 wc malloc send by (simp add: handle_worker_message_defs Let_def handler_outbox_def reply_def not_less)
  have svi2: "sv_inv p sv2" by (rule request_job_inv[OF svi1 step2])
  have i2: "i < length (g_jobs (sv_jobs sv2))" using i1 by (simp add: j2)
  have f3: "find_job_by_id ?js3 k = Some i"
    using jobs.lookup_update(2)[of "sv_jobs sv2" i ?j3 ?js3 k] f2 i2 jh_inv_wf[of p "sv_jobs sv2"] svi2 by (simp add: sv_inv_def)
  have step4: "server_handle_client_message e c (Some (h2, GetJobResult k)) ?sv3 =
       Some (0, ?sv3, [(c, JobResultResponse h2 k (Some result) (length result))])"
    using f3 i2 malloc send sizes
    by (simp add: server_handle_client_message_def job_handler_get_status_def job_handler_get_result_def Let_def
        copy_data_def mem_read_def reply_def not_less)
  show ?thesis using step1 step2 step3 step4 by blast
qed

definition sample_sv :: server where
  "sample_sv = \<lparr>sv_is_running = True, sv_server_socket = 3, sv_jobs = two_slots, sv_workers = sample_wm\<rparr>"

definition good_env :: server_env where
  "good_env = \<lparr>sn_now = 500, sn_malloc = True, sn_send = (\<lambda>_ _. 0), sn_params = two_tries, sn_max_job_types = 3\<rparr>"

definition sample_ch :: client_header where "sample_ch = \<lparr>ch_message_id = 1, ch_client_id = 2\<rparr>"
definition sample_wh :: worker_header where "sample_wh = \<lparr>wh_message_id = 1, wh_worker_id = 1\<rparr>"

lemma sample_sv_inv: "sv_inv two_tries sample_sv"
  using jh_reach_inv[OF two_slots_reach] sample_wm_inv by (simp add: sv_inv_def sample_sv_def)

lemma sample_worker_known: "find_worker_by_id (sv_workers sample_sv) (wh_worker_id sample_wh) = Some 0"
  by (simp add: sample_sv_def sample_wh_def find_worker_by_id_def wm_sample_defs)

lemma job_end_to_end_sample:
  "\<exists>sv1 sv2 sv3.
     server_handle_client_message good_env 5 (Some (sample_ch, SubmitJob 7 (Some [1, 2]) 2)) sample_sv = Some (0, sv1, [(5, JobSubmitted sample_ch 1)]) \<and>
     server_handle_worker_message good_env 9 (Some (sample_wh, RequestJob)) sv1 = Some (0, sv2, [(9, FromJobHandler (JobAssigned 1 7 (Some [1, 2]) 2))]) \<and>
     server_handle_worker_message good_env 9 (Some (sample_wh, WorkerJobCompleted 1 (Some [8]) 1 30)) sv2 =
       Some (0, sv3, [(5, FromJobHandler (JobCompleted 1)), (9, JobCompletionAck sample_wh 1)]) \<and>
     server_handle_client_message good_env 5 (Some (sample_ch, GetJobResult 1)) sv3 = Some (0, sv3, [(5, JobResultResponse sample_ch 1 (Some [8]) 1)])"
proof -
  have s: "\<forall>s m. 0 \<le> sn_send good_env s m" and m: "sn_malloc good_env" by (simp_all add: good_env_def)
  have i: "\<forall>j \<in> set (g_jobs (sv_jobs sample_sv)). \<not> is_pending j"
    by (simp add: sample_sv_def handler_of_def is_pending_def empty_job_def)
  have n: "g_next_job_id (sv_jobs sample_sv) = 1" "g_max_jobs (sv_jobs sample_sv) = 2" by (simp_all add: sample_sv_def handler_of_def)
  then have r: "g_next_job_id (sv_jobs sample_sv) \<le> g_max_jobs (sv_jobs sample_sv)" "g_max_jobs (sv_jobs sample_sv) < 2 ^ 31 - 1"
    by simp_all
  have w: "find_worker_by_id (sv_workers sample_sv) (wh_worker_id sample_wh) \<noteq> None" using sample_worker_known by simp
  have l: "length [1 :: byte, 2] = 2" "length [8 :: byte] = 1" by simp_all
  have "0 < length [1 :: byte, 2]" and "0 < length [8 :: byte]" by simp_all
  from job_end_to_end[OF sample_sv_inv s m i r w this, of 5 sample_ch 7 9 30 sample_ch]
  show ?thesis unfolding n l by blast
qed

text \<open>C11: Every client message, and every worker message except a completion or failure report that names a worker the
  manager does not have as busy, keeps both statistics consistent with the jobs and workers.\<close>

theorem messages_keep_statistics:
  assumes "sv_inv (sn_params e) sv"
  shows "(\<forall>s msg r sv' out. server_handle_client_message e s msg sv = Some (r, sv', out) \<longrightarrow> sv_inv (sn_params e) sv') \<and>
         (\<forall>s msg r sv' out. report_from_busy sv msg \<longrightarrow>
            server_handle_worker_message e s msg sv = Some (r, sv', out) \<longrightarrow> sv_inv (sn_params e) sv')"
  using client_message_inv[OF assms] worker_message_inv[OF assms] by blast

theorem messages_keep_statistics_witness:
  "\<exists>r sv' out. server_handle_worker_message good_env 9 (Some (sample_wh, WorkerHeartbeat)) sample_sv = Some (r, sv', out) \<and>
     sv_inv two_tries sv'"
proof -
  obtain r sv' out where h: "server_handle_worker_message good_env 9 (Some (sample_wh, WorkerHeartbeat)) sample_sv = Some (r, sv', out)"
    by (simp add: handle_worker_message_defs Let_def reply_def worker_manager_update_heartbeat_def sample_worker_known)
  have "sv_inv (sn_params good_env) sample_sv" using sample_sv_inv by (simp add: good_env_def)
  moreover have "report_from_busy sample_sv (Some (sample_wh, WorkerHeartbeat))" by (simp add: report_from_busy_def)
  ultimately have "sv_inv (sn_params good_env) sv'" using messages_keep_statistics h by blast
  then show ?thesis using h by (auto simp: good_env_def)
qed



text \<open>A server start that fails after the job handler was set up leaves no jobs and no workers behind and closes the
  listening socket exactly if it was opened; a successful one has an open socket and is not yet running.\<close>

theorem server_init_cleans_up:
  assumes "server_init e mt (Some cfg) sv = ((r, sv'), closed)" and "in_mutex_ok e" and "0 < cfg_max_jobs cfg" and "in_jobs_calloc e"
    and "0 < cfg_max_workers cfg" and "in_workers_calloc e"
  shows "(r = 0 \<and> closed = [] \<and> sv_server_socket sv' = in_socket e \<and> 0 \<le> in_socket e \<and> \<not> sv_is_running sv' \<and>
          length (g_jobs (sv_jobs sv')) = nat (cfg_max_jobs cfg) \<and> length (g_workers (sv_workers sv')) = nat (cfg_max_workers cfg)) \<or>
         (r = -1 \<and> closed = (if in_socket e < 0 then [] else [in_socket e]) \<and> \<not> sv_is_running sv' \<and>
          g_jobs (sv_jobs sv') = [] \<and> g_max_jobs (sv_jobs sv') = 0 \<and> g_workers (sv_workers sv') = [] \<and> g_max_workers (sv_workers sv') = 0)"
  using assms
  by (auto simp: server_init_def Let_def job_handler_init_def worker_manager_init_def both_cleanup_def
      worker_manager_cleanup_def job_handler_cleanup_def split: if_splits)

theorem server_init_cleans_up_witness:
  "\<exists>sv'. server_init \<lparr>in_mutex_ok = True, in_jobs_calloc = True, in_workers_calloc = True, in_socket = 6, in_setsockopt = 0,
       in_inet_pton = 1, in_bind = -1, in_listen = 0\<rparr> 3 (Some \<lparr>cfg_ip_set = True, cfg_max_workers = 2, cfg_max_jobs = 2, cfg_job_timeout_seconds = 5\<rparr>) sample_sv =
     ((-1, sv'), [6]) \<and> g_jobs (sv_jobs sv') = []"
proof -
  let ?e = "\<lparr>in_mutex_ok = True, in_jobs_calloc = True, in_workers_calloc = True, in_socket = 6, in_setsockopt = 0,
       in_inet_pton = 1, in_bind = -1, in_listen = 0\<rparr>"
  let ?c = "\<lparr>cfg_ip_set = True, cfg_max_workers = 2, cfg_max_jobs = 2, cfg_job_timeout_seconds = 5\<rparr>"
  obtain r sv' closed where h: "server_init ?e 3 (Some ?c) sample_sv = ((r, sv'), closed)" by (metis prod.collapse)
  then have "r = -1" by (auto simp: server_init_def Let_def job_handler_init_def worker_manager_init_def)
  then show ?thesis using server_init_cleans_up[OF h] h by auto
qed

text \<open>The size a client announces is not compared with what it sent: if it exceeds the length of the data the message
  refers to, and a slot and memory are available, handling the submission reads past the end of the data.\<close>

theorem submit_size_unchecked:
  assumes "sv_inv p sv" and "g_next_job_id (sv_jobs sv) \<le> g_max_jobs (sv_jobs sv)" and "sn_malloc e" and "length data < n"
  shows "server_handle_client_message e c (Some (h, SubmitJob t (Some data) n)) sv = None"
proof -
  have "find_free_job_slot (sv_jobs sv) \<ge> 0" using free_slot_iff[of p "sv_jobs sv"] assms(1,2) by (simp add: sv_inv_def)
  then have "job_handler_submit (sn_now e) (sn_malloc e) c t (Some data) n (sv_jobs sv) = None"
    using assms(3,4) by (simp add: job_handler_submit_def copy_data_def mem_read_def Let_def)
  then show ?thesis by (simp add: server_handle_client_message_def)
qed

theorem submit_size_unchecked_witness:
  "server_handle_client_message good_env 5 (Some (sample_ch, SubmitJob 7 (Some [1, 2]) 4000)) sample_sv = None"
proof -
  have n: "g_next_job_id (sv_jobs sample_sv) \<le> g_max_jobs (sv_jobs sample_sv)" by (simp add: sample_sv_def handler_of_def)
  show ?thesis by (rule submit_size_unchecked[OF sample_sv_inv n]) (simp_all add: good_env_def)
qed

end
