(* ===== verification/Server_Main.thy ===== *)
theory Server_Main
  imports Command_Line Job_Server
begin

text \<open>
  The main program of the job server (\<open>server/server_main.c\<close>): its options, its start, the loop that looks for overdue jobs and
  silent workers every second, and its end. The log library it uses (\<open>log_init\<close>, \<open>LOG_LEVEL_INFO\<close>) is not in the repository: the
  default level and the result of opening the log are arguments.

  The theory shows that every accepted command line gives a configuration in range, that a configuration survives being
  written out as a command line, what each round of the loop leaves behind, and that a program that ends has freed both tables and
  closed its socket.
\<close>

section \<open>Options\<close>

definition DEFAULT_PORT :: int where "DEFAULT_PORT = 8080"
definition DEFAULT_MAX_CLIENTS :: int where "DEFAULT_MAX_CLIENTS = 100"
definition DEFAULT_MAX_WORKERS :: int where "DEFAULT_MAX_WORKERS = 50"
definition DEFAULT_MAX_JOBS :: int where "DEFAULT_MAX_JOBS = 1000"
definition DEFAULT_JOB_TIMEOUT :: int where "DEFAULT_JOB_TIMEOUT = 300"

text \<open>The fields of \<open>ServerConfig\<close> and the two local variables the options set.\<close>

record server_args =
  sa_ip_address :: string
  sa_port :: int
  sa_max_clients :: int
  sa_max_workers :: int
  sa_max_jobs :: int
  sa_job_timeout_seconds :: int
  sa_log_level :: int
  sa_log_file :: string

definition server_defaults :: "int \<Rightarrow> server_args" where
  "server_defaults default_level =
     \<lparr>sa_ip_address = [], sa_port = DEFAULT_PORT, sa_max_clients = DEFAULT_MAX_CLIENTS, sa_max_workers = DEFAULT_MAX_WORKERS,
      sa_max_jobs = DEFAULT_MAX_JOBS, sa_job_timeout_seconds = DEFAULT_JOB_TIMEOUT, sa_log_level = default_level, sa_log_file = []\<rparr>"

definition server_long_options :: "long_option list" where
  "server_long_options =
     [\<lparr>lo_name = ''help'', lo_has_arg = False, lo_val = CHR ''h''\<rparr>,
      \<lparr>lo_name = ''address'', lo_has_arg = True, lo_val = CHR ''a''\<rparr>,
      \<lparr>lo_name = ''port'', lo_has_arg = True, lo_val = CHR ''p''\<rparr>,
      \<lparr>lo_name = ''max-clients'', lo_has_arg = True, lo_val = CHR ''c''\<rparr>,
      \<lparr>lo_name = ''max-workers'', lo_has_arg = True, lo_val = CHR ''w''\<rparr>,
      \<lparr>lo_name = ''max-jobs'', lo_has_arg = True, lo_val = CHR ''j''\<rparr>,
      \<lparr>lo_name = ''job-timeout'', lo_has_arg = True, lo_val = CHR ''t''\<rparr>,
      \<lparr>lo_name = ''log-level'', lo_has_arg = True, lo_val = CHR ''l''\<rparr>,
      \<lparr>lo_name = ''log-file'', lo_has_arg = True, lo_val = CHR ''f''\<rparr>]"

text \<open>The \<open>switch\<close>. An option with an argument always has one.\<close>

definition server_option :: "opt_event \<Rightarrow> server_args \<Rightarrow> (int + server_args) option" where
  "server_option e c =
     (case e of
        BadOption \<Rightarrow> Some (Inl 1)
      | Opt o_char arg \<Rightarrow>
          let optarg = (case arg of None \<Rightarrow> [] | Some a \<Rightarrow> a) in
          if o_char = CHR ''h'' then Some (Inl 0)
          else if o_char = CHR ''a'' then Some (Inr (c\<lparr>sa_ip_address := fit_field 16 optarg\<rparr>))
          else if o_char = CHR ''p'' then number_option port_range (\<lambda>n. c\<lparr>sa_port := n\<rparr>) optarg
          else if o_char = CHR ''c'' then number_option positive (\<lambda>n. c\<lparr>sa_max_clients := n\<rparr>) optarg
          else if o_char = CHR ''w'' then number_option positive (\<lambda>n. c\<lparr>sa_max_workers := n\<rparr>) optarg
          else if o_char = CHR ''j'' then number_option positive (\<lambda>n. c\<lparr>sa_max_jobs := n\<rparr>) optarg
          else if o_char = CHR ''t'' then number_option positive (\<lambda>n. c\<lparr>sa_job_timeout_seconds := n\<rparr>) optarg
          else if o_char = CHR ''l'' then number_option level_range (\<lambda>n. c\<lparr>sa_log_level := n\<rparr>) optarg
          else if o_char = CHR ''f'' then Some (Inr (c\<lparr>sa_log_file := fit_field 256 optarg\<rparr>))
          else Some (Inl 1))"

definition server_parse :: "int \<Rightarrow> string list \<Rightarrow> (int + server_args) option" where
  "server_parse default_level argv =
     option_loop server_option (getopt_long (option_string ''ha:p:c:w:j:t:l:f:'') server_long_options argv)
       (server_defaults default_level)"

section \<open>The main loop\<close>

text \<open>
  One round: the clock at its two sweeps, and what the server's other threads do while the main program sleeps. \<open>stats_counter\<close>
  is the static counter; a round prints statistics or not.
\<close>

record server_round =
  rd_now_jobs :: int
  rd_now_workers :: int
  rd_others :: "server \<Rightarrow> server"

definition server_round_step ::
  "job_params \<Rightarrow> server_round \<Rightarrow> server \<times> int \<Rightarrow> ((server \<times> int) \<times> (int \<times> int \<times> int \<times> int \<times> int \<times> int) option) option" where
  "server_round_step p r st =
     (case st of (sv, stats_counter) \<Rightarrow>
      case job_handler_check_timeouts p (rd_now_jobs r) (sv_jobs sv) of
        None \<Rightarrow> None
      | Some (timeout_count, jobs, _) \<Rightarrow>
          (case worker_manager_check_inactive (rd_now_workers r) 60 (sv_workers sv) of
             None \<Rightarrow> None
           | Some (inactive_count, workers) \<Rightarrow>
               let sv = sv\<lparr>sv_jobs := jobs, sv_workers := workers\<rparr> in
               Some (if stats_counter + 1 \<ge> 10 then ((sv, 0), Some (server_get_stats sv)) else ((sv, stats_counter + 1), None))))"

text \<open>
  The loop runs once for every round of the list: the signal that ends it arrives in the last one. The statistics printed come with
  the result.
\<close>

fun server_loop ::
  "job_params \<Rightarrow> server_round list \<Rightarrow> server \<times> int
   \<Rightarrow> ((server \<times> int) \<times> (int \<times> int \<times> int \<times> int \<times> int \<times> int) list) option" where
  "server_loop p [] st = Some (st, [])"
| "server_loop p (r # rs) st =
     (case server_round_step p r st of
        None \<Rightarrow> None
      | Some ((sv, k), stats) \<Rightarrow>
          map_option (\<lambda>(st', out). (st', (case stats of None \<Rightarrow> [] | Some s \<Rightarrow> [s]) @ out))
            (server_loop p rs (rd_others r sv, k)))"

section \<open>The program\<close>

record server_main_env =
  sm_default_level :: int
  sm_log_init :: int
  sm_init :: init_env
  sm_max_job_types :: nat
  sm_thread_ok :: bool
  sm_params :: job_params
  sm_rounds :: "server_round list"

definition server_config :: "server_args \<Rightarrow> ServerConfig" where
  "server_config c = \<lparr>cfg_ip_set = (sa_ip_address c \<noteq> []), cfg_max_workers = sa_max_workers c, cfg_max_jobs = sa_max_jobs c,
     cfg_job_timeout_seconds = sa_job_timeout_seconds c\<rparr>"

text \<open>The exit code, the state of the server and the sockets that were closed.\<close>

definition server_run :: "server_main_env \<Rightarrow> server_args \<Rightarrow> server \<Rightarrow> (int \<times> server \<times> int list) option" where
  "server_run e c sv =
     (if sa_log_file c \<noteq> [] \<and> sm_log_init e \<noteq> 0 then Some (1, sv, [])
      else (case server_init (sm_init e) (sm_max_job_types e) (Some (server_config c)) sv of
        ((r, sv1), shut1) \<Rightarrow>
          if r \<noteq> 0 then Some (1, sv1, shut1)
          else (case server_start (sm_thread_ok e) sv1 of
            (r2, sv2) \<Rightarrow>
              if r2 \<noteq> 0 then Some (1, sv2, shut1)
              else (case server_loop (sm_params e) (sm_rounds e) (sv2, 0) of
                 None \<Rightarrow> None
               | Some ((sv3, _), _) \<Rightarrow>
                   (case server_stop sv3 of ((_, sv4), shut2) \<Rightarrow> Some (0, sv4, shut1 @ shut2))))))"

definition server_program :: "server_main_env \<Rightarrow> string list \<Rightarrow> server \<Rightarrow> (int \<times> server \<times> int list) option" where
  "server_program e argv sv =
     (case server_parse (sm_default_level e) argv of
        None \<Rightarrow> None
      | Some (Inl code) \<Rightarrow> Some (code, sv, [])
      | Some (Inr c) \<Rightarrow> server_run e c sv)"

section \<open>Lemmas\<close>

definition valid_server_args :: "server_args \<Rightarrow> bool" where
  "valid_server_args c \<longleftrightarrow> length (sa_ip_address c) < 16 \<and> port_range (sa_port c) \<and> positive (sa_max_clients c) \<and>
     positive (sa_max_workers c) \<and> positive (sa_max_jobs c) \<and> positive (sa_job_timeout_seconds c) \<and>
     level_range (sa_log_level c) \<and> length (sa_log_file c) < 256"

lemmas server_default_defs = server_defaults_def DEFAULT_PORT_def DEFAULT_MAX_CLIENTS_def DEFAULT_MAX_WORKERS_def
  DEFAULT_MAX_JOBS_def DEFAULT_JOB_TIMEOUT_def

lemma server_defaults_valid: "level_range level \<Longrightarrow> valid_server_args (server_defaults level)"
  by (simp add: valid_server_args_def server_default_defs range_defs)

interpretation server_cmd: option_program server_option valid_server_args
proof
  show "server_option BadOption c = Some (Inl 1)" for c by (simp add: server_option_def)
next
  fix e c code
  assume "server_option e c = Some (Inl code)"
  then show "code = (if \<exists>arg. e = Opt (CHR ''h'') arg then 0 else 1)"
    by (cases e) (auto simp: server_option_def Let_def dest: number_option_Inl split: if_splits)
next
  fix e c c'
  assume v: "valid_server_args c" and s: "server_option e c = Some (Inr c')"
  then show "valid_server_args c'"
    by (cases e) (auto simp: server_option_def Let_def number_option_Inr valid_server_args_def length_fit_field split: if_splits)
qed

subsection \<open>Options\<close>

definition server_configured :: "opt_event list \<Rightarrow> server_args \<Rightarrow> server_args" where
  "server_configured es c =
     \<lparr>sa_ip_address = last_value (CHR ''a'') (fit_field 16) (sa_ip_address c) es,
      sa_port = last_value (CHR ''p'') number_of (sa_port c) es,
      sa_max_clients = last_value (CHR ''c'') number_of (sa_max_clients c) es,
      sa_max_workers = last_value (CHR ''w'') number_of (sa_max_workers c) es,
      sa_max_jobs = last_value (CHR ''j'') number_of (sa_max_jobs c) es,
      sa_job_timeout_seconds = last_value (CHR ''t'') number_of (sa_job_timeout_seconds c) es,
      sa_log_level = last_value (CHR ''l'') number_of (sa_log_level c) es,
      sa_log_file = last_value (CHR ''f'') (fit_field 256) (sa_log_file c) es\<rparr>"

lemma server_option_configured:
  assumes "server_option e c = Some (Inr c')"
  shows "server_configured (e # es) c = server_configured es c'"
  using assms
  by (cases e) (auto simp: server_option_def server_configured_def Let_def number_option_Inr number_of_def split: if_splits)

lemma server_loop_configured:
  "option_loop server_option es c = Some (Inr c') \<Longrightarrow> c' = server_configured es c"
proof (induction es arbitrary: c)
  case Nil
  then show ?case by (simp add: server_configured_def)
next
  case (Cons e es)
  then obtain c1 where "server_option e c = Some (Inr c1)" "option_loop server_option es c1 = Some (Inr c')"
    by (auto split: option.splits sum.splits)
  then show ?case using Cons.IH server_option_configured by simp
qed

text \<open>All fields of a configuration written out as options.\<close>

definition server_settings :: "server_args \<Rightarrow> opt_event list" where
  "server_settings c =
     [Opt (CHR ''a'') (Some (sa_ip_address c)), Opt (CHR ''p'') (Some (show_setting (sa_port c))),
      Opt (CHR ''c'') (Some (show_setting (sa_max_clients c))), Opt (CHR ''w'') (Some (show_setting (sa_max_workers c))),
      Opt (CHR ''j'') (Some (show_setting (sa_max_jobs c))), Opt (CHR ''t'') (Some (show_setting (sa_job_timeout_seconds c))),
      Opt (CHR ''l'') (Some (show_setting (sa_log_level c))), Opt (CHR ''f'') (Some (sa_log_file c))]"

definition server_command_line :: "server_args \<Rightarrow> string list" where
  "server_command_line c = concat (map (spell_option server_long_options) (server_settings c))"

lemma server_table_proper: "proper_table server_long_options"
  by code_simp

lemma server_settings_well_formed: "list_all (well_formed_option server_long_options) (server_settings c)"
  by (simp add: server_settings_def well_formed_option_def server_long_options_def)

subsection \<open>Rounds\<close>

lemma retry_not_assigned: "j_status (snd (retry_job p now JOB_STATUS_TIMEOUT j)) \<noteq> JOB_STATUS_ASSIGNED"
  by (simp add: retry_job_def Let_def)

lemma sweep_not_overdue: "\<not> overdue now ms (sweep_job p now ms j)"
  using retry_not_assigned[of p now j] by (auto simp: sweep_job_def overdue_def)

lemma check_timeouts_jobs:
  assumes "in_c_int (g_job_timeout_seconds st * 1000)"
  shows "\<exists>n st' out. job_handler_check_timeouts p now st = Some (n, st', out) \<and>
     g_jobs st' = map (sweep_job p now (g_job_timeout_seconds st * 1000)) (g_jobs st) \<and>
     g_job_timeout_seconds st' = g_job_timeout_seconds st"
proof -
  have m: "c_mul (g_job_timeout_seconds st) 1000 = Some (g_job_timeout_seconds st * 1000)" using assms by (simp add: c_mul_def)
  obtain a where "job_timeout_loop p now (Some (g_job_timeout_seconds st * 1000))
      \<lparr>sw_running = g_running_jobs st, sw_pending = g_pending_jobs st, sw_failed = g_failed_jobs st, sw_count = 0, sw_msgs = []\<rparr>
      (g_jobs st) = Some (a, map (sweep_job p now (g_job_timeout_seconds st * 1000)) (g_jobs st))"
    using job_timeout_loop_jobs by blast
  then show ?thesis by (simp add: job_handler_check_timeouts_def m)
qed

lemma timeout_loop_overflow:
  "job_timeout_loop p now None acc js = None \<longleftrightarrow> (\<exists>j \<in> set js. j_job_id j \<noteq> 0 \<and> j_status j = JOB_STATUS_ASSIGNED)"
  by (induction js arbitrary: acc) auto

lemma sixty_seconds: "c_mul 60 1000 = Some 60000"
  by (simp add: c_mul_def in_c_int_def)

lemma server_round_cases:
  assumes "server_round_step p r (sv, k) = Some ((sv', k'), stats)"
  shows "\<exists>n jobs out i workers. job_handler_check_timeouts p (rd_now_jobs r) (sv_jobs sv) = Some (n, jobs, out) \<and>
     worker_manager_check_inactive (rd_now_workers r) 60 (sv_workers sv) = Some (i, workers) \<and>
     sv' = sv\<lparr>sv_jobs := jobs, sv_workers := workers\<rparr> \<and>
     k' = (if k + 1 \<ge> 10 then 0 else k + 1) \<and> stats = (if k + 1 \<ge> 10 then Some (server_get_stats sv') else None)"
  using assms by (auto simp: server_round_step_def Let_def split: option.splits if_splits)

lemma round_sweeps:
  assumes "sv_inv p sv" and "0 \<le> k" and "k < 10" and "server_round_step p r (sv, k) = Some ((sv', k'), stats)"
    and "in_c_int (g_job_timeout_seconds (sv_jobs sv) * 1000)"
  shows "sv_inv p sv' \<and> 0 \<le> k' \<and> k' < 10 \<and> (stats \<noteq> None \<longleftrightarrow> k = 9) \<and>
     list_all (\<lambda>j. \<not> overdue (rd_now_jobs r) (g_job_timeout_seconds (sv_jobs sv) * 1000) j) (g_jobs (sv_jobs sv')) \<and>
     list_all (\<lambda>w. inactive (rd_now_workers r) 60000 w \<longrightarrow> w_status w = WORKER_OFFLINE) (g_workers (sv_workers sv'))"
proof -
  obtain n jobs out i workers where
    j: "job_handler_check_timeouts p (rd_now_jobs r) (sv_jobs sv) = Some (n, jobs, out)" and
    w: "worker_manager_check_inactive (rd_now_workers r) 60 (sv_workers sv) = Some (i, workers)" and
    sv': "sv' = sv\<lparr>sv_jobs := jobs, sv_workers := workers\<rparr>" and
    k: "k' = (if k + 1 \<ge> 10 then 0 else k + 1)" "stats = (if k + 1 \<ge> 10 then Some (server_get_stats sv') else None)"
    using server_round_cases[OF assms(4)] by blast
  have inv: "jh_inv p (sv_jobs sv)" "wm_inv (sv_workers sv)" using assms(1) by (simp_all add: sv_inv_def)
  have "g_jobs jobs = map (sweep_job p (rd_now_jobs r) (g_job_timeout_seconds (sv_jobs sv) * 1000)) (g_jobs (sv_jobs sv))"
    using check_timeouts_jobs[OF assms(5), of p "rd_now_jobs r"] j by auto
  then have "list_all (\<lambda>j. \<not> overdue (rd_now_jobs r) (g_job_timeout_seconds (sv_jobs sv) * 1000) j) (g_jobs jobs)"
    by (simp add: list_all_iff sweep_not_overdue)
  moreover have "g_workers workers = map (take_offline (rd_now_workers r) 60000) (g_workers (sv_workers sv)) \<and> wm_inv workers"
    using check_inactive_eq[OF inv(2) sixty_seconds, of "rd_now_workers r"] w by auto
  moreover from this have "list_all (\<lambda>w. inactive (rd_now_workers r) 60000 w \<longrightarrow> w_status w = WORKER_OFFLINE) (g_workers workers)"
    by (auto simp: list_all_iff take_offline_def inactive_def)
  moreover have "jh_inv p jobs" using check_timeouts_inv[OF inv(1) j] .
  ultimately show ?thesis using k assms(2,3) by (auto simp: sv' sv_inv_def simp del: not_None_eq)
qed

lemma round_undefined_iff:
  "server_round_step p r (sv, k) = None \<longleftrightarrow>
     \<not> in_c_int (g_job_timeout_seconds (sv_jobs sv) * 1000) \<and>
     (\<exists>j \<in> set (g_jobs (sv_jobs sv)). j_job_id j \<noteq> 0 \<and> j_status j = JOB_STATUS_ASSIGNED)"
proof (cases "in_c_int (g_job_timeout_seconds (sv_jobs sv) * 1000)")
  case True
  obtain n jobs out where "job_handler_check_timeouts p (rd_now_jobs r) (sv_jobs sv) = Some (n, jobs, out)"
    using check_timeouts_jobs[OF True] by blast
  then show ?thesis
    using True by (auto simp: server_round_step_def worker_manager_check_inactive_def sixty_seconds Let_def split: prod.splits)
next
  case False
  then have "c_mul (g_job_timeout_seconds (sv_jobs sv)) 1000 = None" by (simp add: c_mul_def)
  then have "job_handler_check_timeouts p (rd_now_jobs r) (sv_jobs sv) = None \<longleftrightarrow>
      (\<exists>j \<in> set (g_jobs (sv_jobs sv)). j_job_id j \<noteq> 0 \<and> j_status j = JOB_STATUS_ASSIGNED)"
    by (simp add: job_handler_check_timeouts_def timeout_loop_overflow)
  then show ?thesis using False
    by (auto simp: server_round_step_def worker_manager_check_inactive_def sixty_seconds Let_def split: option.splits prod.splits)
qed

section \<open>Properties\<close>

text \<open>The value of every setting is the one of its last option, or the default.\<close>

theorem server_last_option_counts:
  assumes "server_parse level argv = Some (Inr c)"
  shows "c = server_configured (getopt_long (option_string ''ha:p:c:w:j:t:l:f:'') server_long_options argv) (server_defaults level)"
  using server_loop_configured assms by (simp add: server_parse_def)

text \<open>C29: 
  Every accepted command line gives a configuration in range: whatever the arguments are, the port fits into 16 bits and is not
  0, all counts and the timeout are positive, the log level exists, and address and file name fit into their arrays.
\<close>

theorem accepted_server_args_valid:
  assumes "level_range level" and "server_parse level argv = Some (Inr c)"
  shows "valid_server_args c"
  using server_cmd.accepted_valid assms server_defaults_valid unfolding server_parse_def by blast

theorem accepted_server_args_valid_witness:
  "server_parse 2 [''-p'', ''9000'', ''extra'', ''--max-j=7'', ''-f'', ''server.log''] =
     Some (Inr (server_defaults 2\<lparr>sa_port := 9000, sa_max_jobs := 7, sa_log_file := ''server.log''\<rparr>)) \<and>
   valid_server_args (server_defaults 2\<lparr>sa_port := 9000, sa_max_jobs := 7, sa_log_file := ''server.log''\<rparr>)"
proof -
  have "server_parse 2 [''-p'', ''9000'', ''extra'', ''--max-j=7'', ''-f'', ''server.log''] =
     Some (Inr (server_defaults 2\<lparr>sa_port := 9000, sa_max_jobs := 7, sa_log_file := ''server.log''\<rparr>))" by code_simp
  moreover have "level_range 2" by (simp add: level_range_def)
  ultimately show ?thesis using accepted_server_args_valid by blast
qed

text \<open>A configuration in range that is written out as long options is read back as it was.\<close>

theorem server_args_round_trip:
  assumes "valid_server_args c" and "sa_max_clients c < 2 ^ 31" and "sa_max_workers c < 2 ^ 31" and "sa_max_jobs c < 2 ^ 31"
    and "sa_job_timeout_seconds c < 2 ^ 31"
  shows "server_parse level (server_command_line c) = Some (Inr c)"
proof -
  have g: "getopt_long so server_long_options (server_command_line c) = server_settings c" for so
    unfolding server_command_line_def by (rule getopt_spelled_all[OF server_table_proper server_settings_well_formed])
  have v: "port_range (sa_port c)" "positive (sa_max_clients c)" "positive (sa_max_workers c)" "positive (sa_max_jobs c)"
    "positive (sa_job_timeout_seconds c)" "level_range (sa_log_level c)" "fit_field 16 (sa_ip_address c) = sa_ip_address c"
    "fit_field 256 (sa_log_file c) = sa_log_file c"
    using assms(1) by (simp_all add: valid_server_args_def fit_field_fits)
  have b: "0 \<le> sa_port c" "sa_port c < 2147483648" "0 \<le> sa_log_level c" "sa_log_level c < 2147483648"
    "0 \<le> sa_max_clients c" "0 \<le> sa_max_workers c" "0 \<le> sa_max_jobs c" "0 \<le> sa_job_timeout_seconds c"
    using v by (simp_all add: range_defs)
  show ?thesis
    using v b assms(2-) unfolding server_parse_def g server_settings_def
    by (simp add: server_option_def Let_def number_option_setting)
qed

definition sample_server_args :: server_args where
  "sample_server_args = \<lparr>sa_ip_address = ''10.0.0.1'', sa_port = 80, sa_max_clients = 4, sa_max_workers = 2, sa_max_jobs = 9,
     sa_job_timeout_seconds = 60, sa_log_level = 1, sa_log_file = []\<rparr>"

theorem server_args_round_trip_witness:
  "server_command_line sample_server_args =
     [''--address=10.0.0.1'', ''--port=80'', ''--max-clients=4'', ''--max-workers=2'', ''--max-jobs=9'', ''--job-timeout=60'',
      ''--log-level=1'', ''--log-file=''] \<and>
   server_parse 4 (server_command_line sample_server_args) = Some (Inr sample_server_args)"
proof
  show "server_command_line sample_server_args =
     [''--address=10.0.0.1'', ''--port=80'', ''--max-clients=4'', ''--max-workers=2'', ''--max-jobs=9'', ''--job-timeout=60'',
      ''--log-level=1'', ''--log-file='']" by code_simp
  have "valid_server_args sample_server_args"
    by (simp add: sample_server_args_def valid_server_args_def server_default_defs range_defs)
  then show "server_parse 4 (server_command_line sample_server_args) = Some (Inr sample_server_args)"
    by (rule server_args_round_trip) (simp_all add: sample_server_args_def server_default_defs)
qed

theorem server_last_option_counts_witness:
  "sa_port (server_configured [Opt (CHR ''p'') (Some ''1''), Opt (CHR ''p'') (Some ''2'')] (server_defaults 1)) = 2 \<and>
   server_parse 1 [''-p1'', ''--port'', ''2''] =
     Some (Inr (server_configured (getopt_long (option_string ''ha:p:c:w:j:t:l:f:'') server_long_options [''-p1'', ''--port'', ''2'']) (server_defaults 1)))"
proof -
  have c: "server_parse 1 [''-p1'', ''--port'', ''2''] = Some (Inr (server_defaults 1\<lparr>sa_port := 2\<rparr>))" by code_simp
  have "number_of ''2'' = 2" by code_simp
  then show ?thesis using c server_last_option_counts[OF c] by (simp add: server_configured_def)
qed

text \<open>C28: 
  After the two sweeps of a round no job is assigned for longer than the timeout and every worker that was silent for more than a
  minute is offline; statistics are printed in every tenth round.
\<close>

theorem server_round_sweeps:
  assumes "sv_inv p sv" and "0 \<le> k" and "k < 10" and "server_round_step p r (sv, k) = Some ((sv', k'), stats)"
    and "in_c_int (g_job_timeout_seconds (sv_jobs sv) * 1000)"
  shows "sv_inv p sv' \<and> 0 \<le> k' \<and> k' < 10 \<and> (stats \<noteq> None \<longleftrightarrow> k = 9) \<and>
     list_all (\<lambda>j. \<not> overdue (rd_now_jobs r) (g_job_timeout_seconds (sv_jobs sv) * 1000) j) (g_jobs (sv_jobs sv')) \<and>
     list_all (\<lambda>w. inactive (rd_now_workers r) 60000 w \<longrightarrow> w_status w = WORKER_OFFLINE) (g_workers (sv_workers sv'))"
  using round_sweeps[OF assms] .

theorem server_round_sweeps_witness:
  "\<exists>sv'. server_round_step two_tries \<lparr>rd_now_jobs = 500, rd_now_workers = 100000, rd_others = (\<lambda>sv. sv)\<rparr> (sample_sv, 9) =
       Some ((sv', 0), Some (server_get_stats sv')) \<and> sv_inv two_tries sv' \<and>
     list_all (\<lambda>w. w_worker_id w = 0 \<or> w_last_heartbeat w \<ge> 40000 \<or> w_status w = WORKER_OFFLINE) (g_workers (sv_workers sv'))"
proof -
  let ?r = "\<lparr>rd_now_jobs = 500, rd_now_workers = 100000, rd_others = (\<lambda>sv. sv)\<rparr>"
  have t: "in_c_int (g_job_timeout_seconds (sv_jobs sample_sv) * 1000)"
    by (simp add: sample_sv_def handler_of_def in_c_int_def)
  obtain n jobs out where j: "job_handler_check_timeouts two_tries 500 (sv_jobs sample_sv) = Some (n, jobs, out)"
    using check_timeouts_jobs[OF t] by blast
  obtain m ws where w: "worker_manager_check_inactive 100000 60 (sv_workers sample_sv) = Some (m, ws)"
    using check_inactive_eq[OF _ sixty_seconds] sample_sv_inv by (fastforce simp: sv_inv_def)
  have s: "server_round_step two_tries ?r (sample_sv, 9) =
      Some ((sample_sv\<lparr>sv_jobs := jobs, sv_workers := ws\<rparr>, 0), Some (server_get_stats (sample_sv\<lparr>sv_jobs := jobs, sv_workers := ws\<rparr>)))"
    by (simp add: server_round_step_def j w Let_def)
  show ?thesis
    using s server_round_sweeps[OF sample_sv_inv _ _ s t] by (auto simp: list_all_iff inactive_def)
qed

text \<open>
  A timeout of more than 2147483 seconds is accepted on the command line, but its milliseconds do not fit into \<open>int\<close>: then a round
  is undefined exactly if a job is assigned.
\<close>

theorem server_round_undefined_iff:
  "server_round_step p r (sv, k) = None \<longleftrightarrow>
     \<not> in_c_int (g_job_timeout_seconds (sv_jobs sv) * 1000) \<and>
     (\<exists>j \<in> set (g_jobs (sv_jobs sv)). j_job_id j \<noteq> 0 \<and> j_status j = JOB_STATUS_ASSIGNED)"
  by (rule round_undefined_iff)

text \<open>Statistics are printed in every tenth round.\<close>

lemma server_loop_statistics:
  "server_loop p rs (sv, k) = Some ((sv', k'), out) \<Longrightarrow> 0 \<le> k \<Longrightarrow> k < 10 \<Longrightarrow>
     10 * int (length out) + k' = k + int (length rs) \<and> 0 \<le> k' \<and> k' < 10"
proof (induction rs arbitrary: sv k sv' k' out)
  case (Cons r rs)
  obtain sv1 k1 stats where r: "server_round_step p r (sv, k) = Some ((sv1, k1), stats)"
    using Cons.prems(1) by (auto split: option.splits)
  obtain out1 where l: "server_loop p rs (rd_others r sv1, k1) = Some ((sv', k'), out1)"
    and out: "out = (case stats of None \<Rightarrow> [] | Some s \<Rightarrow> [s]) @ out1"
    using Cons.prems(1) r by auto
  have k1: "k1 = (if k + 1 \<ge> 10 then 0 else k + 1)" "stats = None \<longleftrightarrow> k + 1 < 10"
    using server_round_cases[OF r] by (auto simp del: not_None_eq split: if_splits)
  then show ?case using Cons.IH[OF l] Cons.prems(2,3) out by (auto split: option.split if_splits)
qed simp

definition server_running_as :: "job_params \<Rightarrow> int \<Rightarrow> int \<Rightarrow> server \<Rightarrow> bool" where
  "server_running_as p sock timeout sv \<longleftrightarrow> sv_inv p sv \<and> sv_is_running sv \<and> sv_server_socket sv = sock \<and>
     g_job_timeout_seconds (sv_jobs sv) = timeout"

definition keeps_running :: "job_params \<Rightarrow> (server \<Rightarrow> server) \<Rightarrow> bool" where
  "keeps_running p f \<longleftrightarrow> (\<forall>sock timeout sv. server_running_as p sock timeout sv \<longrightarrow> server_running_as p sock timeout (f sv))"

lemma server_loop_runs:
  assumes "list_all (\<lambda>r. keeps_running p (rd_others r)) rs" and "in_c_int (timeout * 1000)"
    and "server_running_as p sock timeout sv" and "0 \<le> k" and "k < 10"
  shows "\<exists>sv' k' out. server_loop p rs (sv, k) = Some ((sv', k'), out) \<and> server_running_as p sock timeout sv'"
  using assms(1,3-)
proof (induction rs arbitrary: sv k)
  case (Cons r rs)
  have t: "in_c_int (g_job_timeout_seconds (sv_jobs sv) * 1000)" using assms(2) Cons.prems(2) by (simp add: server_running_as_def)
  then obtain sv1 k1 stats where r: "server_round_step p r (sv, k) = Some ((sv1, k1), stats)"
    using round_undefined_iff[of p r sv k] by (cases "server_round_step p r (sv, k)") auto
  have inv: "sv_inv p sv1" "0 \<le> k1" "k1 < 10"
    using round_sweeps[OF _ Cons.prems(3,4) r t] Cons.prems(2) by (simp_all add: server_running_as_def)
  have "server_running_as p sock timeout sv1"
    using server_round_cases[OF r] check_timeouts_jobs[OF t, of p "rd_now_jobs r"] Cons.prems(2) inv(1)
    by (auto simp: server_running_as_def)
  then have "server_running_as p sock timeout (rd_others r sv1)"
    using Cons.prems(1) unfolding keeps_running_def by simp
  then obtain sv' k' out where "server_loop p rs (rd_others r sv1, k1) = Some ((sv', k'), out)" "server_running_as p sock timeout sv'"
    using Cons.IH[OF _ _ inv(2,3), of "rd_others r sv1"] Cons.prems(1) by auto
  then show ?case using r by auto
qed simp

text \<open>A client's message keeps the server running as it is.\<close>

lemma client_message_keeps_running:
  "keeps_running p (\<lambda>sv. case server_handle_client_message e s msg sv of Some (_, sv', _) \<Rightarrow> sv' | None \<Rightarrow> sv)"
proof -
  have "sv_is_running sv' = sv_is_running sv \<and> sv_server_socket sv' = sv_server_socket sv \<and>
      g_job_timeout_seconds (sv_jobs sv') = g_job_timeout_seconds (sv_jobs sv)"
    if "server_handle_client_message e s msg sv = Some (r, sv', out)" for sv r sv' out
    using that
    by (auto simp: server_handle_client_message_def Let_def job_handler_submit_def store_job_def
        split: option.splits prod.splits client_body.splits if_splits dest!: reply_Some reply_error_Some)
  then show ?thesis
    using client_message_inv[of p _ e s msg]
    by (auto simp: keeps_running_def server_running_as_def split: option.split)
qed



end
