(* ===== verification/Connection_Owner.thy ===== *)
theory Connection_Owner
  imports Main
begin

text \<open>
  The contract of a program that owns one connection, which the client library and the worker share: what
  its calls do to sockets is a list of events, and the socket it knows of is a function of its state. The
  locale asks of each call how many sockets it opened and forgot; its lemma counts the sockets that
  are open after any sequence of calls.
\<close>

section \<open>Socket events\<close>

datatype 'm conn_io = COpened int | CSent int 'm | CClosed int

fun open_sockets :: "int list \<Rightarrow> 'm conn_io list \<Rightarrow> int list" where
  "open_sockets fds [] = fds"
| "open_sockets fds (COpened fd # io) = open_sockets (fd # fds) io"
| "open_sockets fds (CSent _ _ # io) = open_sockets fds io"
| "open_sockets fds (CClosed fd # io) = open_sockets (remove1 fd fds) io"

lemma open_sockets_append [simp]: "open_sockets fds (io @ io') = open_sockets (open_sockets fds io) io'"
  by (induction fds io rule: open_sockets.induct) simp_all

section \<open>Sequences of calls\<close>

text \<open>\<open>step s k io s'\<close>: a call takes \<open>s\<close> to \<open>s'\<close> with the events \<open>io\<close> and forgets \<open>k\<close> sockets.\<close>

inductive conn_run ::
  "('s \<Rightarrow> nat \<Rightarrow> 'm conn_io list \<Rightarrow> 's \<Rightarrow> bool) \<Rightarrow> 's \<Rightarrow> nat \<Rightarrow> 'm conn_io list \<Rightarrow> 's \<Rightarrow> bool"
  for step where
  conn_refl: "conn_run step s 0 [] s"
| conn_call: "conn_run step s k io t \<Longrightarrow> step t l io' u \<Longrightarrow> conn_run step s (k + l) (io @ io') u"

locale connection_owner =
  fixes inv :: "'s \<Rightarrow> bool"
    and known :: "'s \<Rightarrow> int list"
    and step :: "'s \<Rightarrow> nat \<Rightarrow> 'm conn_io list \<Rightarrow> 's \<Rightarrow> bool"
  assumes preserved: "inv s \<Longrightarrow> step s k io s' \<Longrightarrow> inv s'"
    and account: "inv s \<Longrightarrow> step s k io s' \<Longrightarrow>
      \<exists>lost. length lost = k \<and> (\<forall>rest. open_sockets (known s @ rest) io = known s' @ lost @ rest)"
begin

lemma run_inv: "conn_run step s k io s' \<Longrightarrow> inv s \<Longrightarrow> inv s'"
  by (induction rule: conn_run.induct) (auto intro: preserved)

lemma run_account:
  assumes "conn_run step s k io s'" and "inv s"
  shows "\<exists>lost. length lost = k \<and> open_sockets (known s) io = known s' @ lost"
  using assms
proof (induction rule: conn_run.induct)
  case (conn_call s k io t l io' u)
  obtain lost where "length lost = k" "open_sockets (known s) io = known t @ lost" using conn_call.IH conn_call.prems by blast
  moreover have "inv t" using run_inv conn_call by blast
  then obtain lost' where "length lost' = l" "\<forall>rest. open_sockets (known t @ rest) io' = known u @ lost' @ rest"
    using account[OF _ conn_call.hyps(2)] by blast
  ultimately show ?case by (intro exI[of _ "lost' @ lost"]) simp
qed simp

text \<open>If no call forgets a socket, exactly the known ones are open.\<close>

lemma run_no_leak: "conn_run step s 0 io s' \<Longrightarrow> inv s \<Longrightarrow> open_sockets (known s) io = known s'"
  using run_account by fastforce

end

end
