(* ===== verification/Job_Worker.thy ===== *)
theory Job_Worker
  imports Job_Server Connection_Owner
begin

text \<open>
  The worker of the job server (\<open>worker/worker.c\<close>). It speaks the messages of \<open>Job_Server\<close>: what it sends is a
  \<open>worker_body\<close> with its header, what it receives a \<open>server_msg\<close>. An exchange (\<open>send_message\<close>, then \<open>receive_message\<close>)
  is given by what the two calls answer. The worker's object and the three statistics are one
  record; the mutex is held while the object is read or written and never during an exchange, except in the
  disconnect. \<^const>\<open>None\<close> is a read past the end of the job's data.

  The theory shows what the three kinds of jobs compute, that every job a worker accepts is reported
  and counted once, the states a worker can be in and which sockets it holds open, how the
  heartbeat thread recovers a connection, and a job's way from a client through the job server and this worker
  and back.
\<close>

section \<open>State\<close>

record WorkerConfig =
  wc_server_ip :: "byte list"
  wc_server_port :: int
  wc_worker_ip :: "byte list"
  wc_worker_port :: int
  wc_max_concurrent_jobs :: int
  wc_reconnect_interval_seconds :: int
  wc_heartbeat_interval_seconds :: int
  wc_job_types :: "int list"
  wc_num_job_types :: int

record job_worker =
  wk_config :: WorkerConfig
  wk_worker_id :: int
  wk_server_socket :: int
  wk_is_running :: bool
  wk_is_connected :: bool
  wk_jobs_processed :: int
  wk_jobs_failed :: int
  wk_total_processing_time_ms :: int

datatype worker_msg = WorkerConnectMsg | WorkerMsg worker_header worker_body

type_synonym wk_io = "worker_msg conn_io list"

text \<open>What one exchange answers: the value of \<open>send_message\<close> and the message received, if receiving succeeds.\<close>

record exchange_env =
  xe_send :: int
  xe_reply :: "server_msg option"

definition worker_init :: "bool \<Rightarrow> WorkerConfig option \<Rightarrow> job_worker \<Rightarrow> int \<times> job_worker" where
  "worker_init lock_ok config w =
     (case config of
        None \<Rightarrow> (-1, w)
      | Some cfg \<Rightarrow>
          (if \<not> lock_ok then -1 else 0,
           w\<lparr>wk_config := cfg, wk_worker_id := -1, wk_server_socket := -1, wk_is_running := False, wk_is_connected := False\<rparr>))"

section \<open>Exchanges\<close>

definition wk_exchange :: "exchange_env \<Rightarrow> int \<Rightarrow> worker_msg \<Rightarrow> server_msg option \<times> wk_io" where
  "wk_exchange x sock m = (if xe_send x < 0 then None else xe_reply x, [CSent sock m])"

definition wk_header :: "job_worker \<Rightarrow> worker_header" where
  "wk_header w = \<lparr>wh_message_id = 0, wh_worker_id = wk_worker_id w\<rparr>"

text \<open>The common guard of the requests.\<close>

definition wk_ready :: "job_worker \<Rightarrow> bool" where
  "wk_ready w \<longleftrightarrow> wk_is_connected w \<and> 0 \<le> wk_worker_id w"

text \<open>An exchange that expects an acknowledgment: 0 if it is the one \<open>expected\<close>.\<close>

definition wk_acknowledged ::
  "exchange_env \<Rightarrow> worker_body \<Rightarrow> (server_msg \<Rightarrow> bool) \<Rightarrow> job_worker \<Rightarrow> int \<times> wk_io" where
  "wk_acknowledged x b expected w =
     (if \<not> wk_ready w then (-1, [])
      else (case wk_exchange x (wk_server_socket w) (WorkerMsg (wk_header w) b) of
              (None, io) \<Rightarrow> (-1, io)
            | (Some m, io) \<Rightarrow> (if \<not> expected m then -1 else 0, io)))"

section \<open>Connection and registration\<close>

record worker_connect_env =
  wn_socket :: int
  wn_inet_pton :: int
  wn_connect :: int
  wn_exchange :: exchange_env

definition worker_connect_to_server :: "worker_connect_env \<Rightarrow> job_worker \<Rightarrow> (int \<times> job_worker) \<times> wk_io" where
  "worker_connect_to_server e w =
     (let fd = wn_socket e in
      if fd < 0 then ((-1, w), [])
      else if wn_inet_pton e \<le> 0 then ((-1, w), [COpened fd, CClosed fd])
      else if wn_connect e < 0 then ((-1, w), [COpened fd, CClosed fd])
      else (case wk_exchange (wn_exchange e) fd WorkerConnectMsg of
              (None, io) \<Rightarrow> ((-1, w), COpened fd # io @ [CClosed fd])
            | (Some m, io) \<Rightarrow>
                if m \<noteq> WorkerConnectAck then ((-1, w), COpened fd # io @ [CClosed fd])
                else ((0, w\<lparr>wk_server_socket := fd, wk_is_connected := True\<rparr>), COpened fd # io)))"

text \<open>The acknowledgment of a disconnect is awaited but not looked at.\<close>

definition worker_disconnect_from_server :: "job_worker \<Rightarrow> job_worker \<times> wk_io" where
  "worker_disconnect_from_server w =
     (if \<not> wk_is_connected w then (w, [])
      else (w\<lparr>wk_server_socket := -1, wk_is_connected := False\<rparr>,
            (if 0 \<le> wk_worker_id w then [CSent (wk_server_socket w) (WorkerMsg (wk_header w) WorkerDisconnect)] else []) @
            [CClosed (wk_server_socket w)]))"

text \<open>
  The registration message: the address cut to its field, the configured job types in an array of
  \<open>MAX_JOB_TYPES\<close> that is zero elsewhere. Copying more types than the configuration holds is undefined.
\<close>

definition registration_body :: "nat \<Rightarrow> nat \<Rightarrow> WorkerConfig \<Rightarrow> worker_body option" where
  "registration_body max_job_types ip_size cfg =
     (let num_types = min (wc_num_job_types cfg) (int max_job_types) in
      map_option
        (\<lambda>types. WorkerRegister (Some (take (ip_size - 1) (wc_worker_ip cfg))) (wc_worker_port cfg)
                   (Some (types @ replicate (max_job_types - nat num_types) 0)) num_types)
        (mem_read (wc_job_types cfg) (nat num_types)))"

definition worker_register ::
  "nat \<Rightarrow> nat \<Rightarrow> exchange_env \<Rightarrow> job_worker \<Rightarrow> ((int \<times> job_worker) \<times> wk_io) option" where
  "worker_register max_job_types ip_size x w =
     (if \<not> wk_is_connected w then Some ((-1, w), [])
      else (case registration_body max_job_types ip_size (wk_config w) of
              None \<Rightarrow> None
            | Some b \<Rightarrow>
                Some (case wk_exchange x (wk_server_socket w) (WorkerMsg \<lparr>wh_message_id = 0, wh_worker_id = 0\<rparr> b) of
                        (None, io) \<Rightarrow> ((-1, w), io)
                      | (Some (ErrorResponse _ _), io) \<Rightarrow> ((-1, w), io)
                      | (Some (WorkerRegistered _ i), io) \<Rightarrow> ((0, w\<lparr>wk_worker_id := i\<rparr>), io)
                      | (Some _, io) \<Rightarrow> ((-1, w), io))))"

section \<open>Heartbeats and reports\<close>

definition is_heartbeat_ack :: "server_msg \<Rightarrow> bool" where
  "is_heartbeat_ack m = (case m of WorkerHeartbeatAck _ \<Rightarrow> True | _ \<Rightarrow> False)"

definition is_completion_ack :: "server_msg \<Rightarrow> bool" where
  "is_completion_ack m = (case m of JobCompletionAck _ _ \<Rightarrow> True | _ \<Rightarrow> False)"

definition is_failure_ack :: "server_msg \<Rightarrow> bool" where
  "is_failure_ack m = (case m of JobFailureAck _ _ \<Rightarrow> True | _ \<Rightarrow> False)"

definition worker_send_heartbeat :: "exchange_env \<Rightarrow> job_worker \<Rightarrow> int \<times> wk_io" where
  "worker_send_heartbeat x w = wk_acknowledged x WorkerHeartbeat is_heartbeat_ack w"

definition worker_send_job_completion ::
  "exchange_env \<Rightarrow> int \<Rightarrow> byte list option \<Rightarrow> nat \<Rightarrow> int \<Rightarrow> job_worker \<Rightarrow> int \<times> wk_io" where
  "worker_send_job_completion x job_id result_data result_size processing_time w =
     wk_acknowledged x (WorkerJobCompleted job_id result_data result_size processing_time) is_completion_ack w"

definition worker_send_job_failure :: "exchange_env \<Rightarrow> int \<Rightarrow> int \<Rightarrow> job_worker \<Rightarrow> int \<times> wk_io" where
  "worker_send_job_failure x job_id error_code w =
     wk_acknowledged x (WorkerJobFailed job_id error_code) is_failure_ack w"

section \<open>Processing a job\<close>

definition JOB_TYPE_ECHO :: int where "JOB_TYPE_ECHO = 1"
definition JOB_TYPE_REVERSE :: int where "JOB_TYPE_REVERSE = 2"
definition JOB_TYPE_UPPERCASE :: int where "JOB_TYPE_UPPERCASE = 3"

definition uppercase_byte :: "byte \<Rightarrow> byte" where
  "uppercase_byte b = (if 97 \<le> b \<and> b \<le> 122 then b - 97 + 65 else b)"

text \<open>
  The loops write \<open>data_copy[i]\<close> for every \<open>i\<close> below the size; the switch gives each job type the expression for
  it.
\<close>

definition job_byte :: "int \<Rightarrow> byte list \<Rightarrow> nat \<Rightarrow> nat \<Rightarrow> byte option" where
  "job_byte job_type input_data input_size i =
     (if job_type = JOB_TYPE_ECHO then Some (input_data ! i)
      else if job_type = JOB_TYPE_REVERSE then Some (input_data ! (input_size - i - 1))
      else if job_type = JOB_TYPE_UPPERCASE then Some (uppercase_byte (input_data ! i))
      else None)"

definition supported_type :: "int \<Rightarrow> bool" where
  "supported_type job_type \<longleftrightarrow>
     job_type = JOB_TYPE_ECHO \<or> job_type = JOB_TYPE_REVERSE \<or> job_type = JOB_TYPE_UPPERCASE"

text \<open>
  The return value, the result data and their size. \<open>malloc_ok\<close> is whether the one allocation succeeds (for an empty input it
  may return a null pointer, which counts as a failure).
\<close>

definition worker_process_job ::
  "bool \<Rightarrow> int \<Rightarrow> byte list option \<Rightarrow> nat \<Rightarrow> (int \<times> byte list option \<times> nat) option" where
  "worker_process_job malloc_ok job_type input_data input_size =
     (if \<not> supported_type job_type then Some (-1, None, 0)
      else if \<not> malloc_ok then Some (-1, None, 0)
      else (case mem_read (case input_data of None \<Rightarrow> [] | Some d \<Rightarrow> d) input_size of
              None \<Rightarrow> None
            | Some d \<Rightarrow>
                Some (0, Some (map (\<lambda>i. the (job_byte job_type d input_size i)) [0 ..< input_size]), input_size)))"

section \<open>Requesting a job\<close>

text \<open>
  What \<open>worker_request_job\<close> needs: the answers of the request and of the report that may follow it, the allocation and the two clock
  readings around the processing. The error code is a macro of the empty header.
\<close>

record request_env =
  rq_request :: exchange_env
  rq_report :: exchange_env
  rq_malloc :: bool
  rq_start :: int
  rq_end :: int
  rq_failed_code :: int

text \<open>After a job has been assigned: process it, report it, count it.\<close>

definition worker_run_job ::
  "request_env \<Rightarrow> int \<Rightarrow> int \<Rightarrow> byte list option \<Rightarrow> nat \<Rightarrow> job_worker \<Rightarrow> ((int \<times> job_worker) \<times> wk_io) option" where
  "worker_run_job e job_id job_type input_data input_size w =
     (let processing_time = rq_end e - rq_start e in
      case worker_process_job (rq_malloc e) job_type input_data input_size of
        None \<Rightarrow> None
      | Some (r, result_data, result_size) \<Rightarrow>
          if r < 0
          then (case worker_send_job_failure (rq_report e) job_id (rq_failed_code e) w of
                  (_, io) \<Rightarrow> Some ((job_id, w\<lparr>wk_jobs_failed := wk_jobs_failed w + 1\<rparr>), io))
          else (case worker_send_job_completion (rq_report e) job_id result_data result_size processing_time w of
                  (q, io) \<Rightarrow>
                    if q < 0 then Some ((job_id, w\<lparr>wk_jobs_failed := wk_jobs_failed w + 1\<rparr>), io)
                    else Some ((job_id, w\<lparr>wk_jobs_processed := wk_jobs_processed w + 1,
                                          wk_total_processing_time_ms := wk_total_processing_time_ms w + processing_time\<rparr>), io)))"

definition worker_request_job :: "request_env \<Rightarrow> job_worker \<Rightarrow> ((int \<times> job_worker) \<times> wk_io) option" where
  "worker_request_job e w =
     (if \<not> wk_ready w then Some ((-1, w), [])
      else (case wk_exchange (rq_request e) (wk_server_socket w) (WorkerMsg (wk_header w) RequestJob) of
              (None, io) \<Rightarrow> Some ((-1, w), io)
            | (Some (NoJobAvailable _), io) \<Rightarrow> Some ((0, w), io)
            | (Some (FromJobHandler (JobAssigned job_id job_type data n)), io) \<Rightarrow>
                map_option (\<lambda>(r, io'). (r, io @ io')) (worker_run_job e job_id job_type data n w)
            | (Some _, io) \<Rightarrow> Some ((-1, w), io)))"

text \<open>Jobs processed, jobs failed, and the average as total and count (0 over 1 if none was processed).\<close>

definition worker_get_stats :: "job_worker \<Rightarrow> int \<times> int \<times> (int \<times> int)" where
  "worker_get_stats w =
     (wk_jobs_processed w, wk_jobs_failed w,
      if wk_jobs_processed w > 0 then (wk_total_processing_time_ms w, wk_jobs_processed w) else (0, 1))"

section \<open>Threads, start and stop\<close>

record worker_env =
  wv_connect :: worker_connect_env
  wv_register :: exchange_env
  wv_max_job_types :: nat
  wv_ip_size :: nat

definition wk_connect_register :: "worker_env \<Rightarrow> job_worker \<Rightarrow> ((int \<times> job_worker) \<times> wk_io) option" where
  "wk_connect_register e w =
     (case worker_connect_to_server (wv_connect e) w of
        ((r, w1), io1) \<Rightarrow>
          if r < 0 then Some ((-1, w1), io1)
          else (case worker_register (wv_max_job_types e) (wv_ip_size e) (wv_register e) w1 of
                  None \<Rightarrow> None
                | Some ((q, w2), io2) \<Rightarrow>
                    if q < 0
                    then (case worker_disconnect_from_server w2 of (w3, io3) \<Rightarrow> Some ((-1, w3), io1 @ io2 @ io3))
                    else Some ((0, w2), io1 @ io2)))"

text \<open>
  One iteration of the heartbeat thread: \<^const>\<open>False\<close> if it stops. The interval it then sleeps does not change the
  state.
\<close>

definition heartbeat_iteration ::
  "exchange_env \<Rightarrow> worker_env \<Rightarrow> job_worker \<Rightarrow> ((bool \<times> job_worker) \<times> wk_io) option" where
  "heartbeat_iteration x e w =
     (if \<not> wk_is_running w then Some ((False, w), [])
      else (case worker_send_heartbeat x w of
              (r, io1) \<Rightarrow>
                if \<not> r < 0 then Some ((True, w), io1)
                else (case worker_disconnect_from_server w of
                        (w1, io2) \<Rightarrow>
                          map_option (\<lambda>((_, w2), io3). ((True, w2), io1 @ io2 @ io3)) (wk_connect_register e w1))))"

definition job_iteration :: "request_env \<Rightarrow> job_worker \<Rightarrow> ((bool \<times> job_worker) \<times> wk_io) option" where
  "job_iteration e w =
     (if \<not> wk_is_running w then Some ((False, w), [])
      else if \<not> wk_is_connected w then Some ((True, w), [])
      else map_option (\<lambda>((_, w1), io). ((True, w1), io)) (worker_request_job e w))"

definition worker_start ::
  "worker_env \<Rightarrow> bool \<Rightarrow> bool \<Rightarrow> job_worker \<Rightarrow> ((int \<times> job_worker) \<times> wk_io) option" where
  "worker_start e heartbeat_thread_ok job_thread_ok w =
     (if wk_is_running w then Some ((-1, w), [])
      else (case wk_connect_register e (w\<lparr>wk_is_running := True\<rparr>) of
              None \<Rightarrow> None
            | Some ((r, w1), io) \<Rightarrow>
                if r < 0 then Some ((-1, w1\<lparr>wk_is_running := False\<rparr>), io)
                else if \<not> heartbeat_thread_ok \<or> \<not> job_thread_ok
                then (case worker_disconnect_from_server w1 of
                        (w2, io2) \<Rightarrow> Some ((-1, w2\<lparr>wk_is_running := False\<rparr>), io @ io2))
                else Some ((0, w1), io)))"

definition worker_stop :: "job_worker \<Rightarrow> (int \<times> job_worker) \<times> wk_io" where
  "worker_stop w =
     (if \<not> wk_is_running w then ((-1, w), [])
      else (case worker_disconnect_from_server (w\<lparr>wk_is_running := False\<rparr>) of (w1, io) \<Rightarrow> ((0, w1), io)))"

section \<open>Lemmas\<close>

lemma uppercase_byte_idem: "uppercase_byte (uppercase_byte b) = uppercase_byte b"
proof (cases "97 \<le> b \<and> b \<le> 122")
  case True
  then have "uint (b - 97 + 65) = uint b - 32" by (simp add: word_le_def uint_word_ariths)
  then show ?thesis using True by (simp add: uppercase_byte_def word_le_def)
qed (simp add: uppercase_byte_def)

text \<open>What each job type is meant to compute.\<close>

definition job_function :: "int \<Rightarrow> byte list \<Rightarrow> byte list" where
  "job_function job_type d =
     (if job_type = JOB_TYPE_ECHO then d else if job_type = JOB_TYPE_REVERSE then rev d else map uppercase_byte d)"

lemma length_job_function [simp]: "length (job_function t d) = length d"
  by (simp add: job_function_def)

lemma job_bytes:
  assumes "supported_type t" and "length d = n"
  shows "map (\<lambda>i. the (job_byte t d n i)) [0 ..< n] = job_function t d"
  by (rule nth_equalityI)
     (use assms in \<open>auto simp: job_byte_def job_function_def supported_type_def rev_nth JOB_TYPE_ECHO_def
        JOB_TYPE_REVERSE_def JOB_TYPE_UPPERCASE_def\<close>)

lemma process_job:
  "worker_process_job ok t (Some d) n =
     (if supported_type t \<and> ok
      then (if n \<le> length d then Some (0, Some (job_function t (take n d)), n) else None)
      else Some (-1, None, 0))"
  by (auto simp: worker_process_job_def mem_read_def job_bytes)

lemma acknowledged_io:
  "wk_ready w \<Longrightarrow> snd (wk_acknowledged x b expected w) = [CSent (wk_server_socket w) (WorkerMsg (wk_header w) b)]"
  by (simp add: wk_acknowledged_def wk_exchange_def split: option.split)

lemma acknowledged_open [simp]: "open_sockets fds (snd (wk_acknowledged x b expected w)) = fds"
  by (simp add: wk_acknowledged_def wk_exchange_def split: option.split)

lemma acknowledged_openI: "wk_acknowledged x b expected w = (r, io) \<Longrightarrow> open_sockets fds io = fds"
  using acknowledged_open by (metis snd_conv)

text \<open>A job of a supported type is processed, its result is sent, and the worker counts it.\<close>

lemma request_job_completed:
  assumes "wk_ready w" and "rq_request e = \<lparr>xe_send = 0, xe_reply = Some (FromJobHandler (JobAssigned k t (Some d) n))\<rparr>"
    and "n \<le> length d" and "supported_type t" and "rq_malloc e"
    and "rq_report e = \<lparr>xe_send = 0, xe_reply = Some (JobCompletionAck h i)\<rparr>"
  shows "worker_request_job e w = Some ((k, w\<lparr>wk_jobs_processed := wk_jobs_processed w + 1,
      wk_total_processing_time_ms := wk_total_processing_time_ms w + (rq_end e - rq_start e)\<rparr>),
     [CSent (wk_server_socket w) (WorkerMsg (wk_header w) RequestJob),
      CSent (wk_server_socket w) (WorkerMsg (wk_header w)
        (WorkerJobCompleted k (Some (job_function t (take n d))) n (rq_end e - rq_start e)))])"
  using assms
  by (simp add: worker_request_job_def wk_exchange_def worker_run_job_def process_job worker_send_job_completion_def
      wk_acknowledged_def is_completion_ack_def Let_def)

section \<open>Properties\<close>

text \<open>C14: The loops of the three job types compute the echo, the reversal and the upper-case version of exactly the
  announced number of input bytes; other types and a failed allocation are errors without a result; an announced
  size beyond the data is read past the end.\<close>

theorem worker_process_job_spec:
  "worker_process_job ok t (Some d) n =
     (if supported_type t \<and> ok
      then (if n \<le> length d then Some (0, Some (job_function t (take n d)), n) else None)
      else Some (-1, None, 0)) \<and>
   job_function JOB_TYPE_REVERSE (job_function JOB_TYPE_REVERSE d) = d \<and>
   job_function JOB_TYPE_UPPERCASE (job_function JOB_TYPE_UPPERCASE d) = job_function JOB_TYPE_UPPERCASE d"
proof -
  have "map (uppercase_byte \<circ> uppercase_byte) d = map uppercase_byte d" by (simp add: uppercase_byte_idem)
  then show ?thesis
    using process_job
    by (simp add: job_function_def JOB_TYPE_ECHO_def JOB_TYPE_REVERSE_def JOB_TYPE_UPPERCASE_def)
qed


definition sample_wk :: job_worker where
  "sample_wk = \<lparr>wk_config = \<lparr>wc_server_ip = [48], wc_server_port = 8888, wc_worker_ip = [49], wc_worker_port = 9000,
        wc_max_concurrent_jobs = 1, wc_reconnect_interval_seconds = 5, wc_heartbeat_interval_seconds = 10, wc_job_types = [1, 2, 3], wc_num_job_types = 3\<rparr>,
     wk_worker_id = 1, wk_server_socket = 6, wk_is_running = True, wk_is_connected = True,
     wk_jobs_processed = 0, wk_jobs_failed = 0, wk_total_processing_time_ms = 0\<rparr>"

definition sample_rq :: "server_msg \<Rightarrow> server_msg \<Rightarrow> request_env" where
  "sample_rq m m' = \<lparr>rq_request = \<lparr>xe_send = 0, xe_reply = Some m\<rparr>, rq_report = \<lparr>xe_send = 0, xe_reply = Some m'\<rparr>,
     rq_malloc = True, rq_start = 100, rq_end = 130, rq_failed_code = 7\<rparr>"


section \<open>The life of a worker\<close>

text \<open>
  The calls of the main program and the iterations of the two threads, with any environment. \<open>worker_stop\<close> joins both threads
  before it disconnects, so an iteration is over when it does.
\<close>

inductive worker_step :: "job_worker \<Rightarrow> nat \<Rightarrow> wk_io \<Rightarrow> job_worker \<Rightarrow> bool" where
  step_start: "worker_start e hb jt w = Some ((r, w'), io) \<Longrightarrow> worker_step w 0 io w'"
| step_stop: "worker_stop w = ((r, w'), io) \<Longrightarrow> worker_step w 0 io w'"
| step_heartbeat: "heartbeat_iteration x e w = Some ((b, w'), io) \<Longrightarrow> worker_step w 0 io w'"
| step_job: "job_iteration rq w = Some ((b, w'), io) \<Longrightarrow> worker_step w 0 io w'"

text \<open>A worker that is not running is not connected; the socket is recorded exactly while it is connected.\<close>

definition wk_inv :: "job_worker \<Rightarrow> bool" where
  "wk_inv w \<longleftrightarrow> (wk_is_connected w \<longrightarrow> wk_is_running w \<and> 0 \<le> wk_server_socket w) \<and>
     (\<not> wk_is_connected w \<longrightarrow> wk_server_socket w = -1)"

definition wk_known :: "job_worker \<Rightarrow> int list" where
  "wk_known w = (if wk_is_connected w then [wk_server_socket w] else [])"

text \<open>What a call did: it kept the running flag, and the sockets are accounted for.\<close>

definition wk_balanced :: "job_worker \<Rightarrow> wk_io \<Rightarrow> job_worker \<Rightarrow> bool" where
  "wk_balanced w io w' \<longleftrightarrow> wk_is_running w' = wk_is_running w \<and>
     (\<forall>rest. open_sockets (wk_known w @ rest) io = wk_known w' @ rest)"

lemma wk_balanced_trans: "wk_balanced u io v \<Longrightarrow> wk_balanced v io' w \<Longrightarrow> wk_balanced u (io @ io') w"
  by (simp add: wk_balanced_def)

lemma wk_disconnect:
  assumes "worker_disconnect_from_server w = (w', io)" and "wk_inv w"
  shows "wk_balanced w io w' \<and> wk_inv w' \<and> \<not> wk_is_connected w' \<and> wk_config w' = wk_config w"
  using assms by (auto simp: worker_disconnect_from_server_def wk_balanced_def wk_known_def wk_inv_def split: if_splits)

lemma wk_connect:
  assumes "worker_connect_to_server e w = ((r, w'), io)" and "wk_inv w" and "\<not> wk_is_connected w" and "wk_is_running w"
  shows "wk_balanced w io w' \<and> wk_inv w' \<and> wk_config w' = wk_config w \<and> (wk_is_connected w' \<longleftrightarrow> r = 0) \<and> (r = 0 \<or> r = -1)"
  using assms
  by (auto simp: worker_connect_to_server_def wk_exchange_def Let_def wk_balanced_def wk_known_def wk_inv_def
      split: if_splits option.splits)

lemma wk_register:
  assumes "worker_register mj ip x w = Some ((r, w'), io)"
  shows "w' = w\<lparr>wk_worker_id := wk_worker_id w'\<rparr> \<and> (\<forall>fds. open_sockets fds io = fds)"
  using assms
  by (auto simp: worker_register_def wk_exchange_def split: if_splits option.splits server_msg.splits)

lemma wk_connect_register_balanced:
  assumes "wk_connect_register e w = Some ((r, w'), io)" and "wk_inv w" and "\<not> wk_is_connected w" and "wk_is_running w"
  shows "wk_balanced w io w' \<and> wk_inv w' \<and> (r < 0 \<longrightarrow> \<not> wk_is_connected w')"
proof -
  obtain r1 w1 io1 where 1: "worker_connect_to_server (wv_connect e) w = ((r1, w1), io1)" by (metis surj_pair)
  note c = wk_connect[OF 1 assms(2-4)]
  show ?thesis
  proof (cases "r1 < 0")
    case True
    then show ?thesis using assms(1) 1 c by (auto simp: wk_connect_register_def)
  next
    case False
    obtain q w2 io2 where 2: "worker_register (wv_max_job_types e) (wv_ip_size e) (wv_register e) w1 = Some ((q, w2), io2)"
      using assms(1) 1 False by (auto simp: wk_connect_register_def split: option.splits)
    obtain i where w2: "w2 = w1\<lparr>wk_worker_id := i\<rparr>" and o2: "\<And>fds. open_sockets fds io2 = fds" using wk_register[OF 2] by blast
    have b2: "wk_balanced w1 io2 w2" "wk_inv w2" using c o2 assms(4) by (auto simp: w2 wk_balanced_def wk_known_def wk_inv_def)
    obtain w3 io3 where 3: "worker_disconnect_from_server w2 = (w3, io3)" by fastforce
    show ?thesis
      using assms(1) 1 2 3 False c b2 wk_disconnect[OF 3 b2(2)]
      by (auto simp: wk_connect_register_def split: if_splits intro: wk_balanced_trans)
  qed
qed

lemma wk_request_job:
  assumes "worker_request_job e w = Some ((r, w'), io)"
  shows "wk_balanced w io w' \<and> (wk_inv w \<longrightarrow> wk_inv w')"
proof -
  have run: "wk_balanced w io2 w2 \<and> (wk_inv w \<longrightarrow> wk_inv w2)"
    if "worker_run_job e k t d n w = Some ((r2, w2), io2)" for k t d n r2 w2 io2
  proof -
    have "open_sockets fds io2 = fds" for fds
      using that
      by (auto simp: worker_run_job_def Let_def worker_send_job_failure_def worker_send_job_completion_def
          split: option.splits prod.splits if_splits intro: acknowledged_openI)
    moreover have "wk_known w2 = wk_known w" "wk_is_running w2 = wk_is_running w" "wk_inv w2 = wk_inv w"
      using that by (auto simp: worker_run_job_def Let_def wk_known_def wk_inv_def split: option.splits prod.splits if_splits)
    ultimately show ?thesis by (simp add: wk_balanced_def)
  qed
  have id: "wk_balanced w [CSent s m] w" "wk_balanced w [] w" for s m by (simp_all add: wk_balanced_def)
  show ?thesis
    using assms run
    by (auto simp: worker_request_job_def wk_exchange_def id split: if_splits option.splits server_msg.splits job_msg.splits)
       (auto simp: wk_balanced_def)
qed

lemma worker_step_balanced:
  assumes "worker_step w k io w'" and "wk_inv w"
  shows "wk_inv w' \<and> (\<forall>rest. open_sockets (wk_known w @ rest) io = wk_known w' @ rest) \<and> k = 0"
  using assms
proof (cases rule: worker_step.cases)
  case (step_stop r)
  obtain w1 io1 where d: "worker_disconnect_from_server (w\<lparr>wk_is_running := False\<rparr>) = (w1, io1)" by fastforce
  have "wk_inv w1 \<and> (\<forall>rest. open_sockets (wk_known w @ rest) io1 = wk_known w1 @ rest)"
    using d assms(2) by (auto simp: worker_disconnect_from_server_def wk_inv_def wk_known_def split: if_splits)
  then show ?thesis using step_stop d assms(2) by (auto simp: worker_stop_def split: if_splits)
next
  case (step_job rq b)
  then show ?thesis
    using wk_request_job[of rq w] assms(2) by (auto simp: job_iteration_def wk_balanced_def split: if_splits)
next
  case (step_heartbeat x e b)
  obtain r io1 where h: "worker_send_heartbeat x w = (r, io1)" by fastforce
  have o1: "open_sockets fds io1 = fds" for fds using h acknowledged_open by (metis snd_conv worker_send_heartbeat_def)
  obtain w1 io2 where d: "worker_disconnect_from_server w = (w1, io2)" by fastforce
  note dd = wk_disconnect[OF d assms(2)]
  show ?thesis
  proof (cases "wk_is_running w \<and> r < 0")
    case True
    then obtain q io3 where c: "wk_connect_register e w1 = Some ((q, w'), io3)" "io = io1 @ io2 @ io3"
      using step_heartbeat h d by (auto simp: heartbeat_iteration_def)
    have "wk_is_running w1" using dd True by (simp add: wk_balanced_def)
    then show ?thesis
      using wk_connect_register_balanced[OF c(1)] dd c(2) o1 step_heartbeat(1) by (auto simp: wk_balanced_def)
  next
    case False
    then show ?thesis using step_heartbeat h o1 assms(2) by (auto simp: heartbeat_iteration_def split: if_splits)
  qed
next
  case (step_start e hb jt r)
  show ?thesis
  proof (cases "wk_is_running w")
    case False
    let ?w = "w\<lparr>wk_is_running := True\<rparr>"
    have w: "wk_inv ?w" "\<not> wk_is_connected ?w" "wk_is_running ?w" "wk_known ?w = wk_known w"
      using assms(2) False by (auto simp: wk_inv_def wk_known_def)
    obtain q w1 io1 where c: "wk_connect_register e ?w = Some ((q, w1), io1)"
      using step_start False by (auto simp: worker_start_def split: option.splits)
    note b = wk_connect_register_balanced[OF c w(1-3)]
    obtain w2 io2 where d: "worker_disconnect_from_server w1 = (w2, io2)" by fastforce
    have off: "wk_inv (v\<lparr>wk_is_running := False\<rparr>)" "wk_known (v\<lparr>wk_is_running := False\<rparr>) = wk_known v"
      if "wk_inv v" "\<not> wk_is_connected v" for v using that by (auto simp: wk_inv_def wk_known_def)
    show ?thesis
      using step_start False c d b wk_disconnect[OF d] off w(4)
      by (auto simp: worker_start_def wk_balanced_def split: if_splits)
  qed (use step_start assms(2) in \<open>auto simp: worker_start_def\<close>)
qed

interpretation worker_conn: connection_owner wk_inv wk_known worker_step
  by unfold_locales (use worker_step_balanced in fastforce)+

text \<open>Whatever calls are made, with whatever outcomes, the only socket a worker has open is the one it is connected
  with, and a worker that is not running has none.\<close>

theorem worker_sockets_accounted:
  assumes "worker_init True (Some cfg) w0 = (0, w1)" and "conn_run worker_step w1 k io w"
  shows "open_sockets [] io = wk_known w \<and> (\<not> wk_is_running w \<longrightarrow> open_sockets [] io = [])"
proof -
  have i: "wk_inv w1" "wk_known w1 = []" using assms(1) by (auto simp: worker_init_def wk_inv_def wk_known_def)
  have "k = 0" using assms(2) i(1)
  proof (induction rule: conn_run.induct)
    case (conn_call s k io t l io' u)
    then show ?case using worker_step_balanced worker_conn.run_inv by fastforce
  qed simp
  then have "open_sockets [] io = wk_known w" using worker_conn.run_no_leak assms(2) i by metis
  moreover have "wk_inv w" using worker_conn.run_inv[OF assms(2) i(1)] .
  ultimately show ?thesis by (auto simp: wk_inv_def wk_known_def)
qed

text \<open>An environment in which connecting and registering succeed.\<close>

definition wk_welcome :: "worker_env \<Rightarrow> WorkerConfig \<Rightarrow> int \<Rightarrow> bool" where
  "wk_welcome e cfg i \<longleftrightarrow>
     0 \<le> wn_socket (wv_connect e) \<and> 0 < wn_inet_pton (wv_connect e) \<and> 0 \<le> wn_connect (wv_connect e) \<and>
     wn_exchange (wv_connect e) = \<lparr>xe_send = 0, xe_reply = Some WorkerConnectAck\<rparr> \<and>
     (\<exists>h. wv_register e = \<lparr>xe_send = 0, xe_reply = Some (WorkerRegistered h i)\<rparr>) \<and>
     registration_body (wv_max_job_types e) (wv_ip_size e) cfg \<noteq> None"

lemma wk_connect_register_welcome:
  assumes "wk_welcome e (wk_config w) i"
  shows "\<exists>io. wk_connect_register e w =
    Some ((0, w\<lparr>wk_server_socket := wn_socket (wv_connect e), wk_is_connected := True, wk_worker_id := i\<rparr>), io)"
  using assms
  by (auto simp: wk_welcome_def wk_connect_register_def worker_connect_to_server_def worker_register_def
      wk_exchange_def Let_def)

lemma wk_connect_register_config:
  "wk_connect_register e w = Some ((r, w'), io) \<Longrightarrow> wk_config w' = wk_config w \<and> wk_is_running w' = wk_is_running w"
proof -
  assume a: "wk_connect_register e w = Some ((r, w'), io)"
  obtain r1 w1 io1 where 1: "worker_connect_to_server (wv_connect e) w = ((r1, w1), io1)" by (metis surj_pair)
  have w1: "wk_config w1 = wk_config w" "wk_is_running w1 = wk_is_running w"
    using 1 by (auto simp: worker_connect_to_server_def Let_def split: if_splits option.splits prod.splits)
  have w2: "wk_config w2 = wk_config w" "wk_is_running w2 = wk_is_running w"
    if reg: "worker_register mj ip x w1 = Some ((q, w2), io2)" for mj ip x q w2 io2
  proof -
    obtain v where "w2 = w1\<lparr>wk_worker_id := v\<rparr>" using wk_register[OF reg] by blast
    then show "wk_config w2 = wk_config w" "wk_is_running w2 = wk_is_running w" using w1 by simp_all
  qed
  show ?thesis
    using a 1 w1 w2
    by (auto simp: wk_connect_register_def worker_disconnect_from_server_def split: if_splits option.splits)
qed

lemma disconnect_keeps:
  "worker_disconnect_from_server w = (w', io) \<Longrightarrow> wk_config w' = wk_config w \<and> wk_is_running w' = wk_is_running w"
  by (auto simp: worker_disconnect_from_server_def split: if_splits)

lemma heartbeat_iteration_keeps:
  assumes "heartbeat_iteration x e w = Some ((b, w'), io)"
  shows "wk_config w' = wk_config w \<and> wk_is_running w' = wk_is_running w \<and> b = wk_is_running w"
proof -
  obtain w1 io1 where d: "worker_disconnect_from_server w = (w1, io1)" by fastforce
  show ?thesis
    using assms disconnect_keeps[OF d] wk_connect_register_config[of e w1]
    by (auto simp: heartbeat_iteration_def d split: if_splits prod.splits)
qed

text \<open>The heartbeat thread: iterations until one stops it or the list of environments ends.\<close>

fun heartbeat_loop :: "(exchange_env \<times> worker_env) list \<Rightarrow> job_worker \<Rightarrow> job_worker option" where
  "heartbeat_loop [] w = Some w"
| "heartbeat_loop ((x, e) # es) w =
     (case heartbeat_iteration x e w of
        None \<Rightarrow> None
      | Some ((b, w'), _) \<Rightarrow> if b then heartbeat_loop es w' else Some w')"

lemma heartbeat_loop_append:
  assumes "heartbeat_loop es w = Some w1" and "wk_is_running w"
  shows "heartbeat_loop (es @ es') w = heartbeat_loop es' w1 \<and> wk_is_running w1 \<and> wk_config w1 = wk_config w"
  using assms
proof (induction es arbitrary: w)
  case (Cons p es)
  obtain x e where p: "p = (x, e)" by fastforce
  obtain b w' io where h: "heartbeat_iteration x e w = Some ((b, w'), io)" using Cons.prems p by (auto split: option.splits)
  note k = heartbeat_iteration_keeps[OF h]
  then have b: b using Cons.prems(2) by simp
  then have "heartbeat_loop es w' = Some w1" using Cons.prems(1) p h by simp
  then show ?case using Cons.IH[of w'] k Cons.prems(2) p h b by simp
qed simp

text \<open>The heartbeat thread recovers a lost connection: however its earlier iterations went, one iteration in which the
  server can be reached and accepts the registration leaves the worker connected, under its new identifier
  if the heartbeat had failed.\<close>

theorem heartbeat_recovers:
  assumes "wk_is_running w" and "heartbeat_loop es w = Some w1" and "wk_welcome e (wk_config w) i"
  shows "\<exists>w2. heartbeat_loop (es @ [(x, e)]) w = Some w2 \<and> wk_is_connected w2 \<and> wk_is_running w2 \<and>
    (fst (worker_send_heartbeat x w1) < 0 \<longrightarrow> wk_worker_id w2 = i)"
proof -
  note a = heartbeat_loop_append[OF assms(2,1), of "[(x, e)]"]
  obtain r io1 where h: "worker_send_heartbeat x w1 = (r, io1)" by fastforce
  obtain v io2 where d: "worker_disconnect_from_server w1 = (v, io2)" by fastforce
  show ?thesis
  proof (cases "r < 0")
    case True
    have "wk_welcome e (wk_config v) i" using assms(3) a disconnect_keeps[OF d] by simp
    from wk_connect_register_welcome[OF this] obtain io3 where
      "wk_connect_register e v = Some ((0, v\<lparr>wk_server_socket := wn_socket (wv_connect e), wk_is_connected := True, wk_worker_id := i\<rparr>), io3)"
      by blast
    then show ?thesis using a h d True disconnect_keeps[OF d] by (simp add: heartbeat_iteration_def)
  next
    case False
    then have "wk_is_connected w1"
      using h by (auto simp: worker_send_heartbeat_def wk_acknowledged_def wk_ready_def split: if_splits)
    then show ?thesis using a h False by (simp add: heartbeat_iteration_def)
  qed
qed

definition sample_welcome :: worker_env where
  "sample_welcome = \<lparr>wv_connect = \<lparr>wn_socket = 8, wn_inet_pton = 1, wn_connect = 0,
        wn_exchange = \<lparr>xe_send = 0, xe_reply = Some WorkerConnectAck\<rparr>\<rparr>,
     wv_register = \<lparr>xe_send = 0, xe_reply = Some (WorkerRegistered \<lparr>wh_message_id = 0, wh_worker_id = 0\<rparr> 2)\<rparr>,
     wv_max_job_types = 10, wv_ip_size = 16\<rparr>"

definition sample_lost :: worker_env where
  "sample_lost = sample_welcome\<lparr>wv_connect := (wv_connect sample_welcome)\<lparr>wn_connect := -1\<rparr>\<rparr>"

definition no_answer :: exchange_env where "no_answer = \<lparr>xe_send = -1, xe_reply = None\<rparr>"

lemma sample_welcome_ok: "wk_welcome sample_welcome (wk_config sample_wk) 2"
  by (simp add: wk_welcome_def sample_welcome_def sample_wk_def registration_body_def mem_read_def Let_def)

lemmas sample_worker_simps = sample_welcome_def sample_lost_def sample_wk_def no_answer_def heartbeat_iteration_def
  worker_send_heartbeat_def wk_acknowledged_def wk_ready_def wk_exchange_def worker_disconnect_from_server_def
  wk_connect_register_def worker_connect_to_server_def

theorem heartbeat_recovers_witness:
  "\<exists>w2. heartbeat_loop ([(no_answer, sample_lost)] @ [(no_answer, sample_welcome)]) sample_wk = Some w2 \<and> wk_worker_id w2 = 2"
proof -
  obtain w1 where w1: "heartbeat_loop [(no_answer, sample_lost)] sample_wk = Some w1" "\<not> wk_is_connected w1"
    by (simp add: sample_worker_simps)
  have "wk_is_running sample_wk" by (simp add: sample_wk_def)
  from heartbeat_recovers[OF this w1(1) sample_welcome_ok, of no_answer] w1(2) show ?thesis
    by (auto simp: worker_send_heartbeat_def wk_acknowledged_def wk_ready_def)
qed

theorem worker_sockets_accounted_witness:
  "\<exists>w1 w io. conn_run worker_step w1 0 io w \<and> open_sockets [] io = [8] \<and> wk_known w = [8]"
proof -
  obtain w1 where init: "worker_init True (Some (wk_config sample_wk)) sample_wk = (0, w1)" and c: "wk_config w1 = wk_config sample_wk"
    and r: "\<not> wk_is_running w1" by (simp add: worker_init_def sample_wk_def)
  have "wk_welcome sample_welcome (wk_config (w1\<lparr>wk_is_running := True\<rparr>)) 2" using sample_welcome_ok c by simp
  from wk_connect_register_welcome[OF this] obtain io w where
    s: "worker_start sample_welcome True True w1 = Some ((0, w), io)" and k: "wk_known w = [8]"
    using r by (auto simp: worker_start_def wk_known_def sample_welcome_def)
  have "conn_run worker_step w1 (0 + 0) ([] @ io) w"
    by (rule conn_call[where step = worker_step, OF conn_refl step_start[OF s]])
  then have run: "conn_run worker_step w1 0 io w" by simp
  from worker_sockets_accounted[OF init run] k show ?thesis using run by auto
qed

section \<open>A job's whole way\<close>



end
