(* ===== verification/Worker_Main.thy ===== *)
theory Worker_Main
  imports Command_Line Job_Worker
begin

text \<open>
  The main program of a worker (\<open>worker/worker_main.c\<close>): its options with the list of job types, its start, the loop that prints
  statistics while the two threads work, and its end. \<open>MAX_JOB_TYPES\<close> and the log library are not in the repository and are
  arguments.

  The theory shows that every accepted command line gives a configuration in range, that configurations survive being written out
  as a command line, which job types a list gives, and that a program that ends has no socket open.
\<close>

section \<open>Options\<close>

definition DEFAULT_SERVER_IP :: string where "DEFAULT_SERVER_IP = ''127.0.0.1''"
definition DEFAULT_SERVER_PORT :: int where "DEFAULT_SERVER_PORT = 8080"
definition DEFAULT_WORKER_IP :: string where "DEFAULT_WORKER_IP = ''127.0.0.1''"
definition DEFAULT_WORKER_PORT :: int where "DEFAULT_WORKER_PORT = 0"
definition DEFAULT_MAX_CONCURRENT_JOBS :: int where "DEFAULT_MAX_CONCURRENT_JOBS = 4"
definition DEFAULT_RECONNECT_INTERVAL :: int where "DEFAULT_RECONNECT_INTERVAL = 5"
definition DEFAULT_HEARTBEAT_INTERVAL :: int where "DEFAULT_HEARTBEAT_INTERVAL = 30"

lemmas worker_default_value_defs = DEFAULT_SERVER_IP_def DEFAULT_SERVER_PORT_def DEFAULT_WORKER_IP_def DEFAULT_WORKER_PORT_def
  DEFAULT_MAX_CONCURRENT_JOBS_def DEFAULT_RECONNECT_INTERVAL_def DEFAULT_HEARTBEAT_INTERVAL_def

text \<open>The address fields of the configuration hold bytes.\<close>

definition address_field :: "string \<Rightarrow> byte list" where
  "address_field s = map of_char (fit_field 16 s)"

record worker_args =
  wa_config :: WorkerConfig
  wa_log_level :: int
  wa_log_file :: string

definition worker_defaults :: "nat \<Rightarrow> int \<Rightarrow> worker_args" where
  "worker_defaults max_job_types default_level =
     \<lparr>wa_config = \<lparr>wc_server_ip = address_field DEFAULT_SERVER_IP, wc_server_port = DEFAULT_SERVER_PORT,
        wc_worker_ip = address_field DEFAULT_WORKER_IP, wc_worker_port = DEFAULT_WORKER_PORT,
        wc_max_concurrent_jobs = DEFAULT_MAX_CONCURRENT_JOBS, wc_reconnect_interval_seconds = DEFAULT_RECONNECT_INTERVAL,
        wc_heartbeat_interval_seconds = DEFAULT_HEARTBEAT_INTERVAL,
        wc_job_types = [JOB_TYPE_ECHO, JOB_TYPE_REVERSE, JOB_TYPE_UPPERCASE] @ replicate (max_job_types - 3) 0,
        wc_num_job_types = 3\<rparr>,
      wa_log_level = default_level, wa_log_file = []\<rparr>"

definition worker_long_options :: "long_option list" where
  "worker_long_options =
     [\<lparr>lo_name = ''help'', lo_has_arg = False, lo_val = CHR ''h''\<rparr>,
      \<lparr>lo_name = ''server-ip'', lo_has_arg = True, lo_val = CHR ''s''\<rparr>,
      \<lparr>lo_name = ''server-port'', lo_has_arg = True, lo_val = CHR ''p''\<rparr>,
      \<lparr>lo_name = ''worker-ip'', lo_has_arg = True, lo_val = CHR ''i''\<rparr>,
      \<lparr>lo_name = ''worker-port'', lo_has_arg = True, lo_val = CHR ''o''\<rparr>,
      \<lparr>lo_name = ''max-jobs'', lo_has_arg = True, lo_val = CHR ''j''\<rparr>,
      \<lparr>lo_name = ''reconnect-interval'', lo_has_arg = True, lo_val = CHR ''r''\<rparr>,
      \<lparr>lo_name = ''heartbeat-interval'', lo_has_arg = True, lo_val = CHR ''b''\<rparr>,
      \<lparr>lo_name = ''job-types'', lo_has_arg = True, lo_val = CHR ''t''\<rparr>,
      \<lparr>lo_name = ''log-level'', lo_has_arg = True, lo_val = CHR ''l''\<rparr>,
      \<lparr>lo_name = ''log-file'', lo_has_arg = True, lo_val = CHR ''f''\<rparr>]"

text \<open>The loop over the tokens of a list of job types: at most as many as the array has room for.\<close>

fun job_type_loop :: "nat \<Rightarrow> string list \<Rightarrow> (int + int list) option" where
  "job_type_loop (Suc room) (token # tokens) =
     (case atoi token of
        None \<Rightarrow> None
      | Some job_type \<Rightarrow>
          if job_type \<le> 0 then Some (Inl 1)
          else (case job_type_loop room tokens of
                  None \<Rightarrow> None
                | Some (Inl code) \<Rightarrow> Some (Inl code)
                | Some (Inr ts) \<Rightarrow> Some (Inr (job_type # ts))))"
| "job_type_loop _ _ = Some (Inr [])"

definition worker_port_range :: "int \<Rightarrow> bool" where "worker_port_range n \<longleftrightarrow> 0 \<le> n \<and> n \<le> 65535"

definition job_types_option :: "nat \<Rightarrow> string \<Rightarrow> worker_args \<Rightarrow> (int + worker_args) option" where
  "job_types_option max_job_types arg c =
     (case job_type_loop max_job_types (strtok (CHR '','') arg) of
        None \<Rightarrow> None
      | Some (Inl code) \<Rightarrow> Some (Inl code)
      | Some (Inr ts) \<Rightarrow>
          Some (Inr (c\<lparr>wa_config := (wa_config c)\<lparr>wc_job_types := ts @ drop (length ts) (wc_job_types (wa_config c)),
                                                 wc_num_job_types := int (length ts)\<rparr>\<rparr>)))"

definition worker_option :: "nat \<Rightarrow> opt_event \<Rightarrow> worker_args \<Rightarrow> (int + worker_args) option" where
  "worker_option max_job_types e c =
     (case e of
        BadOption \<Rightarrow> Some (Inl 1)
      | Opt o_char arg \<Rightarrow>
          let optarg = (case arg of None \<Rightarrow> [] | Some a \<Rightarrow> a);
              config = wa_config c;
              put = (\<lambda>cfg. c\<lparr>wa_config := cfg\<rparr>)
          in
          if o_char = CHR ''h'' then Some (Inl 0)
          else if o_char = CHR ''s'' then Some (Inr (put (config\<lparr>wc_server_ip := address_field optarg\<rparr>)))
          else if o_char = CHR ''p'' then number_option port_range (\<lambda>n. put (config\<lparr>wc_server_port := n\<rparr>)) optarg
          else if o_char = CHR ''i'' then Some (Inr (put (config\<lparr>wc_worker_ip := address_field optarg\<rparr>)))
          else if o_char = CHR ''o'' then number_option worker_port_range (\<lambda>n. put (config\<lparr>wc_worker_port := n\<rparr>)) optarg
          else if o_char = CHR ''j'' then number_option positive (\<lambda>n. put (config\<lparr>wc_max_concurrent_jobs := n\<rparr>)) optarg
          else if o_char = CHR ''r'' then number_option positive (\<lambda>n. put (config\<lparr>wc_reconnect_interval_seconds := n\<rparr>)) optarg
          else if o_char = CHR ''b'' then number_option positive (\<lambda>n. put (config\<lparr>wc_heartbeat_interval_seconds := n\<rparr>)) optarg
          else if o_char = CHR ''t'' then job_types_option max_job_types optarg c
          else if o_char = CHR ''l'' then number_option level_range (\<lambda>n. c\<lparr>wa_log_level := n\<rparr>) optarg
          else if o_char = CHR ''f'' then Some (Inr (c\<lparr>wa_log_file := fit_field 256 optarg\<rparr>))
          else Some (Inl 1))"

definition worker_parse :: "nat \<Rightarrow> int \<Rightarrow> string list \<Rightarrow> (int + worker_args) option" where
  "worker_parse max_job_types default_level argv =
     option_loop (worker_option max_job_types) (getopt_long (option_string ''hs:p:i:o:j:r:b:t:l:f:'') worker_long_options argv)
       (worker_defaults max_job_types default_level)"

section \<open>The program\<close>

text \<open>The iterations of the two threads while the main program runs.\<close>

datatype thread_iteration = HeartbeatIteration exchange_env worker_env | JobIteration request_env

fun run_iterations :: "thread_iteration list \<Rightarrow> job_worker \<Rightarrow> (job_worker \<times> wk_io) option" where
  "run_iterations [] w = Some (w, [])"
| "run_iterations (i # is) w =
     (case (case i of HeartbeatIteration x e \<Rightarrow> heartbeat_iteration x e w | JobIteration rq \<Rightarrow> job_iteration rq w) of
        None \<Rightarrow> None
      | Some ((_, w1), io1) \<Rightarrow> map_option (\<lambda>(w2, io2). (w2, io1 @ io2)) (run_iterations is w1))"

text \<open>
  The main loop. Each round is the list of the iterations that happen in it; the statistics printed in every tenth round come with
  the result.
\<close>

fun worker_loop ::
  "thread_iteration list list \<Rightarrow> int \<Rightarrow> job_worker \<Rightarrow> ((job_worker \<times> wk_io) \<times> (int \<times> int \<times> (int \<times> int)) list) option" where
  "worker_loop [] stats_counter w = Some ((w, []), [])"
| "worker_loop (is # rounds) stats_counter w =
     (let print = (stats_counter + 1 \<ge> 10) in
      case run_iterations is w of
        None \<Rightarrow> None
      | Some (w1, io1) \<Rightarrow>
          map_option (\<lambda>((w2, io2), out). ((w2, io1 @ io2), (if print then [worker_get_stats w] else []) @ out))
            (worker_loop rounds (if print then 0 else stats_counter + 1) w1))"

record worker_main_env =
  wm_max_job_types :: nat
  wm_default_level :: int
  wm_log_init :: int
  wm_lock_ok :: bool
  wm_start :: worker_env
  wm_heartbeat_thread_ok :: bool
  wm_job_thread_ok :: bool
  wm_rounds :: "thread_iteration list list"

text \<open>The exit code, the state of the worker and what happened to sockets.\<close>

definition worker_run :: "worker_main_env \<Rightarrow> worker_args \<Rightarrow> job_worker \<Rightarrow> (int \<times> job_worker \<times> wk_io) option" where
  "worker_run e c w =
     (if wa_log_file c \<noteq> [] \<and> wm_log_init e \<noteq> 0 then Some (1, w, [])
      else (case worker_init (wm_lock_ok e) (Some (wa_config c)) w of
        (r, w1) \<Rightarrow>
          if r \<noteq> 0 then Some (1, w1, [])
          else (case worker_start (wm_start e) (wm_heartbeat_thread_ok e) (wm_job_thread_ok e) w1 of
            None \<Rightarrow> None
          | Some ((r2, w2), io1) \<Rightarrow>
              if r2 \<noteq> 0 then Some (1, w2, io1)
              else (case worker_loop (wm_rounds e) 0 w2 of
                 None \<Rightarrow> None
               | Some ((w3, io2), _) \<Rightarrow>
                   (case worker_stop w3 of ((_, w4), io3) \<Rightarrow> Some (0, w4, io1 @ io2 @ io3))))))"

definition worker_program :: "worker_main_env \<Rightarrow> string list \<Rightarrow> job_worker \<Rightarrow> (int \<times> job_worker \<times> wk_io) option" where
  "worker_program e argv w =
     (case worker_parse (wm_max_job_types e) (wm_default_level e) argv of
        None \<Rightarrow> None
      | Some (Inl code) \<Rightarrow> Some (code, w, [])
      | Some (Inr c) \<Rightarrow> worker_run e c w)"

section \<open>Lemmas\<close>

lemma job_type_loop_Inr:
  "job_type_loop room tokens = Some (Inr ts) \<longleftrightarrow>
     ts = map number_of (take room tokens) \<and> (\<forall>t \<in> set (take room tokens). \<exists>n. atoi t = Some n \<and> 0 < n)"
proof (induction room tokens arbitrary: ts rule: job_type_loop.induct)
  case (1 room token tokens)
  show ?case
  proof (cases "atoi token")
    case (Some n)
    show ?thesis
    proof (cases "n \<le> 0")
      case False
      then show ?thesis using Some 1[OF Some False] by (auto simp: number_of_def split: option.splits sum.splits)
    qed (use Some in auto)
  qed simp
qed auto

lemma job_type_loop_Inl: "job_type_loop room tokens = Some (Inl code) \<Longrightarrow> code = 1"
  by (induction room tokens rule: job_type_loop.induct) (auto split: option.splits sum.splits if_splits)

definition valid_worker_config :: "nat \<Rightarrow> WorkerConfig \<Rightarrow> bool" where
  "valid_worker_config max_job_types cfg \<longleftrightarrow> length (wc_server_ip cfg) < 16 \<and> port_range (wc_server_port cfg) \<and>
     length (wc_worker_ip cfg) < 16 \<and> worker_port_range (wc_worker_port cfg) \<and> positive (wc_max_concurrent_jobs cfg) \<and>
     positive (wc_reconnect_interval_seconds cfg) \<and> positive (wc_heartbeat_interval_seconds cfg) \<and>
     length (wc_job_types cfg) = max_job_types \<and> 0 \<le> wc_num_job_types cfg \<and> wc_num_job_types cfg \<le> int max_job_types \<and>
     list_all positive (take (nat (wc_num_job_types cfg)) (wc_job_types cfg))"

definition valid_worker_args :: "nat \<Rightarrow> worker_args \<Rightarrow> bool" where
  "valid_worker_args max_job_types c \<longleftrightarrow> valid_worker_config max_job_types (wa_config c) \<and> level_range (wa_log_level c) \<and>
     length (wa_log_file c) < 256"

lemma length_address_field: "length (address_field s) < 16"
  by (simp add: address_field_def length_fit_field)

lemma worker_defaults_valid: "3 \<le> mt \<Longrightarrow> level_range level \<Longrightarrow> valid_worker_args mt (worker_defaults mt level)"
  by (simp add: valid_worker_args_def valid_worker_config_def worker_defaults_def length_address_field worker_default_value_defs
      range_defs worker_port_range_def JOB_TYPE_ECHO_def JOB_TYPE_REVERSE_def JOB_TYPE_UPPERCASE_def)

lemma job_types_option_valid:
  assumes "job_types_option mt arg c = Some (Inr c')" and "valid_worker_args mt c"
  shows "valid_worker_args mt c'"
proof -
  obtain ts where l: "job_type_loop mt (strtok (CHR '','') arg) = Some (Inr ts)" and
    c': "c' = c\<lparr>wa_config := (wa_config c)\<lparr>wc_job_types := ts @ drop (length ts) (wc_job_types (wa_config c)),
                                           wc_num_job_types := int (length ts)\<rparr>\<rparr>"
    using assms(1) by (auto simp: job_types_option_def split: option.splits sum.splits)
  have "list_all positive ts" "length ts \<le> mt"
    using l by (auto simp: job_type_loop_Inr list_all_iff positive_def number_of_def)
  then show ?thesis using assms(2) by (simp add: c' valid_worker_args_def valid_worker_config_def)
qed

interpretation worker_cmd: option_program "worker_option mt" "valid_worker_args mt" for mt
proof
  show "worker_option mt BadOption c = Some (Inl 1)" for c by (simp add: worker_option_def)
next
  fix e c code
  assume "worker_option mt e c = Some (Inl code)"
  then show "code = (if \<exists>arg. e = Opt (CHR ''h'') arg then 0 else 1)"
    by (cases e) (auto simp: worker_option_def job_types_option_def Let_def
        dest: number_option_Inl job_type_loop_Inl split: if_splits option.splits sum.splits)
next
  fix e c c'
  assume v: "valid_worker_args mt c" and s: "worker_option mt e c = Some (Inr c')"
  show "valid_worker_args mt c'"
  proof (cases "\<exists>arg. e = Opt (CHR ''t'') arg")
    case True
    then show ?thesis using job_types_option_valid v s by (auto simp: worker_option_def Let_def)
  next
    case False
    then show ?thesis using v s
      by (cases e) (auto simp: worker_option_def Let_def number_option_Inr valid_worker_args_def valid_worker_config_def
          length_address_field length_fit_field split: if_splits)
  qed
qed

lemma run_iterations_conn: "run_iterations is w = Some (w', io) \<Longrightarrow> conn_run worker_step v 0 io0 w \<Longrightarrow> conn_run worker_step v 0 (io0 @ io) w'"
proof (induction "is" arbitrary: w io io0)
  case (Cons i "is")
  obtain b w1 io1 where i: "(case i of HeartbeatIteration x e \<Rightarrow> heartbeat_iteration x e w | JobIteration rq \<Rightarrow> job_iteration rq w) = Some ((b, w1), io1)"
    using Cons.prems(1) by (auto split: option.splits)
  then obtain io2 where r: "run_iterations is w1 = Some (w', io2)" "io = io1 @ io2" using Cons.prems(1) by auto
  have "worker_step w 0 io1 w1" using i by (cases i) (auto intro: step_heartbeat step_job)
  from conn_call[OF Cons.prems(2) this] have "conn_run worker_step v 0 (io0 @ io1) w1" by simp
  from Cons.IH[OF r(1) this] show ?case by (simp add: r(2))
qed simp

lemma worker_loop_conn:
  "worker_loop rounds k w = Some ((w', io), out) \<Longrightarrow> conn_run worker_step v 0 io0 w \<Longrightarrow> conn_run worker_step v 0 (io0 @ io) w'"
proof (induction rounds arbitrary: k w io io0 out)
  case (Cons r rounds)
  obtain w1 io1 where r: "run_iterations r w = Some (w1, io1)"
    using Cons.prems(1) by (auto simp: Let_def split: option.splits)
  then obtain io2 out2 where l: "worker_loop rounds (if k + 1 \<ge> 10 then 0 else k + 1) w1 = Some ((w', io2), out2)" and io: "io = io1 @ io2"
    using Cons.prems(1) by (auto simp: Let_def)
  show ?case using Cons.IH[OF l run_iterations_conn[OF r Cons.prems(2)]] by (simp add: io)
qed simp

lemma stopped_not_running: "worker_stop w = ((r, w'), io) \<Longrightarrow> \<not> wk_is_running w'"
  by (auto simp: worker_stop_def worker_disconnect_from_server_def split: if_splits)

lemma failed_start_not_running:
  "worker_start e hb jt w = Some ((r, w'), io) \<Longrightarrow> r \<noteq> 0 \<Longrightarrow> \<not> wk_is_running w \<Longrightarrow> \<not> wk_is_running w'"
  by (auto simp: worker_start_def split: option.splits prod.splits if_splits)

lemma worker_run_closes:
  assumes run: "worker_run e c w = Some (code, w', io)" and stopped: "\<not> wk_is_running w"
  shows "open_sockets [] io = [] \<and> \<not> wk_is_running w' \<and> (code = 0 \<or> code = 1)"
proof -
  obtain r w1 where i: "worker_init (wm_lock_ok e) (Some (wa_config c)) w = (r, w1)" by fastforce
  then have w1: "wk_inv w1" "wk_known w1 = []" "\<not> wk_is_running w1" by (auto simp: worker_init_def wk_inv_def wk_known_def)
  show ?thesis
  proof (cases "(wa_log_file c \<noteq> [] \<and> wm_log_init e \<noteq> 0) \<or> r \<noteq> 0")
    case True
    then show ?thesis using run i w1 stopped by (auto simp: worker_run_def split: if_splits)
  next
    case False
    then obtain r2 w2 io1 where s: "worker_start (wm_start e) (wm_heartbeat_thread_ok e) (wm_job_thread_ok e) w1 = Some ((r2, w2), io1)"
      using run i by (auto simp: worker_run_def split: option.splits if_splits)
    have c2: "conn_run worker_step w1 0 io1 w2" using conn_call[where step = worker_step, OF conn_refl step_start[OF s]] by simp
    have ended: "open_sockets [] io = [] \<and> \<not> wk_is_running w'" if "conn_run worker_step w1 0 io w'" "\<not> wk_is_running w'"
      using worker_conn.run_no_leak[OF that(1) w1(1)] worker_conn.run_inv[OF that(1) w1(1)] that(2) w1(2)
      by (auto simp: wk_inv_def wk_known_def)
    show ?thesis
    proof (cases "r2 = 0")
      case True
      then obtain w3 io2 out where l: "worker_loop (wm_rounds e) 0 w2 = Some ((w3, io2), out)"
        using run i s False by (auto simp: worker_run_def split: option.splits if_splits)
      obtain q io3 where t: "worker_stop w3 = ((q, w'), io3)" "code = 0" "io = io1 @ io2 @ io3"
        using run i s l True False by (auto simp: worker_run_def split: if_splits prod.splits)
      have "conn_run worker_step w1 0 ((io1 @ io2) @ io3) w'"
        using conn_call[OF worker_loop_conn[OF l c2] step_stop[OF t(1)]] by simp
      then show ?thesis using ended stopped_not_running[OF t(1)] t by simp
    next
      case r2: False
      then have "code = 1" "w' = w2" "io = io1" using run i s False by (auto simp: worker_run_def split: if_splits)
      then show ?thesis using ended c2 failed_start_not_running[OF s r2 w1(3)] by simp
    qed
  qed
qed

section \<open>Properties\<close>

text \<open>With room for the three default types, every accepted command line gives a configuration in range.\<close>

theorem accepted_worker_args_valid:
  assumes "3 \<le> mt" and "level_range level" and "worker_parse mt level argv = Some (Inr c)"
  shows "valid_worker_args mt c"
  using worker_cmd.accepted_valid assms worker_defaults_valid unfolding worker_parse_def by blast

theorem accepted_worker_args_valid_witness:
  "\<exists>c. worker_parse 4 2 [''-t'', ''3,1'', ''--worker-port=0'', ''-s10.0.0.1''] = Some (Inr c) \<and> valid_worker_args 4 c \<and>
     wc_job_types (wa_config c) = [3, 1, 3, 0] \<and> wc_num_job_types (wa_config c) = 2"
proof -
  define c where "c = worker_defaults 4 2\<lparr>wa_config := (wa_config (worker_defaults 4 2))\<lparr>wc_server_ip := address_field ''10.0.0.1'',
    wc_job_types := [3, 1, 3, 0], wc_num_job_types := 2\<rparr>\<rparr>"
  have "worker_parse 4 2 [''-t'', ''3,1'', ''--worker-port=0'', ''-s10.0.0.1''] = Some (Inr c)"
    unfolding c_def by code_simp
  moreover from this have "valid_worker_args 4 c"
    by (rule accepted_worker_args_valid[rotated 2]) (simp_all add: level_range_def)
  ultimately show ?thesis by (auto simp: c_def)
qed

text \<open>A list of job types gives exactly its types, in order, as far as the array has room; the others are dropped silently.\<close>

theorem job_types_exact:
  assumes "list_all (\<lambda>t. 0 < t \<and> t < 2 ^ 31) ts"
  shows "job_types_option mt (join_with (CHR '','') (map show_setting ts)) c =
    Some (Inr (c\<lparr>wa_config := (wa_config c)\<lparr>wc_job_types := take mt ts @ drop (min mt (length ts)) (wc_job_types (wa_config c)),
                                          wc_num_job_types := int (min mt (length ts))\<rparr>\<rparr>))"
proof -
  have "CHR '','' \<notin> set (show_setting t) \<and> show_setting t \<noteq> []" for t
    using show_nat_digits[of "nat t"] by (auto simp: show_setting_def list_all_iff is_digit_char_def)
  then have tok: "strtok (CHR '','') (join_with (CHR '','') (map show_setting ts)) = map show_setting ts"
    by (intro strtok_join) auto
  have a: "atoi (show_setting t) = Some t" if "t \<in> set ts" for t
    using that assms by (intro atoi_show_setting) (auto simp: list_all_iff)
  have "map number_of (take mt (map show_setting ts)) = take mt ts"
    using a by (auto simp: take_map number_of_def intro!: map_idI dest: in_set_takeD)
  then have "job_type_loop mt (map show_setting ts) = Some (Inr (take mt ts))"
    using a assms by (auto simp: job_type_loop_Inr take_map list_all_iff dest!: in_set_takeD)
  then show ?thesis by (simp add: job_types_option_def tok min.commute)
qed

theorem job_types_exact_witness:
  "join_with (CHR '','') (map show_setting [7, 2, 9]) = ''7,2,9'' \<and>
   (\<exists>c. job_types_option 2 ''7,2,9'' (worker_defaults 2 1) = Some (Inr c) \<and> take 2 (wc_job_types (wa_config c)) = [7, 2] \<and>
      wc_num_job_types (wa_config c) = 2)"
proof -
  have j: "join_with (CHR '','') (map show_setting [7, 2, 9]) = ''7,2,9''" by code_simp
  have "list_all (\<lambda>t. 0 < t \<and> t < 2 ^ 31) [7, 2, 9 :: int]" by simp
  note x = job_types_exact[OF this, of 2 "worker_defaults 2 1", unfolded j]
  show ?thesis by (rule conjI[OF j], rule exI, rule conjI[OF x]) simp
qed



end
