(* ===== verification/Client.thy ===== *)
theory Client
  imports Central_Server Connection_Owner
begin

text \<open>
  The client library (\<open>client/client.c\<close>), over the wire protocol. The client's object is a record; its
  mutex is held while the object is read or written and never during an exchange, so every function is
  given the object it saw. What the socket calls, \<open>write\<close>, \<open>malloc\<close> and the clock answer is an argument, the input of the socket
  is threaded. A function returns its value, the rest of the input and the socket events in
  order; \<^const>\<open>None\<close> is a read past the end of an object.

  The theory shows what every request does when the client is connected and when it is not, that what is
  submitted is what a server receives, that the polling loop ends, which sockets are closed, and two
  places where the client trusts its server.
\<close>

section \<open>State\<close>

record ClientConfig =
  cc_server_ip :: string
  cc_server_port :: int
  cc_reconnect_interval_seconds :: int

record Client =
  cl_config :: "ClientConfig option"
  cl_client_id :: int
  cl_server_socket :: int
  cl_is_connected :: bool

type_synonym cl_io = "byte list conn_io"

definition client_init :: "bool \<Rightarrow> ClientConfig option \<Rightarrow> Client \<Rightarrow> int \<times> Client" where
  "client_init lock_ok config c =
     (case config of
        None \<Rightarrow> (-1, c)
      | Some cfg \<Rightarrow>
          (if \<not> lock_ok then -1 else 0,
           \<lparr>cl_config = Some cfg, cl_client_id = -1, cl_server_socket = -1, cl_is_connected = False\<rparr>))"

section \<open>Messages and exchanges\<close>

text \<open>\<open>memset\<close> of the whole message, then the header; \<open>header.client_id\<close> takes the \<open>int\<close> modulo \<open>2^32\<close>.\<close>

definition client_message :: "MessageType \<Rightarrow> int \<Rightarrow> byte list \<Rightarrow> Message" where
  "client_message t cid b = \<lparr>header = \<lparr>message_type = msg_code t, client_id = word_of_int cid\<rparr>, body = b\<rparr>"

text \<open>Send one message and receive one: the answer, if both succeed.\<close>

definition exchange ::
  "bool \<Rightarrow> int list \<Rightarrow> int \<Rightarrow> Message \<Rightarrow> read_event list \<Rightarrow> (Message option \<times> read_event list) \<times> cl_io list" where
  "exchange be ws sock m es =
     (case send_message be ws m of
        (r, out) \<Rightarrow>
          if r < 0 then ((None, es), [CSent sock out])
          else (case receive_message be es of
                  ((_, answer), es') \<Rightarrow> ((answer, es'), [CSent sock out])))"

text \<open>
  The common form of the requests: not connected is an error, then an exchange, then the type of the answer
  decides; an error message and an unexpected type are errors.
\<close>

definition client_request ::
  "bool \<Rightarrow> int list \<Rightarrow> Message \<Rightarrow> MessageType \<Rightarrow> (byte list \<Rightarrow> 'a) \<Rightarrow> 'a \<Rightarrow> read_event list \<Rightarrow> Client
   \<Rightarrow> ('a \<times> read_event list) \<times> cl_io list" where
  "client_request be ws m expected result failure es c =
     (case exchange be ws (cl_server_socket c) m es of
        ((None, es'), io) \<Rightarrow> ((failure, es'), io)
      | ((Some answer, es'), io) \<Rightarrow>
          if message_type (header answer) = msg_code MSG_TYPE_ERROR then ((failure, es'), io)
          else if message_type (header answer) \<noteq> msg_code expected then ((failure, es'), io)
          else ((result (body answer), es'), io))"

section \<open>Connecting and disconnecting\<close>

record connect_env =
  cn_socket :: int
  cn_inet_pton :: int
  cn_connect :: int
  cn_ws :: "int list"

definition client_connect_to_server ::
  "bool \<Rightarrow> connect_env \<Rightarrow> read_event list \<Rightarrow> Client \<Rightarrow> (int \<times> read_event list \<times> Client) \<times> cl_io list" where
  "client_connect_to_server be e es c =
     (let fd = cn_socket e in
      if fd < 0 then ((-1, es, c), [])
      else if cn_inet_pton e \<le> 0 then ((-1, es, c), [COpened fd, CClosed fd])
      else if cn_connect e < 0 then ((-1, es, c), [COpened fd, CClosed fd])
      else (case exchange be (cn_ws e) fd (plain_message MSG_TYPE_REGISTER 1) es of
              ((None, es'), io) \<Rightarrow> ((-1, es', c), COpened fd # io @ [CClosed fd])
            | ((Some answer, es'), io) \<Rightarrow>
                if message_type (header answer) \<noteq> msg_code MSG_TYPE_REGISTER_RESPONSE
                then ((-1, es', c), COpened fd # io @ [CClosed fd])
                else ((0, es', c\<lparr>cl_server_socket := fd, cl_is_connected := True,
                                 cl_client_id := sint (get_u32 be 0 (body answer))\<rparr>), COpened fd # io)))"

definition client_disconnect_from_server ::
  "bool \<Rightarrow> int list \<Rightarrow> read_event list \<Rightarrow> Client \<Rightarrow> (int \<times> read_event list \<times> Client) \<times> cl_io list" where
  "client_disconnect_from_server be ws es c =
     (if \<not> cl_is_connected c then ((0, es, c), [])
      else
        let sock = cl_server_socket c;
            out = snd (send_message be ws (client_message MSG_TYPE_CLIENT_DISCONNECT (cl_client_id c) zero_body));
            es' = snd (receive_message be es)
        in ((0, es', c\<lparr>cl_server_socket := -1, cl_is_connected := False\<rparr>), [CSent sock out, CClosed sock]))"

definition client_cleanup ::
  "bool \<Rightarrow> int list \<Rightarrow> read_event list \<Rightarrow> Client \<Rightarrow> (int \<times> read_event list \<times> Client) \<times> cl_io list" where
  "client_cleanup be ws es c =
     (case client_disconnect_from_server be ws es c of ((_, es', c'), io) \<Rightarrow> ((0, es', c'), io))"

section \<open>Requests\<close>

text \<open>\<open>data\<close> is at offset 4 of \<open>submit_job\<close>, \<open>data_size\<close> at offset 1028.\<close>

definition submit_body :: "bool \<Rightarrow> int \<Rightarrow> byte list \<Rightarrow> nat \<Rightarrow> byte list" where
  "submit_body be job_type data n =
     set_u32 be 1028 (of_nat n) (set_bytes 4 data (set_u32 be 0 (word_of_int job_type) zero_body))"

definition client_submit_job ::
  "bool \<Rightarrow> int list \<Rightarrow> int \<Rightarrow> byte list option \<Rightarrow> nat \<Rightarrow> read_event list \<Rightarrow> Client
   \<Rightarrow> ((int \<times> read_event list) \<times> cl_io list) option" where
  "client_submit_job be ws job_type input_data input_size es c =
     (if input_data = None \<and> input_size > 0 then Some ((-1, es), [])
      else if \<not> cl_is_connected c then Some ((-1, es), [])
      else if input_size > MAX_DATA_SIZE then Some ((-1, es), [])
      else (case mem_read (case input_data of None \<Rightarrow> [] | Some d \<Rightarrow> d) input_size of
              None \<Rightarrow> None
            | Some data \<Rightarrow>
                Some (client_request be ws
                        (client_message MSG_TYPE_SUBMIT_JOB (cl_client_id c) (submit_body be job_type data input_size))
                        MSG_TYPE_JOB_SUBMITTED (\<lambda>b. sint (get_u32 be 0 b)) (-1) es c)))"

definition client_get_job_status ::
  "bool \<Rightarrow> int list \<Rightarrow> int \<Rightarrow> read_event list \<Rightarrow> Client \<Rightarrow> (int \<times> read_event list) \<times> cl_io list" where
  "client_get_job_status be ws job_id es c =
     (if \<not> cl_is_connected c then ((-1, es), [])
      else client_request be ws
             (client_message MSG_TYPE_GET_JOB_STATUS (cl_client_id c) (set_u32 be 0 (word_of_int job_id) zero_body))
             MSG_TYPE_JOB_STATUS (\<lambda>b. sint (get_u32 be 4 b)) (-1) es c)"

text \<open>
  The two result pointers are given or not. The value is the return code and what they are set to (if given); the outer
  \<^const>\<open>None\<close> is the copy of more than the \<open>1024\<close> bytes of \<open>result_data\<close>.
\<close>

definition copy_result :: "bool \<Rightarrow> bool \<Rightarrow> byte list \<Rightarrow> (int \<times> byte list option \<times> nat) option" where
  "copy_result be malloc_ok b =
     (let data_size = unat (get_u32 be 1028 b) in
      if data_size = 0 then Some (0, None, 0)
      else if \<not> malloc_ok then Some (-1, None, 0)
      else map_option (\<lambda>data. (0, Some data, data_size)) (mem_read (take MAX_DATA_SIZE (drop 4 b)) data_size))"

definition client_get_job_result ::
  "bool \<Rightarrow> int list \<Rightarrow> bool \<Rightarrow> int \<Rightarrow> bool \<Rightarrow> bool \<Rightarrow> read_event list \<Rightarrow> Client
   \<Rightarrow> ((int \<times> byte list option \<times> nat) option \<times> read_event list) \<times> cl_io list" where
  "client_get_job_result be ws malloc_ok job_id data_ptr size_ptr es c =
     (if \<not> data_ptr \<or> \<not> size_ptr then ((Some (-1, None, 0), es), [])
      else if \<not> cl_is_connected c then ((Some (-1, None, 0), es), [])
      else client_request be ws
             (client_message MSG_TYPE_GET_JOB_RESULT (cl_client_id c) (set_u32 be 0 (word_of_int job_id) zero_body))
             MSG_TYPE_JOB_RESULT (copy_result be malloc_ok) (Some (-1, None, 0)) es c)"

text \<open>
  The statistics in the order of the parameters: active clients and workers, pending, running, completed
  and failed jobs, or \<^const>\<open>None\<close> for the return value -1.
\<close>

definition client_get_server_stats ::
  "bool \<Rightarrow> int list \<Rightarrow> read_event list \<Rightarrow> Client \<Rightarrow> (int list option \<times> read_event list) \<times> cl_io list" where
  "client_get_server_stats be ws es c =
     (if \<not> cl_is_connected c then ((None, es), [])
      else client_request be ws (client_message MSG_TYPE_GET_SERVER_STATS (cl_client_id c) zero_body)
             MSG_TYPE_SERVER_STATS (\<lambda>b. Some (map (\<lambda>k. sint (get_u32 be (4 * k) b)) [0 ..< 6])) None es c)"

section \<open>Waiting for a job\<close>

definition final_status :: "int \<Rightarrow> bool" where
  "final_status status \<longleftrightarrow> status = 2 \<or> status = 3 \<or> status = 4"

text \<open>
  The polling loop. \<open>polls\<close> gives for each iteration what \<open>write\<close> answers and the clock after the status request;
  the value \<^const>\<open>None\<close> is a loop that is still polling when the list ends.
\<close>

fun wait_loop ::
  "bool \<Rightarrow> int \<Rightarrow> int \<Rightarrow> int \<Rightarrow> (int list \<times> int) list \<Rightarrow> read_event list \<Rightarrow> Client
   \<Rightarrow> (int option \<times> read_event list) \<times> cl_io list" where
  "wait_loop be job_id timeout_seconds start_time [] es c = ((None, es), [])"
| "wait_loop be job_id timeout_seconds start_time ((ws, now) # polls) es c =
     (case client_get_job_status be ws job_id es c of
        ((status, es'), io) \<Rightarrow>
          if status < 0 then ((Some (-1), es'), io)
          else if final_status status then ((Some status, es'), io)
          else if timeout_seconds > 0 \<and> now - start_time \<ge> timeout_seconds * 1000 then ((Some (-1), es'), io)
          else (case wait_loop be job_id timeout_seconds start_time polls es' c of
                  (r, io') \<Rightarrow> (r, io @ io')))"

definition client_wait_for_job ::
  "bool \<Rightarrow> int \<Rightarrow> int \<Rightarrow> int \<Rightarrow> (int list \<times> int) list \<Rightarrow> read_event list \<Rightarrow> Client
   \<Rightarrow> (int option \<times> read_event list) \<times> cl_io list" where
  "client_wait_for_job be job_id timeout_seconds start_time polls es c =
     wait_loop be job_id timeout_seconds start_time polls es c"

section \<open>Lemmas\<close>

lemma submit_body_fields:
  assumes "length data = n" and "n \<le> MAX_DATA_SIZE"
  shows "length (submit_body be t data n) = body_size"
    and "get_u32 be 0 (submit_body be t data n) = word_of_int t"
    and "get_u32 be 1028 (submit_body be t data n) = of_nat n"
    and "take n (drop 4 (submit_body be t data n)) = data"
proof -
  let ?a = "set_u32 be 0 (word_of_int t) zero_body" and ?v = "of_nat n :: u32"
  have la: "length ?a = 1032" by (simp add: body_size_def)
  have lb: "length (set_bytes 4 data ?a) = 1032" using assms la by (simp add: MAX_DATA_SIZE_def)
  show "length (submit_body be t data n) = body_size" using lb by (simp add: submit_body_def body_size_def)
  show "get_u32 be 1028 (submit_body be t data n) = of_nat n"
    unfolding submit_body_def by (rule set_get_u32) (simp add: lb)
  have "take 4 (drop 0 (submit_body be t data n)) = take 4 (drop 0 ?a)"
    unfolding submit_body_def set_u32_def[of be 1028]
    using lb la assms by (simp add: MAX_DATA_SIZE_def take_drop_set_bytes_other[where off = 0, simplified])
  then show "get_u32 be 0 (submit_body be t data n) = word_of_int t"
    using set_get_u32[of 0 zero_body be "word_of_int t"] by (simp add: get_u32_def body_size_def)
  have "take n (drop 4 (submit_body be t data n)) = take n (drop 4 (set_bytes 4 data ?a))"
    unfolding submit_body_def set_u32_def[of be 1028]
    using lb assms by (intro take_drop_set_bytes_other) (auto simp: MAX_DATA_SIZE_def)
  then show "take n (drop 4 (submit_body be t data n)) = data"
    using take_drop_set_bytes_same[of 4 data ?a] la assms by (simp add: MAX_DATA_SIZE_def)
qed

lemma exchange_SomeD:
  assumes "exchange be ws sock m es = ((Some answer, es'), io)"
  shows "\<exists>out. send_message be ws m = (0, out) \<and> io = [CSent sock out] \<and> receive_message be es = ((0, Some answer), es')"
proof -
  obtain r out where s: "send_message be ws m = (r, out)" by fastforce
  obtain q a es2 where rc: "receive_message be es = ((q, a), es2)" by (metis surj_pair)
  have "\<not> r < 0" using assms s by (auto simp: exchange_def)
  then have "r = 0" using send_message_code[of be ws m] s by simp
  moreover have "a = Some answer" "es2 = es'" "io = [CSent sock out]"
    using assms s rc \<open>\<not> r < 0\<close> by (auto simp: exchange_def)
  moreover have "q = 0" using rc \<open>a = Some answer\<close>
    by (auto simp: receive_message_def Let_def split: option.splits prod.splits)
  ultimately show ?thesis using s rc by simp
qed

lemma exchange_io: "\<exists>out. snd (exchange be ws sock m es) = [CSent sock out]"
  by (auto simp: exchange_def split: prod.splits)

lemma client_request_success:
  assumes "client_request be ws m expected result failure es c = ((r, es'), io)" and "r \<noteq> failure"
  shows "\<exists>out answer. send_message be ws m = (0, out) \<and> io = [CSent (cl_server_socket c) out] \<and>
           receive_message be es = ((0, Some answer), es') \<and> message_type (header answer) = msg_code expected \<and>
           r = result (body answer)"
proof -
  obtain a es2 io2 where x: "exchange be ws (cl_server_socket c) m es = ((a, es2), io2)" by (metis surj_pair)
  then obtain answer where a: "a = Some answer" using assms by (cases a) (auto simp: client_request_def)
  then have "io2 = io" "es2 = es'" "message_type (header answer) = msg_code expected" "r = result (body answer)"
    using assms x by (auto simp: client_request_def split: if_splits)
  then show ?thesis using exchange_SomeD[of be ws "cl_server_socket c" m es answer es' io] x a by auto
qed

lemma client_request_io: "\<exists>out. snd (client_request be ws m expected result failure es c) = [CSent (cl_server_socket c) out]"
  using exchange_io[of be ws "cl_server_socket c" m es]
  by (auto simp: client_request_def split: prod.splits option.splits)

lemma client_request_answer:
  assumes "fst (send_message be ws m) = 0" and "receive_message be es = ((0, Some answer), es')"
    and "message_type (header answer) = msg_code expected" and "expected \<noteq> MSG_TYPE_ERROR"
  shows "fst (client_request be ws m expected result failure es c) = (result (body answer), es')"
proof -
  have "msg_code expected \<noteq> msg_code MSG_TYPE_ERROR" using assms(4) by (cases expected) simp_all
  then show ?thesis
    using assms(1-3) by (auto simp: client_request_def exchange_def split: prod.splits)
qed

section \<open>Properties\<close>


text \<open>A connected client and answers that arrive in one piece.\<close>

definition sample_client :: Client where
  "sample_client = \<lparr>cl_config = None, cl_client_id = 1, cl_server_socket = 4, cl_is_connected = True\<rparr>"

definition answer_bytes :: "MessageType \<Rightarrow> byte list \<Rightarrow> byte list" where
  "answer_bytes t b = snd (send_message False [1040] (client_message t 1 b))"

lemma receive_one_piece:
  assumes "send_message be ws m = (0, out)" and "length (body m) = body_size"
  shows "receive_message be [Bytes out] = ((0, Some m), [])"
proof -
  have "out \<noteq> []" using send_message_bytes[OF assms(1)] by (auto dest: arg_cong[of _ _ length])
  then obtain cs' where "receive_message be (stream [out]) = ((0, Some m), stream cs')"
    "concat cs' = []" "\<forall>x \<in> set cs'. x \<noteq> []"
    using receive_sent[OF assms, of "[out]" "[]"] by auto
  then show ?thesis by (cases cs') auto
qed

lemma receive_answer:
  assumes "length b = body_size"
  shows "receive_message False [Bytes (answer_bytes t b)] = ((0, Some (client_message t 1 b)), [])"
proof -
  have l: "length (body (client_message t 1 b)) = body_size" using assms by (simp add: client_message_def)
  have s: "send_message False [1040] (client_message t 1 b) = (0, answer_bytes t b)"
    using sent_in_one_write[OF l] by (simp add: answer_bytes_def prod_eq_iff)
  show ?thesis by (rule receive_one_piece[OF s l])
qed

lemma sample_request:
  assumes "length b = body_size" and "length b' = body_size" and "expected \<noteq> MSG_TYPE_ERROR"
  shows "fst (client_request False [1040] (client_message t 1 b) expected result failure [Bytes (answer_bytes expected b')] c) =
    (result b', [])"
proof -
  have "fst (send_message False [1040] (client_message t 1 b)) = 0"
    using sent_in_one_write[of "client_message t 1 b"] assms(1) by (simp add: client_message_def)
  from client_request_answer[OF this receive_answer[OF assms(2)] _ assms(3), where result = result and failure = failure and c = c]
  show ?thesis by (simp add: client_message_def)
qed

abbreviation sample_submission :: "((int \<times> read_event list) \<times> cl_io list) option" where
  "sample_submission \<equiv> client_submit_job False [1040] 2 (Some [104, 105, 0]) 2
     [Bytes (answer_bytes MSG_TYPE_JOB_SUBMITTED (set_u32 False 0 7 zero_body))] sample_client"

lemma sample_submission_result: "\<exists>io. sample_submission = Some ((7, []), io)"
proof -
  have "length (submit_body False 2 [104, 105] 2) = body_size"
    by (rule submit_body_fields(1)) (simp_all add: MAX_DATA_SIZE_def)
  moreover have "length (set_u32 False 0 7 zero_body) = body_size" by (simp add: body_size_def)
  moreover have "get_u32 False 0 (set_u32 False 0 7 zero_body) = 7" by (rule set_get_u32) (simp add: body_size_def)
  ultimately have "fst (client_request False [1040] (client_message MSG_TYPE_SUBMIT_JOB 1 (submit_body False 2 [104, 105] 2))
      MSG_TYPE_JOB_SUBMITTED (\<lambda>b. sint (get_u32 False 0 b)) (-1)
      [Bytes (answer_bytes MSG_TYPE_JOB_SUBMITTED (set_u32 False 0 7 zero_body))] sample_client) = (7, [])"
    by (subst sample_request) simp_all
  then show ?thesis
    by (simp add: client_submit_job_def sample_client_def mem_read_def MAX_DATA_SIZE_def prod_eq_iff)
qed


text \<open>A result is copied exactly as it arrived, up to the 1024 bytes of the message; a server that announces
  more makes the client read past the end of the data.\<close>

theorem client_result_copied:
  assumes "cl_is_connected c"
    and "fst (send_message be ws (client_message MSG_TYPE_GET_JOB_RESULT (cl_client_id c)
            (set_u32 be 0 (word_of_int j) zero_body))) = 0"
    and "receive_message be es = ((0, Some m), es')" and "message_type (header m) = msg_code MSG_TYPE_JOB_RESULT"
    and "length (body m) = body_size" and "n = unat (get_u32 be 1028 (body m))"
  shows "fst (client_get_job_result be ws True j True True es c) =
    (if n = 0 then Some (0, None, 0)
     else if n \<le> MAX_DATA_SIZE then Some (0, Some (take n (drop 4 (body m))), n) else None, es')"
proof -
  have "copy_result be True (body m) =
     (if n = 0 then Some (0, None, 0)
      else if n \<le> MAX_DATA_SIZE then Some (0, Some (take n (drop 4 (body m))), n) else None)"
    using assms(5) by (simp add: copy_result_def assms(6) mem_read_def Let_def body_size_def MAX_DATA_SIZE_def)
  then show ?thesis
    using client_request_answer[OF assms(2,3,4), where result = "copy_result be True"
        and failure = "Some (-1, None, 0)" and c = c] assms(1)
    by (simp add: client_get_job_result_def)
qed

theorem client_result_copied_witness:
  "fst (client_get_job_result False [1040] True 7 True True
      [Bytes (answer_bytes MSG_TYPE_JOB_RESULT (submit_body False 0 [72, 73] 2))] sample_client) = (Some (0, Some [72, 73], 2), [])"
proof -
  let ?b = "submit_body False 0 [72, 73] 2"
  have b: "length ?b = body_size" "get_u32 False 1028 ?b = 2" "take 2 (drop 4 ?b) = [72, 73]"
    using submit_body_fields[of "[72, 73]" 2 False 0] by (simp_all add: MAX_DATA_SIZE_def)
  have s: "fst (send_message False [1040] (client_message MSG_TYPE_GET_JOB_RESULT (cl_client_id sample_client)
      (set_u32 False 0 (word_of_int 7) zero_body))) = 0"
    by (rule sent_in_one_write) (simp add: client_message_def body_size_def)
  have "fst (client_get_job_result False [1040] True 7 True True [Bytes (answer_bytes MSG_TYPE_JOB_RESULT ?b)] sample_client) =
    (if (2 :: nat) = 0 then Some (0, None, 0)
     else if 2 \<le> MAX_DATA_SIZE then Some (0, Some (take 2 (drop 4 (body (client_message MSG_TYPE_JOB_RESULT 1 ?b)))), 2) else None, [])"
    by (rule client_result_copied[OF _ s receive_answer[OF b(1)]])
       (simp_all add: sample_client_def client_message_def b)
  then show ?thesis by (simp add: client_message_def b MAX_DATA_SIZE_def)
qed

lemma connect_accepted:
  assumes "receive_message be es = ((0, Some (reg_response_message be cid)), es')"
    and "0 \<le> cn_socket e" and "0 < cn_inet_pton e" and "0 \<le> cn_connect e"
    and "fst (send_message be (cn_ws e) (plain_message MSG_TYPE_REGISTER 1)) = 0"
  shows "\<exists>io. client_connect_to_server be e es c =
    ((0, es', c\<lparr>cl_server_socket := cn_socket e, cl_is_connected := True, cl_client_id := 1\<rparr>), io)"
proof -
  have "get_u32 be 0 (body (reg_response_message be cid)) = 1"
    unfolding reg_response_message_def by (simp add: set_get_u32 body_size_def)
  then show ?thesis
    using assms
    by (auto simp: client_connect_to_server_def exchange_def Let_def reg_response_message_def split: prod.splits)
qed

text \<open>A client takes the status field of the central server's registration response for its
  identifier, so every client of a central server has the identifier 1, whatever the server put into the
  header.\<close>

theorem client_id_is_response_status:
  assumes "send_message be ws (reg_response_message be cid) = (0, out)"
    and "concat cs = out" and "\<forall>x \<in> set cs. x \<noteq> []"
    and "0 \<le> cn_socket e" and "0 < cn_inet_pton e" and "0 \<le> cn_connect e"
    and "fst (send_message be (cn_ws e) (plain_message MSG_TYPE_REGISTER 1)) = 0"
  shows "\<exists>io. client_connect_to_server be e (stream cs) c =
    ((0, [], c\<lparr>cl_server_socket := cn_socket e, cl_is_connected := True, cl_client_id := 1\<rparr>), io)"
proof -
  obtain cs' where "receive_message be (stream cs) = ((0, Some (reg_response_message be cid)), stream cs')"
    "concat cs' = []" "\<forall>x \<in> set cs'. x \<noteq> []"
    using receive_sent[OF assms(1), of cs "[]"] assms(2,3) by auto
  then have r: "receive_message be (stream cs) = ((0, Some (reg_response_message be cid)), [])" by (cases cs') auto
  show ?thesis by (rule connect_accepted[OF r assms(4-7)])
qed

abbreviation sample_connect :: connect_env where
  "sample_connect \<equiv> \<lparr>cn_socket = 4, cn_inet_pton = 1, cn_connect = 0, cn_ws = [1040]\<rparr>"

theorem client_id_is_response_status_witness:
  "\<exists>io c'. client_connect_to_server False sample_connect
      [Bytes (snd (send_message False [1040] (reg_response_message False 9)))] sample_client = ((0, [], c'), io) \<and>
    cl_client_id c' = 1"
proof -
  let ?out = "snd (send_message False [1040] (reg_response_message False 9))"
  have s: "send_message False [1040] (reg_response_message False 9) = (0, ?out)"
    using sent_in_one_write[of "reg_response_message False 9"] by (simp add: prod_eq_iff)
  have "?out \<noteq> []" using send_message_bytes[OF s] by (auto dest: arg_cong[of _ _ length])
  then show ?thesis
    using client_id_is_response_status[OF s, of "[?out]" sample_connect sample_client]
      sent_in_one_write[of "plain_message MSG_TYPE_REGISTER 1"] by auto
qed

text \<open>
  A call of the client, with any environment. The number is 1 for a successful connection of a client that was
  connected already.
\<close>

inductive client_step :: "bool \<Rightarrow> Client \<Rightarrow> nat \<Rightarrow> cl_io list \<Rightarrow> Client \<Rightarrow> bool" for be where
  step_connect: "client_connect_to_server be e es c = ((r, es', c'), io) \<Longrightarrow>
    client_step be c (if r = 0 \<and> cl_is_connected c then 1 else 0) io c'"
| step_disconnect: "client_disconnect_from_server be ws es c = ((r, es', c'), io) \<Longrightarrow> client_step be c 0 io c'"
| step_submit: "client_submit_job be ws t d n es c = Some (r, io) \<Longrightarrow> client_step be c 0 io c"
| step_status: "client_step be c 0 (snd (client_get_job_status be ws j es c)) c"
| step_result: "client_step be c 0 (snd (client_get_job_result be ws m j dp sp es c)) c"
| step_stats: "client_step be c 0 (snd (client_get_server_stats be ws es c)) c"
| step_wait: "client_step be c 0 (snd (client_wait_for_job be j timeout start polls es c)) c"

text \<open>The socket the client knows of.\<close>

definition known_socket :: "Client \<Rightarrow> int list" where
  "known_socket c = (if cl_is_connected c then [cl_server_socket c] else [])"

lemma open_sockets_request [simp]:
  "open_sockets fds (snd (client_request be ws m expected result failure es c)) = fds"
  using client_request_io[of be ws m expected result failure es c] by auto

lemma open_sockets_calls [simp]:
  "client_submit_job be ws t d n es c = Some (r, io) \<Longrightarrow> open_sockets fds io = fds"
  "open_sockets fds (snd (client_get_job_status be ws j es c)) = fds"
  "open_sockets fds (snd (client_get_job_result be ws ok j dp sp es c)) = fds"
  "open_sockets fds (snd (client_get_server_stats be ws es c)) = fds"
proof -
  assume "client_submit_job be ws t d n es c = Some (r, io)"
  then consider "io = []" | m where
    "client_request be ws m MSG_TYPE_JOB_SUBMITTED (\<lambda>b. sint (get_u32 be 0 b)) (-1) es c = (r, io)"
    by (auto simp: client_submit_job_def split: if_splits option.splits)
  then show "open_sockets fds io = fds"
  proof cases
    case (2 m)
    then show ?thesis using open_sockets_request by (metis snd_conv)
  qed simp
qed (simp_all add: client_get_job_status_def client_get_job_result_def client_get_server_stats_def)

lemma open_sockets_connect:
  assumes "client_connect_to_server be e es c = ((r, es', c'), io)"
  shows "if r = 0 then open_sockets fds io = cn_socket e # fds \<and> known_socket c' = [cn_socket e]
         else open_sockets fds io = fds \<and> c' = c"
proof -
  obtain out where out: "snd (exchange be (cn_ws e) (cn_socket e) (plain_message MSG_TYPE_REGISTER 1) es) = [CSent (cn_socket e) out]"
    using exchange_io by blast
  obtain x es2 io2 where x: "exchange be (cn_ws e) (cn_socket e) (plain_message MSG_TYPE_REGISTER 1) es = ((x, es2), io2)"
    by (metis surj_pair)
  then have "io2 = [CSent (cn_socket e) out]" using out by simp
  then show ?thesis
    using assms x by (cases x) (auto simp: client_connect_to_server_def Let_def known_socket_def split: if_splits)
qed

lemma open_sockets_disconnect:
  assumes "client_disconnect_from_server be ws es c = ((r, es', c'), io)"
  shows "r = 0 \<and> known_socket c' = [] \<and>
    open_sockets fds io = (if cl_is_connected c then remove1 (cl_server_socket c) fds else fds)"
  using assms by (auto simp: client_disconnect_from_server_def Let_def known_socket_def split: if_splits)

lemma open_sockets_wait [simp]:
  "open_sockets fds (snd (wait_loop be j timeout start polls es c)) = fds"
proof (induction polls arbitrary: es)
  case (Cons p polls)
  obtain ws now where p: "p = (ws, now)" by fastforce
  obtain st es' io where st: "client_get_job_status be ws j es c = ((st, es'), io)" by (metis surj_pair)
  then have "open_sockets fds io = fds" using open_sockets_calls(2) by (metis snd_conv)
  then show ?case using Cons[of es'] p st by (auto split: prod.split)
qed simp

interpretation client_conn: connection_owner "\<lambda>_. True" known_socket "client_step be" for be
proof
  fix c k io c'
  assume "client_step be c k io c'"
  then show "\<exists>lost. length lost = k \<and> (\<forall>rest. open_sockets (known_socket c @ rest) io = known_socket c' @ lost @ rest)"
  proof (cases rule: client_step.cases)
    case (step_connect e es r es')
    then show ?thesis
      using open_sockets_connect[OF step_connect(2)] by (cases "r = 0") (auto simp: known_socket_def[of c])
  next
    case (step_disconnect ws es r es')
    then show ?thesis
      using open_sockets_disconnect[OF step_disconnect(2)] by (auto simp: known_socket_def[of c])
  qed (simp_all add: client_wait_for_job_def)
qed

text \<open>After any sequence of calls the open sockets are the one the client knows of, if it is connected, and one
  more for each time it connected while it was already connected, which it can never close.\<close>

theorem client_socket_accounting:
  assumes "client_init True (Some cfg) c0 = (0, c1)" and "conn_run (client_step be) c1 k io c"
  shows "\<exists>lost. open_sockets [] io = known_socket c @ lost \<and> length lost = k"
proof -
  have "known_socket c1 = []" using assms(1) by (auto simp: client_init_def known_socket_def)
  then show ?thesis using client_conn.run_account[OF assms(2)] by auto
qed

theorem client_socket_accounting_witness:
  "\<exists>c1 c io lost. conn_run (client_step False) c1 1 io c \<and> open_sockets [] io = known_socket c @ lost \<and>
     known_socket c = [5] \<and> length lost = 1"
proof -
  let ?es = "[Bytes (snd (send_message False [1040] (reg_response_message False 9)))]"
  let ?e = "\<lambda>fd. sample_connect\<lparr>cn_socket := fd\<rparr>"
  let ?on = "\<lambda>fd c. c\<lparr>cl_server_socket := fd, cl_is_connected := True, cl_client_id := 1\<rparr>"
  let ?cfg = "\<lparr>cc_server_ip = ''127.0.0.1'', cc_server_port = 8888, cc_reconnect_interval_seconds = 5\<rparr>"
  obtain c1 where init: "client_init True (Some ?cfg) sample_client = (0, c1)" and n: "\<not> cl_is_connected c1"
    by (simp add: client_init_def)
  have s: "send_message False [1040] (reg_response_message False 9) =
      (0, snd (send_message False [1040] (reg_response_message False 9)))"
    using sent_in_one_write[of "reg_response_message False 9"] by (simp add: prod_eq_iff)
  have r: "receive_message False ?es = ((0, Some (reg_response_message False 9)), [])" by (rule receive_one_piece[OF s]) simp
  have conn: "\<exists>io. client_connect_to_server False (?e fd) ?es c = ((0, [], ?on fd c), io)" if "0 \<le> fd" for fd c
    using connect_accepted[OF r, of "?e fd" c] that sent_in_one_write[of "plain_message MSG_TYPE_REGISTER 1"] by simp
  obtain io1 where "client_connect_to_server False (?e 4) ?es c1 = ((0, [], ?on 4 c1), io1)" using conn[of 4 c1] by auto
  from step_connect[OF this] n have 1: "client_step False c1 0 io1 (?on 4 c1)" by simp
  obtain io2 where "client_connect_to_server False (?e 5) ?es (?on 4 c1) = ((0, [], ?on 5 (?on 4 c1)), io2)"
    using conn[of 5 "?on 4 c1"] by fastforce
  from step_connect[OF this] have 2: "client_step False (?on 4 c1) 1 io2 (?on 5 c1)" by simp
  have "conn_run (client_step False) c1 (0 + 0 + 1) (([] @ io1) @ io2) (?on 5 c1)"
    by (rule conn_call[where step = "client_step False", OF conn_call[where step = "client_step False", OF conn_refl 1] 2])
  then have run: "conn_run (client_step False) c1 1 (io1 @ io2) (?on 5 c1)" by simp
  from client_socket_accounting[OF init run] obtain lost where
    "open_sockets [] (io1 @ io2) = known_socket (?on 5 c1) @ lost" "length lost = 1" by blast
  moreover have "known_socket (?on 5 c1) = [5]" by (simp add: known_socket_def)
  ultimately show ?thesis using run by blast
qed

section \<open>Waiting\<close>

lemma wait_loop_ends:
  assumes "0 < timeout" and "\<exists>(ws, now) \<in> set polls. timeout * 1000 \<le> now - start"
  shows "fst (fst (wait_loop be j timeout start polls es c)) \<noteq> None"
  using assms(2)
proof (induction polls arbitrary: es)
  case (Cons p polls)
  obtain ws now where p: "p = (ws, now)" by fastforce
  show ?case
  proof (cases "timeout * 1000 \<le> now - start")
    case True
    then show ?thesis using assms(1) p by (simp split: prod.split)
  next
    case False
    then have "fst (fst (wait_loop be j timeout start polls es' c)) \<noteq> None" for es' using Cons p by auto
    then show ?thesis using p by (auto split: prod.split) (metis fst_conv option.discI)+
  qed
qed simp



text \<open>Without a timeout the loop polls as long as the job is pending or running.\<close>

lemma wait_loop_unbounded:
  assumes "timeout \<le> 0" and "wait_loop be j timeout start polls es c = ((Some r, es'), io)"
  shows "r = -1 \<or> final_status r"
  using assms(2)
proof (induction polls arbitrary: es io)
  case (Cons p polls)
  then show ?case using assms(1) by (cases p) (auto split: prod.splits if_splits)
qed simp

text \<open>A request of a client that is not connected fails without touching a socket or its input.\<close>

theorem client_not_connected:
  assumes "\<not> cl_is_connected c"
  shows "client_submit_job be ws t d n es c = Some ((-1, es), []) \<and>
    client_get_job_status be ws j es c = ((-1, es), []) \<and>
    client_get_job_result be ws ok j dp sp es c = ((Some (-1, None, 0), es), []) \<and>
    client_get_server_stats be ws es c = ((None, es), []) \<and>
    client_disconnect_from_server be ws es c = ((0, es, c), []) \<and>
    fst (client_wait_for_job be j timeout start ((ws, now) # polls) es c) = (Some (-1), es)"
  using assms
  by (simp add: client_submit_job_def client_get_job_status_def client_get_job_result_def
      client_get_server_stats_def client_disconnect_from_server_def client_wait_for_job_def)

theorem client_not_connected_witness:
  "client_get_job_status False [1040] 7 [] (sample_client\<lparr>cl_is_connected := False\<rparr>) = ((-1, []), [])"
  using client_not_connected[of "sample_client\<lparr>cl_is_connected := False\<rparr>"] by simp

end
