(* ===== verification/Logger.thy ===== *)
theory Logger
  imports Prelude C_Strings Plain_Mutex
begin

text \<open>
  The logger of the distributed worker system (\<open>lib/src/logger.c\<close>). Its state is the record of the C file; the log files are a map
  from paths to contents, the console is a text. A message is given as the text the format and its arguments expand
  to, and the time as the text \<open>get_time_str\<close> produces.

  The theory shows what is written where, that lines are complete if they fit into the buffer, and that closing the
  logger blocks for ever exactly if the closing message would be logged: it is logged while the mutex is held.
\<close>

section \<open>Levels\<close>

datatype log_level_t = LOG_DEBUG | LOG_INFO | LOG_WARNING | LOG_ERROR | LOG_FATAL

fun level_value :: "log_level_t \<Rightarrow> int" where
  "level_value LOG_DEBUG = 0"
| "level_value LOG_INFO = 1"
| "level_value LOG_WARNING = 2"
| "level_value LOG_ERROR = 3"
| "level_value LOG_FATAL = 4"

lemma level_value_inj: "level_value a = level_value b \<Longrightarrow> a = b"
  by (cases a; cases b) auto

instantiation log_level_t :: linorder
begin

definition less_eq_log_level_t :: "log_level_t \<Rightarrow> log_level_t \<Rightarrow> bool" where
  "less_eq_log_level_t a b \<longleftrightarrow> level_value a \<le> level_value b"

definition less_log_level_t :: "log_level_t \<Rightarrow> log_level_t \<Rightarrow> bool" where
  "less_log_level_t a b \<longleftrightarrow> level_value a < level_value b"

instance
  by standard (auto simp: less_eq_log_level_t_def less_log_level_t_def level_value_inj)

end

fun level_names :: "log_level_t \<Rightarrow> string" where
  "level_names LOG_DEBUG = ''DEBUG''"
| "level_names LOG_INFO = ''INFO''"
| "level_names LOG_WARNING = ''WARNING''"
| "level_names LOG_ERROR = ''ERROR''"
| "level_names LOG_FATAL = ''FATAL''"

definition esc :: char where "esc = CHR 0x1B"

fun level_colors :: "log_level_t \<Rightarrow> string" where
  "level_colors LOG_DEBUG = esc # ''[36m''"
| "level_colors LOG_INFO = esc # ''[32m''"
| "level_colors LOG_WARNING = esc # ''[33m''"
| "level_colors LOG_ERROR = esc # ''[31m''"
| "level_colors LOG_FATAL = esc # ''[35m''"

definition color_reset :: string where "color_reset = esc # ''[0m''"

definition MAX_LOG_MSG_LEN :: nat where "MAX_LOG_MSG_LEN = 1024"

section \<open>State\<close>

text \<open>The level of the logger is the \<open>int\<close> behind the enumeration: its callers also pass numbers that name no level.\<close>

record logger_t =
  lg_log_file :: "string option"
  lg_app_name :: "string option"
  lg_level :: int
  lg_mutex :: bool
  lg_initialized :: bool
  lg_files :: "string \<Rightarrow> string"
  lg_console :: string

definition initial_logger :: "(string \<Rightarrow> string) \<Rightarrow> string \<Rightarrow> logger_t" where
  "initial_logger files console = \<lparr>lg_log_file = None, lg_app_name = None, lg_level = level_value LOG_INFO, lg_mutex = False,
     lg_initialized = False, lg_files = files, lg_console = console\<rparr>"

definition log_section :: "(logger_t \<Rightarrow> logger_t outcome) \<Rightarrow> logger_t \<Rightarrow> logger_t outcome" where
  "log_section = critical lg_mutex (\<lambda>b l. l\<lparr>lg_mutex := b\<rparr>)"

interpretation log_lock: plain_mutex lg_mutex "\<lambda>b l. l\<lparr>lg_mutex := b\<rparr>"
  by unfold_locales simp_all

section \<open>Operations\<close>

text \<open>A call of the logging macros: where it stands, what it says, and when it is made.\<close>

record log_call =
  lc_level :: log_level_t
  lc_file :: string
  lc_line :: int
  lc_func :: string
  lc_message :: string
  lc_time :: string

text \<open>\<open>snprintf\<close> into a buffer of \<open>MAX_LOG_MSG_LEN\<close>: the rest is cut off.\<close>

definition log_line :: "log_call \<Rightarrow> string" where
  "log_line c =
     ''['' @ lc_time c @ ''] ['' @ level_names (lc_level c) @ ''] ['' @ lc_file c @ '':'' @ show_int (lc_line c) @ ''] ['' @
     lc_func c @ ''] '' @ take (MAX_LOG_MSG_LEN - 1) (lc_message c) @ [CHR 0x0A]"

definition full_message :: "log_call \<Rightarrow> string" where
  "full_message c = take (MAX_LOG_MSG_LEN - 1) (log_line c)"

definition write_message :: "log_call \<Rightarrow> logger_t \<Rightarrow> logger_t" where
  "write_message c l =
     (let l = l\<lparr>lg_console := lg_console l @ level_colors (lc_level c) @ full_message c @ color_reset\<rparr> in
      case lg_log_file l of
        None \<Rightarrow> l
      | Some path \<Rightarrow> l\<lparr>lg_files := (lg_files l)(path := lg_files l path @ full_message c)\<rparr>)"

definition logger_log :: "log_call \<Rightarrow> logger_t \<Rightarrow> logger_t outcome" where
  "logger_log c l =
     (if level_value (lc_level c) < lg_level l then Done l
      else log_section (\<lambda>l. Done (write_message c l)) l)"

definition logger_set_level :: "int \<Rightarrow> logger_t \<Rightarrow> logger_t outcome" where
  "logger_set_level level l = log_section (\<lambda>l. Done (l\<lparr>lg_level := level\<rparr>)) l"

text \<open>What the calls in the file itself get from their surroundings: its name for the compiler, the time, the results of \<open>strdup\<close> and \<open>fopen\<close>.\<close>

record logger_env =
  ln_file :: string
  ln_time :: string
  ln_strdup :: bool
  ln_fopen :: bool

text \<open>The critical section of \<open>logger_init\<close>, with its early returns.\<close>

definition init_section ::
  "logger_env \<Rightarrow> string option \<Rightarrow> string option \<Rightarrow> int \<Rightarrow> logger_t \<Rightarrow> int \<times> logger_t" where
  "init_section e app_name log_file level l =
     (if lg_initialized l then (-1, l)
      else if app_name \<noteq> None \<and> \<not> ln_strdup e then (-1, l\<lparr>lg_app_name := None\<rparr>)
      else
        let l = l\<lparr>lg_app_name := (case app_name of Some n \<Rightarrow> Some n | None \<Rightarrow> if ln_strdup e then Some ''App'' else None)\<rparr> in
        if log_file \<noteq> None \<and> \<not> ln_fopen e then (-1, l\<lparr>lg_log_file := None, lg_app_name := None\<rparr>)
        else (0, l\<lparr>lg_log_file := (case log_file of None \<Rightarrow> lg_log_file l | Some path \<Rightarrow> Some path),
                   lg_level := level, lg_initialized := True\<rparr>))"

definition init_call :: "logger_env \<Rightarrow> log_call" where
  "init_call e = \<lparr>lc_level = LOG_INFO, lc_file = ln_file e, lc_line = 86, lc_func = ''logger_init'',
     lc_message = ''Logger initialized'', lc_time = ln_time e\<rparr>"

text \<open>The return value, if the call returns, and the state.\<close>

definition logger_init ::
  "logger_env \<Rightarrow> string option \<Rightarrow> string option \<Rightarrow> int \<Rightarrow> logger_t \<Rightarrow> int \<times> logger_t outcome" where
  "logger_init e app_name log_file level l =
     (if lg_mutex l then (-1, Blocked l)
      else
        case init_section e app_name log_file level l of
          (r, l') \<Rightarrow> if r < 0 then (r, Done l') else (0, logger_log (init_call e) l'))"

definition close_call :: "logger_env \<Rightarrow> log_call" where
  "close_call e = \<lparr>lc_level = LOG_INFO, lc_file = ln_file e, lc_line = 102, lc_func = ''logger_close'',
     lc_message = ''Logger closed'', lc_time = ln_time e\<rparr>"

definition release_logger :: "logger_t \<Rightarrow> logger_t" where
  "release_logger l = l\<lparr>lg_log_file := None, lg_app_name := None, lg_initialized := False\<rparr>"

definition logger_close :: "logger_env \<Rightarrow> logger_t \<Rightarrow> logger_t outcome" where
  "logger_close e l =
     log_section (\<lambda>l.
       if \<not> lg_initialized l then Done l
       else and_then (logger_log (close_call e) l) (\<lambda>l. Done (release_logger l))) l"

section \<open>Lemmas\<close>

lemma write_message_mutex: "write_message c (l\<lparr>lg_mutex := b\<rparr>) = (write_message c l)\<lparr>lg_mutex := b\<rparr>"
  by (simp add: write_message_def Let_def split: option.split)

lemma logger_log_free:
  assumes "\<not> lg_mutex l"
  shows "logger_log c l = Done (if lg_level l \<le> level_value (lc_level c) then write_message c l else l)"
  using log_lock.critical_pure[of l "write_message c", OF assms write_message_mutex]
  by (auto simp: logger_log_def log_section_def not_less)

lemma logger_set_level_free: "\<not> lg_mutex l \<Longrightarrow> logger_set_level level l = Done (l\<lparr>lg_level := level\<rparr>)"
  using log_lock.critical_pure[of l "\<lambda>l. l\<lparr>lg_level := level\<rparr>"] by (simp add: logger_set_level_def log_section_def)

lemma logger_log_held: "lg_mutex l \<Longrightarrow> lg_level l \<le> level_value (lc_level c) \<Longrightarrow> logger_log c l = Blocked l"
  using log_lock.critical_held by (simp add: logger_log_def log_section_def not_less)

lemma logger_log_below: "level_value (lc_level c) < lg_level l \<Longrightarrow> logger_log c l = Done l"
  by (simp add: logger_log_def)

text \<open>Closing a logger that is not initialised does nothing; closing one that is initialised waits for ever if its own message
  is logged.\<close>

lemma logger_close_cases:
  assumes "\<not> lg_mutex l"
  shows "logger_close e l =
    (if \<not> lg_initialized l then Done l
     else if lg_level l \<le> level_value LOG_INFO then Blocked (l\<lparr>lg_mutex := True\<rparr>)
     else Done (release_logger l))"
proof (cases "lg_initialized l \<and> lg_level l \<le> level_value LOG_INFO")
  case True
  then have "logger_log (close_call e) (l\<lparr>lg_mutex := True\<rparr>) = Blocked (l\<lparr>lg_mutex := True\<rparr>)"
    by (intro logger_log_held) (simp_all add: close_call_def)
  then show ?thesis using True assms by (simp add: logger_close_def log_section_def critical_def)
next
  case False
  then have "lg_initialized l \<Longrightarrow> logger_log (close_call e) (l\<lparr>lg_mutex := True\<rparr>) = Done (l\<lparr>lg_mutex := True\<rparr>)"
    by (intro logger_log_below) (simp add: close_call_def not_le)
  then show ?thesis
    using False assms by (auto simp: logger_close_def log_section_def critical_def release_logger_def)
qed

text \<open>A sequence of calls, and what it leaves in the log file and on the console.\<close>

fun log_all :: "log_call list \<Rightarrow> logger_t \<Rightarrow> logger_t outcome" where
  "log_all [] l = Done l"
| "log_all (c # cs) l = and_then (logger_log c l) (log_all cs)"

definition logged :: "int \<Rightarrow> log_call list \<Rightarrow> string" where
  "logged level cs = concat (map full_message (filter (\<lambda>c. level \<le> level_value (lc_level c)) cs))"

definition shown :: "int \<Rightarrow> log_call list \<Rightarrow> string" where
  "shown level cs =
     concat (map (\<lambda>c. level_colors (lc_level c) @ full_message c @ color_reset) (filter (\<lambda>c. level \<le> level_value (lc_level c)) cs))"

lemma log_all_written:
  assumes "\<not> lg_mutex l" and "lg_log_file l = Some path"
  shows "log_all cs l =
    Done (l\<lparr>lg_files := (lg_files l)(path := lg_files l path @ logged (lg_level l) cs), lg_console := lg_console l @ shown (lg_level l) cs\<rparr>)"
  using assms
proof (induction cs arbitrary: l)
  case Nil
  then show ?case by (simp add: logged_def shown_def)
next
  case (Cons c cs)
  show ?case
  proof (cases "lg_level l \<le> level_value (lc_level c)")
    case True
    have "write_message c l = l\<lparr>lg_console := lg_console l @ level_colors (lc_level c) @ full_message c @ color_reset,
        lg_files := (lg_files l)(path := lg_files l path @ full_message c)\<rparr>"
      using Cons.prems by (simp add: write_message_def)
    then show ?thesis
      using Cons.prems True Cons.IH[of "write_message c l"]
      by (simp add: logger_log_free logged_def shown_def fun_upd_def cong: if_cong)
  next
    case False
    then show ?thesis using Cons by (simp add: logger_log_free logged_def shown_def)
  qed
qed

text \<open>Whatever the level, a message is logged if one of the same or a lower severity would be.\<close>

lemma severe_logged_too:
  assumes "\<not> lg_mutex l" and "lc_level c \<le> lc_level d" and "logger_log c l = Done (write_message c l)" and "lg_level l \<le> level_value (lc_level c)"
  shows "logger_log d l = Done (write_message d l)"
  using assms by (simp add: logger_log_free less_eq_log_level_t_def)

section \<open>Properties\<close>

text \<open>C23: A session of the logger: opening it with a log file succeeds, after any messages the log file has grown by exactly the
  messages of at least the chosen level, in order, starting with the logger's own, and the console shows the same in colours.
  Then closing the logger blocks for ever, holding its mutex, if the level is INFO or DEBUG, and otherwise releases everything.\<close>

theorem logger_session:
  assumes "ln_strdup e" and "ln_fopen e"
  shows "\<exists>l l'. logger_init e (Some name) (Some path) level (initial_logger files con) = (0, Done l) \<and>
    log_all cs l = Done l' \<and>
    lg_files l' = files(path := files path @ logged level (init_call e # cs)) \<and>
    lg_console l' = con @ shown level (init_call e # cs) \<and>
    logger_close e' l' = (if level \<le> level_value LOG_INFO then Blocked (l'\<lparr>lg_mutex := True\<rparr>) else Done (release_logger l'))"
proof -
  define l0 where "l0 = (initial_logger files con)\<lparr>lg_log_file := Some path, lg_app_name := Some name, lg_level := level,
    lg_initialized := True\<rparr>"
  have l0: "\<not> lg_mutex l0" "lg_log_file l0 = Some path" "lg_level l0 = level" "lg_initialized l0"
    "lg_files l0 = files" "lg_console l0 = con"
    by (simp_all add: l0_def initial_logger_def)
  have i: "logger_init e (Some name) (Some path) level (initial_logger files con) = (0, logger_log (init_call e) l0)"
    using assms by (simp add: logger_init_def init_section_def initial_logger_def l0_def)
  obtain l where l: "logger_log (init_call e) l0 = Done l" using logger_log_free[OF l0(1)] by blast
  then have "log_all cs l = log_all (init_call e # cs) l0" by simp
  also note log_all_written[OF l0(1,2)]
  finally show ?thesis using i l l0 by (simp add: logger_close_cases)
qed

theorem logger_session_witness:
  "\<exists>l l'. logger_init \<lparr>ln_file = ''logger.c'', ln_time = ''noon'', ln_strdup = True, ln_fopen = True\<rparr> (Some ''CentralServer'')
      (Some ''central_server.log'') (level_value LOG_INFO) (initial_logger (\<lambda>_. []) []) = (0, Done l) \<and>
    log_all [\<lparr>lc_level = LOG_DEBUG, lc_file = ''a.c'', lc_line = 7, lc_func = ''f'', lc_message = ''hello'', lc_time = ''one''\<rparr>] l = Done l' \<and>
    lg_files l' ''central_server.log'' = ''[noon] [INFO] [logger.c:86] [logger_init] Logger initialized'' @ [CHR 0x0A] \<and>
    logger_close \<lparr>ln_file = ''logger.c'', ln_time = ''two'', ln_strdup = True, ln_fopen = True\<rparr> l' = Blocked (l'\<lparr>lg_mutex := True\<rparr>)"
proof -
  let ?e = "\<lparr>ln_file = ''logger.c'', ln_time = ''noon'', ln_strdup = True, ln_fopen = True\<rparr>"
  let ?cs = "[\<lparr>lc_level = LOG_DEBUG, lc_file = ''a.c'', lc_line = 7, lc_func = ''f'', lc_message = ''hello'', lc_time = ''one''\<rparr>]"
  have "logged (level_value LOG_INFO) (init_call ?e # ?cs) = ''[noon] [INFO] [logger.c:86] [logger_init] Logger initialized'' @ [CHR 0x0A]"
    by code_simp
  then show ?thesis
    using logger_session[of ?e "''CentralServer''" "''central_server.log''" "level_value LOG_INFO" "\<lambda>_. []" "[]" ?cs
        "\<lparr>ln_file = ''logger.c'', ln_time = ''two'', ln_strdup = True, ln_fopen = True\<rparr>"] by auto
qed

text \<open>A line reaches the log complete, with its newline, exactly if it fits into the buffer.\<close>

lemma full_message_complete_iff: "full_message c = log_line c \<longleftrightarrow> length (log_line c) < MAX_LOG_MSG_LEN"
  by (auto simp: full_message_def MAX_LOG_MSG_LEN_def)

text \<open>A failed initialisation leaves the logger as it was, not initialised and with nothing to free.\<close>

lemma failed_init_leaves_nothing:
  assumes "logger_init e app path level (initial_logger files con) = (-1, out)"
  shows "out = Done (initial_logger files con)"
  using assms by (auto simp: logger_init_def init_section_def initial_logger_def Let_def split: if_splits)

end
