(* ===== verification/Client_Main.thy ===== *)
theory Client_Main
  imports Command_Line Client Logger
begin

text \<open>
  The main program of the client (\<open>client/client_main.c\<close>): its options, the file it may read the job's data from, the request it makes
  of the server, what it prints and how it ends. The messages of the main program go through the modelled logger; those of the client
  library, and those of \<open>read_file\<close>, which are written before the logger is opened, are left out.

  The theory shows that every accepted command line gives a configuration in range, that the program prints exactly the result the
  server delivers, that no socket is left open, that a failed job is not visible in the exit code, and that at
  the default log level the program never ends.
\<close>

section \<open>Options\<close>

definition DEFAULT_CLIENT_SERVER_IP :: string where "DEFAULT_CLIENT_SERVER_IP = ''127.0.0.1''"
definition DEFAULT_CLIENT_SERVER_PORT :: int where "DEFAULT_CLIENT_SERVER_PORT = 8080"
definition DEFAULT_LOG_LEVEL :: int where "DEFAULT_LOG_LEVEL = level_value LOG_INFO"

record client_args =
  ca_config :: ClientConfig
  ca_job_type :: int
  ca_input_data :: "byte list option"
  ca_input_size :: nat
  ca_wait_for_completion :: bool
  ca_timeout_seconds :: int
  ca_log_level :: int
  ca_log_file :: string

definition client_defaults :: client_args where
  "client_defaults =
     \<lparr>ca_config = \<lparr>cc_server_ip = DEFAULT_CLIENT_SERVER_IP, cc_server_port = DEFAULT_CLIENT_SERVER_PORT, cc_reconnect_interval_seconds = 5\<rparr>,
      ca_job_type = -1, ca_input_data = None, ca_input_size = 0, ca_wait_for_completion = False, ca_timeout_seconds = 30,
      ca_log_level = DEFAULT_LOG_LEVEL, ca_log_file = []\<rparr>"

definition client_long_options :: "long_option list" where
  "client_long_options =
     [\<lparr>lo_name = ''help'', lo_has_arg = False, lo_val = CHR ''h''\<rparr>,
      \<lparr>lo_name = ''server-ip'', lo_has_arg = True, lo_val = CHR ''s''\<rparr>,
      \<lparr>lo_name = ''server-port'', lo_has_arg = True, lo_val = CHR ''p''\<rparr>,
      \<lparr>lo_name = ''job-type'', lo_has_arg = True, lo_val = CHR ''j''\<rparr>,
      \<lparr>lo_name = ''data'', lo_has_arg = True, lo_val = CHR ''d''\<rparr>,
      \<lparr>lo_name = ''file'', lo_has_arg = True, lo_val = CHR ''f''\<rparr>,
      \<lparr>lo_name = ''wait'', lo_has_arg = False, lo_val = CHR ''w''\<rparr>,
      \<lparr>lo_name = ''timeout'', lo_has_arg = True, lo_val = CHR ''t''\<rparr>,
      \<lparr>lo_name = ''log-level'', lo_has_arg = True, lo_val = CHR ''l''\<rparr>,
      \<lparr>lo_name = ''log-file'', lo_has_arg = True, lo_val = CHR ''o''\<rparr>]"

text \<open>
  What the calls of \<open>read_file\<close> answer for a file that can be opened: the size \<open>ftell\<close> finds, whether \<open>malloc\<close> succeeds, and the bytes
  \<open>fread\<close> delivers.
\<close>

record file_answers =
  fa_size :: int
  fa_malloc :: bool
  fa_read :: "byte list"

definition read_file :: "(string \<Rightarrow> file_answers option) \<Rightarrow> string \<Rightarrow> byte list option" where
  "read_file files filename =
     (case files filename of
        None \<Rightarrow> None
      | Some f \<Rightarrow>
          if fa_size f \<le> 0 then None
          else if \<not> fa_malloc f then None
          else if int (length (fa_read f)) \<noteq> fa_size f then None
          else Some (fa_read f))"

text \<open>\<open>strdup_ok\<close> tells whether \<open>strdup\<close> finds memory for the data.\<close>

definition client_option ::
  "bool \<Rightarrow> (string \<Rightarrow> file_answers option) \<Rightarrow> opt_event \<Rightarrow> client_args \<Rightarrow> (int + client_args) option" where
  "client_option strdup_ok files e c =
     (case e of
        BadOption \<Rightarrow> Some (Inl 1)
      | Opt o_char arg \<Rightarrow>
          let optarg = (case arg of None \<Rightarrow> [] | Some a \<Rightarrow> a) in
          if o_char = CHR ''h'' then Some (Inl 0)
          else if o_char = CHR ''s'' then Some (Inr (c\<lparr>ca_config := (ca_config c)\<lparr>cc_server_ip := fit_field 16 optarg\<rparr>\<rparr>))
          else if o_char = CHR ''p'' then number_option port_range (\<lambda>n. c\<lparr>ca_config := (ca_config c)\<lparr>cc_server_port := n\<rparr>\<rparr>) optarg
          else if o_char = CHR ''j'' then number_option positive (\<lambda>n. c\<lparr>ca_job_type := n\<rparr>) optarg
          else if o_char = CHR ''d''
          then Some (Inr (c\<lparr>ca_input_data := (if strdup_ok then Some (map of_char optarg) else None), ca_input_size := length optarg\<rparr>))
          else if o_char = CHR ''f''
          then (case read_file files optarg of
                  None \<Rightarrow> Some (Inl 1)
                | Some data \<Rightarrow> Some (Inr (c\<lparr>ca_input_data := Some data, ca_input_size := length data\<rparr>)))
          else if o_char = CHR ''w'' then Some (Inr (c\<lparr>ca_wait_for_completion := True\<rparr>))
          else if o_char = CHR ''t'' then number_option positive (\<lambda>n. c\<lparr>ca_timeout_seconds := n\<rparr>) optarg
          else if o_char = CHR ''l'' then number_option level_range (\<lambda>n. c\<lparr>ca_log_level := n\<rparr>) optarg
          else if o_char = CHR ''o'' then Some (Inr (c\<lparr>ca_log_file := fit_field 256 optarg\<rparr>))
          else Some (Inl 1))"

text \<open>The options, and the test for the job type behind them.\<close>

definition client_parse :: "bool \<Rightarrow> (string \<Rightarrow> file_answers option) \<Rightarrow> string list \<Rightarrow> (int + client_args) option" where
  "client_parse strdup_ok files argv =
     (case option_loop (client_option strdup_ok files)
             (getopt_long (option_string ''hs:p:j:d:f:wt:l:o:'') client_long_options argv) client_defaults of
        Some (Inr c) \<Rightarrow> Some (if ca_job_type c < 0 then Inl 1 else Inr c)
      | r \<Rightarrow> r)"

section \<open>The session with the server\<close>

record client_main_env =
  ce_be :: bool
  ce_files :: "string \<Rightarrow> file_answers option"
  ce_strdup :: bool
  ce_logger :: logger_env
  ce_call :: "log_level_t \<Rightarrow> string \<Rightarrow> log_call"
  ce_lock_ok :: bool
  ce_connect :: connect_env
  ce_submit_ws :: "int list"
  ce_start_time :: int
  ce_polls :: "(int list \<times> int) list"
  ce_result_ws :: "int list"
  ce_malloc :: bool
  ce_cleanup_ws :: "int list"

text \<open>
  What the program does between opening and closing the logger: its exit code, the messages it logs, the bytes it writes to
  the standard output and what happens to sockets. \<open>StillPolling\<close> is a program that still waits for its job when the list of
  polls ends, \<open>ReadPastEnd\<close> one that copies more than the server sent.
\<close>

datatype session =
    SessionEnd int "(log_level_t \<times> string) list" "byte list" "cl_io list"
  | StillPolling
  | ReadPastEnd

text \<open>The common end: \<open>client_cleanup\<close>.\<close>

definition session_cleanup ::
  "client_main_env \<Rightarrow> int \<Rightarrow> (log_level_t \<times> string) list \<Rightarrow> byte list \<Rightarrow> cl_io list \<Rightarrow> read_event list \<Rightarrow> Client \<Rightarrow> session" where
  "session_cleanup e code messages out io es c =
     (case client_cleanup (ce_be e) (ce_cleanup_ws e) es c of
        (_, io') \<Rightarrow> SessionEnd code messages out (io @ io'))"

text \<open>What follows when a job has completed: the messages and the bytes printed.\<close>

definition print_result :: "int \<times> byte list option \<times> nat \<Rightarrow> (log_level_t \<times> string) list \<times> byte list" where
  "print_result r =
     (case r of (code, data, n) \<Rightarrow>
        if code = 0
        then if n > 0
             then ([(LOG_INFO, ''Job result (size: '' @ show_nat n @ ''):'')],
                   (case data of None \<Rightarrow> [] | Some d \<Rightarrow> take n d) @ [of_char newline])
             else ([(LOG_INFO, ''Job completed with empty result'')], [])
        else ([(LOG_ERROR, ''Failed to get job result'')], []))"

definition client_finish ::
  "client_main_env \<Rightarrow> int \<Rightarrow> int \<Rightarrow> (log_level_t \<times> string) list \<Rightarrow> cl_io list \<Rightarrow> read_event list \<Rightarrow> Client \<Rightarrow> session" where
  "client_finish e job_id status messages io es c =
     (if status = 2
      then (case client_get_job_result (ce_be e) (ce_result_ws e) (ce_malloc e) job_id True True es c of
              ((None, _), _) \<Rightarrow> ReadPastEnd
            | ((Some r, es'), io') \<Rightarrow>
                session_cleanup e 0 (messages @ (LOG_INFO, ''Job completed successfully'') # fst (print_result r)) (snd (print_result r))
                  (io @ io') es' c)
      else session_cleanup e 0
             (messages @ [(LOG_ERROR, if status = 3 then ''Job failed'' else if status = 4 then ''Job timed out''
                                      else ''Unexpected job status: '' @ show_int status)]) [] io es c)"

definition client_await ::
  "client_main_env \<Rightarrow> client_args \<Rightarrow> int \<Rightarrow> (log_level_t \<times> string) list \<Rightarrow> cl_io list \<Rightarrow> read_event list \<Rightarrow> Client \<Rightarrow> session" where
  "client_await e a job_id messages io es c =
     (if \<not> ca_wait_for_completion a then session_cleanup e 0 messages [] io es c
      else
        let messages = messages @ [(LOG_INFO, ''Waiting for job completion (timeout: '' @ show_int (ca_timeout_seconds a) @ '' seconds)...'')] in
        (case client_wait_for_job (ce_be e) job_id (ca_timeout_seconds a) (ce_start_time e) (ce_polls e) es c of
           ((None, _), _) \<Rightarrow> StillPolling
         | ((Some status, es'), io') \<Rightarrow>
             if status < 0
             then session_cleanup e 1 (messages @ [(LOG_ERROR, ''Error waiting for job completion'')]) [] (io @ io') es' c
             else client_finish e job_id status messages (io @ io') es' c))"

definition client_session :: "client_main_env \<Rightarrow> client_args \<Rightarrow> read_event list \<Rightarrow> Client \<Rightarrow> session" where
  "client_session e a es c =
     (case client_init (ce_lock_ok e) (Some (ca_config a)) c of
        (r, c1) \<Rightarrow>
          if r \<noteq> 0 then SessionEnd 1 [(LOG_FATAL, ''Failed to initialize client'')] [] []
          else (case client_connect_to_server (ce_be e) (ce_connect e) es c1 of
            ((r, es1, c2), io1) \<Rightarrow>
              if r \<noteq> 0 then session_cleanup e 1 [(LOG_FATAL, ''Failed to connect to server'')] [] io1 es1 c2
              else (case client_submit_job (ce_be e) (ce_submit_ws e) (ca_job_type a) (ca_input_data a) (ca_input_size a) es1 c2 of
                 None \<Rightarrow> ReadPastEnd
               | Some ((job_id, es2), io2) \<Rightarrow>
                   if job_id < 0 then session_cleanup e 1 [(LOG_FATAL, ''Failed to submit job'')] [] (io1 @ io2) es2 c2
                   else client_await e a job_id [(LOG_INFO, ''Job submitted successfully, job ID: '' @ show_int job_id)] (io1 @ io2) es2 c2)))"

section \<open>The program\<close>

text \<open>
  A program that ends while it reads its options or opens the log; one that gets to its last line, whose exit code is returned if
  closing the logger returns; one that does not get there.
\<close>

datatype client_run =
    Exited int
  | Closing int "logger_t outcome" "byte list" "cl_io list"
  | NotReached session

definition client_program :: "client_main_env \<Rightarrow> string list \<Rightarrow> read_event list \<Rightarrow> Client \<Rightarrow> logger_t \<Rightarrow> client_run option" where
  "client_program e argv es c l =
     (case client_parse (ce_strdup e) (ce_files e) argv of
        None \<Rightarrow> None
      | Some (Inl code) \<Rightarrow> Some (Exited code)
      | Some (Inr a) \<Rightarrow>
          (case logger_init (ce_logger e) (Some ''client'') (if ca_log_file a \<noteq> [] then Some (ca_log_file a) else None) (ca_log_level a) l of
             (r, opened) \<Rightarrow>
               if ca_log_file a \<noteq> [] \<and> r \<noteq> 0 then Some (Exited 1)
               else (case client_session e a es c of
                  SessionEnd code messages out io \<Rightarrow>
                    Some (Closing code
                      (and_then opened (\<lambda>l1. and_then (log_all (map (\<lambda>(level, text). ce_call e level text) messages) l1)
                                              (\<lambda>l2. logger_close (ce_logger e) l2)))
                      out io)
                | s \<Rightarrow> Some (NotReached s))))"

section \<open>Lemmas\<close>

definition valid_client_args :: "client_args \<Rightarrow> bool" where
  "valid_client_args a \<longleftrightarrow> length (cc_server_ip (ca_config a)) < 16 \<and> port_range (cc_server_port (ca_config a)) \<and>
     (ca_job_type a = -1 \<or> positive (ca_job_type a)) \<and> positive (ca_timeout_seconds a) \<and> level_range (ca_log_level a) \<and>
     length (ca_log_file a) < 256 \<and> (case ca_input_data a of None \<Rightarrow> True | Some d \<Rightarrow> ca_input_size a = length d)"

lemma client_defaults_valid: "valid_client_args client_defaults"
  by (simp add: valid_client_args_def client_defaults_def DEFAULT_CLIENT_SERVER_IP_def DEFAULT_CLIENT_SERVER_PORT_def
      DEFAULT_LOG_LEVEL_def range_defs)

interpretation client_cmd: option_program "client_option strdup_ok files" valid_client_args for strdup_ok files
proof
  show "client_option strdup_ok files BadOption c = Some (Inl 1)" for c by (simp add: client_option_def)
next
  fix e c code
  assume "client_option strdup_ok files e c = Some (Inl code)"
  then show "code = (if \<exists>arg. e = Opt (CHR ''h'') arg then 0 else 1)"
    by (cases e) (auto simp: client_option_def Let_def dest: number_option_Inl split: if_splits option.splits)
next
  fix e c c'
  assume v: "valid_client_args c" and s: "client_option strdup_ok files e c = Some (Inr c')"
  then show "valid_client_args c'"
    by (cases e) (auto simp: client_option_def Let_def number_option_Inr valid_client_args_def length_fit_field
        split: if_splits option.splits)
qed

text \<open>Logging keeps the logger open and its mutex free.\<close>

lemma log_all_frame:
  "\<not> lg_mutex l \<Longrightarrow> \<exists>l'. log_all cs l = Done l' \<and> \<not> lg_mutex l' \<and> lg_level l' = lg_level l \<and> lg_initialized l' = lg_initialized l"
proof (induction cs arbitrary: l)
  case (Cons c cs)
  let ?l = "if lg_level l \<le> level_value (lc_level c) then write_message c l else l"
  have "\<not> lg_mutex ?l" "lg_level ?l = lg_level l" "lg_initialized ?l = lg_initialized l"
    using Cons.prems by (simp_all add: write_message_def Let_def split: option.split)
  then show ?case using Cons.IH[of ?l] by (simp add: logger_log_free[OF Cons.prems])
qed simp

lemma logger_init_opens:
  assumes "\<not> lg_mutex l" and "\<not> lg_initialized l" and "logger_init e (Some name) file level l = (r, opened)"
  shows "\<exists>l'. opened = Done l' \<and> \<not> lg_mutex l' \<and> lg_initialized l' = (r = 0) \<and> (r = 0 \<longrightarrow> lg_level l' = level)"
proof -
  obtain q l1 where i: "init_section e (Some name) file level l = (q, l1)" by fastforce
  have l1: "\<not> lg_mutex l1" "lg_initialized l1 = (q = 0)" "q = 0 \<longrightarrow> lg_level l1 = level" "q = 0 \<or> q = -1"
    using i assms(1,2) by (auto simp: init_section_def Let_def split: if_splits)
  show ?thesis
  proof (cases "q = 0")
    case True
    then have "logger_init e (Some name) file level l = (0, log_all [init_call e] l1)"
      using i assms(1) logger_log_free[OF l1(1)] by (simp add: logger_init_def)
    then show ?thesis using assms(3) log_all_frame[OF l1(1), of "[init_call e]"] l1 True by auto
  next
    case False
    then show ?thesis using i l1 assms by (auto simp: logger_init_def)
  qed
qed

text \<open>What waiting returns.\<close>

lemma wait_loop_status:
  "wait_loop be j timeout start polls es c = ((Some status, es'), io) \<Longrightarrow> status = -1 \<or> final_status status"
proof (induction polls arbitrary: es io)
  case (Cons p polls)
  obtain ws now where p: "p = (ws, now)" by fastforce
  obtain st es1 io1 where st: "client_get_job_status be ws j es c = ((st, es1), io1)" by (metis surj_pair)
  obtain r io2 where w: "wait_loop be j timeout start polls es1 c = (r, io2)" by fastforce
  show ?case
  proof (cases "st < 0 \<or> final_status st \<or> (timeout > 0 \<and> now - start \<ge> timeout * 1000)")
    case True
    then show ?thesis using Cons.prems p st by (auto split: if_splits)
  next
    case False
    then have "r = (Some status, es')" using Cons.prems p st w by (auto split: if_splits)
    then show ?thesis using Cons.IH w by blast
  qed
qed simp

lemma cleanup_sockets:
  assumes "session_cleanup e code ms out io es c = SessionEnd code' ms' out' io'" and "open_sockets [] io = known_socket c"
  shows "open_sockets [] io' = [] \<and> code' = code \<and> out' = out \<and> ms' = ms"
proof -
  obtain r es1 c1 io1 where d: "client_disconnect_from_server (ce_be e) (ce_cleanup_ws e) es c = ((r, es1, c1), io1)"
    by (metis surj_pair)
  then have "io' = io @ io1" "code' = code" "out' = out" "ms' = ms"
    using assms(1) by (auto simp: session_cleanup_def client_cleanup_def)
  then show ?thesis using open_sockets_disconnect[OF d] assms(2) by (auto simp: known_socket_def split: if_splits)
qed

lemma finish_end:
  assumes "client_finish e j status ms io es c = SessionEnd code ms' out io'" and "open_sockets [] io = known_socket c"
  shows "open_sockets [] io' = [] \<and> code = 0 \<and>
    (out \<noteq> [] \<longrightarrow> (\<exists>r es' io2. client_get_job_result (ce_be e) (ce_result_ws e) (ce_malloc e) j True True es c = ((Some r, es'), io2) \<and>
       out = snd (print_result r)))"
proof (cases "status = 2")
  case True
  obtain x es' io2 where r: "client_get_job_result (ce_be e) (ce_result_ws e) (ce_malloc e) j True True es c = ((x, es'), io2)"
    by (metis surj_pair)
  obtain rr where x: "x = Some rr" using assms(1) True r by (cases x) (auto simp: client_finish_def)
  have "open_sockets fds io2 = fds" for fds
    using open_sockets_calls(3)[of fds "ce_be e" "ce_result_ws e" "ce_malloc e" j True True es c] r by simp
  then have "open_sockets [] (io @ io2) = known_socket c" using assms(2) by simp
  from cleanup_sockets[OF _ this] show ?thesis using assms(1) True r x by (fastforce simp: client_finish_def)
next
  case False
  then show ?thesis using cleanup_sockets[OF _ assms(2)] assms(1) by (fastforce simp: client_finish_def)
qed

lemma await_end:
  assumes "client_await e a j ms io es c = SessionEnd code ms' out io'" and "open_sockets [] io = known_socket c"
  shows "open_sockets [] io' = [] \<and> (out \<noteq> [] \<longrightarrow> code = 0 \<and> ca_wait_for_completion a \<and>
     (\<exists>r es1 es2 io2. client_get_job_result (ce_be e) (ce_result_ws e) (ce_malloc e) j True True es1 c = ((Some r, es2), io2) \<and>
       out = snd (print_result r)))"
proof (cases "ca_wait_for_completion a")
  case True
  obtain x es1 io1 where w: "client_wait_for_job (ce_be e) j (ca_timeout_seconds a) (ce_start_time e) (ce_polls e) es c = ((x, es1), io1)"
    by (metis surj_pair)
  obtain status where x: "x = Some status" using assms(1) True w by (cases x) (auto simp: client_await_def Let_def)
  have "open_sockets fds io1 = fds" for fds
    using w open_sockets_wait by (metis client_wait_for_job_def snd_conv)
  then have k: "open_sockets [] (io @ io1) = known_socket c" using assms(2) by simp
  show ?thesis
  proof (cases "status < 0")
    case neg: True
    then show ?thesis using cleanup_sockets[OF _ k] assms(1) True w x by (fastforce simp: client_await_def Let_def)
  next
    case False
    then show ?thesis using finish_end[OF _ k] assms(1) True w x by (fastforce simp: client_await_def Let_def)
  qed
next
  case False
  then show ?thesis using cleanup_sockets[OF _ assms(2)] assms(1) by (fastforce simp: client_await_def)
qed

lemma session_end:
  assumes "client_session e a es c = SessionEnd code ms out io"
  shows "open_sockets [] io = [] \<and> (out \<noteq> [] \<longrightarrow> code = 0 \<and> ca_wait_for_completion a \<and>
     (\<exists>r j es1 es2 io2 c'. client_get_job_result (ce_be e) (ce_result_ws e) (ce_malloc e) j True True es1 c' = ((Some r, es2), io2) \<and>
       out = snd (print_result r)))"
proof -
  obtain r c1 where i: "client_init (ce_lock_ok e) (Some (ca_config a)) c = (r, c1)" by fastforce
  show ?thesis
  proof (cases "r = 0")
    case False
    then show ?thesis using assms i by (simp add: client_session_def)
  next
    case True
    have c1: "known_socket c1 = []" using i by (auto simp: client_init_def known_socket_def)
    obtain q es1 c2 io1 where k: "client_connect_to_server (ce_be e) (ce_connect e) es c1 = ((q, es1, c2), io1)"
      by (metis surj_pair)
    have o1: "open_sockets [] io1 = known_socket c2" using open_sockets_connect[OF k, of "[]"] c1 by (auto split: if_splits)
    show ?thesis
    proof (cases "q = 0")
      case False
      then show ?thesis using cleanup_sockets[OF _ o1] assms i k True by (fastforce simp: client_session_def)
    next
      case q: True
      obtain j es2 io2 where sub: "client_submit_job (ce_be e) (ce_submit_ws e) (ca_job_type a) (ca_input_data a) (ca_input_size a) es1 c2
          = Some ((j, es2), io2)"
        using assms i k True q by (auto simp: client_session_def split: option.splits)
      have o2: "open_sockets [] (io1 @ io2) = known_socket c2" using o1 open_sockets_calls(1)[OF sub] by simp
      show ?thesis
      proof (cases "j < 0")
        case neg: True
        then show ?thesis using cleanup_sockets[OF _ o2] assms i k True q sub by (fastforce simp: client_session_def)
      next
        case False
        then show ?thesis using await_end[OF _ o2] assms i k True q sub by (fastforce simp: client_session_def)
      qed
    qed
  qed
qed

text \<open>What \<open>write\<close> answers is such that every message is sent.\<close>

definition writes_all :: "bool \<Rightarrow> int list \<Rightarrow> bool" where
  "writes_all be ws \<longleftrightarrow> (\<forall>m. length (body m) = body_size \<longrightarrow> fst (send_message be ws m) = 0)"

lemma writes_all_one: "writes_all be [1040]"
  using sent_in_one_write by (simp add: writes_all_def)

lemma request_answered:
  assumes "writes_all be ws" and "length (body m) = body_size" and "receive_message be es = ((0, Some answer), es')"
    and "message_type (header answer) = msg_code expected" and "expected \<noteq> MSG_TYPE_ERROR"
  shows "\<exists>io. client_request be ws m expected result failure es c = ((result (body answer), es'), io)"
  using client_request_answer[OF _ assms(3-5), of ws m] assms(1,2) unfolding writes_all_def by (metis prod.collapse)

text \<open>A server that answers every request makes the client print the result it delivers.\<close>

lemma session_prints:
  assumes "ce_lock_ok e" and "0 \<le> cn_socket (ce_connect e)" "0 < cn_inet_pton (ce_connect e)" "0 \<le> cn_connect (ce_connect e)"
    and "ce_malloc e" and "ca_wait_for_completion a" and "ca_input_data a = Some d" "ca_input_size a = length d" "length d \<le> MAX_DATA_SIZE"
    and "writes_all (ce_be e) (cn_ws (ce_connect e))" "writes_all (ce_be e) (ce_submit_ws e)" "writes_all (ce_be e) (ce_result_ws e)"
    and "ce_polls e = (ws, now) # polls" "writes_all (ce_be e) ws"
    and "receive_message (ce_be e) es = ((0, Some hello), es1)" "message_type (header hello) = msg_code MSG_TYPE_REGISTER_RESPONSE"
    and "receive_message (ce_be e) es1 = ((0, Some sub), es2)" "message_type (header sub) = msg_code MSG_TYPE_JOB_SUBMITTED"
    and "0 \<le> sint (get_u32 (ce_be e) 0 (body sub))"
    and "receive_message (ce_be e) es2 = ((0, Some st), es3)" "message_type (header st) = msg_code MSG_TYPE_JOB_STATUS"
    and "get_u32 (ce_be e) 4 (body st) = 2"
    and "receive_message (ce_be e) es3 = ((0, Some res), es4)" "message_type (header res) = msg_code MSG_TYPE_JOB_RESULT"
    and "n = unat (get_u32 (ce_be e) 1028 (body res))" "0 < n" "n \<le> MAX_DATA_SIZE" "length (body res) = body_size"
  shows "\<exists>ms io. client_session e a es c = SessionEnd 0 ms (take n (drop 4 (body res)) @ [of_char newline]) io"
proof -
  let ?be = "ce_be e" and ?j = "sint (get_u32 (ce_be e) 0 (body sub))"
  define c1 where "c1 = \<lparr>cl_config = Some (ca_config a), cl_client_id = -1, cl_server_socket = -1, cl_is_connected = False\<rparr>"
  have i: "client_init (ce_lock_ok e) (Some (ca_config a)) c = (0, c1)" using assms(1) by (simp add: client_init_def c1_def)
  obtain io1 where k: "client_connect_to_server ?be (ce_connect e) es c1 = ((0, es1, c1\<lparr>cl_server_socket := cn_socket (ce_connect e),
      cl_is_connected := True, cl_client_id := sint (get_u32 ?be 0 (body hello))\<rparr>), io1)"
  proof -
    have "fst (send_message ?be (cn_ws (ce_connect e)) (plain_message MSG_TYPE_REGISTER 1)) = 0"
      using assms(10) by (simp add: writes_all_def)
    then obtain out where "send_message ?be (cn_ws (ce_connect e)) (plain_message MSG_TYPE_REGISTER 1) = (0, out)"
      by (metis prod.collapse)
    then have "exchange ?be (cn_ws (ce_connect e)) (cn_socket (ce_connect e)) (plain_message MSG_TYPE_REGISTER 1) es =
        ((Some hello, es1), [CSent (cn_socket (ce_connect e)) out])"
      using assms(15) by (simp add: exchange_def)
    then show ?thesis using that assms(2-4,16) by (simp add: client_connect_to_server_def Let_def)
  qed
  define c2 where "c2 = c1\<lparr>cl_server_socket := cn_socket (ce_connect e), cl_is_connected := True,
      cl_client_id := sint (get_u32 ?be 0 (body hello))\<rparr>"
  have on: "cl_is_connected c2" by (simp add: c2_def)
  have len: "length (body (client_message t i b)) = body_size" if "length b = body_size" for t i b
    using that by (simp add: client_message_def)
  obtain io2 where s: "client_submit_job ?be (ce_submit_ws e) (ca_job_type a) (ca_input_data a) (ca_input_size a) es1 c2 = Some ((?j, es2), io2)"
    using request_answered[OF assms(11) len[OF submit_body_fields(1)[OF refl assms(9)]] assms(17,18), where result = "\<lambda>b. sint (get_u32 ?be 0 b)"
        and failure = "-1" and c = c2] on assms(7-9)
    by (fastforce simp: client_submit_job_def mem_read_def not_less)
  obtain io3 where q: "client_get_job_status ?be ws ?j es2 c2 = ((2, es3), io3)"
    using request_answered[OF assms(14) len assms(20,21), where result = "\<lambda>b. sint (get_u32 ?be 4 b)" and failure = "-1" and c = c2] on assms(22)
    by (fastforce simp: client_get_job_status_def body_size_def)
  have cp: "copy_result ?be (ce_malloc e) (body res) = Some (0, Some (take n (drop 4 (body res))), n)"
    using assms(5,25-28) by (simp add: copy_result_def mem_read_def Let_def body_size_def MAX_DATA_SIZE_def)
  obtain io4 where r: "client_get_job_result ?be (ce_result_ws e) (ce_malloc e) ?j True True es3 c2 =
      ((Some (0, Some (take n (drop 4 (body res))), n), es4), io4)"
    using request_answered[OF assms(12) len assms(23,24), where result = "copy_result ?be (ce_malloc e)" and failure = "Some (-1, None, 0)" and c = c2] on
    by (fastforce simp: client_get_job_result_def body_size_def cp)
  have w: "client_wait_for_job ?be ?j (ca_timeout_seconds a) (ce_start_time e) (ce_polls e) es2 c2 = ((Some 2, es3), io3)"
    using q by (simp add: client_wait_for_job_def assms(13) final_status_def)
  show ?thesis
    using i k s w r assms(6,19,26)
    by (auto simp: client_session_def c2_def[symmetric] client_await_def client_finish_def session_cleanup_def print_result_def Let_def
        split: prod.split)
qed

definition sample_files :: "string \<Rightarrow> file_answers option" where
  "sample_files = [''in.txt'' \<mapsto> \<lparr>fa_size = 2, fa_malloc = True, fa_read = [1, 2]\<rparr>]"

text \<open>A server that answers each of the four requests.\<close>

definition sample_answers :: "(MessageType \<times> byte list) list" where
  "sample_answers = [(MSG_TYPE_REGISTER_RESPONSE, zero_body), (MSG_TYPE_JOB_SUBMITTED, set_u32 False 0 7 zero_body),
     (MSG_TYPE_JOB_STATUS, set_u32 False 4 2 zero_body), (MSG_TYPE_JOB_RESULT, submit_body False 0 [72, 73] 2)]"

definition sample_main_env :: client_main_env where
  "sample_main_env = \<lparr>ce_be = False, ce_files = sample_files, ce_strdup = True,
     ce_logger = \<lparr>ln_file = ''logger.c'', ln_time = ''noon'', ln_strdup = True, ln_fopen = True\<rparr>,
     ce_call = (\<lambda>level text. \<lparr>lc_level = level, lc_file = ''client_main.c'', lc_line = 1, lc_func = ''main'', lc_message = text, lc_time = ''noon''\<rparr>),
     ce_lock_ok = True, ce_connect = sample_connect, ce_submit_ws = [1040], ce_start_time = 0, ce_polls = [([1040], 100)],
     ce_result_ws = [1040], ce_malloc = True, ce_cleanup_ws = [1040]\<rparr>"

definition sample_client_args :: client_args where
  "sample_client_args = client_defaults\<lparr>ca_job_type := 2, ca_input_data := Some [1, 2], ca_input_size := 2, ca_wait_for_completion := True\<rparr>"

lemma receive_from_stream:
  assumes "concat cs = answer_bytes t b @ rest" and "\<forall>x \<in> set cs. x \<noteq> []" and "length b = body_size"
  shows "\<exists>cs'. receive_message False (stream cs) = ((0, Some (client_message t 1 b)), stream cs') \<and> concat cs' = rest \<and> (\<forall>x \<in> set cs'. x \<noteq> [])"
proof -
  have l: "length (body (client_message t 1 b)) = body_size" using assms(3) by (simp add: client_message_def)
  have "send_message False [1040] (client_message t 1 b) = (0, answer_bytes t b)"
    using sent_in_one_write[OF l] by (simp add: answer_bytes_def prod_eq_iff)
  from receive_sent[OF this l assms(1,2)] show ?thesis .
qed

lemma answer_bytes_nonempty: "length b = body_size \<Longrightarrow> answer_bytes t b \<noteq> []"
proof -
  assume "length b = body_size"
  then have "send_message False [1040] (client_message t 1 b) = (0, answer_bytes t b)"
    using sent_in_one_write[of "client_message t 1 b"] by (simp add: answer_bytes_def prod_eq_iff client_message_def)
  from send_message_bytes[OF this] show ?thesis by (auto dest: arg_cong[of _ _ length])
qed

lemma sample_session_prints:
  "\<exists>ms io. client_session sample_main_env sample_client_args (stream (map (\<lambda>(t, b). answer_bytes t b) sample_answers)) sample_client =
     SessionEnd 0 ms ([72, 73] @ [of_char newline]) io"
proof -
  let ?b1 = "set_u32 False 0 7 zero_body" and ?b2 = "set_u32 False 4 2 zero_body" and ?b3 = "submit_body False 0 [72, 73] 2"
  have b3: "length ?b3 = body_size" "get_u32 False 1028 ?b3 = 2" "take 2 (drop 4 ?b3) = [72, 73]"
    using submit_body_fields[of "[72, 73]" 2 False 0] by (simp_all add: MAX_DATA_SIZE_def)
  have len: "length zero_body = body_size" "length ?b1 = body_size" "length ?b2 = body_size" by (simp_all add: body_size_def)
  have g: "get_u32 False 0 ?b1 = 7" "get_u32 False 4 ?b2 = 2" by (rule set_get_u32, simp add: body_size_def)+
  let ?cs = "map (\<lambda>(t, b). answer_bytes t b) sample_answers"
  have ne: "\<forall>x \<in> set ?cs. x \<noteq> []" using len b3(1) answer_bytes_nonempty by (simp add: sample_answers_def)
  have c: "concat ?cs = answer_bytes MSG_TYPE_REGISTER_RESPONSE zero_body @ answer_bytes MSG_TYPE_JOB_SUBMITTED ?b1 @
      answer_bytes MSG_TYPE_JOB_STATUS ?b2 @ answer_bytes MSG_TYPE_JOB_RESULT ?b3 @ []" by (simp add: sample_answers_def)
  obtain cs1 where r1: "receive_message False (stream ?cs) = ((0, Some (client_message MSG_TYPE_REGISTER_RESPONSE 1 zero_body)), stream cs1)"
    and c1: "concat cs1 = answer_bytes MSG_TYPE_JOB_SUBMITTED ?b1 @ answer_bytes MSG_TYPE_JOB_STATUS ?b2 @ answer_bytes MSG_TYPE_JOB_RESULT ?b3 @ []"
    and n1: "\<forall>x \<in> set cs1. x \<noteq> []" using receive_from_stream[OF c ne len(1)] by blast
  obtain cs2 where r2: "receive_message False (stream cs1) = ((0, Some (client_message MSG_TYPE_JOB_SUBMITTED 1 ?b1)), stream cs2)"
    and c2: "concat cs2 = answer_bytes MSG_TYPE_JOB_STATUS ?b2 @ answer_bytes MSG_TYPE_JOB_RESULT ?b3 @ []"
    and n2: "\<forall>x \<in> set cs2. x \<noteq> []" using receive_from_stream[OF c1 n1 len(2)] by blast
  obtain cs3 where r3: "receive_message False (stream cs2) = ((0, Some (client_message MSG_TYPE_JOB_STATUS 1 ?b2)), stream cs3)"
    and c3: "concat cs3 = answer_bytes MSG_TYPE_JOB_RESULT ?b3 @ []"
    and n3: "\<forall>x \<in> set cs3. x \<noteq> []" using receive_from_stream[OF c2 n2 len(3)] by blast
  obtain cs4 where r4: "receive_message False (stream cs3) = ((0, Some (client_message MSG_TYPE_JOB_RESULT 1 ?b3)), stream cs4)"
    using receive_from_stream[OF c3 n3 b3(1)] by blast
  have e: "ce_be sample_main_env = False" by (simp add: sample_main_env_def)
  have m: "message_type (header (client_message t i b)) = msg_code t" "body (client_message t i b) = b" for t i b
    by (simp_all add: client_message_def)
  have "\<exists>ms io. client_session sample_main_env sample_client_args (stream ?cs) sample_client =
      SessionEnd 0 ms (take 2 (drop 4 (body (client_message MSG_TYPE_JOB_RESULT 1 ?b3))) @ [of_char newline]) io"
  proof (rule session_prints[where d = "[1, 2]" and polls = "[]" and ws = "[1040]" and now = 100])
    show "receive_message (ce_be sample_main_env) (stream ?cs) = ((0, Some (client_message MSG_TYPE_REGISTER_RESPONSE 1 zero_body)), stream cs1)"
      using r1 e by simp
    show "receive_message (ce_be sample_main_env) (stream cs1) = ((0, Some (client_message MSG_TYPE_JOB_SUBMITTED 1 ?b1)), stream cs2)"
      using r2 e by simp
    show "receive_message (ce_be sample_main_env) (stream cs2) = ((0, Some (client_message MSG_TYPE_JOB_STATUS 1 ?b2)), stream cs3)"
      using r3 e by simp
    show "receive_message (ce_be sample_main_env) (stream cs3) = ((0, Some (client_message MSG_TYPE_JOB_RESULT 1 ?b3)), stream cs4)"
      using r4 e by simp
  qed (simp_all add: m e g b3 writes_all_one MAX_DATA_SIZE_def, simp_all add: sample_main_env_def sample_client_args_def writes_all_one)
  then show ?thesis by (simp only: m b3)
qed

section \<open>Properties\<close>

text \<open>Every accepted command line names a job type and gives a configuration in range, its data of the size announced.\<close>

theorem accepted_client_args_valid:
  assumes "client_parse strdup_ok files argv = Some (Inr a)"
  shows "valid_client_args a \<and> 0 < ca_job_type a"
proof -
  have "option_loop (client_option strdup_ok files) (getopt_long (option_string ''hs:p:j:d:f:wt:l:o:'') client_long_options argv)
      client_defaults = Some (Inr a)" and j: "\<not> ca_job_type a < 0"
    using assms by (auto simp: client_parse_def split: option.splits sum.splits if_splits)
  then have "valid_client_args a" using client_cmd.accepted_valid client_defaults_valid by blast
  then show ?thesis using j by (auto simp: valid_client_args_def positive_def)
qed

theorem accepted_client_args_valid_witness:
  "\<exists>a. client_parse True sample_files [''-wj3'', ''--file'', ''in.txt'', ''--time=9''] = Some (Inr a) \<and> valid_client_args a \<and>
     ca_job_type a = 3 \<and> ca_input_data a = Some [1, 2] \<and> ca_input_size a = 2 \<and> ca_wait_for_completion a"
proof -
  define a where "a = client_defaults\<lparr>ca_job_type := 3, ca_input_data := Some [1, 2], ca_input_size := 2,
    ca_wait_for_completion := True, ca_timeout_seconds := 9\<rparr>"
  have g: "getopt_long (option_string ''hs:p:j:d:f:wt:l:o:'') client_long_options [''-wj3'', ''--file'', ''in.txt'', ''--time=9''] =
      [Opt (CHR ''w'') None, Opt (CHR ''j'') (Some ''3''), Opt (CHR ''f'') (Some ''in.txt''), Opt (CHR ''t'') (Some ''9'')]" by code_simp
  have n: "atoi ''3'' = Some 3" "atoi ''9'' = Some 9" by code_simp+
  have p: "client_parse True sample_files [''-wj3'', ''--file'', ''in.txt'', ''--time=9''] = Some (Inr a)"
    unfolding client_parse_def g
    by (simp add: client_option_def number_option_def n read_file_def sample_files_def range_defs a_def client_defaults_def)
  show ?thesis using accepted_client_args_valid[OF p] p by (simp add: a_def)
qed

text \<open>
  A client that reaches its last line ends exactly if the log level is above INFO, or the logger was never opened: at the default
  level closing the logger waits for ever, after the work is done and the connection closed.
\<close>

theorem client_program_ends_iff:
  assumes "client_parse (ce_strdup e) (ce_files e) argv = Some (Inr a)"
    and "client_program e argv es c (initial_logger logs con) = Some (Closing code final out io)"
  shows "(\<exists>l. final = Done l) \<longleftrightarrow> (ln_strdup (ce_logger e) \<longrightarrow> level_value LOG_INFO < ca_log_level a)"
proof -
  let ?l = "initial_logger logs con" and ?file = "if ca_log_file a \<noteq> [] then Some (ca_log_file a) else None"
  have l: "\<not> lg_mutex ?l" "\<not> lg_initialized ?l" by (simp_all add: initial_logger_def)
  obtain r opened where o: "logger_init (ce_logger e) (Some ''client'') ?file (ca_log_level a) ?l = (r, opened)" by fastforce
  obtain l1 where l1: "opened = Done l1" "\<not> lg_mutex l1" "lg_initialized l1 = (r = 0)" "r = 0 \<longrightarrow> lg_level l1 = ca_log_level a"
    using logger_init_opens[OF l o] by blast
  obtain ms where s: "client_session e a es c = SessionEnd code ms out io" and r: "\<not> (ca_log_file a \<noteq> [] \<and> r \<noteq> 0)" and
    f: "final = and_then (log_all (map (\<lambda>(level, text). ce_call e level text) ms) l1) (\<lambda>l2. logger_close (ce_logger e) l2)"
    using assms o l1(1) by (auto simp: client_program_def split: session.splits if_splits)
  obtain l2 where l2: "log_all (map (\<lambda>(level, text). ce_call e level text) ms) l1 = Done l2" "\<not> lg_mutex l2"
    "lg_level l2 = lg_level l1" "lg_initialized l2 = lg_initialized l1"
    using log_all_frame[OF l1(2)] by blast
  have "r = 0 \<longleftrightarrow> ln_strdup (ce_logger e)"
    using o r by (auto simp: logger_init_def init_section_def initial_logger_def Let_def split: if_splits)
  then show ?thesis using l1 l2 f by (auto simp: logger_close_cases)
qed

text \<open>No session leaves a socket open, and everything a client prints is the data of a job result message, and a newline.\<close>

theorem client_prints_server_result:
  assumes "client_session e a es c = SessionEnd code ms out io"
  shows "open_sockets [] io = [] \<and>
    (out \<noteq> [] \<longrightarrow> code = 0 \<and> ca_wait_for_completion a \<and>
       (\<exists>es1 es2 answer n. receive_message (ce_be e) es1 = ((0, Some answer), es2) \<and>
          message_type (header answer) = msg_code MSG_TYPE_JOB_RESULT \<and> n = unat (get_u32 (ce_be e) 1028 (body answer)) \<and>
          0 < n \<and> n \<le> MAX_DATA_SIZE \<and> out = take n (drop 4 (body answer)) @ [of_char newline]))"
proof -
  note se = session_end[OF assms]
  have "\<exists>es1 es2 answer n. receive_message (ce_be e) es1 = ((0, Some answer), es2) \<and>
          message_type (header answer) = msg_code MSG_TYPE_JOB_RESULT \<and> n = unat (get_u32 (ce_be e) 1028 (body answer)) \<and>
          0 < n \<and> n \<le> MAX_DATA_SIZE \<and> out = take n (drop 4 (body answer)) @ [of_char newline]" if out: "out \<noteq> []"
  proof -
    obtain r j es1 es2 io2 c' where g: "client_get_job_result (ce_be e) (ce_result_ws e) (ce_malloc e) j True True es1 c' = ((Some r, es2), io2)"
      and pr: "out = snd (print_result r)" using se out by blast
    obtain code' data n where r: "r = (code', data, n)" by (metis surj_pair)
    have n: "code' = 0" "0 < n" "out = (case data of None \<Rightarrow> [] | Some d \<Rightarrow> take n d) @ [of_char newline]"
      using out pr by (auto simp: r print_result_def split: if_splits)
    let ?m = "client_message MSG_TYPE_GET_JOB_RESULT (cl_client_id c') (set_u32 (ce_be e) 0 (word_of_int j) zero_body)"
    have "client_request (ce_be e) (ce_result_ws e) ?m MSG_TYPE_JOB_RESULT (copy_result (ce_be e) (ce_malloc e)) (Some (-1, None, 0)) es1 c'
        = ((Some r, es2), io2)" and "Some r \<noteq> Some (-1, None, 0)"
      using g n by (auto simp: client_get_job_result_def r split: if_splits)
    from client_request_success[OF this] obtain answer where
      a: "receive_message (ce_be e) es1 = ((0, Some answer), es2)" "message_type (header answer) = msg_code MSG_TYPE_JOB_RESULT"
        "Some r = copy_result (ce_be e) (ce_malloc e) (body answer)" by blast
    then have "n = unat (get_u32 (ce_be e) 1028 (body answer))" "n \<le> MAX_DATA_SIZE" "data = Some (take n (drop 4 (body answer)))"
      using n by (auto simp: copy_result_def r Let_def mem_read_def min_def split: if_splits)
    then show ?thesis using a n by auto
  qed
  then show ?thesis using se by blast
qed

theorem client_prints_server_result_witness:
  "\<exists>ms io. client_session sample_main_env sample_client_args (stream (map (\<lambda>(t, b). answer_bytes t b) sample_answers)) sample_client =
       SessionEnd 0 ms ([72, 73] @ [of_char newline]) io \<and> open_sockets [] io = [] \<and>
     (\<exists>es1 es2 answer. receive_message False es1 = ((0, Some answer), es2) \<and>
        message_type (header answer) = msg_code MSG_TYPE_JOB_RESULT \<and> take (unat (get_u32 False 1028 (body answer))) (drop 4 (body answer)) = [72, 73])"
proof -
  obtain ms io where s: "client_session sample_main_env sample_client_args (stream (map (\<lambda>(t, b). answer_bytes t b) sample_answers)) sample_client =
     SessionEnd 0 ms ([72, 73] @ [of_char newline]) io" using sample_session_prints by blast
  have e: "ce_be sample_main_env = False" by (simp add: sample_main_env_def)
  note r = client_prints_server_result[OF s, unfolded e append_eq_append_conv[OF disjI2[OF refl]]]
  have "\<exists>es1 es2 answer. receive_message False es1 = ((0, Some answer), es2) \<and>
      message_type (header answer) = msg_code MSG_TYPE_JOB_RESULT \<and> take (unat (get_u32 False 1028 (body answer))) (drop 4 (body answer)) = [72, 73]"
    using r[THEN conjunct2] by fastforce
  then show ?thesis using s r[THEN conjunct1] by blast
qed

text \<open>A client that cannot open a socket.\<close>

theorem client_program_ends_iff_witness:
  "\<exists>io final. client_program (sample_main_env\<lparr>ce_connect := sample_connect\<lparr>cn_socket := -1\<rparr>\<rparr>) [''-j2''] [] sample_client
       (initial_logger (\<lambda>_. []) []) = Some (Closing 1 final [] io) \<and> \<not> (\<exists>l. final = Done l)"
proof -
  let ?e = "sample_main_env\<lparr>ce_connect := sample_connect\<lparr>cn_socket := -1\<rparr>\<rparr>" and ?l = "initial_logger (\<lambda>_. []) []"
  define a where "a = client_defaults\<lparr>ca_job_type := 2\<rparr>"
  have g: "getopt_long (option_string ''hs:p:j:d:f:wt:l:o:'') client_long_options [''-j2''] = [Opt (CHR ''j'') (Some ''2'')]" by code_simp
  have n: "atoi ''2'' = Some 2" by code_simp
  have p: "client_parse (ce_strdup ?e) (ce_files ?e) [''-j2''] = Some (Inr a)"
    unfolding client_parse_def g
    by (simp add: client_option_def number_option_def n range_defs a_def client_defaults_def)
  have s: "client_session ?e a [] sample_client = SessionEnd 1 [(LOG_FATAL, ''Failed to connect to server'')] [] []"
    by (simp add: client_session_def client_init_def sample_main_env_def client_connect_to_server_def session_cleanup_def
        client_cleanup_def client_disconnect_from_server_def Let_def)
  have f: "ca_log_file a = []" by (simp add: a_def client_defaults_def)
  obtain r opened where o: "logger_init (ce_logger ?e) (Some ''client'') None (ca_log_level a) ?l = (r, opened)" by fastforce
  obtain final where m: "client_program ?e [''-j2''] [] sample_client ?l = Some (Closing 1 final [] [])"
    unfolding client_program_def p using s f o by simp
  have "\<not> (ln_strdup (ce_logger ?e) \<longrightarrow> level_value LOG_INFO < ca_log_level a)"
    by (simp add: sample_main_env_def a_def client_defaults_def DEFAULT_LOG_LEVEL_def)
  then have "\<not> (\<exists>l. final = Done l)" using client_program_ends_iff[OF p m] by blast
  then show ?thesis using m by blast
qed

end
