(* ===== verification/Sysinfo.thy ===== *)
theory Sysinfo
  imports C_Strings
begin

text \<open>
  The system information tool (\<open>sysinfo.c\<close>): collecting a response in a growing buffer, reading a field out of a JSON text, printing
  sizes, and the sections it prints. What the kernel, libcurl and the interface list answer are arguments, and so are the two places
  that compute with floating point numbers beyond \<open>format_bytes\<close>: a percentage as \<open>printf\<close> shows it, and the coordinates \<open>sscanf\<close> reads.
  Only the standard output is modelled.

  The theory shows that a response is collected however it is cut into pieces, that the fields of a flat JSON object are read
  back, that sizes fit into their buffers and are rounded correctly, and what the tool prints about the public address.
\<close>

section \<open>Collecting a response\<close>

record ResponseData =
  rd_data :: "string option"
  rd_size :: u64

definition empty_response :: ResponseData where
  "empty_response = \<lparr>rd_data = None, rd_size = 0\<rparr>"

text \<open>
  The buffer is the list of its characters with the terminator. \<^const>\<open>None\<close> is a copy of more characters than there are. The size of
  the buffer is computed modulo \<open>2^64\<close>; memory that large does not exist.
\<close>

definition write_callback :: "bool \<Rightarrow> string \<Rightarrow> u64 \<Rightarrow> u64 \<Rightarrow> ResponseData \<Rightarrow> (u64 \<times> ResponseData) option" where
  "write_callback realloc_ok contents item_size nmemb resp =
     (let realsize = item_size * nmemb in
      if \<not> realloc_ok then Some (0, resp)
      else map_option
        (\<lambda>bytes. (realsize,
           \<lparr>rd_data = Some ((case rd_data resp of None \<Rightarrow> [] | Some d \<Rightarrow> take (unat (rd_size resp)) d) @ bytes @ [nul]),
            rd_size = rd_size resp + realsize\<rparr>))
        (mem_read contents (unat realsize)))"

section \<open>Reading a field\<close>

definition is_json_space :: "char \<Rightarrow> bool" where
  "is_json_space c \<longleftrightarrow> c = CHR '' '' \<or> c = CHR 0x09 \<or> c = newline \<or> c = CHR 0x0D"

definition field_pattern :: "string \<Rightarrow> string" where
  "field_pattern field = take 127 (CHR 0x22 # field @ [CHR 0x22, CHR '':''])"

text \<open>What the buffer holds afterwards; \<open>bufsize\<close> is not 0.\<close>

definition extract_json_field :: "string \<Rightarrow> string \<Rightarrow> nat \<Rightarrow> string" where
  "extract_json_field json field bufsize =
     (let cut = take (bufsize - 1); missing = cut ''Not available'' in
      case strstr json (field_pattern field) of
        None \<Rightarrow> missing
      | Some start \<Rightarrow>
          (case dropWhile is_json_space (drop (length (field_pattern field)) start) of
             [] \<Rightarrow> cut []
           | c # cs \<Rightarrow>
               if c = CHR 0x22
               then (if CHR 0x22 \<in> set cs then cut (takeWhile (\<lambda>c. c \<noteq> CHR 0x22) cs) else missing)
               else cut (takeWhile (\<lambda>c. \<not> is_json_space c \<and> c \<noteq> CHR '','' \<and> c \<noteq> CHR ''}'') (c # cs))))"

section \<open>Sizes\<close>

text \<open>
  Conversion of an \<open>unsigned long\<close> to \<open>double\<close>: 53 bits, rounded to the nearest, ties to even. Dividing by 1024 is exact, so the loop
  can count the divisions, and \<open>%.2f\<close> rounds the exact quotient the same way.
\<close>

definition round_half_even :: "nat \<Rightarrow> nat \<Rightarrow> nat" where
  "round_half_even a b =
     (let q = a div b; r = a mod b in if 2 * r < b \<or> (2 * r = b \<and> even q) then q else q + 1)"

function double_ulp :: "nat \<Rightarrow> nat" where
  "double_ulp n = (if n < 2 ^ 53 then 1 else 2 * double_ulp (n div 2))"
  by pat_completeness auto
termination
  by (relation "measure (\<lambda>n. n)") auto

declare double_ulp.simps [simp del]

definition to_double :: "nat \<Rightarrow> nat" where
  "to_double n = round_half_even n (double_ulp n) * double_ulp n"

function unit_loop :: "nat \<Rightarrow> nat \<Rightarrow> nat" where
  "unit_loop d i = (if d > 1024 * 1024 ^ i \<and> i < 4 then unit_loop d (i + 1) else i)"
  by pat_completeness auto
termination
  by (relation "measure (\<lambda>(_, i). 4 - i)") auto

declare unit_loop.simps [simp del]

definition byte_units :: "string list" where
  "byte_units = [''B'', ''KB'', ''MB'', ''GB'', ''TB'']"

definition show_hundredths :: "nat \<Rightarrow> string" where
  "show_hundredths h = show_nat (h div 100) @ CHR ''.'' # show_nat (h mod 100 div 10) @ show_nat (h mod 10)"

definition format_bytes :: "u64 \<Rightarrow> string" where
  "format_bytes bytes =
     (let d = to_double (unat bytes); i = unit_loop d 0
      in show_hundredths (round_half_even (100 * d) (1024 ^ i)) @ CHR '' '' # byte_units ! i)"

section \<open>The sections of the output\<close>

definition COLOR_RESET :: string where "COLOR_RESET = CHR 0x1B # ''[0m''"
definition COLOR_GREEN :: string where "COLOR_GREEN = CHR 0x1B # ''[32m''"
definition COLOR_YELLOW :: string where "COLOR_YELLOW = CHR 0x1B # ''[33m''"
definition COLOR_CYAN :: string where "COLOR_CYAN = CHR 0x1B # ''[36m''"

definition heading :: "string \<Rightarrow> string" where
  "heading title = newline # COLOR_GREEN @ ''=== '' @ title @ '' ==='' @ COLOR_RESET @ [newline]"

definition info_line :: "string \<Rightarrow> string \<Rightarrow> string" where
  "info_line label text = COLOR_CYAN @ label @ COLOR_RESET @ text @ [newline]"

record utsname_t =
  un_nodename :: string
  un_sysname :: string
  un_release :: string
  un_version :: string
  un_machine :: string

definition get_system_info :: "utsname_t option \<Rightarrow> string" where
  "get_system_info info =
     (case info of
        None \<Rightarrow> []
      | Some u \<Rightarrow>
          heading ''System Information'' @ info_line ''Hostname:      '' (un_nodename u) @
          info_line ''OS:            '' (un_sysname u @ '' '' @ un_release u) @ info_line ''Kernel:        '' (un_version u) @
          info_line ''Architecture:  '' (un_machine u))"

record sysinfo_t =
  si_totalram :: u64
  si_freeram :: u64
  si_totalswap :: u64
  si_freeswap :: u64
  si_mem_unit :: u32
  si_uptime :: int

text \<open>\<open>percent part all\<close> is what \<open>%.1f\<close> prints for \<open>100.0 * part / all\<close>.\<close>

definition get_memory_info :: "(u64 \<Rightarrow> u64 \<Rightarrow> string) \<Rightarrow> sysinfo_t option \<Rightarrow> string" where
  "get_memory_info percent info =
     (case info of
        None \<Rightarrow> []
      | Some s \<Rightarrow>
          let mem_unit = ucast (si_mem_unit s) :: u64; used_ram = si_totalram s - si_freeram s; used_swap = si_totalswap s - si_freeswap s;
              used_text = (\<lambda>used all. format_bytes (used * mem_unit) @ '' ('' @ percent used all @ ''%)'') in
          heading ''Memory Information'' @
          info_line ''Total RAM:     '' (format_bytes (si_totalram s * mem_unit)) @
          info_line ''Used RAM:      '' (used_text used_ram (si_totalram s)) @
          info_line ''Free RAM:      '' (format_bytes (si_freeram s * mem_unit)) @
          (if si_totalswap s > 0
           then info_line ''Total Swap:    '' (format_bytes (si_totalswap s * mem_unit)) @
                info_line ''Used Swap:     '' (used_text used_swap (si_totalswap s)) @
                info_line ''Free Swap:     '' (format_bytes (si_freeswap s * mem_unit))
           else []) @
          info_line ''Uptime:        '' (show_int (si_uptime s sdiv 86400) @ '' days, '' @ show_int (si_uptime s smod 86400 sdiv 3600) @
            '' hours, '' @ show_int (si_uptime s smod 3600 sdiv 60) @ '' minutes''))"

record statvfs_t =
  sv_f_blocks :: u64
  sv_f_bfree :: u64
  sv_f_frsize :: u64

definition get_disk_info :: "(u64 \<Rightarrow> u64 \<Rightarrow> string) \<Rightarrow> statvfs_t option \<Rightarrow> string" where
  "get_disk_info percent stat =
     (case stat of
        None \<Rightarrow> []
      | Some s \<Rightarrow>
          let total_space = sv_f_blocks s * sv_f_frsize s; free_space = sv_f_bfree s * sv_f_frsize s;
              used_space = total_space - free_space in
          heading ''Disk Information'' @
          info_line ''Total Space:   '' (format_bytes total_space) @
          info_line ''Used Space:    '' (format_bytes used_space @ '' ('' @ percent used_space total_space @ ''%)'') @
          info_line ''Free Space:    '' (format_bytes free_space))"

text \<open>An address of an interface: IPv4 as the text of \<open>inet_ntoa\<close>, IPv6, or another family.\<close>

datatype if_address = AF_INET string | AF_INET6 | AF_OTHER

fun interface_line :: "string \<times> if_address option \<Rightarrow> string" where
  "interface_line (name, Some (AF_INET text)) = COLOR_CYAN @ name @ '': '' @ COLOR_RESET @ ''IPv4: '' @ text @ [newline]"
| "interface_line (name, Some AF_INET6) = COLOR_CYAN @ name @ '': '' @ COLOR_RESET @ ''IPv6 address'' @ [newline]"
| "interface_line (name, Some AF_OTHER) = []"
| "interface_line (name, None) = []"

definition get_network_info :: "(string \<times> if_address option) list option \<Rightarrow> string" where
  "get_network_info ifaddr =
     (case ifaddr of
        None \<Rightarrow> []
      | Some ifs \<Rightarrow> heading ''Network Interfaces'' @ concat (map interface_line ifs))"

section \<open>The public address\<close>

text \<open>
  A transfer hands the pieces of the response, each with the result of \<open>realloc\<close>, to \<open>write_callback\<close> and fails if a piece is not taken.
\<close>

fun transfer :: "(string \<times> bool) list \<Rightarrow> ResponseData \<Rightarrow> (bool \<times> ResponseData) option" where
  "transfer [] resp = Some (True, resp)"
| "transfer ((piece, realloc_ok) # pieces) resp =
     (case write_callback realloc_ok piece 1 (of_nat (length piece)) resp of
        None \<Rightarrow> None
      | Some (taken, resp') \<Rightarrow> if taken \<noteq> of_nat (length piece) then Some (False, resp') else transfer pieces resp')"

record curl_answers =
  cu_init :: bool
  cu_first :: "bool \<times> (string \<times> bool) list"
  cu_second :: "bool \<times> (string \<times> bool) list"
  cu_coordinates :: "string \<Rightarrow> string option"

text \<open>\<open>curl_easy_perform\<close>: whether it returns \<open>CURLE_OK\<close>, and the response.\<close>

definition curl_easy_perform :: "bool \<times> (string \<times> bool) list \<Rightarrow> ResponseData \<Rightarrow> (bool \<times> ResponseData) option" where
  "curl_easy_perform answer resp =
     (case answer of (res_ok, pieces) \<Rightarrow> map_option (\<lambda>(taken, r). (res_ok \<and> taken, r)) (transfer pieces resp))"

definition response_text :: "ResponseData \<Rightarrow> string" where
  "response_text resp = (case rd_data resp of None \<Rightarrow> [] | Some d \<Rightarrow> c_string d)"

definition location_heading :: string where
  "location_heading = newline # COLOR_YELLOW @ ''Location Information:'' @ COLOR_RESET @ [newline]"

definition print_ipinfo :: "(string \<Rightarrow> string option) \<Rightarrow> string \<Rightarrow> string" where
  "print_ipinfo coordinates json =
     (let field = (\<lambda>f. extract_json_field json f 256); loc = field ''loc'' in
      info_line ''IP Address:    '' (field ''ip'') @ location_heading @
      info_line ''Country:       '' (field ''country'') @ info_line ''Region:        '' (field ''region'') @
      info_line ''City:          '' (field ''city'') @
      info_line ''Coordinates:   '' (case coordinates loc of None \<Rightarrow> loc | Some formatted \<Rightarrow> take 63 formatted) @
      info_line ''Timezone:      '' (field ''timezone'') @ info_line ''ISP/Org:       '' (field ''org''))"

definition print_ip_api :: "string \<Rightarrow> string" where
  "print_ip_api json =
     (let field = (\<lambda>f. extract_json_field json f 256) in
      info_line ''IP Address:    '' (field ''query'') @ location_heading @
      info_line ''Country:       '' (field ''country'') @ info_line ''Region:        '' (field ''regionName'') @
      info_line ''City:          '' (field ''city'') @ info_line ''Timezone:      '' (field ''timezone'') @
      info_line ''ISP:           '' (field ''isp''))"

definition get_public_ip :: "curl_answers \<Rightarrow> string option" where
  "get_public_ip cu =
     (if \<not> cu_init cu then Some []
      else
        case curl_easy_perform (cu_first cu) empty_response of
          None \<Rightarrow> None
        | Some (ok, resp) \<Rightarrow>
            map_option (\<lambda>text. heading ''Public IP Information'' @ text)
              (if ok \<and> rd_data resp \<noteq> None then Some (print_ipinfo (cu_coordinates cu) (response_text resp))
               else (case curl_easy_perform (cu_second cu) empty_response of
                       None \<Rightarrow> None
                     | Some (ok2, resp2) \<Rightarrow>
                         Some (newline # ''Trying alternative API...'' @ newline #
                           (if ok2 \<and> rd_data resp2 \<noteq> None then print_ip_api (response_text resp2) else [])))))"

definition sysinfo_main ::
  "(u64 \<Rightarrow> u64 \<Rightarrow> string) \<Rightarrow> utsname_t option \<Rightarrow> sysinfo_t option \<Rightarrow> statvfs_t option \<Rightarrow> (string \<times> if_address option) list option
   \<Rightarrow> curl_answers \<Rightarrow> (int \<times> string) option" where
  "sysinfo_main percent uts info stat ifs cu =
     map_option (\<lambda>ip. (0, get_system_info uts @ get_memory_info percent info @ get_disk_info percent stat @ get_network_info ifs @ ip @ [newline]))
       (get_public_ip cu)"

section \<open>Lemmas\<close>

subsection \<open>Responses\<close>

definition holds_text :: "ResponseData \<Rightarrow> string \<Rightarrow> bool" where
  "holds_text resp s \<longleftrightarrow> unat (rd_size resp) = length s \<and>
     (case rd_data resp of None \<Rightarrow> s = [] | Some d \<Rightarrow> d = s @ [nul])"

lemma holds_empty: "holds_text empty_response []"
  by (simp add: holds_text_def empty_response_def)

lemma write_callback_holds:
  assumes "holds_text resp s" and "length s + length piece < 2 ^ 64"
  shows "\<exists>resp'. write_callback True piece 1 (of_nat (length piece)) resp = Some (of_nat (length piece), resp') \<and>
    holds_text resp' (s @ piece) \<and> rd_data resp' \<noteq> None"
proof -
  have l: "unat (of_nat (length piece) :: u64) = length piece"
    using assms(2) by (simp add: unsigned_of_nat take_bit_nat_eq_self)
  have "unat (rd_size resp + of_nat (length piece)) = length (s @ piece)"
    using assms l by (simp add: holds_text_def unat_word_ariths)
  then show ?thesis
    using assms(1) by (auto simp: write_callback_def Let_def l mem_read_def holds_text_def split: option.splits)
qed

lemma transfer_holds:
  "holds_text resp s \<Longrightarrow> length s + length (concat pieces) < 2 ^ 64 \<Longrightarrow>
     \<exists>resp'. transfer (map (\<lambda>p. (p, True)) pieces) resp = Some (True, resp') \<and> holds_text resp' (s @ concat pieces) \<and>
       (pieces \<noteq> [] \<longrightarrow> rd_data resp' \<noteq> None)"
proof (induction pieces arbitrary: resp s)
  case (Cons piece pieces)
  obtain resp1 where w: "write_callback True piece 1 (of_nat (length piece)) resp = Some (of_nat (length piece), resp1)"
    and h: "holds_text resp1 (s @ piece)" "rd_data resp1 \<noteq> None"
    using write_callback_holds[OF Cons.prems(1), of piece] Cons.prems(2) by auto
  show ?case
  proof (cases pieces)
    case Nil
    then show ?thesis using w h by auto
  next
    case (Cons q qs)
    then show ?thesis using w h Cons.IH[OF h(1)] Cons.prems(2) by auto
  qed
qed auto

lemma c_string_terminated: "nul \<notin> set s \<Longrightarrow> c_string (s @ [nul]) = s"
  unfolding c_string_def by (induction s) auto

subsection \<open>Fields\<close>

lemma strstr_skip_char: "c \<noteq> d \<Longrightarrow> strstr (c # s) (d # pat) = strstr s (d # pat)"
  by simp

lemma strstr_skip: "d \<notin> set t \<Longrightarrow> strstr (t @ s) (d # pat) = strstr s (d # pat)"
  by (induction t) auto

lemma take_before_quote:
  assumes "d \<notin> set t" and "d \<notin> set k"
  shows "take (length (k @ d # x)) (t @ d # r) = k @ d # x \<longleftrightarrow> t = k \<and> take (length x) r = x"
  using assms
proof (induction t arbitrary: k)
  case Nil
  then show ?case by (cases k) auto
next
  case (Cons c t)
  then show ?case by (cases k) auto
qed

text \<open>At a quotation mark the pattern begins exactly if the quoted text is the field and a colon follows.\<close>

lemma strstr_quote:
  assumes "CHR 0x22 \<notin> set t" and "CHR 0x22 \<notin> set k" and "t \<noteq> k \<or> take 1 r \<noteq> '':''"
  shows "strstr (CHR 0x22 # t @ CHR 0x22 # r) (CHR 0x22 # k @ [CHR 0x22, CHR '':'']) =
    strstr (CHR 0x22 # r) (CHR 0x22 # k @ [CHR 0x22, CHR '':''])"
proof -
  have "take (length (k @ CHR 0x22 # '':'')) (t @ CHR 0x22 # r) \<noteq> k @ CHR 0x22 # '':''"
    unfolding take_before_quote[OF assms(1,2)] using assms(3) by simp
  then have "take (length (CHR 0x22 # k @ [CHR 0x22, CHR '':''])) (CHR 0x22 # t @ CHR 0x22 # r) \<noteq> CHR 0x22 # k @ [CHR 0x22, CHR '':'']"
    by simp
  then have "strstr (CHR 0x22 # t @ CHR 0x22 # r) (CHR 0x22 # k @ [CHR 0x22, CHR '':'']) =
      strstr (t @ CHR 0x22 # r) (CHR 0x22 # k @ [CHR 0x22, CHR '':''])" by simp
  then show ?thesis using strstr_skip[OF assms(1)] by simp
qed

lemma strstr_found: "strstr (c # pat @ r) (c # pat) = Some (c # pat @ r)"
  by simp

lemma strstr_unquoted: "d \<notin> set t \<Longrightarrow> strstr t (d # pat) = None"
  by (induction t) auto

text \<open>
  The text of an object with string members: \<open>ws\<close> stands between colon and value, \<open>sep\<close> between members (a comma with white space).
\<close>

definition json_member :: "string \<Rightarrow> string \<times> string \<Rightarrow> string" where
  "json_member ws kv = (case kv of (k, v) \<Rightarrow> CHR 0x22 # k @ CHR 0x22 # CHR '':'' # ws @ CHR 0x22 # v @ [CHR 0x22])"

fun members_text :: "string \<Rightarrow> string \<Rightarrow> (string \<times> string) list \<Rightarrow> string" where
  "members_text ws sep [] = ''}''"
| "members_text ws sep [m] = json_member ws m @ ''}''"
| "members_text ws sep (m # m' # ms) = json_member ws m @ sep @ members_text ws sep (m' # ms)"

definition json_object :: "string \<Rightarrow> string \<Rightarrow> (string \<times> string) list \<Rightarrow> string" where
  "json_object ws sep ms = CHR ''{'' # members_text ws sep ms"

definition plain_key :: "string \<Rightarrow> bool" where
  "plain_key k \<longleftrightarrow> CHR 0x22 \<notin> set k \<and> CHR '':'' \<notin> set k \<and> length k < 125"

definition flat_members :: "(string \<times> string) list \<Rightarrow> bool" where
  "flat_members ms \<longleftrightarrow> list_all (\<lambda>(k, v). plain_key k \<and> CHR 0x22 \<notin> set v) ms"

definition plain_layout :: "string \<Rightarrow> string \<Rightarrow> bool" where
  "plain_layout ws sep \<longleftrightarrow> list_all is_json_space ws \<and> CHR 0x22 \<notin> set sep \<and> CHR '':'' \<notin> set (take 1 sep)"

lemma field_pattern_plain: "plain_key k \<Longrightarrow> field_pattern k = CHR 0x22 # k @ [CHR 0x22, CHR '':'']"
  unfolding field_pattern_def by (rule take_all) (simp add: plain_key_def)

lemma spaces_unquoted: "list_all is_json_space ws \<Longrightarrow> CHR 0x22 \<notin> set ws"
  by (induction ws) (auto simp: is_json_space_def newline_def)

text \<open>A member with another key is skipped, up to its last quotation mark.\<close>

lemma strstr_member:
  assumes "plain_key k" and "plain_key k'" and "k' \<noteq> k" and "CHR 0x22 \<notin> set v" and "list_all is_json_space ws"
    and "take 1 r \<noteq> '':''"
  shows "strstr (json_member ws (k', v) @ r) (field_pattern k) = strstr (CHR 0x22 # r) (field_pattern k)"
proof -
  have q: "CHR 0x22 \<notin> set k" "CHR 0x22 \<notin> set k'" "CHR 0x22 \<notin> set (CHR '':'' # ws)" "CHR '':'' # ws \<noteq> k"
    using assms(1,2) spaces_unquoted[OF assms(5)] by (auto simp: plain_key_def)
  have "strstr (CHR 0x22 # k' @ CHR 0x22 # (CHR '':'' # ws) @ CHR 0x22 # v @ CHR 0x22 # r) (field_pattern k) =
      strstr (CHR 0x22 # r) (field_pattern k)"
    unfolding field_pattern_plain[OF assms(1)]
    using strstr_quote[OF q(2,1), of "(CHR '':'' # ws) @ CHR 0x22 # v @ CHR 0x22 # r"] strstr_quote[OF q(3,1), of "v @ CHR 0x22 # r"]
      strstr_quote[OF assms(4) q(1), of r] assms(3,6) q(4) by (simp del: strstr.simps)
  then show ?thesis by (simp add: json_member_def del: strstr.simps)
qed

lemma strstr_end:
  assumes "plain_key k"
  shows "strstr (CHR 0x22 # ''}'') (field_pattern k) = None" and "strstr ''}'' (field_pattern k) = None"
  unfolding field_pattern_plain[OF assms] by (cases k; simp)+

lemma members_text_start:
  assumes "flat_members (m # ms)"
  shows "\<exists>r. members_text ws sep (m # ms) = CHR 0x22 # r \<and> take 1 r \<noteq> '':''"
proof -
  obtain k v where m: "m = (k, v)" by fastforce
  have "plain_key k" using assms by (simp add: flat_members_def m)
  then show ?thesis by (cases ms; cases k) (auto simp: m json_member_def plain_key_def)
qed

text \<open>What is found is the first member with the key.\<close>

lemma strstr_members:
  assumes "flat_members ms" and "plain_layout ws sep" and "sep \<noteq> []" and "plain_key k"
  shows "case map_of ms k of
      None \<Rightarrow> strstr (members_text ws sep ms) (field_pattern k) = None
    | Some v \<Rightarrow> \<exists>rest. strstr (members_text ws sep ms) (field_pattern k) = Some (field_pattern k @ ws @ CHR 0x22 # v @ CHR 0x22 # rest)"
  using assms(1)
proof (induction ms)
  case Nil
  then show ?case using strstr_end(2)[OF assms(4)] by simp
next
  case (Cons m ms)
  obtain k' v where m: "m = (k', v)" by fastforce
  have p: "plain_key k'" "CHR 0x22 \<notin> set v" "flat_members ms" using Cons.prems by (auto simp: flat_members_def m)
  define R where "R = (case ms of [] \<Rightarrow> ''}'' | _ \<Rightarrow> sep @ members_text ws sep ms)"
  have written: "members_text ws sep (m # ms) = json_member ws (k', v) @ R" by (cases ms) (simp_all add: R_def m)
  have sep: "CHR 0x22 \<notin> set sep" "take 1 sep \<noteq> '':''" using assms(2) by (auto simp: plain_layout_def)
  show ?case
  proof (cases "k' = k")
    case True
    have "members_text ws sep (m # ms) = field_pattern k @ ws @ CHR 0x22 # v @ CHR 0x22 # R"
      by (simp add: written True field_pattern_plain[OF assms(4)] json_member_def)
    then show ?thesis
      using strstr_found[of "CHR 0x22" "k @ [CHR 0x22, CHR '':'']" "ws @ CHR 0x22 # v @ CHR 0x22 # R"] by (auto simp: m True field_pattern_plain[OF assms(4)] simp del: strstr.simps)
  next
    case False
    have "take 1 R \<noteq> '':''" using sep(2) assms(3) by (cases ms; cases sep) (simp_all add: R_def)
    then have skip: "strstr (members_text ws sep (m # ms)) (field_pattern k) = strstr (CHR 0x22 # R) (field_pattern k)"
      unfolding written using strstr_member[OF assms(4) p(1) False p(2)] assms(2) by (simp add: plain_layout_def)
    show ?thesis
    proof (cases ms)
      case Nil
      then show ?thesis using skip strstr_end(1)[OF assms(4)] False by (simp add: R_def m del: strstr.simps)
    next
      case (Cons m' ms')
      obtain r where r: "members_text ws sep ms = CHR 0x22 # r" "take 1 r \<noteq> '':''"
        using members_text_start p(3) unfolding Cons by blast
      have "strstr (CHR 0x22 # R) (field_pattern k) = strstr (members_text ws sep ms) (field_pattern k)"
        using strstr_quote[OF sep(1), of k r] r assms(4)
        by (simp add: R_def Cons field_pattern_plain[OF assms(4)] plain_key_def del: strstr.simps members_text.simps)
      with skip have e: "strstr (members_text ws sep (m # ms)) (field_pattern k) = strstr (members_text ws sep ms) (field_pattern k)" by simp
      have l: "map_of (m # ms) k = map_of ms k" using False by (simp add: m)
      show ?thesis unfolding e l by (rule Cons.IH[OF p(3)])
    qed
  qed
qed

subsection \<open>Sizes\<close>

lemma round_half_even_bound: "0 < b \<Longrightarrow> round_half_even a b \<le> a div b + 1"
  by (simp add: round_half_even_def Let_def)

lemma round_half_even_exact: "0 < b \<Longrightarrow> round_half_even (q * b) b = q"
  by (simp add: round_half_even_def Let_def)

lemma double_ulp_pos: "0 < double_ulp n"
  by (induction n rule: double_ulp.induct) (simp add: double_ulp.simps)

lemma to_double_small: "n < 2 ^ 53 \<Longrightarrow> to_double n = n"
  using round_half_even_exact[of 1 n] by (simp add: to_double_def double_ulp.simps)

lemma double_ulp_dvd: "n < 2 ^ (53 + k) \<Longrightarrow> double_ulp n dvd 2 ^ k"
proof (induction k arbitrary: n)
  case 0
  then show ?case by (simp add: double_ulp.simps)
next
  case (Suc k)
  show ?case
  proof (cases "n < 2 ^ 53")
    case False
    have "n < 2 ^ (53 + k) * 2" using Suc.prems by (simp only: add_Suc_right power_Suc2)
    then have "n div 2 < 2 ^ (53 + k)" by (rule less_mult_imp_div_less)
    then show ?thesis using Suc.IH[of "n div 2"] False by (simp add: double_ulp.simps[of n])
  qed (simp add: double_ulp.simps)
qed

lemma to_double_max: "n \<le> m \<Longrightarrow> double_ulp n dvd m \<Longrightarrow> to_double n \<le> m"
proof -
  assume n: "n \<le> m" and d: "double_ulp n dvd m"
  let ?u = "double_ulp n"
  obtain k where k: "m = ?u * k" using d by blast
  have u: "0 < ?u" by (rule double_ulp_pos)
  have "round_half_even n ?u \<le> k"
  proof (cases "n = m")
    case True
    then show ?thesis using round_half_even_exact[OF u, of k] k by (simp add: mult.commute)
  next
    case False
    then have "n < ?u * k" using n k by simp
    then have "n div ?u < k" using u by (simp add: less_mult_imp_div_less mult.commute)
    then show ?thesis using round_half_even_bound[OF u, of n] by simp
  qed
  then show ?thesis using k by (simp add: to_double_def mult.commute)
qed

lemma to_double_word: "to_double (unat (w :: u64)) \<le> 2 ^ 64"
proof -
  have "unat w < 2 ^ 64" using unsigned_less[of w] by simp
  moreover from this have "double_ulp (unat w) dvd 2 ^ 11" by (intro double_ulp_dvd) simp
  then have "double_ulp (unat w) dvd 2 ^ 64" by (rule dvd_trans) (simp add: le_imp_power_dvd)
  ultimately show ?thesis by (intro to_double_max) simp_all
qed

lemma unit_loop_spec:
  "i \<le> 4 \<Longrightarrow> (i = 0 \<or> d > 1024 ^ i) \<Longrightarrow>
     unit_loop d i \<le> 4 \<and> (unit_loop d i = 4 \<or> d \<le> 1024 * 1024 ^ unit_loop d i) \<and> (unit_loop d i = 0 \<or> d > 1024 ^ unit_loop d i)"
proof (induction d i rule: unit_loop.induct)
  case (1 d i)
  show ?case
  proof (cases "d > 1024 * 1024 ^ i \<and> i < 4")
    case True
    then show ?thesis using 1 by (simp add: unit_loop.simps[of d i])
  next
    case False
    then have "unit_loop d i = i" by (subst unit_loop.simps) (rule if_not_P)
    then show ?thesis using False "1.prems" by auto
  qed
qed

lemma length_show_hundredths:
  assumes "h < 10 ^ (Suc k + 2)"
  shows "length (show_hundredths h) \<le> Suc k + 3"
proof -
  have "h div 100 < 10 ^ Suc k" using assms by (simp add: less_mult_imp_div_less)
  moreover have "length (show_nat (h mod 100 div 10)) \<le> Suc 0" "length (show_nat (h mod 10)) \<le> Suc 0"
    using length_show_nat[of _ 0] by simp_all
  ultimately show ?thesis using length_show_nat[of "h div 100" k] by (simp add: show_hundredths_def)
qed

section \<open>Properties\<close>

text \<open>Every field of a flat JSON object of strings is read back, cut to the buffer; a field that is not there is reported as such.\<close>

lemma json_field_read_back:
  assumes "flat_members ms" and "plain_layout ws sep" and "sep \<noteq> []" and "plain_key k"
  shows "extract_json_field (json_object ws sep ms) k n = take (n - 1) (case map_of ms k of None \<Rightarrow> ''Not available'' | Some v \<Rightarrow> v)"
proof -
  have s: "strstr (json_object ws sep ms) (field_pattern k) = strstr (members_text ws sep ms) (field_pattern k)"
    unfolding json_object_def field_pattern_plain[OF assms(4)] by (rule strstr_skip_char) simp
  show ?thesis
  proof (cases "map_of ms k")
    case None
    then show ?thesis using strstr_members[OF assms] s by (simp add: extract_json_field_def Let_def)
  next
    case (Some v)
    obtain rest where f: "strstr (json_object ws sep ms) (field_pattern k) = Some (field_pattern k @ ws @ CHR 0x22 # v @ CHR 0x22 # rest)"
      using strstr_members[OF assms] s Some by auto
    have "CHR 0x22 \<notin> set v" using map_of_SomeD[OF Some] assms(1) by (auto simp: flat_members_def list_all_iff)
    then have t: "takeWhile (\<lambda>c. c \<noteq> CHR 0x22) (v @ CHR 0x22 # rest) = v" by (induction v) auto
    have "dropWhile is_json_space (ws @ CHR 0x22 # v @ CHR 0x22 # rest) = CHR 0x22 # v @ CHR 0x22 # rest"
      using assms(2) unfolding plain_layout_def by (subst dropWhile_append2) (auto simp: list_all_iff is_json_space_def newline_def)
    then show ?thesis using f t Some by (simp add: extract_json_field_def Let_def)
  qed
qed

lemma json_field_sample:
  "json_object '' '' '', '' [(''ip'', ''192.0.2.7''), (''city'', ''Bern'')] =
     CHR ''{'' # CHR 0x22 # ''ip'' @ CHR 0x22 # '': '' @ CHR 0x22 # ''192.0.2.7'' @ CHR 0x22 # '', '' @
     CHR 0x22 # ''city'' @ CHR 0x22 # '': '' @ CHR 0x22 # ''Bern'' @ CHR 0x22 # ''}'' \<and>
   extract_json_field (json_object '' '' '', '' [(''ip'', ''192.0.2.7''), (''city'', ''Bern'')]) ''city'' 4 = ''Ber''"
proof -
  have "flat_members [(''ip'', ''192.0.2.7''), (''city'', ''Bern'')]" by (simp add: flat_members_def plain_key_def)
  moreover have "plain_layout '' '' '', ''" by (simp add: plain_layout_def is_json_space_def)
  moreover have "plain_key ''city''" by (simp add: plain_key_def)
  ultimately show ?thesis
    using json_field_read_back[of "[(''ip'', ''192.0.2.7''), (''city'', ''Bern'')]" "'' ''" "'', ''" "''city''" 4]
    by (simp add: json_object_def json_member_def)
qed

text \<open>A size is shown in the unit in which it is at most 1024, or in TB, and fits into the 20 bytes its callers provide.\<close>

lemma format_bytes_unit:
  "\<exists>i h. i \<le> 4 \<and> format_bytes b = show_hundredths h @ CHR '' '' # byte_units ! i \<and>
     h = round_half_even (100 * to_double (unat b)) (1024 ^ i) \<and>
     (i = 4 \<or> to_double (unat b) \<le> 1024 * 1024 ^ i) \<and> (i = 0 \<or> to_double (unat b) > 1024 ^ i)"
  using unit_loop_spec[of 0 "to_double (unat b)"] by (auto simp: format_bytes_def Let_def)

theorem format_bytes_fits: "length (format_bytes b) < 20"
proof -
  let ?d = "to_double (unat b)"
  obtain i h where i: "i \<le> 4" and f: "format_bytes b = show_hundredths h @ CHR '' '' # byte_units ! i"
    and h: "h = round_half_even (100 * ?d) (1024 ^ i)" and d: "i = 4 \<or> ?d \<le> 1024 * 1024 ^ i" using format_bytes_unit by blast
  have "h \<le> 100 * ?d div 1024 ^ i + 1" unfolding h by (rule round_half_even_bound) simp
  also have "\<dots> < 10 ^ (Suc 9 + 2)"
  proof (cases "i = 4")
    case True
    have "100 * ?d div 1024 ^ i \<le> 100 * 2 ^ 64 div 1024 ^ i" using to_double_word[of b] by (intro div_le_mono) simp
    then show ?thesis by (simp add: True)
  next
    case False
    then have "100 * ?d div 1024 ^ i \<le> 102400 * 1024 ^ i div 1024 ^ i" using d by (intro div_le_mono) simp
    then show ?thesis by simp
  qed
  finally have "length (show_hundredths h) \<le> Suc 9 + 3" by (rule length_show_hundredths)
  moreover have "length (byte_units ! i) \<le> 2"
  proof -
    have "byte_units ! i \<in> set byte_units" using i by (intro nth_mem) (simp add: byte_units_def)
    then show ?thesis by (auto simp: byte_units_def)
  qed
  ultimately show ?thesis by (simp add: f)
qed

text \<open>C32: Up to \<open>2^53\<close> bytes the printed number is the size to the nearest hundredth of the unit.\<close>

theorem format_bytes_nearest:
  assumes "unat b < 2 ^ 53"
  shows "\<exists>i h. i \<le> 4 \<and> format_bytes b = show_hundredths h @ CHR '' '' # byte_units ! i \<and>
     (i = 4 \<or> unat b \<le> 1024 * 1024 ^ i) \<and> (i = 0 \<or> unat b > 1024 ^ i) \<and>
     \<bar>2 * (int h * 1024 ^ i - 100 * int (unat b))\<bar> \<le> 1024 ^ i"
proof -
  obtain i h where i: "i \<le> 4" "format_bytes b = show_hundredths h @ CHR '' '' # byte_units ! i"
    "h = round_half_even (100 * unat b) (1024 ^ i)" "i = 4 \<or> unat b \<le> 1024 * 1024 ^ i" "i = 0 \<or> unat b > 1024 ^ i"
    using format_bytes_unit[of b] to_double_small[OF assms] by auto
  have near: "\<bar>2 * (int (round_half_even a c) * int c - int a)\<bar> \<le> int c" if "0 < c" for a c
  proof -
    define q r where "q = a div c" and "r = a mod c"
    have a: "int a = int q * int c + int r" unfolding q_def r_def by (metis div_mult_mod_eq of_nat_add of_nat_mult)
    have r: "int r < int c" using that by (simp add: r_def)
    have "round_half_even a c = q \<and> 2 * int r \<le> int c \<or> round_half_even a c = q + 1 \<and> int c \<le> 2 * int r"
      by (auto simp: round_half_even_def Let_def q_def r_def)
    then show ?thesis
    proof
      assume "round_half_even a c = q + 1 \<and> int c \<le> 2 * int r"
      then show ?thesis using a r by (simp add: distrib_right)
    qed (use a r in simp)
  qed
  show ?thesis
    using i near[of "1024 ^ i" "100 * unat b"] by (intro exI[of _ i] exI[of _ h]) simp
qed

theorem format_bytes_nearest_witness:
  "\<exists>i h. i \<le> 4 \<and> format_bytes 1500 = show_hundredths h @ CHR '' '' # byte_units ! i \<and>
     \<bar>2 * (int h * 1024 ^ i - 150000)\<bar> \<le> 1024 ^ i"
proof -
  have u: "unat (1500 :: u64) = 1500" by simp
  have "unat (1500 :: u64) < 2 ^ 53" by simp
  from format_bytes_nearest[OF this] obtain i h where "i \<le> 4" "format_bytes 1500 = show_hundredths h @ CHR '' '' # byte_units ! i"
     "\<bar>2 * (int h * 1024 ^ i - 100 * int (unat (1500 :: u64)))\<bar> \<le> 1024 ^ i" by blast
  then show ?thesis unfolding u by (intro exI[of _ i] exI[of _ h]) simp
qed

text \<open>However the response of the first service arrives, the fields of the object it sent are what is printed.\<close>

theorem public_ip_printed:
  assumes "cu_init cu" and "cu_first cu = (True, map (\<lambda>p. (p, True)) pieces)" and "pieces \<noteq> []"
    and "concat pieces = json_object ws sep ms" and "length (concat pieces) < 2 ^ 64" and "nul \<notin> set (concat pieces)"
    and "flat_members ms" and "plain_layout ws sep" and "sep \<noteq> []"
  shows "\<exists>rest. get_public_ip cu = Some (heading ''Public IP Information'' @
     info_line ''IP Address:    '' (take 255 (case map_of ms ''ip'' of None \<Rightarrow> ''Not available'' | Some v \<Rightarrow> v)) @ location_heading @
     info_line ''Country:       '' (take 255 (case map_of ms ''country'' of None \<Rightarrow> ''Not available'' | Some v \<Rightarrow> v)) @ rest)"
proof -
  have "length ([] :: string) + length (concat pieces) < 2 ^ 64" using assms(5) by simp
  from transfer_holds[OF holds_empty this] obtain resp where
    t: "transfer (map (\<lambda>p. (p, True)) pieces) empty_response = Some (True, resp)" and h: "holds_text resp (concat pieces)"
    and d: "rd_data resp \<noteq> None" using assms(3) by auto
  have r: "response_text resp = json_object ws sep ms"
    using h d c_string_terminated[OF assms(6)] assms(4) by (auto simp: holds_text_def response_text_def split: option.splits)
  have k: "plain_key ''ip''" "plain_key ''country''" by (simp_all add: plain_key_def)
  have e: "extract_json_field (response_text resp) key 256 = take 255 (case map_of ms key of None \<Rightarrow> ''Not available'' | Some v \<Rightarrow> v)"
    if "plain_key key" for key
    unfolding r using json_field_read_back[OF assms(7-9) that, of 256] by simp
  have "get_public_ip cu = Some (heading ''Public IP Information'' @ print_ipinfo (cu_coordinates cu) (response_text resp))"
    using assms(1,2) t d by (simp add: get_public_ip_def curl_easy_perform_def)
  then show ?thesis unfolding print_ipinfo_def Let_def e[OF k(1)] e[OF k(2)] by (simp del: map_of.simps)
qed

theorem public_ip_printed_witness:
  "\<exists>rest. get_public_ip \<lparr>cu_init = True, cu_first = (True, [(CHR ''{'' # CHR 0x22 # ''i'', True), (''p'' @ CHR 0x22 # '':'' @ CHR 0x22 # ''192.0.2.7'', True),
       (CHR 0x22 # ''}'', True)]), cu_second = (False, []), cu_coordinates = (\<lambda>_. None)\<rparr> =
     Some (heading ''Public IP Information'' @ info_line ''IP Address:    '' ''192.0.2.7'' @ location_heading @
       info_line ''Country:       '' ''Not available'' @ rest)"
proof -
  let ?ps = "[CHR ''{'' # CHR 0x22 # ''i'', ''p'' @ CHR 0x22 # '':'' @ CHR 0x22 # ''192.0.2.7'', CHR 0x22 # ''}'']"
  let ?cu = "\<lparr>cu_init = True, cu_first = (True, map (\<lambda>p. (p, True)) ?ps), cu_second = (False, []), cu_coordinates = (\<lambda>_. None)\<rparr>"
  let ?v = "\<lambda>k. take 255 (case map_of [(''ip'', ''192.0.2.7'')] k of None \<Rightarrow> ''Not available'' | Some v \<Rightarrow> v)"
  have "\<exists>rest. get_public_ip ?cu = Some (heading ''Public IP Information'' @ info_line ''IP Address:    '' (?v ''ip'') @ location_heading @
      info_line ''Country:       '' (?v ''country'') @ rest)"
    by (rule public_ip_printed[of ?cu ?ps "[]" "'',''" "[(''ip'', ''192.0.2.7'')]"])
       (simp_all add: json_object_def json_member_def nul_def flat_members_def plain_key_def plain_layout_def)
  then show ?thesis by simp
qed

text \<open>If neither service answers, nothing is printed but the headings.\<close>

lemma public_ip_unavailable:
  assumes "cu_init cu" and "curl_easy_perform (cu_first cu) empty_response = Some (False, r1)"
    and "curl_easy_perform (cu_second cu) empty_response = Some (False, r2)"
  shows "get_public_ip cu = Some (heading ''Public IP Information'' @ newline # ''Trying alternative API...'' @ [newline])"
  using assms by (simp add: get_public_ip_def)

text \<open>A transfer whose buffer cannot grow fails.\<close>

lemma transfer_out_of_memory:
  "piece \<noteq> [] \<Longrightarrow> length piece < 2 ^ 64 \<Longrightarrow> transfer ((piece, False) # pieces) resp = Some (False, resp)"
proof -
  assume p: "piece \<noteq> []" "length piece < 2 ^ 64"
  then have "unat (of_nat (length piece) :: u64) \<noteq> 0" by (simp add: unsigned_of_nat take_bit_nat_eq_self)
  then show ?thesis by (auto simp: write_callback_def Let_def)
qed

end
