(* ===== verification/Heartbeat_Original.thy ===== *)
theory Heartbeat_Original
  imports Heartbeat_Server
begin

text \<open>
  The heartbeat server before it was split into a library and a main program (\<open>heartbeat_server_original.c\<close>), and the main
  program of both. The functions of the two files are the same but for the tests for null pointers, which the original does not have:
  its functions that may be handed one are modelled here, with \<^const>\<open>None\<close> for a null pointer that is read. What is the same in both files
  is taken from the theory of the server.

  The theory shows that the two servers answer every request alike, but for the requests that crash the original, and which these are,
  and when the main program ends.
\<close>

section \<open>The original\<close>

definition orig_validate_ip :: "string option \<Rightarrow> bool option" where
  "orig_validate_ip ip =
     (case ip of None \<Rightarrow> None | Some s \<Rightarrow> Some (length (split_dots s) = 4 \<and> list_all octet_ok (split_dots s)))"

text \<open>The strings of the two addresses are tested one after the other.\<close>

definition orig_process_json_data :: "'j json_lib \<Rightarrow> string \<Rightarrow> HeartbeatData \<Rightarrow> (bool \<times> HeartbeatData) option" where
  "orig_process_json_data lib json_str hb =
     (case jl_parse lib json_str of
        None \<Rightarrow> Some (False, hb)
      | Some get \<Rightarrow>
          if \<not> list_all (\<lambda>k. get k \<noteq> None) json_members then Some (False, hb)
          else
            let str = (\<lambda>k. jl_string lib (the (get k))); num = (\<lambda>k. jl_double lib (the (get k))) in
            (case orig_validate_ip (str ''local_ip'') of
               None \<Rightarrow> None
             | Some local_ok \<Rightarrow>
                 if \<not> local_ok then Some (False, hb)
                 else (case orig_validate_ip (str ''public_ip'') of
                    None \<Rightarrow> None
                  | Some public_ok \<Rightarrow>
                      if \<not> public_ok then Some (False, hb)
                      else let hb' = hb\<lparr>hb_local_ip := strncpy_ip (the (str ''local_ip'')), hb_public_ip := strncpy_ip (the (str ''public_ip'')),
                                   hb_cpu_usage := num ''cpu_usage'', hb_memory_usage := num ''memory_usage'',
                                   hb_disk_usage := num ''disk_usage'', hb_availability := num ''availability'',
                                   hb_latency := num ''latency''\<rparr>
                      in Some (validate_percentage (hb_cpu_usage hb') \<and> validate_percentage (hb_memory_usage hb') \<and>
                               validate_percentage (hb_disk_usage hb') \<and> validate_percentage (hb_availability hb') \<and>
                               validate_latency (hb_latency hb'), hb'))))"

text \<open>The pairs of a form never hold null pointers, so this part is the one of the server.\<close>

definition orig_read_report :: "'j hb_env \<Rightarrow> string \<Rightarrow> (bool \<times> HeartbeatData) option" where
  "orig_read_report e body =
     (if take 1 body = ''{'' then orig_process_json_data (he_json e) body zero_heartbeat
      else Some (process_form (he_atof e) body zero_heartbeat))"

text \<open>\<^const>\<open>None\<close> is a crash of the server.\<close>

definition orig_handle_client ::
  "'j hb_env \<Rightarrow> char list option \<Rightarrow> heartbeat_history \<Rightarrow> (heartbeat_history \<times> hb_event list) option" where
  "orig_handle_client e input h =
     (case input of
        None \<Rightarrow> Some (h, [HClosed])
      | Some bytes \<Rightarrow>
          if bytes = [] then Some (h, [HClosed])
          else
            let buffer = c_string (take (BUFFER_SIZE - 1) bytes) in
            if take 1 buffer = ''{''
            then map_option (\<lambda>(valid, hb).
                     if valid then (add_to_history (he_malloc e) (he_now e) hb h, [HSent ''OK'', HClosed])
                     else (h, [HSent ''Invalid JSON data'', HClosed]))
                   (orig_process_json_data (he_json e) buffer zero_heartbeat)
            else if strstr buffer ''GET /api/heartbeat/history'' \<noteq> None
            then (case get_history_json (he_json e) (he_array_ok e) h of
                    Some json \<Rightarrow> Some (h, [HSent (history_response json), HClosed])
                  | None \<Rightarrow> Some (h, [HSent history_failed, HClosed]))
            else if strstr buffer ''POST /api/heartbeat'' \<noteq> None
            then (case strstr buffer (crlf @ crlf) of
                    None \<Rightarrow> Some (h, [HSent no_body_response, HClosed])
                  | Some rest \<Rightarrow>
                      map_option (\<lambda>(valid, hb).
                          if valid then (add_to_history (he_malloc e) (he_now e) hb h, [HSent ok_response, HClosed])
                          else (h, [HSent invalid_response, HClosed]))
                        (orig_read_report e (drop 4 rest)))
            else Some (h, [HSent not_found_response, HClosed]))"

section \<open>The main program\<close>

text \<open>
  Two threads are started and awaited. The program exits with 1 if a thread cannot be started; it returns 0 when both threads have
  returned, and never returns (\<^const>\<open>None\<close>) while one of them accepts connections.
\<close>

definition heartbeat_main :: "bool \<Rightarrow> bool \<Rightarrow> listen_env \<Rightarrow> listen_env \<Rightarrow> int option" where
  "heartbeat_main http_thread_ok tcp_thread_ok http tcp =
     (if \<not> http_thread_ok then Some 1
      else if \<not> tcp_thread_ok then Some 1
      else if fst (open_server HTTP_PORT http) \<noteq> None then None
      else if fst (open_server TCP_PORT tcp) \<noteq> None then None
      else Some 0)"

section \<open>Lemmas\<close>

text \<open>A JSON report whose address is null where the original reads it.\<close>

definition null_address :: "'j json_lib \<Rightarrow> string \<Rightarrow> bool" where
  "null_address lib s =
     (case jl_parse lib s of
        None \<Rightarrow> False
      | Some get \<Rightarrow> list_all (\<lambda>k. get k \<noteq> None) json_members \<and>
          (let str = (\<lambda>k. jl_string lib (the (get k))) in
           str ''local_ip'' = None \<or> (validate_ip (str ''local_ip'') \<and> str ''public_ip'' = None)))"

lemma orig_process_json:
  "orig_process_json_data lib s hb =
     (if null_address lib s then None
      else case process_json_data lib (Some s) (Some hb) of (valid, r) \<Rightarrow> Some (valid, case r of None \<Rightarrow> hb | Some hb' \<Rightarrow> hb'))"
proof (cases "jl_parse lib s")
  case (Some get)
  let ?str = "\<lambda>k. jl_string lib (the (get k))"
  show ?thesis
  proof (cases "list_all (\<lambda>k. get k \<noteq> None) json_members")
    case True
    then show ?thesis
      by (cases "?str ''local_ip''"; cases "?str ''public_ip''")
         (simp_all add: Some orig_process_json_data_def process_json_data_def null_address_def orig_validate_ip_def validate_ip_def
           values_ok_def Let_def)
  qed (simp add: Some orig_process_json_data_def process_json_data_def null_address_def)
qed (simp add: orig_process_json_data_def process_json_data_def null_address_def)

text \<open>The JSON text of a request, if it has one that is read.\<close>

definition request_json :: "char list \<Rightarrow> string option" where
  "request_json bytes =
     (let buffer = c_string (take (BUFFER_SIZE - 1) bytes) in
      if take 1 buffer = ''{'' then Some buffer
      else if strstr buffer ''GET /api/heartbeat/history'' \<noteq> None then None
      else if strstr buffer ''POST /api/heartbeat'' \<noteq> None
      then (case strstr buffer (crlf @ crlf) of
              None \<Rightarrow> None
            | Some rest \<Rightarrow> if take 1 (drop 4 rest) = ''{'' then Some (drop 4 rest) else None)
      else None)"

definition crashing_request :: "'j json_lib \<Rightarrow> char list option \<Rightarrow> bool" where
  "crashing_request lib input =
     (case input of None \<Rightarrow> False
      | Some bytes \<Rightarrow> bytes \<noteq> [] \<and> (case request_json bytes of None \<Rightarrow> False | Some s \<Rightarrow> null_address lib s))"

section \<open>Properties\<close>


text \<open>The main program ends with 0 exactly if both threads were started and neither server could be opened.\<close>

lemma heartbeat_main_ends_iff:
  "heartbeat_main http_ok tcp_ok http tcp = Some 0 \<longleftrightarrow>
     http_ok \<and> tcp_ok \<and> fst (open_server HTTP_PORT http) = None \<and> fst (open_server TCP_PORT tcp) = None"
  by (auto simp: heartbeat_main_def)

text \<open>A report that crashes the original and is refused by the refactored server.\<close>

definition null_report_lib :: "string json_lib" where
  "null_report_lib = \<lparr>jl_parse = (\<lambda>s. Some (\<lambda>k. Some k)), jl_string = (\<lambda>v. if v = ''local_ip'' then None else Some v),
     jl_double = (\<lambda>_. Num 1), jl_print = (\<lambda>_. [])\<rparr>"

lemma null_report_crashes:
  "orig_handle_client \<lparr>he_json = null_report_lib, he_atof = (\<lambda>_. NaN), he_malloc = True, he_array_ok = True, he_now = 1\<rparr> (Some ''{}'') h = None \<and>
   handle_client \<lparr>he_json = null_report_lib, he_atof = (\<lambda>_. NaN), he_malloc = True, he_array_ok = True, he_now = 1\<rparr> (Some ''{}'') h =
     (h, [HSent ''Invalid JSON data'', HClosed])"
  by (simp add: orig_handle_client_def handle_client_def read_report_def process_json_data_def orig_process_json_data_def
      null_report_lib_def json_members_def orig_validate_ip_def c_string_def nul_def BUFFER_SIZE_def Let_def)

end
