(* ===== verification/Heartbeat_Memory.thy ===== *)
theory Heartbeat_Memory
  imports Heartbeat_Original
begin

text \<open>
  The memory of the original heartbeat server (\<open>heartbeat_server_original.c\<close>): the history as a linked list of allocated nodes, decoding
  into buffers by indices, and the cells that carry a socket to its handler thread. A read or write outside an
  object, a node that is used after it was freed, and a walk that does not end are \<^const>\<open>None\<close>. The refactored
  server has the same text in these functions.

  The theory shows that the nodes of the list are at any time exactly the allocated ones and represent the history of the theory
  \<open>Heartbeat_Server\<close>, that decoding never leaves its buffers and writes what that theory says, and which cells are lost.
\<close>

section \<open>The history as a linked list\<close>

type_synonym addr = nat

record heartbeat_node =
  nd_data :: HeartbeatData
  nd_timestamp :: int
  nd_next :: "addr option"

record hb_memory =
  hm_heap :: "addr \<rightharpoonup> heartbeat_node"
  hm_history :: "addr option"
  hm_count :: int

text \<open>The loop that looks for the last node and its predecessor.\<close>

partial_function (option) walk_to_last ::
  "(addr \<rightharpoonup> heartbeat_node) \<Rightarrow> addr option \<Rightarrow> addr \<Rightarrow> (addr option \<times> addr) option" where
  "walk_to_last m prev current =
     (case m current of
        None \<Rightarrow> None
      | Some n \<Rightarrow> (case nd_next n of None \<Rightarrow> Some (prev, current) | Some nx \<Rightarrow> walk_to_last m (Some current) nx))"

text \<open>\<open>new_node\<close> is what \<open>malloc\<close> returns.\<close>

definition orig_add_to_history :: "addr option \<Rightarrow> int \<Rightarrow> HeartbeatData \<Rightarrow> hb_memory \<Rightarrow> hb_memory option" where
  "orig_add_to_history new_node now data s =
     (case new_node of
        None \<Rightarrow> Some s
      | Some a \<Rightarrow>
          let m = (hm_heap s)(a \<mapsto> \<lparr>nd_data = data, nd_timestamp = now, nd_next = hm_history s\<rparr>);
              s1 = s\<lparr>hm_heap := m, hm_history := Some a, hm_count := hm_count s + 1\<rparr> in
          if hm_count s1 > MAX_HEARTBEATS
          then (case walk_to_last m None a of
                  None \<Rightarrow> None
                | Some (None, _) \<Rightarrow> Some s1
                | Some (Some prev, current) \<Rightarrow>
                    map_option (\<lambda>p. s1\<lparr>hm_heap := (m(prev \<mapsto> p\<lparr>nd_next := None\<rparr>))(current := None), hm_count := hm_count s1 - 1\<rparr>)
                      (m prev))
          else Some s1)"

text \<open>The loop of \<open>get_history_json\<close> over the list, and the function: no memory, or the text.\<close>

partial_function (option) collect_history :: "(addr \<rightharpoonup> heartbeat_node) \<Rightarrow> addr option \<Rightarrow> (HeartbeatData \<times> int) list option" where
  "collect_history m p =
     (case p of
        None \<Rightarrow> Some []
      | Some a \<Rightarrow> Option.bind (m a) (\<lambda>n. Option.bind (collect_history m (nd_next n)) (\<lambda>xs. Some ((nd_data n, nd_timestamp n) # xs))))"

definition orig_get_history_json :: "'j json_lib \<Rightarrow> bool \<Rightarrow> hb_memory \<Rightarrow> string option option" where
  "orig_get_history_json lib array_ok s =
     (if \<not> array_ok then Some None
      else map_option (\<lambda>xs. Some (jl_print lib xs)) (collect_history (hm_heap s) (hm_history s)))"

text \<open>\<open>clear_heartbeat_history\<close> of the refactored server.\<close>

partial_function (option) free_nodes :: "(addr \<rightharpoonup> heartbeat_node) \<Rightarrow> addr option \<Rightarrow> (addr \<rightharpoonup> heartbeat_node) option" where
  "free_nodes m p =
     (case p of None \<Rightarrow> Some m | Some a \<Rightarrow> Option.bind (m a) (\<lambda>n. free_nodes (m(a := None)) (nd_next n)))"

definition clear_nodes :: "hb_memory \<Rightarrow> hb_memory option" where
  "clear_nodes s = map_option (\<lambda>m. s\<lparr>hm_heap := m, hm_history := None, hm_count := 0\<rparr>) (free_nodes (hm_heap s) (hm_history s))"

section \<open>Decoding by indices\<close>

definition char_at :: "char list \<Rightarrow> nat \<Rightarrow> char option" where
  "char_at buf i = (if i < length buf then Some (buf ! i) else None)"

definition store_at :: "char list \<Rightarrow> nat \<Rightarrow> char \<Rightarrow> char list option" where
  "store_at buf i c = (if i < length buf then Some (buf[i := c]) else None)"

text \<open>The condition of the first branch, which reads a character only if those before it fit.\<close>

definition escape_at :: "char list \<Rightarrow> nat \<Rightarrow> bool option" where
  "escape_at src i =
     Option.bind (char_at src i) (\<lambda>c.
       if c \<noteq> CHR ''%'' then Some False
       else Option.bind (char_at src (i + 1)) (\<lambda>a.
         if \<not> is_xdigit a then Some False else map_option is_xdigit (char_at src (i + 2))))"

function decode_at :: "char list \<Rightarrow> nat \<Rightarrow> nat \<Rightarrow> nat \<Rightarrow> char list \<Rightarrow> char list option" where
  "decode_at src limit i j dst =
     (case char_at src i of
        None \<Rightarrow> None
      | Some c \<Rightarrow>
          if c = nul \<or> \<not> j < limit then store_at dst j nul
          else (case escape_at src i of
                  None \<Rightarrow> None
                | Some escaped \<Rightarrow>
                    (case store_at dst j (if escaped then char_of (16 * xdigit_value (src ! (i + 1)) + xdigit_value (src ! (i + 2)))
                                          else if c = CHR ''+'' then CHR '' '' else c) of
                       None \<Rightarrow> None
                     | Some dst' \<Rightarrow> decode_at src limit (if escaped then i + 3 else i + 1) (j + 1) dst')))"
  by pat_completeness auto
termination
  by (relation "measure (\<lambda>(src, limit, i, j, dst). limit - j)") auto

declare decode_at.simps [simp del]

definition orig_url_decode :: "char list \<Rightarrow> char list \<Rightarrow> nat \<Rightarrow> char list option" where
  "orig_url_decode dst src dst_size = decode_at src (if dst_size = 0 then 2 ^ 64 - 1 else dst_size - 1) 0 0 dst"

text \<open>\<open>strchr\<close> and \<open>strlen\<close> on a buffer: the index of a character, if it occurs before the terminator, and the length from an index.\<close>

definition strchr_at :: "char list \<Rightarrow> char \<Rightarrow> nat option option" where
  "strchr_at buf c =
     (let n = length (takeWhile (\<lambda>x. x \<noteq> c \<and> x \<noteq> nul) buf) in
      map_option (\<lambda>x. if x = c then Some n else None) (char_at buf n))"

definition strlen_at :: "char list \<Rightarrow> nat \<Rightarrow> nat option" where
  "strlen_at buf i =
     (let n = length (takeWhile (\<lambda>x. x \<noteq> nul) (drop i buf)) in if i + n < length buf then Some n else None)"

text \<open>Writing over the beginning of a buffer.\<close>

definition overwrite :: "char list \<Rightarrow> char list \<Rightarrow> char list" where
  "overwrite buf bytes = bytes @ drop (length bytes) buf"

definition orig_parse_key_value ::
  "char list \<Rightarrow> char list \<Rightarrow> nat \<Rightarrow> char list \<Rightarrow> nat \<Rightarrow> (bool \<times> char list \<times> char list) option" where
  "orig_parse_key_value pair key key_len val value_len =
     (case strchr_at pair (CHR ''='') of
        None \<Rightarrow> None
      | Some None \<Rightarrow> Some (False, key, val)
      | Some (Some key_size) \<Rightarrow>
          if key_size \<ge> key_len then Some (False, key, val)
          else if length key < key_size then None
          else (case store_at (overwrite key (take key_size pair)) key_size nul of
                  None \<Rightarrow> None
                | Some key' \<Rightarrow>
                    (case strlen_at pair (key_size + 1) of
                       None \<Rightarrow> None
                     | Some val_size \<Rightarrow>
                         if val_size \<ge> value_len then Some (False, key', val)
                         else map_option (\<lambda>v. (True, key', v)) (orig_url_decode val (drop (key_size + 1) pair) value_len))))"

section \<open>The accept loops\<close>

text \<open>
  What a server thread does to descriptors and to the cells that carry a socket to its handler, in order. The handler frees the
  cell it is given.
\<close>

datatype srv_event = Allocated | Freed | Accepted int | Closed int | Spawned int | Detached

definition orig_listen :: "int \<Rightarrow> listen_env \<Rightarrow> int option \<times> srv_event list" where
  "orig_listen port e =
     (let server_fd = le_socket e in
      if server_fd = 0 then (None, [])
      else if le_setsockopt e \<noteq> 0 then (None, [Closed server_fd])
      else if le_bind e port < 0 then (None, [Closed server_fd])
      else if le_listen e < 0 then (None, [Closed server_fd])
      else (Some server_fd, []))"

definition orig_accept_iteration :: "accept_env \<Rightarrow> srv_event list" where
  "orig_accept_iteration a =
     (if \<not> ae_malloc a then []
      else Allocated #
        (if ae_socket a < 0 then [Freed]
         else Accepted (ae_socket a) #
           (if ae_thread a = 0 then [Spawned (ae_socket a)] else []) @
           (if ae_thread a < 0 then [Closed (ae_socket a), Freed] else []) @ [Detached]))"

text \<open>The first iterations of a server.\<close>

definition orig_run_tcp_server :: "listen_env \<Rightarrow> accept_env list \<Rightarrow> srv_event list" where
  "orig_run_tcp_server e as =
     (case orig_listen TCP_PORT e of
        (None, evs) \<Rightarrow> evs
      | (Some server_fd, evs) \<Rightarrow> evs @ concat (map orig_accept_iteration as))"

definition orig_run_http_server :: "listen_env \<Rightarrow> accept_env list \<Rightarrow> srv_event list" where
  "orig_run_http_server e as =
     (case orig_listen HTTP_PORT e of
        (None, evs) \<Rightarrow> evs
      | (Some server_fd, evs) \<Rightarrow> evs @ concat (map orig_accept_iteration as))"

text \<open>\<open>main\<close>: \<^const>\<open>None\<close> while a server accepts connections.\<close>

definition orig_main :: "bool \<Rightarrow> bool \<Rightarrow> listen_env \<Rightarrow> listen_env \<Rightarrow> int option" where
  "orig_main http_thread_ok tcp_thread_ok http tcp =
     (if \<not> http_thread_ok \<or> \<not> tcp_thread_ok then Some 1
      else if fst (orig_listen HTTP_PORT http) = None \<and> fst (orig_listen TCP_PORT tcp) = None then Some 0
      else None)"

section \<open>Lemmas\<close>

subsection \<open>Linked lists\<close>

fun chain :: "(addr \<rightharpoonup> heartbeat_node) \<Rightarrow> addr option \<Rightarrow> (addr \<times> HeartbeatData \<times> int) list \<Rightarrow> bool" where
  "chain m p [] \<longleftrightarrow> p = None"
| "chain m p ((a, d, t) # cs) \<longleftrightarrow> p = Some a \<and> (\<exists>nx. m a = Some \<lparr>nd_data = d, nd_timestamp = t, nd_next = nx\<rparr> \<and> chain m nx cs)"

text \<open>The nodes of the list are exactly what is allocated, and hold the history.\<close>

definition represents :: "hb_memory \<Rightarrow> heartbeat_history \<Rightarrow> bool" where
  "represents s h \<longleftrightarrow> hm_count s = hh_count h \<and>
     (\<exists>cs. chain (hm_heap s) (hm_history s) cs \<and> distinct (map fst cs) \<and> dom (hm_heap s) = fst ` set cs \<and> hh_nodes h = map snd cs)"

lemma chain_frame: "chain m p cs \<Longrightarrow> a \<notin> fst ` set cs \<Longrightarrow> chain (m(a := v)) p cs"
  by (induction m p cs rule: chain.induct) auto

lemma walk_chain:
  "chain m (Some a) (c # cs) \<Longrightarrow>
     walk_to_last m prev a = Some (last (prev # map (Some \<circ> fst) (butlast (c # cs))), fst (last (c # cs)))"
proof (induction cs arbitrary: a c prev)
  case Nil
  then show ?case by (cases c) (auto simp: walk_to_last.simps[of m])
next
  case (Cons c' cs)
  obtain d t b d' t' where c: "c = (a, d, t)" "c' = (b, d', t')" using Cons.prems by (cases c; cases c') auto
  then have "m a = Some \<lparr>nd_data = d, nd_timestamp = t, nd_next = Some b\<rparr>" "chain m (Some b) (c' # cs)"
    using Cons.prems by auto
  then show ?case using Cons.IH[of b c' "Some a"] c by (simp add: walk_to_last.simps[of m prev a])
qed

lemma chain_cut:
  assumes "chain m p (cs @ [x, y])" and "distinct (map fst (cs @ [x, y]))" and "m (fst x) = Some n"
  shows "chain ((m(fst x \<mapsto> n\<lparr>nd_next := None\<rparr>))(fst y := None)) p (cs @ [x])"
  using assms
proof (induction cs arbitrary: p)
  case Nil
  then show ?case by (cases x; cases y) auto
next
  case (Cons c cs)
  obtain a d t where c: "c = (a, d, t)" by (cases c)
  then obtain nx where "m a = Some \<lparr>nd_data = d, nd_timestamp = t, nd_next = nx\<rparr>" "chain m nx (cs @ [x, y])" "p = Some a"
    using Cons.prems(1) by auto
  moreover have "a \<noteq> fst x" "a \<noteq> fst y" using Cons.prems(2) c by auto
  ultimately show ?case using Cons.IH[of nx] Cons.prems c by simp
qed

lemma collect_chain: "chain m p cs \<Longrightarrow> collect_history m p = Some (map snd cs)"
  by (induction m p cs rule: chain.induct) (auto simp: collect_history.simps)

lemma free_chain:
  "chain m p cs \<Longrightarrow> distinct (map fst cs) \<Longrightarrow> free_nodes m p = Some (m |` (- fst ` set cs))"
proof (induction cs arbitrary: m p)
  case Nil
  then show ?case by (simp add: free_nodes.simps)
next
  case (Cons c cs)
  obtain a d t where c: "c = (a, d, t)" by (cases c)
  then obtain nx where n: "m a = Some \<lparr>nd_data = d, nd_timestamp = t, nd_next = nx\<rparr>" "chain m nx cs" "p = Some a"
    using Cons.prems(1) by auto
  have "chain (m(a := None)) nx cs" using n(2) Cons.prems(2) c by (auto intro: chain_frame)
  moreover have "distinct (map fst cs)" using Cons.prems(2) by simp
  ultimately have "free_nodes (m(a := None)) nx = Some ((m(a := None)) |` (- fst ` set cs))" by (rule Cons.IH)
  moreover have "(m(a := None)) |` (- fst ` set cs) = m |` (- fst ` set (c # cs))"
    by (rule ext) (auto simp: restrict_map_def c)
  ultimately show ?case using n by (simp add: free_nodes.simps[of m])
qed

lemma add_refines:
  assumes "represents s h" and "a \<notin> dom (hm_heap s)"
  shows "\<exists>s'. orig_add_to_history (Some a) now d s = Some s' \<and> represents s' (add_to_history True now d h)"
proof -
  obtain cs where cs: "chain (hm_heap s) (hm_history s) cs" "distinct (map fst cs)" "dom (hm_heap s) = fst ` set cs"
    "hh_nodes h = map snd cs" and count: "hm_count s = hh_count h" using assms(1) by (auto simp: represents_def)
  define m where "m = (hm_heap s)(a \<mapsto> \<lparr>nd_data = d, nd_timestamp = now, nd_next = hm_history s\<rparr>)"
  let ?cs = "(a, d, now) # cs"
  have fresh: "a \<notin> fst ` set cs" using assms(2) cs(3) by simp
  have m: "chain m (Some a) ?cs" "distinct (map fst ?cs)" "dom m = fst ` set ?cs"
    using chain_frame[OF cs(1) fresh] fresh cs(2,3) by (auto simp: m_def)
  show ?thesis
  proof (cases "hm_count s + 1 > MAX_HEARTBEATS \<and> cs \<noteq> []")
    case False
    then show ?thesis
      using m cs(4) count walk_chain[OF m(1), of None]
      by (auto simp: orig_add_to_history_def add_to_history_def represents_def Let_def simp flip: m_def intro!: exI[of _ ?cs])
  next
    case True
    obtain cs' x y where c: "?cs = cs' @ [x, y]"
      using True by (cases cs rule: rev_cases; cases "butlast ?cs" rule: rev_cases) (auto simp: append_eq_Cons_conv)
    have w: "walk_to_last m None a = Some (Some (fst x), fst y)"
      using walk_chain[OF m(1), of None] unfolding c by (simp add: butlast_append)
    have "fst x \<in> dom m" using m(3) unfolding c by simp
    then obtain n where n: "m (fst x) = Some n" by blast
    define m' where "m' = (m(fst x \<mapsto> n\<lparr>nd_next := None\<rparr>))(fst y := None)"
    have ch: "chain m' (Some a) (cs' @ [x])" using chain_cut[of m "Some a" cs' x y n] n m(1,2) unfolding c m'_def by blast
    have "dom m' = fst ` set (cs' @ [x])" using m(2,3) unfolding c m'_def by (auto intro: rev_image_eqI)
    then have r: "chain m' (Some a) (cs' @ [x]) \<and> distinct (map fst (cs' @ [x])) \<and> dom m' = fst ` set (cs' @ [x])"
      using ch m(2) unfolding c by simp
    have "(d, now) # hh_nodes h = map snd cs' @ [snd x, snd y]" using arg_cong[OF c, of "map snd"] cs(4) by simp
    then have h: "remove_last ((d, now) # hh_nodes h) = (map snd (cs' @ [x]), True)"
      by (simp add: remove_last_eq butlast_append)
    have o: "orig_add_to_history (Some a) now d s = Some (s\<lparr>hm_heap := m', hm_history := Some a, hm_count := hm_count s\<rparr>)"
      using True w n by (simp add: orig_add_to_history_def Let_def m_def m'_def)
    have "hh_nodes (add_to_history True now d h) = map snd (cs' @ [x]) \<and> hh_count (add_to_history True now d h) = hh_count h"
      using True h count by (simp add: add_to_history_def Let_def)
    then have "represents (s\<lparr>hm_heap := m', hm_history := Some a, hm_count := hm_count s\<rparr>) (add_to_history True now d h)"
      unfolding represents_def by (intro conjI exI[of _ "cs' @ [x]"]) (use r count in simp_all)
    then show ?thesis using o by blast
  qed
qed


lemma clear_refines:
  assumes "represents s h"
  shows "\<exists>s'. clear_nodes s = Some s' \<and> hm_heap s' = Map.empty \<and> represents s' (clear_heartbeat_history h)"
proof -
  obtain cs where cs: "chain (hm_heap s) (hm_history s) cs" "distinct (map fst cs)" "dom (hm_heap s) = fst ` set cs"
    using assms by (auto simp: represents_def)
  have "hm_heap s |` (- fst ` set cs) = Map.empty" using cs(3) by (auto simp: restrict_map_def fun_eq_iff domIff)
  then show ?thesis
    using free_chain[OF cs(1,2)] by (simp add: clear_nodes_def represents_def clear_heartbeat_history_def)
qed

lemma read_refines: "represents s h \<Longrightarrow> orig_get_history_json lib ok s = Some (get_history_json lib ok h)"
  by (auto simp: represents_def orig_get_history_json_def get_history_json_def collect_chain)

lemma allocated_nodes: "represents s h \<Longrightarrow> card (dom (hm_heap s)) = length (hh_nodes h)"
  by (auto simp: represents_def card_image distinct_map distinct_card)

text \<open>
  The memory and the history of the abstract server, run side by side. \<open>malloc\<close> returns a cell that is not allocated, or nothing.
\<close>

definition no_nodes :: hb_memory where
  "no_nodes = \<lparr>hm_heap = Map.empty, hm_history = None, hm_count = 0\<rparr>"

inductive mem_reach :: "hb_memory \<Rightarrow> heartbeat_history \<Rightarrow> bool" where
  mem_start: "mem_reach no_nodes \<lparr>hh_nodes = [], hh_count = 0\<rparr>"
| mem_add: "mem_reach s h \<Longrightarrow> (\<And>a. new_node = Some a \<Longrightarrow> a \<notin> dom (hm_heap s)) \<Longrightarrow>
    orig_add_to_history new_node now d s = Some s' \<Longrightarrow> mem_reach s' (add_to_history (new_node \<noteq> None) now d h)"
| mem_clear: "mem_reach s h \<Longrightarrow> clear_nodes s = Some s' \<Longrightarrow> mem_reach s' (clear_heartbeat_history h)"

lemma add_refines_any:
  assumes "represents s h" and "\<And>a. new_node = Some a \<Longrightarrow> a \<notin> dom (hm_heap s)"
  shows "\<exists>s'. orig_add_to_history new_node now d s = Some s' \<and> represents s' (add_to_history (new_node \<noteq> None) now d h)"
  using add_refines[OF assms(1)] assms
  by (cases new_node) (auto simp: orig_add_to_history_def add_to_history_def simp del: not_None_eq)

lemma mem_reach_represents: "mem_reach s h \<Longrightarrow> represents s h \<and> hist_inv h"
proof (induction rule: mem_reach.induct)
  case mem_start
  then show ?case by (simp add: represents_def no_nodes_def hist_inv_def)
next
  case (mem_add s h new_node now d s')
  obtain s'' where "orig_add_to_history new_node now d s = Some s''" "represents s'' (add_to_history (new_node \<noteq> None) now d h)"
    using add_refines_any[of s h new_node] mem_add by blast
  then show ?case using mem_add add_to_history_inv by simp
next
  case (mem_clear s h s')
  obtain s'' where "clear_nodes s = Some s''" "represents s'' (clear_heartbeat_history h)"
    using clear_refines mem_clear by blast
  then show ?case using mem_clear by (simp add: hist_inv_def clear_heartbeat_history_def)
qed


subsection \<open>Decoding\<close>

text \<open>What is left of a buffer that holds the string \<open>s\<close> from index \<open>i\<close> on.\<close>

definition text_from :: "char list \<Rightarrow> nat \<Rightarrow> string \<Rightarrow> bool" where
  "text_from buf i s \<longleftrightarrow> nul \<notin> set s \<and> i \<le> length buf \<and> (\<exists>rest. drop i buf = s @ nul # rest)"

lemma text_from_char: "text_from buf i s \<Longrightarrow> char_at buf i = Some (case s of [] \<Rightarrow> nul | c # _ \<Rightarrow> c)"
  by (auto simp: text_from_def char_at_def dest: arg_cong[of _ _ length] intro: nth_via_drop split: list.split)

lemma text_from_Suc: "text_from buf i (c # s) \<Longrightarrow> text_from buf (i + 1) s"
  by (auto simp: text_from_def drop_Suc simp flip: tl_drop dest: arg_cong[of _ _ length])

lemma text_from_drop: "text_from buf i s \<Longrightarrow> n \<le> length s \<Longrightarrow> text_from buf (i + n) (drop n s)"
proof (induction n arbitrary: i s)
  case (Suc n)
  then obtain c s' where s: "s = c # s'" by (cases s) auto
  then show ?case using Suc.IH[of "i + 1" s'] Suc.prems text_from_Suc by simp
qed simp

lemma xdigit_not_nul: "\<not> is_xdigit nul"
  by (simp add: is_xdigit_def nul_def is_digit_char_def)

lemma escape_at_text:
  assumes "text_from buf i (c # cs)"
  shows "escape_at buf i = Some (c = CHR ''%'' \<and> length cs \<ge> 2 \<and> is_xdigit (cs ! 0) \<and> is_xdigit (cs ! 1))"
proof (cases cs)
  case Nil
  then show ?thesis using text_from_char[OF assms] text_from_char[OF text_from_Suc[OF assms]] xdigit_not_nul
    by (simp add: escape_at_def)
next
  case (Cons a as)
  note 2 = text_from_Suc[OF assms, unfolded Cons]
  show ?thesis using text_from_char[OF assms] text_from_char[OF 2] text_from_char[OF text_from_Suc[OF 2]] xdigit_not_nul Cons
    by (cases as) (auto simp: escape_at_def)
qed

lemma decode_at_text:
  assumes "text_from src i s" and "j + k = limit" and "limit < length dst"
  shows "decode_at src limit i j dst =
    Some (take j dst @ url_decode_loop k s @ [nul] @ drop (j + length (url_decode_loop k s) + 1) dst)"
  using assms
proof (induction k s arbitrary: i j dst rule: url_decode_loop.induct)
  case (1 s)
  then show ?case
    using text_from_char[OF 1(1)] by (simp add: decode_at.simps[of src] store_at_def upd_conv_take_nth_drop)
next
  case (2 k)
  then show ?case
    using text_from_char[OF 2(1)] by (simp add: decode_at.simps[of src] store_at_def upd_conv_take_nth_drop)
next
  case (3 k c cs)
  let ?esc = "c = CHR ''%'' \<and> length cs \<ge> 2 \<and> is_xdigit (cs ! 0) \<and> is_xdigit (cs ! 1)"
  have c: "char_at src i = Some c" "c \<noteq> nul" "j < length dst" "j < limit"
    using text_from_char[OF "3.prems"(1)] "3.prems" by (auto simp: text_from_def)
  let ?x = "if ?esc then char_of (16 * xdigit_value (src ! (i + 1)) + xdigit_value (src ! (i + 2))) else if c = CHR ''+'' then CHR '' '' else c"
  let ?i = "if ?esc then i + 3 else i + 1" and ?s = "if ?esc then drop 2 cs else cs"
  have step: "decode_at src limit i j dst = decode_at src limit ?i (j + 1) (dst[j := ?x])"
    using c escape_at_text[OF "3.prems"(1)] by (simp add: decode_at.simps[of src limit i] store_at_def)
  have t: "text_from src ?i ?s"
    using text_from_Suc[OF "3.prems"(1)] text_from_drop[OF text_from_Suc[OF "3.prems"(1)], of 2] by (simp add: numeral_3_eq_3)
  have d: "src ! (i + 1) = cs ! 0 \<and> src ! (i + 2) = cs ! 1" if e: ?esc
  proof -
    obtain a b cs' where cs: "cs = a # b # cs'" using e by (cases cs; cases "tl cs") auto
    show ?thesis using text_from_char[OF text_from_Suc[OF "3.prems"(1)]] text_from_char[OF text_from_Suc[OF text_from_Suc[OF "3.prems"(1)[unfolded cs]]]]
      by (auto simp: cs char_at_def split: if_splits)
  qed
  have w: "url_decode_loop (Suc k) (c # cs) = ?x # url_decode_loop k ?s" using d by simp
  have IH: "decode_at src limit ?i (j + 1) (dst[j := ?x]) =
      Some (take (j + 1) (dst[j := ?x]) @ url_decode_loop k ?s @ [nul] @ drop (j + 1 + length (url_decode_loop k ?s) + 1) (dst[j := ?x]))"
    using "3.IH" t "3.prems"(2,3) by auto
  have "take (j + 1) (dst[j := ?x]) = take j dst @ [?x]" using c(3) by (simp add: take_Suc_conv_app_nth)
  then show ?case unfolding step IH w by simp
qed

lemma orig_url_decode_text:
  assumes "text_from src 0 s" and "0 < n" and "n \<le> length dst"
  shows "orig_url_decode dst src n = Some (overwrite dst (url_decode n s))"
  using decode_at_text[OF assms(1), of 0 "n - 1" "n - 1" dst] assms(2,3)
  by (simp add: orig_url_decode_def overwrite_def url_decode_def)


lemma takeWhile_text: "nul \<notin> set s \<Longrightarrow> takeWhile (\<lambda>x. x \<noteq> c \<and> x \<noteq> nul) (s @ nul # rest) = takeWhile (\<lambda>x. x \<noteq> c) s"
  by (induction s) auto

lemma strchr_text:
  assumes "text_from buf 0 s" and "c \<noteq> nul"
  shows "strchr_at buf c = Some (if c \<in> set s then Some (length (takeWhile (\<lambda>x. x \<noteq> c) s)) else None)"
proof -
  obtain rest where b: "buf = s @ nul # rest" "nul \<notin> set s" using assms(1) by (auto simp: text_from_def)
  show ?thesis
  proof (cases "c \<in> set s")
    case True
    then obtain k v where "s = k @ c # v" "c \<notin> set k" by (meson split_list_first)
    then show ?thesis using b by (simp add: strchr_at_def takeWhile_text char_at_def takeWhile_append nth_append)
  next
    case False
    have w: "takeWhile (\<lambda>x. x \<noteq> c) s = s" using False by (auto simp: takeWhile_eq_all_conv)
    show ?thesis using b(2) False assms(2) unfolding strchr_at_def b(1) takeWhile_text[OF b(2)] w
      by (simp add: char_at_def nth_append Let_def)
  qed
qed

lemma strlen_text: "text_from buf i s \<Longrightarrow> strlen_at buf i = Some (length s)"
proof -
  assume t: "text_from buf i s"
  then obtain rest where d: "drop i buf = s @ nul # rest" "nul \<notin> set s" by (auto simp: text_from_def)
  then have w: "takeWhile (\<lambda>x. x \<noteq> nul) (drop i buf) = s" by (simp add: takeWhile_append)
  have "i + length s < length buf" using arg_cong[OF d(1), of length] t by (auto simp: text_from_def)
  then show ?thesis unfolding strlen_at_def w Let_def by simp
qed

lemma parse_key_value_text:
  assumes "text_from pair 0 s" and "key_len \<le> length key" and "value_len \<le> length val"
  shows "case parse_key_value s key_len value_len of
      None \<Rightarrow> \<exists>key'. orig_parse_key_value pair key key_len val value_len = Some (False, key', val) \<and> length key' = length key
    | Some (k, v) \<Rightarrow> orig_parse_key_value pair key key_len val value_len = Some (True, overwrite key (k @ [nul]), overwrite val v)"
proof (cases "CHR ''='' \<in> set s")
  case False
  then have "dropWhile (\<lambda>c. c \<noteq> CHR ''='') s = []" by (simp add: dropWhile_eq_Nil_conv) metis
  then show ?thesis using False strchr_text[OF assms(1), of "CHR ''=''"] by (simp add: parse_key_value_def orig_parse_key_value_def nul_def)
next
  case True
  then obtain k v where s: "s = k @ CHR ''='' # v" "CHR ''='' \<notin> set k" by (meson split_list_first)
  then have kv: "takeWhile (\<lambda>c. c \<noteq> CHR ''='') s = k" "dropWhile (\<lambda>c. c \<noteq> CHR ''='') s = CHR ''='' # v"
    by (auto simp: takeWhile_append dropWhile_append)
  have c: "strchr_at pair (CHR ''='') = Some (Some (length k))"
    using strchr_text[OF assms(1), of "CHR ''=''"] True kv(1) by (simp add: nul_def)
  have v: "text_from pair (length k + 1) v" using text_from_drop[OF assms(1), of "length k + 1"] s(1) by simp
  then have t: "text_from (drop (Suc (length k)) pair) 0 v" by (auto simp: text_from_def)
  have p: "take (length k) pair = k" using assms(1) s(1) by (auto simp: text_from_def)
  show ?thesis
  proof (cases "key_len \<le> length k")
    case True
    then show ?thesis using c kv by (simp add: parse_key_value_def orig_parse_key_value_def)
  next
    case False
    then obtain x xs where x: "drop (length k) key = x # xs" using assms(2) by (cases "drop (length k) key") auto
    then have o: "store_at (overwrite key k) (length k) nul = Some (overwrite key (k @ [nul]))"
      using False assms(2) by (simp add: store_at_def overwrite_def list_update_append drop_Suc flip: tl_drop)
    have l: "length (overwrite key (k @ [nul])) = length key" using False assms(2) by (simp add: overwrite_def)
    show ?thesis
      using False c kv strlen_text[OF v] o p l assms(2,3) orig_url_decode_text[OF t, of value_len val]
      by (auto simp: parse_key_value_def orig_parse_key_value_def)
  qed
qed

subsection \<open>Sockets\<close>

definition spawned :: "srv_event list \<Rightarrow> int list" where
  "spawned evs = List.map_filter (\<lambda>ev. case ev of Spawned fd \<Rightarrow> Some fd | _ \<Rightarrow> None) evs"

definition closed :: "srv_event list \<Rightarrow> int list" where
  "closed evs = List.map_filter (\<lambda>ev. case ev of Closed fd \<Rightarrow> Some fd | _ \<Rightarrow> None) evs"

lemma spawned_closed_simps [simp]:
  "spawned [] = []" "closed [] = []" "spawned (xs @ ys) = spawned xs @ spawned ys" "closed (xs @ ys) = closed xs @ closed ys"
  "spawned (Spawned fd # evs) = fd # spawned evs" "closed (Closed fd # evs) = fd # closed evs"
  "spawned (Allocated # evs) = spawned evs" "spawned (Freed # evs) = spawned evs" "spawned (Detached # evs) = spawned evs"
  "spawned (Accepted fd # evs) = spawned evs" "spawned (Closed fd # evs) = spawned evs"
  "closed (Allocated # evs) = closed evs" "closed (Freed # evs) = closed evs" "closed (Detached # evs) = closed evs"
  "closed (Accepted fd # evs) = closed evs" "closed (Spawned fd # evs) = closed evs"
  by (simp_all add: spawned_def closed_def List.map_filter_simps) (simp_all add: List.map_filter_def)

lemma orig_accept_loop:
  "spawned (concat (map orig_accept_iteration as)) = fst (accept_loop as) \<and>
   closed (concat (map orig_accept_iteration as)) = snd (accept_loop as)"
  by (induction "as") (auto simp: orig_accept_iteration_def accept_client_def split: prod.split)

lemma orig_listen_open: "orig_listen port e = (fst (open_server port e), map Closed (snd (open_server port e)))"
  by (simp add: orig_listen_def open_server_def Let_def)

text \<open>The original's servers hand over and close the same sockets as the refactored ones.\<close>

lemma orig_servers_same:
  "(spawned (orig_run_tcp_server e as), closed (orig_run_tcp_server e as)) = run_tcp_server e as"
  "(spawned (orig_run_http_server e as), closed (orig_run_http_server e as)) = run_http_server e as"
  using orig_accept_loop[of "as"]
  by (auto simp: orig_run_tcp_server_def run_tcp_server_def orig_run_http_server_def run_http_server_def orig_listen_open open_server_def
      split: prod.split)

text \<open>
  Every cell that was allocated is freed by the loop or handed to a handler, but those of the connections for which creating a
  thread failed with a positive code.
\<close>

lemma cells_accounted:
  "count_list (orig_run_tcp_server e as) Allocated =
     count_list (orig_run_tcp_server e as) Freed + length (spawned (orig_run_tcp_server e as)) +
     (if fst (open_server TCP_PORT e) = None then 0
      else length (filter (\<lambda>a. ae_malloc a \<and> 0 \<le> ae_socket a \<and> 0 < ae_thread a) as))"
proof -
  have "count_list (concat (map orig_accept_iteration as)) Allocated =
     count_list (concat (map orig_accept_iteration as)) Freed + length (spawned (concat (map orig_accept_iteration as))) +
     length (filter (\<lambda>a. ae_malloc a \<and> 0 \<le> ae_socket a \<and> 0 < ae_thread a) as)"
    by (induction "as") (auto simp: orig_accept_iteration_def)
  then show ?thesis by (auto simp: orig_run_tcp_server_def orig_listen_open open_server_def)
qed

lemma orig_main_same: "orig_main http_ok tcp_ok http tcp = heartbeat_main http_ok tcp_ok http tcp"
  by (simp add: orig_main_def heartbeat_main_def orig_listen_open)


section \<open>Properties\<close>

text \<open>C33: 
  After any sequence of reports and clearings the allocated nodes are exactly those of the list, as many as the history has reports and at most
  one hundred; none is used after it was freed, whatever is called next; reading gives the history of the abstract
  server, and clearing frees everything.
\<close>

theorem history_memory_refines:
  assumes "mem_reach s h"
  shows "represents s h \<and> card (dom (hm_heap s)) = length (hh_nodes h) \<and> length (hh_nodes h) \<le> 100 \<and>
    (\<forall>new_node now d. (\<forall>a. new_node = Some a \<longrightarrow> a \<notin> dom (hm_heap s)) \<longrightarrow>
       (\<exists>s'. orig_add_to_history new_node now d s = Some s' \<and> represents s' (add_to_history (new_node \<noteq> None) now d h))) \<and>
    orig_get_history_json lib ok s = Some (get_history_json lib ok h) \<and>
    (\<exists>s'. clear_nodes s = Some s' \<and> hm_heap s' = Map.empty)"
proof (intro conjI allI impI)
  have r: "represents s h" "hist_inv h" using mem_reach_represents[OF assms] by auto
  show "represents s h" by (rule r)
  show "card (dom (hm_heap s)) = length (hh_nodes h)" using allocated_nodes r by blast
  show "length (hh_nodes h) \<le> 100" using r(2) by (simp add: hist_inv_def)
  show "orig_get_history_json lib ok s = Some (get_history_json lib ok h)" using read_refines r by blast
  show "\<exists>s'. clear_nodes s = Some s' \<and> hm_heap s' = Map.empty" using clear_refines r by blast
  fix new_node now d
  assume "\<forall>a. new_node = Some a \<longrightarrow> a \<notin> dom (hm_heap s)"
  then show "\<exists>s'. orig_add_to_history new_node now d s = Some s' \<and> represents s' (add_to_history (new_node \<noteq> None) now d h)"
    using add_refines_any[OF r(1)] by blast
qed

definition two_nodes :: hb_memory where
  "two_nodes = \<lparr>hm_heap = [5 \<mapsto> \<lparr>nd_data = zero_heartbeat, nd_timestamp = 10, nd_next = None\<rparr>,
      3 \<mapsto> \<lparr>nd_data = zero_heartbeat, nd_timestamp = 20, nd_next = Some 5\<rparr>], hm_history = Some 3, hm_count = 2\<rparr>"

lemma two_nodes_reached: "mem_reach two_nodes \<lparr>hh_nodes = [(zero_heartbeat, 20), (zero_heartbeat, 10)], hh_count = 2\<rparr>"
proof -
  let ?one = "\<lparr>hm_heap = [5 \<mapsto> \<lparr>nd_data = zero_heartbeat, nd_timestamp = 10, nd_next = None\<rparr>], hm_history = Some 5, hm_count = 1\<rparr>"
  have "orig_add_to_history (Some 5) 10 zero_heartbeat no_nodes = Some ?one"
    by (simp add: orig_add_to_history_def no_nodes_def MAX_HEARTBEATS_def)
  from mem_add[OF mem_start _ this] have 1: "mem_reach ?one \<lparr>hh_nodes = [(zero_heartbeat, 10)], hh_count = 1\<rparr>"
    by (simp add: add_to_history_def no_nodes_def MAX_HEARTBEATS_def)
  have "orig_add_to_history (Some 3) 20 zero_heartbeat ?one = Some two_nodes"
    by (simp add: orig_add_to_history_def two_nodes_def MAX_HEARTBEATS_def)
  from mem_add[OF 1 _ this] show ?thesis by (simp add: add_to_history_def MAX_HEARTBEATS_def)
qed

theorem history_memory_refines_witness:
  "card (dom (hm_heap two_nodes)) = 2 \<and> (\<exists>s'. clear_nodes two_nodes = Some s' \<and> hm_heap s' = Map.empty) \<and>
   (\<exists>s'. orig_add_to_history (Some 4) 30 zero_heartbeat two_nodes = Some s')"
proof -
  note w = history_memory_refines[OF two_nodes_reached, THEN conjunct2]
  have fresh: "\<And>a. Some 4 = Some a \<Longrightarrow> a \<notin> dom (hm_heap two_nodes)" by (simp add: two_nodes_def)
  have "card (dom (hm_heap two_nodes)) = 2" using w[THEN conjunct1] by simp
  moreover have "\<exists>s'. clear_nodes two_nodes = Some s' \<and> hm_heap s' = Map.empty"
    by (rule w[THEN conjunct2, THEN conjunct2, THEN conjunct2, THEN conjunct2])
  moreover have "\<exists>s'. orig_add_to_history (Some 4) 30 zero_heartbeat two_nodes = Some s'"
    using w[THEN conjunct2, THEN conjunct2, THEN conjunct1, rule_format, of "Some 4" 30 zero_heartbeat, OF fresh] by blast
  ultimately show ?thesis by blast
qed

text \<open>C34: 
  Splitting and decoding a field of a form never reads or writes outside its buffers, if they are as large as announced, and writes the key and
  value of the abstract server.
\<close>

theorem form_field_in_bounds:
  assumes "text_from pair 0 s" and "key_len \<le> length key" and "value_len \<le> length val"
  shows "case parse_key_value s key_len value_len of
      None \<Rightarrow> \<exists>key'. orig_parse_key_value pair key key_len val value_len = Some (False, key', val) \<and> length key' = length key
    | Some (k, v) \<Rightarrow> orig_parse_key_value pair key key_len val value_len = Some (True, overwrite key (k @ [nul]), overwrite val v)"
  using parse_key_value_text[OF assms] .

theorem form_field_in_bounds_witness:
  "orig_parse_key_value (''ip=1%2E+%'' @ [nul]) ''xxxx'' 4 ''yyyyyyyyy'' 9 = Some (True, ''ip'' @ [nul] @ ''x'', ''1. %'' @ [nul] @ ''yyyy'')"
proof -
  have t: "text_from (''ip=1%2E+%'' @ [nul]) 0 ''ip=1%2E+%''" by (simp add: text_from_def nul_def)
  have "parse_key_value ''ip=1%2E+%'' 4 9 = Some (''ip'', ''1. %'' @ [nul])" by code_simp
  then show ?thesis using form_field_in_bounds[OF t, of 4 "''xxxx''" 9 "''yyyyyyyyy''"] by (simp add: overwrite_def)
qed

end
