(* ===== verification/Heartbeat_Double.thy ===== *)
theory Heartbeat_Double
  imports Heartbeat_Memory
begin

text \<open>
  The copy of the heartbeat server that stands in for it in the tests (\<open>heartbeat_server_test_impl.c\<close>). The tests hand it records they have not
  initialised, so here a report has its two addresses as arrays of \<open>MAX_IP_LEN\<close> characters that hold anything; \<open>strncpy\<close>, with room for one
  less, writes no terminator behind an address that fills it. Null pointers that are read, and reads and writes outside an array, are \<^const>\<open>None\<close>.

  The theory shows when the addresses of an accepted report are terminated, that on a record of zeros the copy does what the original server does, and that its
  remaining functions are those of the original, so that what is shown of them holds for the copy.
\<close>

section \<open>Functions\<close>

record report =
  rp_local_ip :: "char list"
  rp_public_ip :: "char list"
  rp_cpu_usage :: double_t
  rp_memory_usage :: double_t
  rp_disk_usage :: double_t
  rp_availability :: double_t
  rp_latency :: double_t

definition double_validate_ip :: "string option \<Rightarrow> bool option" where
  "double_validate_ip ip =
     (case ip of None \<Rightarrow> None | Some s \<Rightarrow> Some (length (split_dots s) = 4 \<and> list_all octet_ok (split_dots s)))"

definition double_validate_percentage :: "double_t \<Rightarrow> bool" where
  "double_validate_percentage d = (case d of Num x \<Rightarrow> 0 \<le> x \<and> x \<le> 100 | Infinite positive \<Rightarrow> False | NaN \<Rightarrow> False)"

definition double_validate_latency :: "double_t \<Rightarrow> bool" where
  "double_validate_latency d = (case d of Num x \<Rightarrow> 0 \<le> x | Infinite positive \<Rightarrow> positive | NaN \<Rightarrow> False)"

definition double_url_decode :: "char list \<Rightarrow> char list \<Rightarrow> nat \<Rightarrow> char list option" where
  "double_url_decode dst src dst_size = decode_at src (if dst_size = 0 then 2 ^ 64 - 1 else dst_size - 1) 0 0 dst"

definition double_parse_key_value ::
  "char list \<Rightarrow> char list \<Rightarrow> nat \<Rightarrow> char list \<Rightarrow> nat \<Rightarrow> (bool \<times> char list \<times> char list) option" where
  "double_parse_key_value pair key key_len val value_len =
     (case strchr_at pair (CHR ''='') of
        None \<Rightarrow> None
      | Some None \<Rightarrow> Some (False, key, val)
      | Some (Some key_size) \<Rightarrow>
          if key_size \<ge> key_len then Some (False, key, val)
          else if length key < key_size then None
          else (case store_at (overwrite key (take key_size pair)) key_size nul of
                  None \<Rightarrow> None
                | Some key' \<Rightarrow>
                    (case strlen_at pair (key_size + 1) of
                       None \<Rightarrow> None
                     | Some val_size \<Rightarrow>
                         if val_size \<ge> value_len then Some (False, key', val)
                         else map_option (\<lambda>v. (True, key', v)) (double_url_decode val (drop (key_size + 1) pair) value_len))))"

text \<open>\<open>strncpy\<close>: exactly \<open>n\<close> characters are written, the rest of them zeros if the string is shorter.\<close>

definition strncpy_to :: "char list \<Rightarrow> string \<Rightarrow> nat \<Rightarrow> char list option" where
  "strncpy_to dst src n = (if n \<le> length dst then Some (take n (src @ replicate n nul) @ drop n dst) else None)"

text \<open>The values are stored before they are tested.\<close>

definition double_store ::
  "string \<Rightarrow> string \<Rightarrow> (string \<Rightarrow> double_t) \<Rightarrow> report \<Rightarrow> (bool \<times> report) option" where
  "double_store local_ip public_ip num r =
     (case strncpy_to (rp_local_ip r) local_ip (MAX_IP_LEN - 1) of
        None \<Rightarrow> None
      | Some l \<Rightarrow>
          (case strncpy_to (rp_public_ip r) public_ip (MAX_IP_LEN - 1) of
             None \<Rightarrow> None
           | Some p \<Rightarrow>
               let r' = r\<lparr>rp_local_ip := l, rp_public_ip := p, rp_cpu_usage := num ''cpu_usage'', rp_memory_usage := num ''memory_usage'',
                          rp_disk_usage := num ''disk_usage'', rp_availability := num ''availability'', rp_latency := num ''latency''\<rparr>
               in Some (double_validate_percentage (rp_cpu_usage r') \<and> double_validate_percentage (rp_memory_usage r') \<and>
                        double_validate_percentage (rp_disk_usage r') \<and> double_validate_percentage (rp_availability r') \<and>
                        double_validate_latency (rp_latency r'), r')))"

definition double_process_json_data :: "'j json_lib \<Rightarrow> string \<Rightarrow> report \<Rightarrow> (bool \<times> report) option" where
  "double_process_json_data lib json_str r =
     (case jl_parse lib json_str of
        None \<Rightarrow> Some (False, r)
      | Some get \<Rightarrow>
          if \<not> list_all (\<lambda>k. get k \<noteq> None) json_members then Some (False, r)
          else
            let str = (\<lambda>k. jl_string lib (the (get k))); num = (\<lambda>k. jl_double lib (the (get k))) in
            (case double_validate_ip (str ''local_ip'') of
               None \<Rightarrow> None
             | Some local_ok \<Rightarrow>
                 if \<not> local_ok then Some (False, r)
                 else (case double_validate_ip (str ''public_ip'') of
                         None \<Rightarrow> None
                       | Some public_ok \<Rightarrow>
                           if \<not> public_ok then Some (False, r)
                           else double_store (the (str ''local_ip'')) (the (str ''public_ip'')) num r)))"

definition double_add_to_history :: "addr option \<Rightarrow> int \<Rightarrow> HeartbeatData \<Rightarrow> hb_memory \<Rightarrow> hb_memory option" where
  "double_add_to_history new_node now data s =
     (case new_node of
        None \<Rightarrow> Some s
      | Some a \<Rightarrow>
          let m = (hm_heap s)(a \<mapsto> \<lparr>nd_data = data, nd_timestamp = now, nd_next = hm_history s\<rparr>);
              s1 = s\<lparr>hm_heap := m, hm_history := Some a, hm_count := hm_count s + 1\<rparr> in
          if hm_count s1 > MAX_HEARTBEATS
          then (case walk_to_last m None a of
                  None \<Rightarrow> None
                | Some (None, _) \<Rightarrow> Some s1
                | Some (Some prev, current) \<Rightarrow>
                    map_option (\<lambda>p. s1\<lparr>hm_heap := (m(prev \<mapsto> p\<lparr>nd_next := None\<rparr>))(current := None), hm_count := hm_count s1 - 1\<rparr>)
                      (m prev))
          else Some s1)"

definition double_get_history_json :: "'j json_lib \<Rightarrow> bool \<Rightarrow> hb_memory \<Rightarrow> string option option" where
  "double_get_history_json lib array_ok s =
     (if \<not> array_ok then Some None else map_option (\<lambda>nodes. Some (jl_print lib nodes)) (collect_history (hm_heap s) (hm_history s)))"

section \<open>The functions that are the original's\<close>

lemma double_same:
  "double_validate_ip = orig_validate_ip" "double_validate_percentage = validate_percentage" "double_validate_latency = validate_latency"
  "double_url_decode = orig_url_decode" "double_add_to_history = orig_add_to_history"
  by (auto intro!: ext simp: double_validate_ip_def orig_validate_ip_def double_validate_percentage_def validate_percentage_def
      double_validate_latency_def validate_latency_def double_url_decode_def orig_url_decode_def
      double_add_to_history_def orig_add_to_history_def split: double_t.split)

lemma double_parse_same: "double_parse_key_value pair key key_len val value_len = orig_parse_key_value pair key key_len val value_len"
  unfolding double_parse_key_value_def orig_parse_key_value_def double_same ..

lemma double_history_same: "double_get_history_json lib ok s = orig_get_history_json lib ok s"
  by (simp add: double_get_history_json_def orig_get_history_json_def)

section \<open>Addresses\<close>

text \<open>Reading an array as a string: it ends at the first zero, and there must be one.\<close>

definition array_string :: "char list \<Rightarrow> string option" where
  "array_string buf = (if nul \<in> set buf then Some (takeWhile (\<lambda>c. c \<noteq> nul) buf) else None)"

lemma split_dots_chars: "c \<in> set s \<Longrightarrow> c = CHR ''.'' \<or> (\<exists>p \<in> set (split_dots s). c \<in> set p)"
proof (induction s)
  case (Cons a s)
  then show ?case using split_dots_nonempty[of s] by (auto split: list.splits)
qed simp

lemma valid_ip_no_nul: "validate_ip (Some s) \<Longrightarrow> nul \<notin> set s"
proof
  assume v: "validate_ip (Some s)" and "nul \<in> set s"
  then have "nul = CHR ''.'' \<or> (\<exists>p \<in> set (split_dots s). nul \<in> set p)" by (intro split_dots_chars)
  moreover have "list_all octet_ok (split_dots s)" using v by (simp add: validate_ip_def)
  ultimately have "is_digit_char nul" by (auto simp: list_all_iff octet_ok_def nul_def)
  then show False by (simp add: is_digit_char_def nul_def)
qed

lemma strncpy_reads:
  assumes "nul \<notin> set s" and "length s \<le> n" and "length buf = n + 1"
  shows "strncpy_to buf s n = Some (take n (s @ replicate n nul) @ [buf ! n])"
    and "array_string (take n (s @ replicate n nul) @ [buf ! n]) = (if length s < n \<or> buf ! n = nul then Some s else None)"
proof -
  have "drop n buf = [buf ! n]" using assms(3) by (simp add: Cons_nth_drop_Suc[symmetric])
  then show "strncpy_to buf s n = Some (take n (s @ replicate n nul) @ [buf ! n])"
    using assms(3) by (simp add: strncpy_to_def)
  have t: "take n (s @ replicate n nul) = s @ replicate (n - length s) nul" using assms(2) by simp
  show "array_string (take n (s @ replicate n nul) @ [buf ! n]) = (if length s < n \<or> buf ! n = nul then Some s else None)"
    unfolding t using assms(1,2) by (cases "n - length s") (auto simp: array_string_def takeWhile_append)
qed

lemma store_reads:
  assumes "validate_ip (Some l)" and "validate_ip (Some q)"
    and "length (rp_local_ip r) = MAX_IP_LEN" and "length (rp_public_ip r) = MAX_IP_LEN"
  shows "\<exists>r'. double_store l q num r = Some (validate_percentage (num ''cpu_usage'') \<and> validate_percentage (num ''memory_usage'') \<and>
       validate_percentage (num ''disk_usage'') \<and> validate_percentage (num ''availability'') \<and> validate_latency (num ''latency''), r') \<and>
     array_string (rp_local_ip r') = (if length l < 15 \<or> rp_local_ip r ! 15 = nul then Some l else None) \<and>
     array_string (rp_public_ip r') = (if length q < 15 \<or> rp_public_ip r ! 15 = nul then Some q else None) \<and>
     rp_cpu_usage r' = num ''cpu_usage'' \<and> rp_memory_usage r' = num ''memory_usage'' \<and> rp_disk_usage r' = num ''disk_usage'' \<and>
     rp_availability r' = num ''availability'' \<and> rp_latency r' = num ''latency''"
  using strncpy_reads[of l 15 "rp_local_ip r"] strncpy_reads[of q 15 "rp_public_ip r"]
    valid_ip_no_nul[OF assms(1)] valid_ip_no_nul[OF assms(2)] valid_ip_length[OF assms(1)] valid_ip_length[OF assms(2)] assms(3,4)
  by (simp add: double_store_def MAX_IP_LEN_def double_same)

section \<open>Properties\<close>

text \<open>What is in a report, as the tests read it.\<close>

definition report_data :: "report \<Rightarrow> HeartbeatData option" where
  "report_data r =
     (case (array_string (rp_local_ip r), array_string (rp_public_ip r)) of
        (Some l, Some q) \<Rightarrow> Some \<lparr>hb_local_ip = l, hb_public_ip = q, hb_cpu_usage = rp_cpu_usage r, hb_memory_usage = rp_memory_usage r,
           hb_disk_usage = rp_disk_usage r, hb_availability = rp_availability r, hb_latency = rp_latency r\<rparr>
      | _ \<Rightarrow> None)"

definition zero_report :: report where
  "zero_report = \<lparr>rp_local_ip = replicate MAX_IP_LEN nul, rp_public_ip = replicate MAX_IP_LEN nul, rp_cpu_usage = Num 0, rp_memory_usage = Num 0,
     rp_disk_usage = Num 0, rp_availability = Num 0, rp_latency = Num 0\<rparr>"

lemma zero_report_data: "report_data zero_report = Some zero_heartbeat"
  by (simp add: report_data_def zero_report_def zero_heartbeat_def array_string_def MAX_IP_LEN_def)

text \<open>An accepted report whose record was not set to zeros holds an address that does not end exactly if it fills all fifteen characters the copy leaves
  for it and the sixteenth was not zero; every shorter address is read back as it was sent.\<close>

theorem unterminated_address_iff:
  assumes "double_process_json_data lib js r = Some (True, r')"
    and "length (rp_local_ip r) = MAX_IP_LEN" and "length (rp_public_ip r) = MAX_IP_LEN"
  shows "\<exists>get l q. jl_parse lib js = Some get \<and> jl_string lib (the (get ''local_ip'')) = Some l \<and> jl_string lib (the (get ''public_ip'')) = Some q \<and>
     array_string (rp_local_ip r') = (if length l = 15 \<and> rp_local_ip r ! 15 \<noteq> nul then None else Some l) \<and>
     array_string (rp_public_ip r') = (if length q = 15 \<and> rp_public_ip r ! 15 \<noteq> nul then None else Some q)"
proof -
  obtain get where g: "jl_parse lib js = Some get" using assms(1) by (auto simp: double_process_json_data_def split: option.splits)
  let ?num = "\<lambda>k. jl_double lib (the (get k))"
  obtain l q where l: "jl_string lib (the (get ''local_ip'')) = Some l" "validate_ip (Some l)"
    and q: "jl_string lib (the (get ''public_ip'')) = Some q" "validate_ip (Some q)" and st: "double_store l q ?num r = Some (True, r')"
    using assms(1) by (auto simp: double_process_json_data_def g Let_def double_same orig_validate_ip_def validate_ip_def
        split: if_splits option.splits)
  show ?thesis
    using store_reads[OF l(2) q(2) assms(2,3), of ?num] st l q g valid_ip_length[OF l(2)] valid_ip_length[OF q(2)] by auto
qed

text \<open>A library that reads one report, and a record of the letter x.\<close>

definition sample_lib :: "string json_lib" where
  "sample_lib = \<lparr>jl_parse = (\<lambda>s. Some (\<lambda>k. Some k)), jl_string = (\<lambda>k. Some (if k = ''local_ip'' then ''192.168.100.100'' else ''8.8.8.8'')),
     jl_double = (\<lambda>k. Num 1), jl_print = (\<lambda>hs. [])\<rparr>"

definition used_report :: report where
  "used_report = zero_report\<lparr>rp_local_ip := replicate 16 (CHR ''x''), rp_public_ip := replicate 16 (CHR ''x'')\<rparr>"

lemma sample_accepted: "\<exists>r'. double_process_json_data sample_lib [] used_report = Some (True, r')"
proof -
  have "orig_validate_ip (Some ''192.168.100.100'') = Some True" "orig_validate_ip (Some ''8.8.8.8'') = Some True"
    by (simp_all add: orig_validate_ip_def octet_ok_def is_digit_char_def decimal_value_def)
  then show ?thesis
    by (simp add: double_process_json_data_def sample_lib_def json_members_def double_same double_store_def strncpy_to_def used_report_def
        MAX_IP_LEN_def validate_percentage_def validate_latency_def)
qed

theorem unterminated_address_iff_witness:
  "\<exists>r'. double_process_json_data sample_lib [] used_report = Some (True, r') \<and> array_string (rp_local_ip r') = None \<and>
     array_string (rp_public_ip r') = Some ''8.8.8.8''"
proof -
  obtain r' where r': "double_process_json_data sample_lib [] used_report = Some (True, r')" using sample_accepted by blast
  have "length (rp_local_ip used_report) = MAX_IP_LEN" "length (rp_public_ip used_report) = MAX_IP_LEN"
    by (simp_all add: used_report_def MAX_IP_LEN_def)
  from unterminated_address_iff[OF r' this] r' show ?thesis
    by (auto simp: sample_lib_def used_report_def nul_def)
qed

text \<open>On a record of zeros, as the original server makes it, the copy does what the original does.\<close>

theorem double_is_original:
  "map_option (\<lambda>(ok, r). (ok, report_data r)) (double_process_json_data lib js zero_report) =
   map_option (\<lambda>(ok, hb). (ok, Some hb)) (orig_process_json_data lib js zero_heartbeat)"
proof (cases "jl_parse lib js")
  case (Some get)
  let ?num = "\<lambda>k. jl_double lib (the (get k))" and ?str = "\<lambda>k. jl_string lib (the (get k))"
  note defs = double_process_json_data_def orig_process_json_data_def Some Let_def double_same orig_validate_ip_def
  show ?thesis
  proof (cases "list_all (\<lambda>k. get k \<noteq> None) json_members \<and>
      (\<exists>l q. ?str ''local_ip'' = Some l \<and> ?str ''public_ip'' = Some q \<and> validate_ip (Some l) \<and> validate_ip (Some q))")
    case True
    then obtain l q where m: "list_all (\<lambda>k. get k \<noteq> None) json_members" and l: "?str ''local_ip'' = Some l" "validate_ip (Some l)"
      and q: "?str ''public_ip'' = Some q" "validate_ip (Some q)" by blast
    have len: "length (rp_local_ip zero_report) = MAX_IP_LEN" "length (rp_public_ip zero_report) = MAX_IP_LEN"
      and z: "rp_local_ip zero_report ! 15 = nul" "rp_public_ip zero_report ! 15 = nul"
      by (simp_all add: zero_report_def MAX_IP_LEN_def)
    show ?thesis
      using store_reads[OF l(2) q(2) len, of ?num] z m l q
      by (auto simp: defs validate_ip_def report_data_def zero_heartbeat_def strncpy_ip_valid simp del: not_None_eq)
  next
    case False
    then show ?thesis
      by (auto simp: defs validate_ip_def zero_report_data split: option.splits simp del: not_None_eq)
  qed
qed (simp add: double_process_json_data_def orig_process_json_data_def zero_report_data)

end
