(* ===== verification/Image_Array.thy ===== *)
theory Image_Array
  imports Bin2arr
begin

text \<open>
  The array the tool generated from a picture (\<open>bin2arr/10k.jpg.h\<close>) and the program that writes the picture back (\<open>bin2arr/extract.c\<close>), which
  includes that file. The array is given row by row, one row of the model for a line of the source; the bytes are natural numbers, as in the
  theory of the tool. The rows are in four definitions.

  The theory shows that the announced size is the size of the array, so the extraction reads nothing behind it, that the file it writes
  holds the array, and that the tool, applied to this file, generates this array again under this name.
\<close>

section \<open>The array\<close>

text \<open>Lines 5 to 144.\<close>

definition jpg_rows_1 :: "nat list list" where
  "jpg_rows_1 = [
    [0xFF, 0xD8, 0xFF, 0xE2, 0x0C, 0x58, 0x49, 0x43, 0x43, 0x5F, 0x50, 0x52, 0x4F, 0x46, 0x49, 0x4C],
    [0x45, 0x00, 0x01, 0x01, 0x00, 0x00, 0x0C, 0x48, 0x4C, 0x69, 0x6E, 0x6F, 0x02, 0x10, 0x00, 0x00],
    [0x6D, 0x6E, 0x74, 0x72, 0x52, 0x47, 0x42, 0x20, 0x58, 0x59, 0x5A, 0x20, 0x07, 0xCE, 0x00, 0x02],
    [0x00, 0x09, 0x00, 0x06, 0x00, 0x31, 0x00, 0x00, 0x61, 0x63, 0x73, 0x70, 0x4D, 0x53, 0x46, 0x54],
    [0x00, 0x00, 0x00, 0x00, 0x49, 0x45, 0x43, 0x20, 0x73, 0x52, 0x47, 0x42, 0x00, 0x00, 0x00, 0x00],
    [0x00, 0x00, 0x00, 0x00, 0x00, 0x00, 0x00, 0x00, 0x00, 0x00, 0xF6, 0xD6, 0x00, 0x01, 0x00, 0x00],
    [0x00, 0x00, 0xD3, 0x2D, 0x48, 0x50, 0x20, 0x20, 0x00, 0x00, 0x00, 0x00, 0x00, 0x00, 0x00, 0x00],
    [0x00, 0x00, 0x00, 0x00, 0x00, 0x00, 0x00, 0x00, 0x00, 0x00, 0x00, 0x00, 0x00, 0x00, 0x00, 0x00],
    [0x00, 0x00, 0x00, 0x00, 0x00, 0x00, 0x00, 0x00, 0x00, 0x00, 0x00, 0x00, 0x00, 0x00, 0x00, 0x00],
    [0x00, 0x00, 0x00, 0x00, 0x00, 0x00, 0x00, 0x11, 0x63, 0x70, 0x72, 0x74, 0x00, 0x00, 0x01, 0x50],
    [0x00, 0x00, 0x00, 0x33, 0x64, 0x65, 0x73, 0x63, 0x00, 0x00, 0x01, 0x84, 0x00, 0x00, 0x00, 0x6C],
    [0x77, 0x74, 0x70, 0x74, 0x00, 0x00, 0x01, 0xF0, 0x00, 0x00, 0x00, 0x14, 0x62, 0x6B, 0x70, 0x74],
    [0x00, 0x00, 0x02, 0x04, 0x00, 0x00, 0x00, 0x14, 0x72, 0x58, 0x59, 0x5A, 0x00, 0x00, 0x02, 0x18],
    [0x00, 0x00, 0x00, 0x14, 0x67, 0x58, 0x59, 0x5A, 0x00, 0x00, 0x02, 0x2C, 0x00, 0x00, 0x00, 0x14],
    [0x62, 0x58, 0x59, 0x5A, 0x00, 0x00, 0x02, 0x40, 0x00, 0x00, 0x00, 0x14, 0x64, 0x6D, 0x6E, 0x64],
    [0x00, 0x00, 0x02, 0x54, 0x00, 0x00, 0x00, 0x70, 0x64, 0x6D, 0x64, 0x64, 0x00, 0x00, 0x02, 0xC4],
    [0x00, 0x00, 0x00, 0x88, 0x76, 0x75, 0x65, 0x64, 0x00, 0x00, 0x03, 0x4C, 0x00, 0x00, 0x00, 0x86],
    [0x76, 0x69, 0x65, 0x77, 0x00, 0x00, 0x03, 0xD4, 0x00, 0x00, 0x00, 0x24, 0x6C, 0x75, 0x6D, 0x69],
    [0x00, 0x00, 0x03, 0xF8, 0x00, 0x00, 0x00, 0x14, 0x6D, 0x65, 0x61, 0x73, 0x00, 0x00, 0x04, 0x0C],
    [0x00, 0x00, 0x00, 0x24, 0x74, 0x65, 0x63, 0x68, 0x00, 0x00, 0x04, 0x30, 0x00, 0x00, 0x00, 0x0C],
    [0x72, 0x54, 0x52, 0x43, 0x00, 0x00, 0x04, 0x3C, 0x00, 0x00, 0x08, 0x0C, 0x67, 0x54, 0x52, 0x43],
    [0x00, 0x00, 0x04, 0x3C, 0x00, 0x00, 0x08, 0x0C, 0x62, 0x54, 0x52, 0x43, 0x00, 0x00, 0x04, 0x3C],
    [0x00, 0x00, 0x08, 0x0C, 0x74, 0x65, 0x78, 0x74, 0x00, 0x00, 0x00, 0x00, 0x43, 0x6F, 0x70, 0x79],
    [0x72, 0x69, 0x67, 0x68, 0x74, 0x20, 0x28, 0x63, 0x29, 0x20, 0x31, 0x39, 0x39, 0x38, 0x20, 0x48],
    [0x65, 0x77, 0x6C, 0x65, 0x74, 0x74, 0x2D, 0x50, 0x61, 0x63, 0x6B, 0x61, 0x72, 0x64, 0x20, 0x43],
    [0x6F, 0x6D, 0x70, 0x61, 0x6E, 0x79, 0x00, 0x00, 0x64, 0x65, 0x73, 0x63, 0x00, 0x00, 0x00, 0x00],
    [0x00, 0x00, 0x00, 0x12, 0x73, 0x52, 0x47, 0x42, 0x20, 0x49, 0x45, 0x43, 0x36, 0x31, 0x39, 0x36],
    [0x36, 0x2D, 0x32, 0x2E, 0x31, 0x00, 0x00, 0x00, 0x00, 0x00, 0x00, 0x00, 0x00, 0x00, 0x00, 0x00],
    [0x12, 0x73, 0x52, 0x47, 0x42, 0x20, 0x49, 0x45, 0x43, 0x36, 0x31, 0x39, 0x36, 0x36, 0x2D, 0x32],
    [0x2E, 0x31, 0x00, 0x00, 0x00, 0x00, 0x00, 0x00, 0x00, 0x00, 0x00, 0x00, 0x00, 0x00, 0x00, 0x00],
    [0x00, 0x00, 0x00, 0x00, 0x00, 0x00, 0x00, 0x00, 0x00, 0x00, 0x00, 0x00, 0x00, 0x00, 0x00, 0x00],
    [0x00, 0x00, 0x00, 0x00, 0x00, 0x00, 0x00, 0x00, 0x00, 0x00, 0x00, 0x00, 0x00, 0x00, 0x00, 0x00],
    [0x00, 0x00, 0x00, 0x00, 0x58, 0x59, 0x5A, 0x20, 0x00, 0x00, 0x00, 0x00, 0x00, 0x00, 0xF3, 0x51],
    [0x00, 0x01, 0x00, 0x00, 0x00, 0x01, 0x16, 0xCC, 0x58, 0x59, 0x5A, 0x20, 0x00, 0x00, 0x00, 0x00],
    [0x00, 0x00, 0x00, 0x00, 0x00, 0x00, 0x00, 0x00, 0x00, 0x00, 0x00, 0x00, 0x58, 0x59, 0x5A, 0x20],
    [0x00, 0x00, 0x00, 0x00, 0x00, 0x00, 0x6F, 0xA2, 0x00, 0x00, 0x38, 0xF5, 0x00, 0x00, 0x03, 0x90],
    [0x58, 0x59, 0x5A, 0x20, 0x00, 0x00, 0x00, 0x00, 0x00, 0x00, 0x62, 0x99, 0x00, 0x00, 0xB7, 0x85],
    [0x00, 0x00, 0x18, 0xDA, 0x58, 0x59, 0x5A, 0x20, 0x00, 0x00, 0x00, 0x00, 0x00, 0x00, 0x24, 0xA0],
    [0x00, 0x00, 0x0F, 0x84, 0x00, 0x00, 0xB6, 0xCF, 0x64, 0x65, 0x73, 0x63, 0x00, 0x00, 0x00, 0x00],
    [0x00, 0x00, 0x00, 0x16, 0x49, 0x45, 0x43, 0x20, 0x68, 0x74, 0x74, 0x70, 0x3A, 0x2F, 0x2F, 0x77],
    [0x77, 0x77, 0x2E, 0x69, 0x65, 0x63, 0x2E, 0x63, 0x68, 0x00, 0x00, 0x00, 0x00, 0x00, 0x00, 0x00],
    [0x00, 0x00, 0x00, 0x00, 0x16, 0x49, 0x45, 0x43, 0x20, 0x68, 0x74, 0x74, 0x70, 0x3A, 0x2F, 0x2F],
    [0x77, 0x77, 0x77, 0x2E, 0x69, 0x65, 0x63, 0x2E, 0x63, 0x68, 0x00, 0x00, 0x00, 0x00, 0x00, 0x00],
    [0x00, 0x00, 0x00, 0x00, 0x00, 0x00, 0x00, 0x00, 0x00, 0x00, 0x00, 0x00, 0x00, 0x00, 0x00, 0x00],
    [0x00, 0x00, 0x00, 0x00, 0x00, 0x00, 0x00, 0x00, 0x00, 0x00, 0x00, 0x00, 0x00, 0x00, 0x00, 0x00],
    [0x00, 0x00, 0x00, 0x00, 0x00, 0x00, 0x00, 0x00, 0x64, 0x65, 0x73, 0x63, 0x00, 0x00, 0x00, 0x00],
    [0x00, 0x00, 0x00, 0x2E, 0x49, 0x45, 0x43, 0x20, 0x36, 0x31, 0x39, 0x36, 0x36, 0x2D, 0x32, 0x2E],
    [0x31, 0x20, 0x44, 0x65, 0x66, 0x61, 0x75, 0x6C, 0x74, 0x20, 0x52, 0x47, 0x42, 0x20, 0x63, 0x6F],
    [0x6C, 0x6F, 0x75, 0x72, 0x20, 0x73, 0x70, 0x61, 0x63, 0x65, 0x20, 0x2D, 0x20, 0x73, 0x52, 0x47],
    [0x42, 0x00, 0x00, 0x00, 0x00, 0x00, 0x00, 0x00, 0x00, 0x00, 0x00, 0x00, 0x2E, 0x49, 0x45, 0x43],
    [0x20, 0x36, 0x31, 0x39, 0x36, 0x36, 0x2D, 0x32, 0x2E, 0x31, 0x20, 0x44, 0x65, 0x66, 0x61, 0x75],
    [0x6C, 0x74, 0x20, 0x52, 0x47, 0x42, 0x20, 0x63, 0x6F, 0x6C, 0x6F, 0x75, 0x72, 0x20, 0x73, 0x70],
    [0x61, 0x63, 0x65, 0x20, 0x2D, 0x20, 0x73, 0x52, 0x47, 0x42, 0x00, 0x00, 0x00, 0x00, 0x00, 0x00],
    [0x00, 0x00, 0x00, 0x00, 0x00, 0x00, 0x00, 0x00, 0x00, 0x00, 0x00, 0x00, 0x00, 0x00, 0x00, 0x00],
    [0x64, 0x65, 0x73, 0x63, 0x00, 0x00, 0x00, 0x00, 0x00, 0x00, 0x00, 0x2C, 0x52, 0x65, 0x66, 0x65],
    [0x72, 0x65, 0x6E, 0x63, 0x65, 0x20, 0x56, 0x69, 0x65, 0x77, 0x69, 0x6E, 0x67, 0x20, 0x43, 0x6F],
    [0x6E, 0x64, 0x69, 0x74, 0x69, 0x6F, 0x6E, 0x20, 0x69, 0x6E, 0x20, 0x49, 0x45, 0x43, 0x36, 0x31],
    [0x39, 0x36, 0x36, 0x2D, 0x32, 0x2E, 0x31, 0x00, 0x00, 0x00, 0x00, 0x00, 0x00, 0x00, 0x00, 0x00],
    [0x00, 0x00, 0x2C, 0x52, 0x65, 0x66, 0x65, 0x72, 0x65, 0x6E, 0x63, 0x65, 0x20, 0x56, 0x69, 0x65],
    [0x77, 0x69, 0x6E, 0x67, 0x20, 0x43, 0x6F, 0x6E, 0x64, 0x69, 0x74, 0x69, 0x6F, 0x6E, 0x20, 0x69],
    [0x6E, 0x20, 0x49, 0x45, 0x43, 0x36, 0x31, 0x39, 0x36, 0x36, 0x2D, 0x32, 0x2E, 0x31, 0x00, 0x00],
    [0x00, 0x00, 0x00, 0x00, 0x00, 0x00, 0x00, 0x00, 0x00, 0x00, 0x00, 0x00, 0x00, 0x00, 0x00, 0x00],
    [0x00, 0x00, 0x00, 0x00, 0x00, 0x00, 0x00, 0x00, 0x76, 0x69, 0x65, 0x77, 0x00, 0x00, 0x00, 0x00],
    [0x00, 0x13, 0xA4, 0xFE, 0x00, 0x14, 0x5F, 0x2E, 0x00, 0x10, 0xCF, 0x14, 0x00, 0x03, 0xED, 0xCC],
    [0x00, 0x04, 0x13, 0x0B, 0x00, 0x03, 0x5C, 0x9E, 0x00, 0x00, 0x00, 0x01, 0x58, 0x59, 0x5A, 0x20],
    [0x00, 0x00, 0x00, 0x00, 0x00, 0x4C, 0x09, 0x56, 0x00, 0x50, 0x00, 0x00, 0x00, 0x57, 0x1F, 0xE7],
    [0x6D, 0x65, 0x61, 0x73, 0x00, 0x00, 0x00, 0x00, 0x00, 0x00, 0x00, 0x01, 0x00, 0x00, 0x00, 0x00],
    [0x00, 0x00, 0x00, 0x00, 0x00, 0x00, 0x00, 0x00, 0x00, 0x00, 0x00, 0x00, 0x00, 0x00, 0x02, 0x8F],
    [0x00, 0x00, 0x00, 0x02, 0x73, 0x69, 0x67, 0x20, 0x00, 0x00, 0x00, 0x00, 0x43, 0x52, 0x54, 0x20],
    [0x63, 0x75, 0x72, 0x76, 0x00, 0x00, 0x00, 0x00, 0x00, 0x00, 0x04, 0x00, 0x00, 0x00, 0x00, 0x05],
    [0x00, 0x0A, 0x00, 0x0F, 0x00, 0x14, 0x00, 0x19, 0x00, 0x1E, 0x00, 0x23, 0x00, 0x28, 0x00, 0x2D],
    [0x00, 0x32, 0x00, 0x37, 0x00, 0x3B, 0x00, 0x40, 0x00, 0x45, 0x00, 0x4A, 0x00, 0x4F, 0x00, 0x54],
    [0x00, 0x59, 0x00, 0x5E, 0x00, 0x63, 0x00, 0x68, 0x00, 0x6D, 0x00, 0x72, 0x00, 0x77, 0x00, 0x7C],
    [0x00, 0x81, 0x00, 0x86, 0x00, 0x8B, 0x00, 0x90, 0x00, 0x95, 0x00, 0x9A, 0x00, 0x9F, 0x00, 0xA4],
    [0x00, 0xA9, 0x00, 0xAE, 0x00, 0xB2, 0x00, 0xB7, 0x00, 0xBC, 0x00, 0xC1, 0x00, 0xC6, 0x00, 0xCB],
    [0x00, 0xD0, 0x00, 0xD5, 0x00, 0xDB, 0x00, 0xE0, 0x00, 0xE5, 0x00, 0xEB, 0x00, 0xF0, 0x00, 0xF6],
    [0x00, 0xFB, 0x01, 0x01, 0x01, 0x07, 0x01, 0x0D, 0x01, 0x13, 0x01, 0x19, 0x01, 0x1F, 0x01, 0x25],
    [0x01, 0x2B, 0x01, 0x32, 0x01, 0x38, 0x01, 0x3E, 0x01, 0x45, 0x01, 0x4C, 0x01, 0x52, 0x01, 0x59],
    [0x01, 0x60, 0x01, 0x67, 0x01, 0x6E, 0x01, 0x75, 0x01, 0x7C, 0x01, 0x83, 0x01, 0x8B, 0x01, 0x92],
    [0x01, 0x9A, 0x01, 0xA1, 0x01, 0xA9, 0x01, 0xB1, 0x01, 0xB9, 0x01, 0xC1, 0x01, 0xC9, 0x01, 0xD1],
    [0x01, 0xD9, 0x01, 0xE1, 0x01, 0xE9, 0x01, 0xF2, 0x01, 0xFA, 0x02, 0x03, 0x02, 0x0C, 0x02, 0x14],
    [0x02, 0x1D, 0x02, 0x26, 0x02, 0x2F, 0x02, 0x38, 0x02, 0x41, 0x02, 0x4B, 0x02, 0x54, 0x02, 0x5D],
    [0x02, 0x67, 0x02, 0x71, 0x02, 0x7A, 0x02, 0x84, 0x02, 0x8E, 0x02, 0x98, 0x02, 0xA2, 0x02, 0xAC],
    [0x02, 0xB6, 0x02, 0xC1, 0x02, 0xCB, 0x02, 0xD5, 0x02, 0xE0, 0x02, 0xEB, 0x02, 0xF5, 0x03, 0x00],
    [0x03, 0x0B, 0x03, 0x16, 0x03, 0x21, 0x03, 0x2D, 0x03, 0x38, 0x03, 0x43, 0x03, 0x4F, 0x03, 0x5A],
    [0x03, 0x66, 0x03, 0x72, 0x03, 0x7E, 0x03, 0x8A, 0x03, 0x96, 0x03, 0xA2, 0x03, 0xAE, 0x03, 0xBA],
    [0x03, 0xC7, 0x03, 0xD3, 0x03, 0xE0, 0x03, 0xEC, 0x03, 0xF9, 0x04, 0x06, 0x04, 0x13, 0x04, 0x20],
    [0x04, 0x2D, 0x04, 0x3B, 0x04, 0x48, 0x04, 0x55, 0x04, 0x63, 0x04, 0x71, 0x04, 0x7E, 0x04, 0x8C],
    [0x04, 0x9A, 0x04, 0xA8, 0x04, 0xB6, 0x04, 0xC4, 0x04, 0xD3, 0x04, 0xE1, 0x04, 0xF0, 0x04, 0xFE],
    [0x05, 0x0D, 0x05, 0x1C, 0x05, 0x2B, 0x05, 0x3A, 0x05, 0x49, 0x05, 0x58, 0x05, 0x67, 0x05, 0x77],
    [0x05, 0x86, 0x05, 0x96, 0x05, 0xA6, 0x05, 0xB5, 0x05, 0xC5, 0x05, 0xD5, 0x05, 0xE5, 0x05, 0xF6],
    [0x06, 0x06, 0x06, 0x16, 0x06, 0x27, 0x06, 0x37, 0x06, 0x48, 0x06, 0x59, 0x06, 0x6A, 0x06, 0x7B],
    [0x06, 0x8C, 0x06, 0x9D, 0x06, 0xAF, 0x06, 0xC0, 0x06, 0xD1, 0x06, 0xE3, 0x06, 0xF5, 0x07, 0x07],
    [0x07, 0x19, 0x07, 0x2B, 0x07, 0x3D, 0x07, 0x4F, 0x07, 0x61, 0x07, 0x74, 0x07, 0x86, 0x07, 0x99],
    [0x07, 0xAC, 0x07, 0xBF, 0x07, 0xD2, 0x07, 0xE5, 0x07, 0xF8, 0x08, 0x0B, 0x08, 0x1F, 0x08, 0x32],
    [0x08, 0x46, 0x08, 0x5A, 0x08, 0x6E, 0x08, 0x82, 0x08, 0x96, 0x08, 0xAA, 0x08, 0xBE, 0x08, 0xD2],
    [0x08, 0xE7, 0x08, 0xFB, 0x09, 0x10, 0x09, 0x25, 0x09, 0x3A, 0x09, 0x4F, 0x09, 0x64, 0x09, 0x79],
    [0x09, 0x8F, 0x09, 0xA4, 0x09, 0xBA, 0x09, 0xCF, 0x09, 0xE5, 0x09, 0xFB, 0x0A, 0x11, 0x0A, 0x27],
    [0x0A, 0x3D, 0x0A, 0x54, 0x0A, 0x6A, 0x0A, 0x81, 0x0A, 0x98, 0x0A, 0xAE, 0x0A, 0xC5, 0x0A, 0xDC],
    [0x0A, 0xF3, 0x0B, 0x0B, 0x0B, 0x22, 0x0B, 0x39, 0x0B, 0x51, 0x0B, 0x69, 0x0B, 0x80, 0x0B, 0x98],
    [0x0B, 0xB0, 0x0B, 0xC8, 0x0B, 0xE1, 0x0B, 0xF9, 0x0C, 0x12, 0x0C, 0x2A, 0x0C, 0x43, 0x0C, 0x5C],
    [0x0C, 0x75, 0x0C, 0x8E, 0x0C, 0xA7, 0x0C, 0xC0, 0x0C, 0xD9, 0x0C, 0xF3, 0x0D, 0x0D, 0x0D, 0x26],
    [0x0D, 0x40, 0x0D, 0x5A, 0x0D, 0x74, 0x0D, 0x8E, 0x0D, 0xA9, 0x0D, 0xC3, 0x0D, 0xDE, 0x0D, 0xF8],
    [0x0E, 0x13, 0x0E, 0x2E, 0x0E, 0x49, 0x0E, 0x64, 0x0E, 0x7F, 0x0E, 0x9B, 0x0E, 0xB6, 0x0E, 0xD2],
    [0x0E, 0xEE, 0x0F, 0x09, 0x0F, 0x25, 0x0F, 0x41, 0x0F, 0x5E, 0x0F, 0x7A, 0x0F, 0x96, 0x0F, 0xB3],
    [0x0F, 0xCF, 0x0F, 0xEC, 0x10, 0x09, 0x10, 0x26, 0x10, 0x43, 0x10, 0x61, 0x10, 0x7E, 0x10, 0x9B],
    [0x10, 0xB9, 0x10, 0xD7, 0x10, 0xF5, 0x11, 0x13, 0x11, 0x31, 0x11, 0x4F, 0x11, 0x6D, 0x11, 0x8C],
    [0x11, 0xAA, 0x11, 0xC9, 0x11, 0xE8, 0x12, 0x07, 0x12, 0x26, 0x12, 0x45, 0x12, 0x64, 0x12, 0x84],
    [0x12, 0xA3, 0x12, 0xC3, 0x12, 0xE3, 0x13, 0x03, 0x13, 0x23, 0x13, 0x43, 0x13, 0x63, 0x13, 0x83],
    [0x13, 0xA4, 0x13, 0xC5, 0x13, 0xE5, 0x14, 0x06, 0x14, 0x27, 0x14, 0x49, 0x14, 0x6A, 0x14, 0x8B],
    [0x14, 0xAD, 0x14, 0xCE, 0x14, 0xF0, 0x15, 0x12, 0x15, 0x34, 0x15, 0x56, 0x15, 0x78, 0x15, 0x9B],
    [0x15, 0xBD, 0x15, 0xE0, 0x16, 0x03, 0x16, 0x26, 0x16, 0x49, 0x16, 0x6C, 0x16, 0x8F, 0x16, 0xB2],
    [0x16, 0xD6, 0x16, 0xFA, 0x17, 0x1D, 0x17, 0x41, 0x17, 0x65, 0x17, 0x89, 0x17, 0xAE, 0x17, 0xD2],
    [0x17, 0xF7, 0x18, 0x1B, 0x18, 0x40, 0x18, 0x65, 0x18, 0x8A, 0x18, 0xAF, 0x18, 0xD5, 0x18, 0xFA],
    [0x19, 0x20, 0x19, 0x45, 0x19, 0x6B, 0x19, 0x91, 0x19, 0xB7, 0x19, 0xDD, 0x1A, 0x04, 0x1A, 0x2A],
    [0x1A, 0x51, 0x1A, 0x77, 0x1A, 0x9E, 0x1A, 0xC5, 0x1A, 0xEC, 0x1B, 0x14, 0x1B, 0x3B, 0x1B, 0x63],
    [0x1B, 0x8A, 0x1B, 0xB2, 0x1B, 0xDA, 0x1C, 0x02, 0x1C, 0x2A, 0x1C, 0x52, 0x1C, 0x7B, 0x1C, 0xA3],
    [0x1C, 0xCC, 0x1C, 0xF5, 0x1D, 0x1E, 0x1D, 0x47, 0x1D, 0x70, 0x1D, 0x99, 0x1D, 0xC3, 0x1D, 0xEC],
    [0x1E, 0x16, 0x1E, 0x40, 0x1E, 0x6A, 0x1E, 0x94, 0x1E, 0xBE, 0x1E, 0xE9, 0x1F, 0x13, 0x1F, 0x3E],
    [0x1F, 0x69, 0x1F, 0x94, 0x1F, 0xBF, 0x1F, 0xEA, 0x20, 0x15, 0x20, 0x41, 0x20, 0x6C, 0x20, 0x98],
    [0x20, 0xC4, 0x20, 0xF0, 0x21, 0x1C, 0x21, 0x48, 0x21, 0x75, 0x21, 0xA1, 0x21, 0xCE, 0x21, 0xFB],
    [0x22, 0x27, 0x22, 0x55, 0x22, 0x82, 0x22, 0xAF, 0x22, 0xDD, 0x23, 0x0A, 0x23, 0x38, 0x23, 0x66],
    [0x23, 0x94, 0x23, 0xC2, 0x23, 0xF0, 0x24, 0x1F, 0x24, 0x4D, 0x24, 0x7C, 0x24, 0xAB, 0x24, 0xDA],
    [0x25, 0x09, 0x25, 0x38, 0x25, 0x68, 0x25, 0x97, 0x25, 0xC7, 0x25, 0xF7, 0x26, 0x27, 0x26, 0x57],
    [0x26, 0x87, 0x26, 0xB7, 0x26, 0xE8, 0x27, 0x18, 0x27, 0x49, 0x27, 0x7A, 0x27, 0xAB, 0x27, 0xDC],
    [0x28, 0x0D, 0x28, 0x3F, 0x28, 0x71, 0x28, 0xA2, 0x28, 0xD4, 0x29, 0x06, 0x29, 0x38, 0x29, 0x6B],
    [0x29, 0x9D, 0x29, 0xD0, 0x2A, 0x02, 0x2A, 0x35, 0x2A, 0x68, 0x2A, 0x9B, 0x2A, 0xCF, 0x2B, 0x02],
    [0x2B, 0x36, 0x2B, 0x69, 0x2B, 0x9D, 0x2B, 0xD1, 0x2C, 0x05, 0x2C, 0x39, 0x2C, 0x6E, 0x2C, 0xA2],
    [0x2C, 0xD7, 0x2D, 0x0C, 0x2D, 0x41, 0x2D, 0x76, 0x2D, 0xAB, 0x2D, 0xE1, 0x2E, 0x16, 0x2E, 0x4C],
    [0x2E, 0x82, 0x2E, 0xB7, 0x2E, 0xEE, 0x2F, 0x24, 0x2F, 0x5A, 0x2F, 0x91, 0x2F, 0xC7, 0x2F, 0xFE],
    [0x30, 0x35, 0x30, 0x6C, 0x30, 0xA4, 0x30, 0xDB, 0x31, 0x12, 0x31, 0x4A, 0x31, 0x82, 0x31, 0xBA],
    [0x31, 0xF2, 0x32, 0x2A, 0x32, 0x63, 0x32, 0x9B, 0x32, 0xD4, 0x33, 0x0D, 0x33, 0x46, 0x33, 0x7F],
    [0x33, 0xB8, 0x33, 0xF1, 0x34, 0x2B, 0x34, 0x65, 0x34, 0x9E, 0x34, 0xD8, 0x35, 0x13, 0x35, 0x4D],
    [0x35, 0x87, 0x35, 0xC2, 0x35, 0xFD, 0x36, 0x37, 0x36, 0x72, 0x36, 0xAE, 0x36, 0xE9, 0x37, 0x24],
    [0x37, 0x60, 0x37, 0x9C, 0x37, 0xD7, 0x38, 0x14, 0x38, 0x50, 0x38, 0x8C, 0x38, 0xC8, 0x39, 0x05],
    [0x39, 0x42, 0x39, 0x7F, 0x39, 0xBC, 0x39, 0xF9, 0x3A, 0x36, 0x3A, 0x74, 0x3A, 0xB2, 0x3A, 0xEF],
    [0x3B, 0x2D, 0x3B, 0x6B, 0x3B, 0xAA, 0x3B, 0xE8, 0x3C, 0x27, 0x3C, 0x65, 0x3C, 0xA4, 0x3C, 0xE3],
    [0x3D, 0x22, 0x3D, 0x61, 0x3D, 0xA1, 0x3D, 0xE0, 0x3E, 0x20, 0x3E, 0x60, 0x3E, 0xA0, 0x3E, 0xE0],
    [0x3F, 0x21, 0x3F, 0x61, 0x3F, 0xA2, 0x3F, 0xE2, 0x40, 0x23, 0x40, 0x64, 0x40, 0xA6, 0x40, 0xE7],
    [0x41, 0x29, 0x41, 0x6A, 0x41, 0xAC, 0x41, 0xEE, 0x42, 0x30, 0x42, 0x72, 0x42, 0xB5, 0x42, 0xF7]]"

text \<open>Lines 145 to 284.\<close>

definition jpg_rows_2 :: "nat list list" where
  "jpg_rows_2 = [
    [0x43, 0x3A, 0x43, 0x7D, 0x43, 0xC0, 0x44, 0x03, 0x44, 0x47, 0x44, 0x8A, 0x44, 0xCE, 0x45, 0x12],
    [0x45, 0x55, 0x45, 0x9A, 0x45, 0xDE, 0x46, 0x22, 0x46, 0x67, 0x46, 0xAB, 0x46, 0xF0, 0x47, 0x35],
    [0x47, 0x7B, 0x47, 0xC0, 0x48, 0x05, 0x48, 0x4B, 0x48, 0x91, 0x48, 0xD7, 0x49, 0x1D, 0x49, 0x63],
    [0x49, 0xA9, 0x49, 0xF0, 0x4A, 0x37, 0x4A, 0x7D, 0x4A, 0xC4, 0x4B, 0x0C, 0x4B, 0x53, 0x4B, 0x9A],
    [0x4B, 0xE2, 0x4C, 0x2A, 0x4C, 0x72, 0x4C, 0xBA, 0x4D, 0x02, 0x4D, 0x4A, 0x4D, 0x93, 0x4D, 0xDC],
    [0x4E, 0x25, 0x4E, 0x6E, 0x4E, 0xB7, 0x4F, 0x00, 0x4F, 0x49, 0x4F, 0x93, 0x4F, 0xDD, 0x50, 0x27],
    [0x50, 0x71, 0x50, 0xBB, 0x51, 0x06, 0x51, 0x50, 0x51, 0x9B, 0x51, 0xE6, 0x52, 0x31, 0x52, 0x7C],
    [0x52, 0xC7, 0x53, 0x13, 0x53, 0x5F, 0x53, 0xAA, 0x53, 0xF6, 0x54, 0x42, 0x54, 0x8F, 0x54, 0xDB],
    [0x55, 0x28, 0x55, 0x75, 0x55, 0xC2, 0x56, 0x0F, 0x56, 0x5C, 0x56, 0xA9, 0x56, 0xF7, 0x57, 0x44],
    [0x57, 0x92, 0x57, 0xE0, 0x58, 0x2F, 0x58, 0x7D, 0x58, 0xCB, 0x59, 0x1A, 0x59, 0x69, 0x59, 0xB8],
    [0x5A, 0x07, 0x5A, 0x56, 0x5A, 0xA6, 0x5A, 0xF5, 0x5B, 0x45, 0x5B, 0x95, 0x5B, 0xE5, 0x5C, 0x35],
    [0x5C, 0x86, 0x5C, 0xD6, 0x5D, 0x27, 0x5D, 0x78, 0x5D, 0xC9, 0x5E, 0x1A, 0x5E, 0x6C, 0x5E, 0xBD],
    [0x5F, 0x0F, 0x5F, 0x61, 0x5F, 0xB3, 0x60, 0x05, 0x60, 0x57, 0x60, 0xAA, 0x60, 0xFC, 0x61, 0x4F],
    [0x61, 0xA2, 0x61, 0xF5, 0x62, 0x49, 0x62, 0x9C, 0x62, 0xF0, 0x63, 0x43, 0x63, 0x97, 0x63, 0xEB],
    [0x64, 0x40, 0x64, 0x94, 0x64, 0xE9, 0x65, 0x3D, 0x65, 0x92, 0x65, 0xE7, 0x66, 0x3D, 0x66, 0x92],
    [0x66, 0xE8, 0x67, 0x3D, 0x67, 0x93, 0x67, 0xE9, 0x68, 0x3F, 0x68, 0x96, 0x68, 0xEC, 0x69, 0x43],
    [0x69, 0x9A, 0x69, 0xF1, 0x6A, 0x48, 0x6A, 0x9F, 0x6A, 0xF7, 0x6B, 0x4F, 0x6B, 0xA7, 0x6B, 0xFF],
    [0x6C, 0x57, 0x6C, 0xAF, 0x6D, 0x08, 0x6D, 0x60, 0x6D, 0xB9, 0x6E, 0x12, 0x6E, 0x6B, 0x6E, 0xC4],
    [0x6F, 0x1E, 0x6F, 0x78, 0x6F, 0xD1, 0x70, 0x2B, 0x70, 0x86, 0x70, 0xE0, 0x71, 0x3A, 0x71, 0x95],
    [0x71, 0xF0, 0x72, 0x4B, 0x72, 0xA6, 0x73, 0x01, 0x73, 0x5D, 0x73, 0xB8, 0x74, 0x14, 0x74, 0x70],
    [0x74, 0xCC, 0x75, 0x28, 0x75, 0x85, 0x75, 0xE1, 0x76, 0x3E, 0x76, 0x9B, 0x76, 0xF8, 0x77, 0x56],
    [0x77, 0xB3, 0x78, 0x11, 0x78, 0x6E, 0x78, 0xCC, 0x79, 0x2A, 0x79, 0x89, 0x79, 0xE7, 0x7A, 0x46],
    [0x7A, 0xA5, 0x7B, 0x04, 0x7B, 0x63, 0x7B, 0xC2, 0x7C, 0x21, 0x7C, 0x81, 0x7C, 0xE1, 0x7D, 0x41],
    [0x7D, 0xA1, 0x7E, 0x01, 0x7E, 0x62, 0x7E, 0xC2, 0x7F, 0x23, 0x7F, 0x84, 0x7F, 0xE5, 0x80, 0x47],
    [0x80, 0xA8, 0x81, 0x0A, 0x81, 0x6B, 0x81, 0xCD, 0x82, 0x30, 0x82, 0x92, 0x82, 0xF4, 0x83, 0x57],
    [0x83, 0xBA, 0x84, 0x1D, 0x84, 0x80, 0x84, 0xE3, 0x85, 0x47, 0x85, 0xAB, 0x86, 0x0E, 0x86, 0x72],
    [0x86, 0xD7, 0x87, 0x3B, 0x87, 0x9F, 0x88, 0x04, 0x88, 0x69, 0x88, 0xCE, 0x89, 0x33, 0x89, 0x99],
    [0x89, 0xFE, 0x8A, 0x64, 0x8A, 0xCA, 0x8B, 0x30, 0x8B, 0x96, 0x8B, 0xFC, 0x8C, 0x63, 0x8C, 0xCA],
    [0x8D, 0x31, 0x8D, 0x98, 0x8D, 0xFF, 0x8E, 0x66, 0x8E, 0xCE, 0x8F, 0x36, 0x8F, 0x9E, 0x90, 0x06],
    [0x90, 0x6E, 0x90, 0xD6, 0x91, 0x3F, 0x91, 0xA8, 0x92, 0x11, 0x92, 0x7A, 0x92, 0xE3, 0x93, 0x4D],
    [0x93, 0xB6, 0x94, 0x20, 0x94, 0x8A, 0x94, 0xF4, 0x95, 0x5F, 0x95, 0xC9, 0x96, 0x34, 0x96, 0x9F],
    [0x97, 0x0A, 0x97, 0x75, 0x97, 0xE0, 0x98, 0x4C, 0x98, 0xB8, 0x99, 0x24, 0x99, 0x90, 0x99, 0xFC],
    [0x9A, 0x68, 0x9A, 0xD5, 0x9B, 0x42, 0x9B, 0xAF, 0x9C, 0x1C, 0x9C, 0x89, 0x9C, 0xF7, 0x9D, 0x64],
    [0x9D, 0xD2, 0x9E, 0x40, 0x9E, 0xAE, 0x9F, 0x1D, 0x9F, 0x8B, 0x9F, 0xFA, 0xA0, 0x69, 0xA0, 0xD8],
    [0xA1, 0x47, 0xA1, 0xB6, 0xA2, 0x26, 0xA2, 0x96, 0xA3, 0x06, 0xA3, 0x76, 0xA3, 0xE6, 0xA4, 0x56],
    [0xA4, 0xC7, 0xA5, 0x38, 0xA5, 0xA9, 0xA6, 0x1A, 0xA6, 0x8B, 0xA6, 0xFD, 0xA7, 0x6E, 0xA7, 0xE0],
    [0xA8, 0x52, 0xA8, 0xC4, 0xA9, 0x37, 0xA9, 0xA9, 0xAA, 0x1C, 0xAA, 0x8F, 0xAB, 0x02, 0xAB, 0x75],
    [0xAB, 0xE9, 0xAC, 0x5C, 0xAC, 0xD0, 0xAD, 0x44, 0xAD, 0xB8, 0xAE, 0x2D, 0xAE, 0xA1, 0xAF, 0x16],
    [0xAF, 0x8B, 0xB0, 0x00, 0xB0, 0x75, 0xB0, 0xEA, 0xB1, 0x60, 0xB1, 0xD6, 0xB2, 0x4B, 0xB2, 0xC2],
    [0xB3, 0x38, 0xB3, 0xAE, 0xB4, 0x25, 0xB4, 0x9C, 0xB5, 0x13, 0xB5, 0x8A, 0xB6, 0x01, 0xB6, 0x79],
    [0xB6, 0xF0, 0xB7, 0x68, 0xB7, 0xE0, 0xB8, 0x59, 0xB8, 0xD1, 0xB9, 0x4A, 0xB9, 0xC2, 0xBA, 0x3B],
    [0xBA, 0xB5, 0xBB, 0x2E, 0xBB, 0xA7, 0xBC, 0x21, 0xBC, 0x9B, 0xBD, 0x15, 0xBD, 0x8F, 0xBE, 0x0A],
    [0xBE, 0x84, 0xBE, 0xFF, 0xBF, 0x7A, 0xBF, 0xF5, 0xC0, 0x70, 0xC0, 0xEC, 0xC1, 0x67, 0xC1, 0xE3],
    [0xC2, 0x5F, 0xC2, 0xDB, 0xC3, 0x58, 0xC3, 0xD4, 0xC4, 0x51, 0xC4, 0xCE, 0xC5, 0x4B, 0xC5, 0xC8],
    [0xC6, 0x46, 0xC6, 0xC3, 0xC7, 0x41, 0xC7, 0xBF, 0xC8, 0x3D, 0xC8, 0xBC, 0xC9, 0x3A, 0xC9, 0xB9],
    [0xCA, 0x38, 0xCA, 0xB7, 0xCB, 0x36, 0xCB, 0xB6, 0xCC, 0x35, 0xCC, 0xB5, 0xCD, 0x35, 0xCD, 0xB5],
    [0xCE, 0x36, 0xCE, 0xB6, 0xCF, 0x37, 0xCF, 0xB8, 0xD0, 0x39, 0xD0, 0xBA, 0xD1, 0x3C, 0xD1, 0xBE],
    [0xD2, 0x3F, 0xD2, 0xC1, 0xD3, 0x44, 0xD3, 0xC6, 0xD4, 0x49, 0xD4, 0xCB, 0xD5, 0x4E, 0xD5, 0xD1],
    [0xD6, 0x55, 0xD6, 0xD8, 0xD7, 0x5C, 0xD7, 0xE0, 0xD8, 0x64, 0xD8, 0xE8, 0xD9, 0x6C, 0xD9, 0xF1],
    [0xDA, 0x76, 0xDA, 0xFB, 0xDB, 0x80, 0xDC, 0x05, 0xDC, 0x8A, 0xDD, 0x10, 0xDD, 0x96, 0xDE, 0x1C],
    [0xDE, 0xA2, 0xDF, 0x29, 0xDF, 0xAF, 0xE0, 0x36, 0xE0, 0xBD, 0xE1, 0x44, 0xE1, 0xCC, 0xE2, 0x53],
    [0xE2, 0xDB, 0xE3, 0x63, 0xE3, 0xEB, 0xE4, 0x73, 0xE4, 0xFC, 0xE5, 0x84, 0xE6, 0x0D, 0xE6, 0x96],
    [0xE7, 0x1F, 0xE7, 0xA9, 0xE8, 0x32, 0xE8, 0xBC, 0xE9, 0x46, 0xE9, 0xD0, 0xEA, 0x5B, 0xEA, 0xE5],
    [0xEB, 0x70, 0xEB, 0xFB, 0xEC, 0x86, 0xED, 0x11, 0xED, 0x9C, 0xEE, 0x28, 0xEE, 0xB4, 0xEF, 0x40],
    [0xEF, 0xCC, 0xF0, 0x58, 0xF0, 0xE5, 0xF1, 0x72, 0xF1, 0xFF, 0xF2, 0x8C, 0xF3, 0x19, 0xF3, 0xA7],
    [0xF4, 0x34, 0xF4, 0xC2, 0xF5, 0x50, 0xF5, 0xDE, 0xF6, 0x6D, 0xF6, 0xFB, 0xF7, 0x8A, 0xF8, 0x19],
    [0xF8, 0xA8, 0xF9, 0x38, 0xF9, 0xC7, 0xFA, 0x57, 0xFA, 0xE7, 0xFB, 0x77, 0xFC, 0x07, 0xFC, 0x98],
    [0xFD, 0x29, 0xFD, 0xBA, 0xFE, 0x4B, 0xFE, 0xDC, 0xFF, 0x6D, 0xFF, 0xFF, 0xFF, 0xEE, 0x00, 0x21],
    [0x41, 0x64, 0x6F, 0x62, 0x65, 0x00, 0x64, 0x80, 0x00, 0x00, 0x00, 0x01, 0x03, 0x00, 0x10, 0x03],
    [0x02, 0x03, 0x06, 0x00, 0x00, 0x00, 0x00, 0x00, 0x00, 0x00, 0x00, 0x00, 0x00, 0x00, 0x00, 0xFF],
    [0xDB, 0x00, 0x84, 0x00, 0x0C, 0x08, 0x08, 0x08, 0x09, 0x08, 0x0C, 0x09, 0x09, 0x0C, 0x11, 0x0B],
    [0x0A, 0x0B, 0x11, 0x15, 0x0F, 0x0C, 0x0C, 0x0F, 0x15, 0x18, 0x13, 0x13, 0x15, 0x13, 0x13, 0x18],
    [0x11, 0x0C, 0x0C, 0x0C, 0x0C, 0x0C, 0x0C, 0x11, 0x0C, 0x0C, 0x0C, 0x0C, 0x0C, 0x0C, 0x0C, 0x0C],
    [0x0C, 0x0C, 0x0C, 0x0C, 0x0C, 0x0C, 0x0C, 0x0C, 0x0C, 0x0C, 0x0C, 0x0C, 0x0C, 0x0C, 0x0C, 0x0C],
    [0x0C, 0x0C, 0x0C, 0x0C, 0x01, 0x0D, 0x0B, 0x0B, 0x0D, 0x0E, 0x0D, 0x10, 0x0E, 0x0E, 0x10, 0x14],
    [0x0E, 0x0E, 0x0E, 0x14, 0x14, 0x0E, 0x0E, 0x0E, 0x0E, 0x14, 0x11, 0x0C, 0x0C, 0x0C, 0x0C, 0x0C],
    [0x11, 0x11, 0x0C, 0x0C, 0x0C, 0x0C, 0x0C, 0x0C, 0x11, 0x0C, 0x0C, 0x0C, 0x0C, 0x0C, 0x0C, 0x0C],
    [0x0C, 0x0C, 0x0C, 0x0C, 0x0C, 0x0C, 0x0C, 0x0C, 0x0C, 0x0C, 0x0C, 0x0C, 0x0C, 0x0C, 0x0C, 0x0C],
    [0x0C, 0x0C, 0x0C, 0x0C, 0x0C, 0xFF, 0xC2, 0x00, 0x11, 0x08, 0x00, 0xB0, 0x01, 0x29, 0x03, 0x01],
    [0x22, 0x00, 0x02, 0x11, 0x01, 0x03, 0x11, 0x01, 0xFF, 0xC4, 0x00, 0xDD, 0x00, 0x01, 0x00, 0x02],
    [0x03, 0x01, 0x01, 0x00, 0x00, 0x00, 0x00, 0x00, 0x00, 0x00, 0x00, 0x00, 0x00, 0x00, 0x04, 0x05],
    [0x01, 0x03, 0x06, 0x02, 0x07, 0x01, 0x01, 0x00, 0x03, 0x01, 0x01, 0x01, 0x00, 0x00, 0x00, 0x00],
    [0x00, 0x00, 0x00, 0x00, 0x00, 0x00, 0x00, 0x04, 0x05, 0x06, 0x03, 0x02, 0x01, 0x10, 0x00, 0x02],
    [0x02, 0x02, 0x01, 0x04, 0x01, 0x03, 0x05, 0x01, 0x01, 0x00, 0x00, 0x00, 0x00, 0x00, 0x01, 0x03],
    [0x02, 0x04, 0x00, 0x05, 0x11, 0x10, 0x20, 0x12, 0x06, 0x13, 0x30, 0x50, 0x21, 0x40, 0x22, 0x14],
    [0x15, 0x07, 0x60, 0x34, 0x11, 0x00, 0x02, 0x01, 0x01, 0x04, 0x04, 0x08, 0x0A, 0x07, 0x06, 0x05],
    [0x05, 0x00, 0x00, 0x00, 0x00, 0x01, 0x02, 0x03, 0x00, 0x11, 0x21, 0x31, 0x04, 0x10, 0x12, 0x22],
    [0x13, 0x30, 0x41, 0x51, 0x32, 0x42, 0x52, 0x23, 0x05, 0x20, 0x71, 0x91, 0x62, 0x72, 0x82, 0x92],
    [0xA2, 0x43, 0x63, 0x61, 0xA1, 0xD2, 0x33, 0x53, 0x83, 0x14, 0x81, 0xB1, 0xB2, 0xE2, 0x73, 0xA3],
    [0x40, 0x70, 0xC2, 0x24, 0x06, 0xC1, 0xE1, 0x93, 0x44, 0x15, 0x12, 0x00, 0x02, 0x00, 0x03, 0x02],
    [0x08, 0x0A, 0x07, 0x07, 0x05, 0x00, 0x00, 0x00, 0x00, 0x00, 0x00, 0x01, 0x02, 0x00, 0x11, 0x03],
    [0x21, 0x12, 0x20, 0x31, 0x41, 0x51, 0x22, 0x32, 0x42, 0x52, 0x10, 0x61, 0x62, 0x72, 0x82, 0x92],
    [0xA2, 0xD2, 0x13, 0x04, 0x50, 0x71, 0x81, 0x91, 0xB2, 0xC2, 0x23, 0x30, 0xA1, 0xC1, 0xD1, 0xE2],
    [0x43, 0x53, 0xE1, 0x33, 0x63, 0xA3, 0xB3, 0xFF, 0xDA, 0x00, 0x0C, 0x03, 0x01, 0x01, 0x02, 0x11],
    [0x03, 0x11, 0x00, 0x00, 0x00, 0xE0, 0x40, 0x06, 0x70, 0x00, 0x65, 0x81, 0x9C, 0x00, 0x00, 0x01],
    [0x96, 0x06, 0x70, 0x00, 0x01, 0x9C, 0x00, 0x00, 0x00, 0x03, 0x38, 0x00, 0x00, 0x00, 0x00, 0x00],
    [0x00, 0x00, 0x00, 0x00, 0x00, 0x00, 0x00, 0x00, 0x00, 0x00, 0x00, 0x00, 0x36, 0x7C, 0xFB, 0xAD],
    [0x2F, 0x3C, 0xE7, 0x43, 0x4A, 0xD1, 0xEF, 0x8F, 0x81, 0xEA, 0x30, 0xF4, 0x79, 0x5A, 0xDF, 0x9C],
    [0x58, 0x00, 0x00, 0x02, 0x47, 0xBE, 0x73, 0x22, 0x25, 0x6A, 0xF5, 0xE7, 0x50, 0xF5, 0x14, 0x00],
    [0x00, 0x00, 0x07, 0xBC, 0x7D, 0x2E, 0x17, 0x5E, 0x7E, 0xC2, 0xEA, 0xBB, 0x3F, 0xA2, 0xA2, 0x83],
    [0x75, 0x55, 0x63, 0x75, 0x8F, 0x7E, 0x3D, 0xDE, 0xF6, 0x89, 0x55, 0xD2, 0xEA, 0x9F, 0x47, 0xCE],
    [0xF5, 0xB5, 0xB6, 0x35, 0xF9, 0x5F, 0xA7, 0x42, 0xE6, 0x8F, 0x9F, 0x3A, 0xF0, 0x00, 0x0E, 0xA7],
    [0x8F, 0xAA, 0xFE, 0x8B, 0xA1, 0xAE, 0xCD, 0xDF, 0xD2, 0x55, 0xDF, 0x55, 0xCA, 0xBE, 0x8D, 0xB7],
    [0x5F, 0xAB, 0xC9, 0x3A, 0xEA, 0x6F, 0xFD, 0x59, 0xD4, 0xF3, 0x09, 0x11, 0xE1, 0x64, 0x03, 0xCF],
    [0x80, 0x00, 0x03, 0xB8, 0xED, 0xA2, 0xED, 0xC2, 0x75, 0x85, 0xCB, 0x5B, 0x7C, 0xDA, 0xE2, 0x44],
    [0x88, 0xE6, 0x8A, 0x1E, 0xCB, 0x2A, 0x97, 0x49, 0x5D, 0x34, 0xAA, 0x8B, 0xFB, 0xFD, 0x54, 0x9A],
    [0x1E, 0xBF, 0x8D, 0xA7, 0xCA, 0xFA, 0xE7, 0x32, 0x8B, 0x10, 0x00, 0x2C, 0x3E, 0xC1, 0xC6, 0x75],
    [0xF9, 0x0F, 0x71, 0x69, 0x6E, 0x7E, 0x59, 0xEA, 0x5E, 0xEA, 0xCC, 0x35, 0x51, 0x3D, 0xCD, 0xAF],
    [0x75, 0xEB, 0xD2, 0x6E, 0xA4, 0xB8, 0xBD, 0xD6, 0x63, 0x99, 0xEA, 0x28, 0xB9, 0xD5, 0xC4, 0x14],
    [0x99, 0xF0, 0x00, 0x4C, 0x87, 0x37, 0x9F, 0x8F, 0xAA, 0xE9, 0x87, 0xAF, 0x15, 0x45, 0xC7, 0xD1],
    [0xD9, 0x56, 0xEC, 0x6F, 0x9B, 0xF5, 0x5E, 0x48, 0xF5, 0x42, 0xCE, 0x09, 0x36, 0x94, 0xF6, 0x37],
    [0xF6, 0xB2, 0x69, 0xAC, 0x2B, 0xFB, 0x7D, 0xD2, 0x33, 0x55, 0x20, 0x01, 0xF4, 0xEB, 0x1A, 0x59],
    [0x38, 0xAA, 0x1A, 0xDE, 0x0F, 0xAC, 0xE4, 0xF4, 0x97, 0x0D, 0xBA, 0xAE, 0xEC, 0x7B, 0x52, 0x37],
    [0xE8, 0x17, 0xB4, 0x56, 0xB6, 0xD3, 0xE5, 0x41, 0xD9, 0xA2, 0xE2, 0x6C, 0x11, 0x91, 0xA3, 0x18],
    [0x32, 0x06, 0xCD, 0x6F, 0x9F, 0x3E, 0x93, 0x1E, 0x24, 0xFC, 0x9E, 0x1F, 0x97, 0xA2, 0xEF, 0x38],
    [0xFB, 0xED, 0x14, 0x31, 0x3E, 0xDC, 0x6D, 0xFB, 0xF3, 0x66, 0xD9, 0x15, 0xFB, 0x0F, 0x5B, 0xE2],
    [0x7A, 0xD7, 0x03, 0xA0, 0x67, 0x79, 0x00, 0x07, 0x6B, 0x3F, 0x9A, 0xEA, 0x33, 0x18, 0xEA, 0x8E],
    [0x3F, 0xE8, 0x1C, 0xCD, 0x8D, 0x95, 0x28, 0xB6, 0xBF, 0x03, 0xD4, 0xFF, 0x00, 0x51, 0xB4, 0xCF],
    [0x7A, 0x31, 0xAF, 0xBF, 0x7C, 0x0C, 0x97, 0x00, 0x00, 0x02, 0x77, 0x75, 0xF3, 0x7B, 0x7A, 0xDA],
    [0x7E, 0xC3, 0xCC, 0x8F, 0x6C, 0xBF, 0x37, 0x0F, 0xB0, 0x5E, 0xCE, 0xE4, 0x77, 0xDD, 0x40, 0xB7],
    [0xEB, 0x51, 0x5D, 0x71, 0x47, 0x61, 0x6F, 0xA3, 0x06, 0x4A, 0xD8, 0x39, 0x00, 0x03, 0xD7, 0x7B],
    [0xC0, 0x4A, 0x85, 0x5F, 0xDE, 0xE3, 0x12, 0xA1, 0xE4, 0x68, 0x2B, 0x3B, 0x2C, 0xE8, 0x26, 0x71],
    [0x72, 0xBA, 0x18, 0x16, 0xBD, 0xEA, 0x20, 0x5B, 0xD4, 0xDC, 0x4F, 0xAE, 0xF2, 0x65, 0xEE, 0xC2],
    [0x1F, 0xD0, 0x00, 0x00, 0x09, 0x5D, 0x4F, 0x18, 0xF9, 0x0B, 0xE9, 0xD2, 0x7E, 0x4E, 0x93, 0x55],
    [0xF4, 0x6A, 0x0E, 0x63, 0x3D, 0xA5, 0xC8, 0x8E, 0x43, 0xB5, 0x0F, 0x3E, 0x80, 0x00, 0x00, 0x36],
    [0xF4, 0xFC, 0x9B, 0xE4, 0x5F, 0xA6, 0xCD, 0xF9, 0x27, 0xB9, 0x14, 0xDF, 0x4F, 0xA3, 0xE2, 0xF1],
    [0x27, 0xB5, 0xA5, 0x59, 0x12, 0xE0, 0x39, 0x75, 0x00, 0x00, 0x00, 0x00, 0x00, 0x00, 0x00, 0x00],
    [0x00, 0x00, 0x00, 0x00, 0x00, 0x00, 0x00, 0x00, 0x00, 0x00, 0x00, 0xCE, 0x03, 0x23, 0x0C, 0x8C],
    [0x00, 0x00, 0x00, 0x00, 0x00, 0x0C, 0x8C, 0x00, 0x00, 0x00, 0xFF, 0xDA, 0x00, 0x08, 0x01, 0x02],
    [0x00, 0x01, 0x05, 0x00, 0xFB, 0x49, 0x20, 0x03, 0x61, 0x23, 0x23, 0x38, 0xC8, 0x77, 0x97, 0xA8],
    [0x64, 0x59, 0x09, 0x77, 0xDF, 0xBE, 0xBA, 0x8B, 0x36, 0xDA, 0xF9, 0x56, 0x89, 0x98, 0xAC, 0x9C],
    [0x34, 0x8C, 0xE2, 0x41, 0x07, 0xAD, 0x9B, 0x2B, 0xAC, 0xA6, 0xEC, 0x5D, 0x66, 0x55, 0xB9, 0x96],
    [0x55, 0x47, 0x02, 0x35, 0x03, 0x23, 0x38, 0x4A, 0x12, 0xEC, 0xBD, 0x66, 0x76, 0xAD, 0x69, 0xE8],
    [0x06, 0xC6, 0x31, 0x11, 0x0B, 0x61, 0x81, 0x4C, 0x81, 0x45, 0xA5, 0x78, 0x8E, 0xBB, 0xDB, 0x32],
    [0x75, 0xBD, 0x4D, 0x29, 0x59, 0x9A, 0xD5, 0x05, 0x88, 0xC8, 0xC4, 0xD1, 0x94, 0x5B, 0x0D, 0xC5],
    [0x61, 0xE1, 0xD5, 0xFC, 0x85, 0x45, 0x27, 0x29, 0xC4, 0x46, 0xB7, 0x4D, 0x27, 0x25, 0x7B, 0xD8],
    [0x01, 0x57, 0xAD, 0x85, 0xCA, 0x4F, 0xD3, 0xC0, 0x46, 0xA7, 0x4D, 0x29, 0x3F, 0x2E, 0xC9, 0x60],
    [0xD1, 0xEA, 0x40, 0x22, 0x6B, 0x2A, 0x66, 0xB5, 0xDE, 0x69, 0xC8, 0xC6, 0x52, 0x96, 0xAA, 0xA0],
    [0x4A, 0x7D, 0x8D, 0xC3, 0x9E, 0xB7, 0xD4, 0x55, 0x6B, 0x54, 0xFF, 0x00, 0xC7, 0x4D, 0x2D, 0x32],
    [0xB8, 0x6F, 0xDA, 0x15, 0x53, 0xB3, 0x63, 0x40, 0xBB, 0x29, 0x2F, 0xC4, 0x21, 0x30, 0x9E, 0x54],
    [0x42, 0xE1, 0x8D, 0xBC, 0xAA, 0x6B, 0x7B, 0xE6, 0xF6, 0xF5, 0xBF, 0x4F, 0xF9, 0x0B, 0xA4, 0x99],
    [0x43, 0x10, 0xA8, 0xCC, 0x55, 0xAA, 0xA8, 0x18, 0xB9, 0x55, 0xD7, 0xB0, 0xBD, 0x3B, 0x8F, 0xED],
    [0xF1, 0x1C, 0xAE, 0xCF, 0x86, 0x1D, 0x93, 0xB8, 0x9C, 0xE5, 0x39, 0x76, 0x98, 0x82, 0x54, 0xF1],
    [0x0C, 0xFE, 0xCA, 0x71, 0x0E, 0x7B, 0x5C, 0x7E, 0xD3, 0xFF, 0xDA, 0x00, 0x08, 0x01, 0x03, 0x00],
    [0x01, 0x05, 0x00, 0xFB, 0x4C, 0x63, 0x29, 0x18, 0x69, 0xF6, 0x13, 0x0F, 0xA3, 0x69, 0x03, 0xBD],
    [0x7A, 0xCB, 0xAC, 0x0D, 0xD7, 0xDC, 0x48, 0xEE, 0x42, 0x4B, 0x65, 0x4C, 0x29, 0x01, 0x36, 0xA2],
    [0x47, 0xC8, 0x0E, 0x6C, 0xF4, 0xAB, 0x6C, 0x48, 0x20, 0xF5, 0x84, 0x0C, 0xE5, 0x45, 0x29, 0x46],
    [0x57, 0xB4, 0x33, 0xE5, 0x07, 0x36, 0x3A, 0x84, 0x59, 0x0D, 0x5C, 0xD5, 0x3E, 0xC4, 0xD8, 0x03],
    [0x27, 0x72, 0x60, 0x4A, 0x46, 0x46, 0xA5, 0xF7, 0xD6, 0x94, 0x6F, 0x46, 0x75, 0x6E, 0x2C, 0x0E],
    [0xC5, 0x38, 0x40, 0xFF, 0x00, 0x30, 0xC6, 0x2C, 0x6B, 0x18, 0x6B, 0xDB, 0x7D, 0x79, 0x51, 0xBF]]"

text \<open>Lines 285 to 424.\<close>

definition jpg_rows_3 :: "nat list list" where
  "jpg_rows_3 = [
    [0x0B, 0x09, 0xDF, 0x26, 0x12, 0x1D, 0x5B, 0x2F, 0x15, 0xA3, 0x65, 0x03, 0x8B, 0x97, 0x94, 0x3A],
    [0x6B, 0x5E, 0x60, 0xBD, 0x8B, 0x44, 0xD5, 0xD4, 0x6C, 0x63, 0xF2, 0xD7, 0x60, 0x62, 0xFA, 0x6B],
    [0x5C, 0x57, 0x3B, 0x8E, 0x13, 0xAF, 0xD4, 0x80, 0x43, 0x15, 0x24, 0xBB, 0x51, 0x76, 0x33, 0x5E],
    [0x12, 0x00, 0x45, 0x81, 0x8C, 0x69, 0x98, 0xEB, 0xB3, 0x49, 0x4D, 0xDD, 0x35, 0xD8, 0xC7, 0xAA],
    [0x5F, 0x11, 0x26, 0x38, 0xCA, 0x3D, 0x9B, 0x7D, 0x69, 0x78, 0xF9, 0x0C, 0x4A, 0xF7, 0x57, 0x60],
    [0x05, 0xE7, 0x38, 0xD0, 0x9B, 0x26, 0x7B, 0x36, 0x94, 0x3F, 0x94, 0xA9, 0xF9, 0x2E, 0x4A, 0xDC],
    [0xDB, 0x54, 0x7F, 0xB3, 0xB2, 0xE1, 0x4D, 0xCC, 0x94, 0x80, 0xFC, 0x76, 0xDB, 0xD6, 0x55, 0xB5],
    [0x92, 0xF5, 0x85, 0x93, 0x5F, 0x44, 0x85, 0x64, 0x21, 0x18, 0x47, 0xB6, 0xDD, 0x0A, 0xD6, 0x83],
    [0x3D, 0x66, 0x24, 0xD7, 0xF5, 0xE8, 0x40, 0xA5, 0x0A, 0x4C, 0x7E, 0xD3, 0xFF, 0xDA, 0x00, 0x08],
    [0x01, 0x01, 0x00, 0x01, 0x05, 0x00, 0xE9, 0xF9, 0xCE, 0x4E, 0x72, 0x73, 0x93, 0x9C, 0x9C, 0xE4],
    [0xE7, 0x27, 0x39, 0x39, 0xC9, 0xCE, 0x4E, 0x72, 0x73, 0x93, 0x9C, 0x9C, 0xE4, 0xE7, 0x27, 0x39],
    [0x39, 0xE5, 0x2C, 0xF2, 0x96, 0x12, 0x4E, 0x72, 0x73, 0x93, 0x9C, 0x9E, 0x9C, 0x9C, 0xE4, 0xE7],
    [0x27, 0x39, 0x39, 0xC9, 0xCE, 0x4F, 0x77, 0x3C, 0x67, 0x97, 0xE8, 0x78, 0xCE, 0x3B, 0x78, 0xCE],
    [0x3F, 0xE2, 0xF9, 0xEE, 0xE7, 0x39, 0x19, 0xF8, 0xFB, 0xAA, 0x6B, 0xD8, 0xB1, 0x9F, 0xD6, 0xD9],
    [0x07, 0xFA, 0xD9, 0xE1, 0xD6, 0xD8, 0xC6, 0x21, 0xCA, 0xEC, 0x84, 0x18, 0xC9, 0xA7, 0xD5, 0x7D],
    [0x8D, 0xB7, 0x6E, 0xFF, 0x00, 0x98, 0x5F, 0x4D, 0x3E, 0xF0, 0x09, 0x23, 0x5F, 0x73, 0x81, 0xAE],
    [0x76, 0x1D, 0x73, 0xF1, 0x95, 0x6C, 0x2F, 0xEB, 0x29, 0x4D, 0x7B, 0x75, 0xDE, 0x9E, 0xB4, 0x45],
    [0xA8, 0x8C, 0x63, 0x6D, 0x39, 0xCE, 0x47, 0x8C, 0x00, 0x11, 0x67, 0x54, 0xB6, 0x06, 0x2E, 0x6A],
    [0x9E, 0x7F, 0x9B, 0x53, 0x73, 0x37, 0x7C, 0xC8, 0x0D, 0xB6, 0xDE, 0x9E, 0x9A, 0x93, 0x5B, 0x27],
    [0x3B, 0xB7, 0x4D, 0xEB, 0x36, 0xB6, 0x31, 0x56, 0xAA, 0x9D, 0x28, 0x5A, 0x48, 0x22, 0x63, 0xC6],
    [0x51, 0xE3, 0x22, 0x31, 0xFA, 0xF4, 0x3F, 0x2C, 0xD5, 0x75, 0x69, 0xFD, 0x25, 0xAD, 0x8D, 0x67],
    [0xAF, 0x7A, 0xC2, 0xB4, 0xB5, 0x5F, 0x1C, 0x7C, 0x71, 0xEA, 0x24, 0x39, 0x40, 0x33, 0xC6, 0x71],
    [0xC8, 0x9C, 0x8E, 0x5C, 0xA3, 0x0B, 0x6A, 0xF5, 0xCF, 0x55, 0xBD, 0xBC, 0xBD, 0xEC, 0xFE, 0xCF],
    [0x56, 0x35, 0x3F, 0xCF, 0xB6, 0x3B, 0x43, 0xA8, 0xF7, 0xED, 0xDE, 0x95, 0x9A, 0x4E, 0xDF, 0x50],
    [0xF5, 0x5F, 0xEC, 0x71, 0xF0, 0x00, 0x3E, 0x38, 0xF5, 0xF3, 0x96, 0xEB, 0x9C, 0x10, 0x98, 0x11],
    [0x39, 0x13, 0x8C, 0x4A, 0xDC, 0xBB, 0xB5, 0x27, 0x51, 0xDF, 0x47, 0xFC, 0xE3, 0x45, 0x06, 0xB2],
    [0xC4, 0x79, 0xCB, 0x11, 0xCD, 0xF7, 0xB0, 0x22, 0x8C, 0xED, 0x6C, 0x2E, 0xDB, 0x97, 0x03, 0x15],
    [0x61, 0xE9, 0x35, 0x36, 0x30, 0x71, 0x86, 0x54, 0x44, 0xAC, 0x58, 0xF7, 0xDB, 0xAD, 0xA7, 0x43],
    [0xD5, 0x7D, 0x54, 0x6C, 0xE3, 0xED, 0x7E, 0xD4, 0x77, 0x04, 0x00, 0x3B, 0x74, 0x3A, 0x99, 0xEE],
    [0x36, 0xA2, 0xB2, 0x2B, 0xA2, 0xC4, 0x73, 0x6B, 0x76, 0xAE, 0xBD, 0x17, 0xFD, 0x8A, 0xF5, 0xA9],
    [0x4A, 0x73, 0x99, 0x83, 0x5A, 0xB3, 0x5F, 0x6A, 0x79, 0x81, 0x04, 0x43, 0x2F, 0x54, 0x8D, 0xAA],
    [0xC4, 0x10, 0x7B, 0xC0, 0x24, 0xEA, 0xAA, 0x2F, 0x59, 0xAC, 0x9B, 0xB3, 0xDA, 0xF7, 0x3F, 0xD6],
    [0x6B, 0xC9, 0x24, 0xF6, 0x6B, 0x6D, 0x97, 0x2B, 0xD7, 0x6D, 0x54, 0x4E, 0xDB, 0x62, 0x7D, 0x3C],
    [0xBF, 0xDA, 0x3D, 0xAD, 0xDB, 0x8E, 0xFF, 0x00, 0xF3, 0x7A, 0x71, 0x5D, 0x69, 0xBB, 0x2D, 0x58],
    [0x4A, 0x95, 0xB8, 0xDA, 0xBB, 0x6B, 0x7B, 0xB3, 0x57, 0x6C, 0xAD, 0x81, 0x9C, 0x60, 0x66, 0x6D],
    [0x14, 0x21, 0x73, 0xBF, 0x4E, 0xA0, 0xED, 0xAC, 0xDD, 0x93, 0x76, 0x7B, 0x8D, 0xA9, 0xBF, 0x71],
    [0xD2, 0x55, 0x19, 0x1A, 0x5D, 0x35, 0xF3, 0x30, 0xB5, 0xE7, 0xC1, 0x0C, 0xCB, 0x83, 0x8B, 0x5D],
    [0xDE, 0xAB, 0x11, 0x5F, 0xD7, 0xE6, 0xEC, 0xF7, 0x3B, 0x86, 0x1A, 0x7E, 0x95, 0xAB, 0x3A, 0xD3],
    [0x3A, 0x02, 0x41, 0x0D, 0xF2, 0x88, 0x66, 0x6D, 0x7F, 0x70, 0xEF, 0xD2, 0xCF, 0xC3, 0x6F, 0x2B],
    [0x52, 0xC9, 0x5A, 0x89, 0xCF, 0x62, 0xFC, 0xEE, 0x31, 0x4C, 0x2A, 0x63, 0x3D, 0x80, 0x1D, 0x34],
    [0xA5, 0xE5, 0x2C, 0xA9, 0xFF, 0x00, 0xA5, 0x93, 0xE2, 0x61, 0x99, 0x6E, 0x5E, 0x4F, 0xEE, 0xD3],
    [0x5A, 0x23, 0x4F, 0x2B, 0x51, 0xCF, 0x71, 0x91, 0x65, 0x3E, 0x9A, 0x3D, 0xA5, 0x55, 0x32, 0xDD],
    [0x98, 0x58, 0x67, 0x48, 0x1F, 0x1A, 0xA1, 0x99, 0x7E, 0x7C, 0xAF, 0xBD, 0x0D, 0xF8, 0x5F, 0x22],
    [0x25, 0x16, 0x0C, 0xF6, 0x5A, 0x84, 0x4B, 0xB6, 0x94, 0x7F, 0x7B, 0x19, 0xCC, 0x83, 0x32, 0x72],
    [0xF2, 0x9F, 0x77, 0xAC, 0xBC, 0x3B, 0x4E, 0xC1, 0x9B, 0x9A, 0xB2, 0xB3, 0x43, 0xA7, 0x1C, 0xF5],
    [0x84, 0x0C, 0xE6, 0xE6, 0x00, 0x03, 0x32, 0xCC, 0xFC, 0x8F, 0xD0, 0xF5, 0xBB, 0xA2, 0xDE, 0xB2],
    [0x71, 0xC7, 0xD6, 0x5D, 0x85, 0xEC, 0xB5, 0x96, 0x35, 0xCD, 0xEB, 0x5A, 0xB3, 0x6C, 0xCE, 0x75],
    [0xE0, 0xA5, 0xCF, 0x98, 0xCE, 0x53, 0x3C, 0x77, 0xFA, 0x95, 0xE8, 0xAA, 0xD4, 0xE3, 0x92, 0x8F],
    [0xE7, 0x7B, 0xA6, 0x9A, 0x67, 0xD4, 0x02, 0x4D, 0x7A, 0x25, 0x2B, 0xB0, 0x25, 0x19, 0x09, 0xE4],
    [0x8F, 0x91, 0xEB, 0xCF, 0x6E, 0x9F, 0x65, 0x2D, 0x6D, 0xD8, 0xC9, 0x6E, 0x5F, 0xC7, 0x8C, 0x44],
    [0x19, 0x0B, 0x5E, 0xA5, 0x49, 0xA4, 0xFA, 0x6D, 0xA1, 0x90, 0xF5, 0x8A, 0xEA, 0xC9, 0x26, 0x2A],
    [0x83, 0x86, 0x5A, 0x5E, 0x13, 0xF4, 0x14, 0xD6, 0x29, 0x9A, 0xBD, 0x8A, 0xF6, 0x54, 0xFC, 0x39],
    [0x3E, 0x19, 0x7B, 0xD6, 0x28, 0xDA, 0x94, 0xFD, 0x3F, 0x62, 0x0C, 0x7D, 0x52, 0xD4, 0x4A, 0xB5],
    [0x95, 0xA9, 0xE3, 0x81, 0xCB, 0x2B, 0xF2, 0x12, 0xE4, 0x77, 0x71, 0xDB, 0xA2, 0xDF, 0x4F, 0x5D],
    [0x24, 0x31, 0x36, 0x55, 0xF1, 0xE7, 0xC7, 0x92, 0x57, 0xED, 0x7A, 0xF1, 0xCB, 0xCB, 0x10, 0x11],
    [0x8D, 0xAB, 0x01, 0x92, 0xFA, 0x3A, 0xDD, 0x95, 0x8D, 0x75, 0x9D, 0x6D, 0xFA, 0x9B, 0x24, 0x7C],
    [0x79, 0xF1, 0xE0, 0x5E, 0x3D, 0x78, 0xE5, 0xE3, 0x97, 0x97, 0x9D, 0x05, 0x12, 0x49, 0x3D, 0x7F],
    [0x39, 0xF9, 0xEF, 0xA1, 0xB3, 0xBD, 0xAE, 0x65, 0x0F, 0x76, 0xA2, 0xC1, 0x5B, 0x6B, 0xA9, 0xB4],
    [0x25, 0x24, 0x98, 0xDC, 0xBB, 0xAE, 0x40, 0xBD, 0xEC, 0x74, 0x23, 0x96, 0xAF, 0x59, 0xB7, 0x2F],
    [0xA7, 0x5A, 0xCD, 0x8A, 0x8E, 0xD7, 0x7B, 0xAA, 0xF8, 0xA9, 0xB3, 0xD5, 0xDC, 0x01, 0x7C, 0x8B],
    [0x0B, 0x11, 0x17, 0xB6, 0xBA, 0xBA, 0xF9, 0x7B, 0x78, 0xD7, 0xE7, 0xE4, 0x9F, 0xAC, 0x63, 0x13],
    [0x9E, 0x11, 0xC1, 0x18, 0x8F, 0xD0, 0x18, 0xC4, 0xE4, 0x58, 0xD8, 0x89, 0x19, 0xCF, 0x00, 0x03],
    [0xF5, 0xDC, 0xE7, 0x3D, 0xDC, 0xE7, 0x39, 0xCF, 0xDF, 0x79, 0xFD, 0x57, 0xE7, 0xB3, 0x83, 0x9C],
    [0x1C, 0xE0, 0xE7, 0x07, 0x38, 0x39, 0xC1, 0xCE, 0x0E, 0x70, 0x73, 0x83, 0x9C, 0x1C, 0xE0, 0xF5],
    [0xE3, 0x38, 0xCE, 0x0F, 0xD1, 0xE3, 0x38, 0xEE, 0xFF, 0xDA, 0x00, 0x08, 0x01, 0x02, 0x02, 0x06],
    [0x3F, 0x00, 0xF4, 0x4C, 0xC9, 0x00, 0x67, 0x36, 0x46, 0xB8, 0xF6, 0x5B, 0x13, 0x53, 0x3F, 0xB0],
    [0xB5, 0xD7, 0xD8, 0x6F, 0x7C, 0x31, 0xA2, 0xC0, 0xE1, 0x82, 0x74, 0xAA, 0x3D, 0x94, 0xE9, 0xEF],
    [0x72, 0x9B, 0x90, 0xB1, 0x7A, 0xA3, 0x4F, 0x30, 0xD9, 0x5E, 0x6A, 0xC0, 0x06, 0x04, 0xA2, 0x69],
    [0x63, 0x8C, 0x99, 0x1A, 0x24, 0x6C, 0x23, 0x00, 0xD5, 0xAA, 0x64, 0xA3, 0x26, 0xD3, 0xB6, 0x44],
    [0x5E, 0x54, 0x5A, 0x6E, 0xD3, 0xD9, 0xA6, 0xBA, 0xBD, 0x2D, 0xF8, 0x94, 0x08, 0xB3, 0x45, 0xB2],
    [0x1E, 0xF4, 0x15, 0x61, 0x26, 0x5B, 0x08, 0xC1, 0x7A, 0xB3, 0x9A, 0xCE, 0xED, 0x31, 0xBB, 0x49],
    [0x75, 0x3B, 0xF1, 0xE3, 0x55, 0x1A, 0x00, 0xC9, 0x17, 0x7D, 0x86, 0x36, 0x3C, 0x88, 0x92, 0x80],
    [0x06, 0x61, 0x64, 0x4C, 0x7B, 0xA0, 0xD6, 0x40, 0x5B, 0x44, 0xB2, 0xA8, 0xD6, 0xBC, 0xBB, 0x31],
    [0x4D, 0xC2, 0xD4, 0x17, 0xD7, 0x4D, 0xAA, 0xA9, 0x5F, 0x12, 0xB7, 0xEE, 0x32, 0xDF, 0xD2, 0xC0],
    [0xF0, 0x94, 0xFD, 0x3A, 0x1A, 0x32, 0xC8, 0xD5, 0x1B, 0x5D, 0xBE, 0x48, 0x37, 0xA6, 0xB4, 0x93],
    [0x5C, 0xE7, 0xCC, 0x8B, 0x17, 0x51, 0x42, 0x8E, 0x28, 0x98, 0x80, 0xC3, 0x18, 0xB1, 0x86, 0x66],
    [0x84, 0xAE, 0xA2, 0xD0, 0x6E, 0x3F, 0xAB, 0x60, 0xE0, 0x54, 0x23, 0x1D, 0xC6, 0x97, 0x56, 0x31],
    [0x45, 0x10, 0x37, 0x17, 0xEF, 0x16, 0xF0, 0xB8, 0xC8, 0x1E, 0xCE, 0xAC, 0x53, 0x39, 0x7C, 0x40],
    [0x07, 0x51, 0xF0, 0x2A, 0xB1, 0xC6, 0xD5, 0x1C, 0xF6, 0xA0, 0x4B, 0x69, 0x99, 0x8F, 0xAF, 0x57],
    [0xE5, 0xE1, 0x75, 0xC8, 0x54, 0x1F, 0x71, 0x8A, 0xD3, 0xC8, 0x01, 0xF7, 0x32, 0xE0, 0x10, 0x72],
    [0xC3, 0x53, 0x6C, 0x68, 0x65, 0xFD, 0x60, 0x23, 0x63, 0x4B, 0x17, 0x94, 0x9C, 0x01, 0x54, 0x4D],
    [0x8D, 0x80, 0x08, 0x09, 0x8D, 0xB5, 0x9F, 0x9C, 0xD1, 0x47, 0xCB, 0x8C, 0x6B, 0x3A, 0xAF, 0xD2],
    [0xD1, 0x4F, 0x9F, 0x02, 0xA0, 0xC8, 0xE7, 0xC4, 0x5F, 0x53, 0xFE, 0xA8, 0x6A, 0x47, 0x14, 0xEF],
    [0x29, 0xE3, 0xCA, 0xBC, 0x25, 0xDE, 0xC7, 0xA9, 0x23, 0x2D, 0xD5, 0x1A, 0xB0, 0x29, 0x6D, 0x56],
    [0x60, 0x25, 0xC8, 0xA7, 0xA6, 0xC7, 0xE0, 0xC1, 0x15, 0x69, 0x8F, 0xA8, 0xB6, 0x11, 0xFC, 0x8B],
    [0xDE, 0x58, 0x02, 0x52, 0x94, 0x69, 0x08, 0xD1, 0x50, 0x38, 0xF2, 0xF5, 0xA2, 0xFB, 0xDA, 0xE7],
    [0x52, 0x98, 0xD6, 0x73, 0xDD, 0xE5, 0x43, 0xD5, 0xA8, 0x66, 0xEE, 0x66, 0x7F, 0x21, 0xCD, 0xC0],
    [0xD1, 0xB2, 0xAA, 0x6A, 0x1D, 0xEE, 0x41, 0x89, 0x30, 0x93, 0x0C, 0x60, 0xC0, 0x9C, 0x06, 0x0B],
    [0xA5, 0x9C, 0xE9, 0x41, 0xAB, 0x55, 0x82, 0x2A, 0xFD, 0xFC, 0x95, 0xE5, 0x41, 0xAA, 0xDA, 0x2A],
    [0x34, 0x69, 0xA6, 0xE2, 0x77, 0xB7, 0xB0, 0xA7, 0x2B, 0x63, 0x56, 0x7E, 0xD8, 0x92, 0x05, 0x4E],
    [0x3D, 0x66, 0x82, 0xCE, 0xC5, 0x98, 0xE5, 0x6B, 0x70, 0xA6, 0x45, 0xB1, 0xAB, 0x3F, 0x6C, 0x68],
    [0x20, 0x07, 0x3B, 0x1B, 0xDD, 0xD8, 0xBD, 0x51, 0x8B, 0x66, 0xDD, 0x5E, 0x6A, 0xFA, 0x2B, 0xFF],
    [0xDA, 0x00, 0x08, 0x01, 0x03, 0x02, 0x06, 0x3F, 0x00, 0xF4, 0x48, 0x55, 0x05, 0x98, 0xE2, 0x55],
    [0x17, 0x9B, 0xDD, 0x13, 0x5F, 0x2E, 0xF2, 0xE5, 0x14, 0x4E, 0xCB, 0xB2, 0xC4, 0xEA, 0xD1, 0x74],
    [0x1B, 0xD2, 0x9A, 0x75, 0xD7, 0x43, 0xEC, 0x2F, 0x27, 0x97, 0xA8, 0x46, 0x72, 0x2E, 0x7F, 0xD2],
    [0xEC, 0x4E, 0xA5, 0x0A, 0x8A, 0x37, 0xAE, 0xDE, 0x5E, 0xB2, 0x5E, 0x5C, 0x39, 0x4E, 0x4B, 0xB4],
    [0x62, 0x54, 0xD4, 0x0C, 0xED, 0xB4, 0xDC, 0xE6, 0x89, 0x13, 0xC0, 0x6A, 0xF9, 0x65, 0x14, 0xEA],
    [0x8B, 0x4A, 0x2E, 0x8D, 0x3A, 0xBE, 0xCD, 0x87, 0x82, 0x08, 0x91, 0x16, 0x10, 0x70, 0x02, 0x8C],
    [0xB0, 0x08, 0x01, 0x9F, 0x7C, 0xE3, 0xE8, 0xEE, 0xC4, 0x8F, 0x01, 0x7A, 0x60, 0x52, 0xAF, 0x8E],
    [0xFA, 0xD8, 0xAE, 0x7F, 0xCA, 0xBF, 0x3C, 0x35, 0x37, 0x17, 0x5D, 0x0C, 0x98, 0x60, 0xC8, 0x44],
    [0x90, 0xC8, 0x9D, 0xAC, 0xD1, 0x36, 0x25, 0x8E, 0x76, 0xB6, 0x01, 0x46, 0x25, 0x32, 0xD3, 0x63],
    [0xA0, 0xDD, 0xD8, 0x35, 0xE9, 0xCD, 0xB4, 0x19, 0x95, 0x76, 0xAF, 0xAE, 0xC7, 0x5A, 0x29, 0xBA],
    [0xAD, 0x41, 0x79, 0x47, 0x88, 0xF5, 0x41, 0x5F, 0x12, 0xBF, 0xEE, 0x3A, 0xDF, 0xD2, 0xC0, 0x23],
    [0x2C, 0x68, 0xDA, 0xD9, 0x22, 0x6E, 0xC5, 0xBD, 0x67, 0xF0, 0x80, 0x69, 0x39, 0x5E, 0x4E, 0x3A],
    [0x6D, 0xCE, 0x48, 0x15, 0x35, 0x58, 0x68, 0xBA, 0x6E, 0xB4, 0x27, 0x98, 0x51, 0xA4, 0x0F, 0x87],
    [0x53, 0x8D, 0x76, 0x1B, 0xA3, 0x80, 0xED, 0xBA, 0xAC, 0xDD, 0x51, 0x03, 0x4B, 0xDF, 0x0A, 0xDB],
    [0xC0, 0x1F, 0x7F, 0x0B, 0x2C, 0xEC, 0xBD, 0x31, 0x0B, 0xC4, 0xDF, 0x81, 0xC0, 0x70, 0x4C, 0x88],
    [0x66, 0x16, 0xF3, 0xA0, 0x30, 0x33, 0x9F, 0x0B, 0x89, 0xD8, 0xC0, 0x7B, 0xC4, 0x3A, 0x9C, 0xA0],
    [0x7D, 0xCD, 0x80, 0x41, 0xC4, 0x6C, 0x87, 0xA4, 0xD8, 0xE9, 0xB1, 0x5F, 0xC9, 0xBA, 0x50, 0x3C],
    [0xBB, 0x19, 0x54, 0x4D, 0x49, 0xED, 0xA7, 0x17, 0x29, 0x38, 0x26, 0x4C, 0x80, 0x83, 0x28, 0x03],
    [0x02, 0xA8, 0x95, 0x8E, 0x7C, 0x55, 0xF5, 0x54, 0xB7, 0xE3, 0xBD, 0x07, 0xCB, 0xB9, 0x95, 0xE3],
    [0x7A, 0x99, 0x3B, 0xD9, 0x53, 0xA5, 0xB3, 0xC3, 0x61, 0x82, 0x33, 0xE0, 0xF8, 0xF4, 0x44, 0xEB],
    [0x20, 0x93, 0x2F, 0xF2, 0xA7, 0x7D, 0x62, 0x46, 0x6A, 0xCA, 0x7D, 0x4C, 0xAC, 0x20, 0x28, 0xAB],
    [0x31, 0xCB, 0x54, 0x73, 0xD6, 0x75, 0xBD, 0x00, 0xD4, 0xA8, 0x5B, 0x8B, 0x55, 0x7A, 0xAB, 0xA3],
    [0x16, 0x5A, 0x06, 0xB3, 0x66, 0xC1, 0x05, 0x64, 0x2B, 0x53, 0xB6, 0x99, 0xDE, 0xCF, 0x4D, 0xA0],
    [0xA3, 0x82, 0xAC, 0xA6, 0x4C, 0xAD, 0x8C, 0x40, 0x51, 0x52, 0xF2, 0x8C, 0x42, 0xA0, 0x15, 0x3B],
    [0x5A, 0xF1, 0x27, 0xA9, 0x66, 0xEA, 0x8B, 0x83, 0xB3, 0x01, 0x56, 0x6C, 0x70, 0xE7, 0x55, 0x24],
    [0xFF, 0x00, 0xC8, 0x9A, 0x15, 0x3F, 0x57, 0x4E, 0x26, 0x9E, 0x65, 0x94, 0x66, 0x64, 0x0F, 0xDA],
    [0xBF, 0x4E, 0x01, 0x77, 0x7A, 0xBC, 0x5F, 0xDB, 0x4E, 0xCE, 0x97, 0xFB, 0x20, 0x2A, 0x00, 0xAA],
    [0x31, 0x01, 0x85, 0xF5, 0x92, 0x6C, 0x31, 0x54, 0x5D, 0x1A, 0x8B, 0xD3, 0xEF, 0x47, 0xD3, 0xF3],
    [0x25, 0x46, 0x67, 0x4B, 0xE7, 0xAC, 0xAE, 0x9F, 0x04, 0x7D, 0x4A, 0xEC, 0xFC, 0x48, 0xBE, 0x1F],
    [0x69, 0x9A, 0xA4, 0x5D, 0xA6, 0xA1, 0x47, 0x69, 0xB9, 0xCD, 0xE8, 0xAF, 0xFF, 0xDA, 0x00, 0x08],
    [0x01, 0x01, 0x01, 0x06, 0x3F, 0x00, 0xD3, 0x8D, 0x63, 0x58, 0xD6, 0x35, 0x8D, 0x63, 0x58, 0xD6],
    [0x35, 0x8D, 0x63, 0x58, 0xD6, 0x3A, 0x31, 0xAC, 0x6B, 0x13, 0x58, 0x9A, 0xBC, 0xD6, 0x35, 0x8D],
    [0x63, 0xA7, 0x1A, 0xC6, 0xB1, 0xAC, 0x7F, 0xCA, 0x8E, 0xC6, 0x36, 0x90, 0x71, 0x90, 0x2E, 0xF6],
    [0xB9, 0xB5, 0x63, 0x95, 0x43, 0xC9, 0x8D, 0x7D, 0xE0, 0xF2, 0x7F, 0xDE, 0xB6, 0x4A, 0xB7, 0xD1],
    [0x85, 0x76, 0x88, 0x54, 0x72, 0xF1, 0x7B, 0x5E, 0x02, 0xC7, 0x1A, 0x97, 0x91, 0xC8, 0x54, 0x45],
    [0x04, 0xB1, 0x27, 0x9A, 0xAA, 0xA3, 0x9D, 0x50, 0xE4, 0x5B, 0xBB, 0xE6, 0x82, 0x69, 0xED, 0x28],
    [0x66, 0x5D, 0x44, 0x0A, 0x39, 0xF2, 0x3C, 0xBB, 0x48, 0x88, 0x94, 0xD2, 0xE5, 0x33, 0xA9, 0x9B],
    [0xCC, 0xA2, 0xEB, 0x1C, 0xBE, 0xEC, 0xA6, 0xBD, 0x9D, 0x08, 0x24, 0x2C, 0xDB, 0x7D, 0x4D, 0xE7],
    [0x00, 0x15, 0x41, 0x2C, 0x70, 0x02, 0xF3, 0x56, 0xB4, 0x65, 0x01, 0xEB, 0xDD, 0xF5, 0x57, 0x39],
    [0x47, 0x96, 0xAE, 0x2A, 0x7C, 0xA2, 0xAD, 0x78, 0xCD, 0x9C, 0xA2, 0xF1, 0xF5, 0x70, 0xC9, 0x0C],
    [0x28, 0x64, 0x96, 0x43, 0xAA, 0x88, 0xA2, 0xD2, 0x4D, 0x09, 0xBB, 0xCA, 0xC9, 0x66, 0xC7, 0x70],
    [0x0F, 0x66, 0xBE, 0x91, 0xF8, 0xAD, 0xEE, 0x56, 0xAA, 0x80, 0xAA, 0x30, 0x00, 0x58, 0x05, 0x5A],
    [0x31, 0x1A, 0x6C, 0x37, 0x83, 0x45, 0xA0, 0xEC, 0xDF, 0xAB, 0xD1, 0x3F, 0x66, 0x8C, 0x72, 0x0D],
    [0x57, 0x5C, 0x41, 0xD0, 0xF9, 0xED, 0xC8, 0x6C, 0xBE, 0x56, 0x27, 0x56, 0xCC, 0x31, 0x01, 0x62],
    [0x91, 0xC6, 0xC1, 0x52, 0xDC, 0xE9, 0x37, 0x5B, 0xD4, 0xF9, 0x51, 0x49, 0xBD, 0xAD, 0x5B, 0x6E],
    [0x37, 0xD9, 0xC5, 0x4F, 0x9F, 0xCE, 0x35, 0x89, 0x1F, 0x32, 0x30, 0x76, 0xA4, 0x7E, 0x84, 0x31],
    [0x79, 0xEF, 0xEE, 0x7D, 0xE5, 0x49, 0x33, 0x00, 0x1A, 0x46, 0x67, 0x60, 0x30, 0xB5, 0x8E, 0xB1],
    [0xB3, 0xC2, 0x19, 0x89, 0x89, 0xCB, 0xE5, 0x0E, 0x0D, 0x66, 0xDB, 0xFF, 0x00, 0x49, 0x4F, 0x43]]"

text \<open>Lines 425 to 519.\<close>

definition jpg_rows_4 :: "nat list list" where
  "jpg_rows_4 = [
    [0xE6, 0x56, 0xA6, 0x5A, 0x30, 0x9C, 0xAE, 0x6F, 0x63, 0xE9, 0x39, 0xA2, 0x0D, 0x10, 0x74, 0xDB],
    [0x66, 0xA3, 0xF5, 0xD7, 0xFD, 0x43, 0xA5, 0x5A, 0xB2, 0x0B, 0x8F, 0x35, 0xC6, 0x07, 0x83, 0x58],
    [0xA2, 0x53, 0x24, 0x8E, 0x42, 0xA2, 0x28, 0xB4, 0x96, 0x26, 0xC5, 0x55, 0x15, 0xAF, 0x30, 0x0F],
    [0x9F, 0x98, 0x0D, 0xF4, 0x98, 0xEA, 0xFC, 0x88, 0x8F, 0x51, 0x7A, 0x7F, 0x89, 0x46, 0x8D, 0x1B],
    [0xAB, 0x65, 0x96, 0xFE, 0x2B, 0x45, 0x5A, 0x45, 0xDC, 0xBA, 0x6C, 0x3B, 0x32, 0x2F, 0x31, 0xF9],
    [0x3E, 0x83, 0xE6, 0xD3, 0x42, 0x43, 0x65, 0xF2, 0x99, 0x73, 0xFE, 0xEF, 0x32, 0x40, 0xD9, 0xE9],
    [0x6E, 0xE3, 0xD6, 0xD9, 0x79, 0x9D, 0x7D, 0x48, 0xD3, 0xB6, 0x92, 0x87, 0xFC, 0x77, 0xFE, 0x3A],
    [0x37, 0x1D, 0xD7, 0x00, 0x31, 0xCF, 0x32, 0x7C, 0x63, 0xD3, 0x55, 0x6E, 0x73, 0x42, 0xED, 0xF7],
    [0xD3, 0x7F, 0xED, 0xFF, 0x00, 0x46, 0xA5, 0x6E, 0xF1, 0x2A, 0xBD, 0xCF, 0x95, 0x07, 0xF4, 0xF9],
    [0xD9, 0x9B, 0x54, 0x8D, 0x53, 0xDA, 0x43, 0xB5, 0xF7, 0x99, 0x68, 0xBF, 0x13, 0xE1, 0x49, 0xD8],
    [0x26, 0xBF, 0xC2, 0x6C, 0x8C, 0x53, 0xC5, 0x9A, 0xCD, 0xCE, 0xE8, 0xD0, 0x88, 0x98, 0x49, 0xBB],
    [0x0A, 0xC1, 0xDE, 0x66, 0x64, 0xB5, 0x53, 0x5A, 0x3D, 0x68, 0x7F, 0x37, 0xC2, 0xFF, 0x00, 0xE9],
    [0x67, 0xD3, 0xFD, 0x8A, 0x1B, 0x21, 0x8C, 0xDD, 0xBD, 0x75, 0x3B, 0x45, 0xBE, 0x44, 0x7F, 0xDC],
    [0x7A, 0xB0, 0x0B, 0x00, 0xB8, 0x0A, 0x3A, 0x2D, 0xB2, 0xC3, 0x56, 0x91, 0x76, 0x93, 0x1C, 0x83],
    [0x59, 0x1B, 0x11, 0x5A, 0x8D, 0x7A, 0x9B, 0xD1, 0xB9, 0x47, 0xDA, 0xE0, 0x9F, 0xBE, 0xF3, 0x02],
    [0xD5, 0x84, 0x98, 0xB2, 0x8A, 0x7A, 0xF6, 0x76, 0xB3, 0x7A, 0x8A, 0xDB, 0xA4, 0xFC, 0xCA, 0x36],
    [0x51, 0xA6, 0xCB, 0x40, 0x04, 0xF9, 0xA1, 0xCE, 0xBF, 0x61, 0x0F, 0xCC, 0xEB, 0x3F, 0xCB, 0xA2],
    [0xD9, 0x89, 0x99, 0xAD, 0xE8, 0x83, 0xAA, 0xA3, 0xC4, 0x8B, 0x58, 0x55, 0xB1, 0x48, 0xCB, 0xF4],
    [0x5B, 0x68, 0xF6, 0x4D, 0x08, 0xE5, 0x01, 0x25, 0x38, 0x30, 0xE6, 0xB7, 0xD9, 0x6D, 0x11, 0x40],
    [0xB8, 0xCA, 0xEA, 0x80, 0xFA, 0x47, 0x56, 0x97, 0xB9, 0xFB, 0xB6, 0xCC, 0xBE, 0x50, 0x00, 0x73],
    [0x6A, 0xBC, 0xF6, 0x57, 0xE6, 0x46, 0xCF, 0xE7, 0x6C, 0x3C, 0xDF, 0x8D, 0xAF, 0xD4, 0xA6, 0xEF],
    [0x4E, 0xF3, 0x6F, 0xD3, 0x77, 0x2E, 0x56, 0xD7, 0x96, 0x46, 0xD9, 0x12, 0xEA, 0xF3, 0xD1, 0x1F],
    [0xA3, 0x0A, 0xFC, 0x69, 0x7F, 0x2A, 0x2E, 0xD6, 0x97, 0x21, 0x90, 0x5F, 0xD3, 0x77, 0x36, 0x5A],
    [0xC1, 0x04, 0x01, 0x75, 0x35, 0xCA, 0x5C, 0x92, 0xC8, 0x83, 0x98, 0x8B, 0xF0, 0x20, 0xF8, 0x7C],
    [0xF7, 0xED, 0xAA, 0xE1, 0x67, 0x8B, 0xC1, 0xCB, 0xE4, 0x14, 0x95, 0x49, 0x0D, 0xB2, 0xBA, 0xF4],
    [0x63, 0x5D, 0xA9, 0x5F, 0xD9, 0xD8, 0x4F, 0x99, 0x49, 0x97, 0xCB, 0x20, 0x8E, 0x18, 0x54, 0x24],
    [0x68, 0xB8, 0x05, 0x02, 0xC0, 0x34, 0x19, 0xF3, 0x4F, 0xAA, 0xB8, 0x2A, 0x8B, 0xD9, 0x8F, 0x51],
    [0x16, 0x88, 0x84, 0xFE, 0x96, 0x1E, 0x25, 0x4B, 0xDF, 0xD7, 0x93, 0xEC, 0xD5, 0xAE, 0xCC, 0xC7],
    [0x94, 0x92, 0x6A, 0xD8, 0xDD, 0x94, 0xFD, 0x04, 0xD0, 0x5C, 0xC8, 0xB4, 0x7E, 0x2A, 0x8B, 0xC7],
    [0xA4, 0xBD, 0x2A, 0x04, 0x1B, 0x41, 0xBC, 0x11, 0x81, 0x1A, 0x19, 0x2C, 0xDB, 0x17, 0xC6, 0x79],
    [0x1B, 0xF9, 0xAA, 0xC2, 0x2C, 0x23, 0x11, 0xC0, 0x58, 0xA2, 0xD2, 0x6E, 0x03, 0xE9, 0xAC, 0xBE],
    [0x45, 0x3E, 0x02, 0x00, 0xC4, 0x71, 0xB9, 0xDA, 0x95, 0xFD, 0x79, 0x0B, 0x68, 0x2D, 0x09, 0x03],
    [0x37, 0x39, 0xD4, 0x87, 0xE8, 0xFC, 0x49, 0x7F, 0x2D, 0x7F, 0xB9, 0xA9, 0x44, 0x93, 0x69, 0x26],
    [0xD2, 0x4D, 0xE4, 0x93, 0xE0, 0x95, 0x90, 0xDB, 0x24, 0x76, 0x02, 0x79, 0x41, 0xE6, 0xB5, 0x41],
    [0x26, 0x6D, 0xF7, 0x71, 0xAE, 0xB5, 0x8C, 0x79, 0xA1, 0x8A, 0x95, 0x8F, 0x5F, 0xAA, 0xBA, 0xD5],
    [0x34, 0xD9, 0xD9, 0x5B, 0xBC, 0x64, 0x9C, 0xDA, 0xD1, 0x25, 0xA5, 0x2C, 0xC3, 0x77, 0xB1, 0xBB],
    [0x5D, 0x95, 0xF9, 0xB4, 0x99, 0x0C, 0xB4, 0x3F, 0xA1, 0xEE, 0xBC, 0xAD, 0x8B, 0x1E, 0x54, 0x11],
    [0x6B, 0x14, 0xD9, 0x46, 0x9B, 0x53, 0x63, 0x56, 0x3F, 0x83, 0x0A, 0xFD, 0xDF, 0xF5, 0x3C, 0x3C],
    [0xDF, 0x78, 0xB8, 0xDB, 0x91, 0x84, 0x31, 0x9E, 0x45, 0x51, 0xBC, 0x92, 0xCF, 0x4D, 0xDD, 0x7F],
    [0xF1, 0x68, 0x79, 0xA6, 0x6D, 0x48, 0xE3, 0x52, 0xEE, 0xDC, 0x8A, 0x05, 0xAC, 0x69, 0xF3, 0x32],
    [0x12, 0x23, 0x04, 0xAC, 0x11, 0x9E, 0x82, 0x5B, 0xB2, 0x3D, 0x36, 0xF8, 0x9E, 0x08, 0x81, 0xCE],
    [0xC3, 0x9D, 0x8F, 0xA1, 0xBF, 0x9F, 0x4B, 0x11, 0xCD, 0x93, 0x6C, 0x78, 0xCF, 0x3B, 0xDE, 0xE0],
    [0x32, 0x71, 0x1C, 0x1A, 0x64, 0xB7, 0xC4, 0x18, 0x13, 0xA4, 0xC6, 0x4E, 0xC6, 0x5D, 0x15, 0x14],
    [0x78, 0xC6, 0xF1, 0xCF, 0xBD, 0xA6, 0x3C, 0xE9, 0x2B, 0xBA, 0x96, 0x59, 0x21, 0x55, 0xE9, 0x6B],
    [0x44, 0xB0, 0xC8, 0xE4, 0xF9, 0xBA, 0xB9, 0xA8, 0xF5, 0x74, 0xA0, 0xE2, 0x7B, 0x54, 0xFE, 0xDF],
    [0xE6, 0xAB, 0x34, 0x49, 0x67, 0x19, 0xB7, 0xCB, 0xB5, 0xE1, 0xE4, 0xD7, 0x02, 0xE8, 0x64, 0x3E],
    [0xB9, 0x32, 0x7F, 0x0B, 0x68, 0x30, 0xA9, 0xB3, 0xF5, 0x0E, 0xA8, 0x7D, 0x11, 0xDA, 0xB7, 0xF0],
    [0x69, 0x68, 0xE1, 0x00, 0xB2, 0xC6, 0xF2, 0x9D, 0x63, 0x66, 0xCC, 0x4A, 0xD3, 0x49, 0xFD, 0xB4],
    [0xD2, 0x08, 0xC4, 0x5E, 0x29, 0x5F, 0x89, 0xC0, 0x6F, 0x2E, 0x88, 0xDF, 0x8C, 0x12, 0x38, 0x0C],
    [0x9B, 0x72, 0x4A, 0xBF, 0x5D, 0xD5, 0x78, 0xAC, 0x6A, 0x76, 0xE5, 0xD5, 0x3E, 0xEA, 0xE8, 0x59],
    [0x02, 0xA3, 0x94, 0x21, 0xB5, 0x24, 0x5D, 0x74, 0x36, 0x74, 0x64, 0x8C, 0xF3, 0xD3, 0xCD, 0xAC],
    [0xBC, 0x63, 0x29, 0xDD, 0xA6, 0x75, 0xCC, 0xCE, 0xCF, 0x0F, 0xE9, 0x10, 0x85, 0x42, 0x99, 0x41],
    [0x1C, 0xBB, 0xAB, 0x76, 0x77, 0xAC, 0xB2, 0xA6, 0xF3, 0xE2, 0x6E, 0x7E, 0x5D, 0x16, 0xB0, 0x0D],
    [0x63, 0x6D, 0x8A, 0x2C, 0x02, 0xDE, 0xAA, 0xF4, 0x57, 0x44, 0x5E, 0x90, 0x3E, 0x4B, 0xF4, 0xB1],
    [0xF1, 0x7E, 0xEF, 0x0F, 0x24, 0x38, 0x84, 0x11, 0x8F, 0x22, 0x85, 0xAC, 0x6A, 0x02, 0x2F, 0x0B],
    [0x29, 0xB7, 0xF6, 0xA9, 0xD2, 0xD1, 0xC9, 0xDD, 0xF9, 0x1D, 0x9C, 0xAE, 0x61, 0x77, 0xF2, 0x2B],
    [0x87, 0x73, 0xB9, 0x97, 0x55, 0x64, 0x6D, 0xFA, 0xA3, 0x6F, 0xDB, 0xB3, 0x7D, 0x54, 0xDB, 0xA0],
    [0xE9, 0x96, 0x83, 0x28, 0x00, 0xB3, 0x77, 0x97, 0x0C, 0xAA, 0x7C, 0xF6, 0xDE, 0x3C, 0xAD, 0xAF],
    [0xA6, 0x20, 0x71, 0x0A, 0x34, 0x28, 0xF3, 0xBF, 0xE9, 0xC0, 0x47, 0x37, 0xE1, 0xB2, 0xBF, 0xB2],
    [0x75, 0xA8, 0x30, 0xBC, 0x11, 0x68, 0x3A, 0x23, 0xCE, 0x28, 0xB8, 0xF6, 0x72, 0x78, 0xF1, 0x8C],
    [0xF8, 0x46, 0x43, 0x82, 0x8B, 0x07, 0x8C, 0xE9, 0x66, 0xE5, 0x3E, 0x1C, 0x6B, 0x6D, 0xF0, 0xB3],
    [0x46, 0x7C, 0xBA, 0xEB, 0xEE, 0xBE, 0x89, 0x11, 0x05, 0xAE, 0xB6, 0x3A, 0x0E, 0x52, 0xBC, 0x5E],
    [0xB2, 0xF8, 0x41, 0x47, 0x19, 0xB2, 0x82, 0x8C, 0x05, 0xC3, 0x42, 0x8E, 0x4B, 0xFC, 0xBC, 0x0A],
    [0xC6, 0xC6, 0xD9, 0x72, 0xDD, 0x9B, 0x0E, 0x3B, 0x07, 0xDD, 0xB7, 0xB1, 0xA1, 0xA1, 0x95, 0x75],
    [0xA3, 0x71, 0x63, 0x0A, 0xD5, 0x93, 0x6A, 0x16, 0xFB, 0xB9, 0x80, 0xB8, 0xF9, 0xAD, 0xD5, 0x93],
    [0xC0, 0xD5, 0x8C, 0x5C, 0x39, 0xCE, 0x70, 0x14, 0x23, 0x41, 0x70, 0xE3, 0xE3, 0x3F, 0x4D, 0x10],
    [0x78, 0x17, 0xC9, 0xB9, 0xB0, 0x66, 0x05, 0xA9, 0xE9, 0xA8, 0x37, 0x7A, 0xC9, 0xFC, 0x1A, 0x2E],
    [0xA6, 0xCE, 0x65, 0xD4, 0xB4, 0x2C, 0x49, 0x95, 0x40, 0xE6, 0x13, 0x8B, 0x7F, 0x4D, 0xBD, 0xCF],
    [0x00, 0x00, 0x2D, 0x27, 0x00, 0x31, 0x35, 0xAF, 0x27, 0xDE, 0x30, 0xC3, 0xAA, 0x39, 0x2A, 0xDE],
    [0x2D, 0x04, 0xF0, 0x2B, 0x35, 0xE6, 0x26, 0xD9, 0x99, 0x07, 0x1A, 0x9E, 0x3F, 0x49, 0x39, 0xD4],
    [0xB2, 0xC4, 0x43, 0xA3, 0x80, 0xCA, 0xC3, 0x02, 0x0E, 0x86, 0x8E, 0x45, 0x0E, 0x8D, 0x73, 0x23],
    [0x0B, 0x41, 0xA2, 0xD9, 0x69, 0x1F, 0x2C, 0x4F, 0x47, 0x9E, 0x9E, 0xF6, 0xD2, 0xD5, 0xBF, 0xAB],
    [0x8A, 0xCF, 0x41, 0xAD, 0xAB, 0x67, 0x95, 0xA6, 0x23, 0xA2, 0x06, 0xA2, 0xFD, 0xAA, 0x09, 0x12],
    [0x84, 0x41, 0x82, 0x8B, 0x85, 0x5F, 0x5A, 0xC3, 0x8B, 0x81, 0x59, 0x63, 0x6D, 0x59, 0x10, 0x86],
    [0x56, 0xE4, 0x22, 0xF1, 0x4B, 0x3A, 0xD8, 0x24, 0x1B, 0x32, 0xA0, 0xE8, 0xB7, 0xD9, 0x6E, 0x86],
    [0x93, 0x24, 0x44, 0xE5, 0x64, 0x38, 0xEA, 0x0B, 0x50, 0xFE, 0x5F, 0x47, 0xD4, 0xAE, 0xCE, 0x68],
    [0x5C, 0x72, 0x9D, 0x65, 0x3F, 0xB9, 0xAB, 0xB7, 0x9D, 0x14, 0x71, 0x84, 0x05, 0x8F, 0xBD, 0xAA],
    [0xB5, 0x6C, 0x4A, 0x59, 0xFF, 0x00, 0x11, 0xAF, 0x6F, 0xD9, 0xD5, 0xAB, 0xE8, 0xD5, 0x9C, 0x1E],
    [0xE2, 0x70, 0x5F, 0x28, 0xC7, 0xC6, 0x63, 0xB7, 0x16, 0x4F, 0x33, 0xAC, 0x94, 0xB3, 0x40, 0xE2],
    [0x48, 0xDC, 0x5A, 0xAC, 0xA6, 0xD0, 0x7C, 0x22, 0xCD, 0x72, 0x8B, 0xC9, 0x38, 0x51, 0x58, 0xF9],
    [0x83, 0x8F, 0x97, 0x82, 0x13, 0xC1, 0x78, 0x37, 0x49, 0x19, 0xC1, 0x97, 0x93, 0xEC, 0xB5, 0x6F],
    [0xB2, 0xED, 0x6D, 0x97, 0x3A, 0x1B, 0x99, 0x4F, 0x55, 0xD7, 0xC1, 0x3A, 0x0A, 0x0B, 0xE4, 0xEA],
    [0xF2, 0x7A, 0x55, 0x69, 0xC7, 0x84, 0xD7, 0xCA, 0x4A, 0x50, 0x1E, 0x74, 0x66, 0xF4, 0x6F, 0x49],
    [0x28, 0x2E, 0x7E, 0x26, 0xCB, 0xBF, 0x1B, 0xA6, 0xDA, 0x7D, 0x5D, 0xA2, 0xFB, 0x35, 0x6C, 0x19],
    [0xB8, 0x5E, 0xDE, 0x2D, 0x70, 0x0F, 0xB2, 0xD6, 0x35, 0x5A, 0x24, 0x4B, 0x39, 0x75, 0x85, 0x13],
    [0x36, 0x6A, 0x14, 0xF5, 0xC1, 0x3E, 0x45, 0xD6, 0xA2, 0xB9, 0x65, 0x6C, 0xC3, 0x71, 0x35, 0x9A],
    [0xA9, 0xE5, 0x6D, 0xAA, 0xB6, 0x56, 0xD9, 0x18, 0x22, 0xDC, 0xA3, 0x84, 0x13, 0xE5, 0xA4, 0x31],
    [0x4A, 0xB8, 0x32, 0xF2, 0x72, 0x30, 0xE9, 0x2D, 0x08, 0xFB, 0xCE, 0x22, 0xAD, 0x86, 0xFA, 0x21],
    [0x68, 0x3E, 0x9C, 0x7C, 0xE5, 0xF5, 0x2A, 0xDC, 0xB6, 0x6A, 0x29, 0x2D, 0xE8, 0xEB, 0x00, 0xDE],
    [0xC3, 0x58, 0xFA, 0x09, 0x62, 0x14, 0x72, 0x92, 0x00, 0xFA, 0xE8, 0x87, 0xCC, 0x2B, 0x38, 0xE8],
    [0x47, 0xB6, 0xDE, 0xE6, 0xCD, 0x15, 0xCB, 0x2E, 0xE5, 0x3A, 0xC6, 0xF7, 0x3F, 0xE9, 0x4A, 0xB4],
    [0xDE, 0x78, 0xCF, 0x0F, 0x78, 0x07, 0xC7, 0x58, 0x55, 0xC0, 0x0F, 0xF0, 0x17, 0x8B, 0x6A, 0xC5],
    [0x92, 0x45, 0x1C, 0x8A, 0xEC, 0x3F, 0x73, 0x56, 0xDB, 0x33, 0xFA, 0x4C, 0x5B, 0xF8, 0x8D, 0x5D],
    [0x77, 0xF9, 0x07, 0x85, 0x61, 0x58, 0x56, 0x15, 0x85, 0x61, 0x58, 0x56, 0x15, 0x85, 0x61, 0xC0],
    [0xE1, 0xC2, 0x7F, 0xFF, 0xD9]]"

text \<open>The array and the size the file announces.\<close>

definition data_10k_jpg :: "nat list" where
  "data_10k_jpg = concat (jpg_rows_1 @ jpg_rows_2 @ jpg_rows_3 @ jpg_rows_4)"

definition size_10k_jpg :: nat where "size_10k_jpg = 8229"

text \<open>The extraction with this array: the arguments are what the calls of the operating system answer.\<close>

definition extract_10k :: "bool \<Rightarrow> bool \<Rightarrow> bool \<Rightarrow> nat \<Rightarrow> (int \<times> nat list option) option" where
  "extract_10k dir_exists mkdir_ok fopen_ok written = extract_main dir_exists mkdir_ok fopen_ok written data_10k_jpg size_10k_jpg"

section \<open>Rows\<close>

text \<open>A full row has 16 bytes; only the last one is shorter.\<close>

definition full_row :: "nat list \<Rightarrow> bool" where
  "full_row r \<longleftrightarrow> length r = 16 \<and> list_all (\<lambda>b. b < 256) r"

lemma full_rows_concat:
  "list_all full_row rs \<Longrightarrow> length (concat rs) = 16 * length rs \<and> list_all (\<lambda>b. b < 256) (concat rs)"
  by (induction rs) (auto simp: full_row_def)

lemma jpg_rows_full:
  "list_all full_row jpg_rows_1" "list_all full_row jpg_rows_2" "list_all full_row jpg_rows_3"
  "list_all full_row (butlast jpg_rows_4)"
  by (simp_all add: jpg_rows_1_def jpg_rows_2_def jpg_rows_3_def jpg_rows_4_def full_row_def)

lemma jpg_rows_counts: "length jpg_rows_1 = 140" "length jpg_rows_2 = 140" "length jpg_rows_3 = 140" "length (butlast jpg_rows_4) = 94"
  by (simp_all add: jpg_rows_1_def jpg_rows_2_def jpg_rows_3_def jpg_rows_4_def)

lemma jpg_last_row: "jpg_rows_4 = butlast jpg_rows_4 @ [[0xE1, 0xC2, 0x7F, 0xFF, 0xD9]]"
  by (simp add: jpg_rows_4_def)

lemma data_10k_jpg_parts:
  "data_10k_jpg = concat jpg_rows_1 @ concat jpg_rows_2 @ concat jpg_rows_3 @ concat (butlast jpg_rows_4) @ [0xE1, 0xC2, 0x7F, 0xFF, 0xD9]"
  unfolding data_10k_jpg_def by (subst jpg_last_row) simp

lemma data_10k_jpg_length: "length data_10k_jpg = size_10k_jpg"
  using full_rows_concat[OF jpg_rows_full(1)] full_rows_concat[OF jpg_rows_full(2)] full_rows_concat[OF jpg_rows_full(3)]
    full_rows_concat[OF jpg_rows_full(4)]
  by (simp add: data_10k_jpg_parts jpg_rows_counts size_10k_jpg_def del: length_butlast)

lemma data_10k_jpg_bytes: "\<forall>b \<in> set data_10k_jpg. b < 256"
  using full_rows_concat[OF jpg_rows_full(1)] full_rows_concat[OF jpg_rows_full(2)] full_rows_concat[OF jpg_rows_full(3)]
    full_rows_concat[OF jpg_rows_full(4)]
  by (auto simp: data_10k_jpg_parts list_all_iff simp del: set_concat)

lemma data_10k_jpg_nonempty: "data_10k_jpg \<noteq> []"
  by (simp add: data_10k_jpg_parts)

text \<open>The picture begins and ends with the markers of its format.\<close>

lemma data_10k_jpg_markers: "take 2 data_10k_jpg = [0xFF, 0xD8]" "drop (length data_10k_jpg - 2) data_10k_jpg = [0xFF, 0xD9]"
proof -
  have "take 2 (concat jpg_rows_1) = [0xFF, 0xD8]" by (simp add: jpg_rows_1_def)
  moreover have "2 \<le> length (concat jpg_rows_1)" using full_rows_concat[OF jpg_rows_full(1)] by (simp add: jpg_rows_counts)
  ultimately show "take 2 data_10k_jpg = [0xFF, 0xD8]" by (simp add: data_10k_jpg_parts)
  show "drop (length data_10k_jpg - 2) data_10k_jpg = [0xFF, 0xD9]" by (simp add: data_10k_jpg_parts)
qed

section \<open>Extraction\<close>

text \<open>No run reads behind the array, and what is written is a prefix of the picture, all of it if the run succeeds.\<close>

lemma extract_10k_result:
  "extract_10k dir_exists mkdir_ok fopen_ok written =
     (if \<not> dir_exists \<and> \<not> mkdir_ok \<or> \<not> fopen_ok then Some (1, None)
      else Some (if written = size_10k_jpg then 0 else 1, Some (take written data_10k_jpg)))"
  by (simp add: extract_10k_def extract_main_def data_10k_jpg_length)

text \<open>The extraction of the picture never reads behind the array. If it reports success, the file it wrote holds the announced 8229 bytes,
  which begin and end with the markers of the format, and the tool that generated the array, applied to this file under the name of the
  original, however the file is read in chunks, generates an array of the same bytes with the same size and under the name the extraction uses.\<close>

theorem picture_round_trip:
  assumes "extract_10k dir_exists mkdir_ok fopen_ok written = Some (0, Some bytes)"
    and "concat chunks = bytes" and "[] \<notin> set chunks"
  shows "length bytes = size_10k_jpg \<and> take 2 bytes = [0xFF, 0xD8] \<and> drop (size_10k_jpg - 2) bytes = [0xFF, 0xD9] \<and>
     fst (array_text seekable chunks) = size_10k_jpg \<and> read_hex (snd (array_text seekable chunks)) = data_10k_jpg \<and>
     var_prefix (base_name ''bin2arr/10k.jpg'') = ''10k_jpg''"
proof -
  have b: "bytes = data_10k_jpg"
    using assms(1) by (auto simp: extract_10k_result data_10k_jpg_length[symmetric] split: if_splits)
  have "var_prefix (base_name ''bin2arr/10k.jpg'') = ''10k_jpg''" by code_simp
  then show ?thesis
    using array_text_reads[OF assms(3), of seekable] data_10k_jpg_markers assms(2) data_10k_jpg_bytes
    by (simp add: b data_10k_jpg_length)
qed

theorem picture_round_trip_witness:
  "read_hex (snd (array_text True [data_10k_jpg])) = data_10k_jpg"
  using picture_round_trip[of True False True size_10k_jpg data_10k_jpg "[data_10k_jpg]" True]
  using data_10k_jpg_nonempty by (auto simp: extract_10k_result data_10k_jpg_length[symmetric])

end
