(* ===== verification/Job_Memory.thy ===== *)
theory Job_Memory
  imports Job_Handler "HOL-Library.Multiset"
begin

text \<open>
  The memory of the job handler (\<open>server/job_handler.c\<close>): the copies of input and result data as allocated blocks, and the pointers to them. In
  the theory of the job handler a job holds its bytes; here it holds two pointers, and the blocks are in a heap. What \<open>malloc\<close> returns is an argument, a
  block that is not allocated. A read through a pointer that is \<open>NULL\<close> or was freed, a read behind a block and a second \<open>free\<close> are \<^const>\<open>None\<close>.

  The steps are the critical sections, so the two halves of an assignment can be separated by others. The functions that do not
  touch the two pointers run on the remaining fields.

  The theory shows that at any time the allocated blocks are exactly those of the jobs, and those handed to callers that have not released
  them, each in one place; that cleaning up frees the blocks of the jobs and leaves the others; that the functions are those of the theory of the job
  handler; and when the input of a job that is being sent can be freed.
\<close>

section \<open>State\<close>

type_synonym block = nat
type_synonym job_heap = "block \<rightharpoonup> byte list"

text \<open>\<open>jm_rest\<close> holds all fields but \<open>input_data\<close> and \<open>result_data\<close>, which are the two pointers of a slot; \<open>jm_out\<close> the blocks that were handed out.\<close>

record job_memory =
  jm_heap :: job_heap
  jm_rest :: job_handler
  jm_ptrs :: "(block option \<times> block option) list"
  jm_out :: "block list"

definition initial_memory :: job_memory where
  "initial_memory = \<lparr>jm_heap = Map.empty, jm_rest = initial_job_handler, jm_ptrs = [], jm_out = []\<rparr>"

section \<open>Functions\<close>

text \<open>\<open>free\<close>, which ignores \<open>NULL\<close>.\<close>

definition free_block :: "block option \<Rightarrow> job_heap \<Rightarrow> job_heap option" where
  "free_block p m = (case p of None \<Rightarrow> Some m | Some a \<Rightarrow> if m a = None then None else Some (m(a := None)))"

text \<open>\<open>malloc\<close> and \<open>memcpy\<close> from a caller's buffer; failure to allocate is \<open>Some None\<close>.\<close>

definition malloc_copy :: "block option \<Rightarrow> byte list option \<Rightarrow> nat \<Rightarrow> job_heap \<Rightarrow> (block \<times> job_heap) option option" where
  "malloc_copy new src n m =
     (case new of None \<Rightarrow> Some None
      | Some a \<Rightarrow> (case src of None \<Rightarrow> None | Some bs \<Rightarrow> map_option (\<lambda>d. Some (a, m(a \<mapsto> d))) (mem_read bs n)))"

definition mem_init :: "bool \<Rightarrow> int \<Rightarrow> int \<Rightarrow> job_memory \<Rightarrow> int \<times> job_memory" where
  "mem_init calloc_ok max_jobs job_timeout_seconds s =
     (case job_handler_init calloc_ok max_jobs job_timeout_seconds (jm_rest s) of
        (r, h) \<Rightarrow> (r, s\<lparr>jm_rest := h,
          jm_ptrs := (if max_jobs \<le> 0 then jm_ptrs s else if \<not> calloc_ok then [] else replicate (nat max_jobs) (None, None))\<rparr>))"

fun free_slots :: "(block option \<times> block option) list \<Rightarrow> job_heap \<Rightarrow> job_heap option" where
  "free_slots [] m = Some m"
| "free_slots ((i, r) # ps) m =
     (case free_block i m of None \<Rightarrow> None
      | Some m1 \<Rightarrow> (case free_block r m1 of None \<Rightarrow> None | Some m2 \<Rightarrow> free_slots ps m2))"

definition mem_cleanup :: "job_memory \<Rightarrow> (int \<times> job_memory) option" where
  "mem_cleanup s =
     map_option (\<lambda>m. (0, s\<lparr>jm_heap := m, jm_rest := (jm_rest s)\<lparr>g_jobs := [], g_max_jobs := 0\<rparr>, jm_ptrs := []\<rparr>))
       (free_slots (jm_ptrs s) (jm_heap s))"

definition mem_store ::
  "int \<Rightarrow> int \<Rightarrow> int \<Rightarrow> block option \<Rightarrow> nat \<Rightarrow> int \<Rightarrow> job_heap \<Rightarrow> job_memory \<Rightarrow> (int \<times> job_memory) option" where
  "mem_store now client_socket job_type p n slot m s =
     map_option (\<lambda>(job_id, h). (job_id, s\<lparr>jm_heap := m, jm_rest := h, jm_ptrs := (jm_ptrs s)[nat slot := (p, None)]\<rparr>))
       (store_job now client_socket job_type None n slot (jm_rest s))"

definition mem_submit ::
  "int \<Rightarrow> block option \<Rightarrow> int \<Rightarrow> int \<Rightarrow> byte list option \<Rightarrow> nat \<Rightarrow> job_memory \<Rightarrow> (int \<times> job_memory) option" where
  "mem_submit now new client_socket job_type input_data input_size s =
     (if input_data = None \<and> input_size > 0 then Some (-1, s)
      else let slot = find_free_job_slot (jm_rest s) in
        if slot < 0 then Some (-1, s)
        else if input_size > 0
        then (case malloc_copy new input_data input_size (jm_heap s) of
                None \<Rightarrow> None
              | Some None \<Rightarrow> Some (-1, s)
              | Some (Some (a, m)) \<Rightarrow> mem_store now client_socket job_type (Some a) input_size slot m s)
        else mem_store now client_socket job_type None input_size slot (jm_heap s) s)"

text \<open>The first section of an assignment: the message holds the pointer to the input, which is read when it is sent.\<close>

definition mem_pick :: "int \<Rightarrow> int \<Rightarrow> job_memory \<Rightarrow> (int \<times> int \<times> block option \<times> nat) option \<times> job_memory" where
  "mem_pick now worker_socket s =
     (map_option (\<lambda>i. let j = g_jobs (jm_rest s) ! i in (j_job_id j, j_job_type j, fst (jm_ptrs s ! i), j_input_size j))
        (oldest_pending (jm_rest s)),
      s\<lparr>jm_rest := snd (assign_pick now worker_socket (jm_rest s))\<rparr>)"

definition message_data :: "block option \<Rightarrow> job_memory \<Rightarrow> byte list option option" where
  "message_data p s = (case p of None \<Rightarrow> Some None | Some a \<Rightarrow> map_option Some (jm_heap s a))"

definition mem_rollback :: "int \<Rightarrow> job_memory \<Rightarrow> job_memory" where
  "mem_rollback job_id s = s\<lparr>jm_rest := assign_rollback job_id (jm_rest s)\<rparr>"

definition mem_complete ::
  "int \<Rightarrow> block option \<Rightarrow> int \<Rightarrow> byte list option \<Rightarrow> nat \<Rightarrow> job_memory \<Rightarrow> (int \<times> job_memory \<times> (int \<times> job_msg) list) option" where
  "mem_complete now new job_id result_data result_size s =
     (if result_data = None \<and> result_size > 0 then Some (-1, s, [])
      else (case find_job_by_id (jm_rest s) job_id of
              None \<Rightarrow> Some (-1, s, [])
            | Some i \<Rightarrow>
                let j = g_jobs (jm_rest s) ! i in
                if j_status j \<noteq> JOB_STATUS_ASSIGNED then Some (-1, s, [])
                else (case (if result_size > 0
                            then map_option (map_option (\<lambda>(a, m). (Some a, m))) (malloc_copy new result_data result_size (jm_heap s))
                            else Some (Some (None, jm_heap s))) of
                        None \<Rightarrow> None
                      | Some None \<Rightarrow> Some (-1, s, [])
                      | Some (Some (p, m)) \<Rightarrow>
                          map_option (\<lambda>m'. (0, s\<lparr>jm_heap := m', jm_ptrs := (jm_ptrs s)[i := (fst (jm_ptrs s ! i), p)],
                              jm_rest := (jm_rest s)\<lparr>g_jobs := (g_jobs (jm_rest s))[i := j\<lparr>j_result_size := result_size,
                                  j_status := JOB_STATUS_COMPLETED, j_end_time := now\<rparr>],
                                g_running_jobs := g_running_jobs (jm_rest s) - 1, g_completed_jobs := g_completed_jobs (jm_rest s) + 1\<rparr>\<rparr>,
                              [(j_client_socket j, JobCompleted job_id)]))
                            (free_block (snd (jm_ptrs s ! i)) m))))"

definition mem_fail ::
  "job_params \<Rightarrow> int \<Rightarrow> int \<Rightarrow> int \<Rightarrow> job_memory \<Rightarrow> int \<times> job_memory \<times> (int \<times> job_msg) list" where
  "mem_fail p now job_id error_code s =
     (case job_handler_fail p now job_id error_code (jm_rest s) of (r, h, ms) \<Rightarrow> (r, s\<lparr>jm_rest := h\<rparr>, ms))"

definition mem_check_timeouts :: "job_params \<Rightarrow> int \<Rightarrow> job_memory \<Rightarrow> (int \<times> job_memory \<times> (int \<times> job_msg) list) option" where
  "mem_check_timeouts p now s =
     map_option (\<lambda>(r, h, ms). (r, s\<lparr>jm_rest := h\<rparr>, ms)) (job_handler_check_timeouts p now (jm_rest s))"

text \<open>The copy for the caller. On failure the two results are not written.\<close>

definition mem_get_result ::
  "bool \<Rightarrow> bool \<Rightarrow> block option \<Rightarrow> int \<Rightarrow> job_memory \<Rightarrow> (int \<times> (block option \<times> nat) option \<times> job_memory) option" where
  "mem_get_result have_data have_size new job_id s =
     (if \<not> have_data \<or> \<not> have_size then Some (-1, None, s)
      else (case find_job_by_id (jm_rest s) job_id of
              None \<Rightarrow> Some (-1, None, s)
            | Some i \<Rightarrow>
                let j = g_jobs (jm_rest s) ! i in
                if j_status j \<noteq> JOB_STATUS_COMPLETED then Some (-1, None, s)
                else if j_result_size j > 0
                then (case malloc_copy new (Option.bind (snd (jm_ptrs s ! i)) (jm_heap s)) (j_result_size j) (jm_heap s) of
                        None \<Rightarrow> None
                      | Some None \<Rightarrow> Some (-1, None, s)
                      | Some (Some (a, m)) \<Rightarrow> Some (0, Some (Some a, j_result_size j), s\<lparr>jm_heap := m, jm_out := a # jm_out s\<rparr>))
                else Some (0, Some (None, j_result_size j), s)))"

text \<open>The caller, a handler of the server, frees what it was given once the response is sent.\<close>

definition mem_release :: "block option \<Rightarrow> job_memory \<Rightarrow> job_memory option" where
  "mem_release p s =
     map_option (\<lambda>m. s\<lparr>jm_heap := m, jm_out := (case p of None \<Rightarrow> jm_out s | Some a \<Rightarrow> remove1 a (jm_out s))\<rparr>) (free_block p (jm_heap s))"

section \<open>Steps\<close>

definition fresh :: "block option \<Rightarrow> job_memory \<Rightarrow> bool" where
  "fresh new s \<longleftrightarrow> (case new of None \<Rightarrow> True | Some a \<Rightarrow> jm_heap s a = None)"

inductive jm_step :: "job_params \<Rightarrow> job_memory \<Rightarrow> job_memory \<Rightarrow> bool" for p where
  submit: "fresh new s \<Longrightarrow> mem_submit now new c t data n s = Some (k, s') \<Longrightarrow> jm_step p s s'"
| pick: "mem_pick now w s = (msg, s') \<Longrightarrow> jm_step p s s'"
| rollback: "jm_step p s (mem_rollback k s)"
| complete: "fresh new s \<Longrightarrow> mem_complete now new k data n s = Some (r, s', ms) \<Longrightarrow> jm_step p s s'"
| fail: "mem_fail p now k e s = (r, s', ms) \<Longrightarrow> jm_step p s s'"
| sweep: "mem_check_timeouts p now s = Some (n, s', ms) \<Longrightarrow> jm_step p s s'"
| get_result: "fresh new s \<Longrightarrow> mem_get_result have_data have_size new k s = Some (r, res, s') \<Longrightarrow> jm_step p s s'"
| release: "a \<in> set (jm_out s) \<Longrightarrow> mem_release (Some a) s = Some s' \<Longrightarrow> jm_step p s s'"

inductive jm_reach :: "job_params \<Rightarrow> job_memory \<Rightarrow> bool" for p where
  start: "mem_init True max_jobs timeout initial_memory = (0, s) \<Longrightarrow> jm_reach p s"
| step: "jm_reach p s \<Longrightarrow> jm_step p s s' \<Longrightarrow> jm_reach p s'"

section \<open>Ownership\<close>

text \<open>The allocated blocks are those of a multiset, each in it once.\<close>

definition owns :: "job_heap \<Rightarrow> block multiset \<Rightarrow> bool" where
  "owns m M \<longleftrightarrow> finite (dom m) \<and> mset_set (dom m) = M"

definition opt_block :: "block option \<Rightarrow> block multiset" where
  "opt_block p = (case p of None \<Rightarrow> {#} | Some a \<Rightarrow> {#a#})"

definition slot_blocks :: "(block option \<times> block option) list \<Rightarrow> block multiset" where
  "slot_blocks ps = sum_list (map (\<lambda>(i, r). opt_block i + opt_block r) ps)"

lemma opt_block_simps [simp]: "opt_block None = {#}" "opt_block (Some a) = {#a#}"
  by (simp_all add: opt_block_def)

lemma slot_blocks_simps [simp]: "slot_blocks [] = {#}" "slot_blocks ((i, r) # ps) = opt_block i + opt_block r + slot_blocks ps"
  by (simp_all add: slot_blocks_def)

lemma slot_blocks_replicate [simp]: "slot_blocks (replicate n (None, None)) = {#}"
  by (induction n) auto

lemma slot_blocks_update:
  "i < length ps \<Longrightarrow> slot_blocks (ps[i := (x, y)]) + opt_block (fst (ps ! i)) + opt_block (snd (ps ! i)) =
     slot_blocks ps + opt_block x + opt_block y"
proof (induction ps arbitrary: i)
  case (Cons q ps)
  then show ?case by (cases q; cases i) (auto simp: ac_simps)
qed simp

lemma in_slot_blocks: "a \<in># slot_blocks ps \<longleftrightarrow> (\<exists>(i, r) \<in> set ps. i = Some a \<or> r = Some a)"
  by (induction ps) (auto simp: opt_block_def split: option.splits)

lemma owns_alloc: "owns m M \<Longrightarrow> m a = None \<Longrightarrow> owns (m(a \<mapsto> d)) (add_mset a M)"
  by (auto simp: owns_def domIff)

lemma owns_free:
  assumes "owns m (add_mset a M)"
  shows "m a \<noteq> None" and "a \<notin># M" and "owns (m(a := None)) M"
proof -
  have f: "finite (dom m)" and e: "mset_set (dom m) = add_mset a M" using assms by (auto simp: owns_def)
  have "a \<in># mset_set (dom m)" by (simp add: e)
  then have a: "a \<in> dom m" using f by simp
  then show "m a \<noteq> None" by auto
  have "M = mset_set (dom m) - {#a#}" by (simp add: e)
  then have M: "M = mset_set (dom m - {a})" using f a by (simp add: mset_set_Diff)
  then show "a \<notin># M" using f by simp
  show "owns (m(a := None)) M" using f M by (simp add: owns_def)
qed

lemma owns_in: "owns m M \<Longrightarrow> a \<in># M \<Longrightarrow> m a \<noteq> None"
  using owns_free(1)[of m a "M - {#a#}"] by simp

lemma owns_free_block:
  assumes "owns m (opt_block p + M)"
  shows "\<exists>m'. free_block p m = Some m' \<and> owns m' M \<and> (\<forall>a. a \<in># M \<longrightarrow> m' a = m a)"
  using assms owns_free[of m _ M] by (cases p) (auto simp: free_block_def simp del: not_None_eq)

section \<open>Invariant\<close>

text \<open>A block has the size that is announced for it, and there is none for size 0.\<close>

definition block_ok :: "job_heap \<Rightarrow> block option \<Rightarrow> nat \<Rightarrow> bool" where
  "block_ok m p n \<longleftrightarrow> (case p of None \<Rightarrow> n = 0 | Some a \<Rightarrow> n > 0 \<and> map_option length (m a) = Some n)"

definition slot_ok :: "job_heap \<Rightarrow> block option \<times> block option \<Rightarrow> Job \<Rightarrow> bool" where
  "slot_ok m ir j \<longleftrightarrow> block_ok m (fst ir) (j_input_size j) \<and> block_ok m (snd ir) (j_result_size j) \<and>
     (j_job_id j = 0 \<longrightarrow> ir = (None, None))"

definition mem_wf :: "job_memory \<Rightarrow> bool" where
  "mem_wf s \<longleftrightarrow> owns (jm_heap s) (slot_blocks (jm_ptrs s) + mset (jm_out s)) \<and> 0 < g_next_job_id (jm_rest s) \<and>
     list_all2 (slot_ok (jm_heap s)) (jm_ptrs s) (g_jobs (jm_rest s))"

lemma block_ok_frame: "block_ok m p n \<Longrightarrow> (\<And>a. p = Some a \<Longrightarrow> m' a = m a) \<Longrightarrow> block_ok m' p n"
  by (auto simp: block_ok_def split: option.splits)

lemma block_ok_alloc: "block_ok m p n \<Longrightarrow> m a = None \<Longrightarrow> block_ok (m(a \<mapsto> d)) p n"
  by (cases p) (auto simp: block_ok_def)

lemma slots_ok_alloc: "list_all2 (slot_ok m) ps js \<Longrightarrow> m a = None \<Longrightarrow> list_all2 (slot_ok (m(a \<mapsto> d))) ps js"
  by (erule list_all2_mono) (auto simp: slot_ok_def block_ok_alloc)

text \<open>Blocks that are in no slot do not matter for the slots.\<close>

lemma slots_ok_frame:
  assumes "list_all2 (slot_ok m) ps js" and "\<And>a. a \<in># slot_blocks ps \<Longrightarrow> m' a = m a"
  shows "list_all2 (slot_ok m') ps js"
  using assms
proof (induction rule: list_all2_induct)
  case (Cons p ps j js)
  obtain i r where p: "p = (i, r)" by (cases p)
  have "list_all2 (slot_ok m') ps js" by (rule Cons.IH) (auto simp: p intro!: Cons.prems)
  moreover have "slot_ok m' p j"
    using Cons.hyps(1) Cons.prems by (auto simp: slot_ok_def p intro: block_ok_frame)
  ultimately show ?case by simp
qed simp

text \<open>What the functions that leave the pointers alone may change: no size, no identifier.\<close>

definition same_data :: "job_handler \<Rightarrow> job_handler \<Rightarrow> bool" where
  "same_data h h' \<longleftrightarrow> g_next_job_id h' = g_next_job_id h \<and>
     list_all2 (\<lambda>j j'. j_job_id j' = j_job_id j \<and> j_input_size j' = j_input_size j \<and> j_result_size j' = j_result_size j)
       (g_jobs h) (g_jobs h')"

lemma slots_ok_same: "list_all2 (slot_ok m) ps js \<Longrightarrow>
    list_all2 (\<lambda>j j'. j_job_id j' = j_job_id j \<and> j_input_size j' = j_input_size j \<and> j_result_size j' = j_result_size j) js js' \<Longrightarrow>
    list_all2 (slot_ok m) ps js'"
  by (erule list_all2_trans[rotated 1, of _ _ _ _ js', rotated 1]) (auto simp: slot_ok_def)

lemma same_data_wf: "mem_wf s \<Longrightarrow> same_data (jm_rest s) h \<Longrightarrow> mem_wf (s\<lparr>jm_rest := h\<rparr>)"
  by (auto simp: mem_wf_def same_data_def intro: slots_ok_same)

lemma same_data_refl: "g_next_job_id h' = g_next_job_id h \<Longrightarrow> g_jobs h' = g_jobs h \<Longrightarrow> same_data h h'"
  by (simp add: same_data_def list_all2_refl)

lemma same_data_update:
  assumes "g_next_job_id h' = g_next_job_id h" and "g_jobs h' = (g_jobs h)[i := j]"
    and "j_job_id j = j_job_id (g_jobs h ! i)" and "j_input_size j = j_input_size (g_jobs h ! i)"
    and "j_result_size j = j_result_size (g_jobs h ! i)"
  shows "same_data h h'"
  using assms by (cases "i < length (g_jobs h)") (auto simp: same_data_def list_all2_conv_all_nth nth_list_update)

section \<open>The functions keep the invariant\<close>

lemma pick_same_data: "same_data h (snd (assign_pick now w h))"
  by (auto simp: assign_pick_def Let_def intro: same_data_refl same_data_update split: option.splits)

lemma rollback_same_data: "same_data h (assign_rollback k h)"
  by (auto simp: assign_rollback_def intro: same_data_refl same_data_update split: option.splits)

lemma retry_job_data:
  "retry_job p now st j = (b, j') \<Longrightarrow> j_job_id j' = j_job_id j \<and> j_input_size j' = j_input_size j \<and> j_result_size j' = j_result_size j"
  by (auto simp: retry_job_def Let_def split: if_splits)

lemma fail_same_data: "job_handler_fail p now k e h = (r, h', ms) \<Longrightarrow> same_data h h'"
  by (auto simp: job_handler_fail_def intro: same_data_refl same_data_update dest!: retry_job_data
      split: option.splits if_splits prod.splits bool.splits)

lemma timeout_loop_same_data:
  "job_timeout_loop p now t acc js = Some (acc', js') \<Longrightarrow>
   list_all2 (\<lambda>j j'. j_job_id j' = j_job_id j \<and> j_input_size j' = j_input_size j \<and> j_result_size j' = j_result_size j) js js'"
  by (induction js arbitrary: acc acc' js') (auto simp: Let_def dest!: retry_job_data split: if_splits option.splits prod.splits)

lemma sweep_same_data: "job_handler_check_timeouts p now h = Some (r, h', ms) \<Longrightarrow> same_data h h'"
  by (auto simp: job_handler_check_timeouts_def same_data_def dest: timeout_loop_same_data)

text \<open>A new pointer in a slot that has none.\<close>

lemma store_wf:
  assumes wf: "mem_wf s" and slot: "find_free_job_slot (jm_rest s) \<ge> 0" "slot = find_free_job_slot (jm_rest s)"
    and own: "owns m (opt_block p + (slot_blocks (jm_ptrs s) + mset (jm_out s)))"
    and slots: "list_all2 (slot_ok m) (jm_ptrs s) (g_jobs (jm_rest s))" and p: "block_ok m p n"
    and st: "mem_store now c t p n slot m s = Some (k, s')"
  shows "mem_wf s'"
proof -
  let ?i = "nat slot" and ?h = "jm_rest s" and ?ps = "jm_ptrs s"
  have i: "?i < length (g_jobs ?h)" "j_job_id (g_jobs ?h ! ?i) = 0" using jobs.free_slot_SomeD[OF slot(1)] slot(2) by simp_all
  have len: "length ?ps = length (g_jobs ?h)" using slots by (rule list_all2_lengthD)
  have none: "?ps ! ?i = (None, None)"
    using slots i len by (auto simp: list_all2_conv_all_nth slot_ok_def)
  let ?k = "g_next_job_id ?h"
  have s': "s' = s\<lparr>jm_heap := m, jm_ptrs := ?ps[?i := (p, None)], jm_rest := ?h\<lparr>g_jobs := (g_jobs ?h)[?i := new_job now ?k c t None n],
      g_next_job_id := ?k + 1, g_pending_jobs := g_pending_jobs ?h + 1\<rparr>\<rparr>"
    using st by (auto simp: mem_store_def store_job_def Let_def split: if_splits)
  have "slot_blocks (?ps[?i := (p, None)]) = slot_blocks ?ps + opt_block p"
    using slot_blocks_update[of ?i ?ps p None] i none len by simp
  then have "owns m (slot_blocks (?ps[?i := (p, None)]) + mset (jm_out s))" using own by (simp add: ac_simps)
  moreover have "slot_ok m (p, None) (new_job now ?k c t None n)"
    using p wf by (simp add: slot_ok_def new_job_def mem_wf_def block_ok_def[of m None])
  then have "list_all2 (slot_ok m) (?ps[?i := (p, None)]) ((g_jobs ?h)[?i := new_job now ?k c t None n])"
    by (rule list_all2_update_cong[OF slots])
  ultimately show ?thesis using wf by (simp add: mem_wf_def s')
qed

lemma malloc_copy_Some:
  assumes "malloc_copy new src n m = Some (Some (a, m'))"
  shows "new = Some a" and "\<exists>d. length d = n \<and> m' = m(a \<mapsto> d)"
proof -
  obtain bs where "new = Some a" "n \<le> length bs" "m' = m(a \<mapsto> take n bs)"
    using assms by (auto simp: malloc_copy_def mem_read_def split: option.splits if_splits)
  then show "new = Some a" and "\<exists>d. length d = n \<and> m' = m(a \<mapsto> d)" by (auto intro!: exI[of _ "take n bs"])
qed

lemma submit_wf:
  assumes "mem_wf s" and "fresh new s" and "mem_submit now new c t data n s = Some (k, s')"
  shows "mem_wf s'"
proof (cases "s' = s")
  case False
  let ?slot = "find_free_job_slot (jm_rest s)"
  have slot: "?slot \<ge> 0" using False assms(3) by (auto simp: mem_submit_def Let_def split: if_splits)
  have own: "owns (jm_heap s) (slot_blocks (jm_ptrs s) + mset (jm_out s))"
    and slots: "list_all2 (slot_ok (jm_heap s)) (jm_ptrs s) (g_jobs (jm_rest s))"
    using assms(1) by (auto simp: mem_wf_def)
  show ?thesis
  proof (cases "n > 0")
    case True
    then obtain a m where mc: "malloc_copy new data n (jm_heap s) = Some (Some (a, m))"
      and st: "mem_store now c t (Some a) n ?slot m s = Some (k, s')"
      using False assms(3) slot by (auto simp: mem_submit_def Let_def split: if_splits option.splits)
    obtain d where d: "length d = n" "m = (jm_heap s)(a \<mapsto> d)" using malloc_copy_Some(2)[OF mc] by blast
    have a: "jm_heap s a = None" using malloc_copy_Some(1)[OF mc] assms(2) by (simp add: fresh_def)
    show ?thesis
      by (rule store_wf[OF assms(1) slot refl _ _ _ st])
         (use owns_alloc[OF own a] slots_ok_alloc[OF slots a] d True in \<open>simp_all add: block_ok_def\<close>)
  next
    case n0: False
    then have st: "mem_store now c t None n ?slot (jm_heap s) s = Some (k, s')"
      using False assms(3) slot by (auto simp: mem_submit_def Let_def split: if_splits)
    show ?thesis
      by (rule store_wf[OF assms(1) slot refl _ slots _ st]) (use own n0 in \<open>simp_all add: block_ok_def\<close>)
  qed
qed (use assms in simp)

text \<open>Exchanging the result of a job: the old block is freed, and nothing else.\<close>

lemma exchange_result:
  assumes own: "owns m (opt_block q + (slot_blocks ps + M))" and slots: "list_all2 (slot_ok m) ps js"
    and i: "i < length ps" and q: "block_ok m q (j_result_size j')"
    and j': "j_input_size j' = j_input_size (js ! i)" "j_job_id j' \<noteq> 0"
  shows "\<exists>m'. free_block (snd (ps ! i)) m = Some m' \<and> owns m' (slot_blocks (ps[i := (fst (ps ! i), q)]) + M) \<and>
     list_all2 (slot_ok m') (ps[i := (fst (ps ! i), q)]) (js[i := j'])"
proof -
  let ?x = "fst (ps ! i)" and ?y = "snd (ps ! i)"
  let ?ps0 = "ps[i := (?x, None)]" and ?ps' = "ps[i := (?x, q)]"
  have b0: "slot_blocks ps = slot_blocks ?ps0 + opt_block ?y" and b': "slot_blocks ?ps' = slot_blocks ?ps0 + opt_block q"
    using slot_blocks_update[OF i, of ?x None] slot_blocks_update[of i ?ps0 ?x q] i by simp_all
  have "owns m (opt_block ?y + (slot_blocks ?ps' + M))" using own by (simp add: b0 b' ac_simps)
  then obtain m' where m': "free_block ?y m = Some m'" "owns m' (slot_blocks ?ps' + M)"
    and same: "\<forall>a. a \<in># slot_blocks ?ps' + M \<longrightarrow> m' a = m a"
    using owns_free_block by blast
  have len: "length ps = length js" using slots by (rule list_all2_lengthD)
  have ok: "slot_ok m (ps ! i) (js ! i)" using slots i by (simp add: list_all2_conv_all_nth)
  then have "slot_ok m (?x, q) j'" using q j' by (simp add: slot_ok_def)
  then have "list_all2 (slot_ok m) ?ps' (js[i := j'])" by (rule list_all2_update_cong[OF slots])
  then have "list_all2 (slot_ok m') ?ps' (js[i := j'])" by (rule slots_ok_frame) (use same in simp)
  then show ?thesis using m' by blast
qed

lemma complete_wf:
  assumes wf: "mem_wf s" and "fresh new s" and c: "mem_complete now new k data n s = Some (r, s', ms)"
  shows "mem_wf s'"
proof (cases "s' = s")
  case False
  let ?h = "jm_rest s" and ?ps = "jm_ptrs s"
  have own: "owns (jm_heap s) (slot_blocks ?ps + mset (jm_out s))"
    and slots: "list_all2 (slot_ok (jm_heap s)) ?ps (g_jobs ?h)" and nxt: "0 < g_next_job_id ?h"
    using wf by (auto simp: mem_wf_def)
  obtain i where i: "find_job_by_id ?h k = Some i"
    using False c by (auto simp: mem_complete_def split: if_splits option.splits)
  note l = jobs.lookup_SomeD[OF i]
  let ?j = "g_jobs ?h ! i"
  let ?j' = "?j\<lparr>j_result_size := n, j_status := JOB_STATUS_COMPLETED, j_end_time := now\<rparr>"
  have len: "length ?ps = length (g_jobs ?h)" using slots by (rule list_all2_lengthD)
  have "\<exists>q m. owns m (opt_block q + (slot_blocks ?ps + mset (jm_out s))) \<and> list_all2 (slot_ok m) ?ps (g_jobs ?h) \<and> block_ok m q n \<and>
      (\<forall>m'. free_block (snd (?ps ! i)) m = Some m' \<longrightarrow>
        jm_heap s' = m' \<and> jm_ptrs s' = ?ps[i := (fst (?ps ! i), q)] \<and> jm_out s' = jm_out s \<and>
        g_jobs (jm_rest s') = (g_jobs ?h)[i := ?j'] \<and> g_next_job_id (jm_rest s') = g_next_job_id ?h)"
  proof (cases "n > 0")
    case True
    obtain a m where mc: "malloc_copy new data n (jm_heap s) = Some (Some (a, m))"
      using False c True i by (auto simp: mem_complete_def Let_def split: if_splits option.splits)
    obtain d where d: "length d = n" "m = (jm_heap s)(a \<mapsto> d)" using malloc_copy_Some(2)[OF mc] by blast
    have a: "jm_heap s a = None" using malloc_copy_Some(1)[OF mc] assms(2) by (simp add: fresh_def)
    show ?thesis
      by (intro exI[of _ "Some a"] exI[of _ m] conjI)
         (use owns_alloc[OF own a] slots_ok_alloc[OF slots a] d True c i mc False in
           \<open>auto simp: block_ok_def mem_complete_def Let_def split: if_splits\<close>)
  next
    case n0: False
    show ?thesis
      by (intro exI[of _ None] exI[of _ "jm_heap s"] conjI)
         (use own slots n0 c i False in \<open>auto simp: block_ok_def mem_complete_def Let_def split: if_splits\<close>)
  qed
  then obtain q m where q: "owns m (opt_block q + (slot_blocks ?ps + mset (jm_out s)))" "list_all2 (slot_ok m) ?ps (g_jobs ?h)" "block_ok m q n"
    and s': "\<And>m'. free_block (snd (?ps ! i)) m = Some m' \<Longrightarrow>
        jm_heap s' = m' \<and> jm_ptrs s' = ?ps[i := (fst (?ps ! i), q)] \<and> jm_out s' = jm_out s \<and>
        g_jobs (jm_rest s') = (g_jobs ?h)[i := ?j'] \<and> g_next_job_id (jm_rest s') = g_next_job_id ?h"
    by blast
  have "\<exists>m'. free_block (snd (?ps ! i)) m = Some m' \<and> owns m' (slot_blocks (?ps[i := (fst (?ps ! i), q)]) + mset (jm_out s)) \<and>
     list_all2 (slot_ok m') (?ps[i := (fst (?ps ! i), q)]) ((g_jobs ?h)[i := ?j'])"
    by (rule exchange_result[OF q(1,2)]) (use l len q(3) in simp_all)
  then show ?thesis using s' nxt by (fastforce simp: mem_wf_def)
qed (use wf in simp)

lemma get_result_wf:
  assumes "mem_wf s" and "fresh new s" and "mem_get_result have_data have_size new k s = Some (r, res, s')"
  shows "mem_wf s'"
proof (cases "s' = s")
  case False
  let ?src = "\<lambda>i. Option.bind (snd (jm_ptrs s ! i)) (jm_heap s)"
  obtain i a m where mc: "malloc_copy new (?src i) (j_result_size (g_jobs (jm_rest s) ! i)) (jm_heap s) = Some (Some (a, m))"
    and s': "s' = s\<lparr>jm_heap := m, jm_out := a # jm_out s\<rparr>"
    using False assms(3) by (auto simp: mem_get_result_def Let_def split: if_splits option.splits)
  obtain d where d: "m = (jm_heap s)(a \<mapsto> d)" using malloc_copy_Some(2)[OF mc] by blast
  have a: "jm_heap s a = None" using malloc_copy_Some(1)[OF mc] assms(2) by (simp add: fresh_def)
  show ?thesis
    using assms(1) owns_alloc[of "jm_heap s" _ a d] slots_ok_alloc[of "jm_heap s" _ _ a d] a by (simp add: mem_wf_def s' d)
qed (use assms in simp)

lemma release_wf:
  assumes "mem_wf s" and "a \<in> set (jm_out s)"
  shows "\<exists>s'. mem_release (Some a) s = Some s' \<and> mem_wf s'"
proof -
  let ?M = "slot_blocks (jm_ptrs s) + mset (remove1 a (jm_out s))"
  have out: "mset (jm_out s) = add_mset a (mset (remove1 a (jm_out s)))" using assms(2) by simp
  have own: "owns (jm_heap s) (slot_blocks (jm_ptrs s) + mset (jm_out s))"
    and slots: "list_all2 (slot_ok (jm_heap s)) (jm_ptrs s) (g_jobs (jm_rest s))" and nxt: "0 < g_next_job_id (jm_rest s)"
    using assms(1) by (auto simp: mem_wf_def)
  have "owns (jm_heap s) (add_mset a ?M)" using own unfolding out by (simp del: mset_remove1)
  note f = owns_free[OF this]
  have "list_all2 (slot_ok ((jm_heap s)(a := None))) (jm_ptrs s) (g_jobs (jm_rest s))"
    by (rule slots_ok_frame[OF slots]) (use f(2) in auto)
  then have "mem_wf (s\<lparr>jm_heap := (jm_heap s)(a := None), jm_out := remove1 a (jm_out s)\<rparr>)"
    using f(3) nxt by (simp add: mem_wf_def del: mset_remove1)
  then show ?thesis using f(1) by (auto simp: mem_release_def free_block_def)
qed

lemma jm_step_wf: "jm_step p s s' \<Longrightarrow> mem_wf s \<Longrightarrow> mem_wf s'"
proof (induction rule: jm_step.induct)
  case (submit new s now c t data n k s')
  show ?case by (rule submit_wf[OF submit.prems submit.hyps])
next
  case (pick now w s msg s')
  then have "s' = s\<lparr>jm_rest := snd (assign_pick now w (jm_rest s))\<rparr>" by (simp add: mem_pick_def)
  then show ?case using same_data_wf[OF pick.prems pick_same_data] by simp
next
  case (rollback s k)
  then show ?case using same_data_wf[OF rollback rollback_same_data] by (simp add: mem_rollback_def)
next
  case (complete new s now k data n r s' ms)
  show ?case by (rule complete_wf[OF complete.prems complete.hyps])
next
  case (fail now k e s r s' ms)
  then obtain h where "job_handler_fail p now k e (jm_rest s) = (r, h, ms)" "s' = s\<lparr>jm_rest := h\<rparr>"
    by (cases "job_handler_fail p now k e (jm_rest s)") (simp add: mem_fail_def)
  then show ?case using same_data_wf[OF fail.prems fail_same_data] by simp
next
  case (sweep now s n s' ms)
  then obtain h where "job_handler_check_timeouts p now (jm_rest s) = Some (n, h, ms)" "s' = s\<lparr>jm_rest := h\<rparr>"
    by (auto simp: mem_check_timeouts_def)
  then show ?case using same_data_wf[OF sweep.prems sweep_same_data] by simp
next
  case (get_result new s have_data have_size k r res s')
  show ?case by (rule get_result_wf[OF get_result.prems get_result.hyps])
next
  case (release a s s')
  then show ?case using release_wf[OF release.prems release.hyps(1)] by simp
qed

lemma init_wf:
  assumes "mem_init True max_jobs timeout initial_memory = (0, s)"
  shows "mem_wf s"
proof -
  have "0 < max_jobs" using assms by (auto simp: mem_init_def job_handler_init_def split: if_splits)
  then have "s = initial_memory\<lparr>jm_ptrs := replicate (nat max_jobs) (None, None), jm_rest := initial_job_handler\<lparr>g_jobs := replicate (nat max_jobs) empty_job,
      g_max_jobs := max_jobs, g_job_timeout_seconds := timeout, g_next_job_id := 1\<rparr>\<rparr>"
    using assms by (simp add: mem_init_def job_handler_init_def initial_memory_def)
  then show ?thesis
    by (simp add: mem_wf_def initial_memory_def owns_def list_all2_conv_all_nth slot_ok_def block_ok_def empty_job_def)
qed

lemma jm_reach_wf: "jm_reach p s \<Longrightarrow> mem_wf s"
  by (induction rule: jm_reach.induct) (auto intro: init_wf jm_step_wf)

section \<open>No step goes wrong\<close>

lemma get_result_defined:
  assumes "mem_wf s"
  shows "mem_get_result have_data have_size new k s \<noteq> None"
proof (cases "find_job_by_id (jm_rest s) k")
  case (Some i)
  note l = jobs.lookup_SomeD[OF Some]
  have "slot_ok (jm_heap s) (jm_ptrs s ! i) (g_jobs (jm_rest s) ! i)"
    using assms l by (auto simp: mem_wf_def list_all2_conv_all_nth)
  then show ?thesis
    by (auto simp: mem_get_result_def Some Let_def slot_ok_def block_ok_def malloc_copy_def mem_read_def split: option.splits)
qed (simp add: mem_get_result_def)

text \<open>Completing goes wrong only if the caller's buffer is shorter than announced.\<close>

lemma complete_defined:
  assumes "mem_wf s" and "case data of None \<Rightarrow> True | Some bs \<Rightarrow> n \<le> length bs" and "fresh new s"
  shows "mem_complete now new k data n s \<noteq> None"
proof (cases "find_job_by_id (jm_rest s) k")
  case (Some i)
  note l = jobs.lookup_SomeD[OF Some]
  have "slot_ok (jm_heap s) (jm_ptrs s ! i) (g_jobs (jm_rest s) ! i)"
    using assms l by (auto simp: mem_wf_def list_all2_conv_all_nth)
  then have y: "snd (jm_ptrs s ! i) = Some b \<Longrightarrow> jm_heap s b \<noteq> None" for b by (auto simp: slot_ok_def block_ok_def)
  then have f: "free_block (snd (jm_ptrs s ! i)) (jm_heap s) \<noteq> None"
    and f2: "free_block (snd (jm_ptrs s ! i)) ((jm_heap s)(a \<mapsto> d)) \<noteq> None" for a d
    by (auto simp: free_block_def split: option.splits)
  then show ?thesis using assms(2)
    by (auto simp: mem_complete_def Some Let_def malloc_copy_def mem_read_def split: option.splits)
qed (simp add: mem_complete_def)

lemma free_slots_all:
  "owns m (slot_blocks ps + M) \<Longrightarrow> \<exists>m'. free_slots ps m = Some m' \<and> owns m' M \<and> (\<forall>a. a \<in># M \<longrightarrow> m' a = m a)"
proof (induction ps arbitrary: m)
  case (Cons p ps)
  obtain i r where p: "p = (i, r)" by (cases p)
  have "owns m (opt_block i + (opt_block r + (slot_blocks ps + M)))" using Cons.prems by (simp add: p ac_simps)
  then obtain m1 where m1: "free_block i m = Some m1" "owns m1 (opt_block r + (slot_blocks ps + M))" "\<forall>a. a \<in># M \<longrightarrow> m1 a = m a"
    using owns_free_block[of m i "opt_block r + (slot_blocks ps + M)"] by auto
  then obtain m2 where m2: "free_block r m1 = Some m2" "owns m2 (slot_blocks ps + M)" "\<forall>a. a \<in># M \<longrightarrow> m2 a = m1 a"
    using owns_free_block[of m1 r "slot_blocks ps + M"] by auto
  obtain m' where "free_slots ps m2 = Some m'" "owns m' M" "\<forall>a. a \<in># M \<longrightarrow> m' a = m2 a" using Cons.IH[OF m2(2)] by blast
  then show ?case using m1 m2 by (simp add: p)
qed (simp add: owns_def)

section \<open>The job handler of the theory \<open>Job_Handler\<close>\<close>

text \<open>A job with the bytes its pointers lead to, and the handler with such jobs.\<close>

definition view_job :: "job_heap \<Rightarrow> block option \<times> block option \<Rightarrow> Job \<Rightarrow> Job" where
  "view_job m ir j = j\<lparr>j_input_data := Option.bind (fst ir) m, j_result_data := Option.bind (snd ir) m\<rparr>"

definition view_jobs :: "job_heap \<Rightarrow> (block option \<times> block option) list \<Rightarrow> Job list \<Rightarrow> Job list" where
  "view_jobs m ps js = map2 (view_job m) ps js"

definition view :: "job_memory \<Rightarrow> job_handler" where
  "view s = (jm_rest s)\<lparr>g_jobs := view_jobs (jm_heap s) (jm_ptrs s) (g_jobs (jm_rest s))\<rparr>"

lemma view_job_simps [simp]:
  "j_job_id (view_job m ir j) = j_job_id j" "j_status (view_job m ir j) = j_status j" "j_submit_time (view_job m ir j) = j_submit_time j"
  "j_result_size (view_job m ir j) = j_result_size j" "j_input_size (view_job m ir j) = j_input_size j"
  "j_client_socket (view_job m ir j) = j_client_socket j" "j_job_type (view_job m ir j) = j_job_type j"
  "j_start_time (view_job m ir j) = j_start_time j" "j_retry_count (view_job m ir j) = j_retry_count j"
  "j_input_data (view_job m ir j) = Option.bind (fst ir) m" "j_result_data (view_job m ir j) = Option.bind (snd ir) m"
  by (simp_all add: view_job_def)

lemma view_simps [simp]:
  "g_next_job_id (view s) = g_next_job_id (jm_rest s)" "g_max_jobs (view s) = g_max_jobs (jm_rest s)"
  "g_job_timeout_seconds (view s) = g_job_timeout_seconds (jm_rest s)" "g_pending_jobs (view s) = g_pending_jobs (jm_rest s)"
  "g_running_jobs (view s) = g_running_jobs (jm_rest s)" "g_completed_jobs (view s) = g_completed_jobs (jm_rest s)"
  "g_failed_jobs (view s) = g_failed_jobs (jm_rest s)" "g_jobs (view s) = view_jobs (jm_heap s) (jm_ptrs s) (g_jobs (jm_rest s))"
  by (simp_all add: view_def)

lemma view_jobs_Nil [simp]: "view_jobs m [] [] = []"
  by (simp add: view_jobs_def)

lemma view_jobs_Cons [simp]: "view_jobs m (ir # ps) (j # js) = view_job m ir j # view_jobs m ps js"
  by (simp add: view_jobs_def)

lemma view_jobs_nth [simp]: "length ps = length js \<Longrightarrow> i < length js \<Longrightarrow> view_jobs m ps js ! i = view_job m (ps ! i) (js ! i)"
  by (simp add: view_jobs_def)

lemma view_jobs_length [simp]: "length ps = length js \<Longrightarrow> length (view_jobs m ps js) = length js"
  by (simp add: view_jobs_def)

lemma view_jobs_update:
  "length ps = length js \<Longrightarrow> view_jobs m ps (js[i := j]) = (view_jobs m ps js)[i := view_job m (ps ! i) j]"
  by (cases "i < length js") (auto intro!: nth_equalityI simp: nth_list_update)

lemma find_slot_view:
  "length ps = length js \<Longrightarrow> (\<And>ir j. P (view_job m ir j) = P j) \<Longrightarrow> find_slot P (view_jobs m ps js) = find_slot P js"
  by (induction ps js rule: list_induct2) simp_all

lemma scan_min_view:
  "length ps = length js \<Longrightarrow> (\<And>ir j. P (view_job m ir j) = P j) \<Longrightarrow> (\<And>ir j. key (view_job m ir j) = key j) \<Longrightarrow>
   scan_min P key i best (view_jobs m ps js) = scan_min P key i best js"
  by (induction ps js arbitrary: i best rule: list_induct2) (auto split: option.splits)

lemma mem_wf_length: "mem_wf s \<Longrightarrow> length (jm_ptrs s) = length (g_jobs (jm_rest s))"
  by (auto simp: mem_wf_def dest: list_all2_lengthD)

lemma find_job_view: "mem_wf s \<Longrightarrow> find_job_by_id (view s) k = find_job_by_id (jm_rest s) k"
  by (simp add: find_job_by_id_def find_slot_view mem_wf_length)

lemma free_slot_view: "mem_wf s \<Longrightarrow> find_free_job_slot (view s) = find_free_job_slot (jm_rest s)"
  by (simp add: find_free_job_slot_def find_slot_view mem_wf_length)

lemma oldest_pending_view: "mem_wf s \<Longrightarrow> oldest_pending (view s) = oldest_pending (jm_rest s)"
  by (simp add: oldest_pending_def scan_min_view mem_wf_length is_pending_def)

lemma view_job_ext:
  "j_result_data j = Option.bind (snd ir) m \<Longrightarrow> j_input_data j = Option.bind (fst ir) m \<Longrightarrow> view_job m ir j = j"
  by (simp add: view_job_def)

text \<open>The functions that leave the pointers alone. Updates of the data and of other fields are brought into one order.\<close>

lemma view_order:
  "(h :: job_handler)\<lparr>g_pending_jobs := a, g_jobs := js\<rparr> = h\<lparr>g_jobs := js, g_pending_jobs := a\<rparr>"
  "h\<lparr>g_running_jobs := a, g_jobs := js\<rparr> = h\<lparr>g_jobs := js, g_running_jobs := a\<rparr>"
  "h\<lparr>g_completed_jobs := a, g_jobs := js\<rparr> = h\<lparr>g_jobs := js, g_completed_jobs := a\<rparr>"
  "h\<lparr>g_failed_jobs := a, g_jobs := js\<rparr> = h\<lparr>g_jobs := js, g_failed_jobs := a\<rparr>"
  "h\<lparr>g_next_job_id := a, g_jobs := js\<rparr> = h\<lparr>g_jobs := js, g_next_job_id := a\<rparr>"
  "(j :: Job)\<lparr>j_worker_socket := a, j_input_data := d\<rparr> = j\<lparr>j_input_data := d, j_worker_socket := a\<rparr>"
  "j\<lparr>j_status := st, j_input_data := d\<rparr> = j\<lparr>j_input_data := d, j_status := st\<rparr>"
  "j\<lparr>j_start_time := a, j_input_data := d\<rparr> = j\<lparr>j_input_data := d, j_start_time := a\<rparr>"
  "j\<lparr>j_end_time := a, j_input_data := d\<rparr> = j\<lparr>j_input_data := d, j_end_time := a\<rparr>"
  "j\<lparr>j_result_size := n, j_input_data := d\<rparr> = j\<lparr>j_input_data := d, j_result_size := n\<rparr>"
  "j\<lparr>j_worker_socket := a, j_result_data := d\<rparr> = j\<lparr>j_result_data := d, j_worker_socket := a\<rparr>"
  "j\<lparr>j_status := st, j_result_data := d\<rparr> = j\<lparr>j_result_data := d, j_status := st\<rparr>"
  "j\<lparr>j_start_time := a, j_result_data := d\<rparr> = j\<lparr>j_result_data := d, j_start_time := a\<rparr>"
  "j\<lparr>j_end_time := a, j_result_data := d\<rparr> = j\<lparr>j_result_data := d, j_end_time := a\<rparr>"
  "j\<lparr>j_result_size := n, j_result_data := d\<rparr> = j\<lparr>j_result_data := d, j_result_size := n\<rparr>"
  by simp_all

lemma pick_view:
  assumes "mem_wf s"
  shows "assign_pick now w (view s) =
    (map_option (\<lambda>(k, t, p, n). (k, JobAssigned k t (Option.bind p (jm_heap s)) n)) (fst (mem_pick now w s)), view (snd (mem_pick now w s)))"
proof (cases "oldest_pending (jm_rest s)")
  case (Some i)
  note len = mem_wf_length[OF assms]
  have i: "i < length (g_jobs (jm_rest s))" using oldest_pending_Some[OF Some] by (simp add: is_first_min_def)
  show ?thesis
    using i len by (simp add: mem_pick_def assign_pick_def oldest_pending_view[OF assms, unfolded view_def] Some Let_def view_def
        view_jobs_update view_job_def view_order)
qed (simp add: mem_pick_def assign_pick_def oldest_pending_view[OF assms, unfolded view_def] view_def)

lemma rollback_view:
  assumes "mem_wf s"
  shows "assign_rollback k (view s) = view (mem_rollback k s)"
proof (cases "find_job_by_id (jm_rest s) k")
  case (Some i)
  then show ?thesis using jobs.lookup_SomeD(1)[OF Some] mem_wf_length[OF assms]
    by (simp add: mem_rollback_def assign_rollback_def find_job_view[OF assms, unfolded view_def] view_def view_jobs_update view_job_def view_order)
qed (simp add: mem_rollback_def assign_rollback_def find_job_view[OF assms, unfolded view_def] view_def)

lemma retry_view:
  "retry_job p now st (view_job m ir j) = (case retry_job p now st j of (b, j') \<Rightarrow> (b, view_job m ir j'))"
  by (simp add: retry_job_def Let_def view_job_def)

lemma fail_view:
  assumes "mem_wf s"
  shows "job_handler_fail p now k e (view s) = (case mem_fail p now k e s of (r, s', ms) \<Rightarrow> (r, view s', ms))"
proof (cases "find_job_by_id (jm_rest s) k")
  case (Some i)
  then show ?thesis using jobs.lookup_SomeD(1)[OF Some] mem_wf_length[OF assms]
    by (auto simp: mem_fail_def job_handler_fail_def find_job_view[OF assms, unfolded view_def] view_def view_jobs_update retry_view view_order
        split: prod.splits bool.splits)
qed (simp add: mem_fail_def job_handler_fail_def find_job_view[OF assms, unfolded view_def] view_def)

lemma timeout_loop_view:
  "length ps = length js \<Longrightarrow> job_timeout_loop p now t acc (view_jobs m ps js) =
     map_option (\<lambda>(a, js'). (a, view_jobs m ps js')) (job_timeout_loop p now t acc js)"
proof (induction ps js arbitrary: acc rule: list_induct2)
  case (Cons ir ps j js)
  then show ?case
    by (cases t) (simp_all add: retry_view Let_def option.map_comp comp_def case_prod_unfold)
qed simp

lemma sweep_view:
  assumes "mem_wf s"
  shows "job_handler_check_timeouts p now (view s) = map_option (\<lambda>(r, s', ms). (r, view s', ms)) (mem_check_timeouts p now s)"
  by (simp add: job_handler_check_timeouts_def mem_check_timeouts_def timeout_loop_view[OF mem_wf_length[OF assms]]
      option.map_comp comp_def case_prod_unfold view_def view_order)

text \<open>No block is in two places.\<close>

lemma owns_distinct:
  assumes "owns m (slot_blocks ps + M)" and "i < length ps" and "snd (ps ! i) = Some b" and "n < length ps"
  shows "fst (ps ! n) \<noteq> Some b \<and> (n \<noteq> i \<longrightarrow> snd (ps ! n) \<noteq> Some b) \<and> b \<notin># M"
proof -
  let ?ps0 = "ps[i := (fst (ps ! i), None)]"
  have "slot_blocks ps = add_mset b (slot_blocks ?ps0)"
    using slot_blocks_update[OF assms(2), of "fst (ps ! i)" None] assms(3) by simp
  then have nb: "b \<notin># slot_blocks ?ps0 + M" using owns_free(2)[of m b "slot_blocks ?ps0 + M"] assms(1) by simp
  have "?ps0 ! n \<in> set ?ps0" using assms(4) by simp
  then have "fst (?ps0 ! n) \<noteq> Some b \<and> snd (?ps0 ! n) \<noteq> Some b" using nb by (auto simp: in_slot_blocks)
  then show ?thesis using nb assms(2,4) by (cases "n = i") auto
qed

lemma view_jobs_frame:
  "length ps = length js \<Longrightarrow>
   (\<And>n a. n < length js \<Longrightarrow> fst (ps ! n) = Some a \<or> snd (ps ! n) = Some a \<Longrightarrow> m' a = m a) \<Longrightarrow>
   view_jobs m' ps js = view_jobs m ps js"
  by (rule nth_equalityI) (auto simp: view_job_def bind_eq_Some_conv split: Option.bind_splits)

lemma mem_wf_slot:
  "mem_wf s \<Longrightarrow> n < length (g_jobs (jm_rest s)) \<Longrightarrow> slot_ok (jm_heap s) (jm_ptrs s ! n) (g_jobs (jm_rest s) ! n)"
  by (auto simp: mem_wf_def list_all2_conv_all_nth)

lemma mem_wf_allocated:
  "mem_wf s \<Longrightarrow> n < length (g_jobs (jm_rest s)) \<Longrightarrow> fst (jm_ptrs s ! n) = Some a \<or> snd (jm_ptrs s ! n) = Some a \<Longrightarrow> jm_heap s a \<noteq> None"
  using mem_wf_slot[of s n] by (auto simp: slot_ok_def block_ok_def)

lemma view_jobs_alloc:
  assumes "mem_wf s" and "jm_heap s a = None"
  shows "view_jobs ((jm_heap s)(a \<mapsto> d)) (jm_ptrs s) (g_jobs (jm_rest s)) = view_jobs (jm_heap s) (jm_ptrs s) (g_jobs (jm_rest s))"
proof (rule view_jobs_frame[OF mem_wf_length[OF assms(1)]])
  fix n b assume "n < length (g_jobs (jm_rest s))" and "fst (jm_ptrs s ! n) = Some b \<or> snd (jm_ptrs s ! n) = Some b"
  then have "b \<noteq> a" using mem_wf_allocated[OF assms(1)] assms(2) by blast
  then show "((jm_heap s)(a \<mapsto> d)) b = jm_heap s b" by simp
qed

lemma store_view:
  assumes "mem_wf s" and "view_jobs m (jm_ptrs s) (g_jobs (jm_rest s)) = g_jobs (view s)" and "Option.bind p m = d"
  shows "map_option (\<lambda>(k, s'). (k, view s')) (mem_store now c t p n slot m s) = store_job now c t d n slot (view s)"
proof -
  have "view_jobs m ((jm_ptrs s)[nat slot := (p, None)]) ((g_jobs (jm_rest s))[nat slot := new_job now k c t None n]) =
      (g_jobs (view s))[nat slot := new_job now k c t d n]" for k
  proof (cases "nat slot < length (g_jobs (jm_rest s))")
    case True
    have "view_job m (p, None) (new_job now k c t None n) = new_job now k c t d n" using assms(3) by (simp add: view_job_def new_job_def)
    then show ?thesis
      unfolding assms(2)[symmetric] using True mem_wf_length[OF assms(1)]
      by (intro nth_equalityI) (auto simp: nth_list_update)
  qed (use mem_wf_length[OF assms(1)] assms(2) in \<open>simp add: list_update_beyond\<close>)
  then show ?thesis by (simp add: mem_store_def store_job_def Let_def view_def view_order)
qed

lemma submit_view:
  assumes "mem_wf s" and "fresh new s"
  shows "map_option (\<lambda>(k, s'). (k, view s')) (mem_submit now new c t data n s) = job_handler_submit now (new \<noteq> None) c t data n (view s)"
proof (cases "(data = None \<and> n > 0) \<or> find_free_job_slot (jm_rest s) < 0")
  case False
  show ?thesis
  proof (cases "n > 0")
    case True
    then obtain bs where bs: "data = Some bs" using False by auto
    show ?thesis
    proof (cases new)
      case None
      then show ?thesis using False True bs
        by (simp add: mem_submit_def job_handler_submit_def free_slot_view[OF assms(1)] malloc_copy_def copy_data_def Let_def)
    next
      case (Some a)
      then have a: "jm_heap s a = None" using assms(2) by (simp add: fresh_def)
      have "map_option (\<lambda>(k, s'). (k, view s')) (mem_store now c t (Some a) n sl ((jm_heap s)(a \<mapsto> d)) s) = store_job now c t (Some d) n sl (view s)" for d sl
        by (rule store_view[OF assms(1)]) (use view_jobs_alloc[OF assms(1) a] in simp_all)
      then show ?thesis using False True bs Some
        by (auto simp: mem_submit_def job_handler_submit_def free_slot_view[OF assms(1)] malloc_copy_def copy_data_def mem_read_def Let_def)
    qed
  next
    case n0: False
    then show ?thesis using False store_view[OF assms(1), of "jm_heap s" None None now c t]
      by (simp add: mem_submit_def job_handler_submit_def free_slot_view[OF assms(1)] Let_def)
  qed
qed (auto simp: mem_submit_def job_handler_submit_def free_slot_view[OF assms(1)] Let_def)

text \<open>Exchanging the result of slot \<open>i\<close>: the heap keeps every block the view of the other slots and the input of this one needs.\<close>

lemma exchange_view:
  assumes wf: "mem_wf s" and i: "i < length (g_jobs (jm_rest s))"
    and m: "m = jm_heap s \<or> (\<exists>a d. jm_heap s a = None \<and> m = (jm_heap s)(a \<mapsto> d))"
    and q: "case q of None \<Rightarrow> d = None | Some a \<Rightarrow> jm_heap s a = None \<and> m a = d"
    and f: "free_block (snd (jm_ptrs s ! i)) m = Some m'"
  shows "view_jobs m' ((jm_ptrs s)[i := (fst (jm_ptrs s ! i), q)]) ((g_jobs (jm_rest s))[i := j]) =
    (g_jobs (view s))[i := (view_job (jm_heap s) (jm_ptrs s ! i) j)\<lparr>j_result_data := d\<rparr>]"
proof -
  let ?ps = "jm_ptrs s" and ?js = "g_jobs (jm_rest s)"
  have len: "length ?ps = length ?js" by (rule mem_wf_length[OF wf])
  have own: "owns (jm_heap s) (slot_blocks ?ps + mset (jm_out s))" using wf by (simp add: mem_wf_def)
  have m': "m' b = m b" if "snd (?ps ! i) \<noteq> Some b" for b
    using f that by (auto simp: free_block_def split: option.splits if_splits)
  have mh: "m b = jm_heap s b" if "jm_heap s b \<noteq> None" for b using m that by auto
  have one: "m' b = jm_heap s b" if "n < length ?js" "fst (?ps ! n) = Some b" for n b
    using m'[of b] mh[of b] owns_distinct[OF own, of i b n] mem_wf_allocated[OF wf that(1), of b] that i len by auto
  have two: "m' b = jm_heap s b" if "n < length ?js" "n \<noteq> i" "snd (?ps ! n) = Some b" for n b
    using m'[of b] mh[of b] owns_distinct[OF own, of i b n] mem_wf_allocated[OF wf that(1), of b] that i len by auto
  have q': "Option.bind q m' = d"
  proof (cases q)
    case (Some a)
    then have "snd (?ps ! i) \<noteq> Some a" using q mem_wf_allocated[OF wf i, of a] by auto
    then show ?thesis using m'[of a] q Some by simp
  qed (use q in simp)
  show ?thesis
  proof (rule nth_equalityI)
    fix n assume "n < length (view_jobs m' (?ps[i := (fst (?ps ! i), q)]) (?js[i := j]))"
    then have n: "n < length ?js" using len by simp
    have inp: "Option.bind (fst (?ps ! n)) m' = Option.bind (fst (?ps ! n)) (jm_heap s)"
      using one[OF n] by (cases "fst (?ps ! n)") auto
    have res: "n \<noteq> i \<Longrightarrow> Option.bind (snd (?ps ! n)) m' = Option.bind (snd (?ps ! n)) (jm_heap s)"
      using two[OF n] by (cases "snd (?ps ! n)") auto
    show "view_jobs m' (?ps[i := (fst (?ps ! i), q)]) (?js[i := j]) ! n =
      (g_jobs (view s))[i := (view_job (jm_heap s) (?ps ! i) j)\<lparr>j_result_data := d\<rparr>] ! n"
      using n i len inp res q' by (cases "n = i") (auto simp: view_job_def)
  qed (use len in simp)
qed

lemma complete_view:
  assumes wf: "mem_wf s" and new: "fresh new s"
  shows "map_option (\<lambda>(r, s', ms). (r, view s', ms)) (mem_complete now new k data n s) = job_handler_complete now (new \<noteq> None) k data n (view s)"
proof (cases "find_job_by_id (jm_rest s) k")
  case None
  then show ?thesis by (simp add: mem_complete_def job_handler_complete_def find_job_view[OF wf])
next
  case (Some i)
  note fv = find_job_view[OF wf] find_job_view[OF wf, unfolded view_def]
  note i = jobs.lookup_SomeD(1)[OF Some] and len = mem_wf_length[OF wf]
  let ?j = "g_jobs (jm_rest s) ! i"
  let ?j' = "?j\<lparr>j_result_size := n, j_status := JOB_STATUS_COMPLETED, j_end_time := now\<rparr>"
  have jv: "(view_job m ir ?j)\<lparr>j_result_data := d, j_result_size := l, j_status := JOB_STATUS_COMPLETED, j_end_time := now\<rparr> =
      (view_job m ir (?j\<lparr>j_result_size := l, j_status := JOB_STATUS_COMPLETED, j_end_time := now\<rparr>))\<lparr>j_result_data := d\<rparr>" for m ir d l
    by (simp add: view_job_def)
  have all: "snd (jm_ptrs s ! i) = Some b \<Longrightarrow> jm_heap s b \<noteq> None" for b using mem_wf_allocated[OF wf i] by blast
  then obtain m0 where m0: "free_block (snd (jm_ptrs s ! i)) (jm_heap s) = Some m0"
    by (cases "snd (jm_ptrs s ! i)") (auto simp: free_block_def)
  have alloc: "\<exists>m'. free_block (snd (jm_ptrs s ! i)) ((jm_heap s)(a \<mapsto> d)) = Some m'" for a d
    using all by (cases "snd (jm_ptrs s ! i)") (auto simp: free_block_def)
  show ?thesis
  proof (cases "j_status ?j \<noteq> JOB_STATUS_ASSIGNED \<or> (data = None \<and> n > 0)")
    case True
    then show ?thesis using i len by (auto simp: mem_complete_def job_handler_complete_def fv Some Let_def)
  next
    case ok: False
    show ?thesis
    proof (cases "n > 0")
      case False
      then show ?thesis using ok i len exchange_view[OF wf i, of "jm_heap s" None None m0 ?j'] m0
        by (simp add: mem_complete_def job_handler_complete_def fv Some Let_def view_def view_order jv)
    next
      case True
      then obtain bs where bs: "data = Some bs" using ok by auto
      show ?thesis
      proof (cases new)
        case None
        then show ?thesis using True bs ok i len
          by (simp add: mem_complete_def job_handler_complete_def fv Some Let_def malloc_copy_def copy_data_def)
      next
        case (Some a)
        then have a: "jm_heap s a = None" using new by (simp add: fresh_def)
        obtain m' where m': "free_block (snd (jm_ptrs s ! i)) ((jm_heap s)(a \<mapsto> take n bs)) = Some m'" using alloc by blast
        have "view_jobs m' ((jm_ptrs s)[i := (fst (jm_ptrs s ! i), Some a)]) ((g_jobs (jm_rest s))[i := ?j']) =
            (g_jobs (view s))[i := (view_job (jm_heap s) (jm_ptrs s ! i) ?j')\<lparr>j_result_data := Some (take n bs)\<rparr>]"
          by (rule exchange_view[OF wf i _ _ m']) (use a in auto)
        then show ?thesis using True bs ok i len Some m' \<open>find_job_by_id (jm_rest s) k = Some i\<close>
          by (simp add: mem_complete_def job_handler_complete_def fv Let_def view_def view_order jv
              malloc_copy_def copy_data_def mem_read_def)
      qed
    qed
  qed
qed

lemma get_result_view:
  assumes wf: "mem_wf s" and new: "fresh new s"
  shows "map_option (\<lambda>(r, res, s'). (r, map_option (\<lambda>(q, n). (Option.bind q (jm_heap s'), n)) res)) (mem_get_result have_data have_size new k s) =
      job_handler_get_result have_data have_size (new \<noteq> None) k (view s)"
    and "mem_get_result have_data have_size new k s = Some (r, res, s') \<Longrightarrow> view s' = view s"
proof -
  show "map_option (\<lambda>(r, res, s'). (r, map_option (\<lambda>(q, n). (Option.bind q (jm_heap s'), n)) res)) (mem_get_result have_data have_size new k s) =
      job_handler_get_result have_data have_size (new \<noteq> None) k (view s)"
  proof (cases "find_job_by_id (jm_rest s) k")
    case (Some i)
    note i = jobs.lookup_SomeD(1)[OF Some]
    show ?thesis using i mem_wf_length[OF wf]
      by (auto simp: mem_get_result_def job_handler_get_result_def find_job_view[OF wf] Some Let_def malloc_copy_def copy_data_def
          mem_read_def split: option.splits)
  qed (simp add: mem_get_result_def job_handler_get_result_def find_job_view[OF wf])
  assume g: "mem_get_result have_data have_size new k s = Some (r, res, s')"
  show "view s' = view s"
  proof (cases "s' = s")
    case False
    let ?src = "\<lambda>i. Option.bind (snd (jm_ptrs s ! i)) (jm_heap s)"
    obtain i a m where mc: "malloc_copy new (?src i) (j_result_size (g_jobs (jm_rest s) ! i)) (jm_heap s) = Some (Some (a, m))"
      and s': "s' = s\<lparr>jm_heap := m, jm_out := a # jm_out s\<rparr>"
      using False g by (auto simp: mem_get_result_def Let_def split: if_splits option.splits)
    obtain d where d: "m = (jm_heap s)(a \<mapsto> d)" using malloc_copy_Some(2)[OF mc] by blast
    have "jm_heap s a = None" using malloc_copy_Some(1)[OF mc] new by (simp add: fresh_def)
    then show ?thesis using view_jobs_alloc[OF wf, of a d] by (simp add: s' d view_def)
  qed simp
qed

section \<open>The input of a job while it is sent\<close>

definition keeps_inputs :: "job_memory \<Rightarrow> job_memory \<Rightarrow> bool" where
  "keeps_inputs s s' \<longleftrightarrow> length (jm_ptrs s') = length (jm_ptrs s) \<and>
     (\<forall>i < length (jm_ptrs s). j_job_id (g_jobs (jm_rest s) ! i) \<noteq> 0 \<longrightarrow>
        j_job_id (g_jobs (jm_rest s') ! i) \<noteq> 0 \<and> fst (jm_ptrs s' ! i) = fst (jm_ptrs s ! i) \<and>
        (\<forall>a. fst (jm_ptrs s ! i) = Some a \<longrightarrow> jm_heap s' a = jm_heap s a))"

lemma keeps_inputs_trans: "keeps_inputs s s1 \<Longrightarrow> keeps_inputs s1 s2 \<Longrightarrow> keeps_inputs s s2"
  by (simp add: keeps_inputs_def)

lemma keeps_inputs_refl [simp]: "keeps_inputs s s"
  by (simp add: keeps_inputs_def)

lemma same_data_keeps: "mem_wf s \<Longrightarrow> same_data (jm_rest s) h \<Longrightarrow> keeps_inputs s (s\<lparr>jm_rest := h\<rparr>)"
  by (auto simp: keeps_inputs_def same_data_def list_all2_conv_all_nth mem_wf_length)

lemma store_keeps:
  assumes "mem_wf s" and "find_free_job_slot (jm_rest s) \<ge> 0" and "\<And>a. jm_heap s a \<noteq> None \<Longrightarrow> m a = jm_heap s a"
    and st: "mem_store now c t q n (find_free_job_slot (jm_rest s)) m s = Some (k, s')"
  shows "keeps_inputs s s'"
proof -
  let ?h = "jm_rest s" and ?i = "nat (find_free_job_slot (jm_rest s))"
  have i: "j_job_id (g_jobs ?h ! ?i) = 0" using jobs.free_slot_SomeD(2)[OF assms(2)] .
  have ps: "jm_ptrs s' = (jm_ptrs s)[?i := (q, None)]" and js: "g_jobs (jm_rest s') = (g_jobs ?h)[?i := new_job now (g_next_job_id ?h) c t None n]"
    and m: "jm_heap s' = m"
    using st by (auto simp: mem_store_def store_job_def Let_def split: if_splits)
  have "jm_ptrs s' ! n = jm_ptrs s ! n \<and> g_jobs (jm_rest s') ! n = g_jobs ?h ! n" if "j_job_id (g_jobs ?h ! n) \<noteq> 0" for n
    using i that by (cases "n = ?i") (simp_all add: ps js)
  moreover have "m a = jm_heap s a" if "n < length (g_jobs ?h)" "fst (jm_ptrs s ! n) = Some a" for n a
    using assms(3) mem_wf_allocated[OF assms(1) that(1)] that(2) by blast
  ultimately show ?thesis using ps m by (simp add: keeps_inputs_def mem_wf_length[OF assms(1)])
qed

lemma submit_keeps_inputs:
  assumes "mem_wf s" and "fresh new s" and "mem_submit now new c t data n s = Some (k, s')"
  shows "keeps_inputs s s'"
proof (cases "s' = s")
  case False
  let ?slot = "find_free_job_slot (jm_rest s)"
  have slot: "?slot \<ge> 0" using False assms(3) by (auto simp: mem_submit_def Let_def split: if_splits)
  show ?thesis
  proof (cases "n > 0")
    case True
    then obtain a m where mc: "malloc_copy new data n (jm_heap s) = Some (Some (a, m))"
      and st: "mem_store now c t (Some a) n ?slot m s = Some (k, s')"
      using False assms(3) slot by (auto simp: mem_submit_def Let_def split: if_splits option.splits)
    obtain d where d: "m = (jm_heap s)(a \<mapsto> d)" using malloc_copy_Some(2)[OF mc] by blast
    have "jm_heap s a = None" using malloc_copy_Some(1)[OF mc] assms(2) by (simp add: fresh_def)
    then show ?thesis by (intro store_keeps[OF assms(1) slot _ st]) (auto simp: d)
  next
    case n0: False
    then have st: "mem_store now c t None n ?slot (jm_heap s) s = Some (k, s')"
      using False assms(3) slot by (auto simp: mem_submit_def Let_def split: if_splits)
    show ?thesis by (rule store_keeps[OF assms(1) slot _ st]) simp
  qed
qed simp

lemma complete_effect:
  assumes c: "mem_complete now new k data n s = Some (r, s', ms)" and "fresh new s" and ne: "s' \<noteq> s"
  obtains i q j where "find_job_by_id (jm_rest s) k = Some i" and "jm_ptrs s' = (jm_ptrs s)[i := (fst (jm_ptrs s ! i), q)]"
    and "g_jobs (jm_rest s') = (g_jobs (jm_rest s))[i := j]" and "j_job_id j = j_job_id (g_jobs (jm_rest s) ! i)"
    and "\<forall>b. jm_heap s b \<noteq> None \<and> snd (jm_ptrs s ! i) \<noteq> Some b \<longrightarrow> jm_heap s' b = jm_heap s b"
proof -
  obtain i where i: "find_job_by_id (jm_rest s) k = Some i"
    using c ne by (auto simp: mem_complete_def split: if_splits option.splits)
  let ?y = "snd (jm_ptrs s ! i)"
  let ?j' = "(g_jobs (jm_rest s) ! i)\<lparr>j_result_size := n, j_status := JOB_STATUS_COMPLETED, j_end_time := now\<rparr>"
  have frame: "free_block ?y m = Some m' \<Longrightarrow> ?y \<noteq> Some b \<Longrightarrow> m' b = m b" for m m' b
    by (auto simp: free_block_def split: option.splits if_splits)
  show thesis
  proof (cases "n > 0")
    case True
    obtain a m m' where mc: "malloc_copy new data n (jm_heap s) = Some (Some (a, m))" and f: "free_block ?y m = Some m'"
      and s': "jm_heap s' = m'" "jm_ptrs s' = (jm_ptrs s)[i := (fst (jm_ptrs s ! i), Some a)]"
        "g_jobs (jm_rest s') = (g_jobs (jm_rest s))[i := ?j']"
      using c ne True i by (auto simp: mem_complete_def Let_def split: if_splits option.splits)
    have "m b = jm_heap s b" if "jm_heap s b \<noteq> None" for b
      using malloc_copy_Some[OF mc] assms(2) that by (auto simp: fresh_def)
    then show thesis using that[OF i s'(2,3)] frame[OF f] s'(1) by simp
  next
    case False
    obtain m' where f: "free_block ?y (jm_heap s) = Some m'"
      and s': "jm_heap s' = m'" "jm_ptrs s' = (jm_ptrs s)[i := (fst (jm_ptrs s ! i), None)]"
        "g_jobs (jm_rest s') = (g_jobs (jm_rest s))[i := ?j']"
      using c ne False i by (auto simp: mem_complete_def Let_def split: if_splits option.splits)
    show thesis using that[OF i s'(2,3)] frame[OF f] s'(1) by simp
  qed
qed

lemma complete_keeps_inputs:
  assumes wf: "mem_wf s" and "fresh new s" and "mem_complete now new k data n s = Some (r, s', ms)"
  shows "keeps_inputs s s'"
proof (cases "s' = s")
  case False
  obtain i q j where i: "find_job_by_id (jm_rest s) k = Some i" and ps: "jm_ptrs s' = (jm_ptrs s)[i := (fst (jm_ptrs s ! i), q)]"
    and js: "g_jobs (jm_rest s') = (g_jobs (jm_rest s))[i := j]" "j_job_id j = j_job_id (g_jobs (jm_rest s) ! i)"
    and hp: "\<forall>b. jm_heap s b \<noteq> None \<and> snd (jm_ptrs s ! i) \<noteq> Some b \<longrightarrow> jm_heap s' b = jm_heap s b"
    by (rule complete_effect[OF assms(3,2) False])
  note l = jobs.lookup_SomeD(1)[OF i] and len = mem_wf_length[OF wf]
  have own: "owns (jm_heap s) (slot_blocks (jm_ptrs s) + mset (jm_out s))" using wf by (simp add: mem_wf_def)
  have "jm_heap s' a = jm_heap s a" if "m < length (g_jobs (jm_rest s))" "fst (jm_ptrs s ! m) = Some a" for m a
  proof -
    have "jm_heap s a \<noteq> None" using mem_wf_allocated[OF wf that(1)] that(2) by blast
    moreover have "snd (jm_ptrs s ! i) \<noteq> Some a" using owns_distinct[OF own, of i a m] that l len by auto
    ultimately show ?thesis using hp by blast
  qed
  then show ?thesis using l len js ps by (auto simp: keeps_inputs_def nth_list_update)
qed simp

lemma get_result_keeps:
  assumes wf: "mem_wf s" and "fresh new s" and "mem_get_result have_data have_size new k s = Some (r, res, s')"
  shows "keeps_inputs s s'"
proof (cases "s' = s")
  case False
  let ?src = "\<lambda>i. Option.bind (snd (jm_ptrs s ! i)) (jm_heap s)"
  obtain i a m where mc: "malloc_copy new (?src i) (j_result_size (g_jobs (jm_rest s) ! i)) (jm_heap s) = Some (Some (a, m))"
    and s': "s' = s\<lparr>jm_heap := m, jm_out := a # jm_out s\<rparr>"
    using False assms(3) by (auto simp: mem_get_result_def Let_def split: if_splits option.splits)
  have a: "jm_heap s a = None" using malloc_copy_Some(1)[OF mc] assms(2) by (simp add: fresh_def)
  have "m b = jm_heap s b" if "n < length (g_jobs (jm_rest s))" "fst (jm_ptrs s ! n) = Some b" for n b
    using malloc_copy_Some(2)[OF mc] mem_wf_allocated[OF wf that(1), of b] that a by auto
  then show ?thesis by (auto simp: keeps_inputs_def s' mem_wf_length[OF wf])
qed simp

lemma release_keeps:
  assumes wf: "mem_wf s" and "a \<in> set (jm_out s)" and "mem_release (Some a) s = Some s'"
  shows "keeps_inputs s s'"
proof -
  have s': "jm_heap s' = (jm_heap s)(a := None)" "jm_ptrs s' = jm_ptrs s" "jm_rest s' = jm_rest s"
    using assms(3) by (auto simp: mem_release_def free_block_def split: if_splits)
  have out: "mset (jm_out s) = add_mset a (mset (remove1 a (jm_out s)))" using assms(2) by simp
  have "owns (jm_heap s) (add_mset a (slot_blocks (jm_ptrs s) + mset (remove1 a (jm_out s))))"
    using wf unfolding mem_wf_def out by (simp del: mset_remove1)
  then have "a \<notin># slot_blocks (jm_ptrs s)" using owns_free(2) by fastforce
  moreover have "b \<in># slot_blocks (jm_ptrs s)" if "n < length (jm_ptrs s)" "fst (jm_ptrs s ! n) = Some b" for n b
    using that nth_mem[OF that(1)] by (auto simp: in_slot_blocks intro!: bexI[of _ "jm_ptrs s ! n"] split: prod.splits)
  ultimately show ?thesis by (auto simp: keeps_inputs_def s')
qed

lemma jm_step_keeps: "jm_step p s s' \<Longrightarrow> mem_wf s \<Longrightarrow> keeps_inputs s s'"
proof (induction rule: jm_step.induct)
  case (submit new s now c t data n k s')
  show ?case by (rule submit_keeps_inputs[OF submit.prems submit.hyps])
next
  case (pick now w s msg s')
  then have "s' = s\<lparr>jm_rest := snd (assign_pick now w (jm_rest s))\<rparr>" by (simp add: mem_pick_def)
  then show ?case using same_data_keeps[OF pick.prems pick_same_data] by simp
next
  case (rollback s k)
  then show ?case using same_data_keeps[OF rollback rollback_same_data] by (simp add: mem_rollback_def)
next
  case (complete new s now k data n r s' ms)
  show ?case by (rule complete_keeps_inputs[OF complete.prems complete.hyps])
next
  case (fail now k e s r s' ms)
  then obtain h where "job_handler_fail p now k e (jm_rest s) = (r, h, ms)" "s' = s\<lparr>jm_rest := h\<rparr>"
    by (cases "job_handler_fail p now k e (jm_rest s)") (simp add: mem_fail_def)
  then show ?case using same_data_keeps[OF fail.prems fail_same_data] by simp
next
  case (sweep now s n s' ms)
  then obtain h where "job_handler_check_timeouts p now (jm_rest s) = Some (n, h, ms)" "s' = s\<lparr>jm_rest := h\<rparr>"
    by (auto simp: mem_check_timeouts_def)
  then show ?case using same_data_keeps[OF sweep.prems sweep_same_data] by simp
next
  case (get_result new s have_data have_size k r res s')
  show ?case by (rule get_result_keeps[OF get_result.prems get_result.hyps])
next
  case (release a s s')
  show ?case by (rule release_keeps[OF release.prems release.hyps])
qed

lemma jm_steps_keep: "(jm_step p)\<^sup>*\<^sup>* s s' \<Longrightarrow> mem_wf s \<Longrightarrow> mem_wf s' \<and> keeps_inputs s s'"
  by (induction rule: rtranclp_induct) (auto intro: jm_step_wf jm_step_keeps keeps_inputs_trans)

section \<open>Properties\<close>

text \<open>The blocks of the jobs as a list.\<close>

definition slot_list :: "(block option \<times> block option) list \<Rightarrow> block list" where
  "slot_list ps = concat (map (\<lambda>(i, r). (case i of None \<Rightarrow> [] | Some a \<Rightarrow> [a]) @ (case r of None \<Rightarrow> [] | Some a \<Rightarrow> [a])) ps)"

lemma mset_slot_list: "mset (slot_list ps) = slot_blocks ps"
  by (induction ps) (auto simp: slot_list_def opt_block_def split: option.splits)

lemma owns_list:
  assumes "owns m (mset xs)"
  shows "distinct xs \<and> dom m = set xs"
proof -
  have f: "finite (dom m)" and e: "mset_set (dom m) = mset xs" using assms by (auto simp: owns_def)
  have d: "dom m = set xs" using f e by (metis finite_set_mset_mset_set set_mset_mset)
  have "card (set xs) = length xs" using e by (metis d size_mset size_mset_set)
  then show ?thesis using d card_distinct by blast
qed

lemma cleanup_frees:
  assumes "mem_wf s"
  shows "\<exists>s'. mem_cleanup s = Some (0, s') \<and> jm_heap s' = jm_heap s |` set (jm_out s)"
proof -
  have "owns (jm_heap s) (slot_blocks (jm_ptrs s) + mset (jm_out s))" using assms by (simp add: mem_wf_def)
  from free_slots_all[OF this] obtain m where m: "free_slots (jm_ptrs s) (jm_heap s) = Some m" "owns m (mset (jm_out s))"
    "\<forall>a. a \<in># mset (jm_out s) \<longrightarrow> m a = jm_heap s a" by blast
  have "m a = (jm_heap s |` set (jm_out s)) a" for a
    using m(3) owns_list[OF m(2)] by (cases "a \<in> set (jm_out s)") (auto simp: restrict_map_def domIff)
  then have "m = jm_heap s |` set (jm_out s)" ..
  then show ?thesis using m(1) by (simp add: mem_cleanup_def)
qed

text \<open>C37: Whatever sequence of sections the callers of the job handler run, a failed assignment being taken back at any later time, each allocated block is the input or
  the result of exactly one job, or was handed to a caller that still has to release it, so none is lost; reading a result stays within its block; and cleaning up frees
  every block of a job once and leaves those that were handed out.\<close>

theorem job_memory_exact:
  assumes "jm_reach p s"
  shows "distinct (slot_list (jm_ptrs s) @ jm_out s) \<and> dom (jm_heap s) = set (slot_list (jm_ptrs s) @ jm_out s) \<and>
    mem_get_result have_data have_size new k s \<noteq> None \<and>
    (\<exists>s'. mem_cleanup s = Some (0, s') \<and> jm_heap s' = jm_heap s |` set (jm_out s))"
proof -
  have wf: "mem_wf s" by (rule jm_reach_wf[OF assms])
  then have "owns (jm_heap s) (mset (slot_list (jm_ptrs s) @ jm_out s))" by (simp add: mem_wf_def mset_slot_list)
  then show ?thesis using owns_list get_result_defined[OF wf] cleanup_frees[OF wf] by blast
qed

text \<open>A submitted and assigned job.\<close>

definition mem_start :: job_memory where "mem_start = snd (mem_init True 2 10 initial_memory)"
definition mem_submitted :: job_memory where "mem_submitted = snd (the (mem_submit 100 (Some 3) 4 1 (Some [5, 6]) 2 mem_start))"
definition mem_picked :: job_memory where "mem_picked = snd (mem_pick 200 9 mem_submitted)"

lemmas mem_sample_defs = mem_start_def mem_submitted_def mem_picked_def mem_init_def mem_submit_def mem_pick_def mem_store_def store_job_def
  initial_memory_def initial_job_handler_def job_handler_init_def find_free_job_slot_def malloc_copy_def mem_read_def in_c_int_def
  oldest_pending_def assign_pick_def is_pending_def new_job_def empty_job_def Let_def

lemma mem_picked_eq: "mem_picked = \<lparr>jm_heap = [3 \<mapsto> [5, 6]], jm_rest = (jm_rest mem_picked), jm_ptrs = [(Some 3, None), (None, None)], jm_out = []\<rparr>"
  by (simp add: mem_sample_defs numeral_2_eq_2)

lemma mem_submitted_reach: "jm_reach two_tries mem_submitted"
proof -
  have "mem_init True 2 10 initial_memory = (0, mem_start)" by (simp add: mem_start_def mem_init_def job_handler_init_def)
  then have r: "jm_reach two_tries mem_start" by (rule jm_reach.start)
  have "mem_submit 100 (Some 3) 4 1 (Some [5, 6]) 2 mem_start = Some (1, mem_submitted)"
    by (simp add: mem_sample_defs numeral_2_eq_2)
  moreover have "fresh (Some 3) mem_start" by (simp add: fresh_def mem_start_def mem_init_def initial_memory_def job_handler_init_def)
  ultimately show ?thesis using jm_reach.step[OF r jm_step.submit] by blast
qed

lemma mem_pick_sample: "mem_pick 200 9 mem_submitted = (Some (1, 1, Some 3, 2), mem_picked)"
  by (simp add: mem_picked_def) (simp add: mem_sample_defs numeral_2_eq_2)

lemma mem_picked_reach: "jm_reach two_tries mem_picked"
  using jm_reach.step[OF mem_submitted_reach jm_step.pick[OF mem_pick_sample]] .

theorem job_memory_exact_witness:
  "\<exists>s'. mem_cleanup mem_picked = Some (0, s') \<and> jm_heap s' = Map.empty"
  using job_memory_exact[OF mem_picked_reach] by (subst (asm) (5) mem_picked_eq) simp

text \<open>C38: In every state the callers can reach, the functions of the memory are those of the theory \<open>Job_Handler\<close> on the bytes the pointers lead to: the
  same results, errors, undefined cases, messages and new states, with \<open>malloc\<close> succeeding exactly if it returns a block.\<close>

theorem job_memory_refines:
  assumes "jm_reach p s" and "fresh new s"
  shows "map_option (\<lambda>(k, s'). (k, view s')) (mem_submit now new c t data n s) = job_handler_submit now (new \<noteq> None) c t data n (view s) \<and>
    map_option (\<lambda>(r, s', ms). (r, view s', ms)) (mem_complete now new k data n s) = job_handler_complete now (new \<noteq> None) k data n (view s) \<and>
    map_option (\<lambda>(r, res, s'). (r, map_option (\<lambda>(q, l). (Option.bind q (jm_heap s'), l)) res)) (mem_get_result have_data have_size new k s) =
      job_handler_get_result have_data have_size (new \<noteq> None) k (view s) \<and>
    assign_pick now w (view s) =
      (map_option (\<lambda>(k, t, q, l). (k, JobAssigned k t (Option.bind q (jm_heap s)) l)) (fst (mem_pick now w s)), view (snd (mem_pick now w s))) \<and>
    assign_rollback k (view s) = view (mem_rollback k s) \<and>
    job_handler_fail p now k e (view s) = (case mem_fail p now k e s of (r, s', ms) \<Rightarrow> (r, view s', ms)) \<and>
    job_handler_check_timeouts p now (view s) = map_option (\<lambda>(r, s', ms). (r, view s', ms)) (mem_check_timeouts p now s)"
  using jm_reach_wf[OF assms(1)] assms(2)
  by (intro conjI submit_view complete_view get_result_view(1) pick_view rollback_view fail_view sweep_view)

theorem job_memory_refines_witness:
  "map_option (\<lambda>(r, s', ms). (r, view s', ms)) (mem_complete 300 (Some 4) 1 (Some [7]) 1 mem_picked) =
     job_handler_complete 300 True 1 (Some [7]) 1 (view mem_picked)"
proof -
  have "fresh (Some 4) mem_picked" unfolding fresh_def by (subst mem_picked_eq) simp
  from job_memory_refines[OF mem_picked_reach this, of 300 0 0 "Some [7]" 1 1] show ?thesis by simp
qed

text \<open>C39: The input of an assigned job is sent from its block after the lock was released. Until the job handler is cleaned up no call of any thread frees or
  changes that block, however long the sending takes; but \<open>job_handler_cleanup\<close>, which does not wait for it, frees it.\<close>

theorem sent_input_lives_until_cleanup:
  assumes "jm_reach p s" and "mem_pick now w s = (Some (k, t, Some a, n), s1)" and "(jm_step p)\<^sup>*\<^sup>* s1 s2"
  shows "\<exists>bs. message_data (Some a) s1 = Some (Some bs) \<and> message_data (Some a) s2 = Some (Some bs) \<and> length bs = n \<and>
    (\<exists>s3. mem_cleanup s2 = Some (0, s3) \<and> message_data (Some a) s3 = None)"
proof -
  have wf: "mem_wf s" by (rule jm_reach_wf[OF assms(1)])
  obtain i where i: "oldest_pending (jm_rest s) = Some i" and a: "fst (jm_ptrs s ! i) = Some a" and n: "n = j_input_size (g_jobs (jm_rest s) ! i)"
    using assms(2) by (auto simp: mem_pick_def Let_def)
  have l: "i < length (g_jobs (jm_rest s))" and id: "j_job_id (g_jobs (jm_rest s) ! i) \<noteq> 0"
    using oldest_pending_Some[OF i] by (auto simp: is_first_min_def is_pending_def)
  have st: "jm_step p s s1" by (rule jm_step.pick[OF assms(2)])
  have wf2: "mem_wf s2" and keep: "keeps_inputs s s2"
    using jm_steps_keep[OF converse_rtranclp_into_rtranclp[OF st assms(3)] wf] by simp_all
  obtain bs where bs: "jm_heap s a = Some bs" "length bs = n"
    using mem_wf_slot[OF wf l] a n by (auto simp: slot_ok_def block_ok_def)
  have h1: "jm_heap s1 = jm_heap s" using assms(2) by (auto simp: mem_pick_def)
  have h2: "jm_heap s2 a = jm_heap s a" and p2: "fst (jm_ptrs s2 ! i) = Some a" and l2: "i < length (jm_ptrs s2)"
    using keep l id a mem_wf_length[OF wf] by (auto simp: keeps_inputs_def)
  have "jm_ptrs s2 ! i \<in> set (jm_ptrs s2)" using l2 by simp
  then have "a \<in># slot_blocks (jm_ptrs s2)" using p2 by (auto simp: in_slot_blocks intro!: bexI[of _ "jm_ptrs s2 ! i"] split: prod.splits)
  then have "a \<in> set (slot_list (jm_ptrs s2))" by (simp flip: mset_slot_list)
  moreover have "owns (jm_heap s2) (mset (slot_list (jm_ptrs s2) @ jm_out s2))" using wf2 by (simp add: mem_wf_def mset_slot_list)
  ultimately have "a \<notin> set (jm_out s2)" using owns_list by fastforce
  then show ?thesis using cleanup_frees[OF wf2] bs h1 h2 by (auto simp: message_data_def restrict_map_def)
qed

theorem sent_input_lives_until_cleanup_witness:
  "\<exists>s3. mem_cleanup mem_picked = Some (0, s3) \<and> message_data (Some 3) s3 = None"
  using sent_input_lives_until_cleanup[OF mem_submitted_reach mem_pick_sample rtranclp.rtrancl_refl] by blast

end
