(* ===== verification/Job_Server_Threads.thy ===== *)
theory Job_Server_Threads
  imports Job_Server "HOL-Library.Multiset"
begin

text \<open>
  The threads of the job server as whole functions (\<open>server/server.c\<close>): the accept thread with its loop, and the two threads that serve a connection, from the
  acknowledgement to the end of the loop and the closing of the socket. They are built from the iterations of the theory of the server.

  Each iteration comes with what it meets: for the accept thread whether it finds the server running, what \<open>accept\<close> answers and
  what arrives first on the connection; for a connection what the other threads did to the server since the last iteration, and the answers
  of the system. A list that is used up means that the thread is still running.

  A connection thread begins by calling \<open>free\<close> on the address of its own parameter, which is undefined, and it takes for the socket what
  was passed as a pointer to it. The argument \<open>as_written\<close> keeps these lines, and then the thread is \<^const>\<open>None\<close>; without it they are what they are meant
  to be, taking the accepted socket out of the cell and releasing the cell.

  The theory shows that every connection thread is undefined as it is written; that the accept thread ends in the first iteration that finds the server stopped, that each socket it accepted is either closed by it
  or handed to one thread, and that each such thread, its beginning repaired, closes its socket once and ends, whatever arrives and whatever the other threads do.
\<close>

section \<open>The accept thread\<close>

record accept_round =
  ar_running :: bool
  ar_socket :: int
  ar_events :: "read_event list"
  ar_malloc_ok :: bool
  ar_thread_ok :: bool

text \<open>The threads that were started, with their sockets and what is left to read there, the messages, the closed sockets, and whether the thread has ended.\<close>

record accept_log =
  al_started :: "(connection \<times> int \<times> read_event list) list"
  al_out :: outbox
  al_closed :: "int list"
  al_ended :: bool

text \<open>
  The flag was read at the beginning of the iteration, and it is this copy that is looked at again after a failed \<open>accept\<close>: there it is always set, so
  a failure never ends the loop.
\<close>

fun accept_thread_func :: "bool \<Rightarrow> u32 \<Rightarrow> u32 \<Rightarrow> accept_round list \<Rightarrow> accept_log" where
  "accept_thread_func be cc wc [] = \<lparr>al_started = [], al_out = [], al_closed = [], al_ended = False\<rparr>"
| "accept_thread_func be cc wc (r # rs) =
     (if \<not> ar_running r then \<lparr>al_started = [], al_out = [], al_closed = [], al_ended = True\<rparr>
      else if ar_socket r < 0
      then (if \<not> ar_running r then \<lparr>al_started = [], al_out = [], al_closed = [], al_ended = True\<rparr>
            else accept_thread_func be cc wc rs)
      else (case accept_connection be cc wc (ar_malloc_ok r) (ar_thread_ok r) (ar_socket r) (ar_events r) of
              (started, es, out, closed) \<Rightarrow>
                let l = accept_thread_func be cc wc rs in
                \<lparr>al_started = (case started of None \<Rightarrow> [] | Some kind \<Rightarrow> [(kind, ar_socket r, es)]) @ al_started l,
                 al_out = out @ al_out l, al_closed = closed @ al_closed l, al_ended = al_ended l\<rparr>))"

section \<open>The threads of the connections\<close>

record connection_round =
  cr_other :: "server \<Rightarrow> server"
  cr_env :: server_env

text \<open>The return value once the thread has ended, the server, the messages and the closed sockets.\<close>

record connection_run =
  co_result :: "int option"
  co_server :: server
  co_out :: outbox
  co_closed :: "int list"

fun client_serve_loop ::
  "bool \<Rightarrow> (Message \<Rightarrow> client_header \<times> client_body) \<Rightarrow> int \<Rightarrow> connection_round list \<Rightarrow> read_event list \<Rightarrow> server
   \<Rightarrow> (bool \<times> server \<times> outbox) option" where
  "client_serve_loop be decode sock [] es sv = Some (False, sv, [])"
| "client_serve_loop be decode sock (r # rs) es sv =
     (case client_connection_iteration be decode (cr_env r) sock es (cr_other r sv) of
        None \<Rightarrow> None
      | Some (goes_on, es', sv', out) \<Rightarrow>
          if goes_on then map_option (\<lambda>(ended, sv2, out2). (ended, sv2, out @ out2)) (client_serve_loop be decode sock rs es' sv')
          else Some (True, sv', out))"

fun worker_serve_loop ::
  "bool \<Rightarrow> (Message \<Rightarrow> worker_header \<times> worker_body) \<Rightarrow> int \<Rightarrow> connection_round list \<Rightarrow> read_event list \<Rightarrow> server
   \<Rightarrow> (bool \<times> server \<times> outbox) option" where
  "worker_serve_loop be decode sock [] es sv = Some (False, sv, [])"
| "worker_serve_loop be decode sock (r # rs) es sv =
     (case worker_connection_iteration be decode (cr_env r) sock es (cr_other r sv) of
        None \<Rightarrow> None
      | Some (goes_on, es', sv', out) \<Rightarrow>
          if goes_on then map_option (\<lambda>(ended, sv2, out2). (ended, sv2, out @ out2)) (worker_serve_loop be decode sock rs es' sv')
          else Some (True, sv', out))"

definition handle_client_connection ::
  "bool \<Rightarrow> bool \<Rightarrow> (Message \<Rightarrow> client_header \<times> client_body) \<Rightarrow> server_env \<Rightarrow> int \<Rightarrow> connection_round list \<Rightarrow> read_event list \<Rightarrow> server
   \<Rightarrow> connection_run option" where
  "handle_client_connection as_written be decode e sock rounds es sv =
     (if as_written then None
      else case connection_start e ClientConnection sock of
        (goes_on, ack, closed) \<Rightarrow>
          if \<not> goes_on then Some \<lparr>co_result = Some (-1), co_server = sv, co_out = ack, co_closed = closed\<rparr>
          else map_option (\<lambda>(ended, sv', out).
                 \<lparr>co_result = (if ended then Some 0 else None), co_server = sv', co_out = ack @ out, co_closed = (if ended then [sock] else [])\<rparr>)
                 (client_serve_loop be decode sock rounds es sv))"

definition handle_worker_connection ::
  "bool \<Rightarrow> bool \<Rightarrow> (Message \<Rightarrow> worker_header \<times> worker_body) \<Rightarrow> server_env \<Rightarrow> int \<Rightarrow> connection_round list \<Rightarrow> read_event list \<Rightarrow> server
   \<Rightarrow> connection_run option" where
  "handle_worker_connection as_written be decode e sock rounds es sv =
     (if as_written then None
      else case connection_start e WorkerConnection sock of
        (goes_on, ack, closed) \<Rightarrow>
          if \<not> goes_on then Some \<lparr>co_result = Some (-1), co_server = sv, co_out = ack, co_closed = closed\<rparr>
          else map_option (\<lambda>(ended, sv', out).
                 \<lparr>co_result = (if ended then Some 0 else None), co_server = sv', co_out = ack @ out, co_closed = (if ended then [sock] else [])\<rparr>)
                 (worker_serve_loop be decode sock rounds es sv))"

text \<open>The thread the accept thread starts for a connection.\<close>

definition connection_thread ::
  "bool \<Rightarrow> bool \<Rightarrow> (Message \<Rightarrow> client_header \<times> client_body) \<Rightarrow> (Message \<Rightarrow> worker_header \<times> worker_body) \<Rightarrow> server_env
   \<Rightarrow> (int \<Rightarrow> connection_round list) \<Rightarrow> server \<Rightarrow> connection \<times> int \<times> read_event list \<Rightarrow> connection_run option" where
  "connection_thread as_written be dc dw e rounds sv t =
     (case t of
        (ClientConnection, sock, es) \<Rightarrow> handle_client_connection as_written be dc e sock (rounds sock) es sv
      | (WorkerConnection, sock, es) \<Rightarrow> handle_worker_connection as_written be dw e sock (rounds sock) es sv)"

section \<open>The accept thread closes or hands over\<close>

definition accepted_sockets :: "accept_round list \<Rightarrow> int list" where
  "accepted_sockets rs = filter (\<lambda>s. 0 \<le> s) (map ar_socket (takeWhile ar_running rs))"

lemma accept_connection_cases:
  assumes "accept_connection be cc wc malloc_ok thread_ok sock es = (started, es', out, closed)"
  shows "started = None \<and> closed = [sock] \<or> started \<noteq> None \<and> closed = [] \<and> out = []"
  using assms by (auto simp: accept_connection_def split: prod.splits option.splits if_splits)

lemma accept_thread_sockets:
  "mset (accepted_sockets rs) =
     mset (al_closed (accept_thread_func be cc wc rs)) + mset (map (fst \<circ> snd) (al_started (accept_thread_func be cc wc rs)))"
proof (induction rs)
  case (Cons r rs)
  obtain started es out closed where
    a: "accept_connection be cc wc (ar_malloc_ok r) (ar_thread_ok r) (ar_socket r) (ar_events r) = (started, es, out, closed)"
    by (metis prod.collapse)
  show ?case
    using Cons accept_connection_cases[OF a] by (auto simp: accepted_sockets_def a Let_def)
qed (simp add: accepted_sockets_def)

lemma accept_thread_ends: "al_ended (accept_thread_func be cc wc rs) \<longleftrightarrow> \<not> list_all ar_running rs"
  by (induction rs) (auto simp: Let_def split: prod.splits)

text \<open>Once the server is stopped the list of the rounds that follow does not matter.\<close>

lemma accept_thread_stopped: "\<not> ar_running r \<Longrightarrow> accept_thread_func be cc wc (rs @ r # rs') = accept_thread_func be cc wc (rs @ [r])"
  by (induction rs) auto

text \<open>Only connections that were refused are answered by the accept thread.\<close>

lemma accept_thread_out: "(s, m) \<in> set (al_out (accept_thread_func be cc wc rs)) \<Longrightarrow>
    s \<in> set (al_closed (accept_thread_func be cc wc rs)) \<and> m = ErrorResponse ERR_INVALID_MESSAGE ''Invalid initial message''"
  by (induction rs) (auto simp: Let_def accept_connection_def split: prod.splits if_splits option.splits)

section \<open>The connection threads end\<close>

lemma client_serve_loop_once:
  "client_serve_loop be decode sock (r # rs) es sv = Some (True, cr_other r sv, [])"
proof -
  obtain v m es' where rm: "receive_message be es = ((v, m), es')" by (metis prod.collapse)
  have "v = 0 \<or> v = -1" using rm by (auto simp: receive_message_def Let_def split: prod.splits option.splits)
  then show ?thesis by (auto simp: client_connection_iteration_def rm)
qed

text \<open>What a connection of a worker leaves of the server: the worker is unregistered when a message arrived.\<close>

definition after_worker :: "bool \<Rightarrow> server_env \<Rightarrow> int \<Rightarrow> read_event list \<Rightarrow> server \<Rightarrow> server" where
  "after_worker be e sock es sv =
     (let k = worker_manager_find_by_socket sock (sv_workers sv) in
      if sv_is_running sv \<and> fst (fst (receive_message be es)) = 0 \<and> k \<ge> 0
      then sv\<lparr>sv_workers := snd (worker_manager_unregister (sn_max_job_types e) k (sv_workers sv))\<rparr> else sv)"

lemma worker_serve_loop_once:
  "worker_serve_loop be decode sock (r # rs) es sv = Some (True, after_worker be (cr_env r) sock es (cr_other r sv), [])"
proof -
  obtain v m es' where rm: "receive_message be es = ((v, m), es')" by (metis prod.collapse)
  have "v = 0 \<or> v = -1" using rm by (auto simp: receive_message_def Let_def split: prod.splits option.splits)
  then show ?thesis by (auto simp: worker_connection_iteration_def after_worker_def rm Let_def)
qed

lemma client_thread_run:
  assumes "rounds \<noteq> []"
  shows "handle_client_connection False be decode e sock rounds es sv =
    Some (if sn_send e sock ClientConnectAck < 0
          then \<lparr>co_result = Some (-1), co_server = sv, co_out = [(sock, ClientConnectAck)], co_closed = [sock]\<rparr>
          else \<lparr>co_result = Some 0, co_server = cr_other (hd rounds) sv, co_out = [(sock, ClientConnectAck)], co_closed = [sock]\<rparr>)"
  using assms by (cases rounds) (auto simp: handle_client_connection_def connection_start_def client_serve_loop_once simp del: client_serve_loop.simps)

lemma worker_thread_run:
  assumes "rounds \<noteq> []"
  shows "handle_worker_connection False be decode e sock rounds es sv =
    Some (if sn_send e sock WorkerConnectAck < 0
          then \<lparr>co_result = Some (-1), co_server = sv, co_out = [(sock, WorkerConnectAck)], co_closed = [sock]\<rparr>
          else \<lparr>co_result = Some 0, co_server = after_worker be (cr_env (hd rounds)) sock es (cr_other (hd rounds) sv),
                co_out = [(sock, WorkerConnectAck)], co_closed = [sock]\<rparr>)"
  using assms by (cases rounds) (auto simp: handle_worker_connection_def connection_start_def worker_serve_loop_once simp del: worker_serve_loop.simps)

lemma connection_thread_closes:
  assumes "rounds (fst (snd t)) \<noteq> []"
  shows "\<exists>run. connection_thread False be dc dw e rounds sv t = Some run \<and> co_result run \<noteq> None \<and> co_closed run = [fst (snd t)] \<and>
    length (co_out run) = 1"
  using assms
  by (cases t; cases "fst t") (auto simp: connection_thread_def client_thread_run worker_thread_run)

text \<open>The first lines of a connection thread are undefined.\<close>

lemma connection_thread_undefined: "connection_thread True be dc dw e rounds sv t = None"
  by (simp add: connection_thread_def handle_client_connection_def handle_worker_connection_def split: prod.split connection.split)

text \<open>A connection touches the workers only, and keeps the consistency the other threads leave.\<close>

lemma after_worker_jobs: "sv_jobs (after_worker be e sock es sv) = sv_jobs sv"
  by (simp add: after_worker_def Let_def)

lemma after_worker_inv: "sv_inv p sv \<Longrightarrow> sv_inv p (after_worker be e sock es sv)"
  by (auto simp: after_worker_def Let_def sv_inv_def intro: unregister_inv)

section \<open>Properties\<close>


text \<open>A client whose first message is a connect message, a connection that is not accepted, a sender of something else, and the end of the server.\<close>

definition sample_rounds :: "accept_round list" where
  "sample_rounds = [\<lparr>ar_running = True, ar_socket = 5, ar_events = [Bytes sample_bytes], ar_malloc_ok = True, ar_thread_ok = True\<rparr>,
     \<lparr>ar_running = True, ar_socket = -1, ar_events = [], ar_malloc_ok = True, ar_thread_ok = True\<rparr>,
     \<lparr>ar_running = True, ar_socket = 6, ar_events = [], ar_malloc_ok = True, ar_thread_ok = True\<rparr>,
     \<lparr>ar_running = False, ar_socket = 7, ar_events = [], ar_malloc_ok = True, ar_thread_ok = True\<rparr>]"

lemma sample_connection: "receive_message False [Bytes sample_bytes] = ((0, Some sample_message), [])"
proof -
  have "\<forall>c \<in> set [sample_bytes]. c \<noteq> []" using length_sample_bytes by auto
  then obtain cs where "receive_message False (stream [sample_bytes]) = ((0, Some sample_message), stream cs)" "concat cs = []" "\<forall>c \<in> set cs. c \<noteq> []"
    using receive_sent[OF sample_sent, of "[sample_bytes]" "[]"] by (auto simp: sample_message_def)
  then show ?thesis by (cases cs) auto
qed

lemma sample_accept_log:
  "accept_thread_func False (msg_code MSG_TYPE_REGISTER) 1 sample_rounds =
     \<lparr>al_started = [(ClientConnection, 5, [])], al_out = [], al_closed = [6], al_ended = True\<rparr>"
proof -
  have "fst (fst (receive_message False [])) < 0 \<and> snd (fst (receive_message False [])) = None \<or> snd (fst (receive_message False [])) = None"
    by (simp add: receive_message_def message_size_def header_size_def body_size_def)
  then show ?thesis
    by (auto simp: sample_rounds_def accept_connection_def sample_connection sample_message_def split: prod.splits)
qed


end
