(* ===== verification/System_Mains.thy ===== *)
theory System_Mains
  imports Worker_Server C_Strings "HOL-Library.Multiset"
begin

text \<open>
  The main programs of the central server (\<open>central_server.c\<close>) and of its workers (\<open>worker_server.c\<close>), from their arguments to their exit
  codes, over the functions of the theories of the two programs. A loop takes a list of rounds, each with what the other threads and the signal
  handler did since the last one and what the system answers; \<^const>\<open>None\<close> means that the loop goes on after the last round.

  The theory shows that every connection the central server accepts is closed by the loop or handed to one thread, what is closed when the two programs end and
  with which exit code, and what a worker makes of its arguments.
\<close>

section \<open>The central server\<close>

record central_round =
  cen_other :: "central_server \<Rightarrow> central_server"
  cen_malloc_ok :: bool
  cen_thread_ok :: bool
  cen_socket :: int
  cen_events :: "read_event list"

type_synonym started_handler = "handler \<times> int \<times> read_event list"

fun central_loop :: "bool \<Rightarrow> central_round list \<Rightarrow> central_server \<Rightarrow> (central_server \<times> started_handler list \<times> cs_io list) option" where
  "central_loop be [] s = None"
| "central_loop be (r # rs) s =
     (let s1 = cen_other r s in
      if \<not> cs_running s1 then Some (s1, [], [])
      else (case accept_iteration be (cen_malloc_ok r) (cen_thread_ok r) (cen_socket r) (cen_events r) of
              ((started, es), io) \<Rightarrow>
                map_option (\<lambda>(s2, hs, io2). (s2, (case started of None \<Rightarrow> [] | Some h \<Rightarrow> [(h, cen_socket r, es)]) @ hs, io @ io2))
                  (central_loop be rs s1)))"

record central_end =
  ce_code :: int
  ce_server :: "central_server option"
  ce_started :: "started_handler list"
  ce_io :: "cs_io list"

text \<open>The state after a failed start is given up with the process.\<close>

definition central_main ::
  "bool \<Rightarrow> cs_env \<Rightarrow> (nat \<Rightarrow> worker_info_t) \<Rightarrow> (nat \<Rightarrow> task_info_t) \<Rightarrow> (nat \<Rightarrow> task_t option) \<Rightarrow> bool \<Rightarrow> task_t option \<Rightarrow> int
   \<Rightarrow> central_round list \<Rightarrow> central_end option" where
  "central_main be e wmem tmem qmem thread_ok fresh now rounds =
     (case initialize_server e wmem tmem qmem of
        (None, closed) \<Rightarrow> Some \<lparr>ce_code = 1, ce_server = None, ce_started = [], ce_io = map Closed closed\<rparr>
      | (Some s, closed) \<Rightarrow>
          if \<not> thread_ok
          then (case cleanup_server s of
                  (s', io, _) \<Rightarrow> Some \<lparr>ce_code = 1, ce_server = Some s', ce_started = [], ce_io = map Closed closed @ io\<rparr>)
          else map_option (\<lambda>(s2, hs, io). case cleanup_server s2 of
                 (s3, io2, _) \<Rightarrow> \<lparr>ce_code = 0, ce_server = Some s3, ce_started = hs, ce_io = map Closed closed @ io @ io2\<rparr>)
                 (central_loop be rounds (create_sample_task fresh now s)))"

section \<open>The worker\<close>

definition worker_server_ip :: "string list \<Rightarrow> string" where
  "worker_server_ip argv = (if 2 \<le> length argv then take 15 (argv ! 1) else ''127.0.0.1'')"

text \<open>\<^const>\<open>None\<close>: a number that does not fit into \<open>int\<close>, for which \<open>atoi\<close> is undefined. The conversion to 16 bits wraps.\<close>

definition worker_server_port :: "string list \<Rightarrow> 16 word option" where
  "worker_server_port argv = (if 3 \<le> length argv then map_option word_of_int (atoi (argv ! 2)) else Some 8888)"

text \<open>What the heartbeat thread, the signal handler and the peer did, as a change of the input and of the globals.\<close>

record worker_round =
  wro_other :: "read_event list \<times> worker_server \<Rightarrow> read_event list \<times> worker_server"
  wro_env :: ws_env

fun worker_main_loop ::
  "bool \<Rightarrow> worker_round list \<Rightarrow> read_event list \<Rightarrow> worker_server \<Rightarrow> (worker_server \<times> ws_io list) option" where
  "worker_main_loop be [] es w = None"
| "worker_main_loop be (r # rs) es w =
     (case wro_other r (es, w) of
        (es1, w1) \<Rightarrow>
          if \<not> ws_running w1 then Some (w1, [])
          else (case worker_main_iteration be (wro_env r) es1 w1 of
                  ((goes_on, es2, w2), io) \<Rightarrow>
                    if goes_on then map_option (\<lambda>(w3, io3). (w3, io @ io3)) (worker_main_loop be rs es2 w2)
                    else Some (w2, io)))"

text \<open>\<open>env\<close>: what the socket calls of an attempt answer for an address and a port. The exit code, the globals and the trace.\<close>

definition worker_server_main ::
  "bool \<Rightarrow> string list \<Rightarrow> bool \<Rightarrow> (nat \<Rightarrow> bool) \<Rightarrow> (string \<Rightarrow> 16 word \<Rightarrow> nat \<Rightarrow> socket_env) \<Rightarrow> bool \<Rightarrow> int list \<Rightarrow> read_event list
   \<Rightarrow> worker_round list \<Rightarrow> (int \<times> worker_server \<times> ws_io list) option" where
  "worker_server_main be argv logger_ok run env thread_ok ws es rounds =
     (case worker_server_port argv of
        None \<Rightarrow> None
      | Some port \<Rightarrow>
          (case worker_start_up be logger_ok run (env (worker_server_ip argv) port) thread_ok ws es worker_globals of
             ((ok, es1, w1), io) \<Rightarrow>
               if \<not> ok then Some (1, w1, io)
               else map_option (\<lambda>(w2, io2). case worker_shut_down w2 of (w3, io3) \<Rightarrow> (0, w3, io @ io2 @ io3))
                      (worker_main_loop be rounds es1 w1)))"

section \<open>The loop of the central server\<close>

definition closed_fds :: "cs_io list \<Rightarrow> int list" where
  "closed_fds io = concat (map (\<lambda>x. case x of Closed fd \<Rightarrow> [fd] | Sent fd bs \<Rightarrow> []) io)"

lemma closed_fds_simps [simp]:
  "closed_fds [] = []" "closed_fds (Closed fd # io) = fd # closed_fds io" "closed_fds (Sent fd bs # io) = closed_fds io"
  "closed_fds (io @ io') = closed_fds io @ closed_fds io'" "closed_fds (map Closed fds) = fds"
  by (auto simp: closed_fds_def comp_def)

lemma accept_iteration_socket:
  assumes "accept_iteration be mo th fd es = ((started, es'), io)"
  shows "filter (\<lambda>x. 0 \<le> x) [fd] = closed_fds io @ (case started of None \<Rightarrow> [] | Some h \<Rightarrow> [fd])"
  using assms by (auto simp: accept_iteration_def split: if_splits option.splits prod.splits)

lemma central_loop_sockets:
  assumes "central_loop be rs s = Some (s2, hs, io)"
  shows "\<exists>n < length rs. mset (filter (\<lambda>x. 0 \<le> x) (map cen_socket (take n rs))) = mset (closed_fds io) + mset (map (fst \<circ> snd) hs) \<and>
     s2 = fold cen_other (take (Suc n) rs) s \<and> \<not> cs_running s2"
  using assms
proof (induction rs arbitrary: s hs io)
  case (Cons r rs)
  show ?case
  proof (cases "cs_running (cen_other r s)")
    case False
    then show ?thesis using Cons.prems by (intro exI[of _ 0]) (auto simp: Let_def)
  next
    case True
    obtain started es io1 where a: "accept_iteration be (cen_malloc_ok r) (cen_thread_ok r) (cen_socket r) (cen_events r) = ((started, es), io1)"
      by (metis prod.collapse)
    obtain hs2 io2 where l: "central_loop be rs (cen_other r s) = Some (s2, hs2, io2)"
      and hs: "hs = (case started of None \<Rightarrow> [] | Some h \<Rightarrow> [(h, cen_socket r, es)]) @ hs2" and io: "io = io1 @ io2"
      using Cons.prems True a by (auto simp: Let_def)
    obtain n where n: "n < length rs" "mset (filter (\<lambda>x. 0 \<le> x) (map cen_socket (take n rs))) = mset (closed_fds io2) + mset (map (fst \<circ> snd) hs2)"
      "s2 = fold cen_other (take (Suc n) rs) (cen_other r s)" "\<not> cs_running s2"
      using Cons.IH[OF l] by blast
    have "mset (filter (\<lambda>x. 0 \<le> x) (map cen_socket (take (Suc n) (r # rs)))) =
        mset (filter (\<lambda>x. 0 \<le> x) [cen_socket r]) + mset (filter (\<lambda>x. 0 \<le> x) (map cen_socket (take n rs)))" by simp
    also have "\<dots> = mset (closed_fds io) + mset (map (fst \<circ> snd) hs)"
      unfolding n(2) accept_iteration_socket[OF a] hs io by (auto split: option.splits)
    finally have eq: "mset (filter (\<lambda>x. 0 \<le> x) (map cen_socket (take (Suc n) (r # rs)))) = mset (closed_fds io) + mset (map (fst \<circ> snd) hs)" .
    show ?thesis by (intro exI[of _ "Suc n"] conjI, simp add: n(1), rule eq, simp add: n(3), rule n(4))
  qed
qed simp

lemma central_loop_ends: "\<exists>k < length rs. \<not> cs_running (fold cen_other (take (Suc k) rs) s) \<Longrightarrow> central_loop be rs s \<noteq> None"
proof (induction rs arbitrary: s)
  case (Cons r rs)
  then obtain k where k: "k < length (r # rs)" "\<not> cs_running (fold cen_other (take (Suc k) (r # rs)) s)" by blast
  show ?case
  proof (cases "cs_running (cen_other r s)")
    case True
    then obtain k' where "k = Suc k'" using k(2) by (cases k) auto
    then have "\<exists>k < length rs. \<not> cs_running (fold cen_other (take (Suc k) rs) (cen_other r s))" using k by auto
    then have "central_loop be rs (cen_other r s) \<noteq> None" by (rule Cons.IH)
    then show ?thesis using True by (auto simp: Let_def split: prod.splits)
  qed (simp add: Let_def)
qed simp

section \<open>The trace of the worker\<close>

definition wclosed :: "ws_io list \<Rightarrow> int list" where
  "wclosed io = concat (map (\<lambda>x. case x of WClosed fd \<Rightarrow> [fd] | _ \<Rightarrow> []) io)"

lemma wclosed_simps [simp]:
  "wclosed [] = []" "wclosed (WClosed fd # io) = fd # wclosed io" "wclosed (WSent bs # io) = wclosed io"
  "wclosed (Locked # io) = wclosed io" "wclosed (Unlocked # io) = wclosed io"
  "wclosed (io @ io') = wclosed io @ wclosed io'" "wclosed (map WClosed fds) = fds"
  by (auto simp: wclosed_def comp_def)

lemma send_result_closes_nothing: "send_task_result be ws es result w = ((r, es'), io) \<Longrightarrow> wclosed io = []"
  by (auto simp: send_task_result_def split: if_splits option.splits prod.splits)

lemma main_iteration_socket:
  assumes "worker_main_iteration be e es w = ((goes_on, es', w'), io)"
  shows "wclosed io = [] \<and> ws_server_socket w' = ws_server_socket w"
proof -
  obtain out es1 w1 where m: "main_section be (we_eintr e) es w = (out, es1, w1)" by (metis prod.collapse)
  have "ws_server_socket w1 = ws_server_socket w"
    using m by (auto simp: main_section_def split: if_splits option.splits prod.splits)
  then show ?thesis
    using assms m by (auto simp: worker_main_iteration_def split: main_outcome.splits prod.splits dest: send_result_closes_nothing)
qed

lemma main_loop_socket:
  assumes "\<forall>r \<in> set rs. \<forall>es w. ws_server_socket (snd (wro_other r (es, w))) = ws_server_socket w"
    and "worker_main_loop be rs es w = Some (w', io)"
  shows "wclosed io = [] \<and> ws_server_socket w' = ws_server_socket w"
  using assms
proof (induction rs arbitrary: es w io)
  case (Cons r rs)
  obtain es1 w1 where o: "wro_other r (es, w) = (es1, w1)" by (metis prod.collapse)
  have s1: "ws_server_socket w1 = ws_server_socket w" using Cons.prems(1) o by (metis list.set_intros(1) snd_conv)
  obtain goes_on es2 w2 io2 where i: "worker_main_iteration be (wro_env r) es1 w1 = ((goes_on, es2, w2), io2)" by (metis prod.collapse)
  note s2 = main_iteration_socket[OF i]
  show ?case using Cons.prems Cons.IH[of es2 w2] o s1 s2 i by (auto split: if_splits)
qed simp

lemma start_up_socket:
  assumes "worker_start_up be True run env thread_ok ws es w = ((ok, es', w'), io)" and "connect_to_server run env = (fd, closed)"
  shows "wclosed io = closed @ (if ok \<or> fd < 0 then [] else [fd]) \<and> ws_server_socket w' = fd \<and> (ok \<longrightarrow> 0 \<le> fd)"
proof -
  obtain r es1 w1 io1 where g: "register_with_server be ws es (w\<lparr>ws_server_socket := fd\<rparr>) = ((r, es1, w1), io1)" by (metis prod.collapse)
  have "wclosed io1 = [] \<and> ws_server_socket w1 = fd"
    using g by (auto simp: register_with_server_def split: if_splits option.splits prod.splits)
  then show ?thesis using assms g by (auto simp: worker_start_up_def Let_def split: if_splits)
qed

section \<open>Properties\<close>

text \<open>A central server that starts runs as long as it is not stopped and then ends with code 0. Each connection it accepted until then was closed by the loop or handed to one
  thread, and at the end it closes its own socket and those of the workers that are registered then; the threads are not waited for.\<close>

theorem central_server_ends:
  assumes "initialize_server e wmem tmem qmem = (Some s, closed)" and "\<forall>r \<in> set rounds. \<forall>s. cs_server_socket (cen_other r s) = cs_server_socket s"
    and "\<exists>k < length rounds. \<not> cs_running (fold cen_other (take (Suc k) rounds) (create_sample_task fresh now s))"
  shows "\<exists>s2 hs io n. central_main be e wmem tmem qmem True fresh now rounds =
      Some \<lparr>ce_code = 0, ce_server = Some (fst (cleanup_server s2)), ce_started = hs,
        ce_io = map Closed closed @ io @ Closed (cs_server_socket s) # map Closed (worker_registry_destroy (cs_registry s2))\<rparr> \<and>
     \<not> cs_running s2 \<and> cs_server_socket (fst (cleanup_server s2)) = -1 \<and>
     mset (filter (\<lambda>x. 0 \<le> x) (map cen_socket (take n rounds))) = mset (closed_fds io) + mset (map (fst \<circ> snd) hs)"
proof -
  let ?s0 = "create_sample_task fresh now s"
  obtain s2 hs io where l: "central_loop be rounds ?s0 = Some (s2, hs, io)"
    using central_loop_ends[OF assms(3), of be] by auto
  obtain n where n: "mset (filter (\<lambda>x. 0 \<le> x) (map cen_socket (take n rounds))) = mset (closed_fds io) + mset (map (fst \<circ> snd) hs)"
    "s2 = fold cen_other (take (Suc n) rounds) ?s0" "\<not> cs_running s2"
    using central_loop_sockets[OF l] by blast
  have keep: "\<forall>r \<in> set rs. \<forall>s. cs_server_socket (cen_other r s) = cs_server_socket s \<Longrightarrow> cs_server_socket (fold cen_other rs x) = cs_server_socket x" for rs x
    by (induction rs arbitrary: x) auto
  have "cs_server_socket ?s0 = cs_server_socket s" by (auto simp: create_sample_task_def split: option.splits prod.splits)
  then have fd: "cs_server_socket s2 = cs_server_socket s"
    unfolding n(2) using assms(2) by (subst keep) (auto dest: in_set_takeD)
  have "0 \<le> cs_server_socket s"
    using assms(1) by (auto simp: initialize_server_def split: if_splits option.splits prod.splits)
  then have "central_main be e wmem tmem qmem True fresh now rounds =
      Some \<lparr>ce_code = 0, ce_server = Some (fst (cleanup_server s2)), ce_started = hs,
        ce_io = map Closed closed @ io @ Closed (cs_server_socket s) # map Closed (worker_registry_destroy (cs_registry s2))\<rparr> \<and>
     cs_server_socket (fst (cleanup_server s2)) = -1"
    using fd by (simp add: central_main_def assms(1) l cleanup_server_def)
  then show ?thesis using n by blast
qed

text \<open>A worker that could open its log ends with every socket closed that it opened, the failed attempts and the one it was connected with, each once, and
  with code 0 exactly if it was connected, registered and could start its heartbeat thread; whatever the other thread does to the input.\<close>

theorem worker_server_closes_sockets:
  assumes "worker_server_main be argv True run env thread_ok ws es rounds = Some (code, w, io)"
    and "\<forall>r \<in> set rounds. \<forall>es w. ws_server_socket (snd (wro_other r (es, w))) = ws_server_socket w"
    and "worker_server_port argv = Some port" and "connect_to_server run (env (worker_server_ip argv) port) = (fd, closed)"
  shows "wclosed io = closed @ (if fd < 0 then [] else [fd]) \<and>
    code = (if fst (fst (worker_start_up be True run (env (worker_server_ip argv) port) thread_ok ws es worker_globals)) then 0 else 1) \<and>
    (code = 0 \<longrightarrow> ws_server_socket w = -1)"
proof -
  obtain ok es1 w1 io1 where u: "worker_start_up be True run (env (worker_server_ip argv) port) thread_ok ws es worker_globals = ((ok, es1, w1), io1)"
    by (metis prod.collapse)
  note st = start_up_socket[OF u assms(4)]
  show ?thesis
  proof (cases ok)
    case True
    then obtain w2 io2 where l: "worker_main_loop be rounds es1 w1 = Some (w2, io2)"
      and r: "code = 0" "io = io1 @ io2 @ snd (worker_shut_down w2)" "w = fst (worker_shut_down w2)"
      using assms(1,3) by (auto simp: worker_server_main_def u case_prod_beta)
    show ?thesis using main_loop_socket[OF assms(2) l] st r True by (simp add: u worker_shut_down_def)
  qed (use assms(1,3) st u in \<open>auto simp: worker_server_main_def\<close>)
qed

text \<open>The port argument is taken modulo \<open>2^16\<close>, and an address of more than fifteen characters is cut off.\<close>

theorem worker_arguments_wrap:
  assumes "atoi p = Some n"
  shows "\<exists>port. worker_server_port [prog, a, p] = Some port \<and> uint port = n mod 65536 \<and> length (worker_server_ip [prog, a, p]) \<le> 15"
  using assms by (simp add: worker_server_port_def worker_server_ip_def uint_word_of_int)

theorem worker_arguments_wrap_witness: "\<exists>port. worker_server_port [''w'', ''::1'', ''65537''] = Some port \<and> uint port = 1"
  using worker_arguments_wrap[of "''65537''" 65537 "''w''" "''::1''"]
  by (auto simp: atoi_def is_space_char_def is_digit_char_def decimal_value_def in_c_int_def)

text \<open>A start-up that works, a connection that is refused, and the signal.\<close>

definition sample_central_rounds :: "central_round list" where
  "sample_central_rounds = [\<lparr>cen_other = id, cen_malloc_ok = False, cen_thread_ok = True, cen_socket = 7, cen_events = []\<rparr>,
     \<lparr>cen_other = signal_handler, cen_malloc_ok = True, cen_thread_ok = True, cen_socket = 8, cen_events = []\<rparr>]"

theorem central_server_ends_witness:
  "\<exists>s2 hs io. central_main False boot_env (\<lambda>_. sample_worker 0 0) (\<lambda>_. new_task_info 0 sample_block) (\<lambda>_. None) True (Some sample_block) 5 sample_central_rounds =
      Some \<lparr>ce_code = 0, ce_server = Some (fst (cleanup_server s2)), ce_started = hs,
        ce_io = io @ Closed 3 # map Closed (worker_registry_destroy (cs_registry s2))\<rparr> \<and> \<not> cs_running s2"
proof -
  have stop: "\<exists>k < length sample_central_rounds. \<not> cs_running (fold cen_other (take (Suc k) sample_central_rounds) (create_sample_task (Some sample_block) 5 booted))"
    by (intro exI[of _ 1]) (simp add: sample_central_rounds_def signal_handler_def)
  have keep: "\<forall>r \<in> set sample_central_rounds. \<forall>s. cs_server_socket (cen_other r s) = cs_server_socket s"
    by (simp add: sample_central_rounds_def signal_handler_def)
  have "cs_server_socket booted = 3" by (simp add: booted_def)
  then show ?thesis using central_server_ends[OF booted_ok keep stop, of False] by auto
qed

end
