(* ===== verification/Texts.thy ===== *)
theory Texts
  imports Server_Main Worker_Main Client_Main Traffic_Analyzer
begin

text \<open>
  What the main programs print when they are asked for help (\<open>print_usage\<close> of \<open>server_main.c\<close>, \<open>worker_main.c\<close> and \<open>client_main.c\<close>), and the time
  stamps of the logger and the common utilities (\<open>get_time_str\<close>, \<open>get_timestamp_str\<close>). The default log level of two of the programs comes from a header that is
  not in the repository and is an argument. A time is given broken down, as \<open>localtime\<close> returns it.

  The theory shows that each help text describes the options its program takes, all of them and no other, in the order of its table; and when a time
  stamp fits into its buffer.
\<close>

section \<open>Help texts\<close>

text \<open>A list of lines as it is printed.\<close>

definition print_lines :: "string list \<Rightarrow> string" where
  "print_lines ls = concat (map (\<lambda>l. l @ [newline]) ls)"

definition server_usage :: "int \<Rightarrow> string \<Rightarrow> string list" where
  "server_usage default_level program_name =
     [''Usage: '' @ program_name @ '' [OPTIONS]'',
      ''Options:'',
      ''  -h, --help                 Display this help message'',
      ''  -a, --address IP           Server IP address (default: all interfaces)'',
      ''  -p, --port PORT            Server port (default: '' @ show_setting DEFAULT_PORT @ '')'',
      ''  -c, --max-clients NUM      Maximum number of clients (default: '' @ show_setting DEFAULT_MAX_CLIENTS @ '')'',
      ''  -w, --max-workers NUM      Maximum number of workers (default: '' @ show_setting DEFAULT_MAX_WORKERS @ '')'',
      ''  -j, --max-jobs NUM         Maximum number of jobs (default: '' @ show_setting DEFAULT_MAX_JOBS @ '')'',
      ''  -t, --job-timeout SECONDS  Job timeout in seconds (default: '' @ show_setting DEFAULT_JOB_TIMEOUT @ '')'',
      ''  -l, --log-level LEVEL      Log level (0-5, default: '' @ show_setting default_level @ '')'',
      ''                             0=TRACE, 1=DEBUG, 2=INFO, 3=WARNING, 4=ERROR, 5=FATAL'',
      ''  -f, --log-file FILE        Log file (default: stdout)'']"

definition worker_usage :: "int \<Rightarrow> string \<Rightarrow> string list" where
  "worker_usage default_level program_name =
     [''Usage: '' @ program_name @ '' [OPTIONS]'',
      ''Options:'',
      ''  -h, --help                   Display this help message'',
      ''  -s, --server-ip IP           Server IP address (default: '' @ DEFAULT_SERVER_IP @ '')'',
      ''  -p, --server-port PORT       Server port (default: '' @ show_setting DEFAULT_SERVER_PORT @ '')'',
      ''  -i, --worker-ip IP           Worker IP address (default: '' @ DEFAULT_WORKER_IP @ '')'',
      ''  -o, --worker-port PORT       Worker port (default: '' @ show_setting DEFAULT_WORKER_PORT @ '')'',
      ''  -j, --max-jobs NUM           Maximum concurrent jobs (default: '' @ show_setting DEFAULT_MAX_CONCURRENT_JOBS @ '')'',
      ''  -r, --reconnect-interval SEC Reconnect interval in seconds (default: '' @ show_setting DEFAULT_RECONNECT_INTERVAL @ '')'',
      ''  -b, --heartbeat-interval SEC Heartbeat interval in seconds (default: '' @ show_setting DEFAULT_HEARTBEAT_INTERVAL @ '')'',
      ''  -t, --job-types TYPES        Comma-separated list of supported job types'',
      ''                               (default: all types)'',
      ''  -l, --log-level LEVEL        Log level (0-5, default: '' @ show_setting default_level @ '')'',
      ''                               0=TRACE, 1=DEBUG, 2=INFO, 3=WARNING, 4=ERROR, 5=FATAL'',
      ''  -f, --log-file FILE          Log file (default: stdout)'']"

definition client_usage :: "string \<Rightarrow> string list" where
  "client_usage program_name =
     [''Usage: '' @ program_name @ '' [OPTIONS]'',
      ''Options:'',
      ''  -h, --help             Display this help message'',
      ''  -s, --server-ip IP     Server IP address (default: '' @ DEFAULT_CLIENT_SERVER_IP @ '')'',
      ''  -p, --server-port PORT Server port (default: '' @ show_setting DEFAULT_CLIENT_SERVER_PORT @ '')'',
      ''  -j, --job-type TYPE    Job type to submit (required)'',
      ''  -d, --data DATA        Input data for job (optional)'',
      ''  -f, --file FILE        File containing input data (optional)'',
      ''  -w, --wait             Wait for job completion'',
      ''  -t, --timeout SEC      Timeout in seconds when waiting (default: 30)'',
      ''  -l, --log-level LEVEL  Log level (0-5, default: '' @ show_setting DEFAULT_LOG_LEVEL @ '')'',
      ''                         0=TRACE, 1=DEBUG, 2=INFO, 3=WARNING, 4=ERROR, 5=FATAL'',
      ''  -o, --log-file FILE    Log file (default: stdout)'']"

text \<open>The option a line describes: its letter and its name, if the line begins like one.\<close>

definition described :: "string \<Rightarrow> (char \<times> string) option" where
  "described line =
     (if take 3 line = ''  -'' \<and> take 4 (drop 4 line) = '', --'' then Some (line ! 3, takeWhile (\<lambda>c. c \<noteq> CHR '' '') (drop 8 line)) else None)"

definition in_table :: "long_option list \<Rightarrow> (char \<times> string) list" where
  "in_table los = map (\<lambda>l. (lo_val l, lo_name l)) los"

text \<open>Each help text describes exactly the options of its table, in its order, whatever the name of the program and the default level are.\<close>

theorem help_texts_describe_options:
  "List.map_filter described (server_usage level name) = in_table server_long_options \<and>
   List.map_filter described (worker_usage level name) = in_table worker_long_options \<and>
   List.map_filter described (client_usage name) = in_table client_long_options"
  by (simp add: server_usage_def worker_usage_def client_usage_def in_table_def server_long_options_def worker_long_options_def
      client_long_options_def described_def List.map_filter_def)

section \<open>Time stamps\<close>

text \<open>The format \<open>%Y-%m-%d %H:%M:%S\<close> of \<open>strftime\<close>.\<close>

definition stamp :: "tm \<Rightarrow> string" where
  "stamp t = show_nat (nat (tm_year t + 1900)) @ ''-'' @ show_padded 2 (tm_mon t + 1) @ ''-'' @ show_padded 2 (tm_mday t) @ '' '' @
     show_padded 2 (tm_hour t) @ '':'' @ show_padded 2 (tm_min t) @ '':'' @ show_padded 2 (tm_sec t)"

text \<open>\<^const>\<open>None\<close>: it does not fit with its terminator, and the buffer is indeterminate.\<close>

definition get_time_str :: "nat \<Rightarrow> tm \<Rightarrow> string option" where
  "get_time_str n t = (if length (stamp t) < n then Some (stamp t) else None)"

definition get_timestamp_str :: "nat \<Rightarrow> tm \<Rightarrow> string option" where
  "get_timestamp_str n t = (if length (stamp t) < n then Some (stamp t) else None)"

text \<open>What \<open>localtime\<close> fills in.\<close>

definition broken_down :: "tm \<Rightarrow> bool" where
  "broken_down t \<longleftrightarrow> 0 \<le> tm_sec t \<and> tm_sec t \<le> 60 \<and> 0 \<le> tm_min t \<and> tm_min t < 60 \<and> 0 \<le> tm_hour t \<and> tm_hour t < 24 \<and>
     1 \<le> tm_mday t \<and> tm_mday t \<le> 31 \<and> 0 \<le> tm_mon t \<and> tm_mon t < 12"

lemma length_show_padded:
  assumes "0 \<le> i" and "i < 100"
  shows "length (show_padded 2 i) \<le> 2"
proof -
  have "length (show_nat (nat i)) \<le> 2" using length_show_nat[of "nat i" 1] assms by (simp add: nat_less_iff)
  then show ?thesis using assms by (simp add: show_padded_def Let_def)
qed

lemma length_stamp:
  assumes "broken_down t" and "- 1900 \<le> tm_year t" and "tm_year t < 8100"
  shows "length (stamp t) \<le> 19"
proof -
  have "length (show_nat (nat (tm_year t + 1900))) \<le> 4"
    using length_show_nat[of "nat (tm_year t + 1900)" 3] assms by simp
  moreover have "length (show_padded 2 (tm_mon t + 1)) \<le> 2" "length (show_padded 2 (tm_mday t)) \<le> 2"
      "length (show_padded 2 (tm_hour t)) \<le> 2" "length (show_padded 2 (tm_min t)) \<le> 2" "length (show_padded 2 (tm_sec t)) \<le> 2"
    using assms(1) by (auto simp: broken_down_def intro!: length_show_padded)
  ultimately show ?thesis by (simp add: stamp_def)
qed

text \<open>Until the end of the year 9999, a buffer of twenty characters is enough for both functions.\<close>

theorem stamp_fits:
  assumes "broken_down t" and "- 1900 \<le> tm_year t" and "tm_year t < 8100" and "20 \<le> n"
  shows "get_time_str n t = Some (stamp t) \<and> get_timestamp_str n t = Some (stamp t)"
  using length_stamp[OF assms(1-3)] assms(4) by (simp add: get_time_str_def get_timestamp_str_def)

end
