(* ===== verification/Spec2Isabelle.thy ===== *)
theory Spec2Isabelle
  imports Worker_Server Dispatch_Sections Heartbeat_Client IP_Filter App_Client Common_Utils Analyzer_Functions Bin2arr
    Server_Main Worker_Main Client_Main Sysinfo Heartbeat_Double Image_Array Job_Memory Job_Server_Threads System_Mains Texts
begin

text \<open>
  \<^bold>\<open>A verification of the C programs of the repository.\<close>

  The repository collects small C programs. The largest, under \<open>src/distributed_worker_system\<close>, distributes work to worker
  processes over TCP and exists in two generations that share the library under \<open>lib/\<close>:

  \<^item> the \<^emph>\<open>central server\<close> (\<open>central_server/\<close>, built by the Makefile) with its workers (\<open>worker_server/\<close>): a registry of
    connected workers, a task manager with a queue of pending tasks, one handler thread per connection and a thread that
    checks for timeouts;
  \<^item> the \<^emph>\<open>job server\<close> (\<open>server/\<close>) with its workers (\<open>worker/\<close>) and clients (\<open>client/\<close>): a job handler, a worker
    manager, and a server that dispatches messages between them.

  Beside it there are a heartbeat server with its client, a statistics server with an address filter, a network traffic analyser, a converter from
  files to C arrays and a tool that prints system information. They share no code; the heartbeat client reports to the heartbeat
  server, and the test client talks to the statistics server.

  \<^bold>\<open>Shared theories.\<close>

  \<^item> \<open>Prelude\<close>: machine types, undefined behaviour as \<^const>\<open>None\<close>, scans over arrays, generic lemmas.
  \<^item> \<open>C_Strings\<close>: what the programs use of the C library on strings and text files. \<open>Command_Line\<close>: GNU \<open>getopt_long\<close>, and the locale
    \<open>option_program\<close> for a program that hands its options to a \<open>switch\<close>; the three main programs interpret it.
  \<^item> \<open>Plain_Mutex\<close>: critical sections under a mutex that its holder cannot take again; interpreted by the logger and the
    statistics server.
  \<^item> \<open>Keyed_Table\<close>, \<open>Slot_Table\<close>: the contract of an update of the entry with an identifier, and the scheme of identifiers and
    slots; the registry and the task manager interpret the first, the job handler and the worker manager the second.
  \<^item> \<open>Connection_Owner\<close>: the contract of a program that owns one connection; the client library and the worker interpret it.

  \<^bold>\<open>The distributed worker system.\<close>

  \<^item> \<open>Ring_Buffer\<close> (\<open>lib/src/ring_buffer.c\<close>): the record has the C fields, indices are 32-bit words. A call is a sequence of critical
    sections (\<open>push_enter\<close>, \<open>push_wake\<close>, \<open>pop_enter\<close>, \<open>pop_wake\<close>); callers interleave by \<open>rb_step\<close>. Shown: under every
    interleaving it is a bounded queue that loses, duplicates and reorders nothing.
  \<^item> \<open>Net_Protocol\<close> (\<open>protocol.h\<close>, \<open>protocol.c\<close>, \<open>net_utils.c\<close>): messages as bytes, with the byte order of the host as a parameter;
    the outcomes of \<open>write\<close> and \<open>read\<close> are arguments. Shown: messages survive any fragmentation between hosts of the same byte order.
  \<^item> \<open>Worker_Registry\<close>, \<open>Task_Manager\<close>, \<open>Central_Server\<close> (\<open>central_server/*.c\<close>): every function, the bodies of the threads, and
    their interleaving \<open>cs_step\<close>, in which a step is one iteration of a thread's loop. \<open>Dispatch_Sections\<close> splits
    dispatching a task into its locked sections; races inside the other handlers are not represented.
    Shown: the registry refines a list; tasks are handed out once and in order; but results are never processed, registrations never
    accepted, and a worker that leaves can make a task go to the wrong worker.
  \<^item> \<open>Worker_Server\<close> (\<open>worker_server.c\<close>): its two threads over the shared socket and mutex (\<open>ws_step\<close>). Shown: a worker that waits for its
    server is silent. \<open>System_Mains\<close>: the main programs of the central server and its workers, from arguments to exit code. Shown: connections are
    closed or handed to one thread, and sockets are closed when the programs end.
  \<^item> \<open>Job_Handler\<close>, \<open>Worker_Manager\<close>, \<open>Job_Server\<close> (\<open>server/*.c\<close>): every function. The header \<open>common/protocol.h\<close> these files include is
    empty in the repository, so the macros it would define (\<open>MAX_JOB_RETRIES\<close>, \<open>MAX_JOB_TYPES\<close>, message and error codes) are
    parameters or symbolic, and messages are the fields the code reads and writes. Shown: the statistics equal the number of
    jobs and workers in each state under conditions stated exactly; jobs are assigned oldest first and retried a bounded number of times;
    results are returned as delivered; finished jobs are final. \<open>Job_Memory\<close> is the job handler again, down to the allocated copies of inputs and
    results: it refines the abstract one, no block is lost, freed twice or used after it was freed, but the input of a job that is being sent can be freed by
    cleaning up. \<open>Job_Server_Threads\<close>: the accept thread and the connection threads as wholes: the latter are undefined as written, and but for that each accepted socket is closed once.
  \<^item> \<open>Client\<close>, \<open>Job_Worker\<close> (\<open>client/client.c\<close>, \<open>worker/worker.c\<close>): every function. Shown: what is submitted is what a server receives,
    waiting ends, every job is reported and counted once, and a job travels from the client through a worker back to the client.
  \<^item> \<open>Server_Main\<close>, \<open>Worker_Main\<close>, \<open>Client_Main\<close> (the three main programs): options, loops, output and end. Shown: accepted command lines give
    configurations in range, and a configuration survives being written out; after each round of the server's loop nothing is overdue;
    the programs end with their sockets closed; a client prints what a server sent, and hangs in the logger at the default level.
  \<^item> \<open>Logger\<close>, \<open>Common_Utils\<close> (\<open>lib/src/logger.c\<close>, \<open>common/common.c\<close>). Shown: what is logged where, and that
    closing the logger can block; when identifiers repeat. \<open>Texts\<close>: the help texts of the three main programs and the time stamps. Shown: each help
    text describes the options of its program, all of them and no other; a stamp fits its buffer until the year 9999.

  \<^bold>\<open>The other programs.\<close>

  \<^item> \<open>Heartbeat_Server\<close>, \<open>Heartbeat_Original\<close>, \<open>Heartbeat_Memory\<close>, \<open>Heartbeat_Double\<close>, \<open>Heartbeat_Client\<close> (\<open>heartbeat_server.c\<close>,
    \<open>heartbeat_server_original.c\<close>, \<open>main.c\<close>, \<open>heartbeat_server_test_impl.c\<close>, \<open>heartbeat_client.c\<close>). Shown: only reports in range are stored, at most a hundred; the
    original server is equivalent but for the requests that crash it; its linked list refines the history without leaks or dangling pointers, and
    its decoding stays within its buffers; the copy for the tests is the original, but leaves addresses unterminated in records that were not set to zeros; every
    report of the client is refused.
  \<^item> \<open>IP_Filter\<close>, \<open>Stats_Server\<close>, \<open>App_Client\<close> (\<open>c-client-server-app/src\<close>). Shown: what is loaded and found; what is accounted and
    saved; the first message blocks the server, so its client waits for ever.
  \<^item> \<open>Traffic_Analyzer\<close>, \<open>Analyzer_Functions\<close> (\<open>NetTrafficAnalyzer/\<close>). Shown: the daily report by calendar days, where days have 24 hours;
    compaction; the configuration file.
  \<^item> \<open>Bin2arr\<close>, \<open>Image_Array\<close> (\<open>bin2arr/\<close>). Shown: the bytes of a generated array are the bytes of the input, and extracting it gives them back; the
    array of the repository has the announced size, and its extraction and regeneration is the identity.
  \<^item> \<open>Sysinfo\<close> (\<open>sysinfo.c\<close>). Shown: responses are collected however they arrive, fields of flat JSON objects are read back, sizes are
    rounded correctly and fit into their buffers.

  \<^bold>\<open>Conventions.\<close> A pointer that may be \<open>NULL\<close> is an option. What the environment decides (allocation, clocks, sockets, sends, libcurl,
  the JSON libraries) is an argument of the function that asks for it; laws a theorem needs of a library are its hypotheses
  (for cJSON \<open>cjson_ok\<close>), with an instance in the theorem's witness. A lock that is held for the
  whole body of a function makes that body one step; where a function releases its lock and takes it again, its sections are separate
  definitions. Where C leaves the behaviour undefined (reading past an object, signed overflow that
  nothing excludes) the result is \<^const>\<open>None\<close> or \<open>Undefined\<close>. \<open>double\<close> is a rational number, an infinity or NaN; only \<open>Sysinfo\<close>
  models rounding.

  \<^bold>\<open>Bounds and fuel.\<close> No fuel is used: loops over arrays and files are recursion over lists or have a measure, loops that wait for the outside
  consume a list of what happens (reads, polls, rounds), and loops of threads are step relations. A list that ends before the
  loop does is an outcome of its own (\<open>StillPolling\<close>, a \<^const>\<open>None\<close> in \<open>client_wait_for_job\<close>), and the theorem on waiting shows
  how long the list must be.

  \<^bold>\<open>Not modelled.\<close> The contents of log messages other than through the two loggers. \<open>generate_hourly_report\<close>, in which its file ends, and the analyser's demonstration programs, whose
  functions \<open>add_connection\<close>, \<open>export_csv\<close> and \<open>free_report\<close> are missing, as is the threshold \<open>main.c\<close> there uses. The tests and the vendored Unity framework.
\<close>

end
